(* ===== verification/Prelude.thy ===== *)
theory Prelude
  imports Main
begin

text \<open>
  Shared vocabulary of the development: HTTP errors as values, the state-and-error
  computations the services are translated into, the invariant calculus \<open>keeps\<close> for
  them, JavaScript's string helpers, and small facts on lists that several components use.

  A service method becomes a function \<open>'s \<Rightarrow> (http_error + 'a) \<times> 's\<close>: it returns the
  thrown exception (\<open>Inl\<close>) or the returned value (\<open>Inr\<close>) together with the state of the
  tables it touched. A throw does not undo earlier writes, as the code runs its statements
  outside a transaction unless it says otherwise.

  Strings are character lists. Case mapping is the ASCII part of \<open>toLowerCase\<close> and
  \<open>toUpperCase\<close>; \<open>length\<close> counts characters. Times are milliseconds; the clock
  reading a method takes (\<open>Date.now()\<close>, \<open>NOW(3)\<close>) is an argument.
\<close>

section \<open>Errors and computations\<close>

datatype http_error =
    BadRequest string
  | Unauthorized string
  | Forbidden string
  | NotFound string
  | Conflict string
  | Unavailable string
  | ServerError string

type_synonym 'a res = "http_error + 'a"
type_synonym ('s, 'a) act = "'s \<Rightarrow> 'a res \<times> 's"

named_theorems act_simps \<open>evaluation of computations\<close>
named_theorems keeps_intros \<open>introduction rules of the invariant calculus\<close>

definition ret :: "'a \<Rightarrow> ('s, 'a) act" where
  "ret x s = (Inr x, s)"

definition raise :: "http_error \<Rightarrow> ('s, 'a) act" where
  "raise e s = (Inl e, s)"

definition bindE :: "('s, 'a) act \<Rightarrow> ('a \<Rightarrow> ('s, 'b) act) \<Rightarrow> ('s, 'b) act" where
  "bindE m f s = (case m s of (Inl e, s') \<Rightarrow> (Inl e, s') | (Inr x, s') \<Rightarrow> f x s')"

definition reads :: "('s \<Rightarrow> 'a) \<Rightarrow> ('s, 'a) act" where
  "reads f s = (Inr (f s), s)"

definition writes :: "('s \<Rightarrow> 's) \<Rightarrow> ('s, unit) act" where
  "writes f s = (Inr (), f s)"

definition guard :: "bool \<Rightarrow> http_error \<Rightarrow> ('s, unit) act" where
  "guard b e s = (if b then (Inr (), s) else (Inl e, s))"

definition of_res :: "'a res \<Rightarrow> ('s, 'a) act" where
  "of_res r s = (r, s)"

definition catchE :: "('s, 'a) act \<Rightarrow> (http_error \<Rightarrow> ('s, 'a) act) \<Rightarrow> ('s, 'a) act" where
  "catchE m h s = (case m s of (Inl e, s') \<Rightarrow> h e s' | (Inr x, s') \<Rightarrow> (Inr x, s'))"

fun forE :: "'x list \<Rightarrow> ('x \<Rightarrow> ('s, unit) act) \<Rightarrow> ('s, unit) act" where
  "forE [] f = ret ()"
| "forE (x # xs) f = bindE (f x) (\<lambda>_. forE xs f)"

lemma ret_eval [act_simps]: "ret x s = (Inr x, s)" by (simp add: ret_def)
lemma raise_eval [act_simps]: "raise e s = (Inl e, s)" by (simp add: raise_def)
lemma reads_eval [act_simps]: "reads f s = (Inr (f s), s)" by (simp add: reads_def)
lemma writes_eval [act_simps]: "writes f s = (Inr (), f s)" by (simp add: writes_def)
lemma of_res_eval [act_simps]: "of_res r s = (r, s)" by (simp add: of_res_def)

lemma guard_eval [act_simps]: "guard b e s = (if b then (Inr (), s) else (Inl e, s))"
  by (simp add: guard_def)

lemma bindE_eval [act_simps]:
  "bindE m f s = (case m s of (Inl e, s') \<Rightarrow> (Inl e, s') | (Inr x, s') \<Rightarrow> f x s')"
  by (simp add: bindE_def)

lemma catchE_eval [act_simps]:
  "catchE m h s = (case m s of (Inl e, s') \<Rightarrow> h e s' | (Inr x, s') \<Rightarrow> (Inr x, s'))"
  by (simp add: catchE_def)

lemma bindE_InrE:
  assumes "bindE m f s = (Inr y, t)"
  obtains x s' where "m s = (Inr x, s')" and "f x s' = (Inr y, t)"
  using assms by (auto simp: bindE_def split: prod.splits sum.splits)

lemma guard_InrD: "guard b e s = (Inr u, t) \<Longrightarrow> b \<and> t = s"
  by (simp add: guard_def split: if_splits)

section \<open>Invariants of computations\<close>

definition keeps :: "('s \<Rightarrow> bool) \<Rightarrow> ('s, 'a) act \<Rightarrow> bool" where
  "keeps I m \<longleftrightarrow> (\<forall>s. I s \<longrightarrow> I (snd (m s)))"

lemma keepsD: "keeps I m \<Longrightarrow> I s \<Longrightarrow> m s = (r, t) \<Longrightarrow> I t"
  by (metis keeps_def snd_conv)

lemma keepsI: "(\<And>s. I s \<Longrightarrow> I (snd (m s))) \<Longrightarrow> keeps I m"
  by (simp add: keeps_def)

lemma keeps_ret [keeps_intros]: "keeps I (ret x)" by (simp add: keeps_def ret_def)
lemma keeps_raise [keeps_intros]: "keeps I (raise e)" by (simp add: keeps_def raise_def)
lemma keeps_reads [keeps_intros]: "keeps I (reads f)" by (simp add: keeps_def reads_def)
lemma keeps_guard [keeps_intros]: "keeps I (guard b e)" by (simp add: keeps_def guard_def)
lemma keeps_of_res [keeps_intros]: "keeps I (of_res r)" by (simp add: keeps_def of_res_def)

lemma keeps_writes: "(\<And>s. I s \<Longrightarrow> I (f s)) \<Longrightarrow> keeps I (writes f)"
  by (simp add: keeps_def writes_def)

lemma keeps_bindE [keeps_intros]: "keeps I m \<Longrightarrow> (\<And>x. keeps I (f x)) \<Longrightarrow> keeps I (bindE m f)"
  by (simp add: keeps_def bindE_def split: prod.splits sum.splits) (metis snd_conv)

lemma keeps_catchE [keeps_intros]: "keeps I m \<Longrightarrow> (\<And>e. keeps I (h e)) \<Longrightarrow> keeps I (catchE m h)"
  by (simp add: keeps_def catchE_def split: prod.splits sum.splits) (metis snd_conv)

lemma keeps_if [keeps_intros]: "keeps I m \<Longrightarrow> keeps I n \<Longrightarrow> keeps I (if b then m else n)"
  by simp

lemma keeps_option [keeps_intros]:
  "keeps I m \<Longrightarrow> (\<And>x. keeps I (f x)) \<Longrightarrow> keeps I (case z of None \<Rightarrow> m | Some x \<Rightarrow> f x)"
  by (cases z) simp_all

lemma keeps_prod [keeps_intros]: "(\<And>a b. keeps I (f a b)) \<Longrightarrow> keeps I (case z of (a, b) \<Rightarrow> f a b)"
  by (cases z) auto

lemma keeps_forE [keeps_intros]: "(\<And>x. keeps I (f x)) \<Longrightarrow> keeps I (forE xs f)"
  by (induction xs) (auto intro: keeps_intros)

text \<open>
  Partial knowledge between the steps of a computation: from states satisfying \<open>P\<close>, a
  returned value \<open>x\<close> comes with a state satisfying \<open>Q x\<close>, and a throw leaves a state
  satisfying \<open>R\<close>.
\<close>

definition triple :: "('s \<Rightarrow> bool) \<Rightarrow> ('s, 'a) act \<Rightarrow> ('a \<Rightarrow> 's \<Rightarrow> bool) \<Rightarrow> ('s \<Rightarrow> bool) \<Rightarrow> bool" where
  "triple P m Q R \<longleftrightarrow> (\<forall>s. P s \<longrightarrow> (case m s of (Inl e, t) \<Rightarrow> R t | (Inr x, t) \<Rightarrow> Q x t))"

lemma triple_bindE:
  "triple P m M R \<Longrightarrow> (\<And>x. triple (M x) (f x) Q R) \<Longrightarrow> triple P (bindE m f) Q R"
  by (fastforce simp: triple_def bindE_def split: prod.splits sum.splits)

lemma triple_guard: "triple P (guard b e) (\<lambda>u s. P s \<and> b) P"
  by (simp add: triple_def guard_def)

lemma triple_ret: "(\<And>s. P s \<Longrightarrow> Q x s) \<Longrightarrow> triple P (ret x) Q R"
  by (simp add: triple_def ret_def)

lemma triple_reads: "triple P (reads f) (\<lambda>x s. P s \<and> x = f s) R"
  by (simp add: triple_def reads_def)

lemma triple_writes: "(\<And>s. P s \<Longrightarrow> I (f s)) \<Longrightarrow> triple P (writes f) (\<lambda>_. I) I"
  by (simp add: triple_def writes_def)

lemma triple_keeps: "keeps I m \<Longrightarrow> triple I m (\<lambda>_. I) I"
  by (fastforce simp: triple_def keeps_def split: prod.splits sum.splits)

lemma keeps_triple: "triple I m (\<lambda>_. I) I \<Longrightarrow> keeps I m"
  by (rule keepsI) (drule triple_def [THEN iffD1, THEN spec], force split: prod.splits sum.splits)

lemma triple_weaken:
  "triple P' m Q' R' \<Longrightarrow> (\<And>s. P s \<Longrightarrow> P' s) \<Longrightarrow> (\<And>x s. Q' x s \<Longrightarrow> Q x s) \<Longrightarrow> (\<And>s. R' s \<Longrightarrow> R s)
     \<Longrightarrow> triple P m Q R"
  by (fastforce simp: triple_def split: prod.splits sum.splits)

lemma tripleD: "triple P m Q R \<Longrightarrow> P s \<Longrightarrow> m s = (Inr x, t) \<Longrightarrow> Q x t"
  by (fastforce simp: triple_def)

text \<open>A value a computation returns, when it only reads.\<close>

definition readonly :: "('s, 'a) act \<Rightarrow> bool" where
  "readonly m \<longleftrightarrow> (\<forall>s. snd (m s) = s)"

lemma readonly_keeps: "readonly m \<Longrightarrow> keeps I m"
  by (simp add: readonly_def keeps_def)

lemma readonlyD: "readonly m \<Longrightarrow> m s = (r, t) \<Longrightarrow> t = s"
  by (metis readonly_def snd_conv)

text \<open>
  A state machine given by its handlers: the states some sequence of calls reaches. A call
  that throws still counts, with the state it left behind.
\<close>

inductive reachable_by :: "('e \<Rightarrow> bool) \<Rightarrow> ('e \<Rightarrow> 's \<Rightarrow> 's) \<Rightarrow> 's \<Rightarrow> 's \<Rightarrow> bool"
  for legal step s0 where
  reach_start: "reachable_by legal step s0 s0"
| reach_step: "reachable_by legal step s0 s \<Longrightarrow> legal e \<Longrightarrow> reachable_by legal step s0 (step e s)"

abbreviation any_call :: "'e \<Rightarrow> bool" where "any_call \<equiv> (\<lambda>_. True)"

locale guarded_machine =
  fixes legal :: "'e \<Rightarrow> bool" and step :: "'e \<Rightarrow> 's \<Rightarrow> 's" and inv :: "'s \<Rightarrow> bool"
  assumes step_inv: "legal e \<Longrightarrow> inv s \<Longrightarrow> inv (step e s)"
begin

lemma reachable_inv: "reachable_by legal step s0 s \<Longrightarrow> inv s0 \<Longrightarrow> inv s"
  by (induction rule: reachable_by.induct) (auto intro: step_inv)

lemma fold_inv: "list_all legal es \<Longrightarrow> inv s \<Longrightarrow> inv (fold step es s)"
  by (induction es arbitrary: s) (auto intro: step_inv)

lemma fold_reachable: "list_all legal es \<Longrightarrow> reachable_by legal step s0 s \<Longrightarrow> reachable_by legal step s0 (fold step es s)"
  by (induction es arbitrary: s) (auto intro: reach_step)

end

section \<open>JavaScript strings and truthiness\<close>

definition ch_space :: "char \<Rightarrow> bool" where
  "ch_space c \<longleftrightarrow> c \<in> {CHR '' '', CHR 0x09, CHR 0x0A, CHR 0x0B, CHR 0x0C, CHR 0x0D}"

definition js_trim :: "string \<Rightarrow> string" where
  "js_trim s = rev (dropWhile ch_space (rev (dropWhile ch_space s)))"

definition ch_lower :: "char \<Rightarrow> char" where
  "ch_lower c = (let n = of_char c :: nat in if 65 \<le> n \<and> n \<le> 90 then char_of (n + 32) else c)"

definition ch_upper :: "char \<Rightarrow> char" where
  "ch_upper c = (let n = of_char c :: nat in if 97 \<le> n \<and> n \<le> 122 then char_of (n - 32) else c)"

abbreviation js_lower :: "string \<Rightarrow> string" where "js_lower \<equiv> map ch_lower"
abbreviation js_upper :: "string \<Rightarrow> string" where "js_upper \<equiv> map ch_upper"

fun starts_with :: "string \<Rightarrow> string \<Rightarrow> bool" where
  "starts_with s [] = True"
| "starts_with [] (p # ps) = False"
| "starts_with (c # s) (p # ps) = (c = p \<and> starts_with s ps)"

fun str_includes :: "string \<Rightarrow> string \<Rightarrow> bool" where
  "str_includes [] p = (p = [])"
| "str_includes (c # s) p = (starts_with (c # s) p \<or> str_includes s p)"

fun str_split :: "char \<Rightarrow> string \<Rightarrow> string list" where
  "str_split d [] = [[]]"
| "str_split d (c # s) =
     (if c = d then [] # str_split d s
      else case str_split d s of [] \<Rightarrow> [[c]] | w # ws \<Rightarrow> (c # w) # ws)"

fun str_join :: "string \<Rightarrow> string list \<Rightarrow> string" where
  "str_join sep [] = []"
| "str_join sep [w] = w"
| "str_join sep (w # ws) = w @ sep @ str_join sep ws"

fun digit_char :: "nat \<Rightarrow> char" where
  "digit_char n = char_of (48 + n mod 10)"

fun dec :: "nat \<Rightarrow> string" where
  "dec n = (if n < 10 then [digit_char n] else dec (n div 10) @ [digit_char n])"

declare dec.simps [simp del]

definition pad_start :: "nat \<Rightarrow> char \<Rightarrow> string \<Rightarrow> string" where
  "pad_start w c s = replicate (w - length s) c @ s"

text \<open>\<open>x || y\<close> on optional strings: \<open>undefined\<close>, \<open>null\<close> and the empty string are falsy.\<close>

definition truthy :: "string option \<Rightarrow> bool" where
  "truthy x \<longleftrightarrow> (case x of None \<Rightarrow> False | Some s \<Rightarrow> s \<noteq> [])"

definition or_str :: "string option \<Rightarrow> string \<Rightarrow> string" where
  "or_str x d = (case x of None \<Rightarrow> d | Some s \<Rightarrow> if s = [] then d else s)"

definition or_opt :: "string option \<Rightarrow> string option \<Rightarrow> string option" where
  "or_opt x y = (if truthy x then x else y)"

text \<open>\<open>x || null\<close>.\<close>

definition or_null :: "string option \<Rightarrow> string option" where
  "or_null x = (if truthy x then x else None)"

text \<open>\<open>x?.trim() || null\<close>.\<close>

definition trim_or_null :: "string option \<Rightarrow> string option" where
  "trim_or_null x = (case x of None \<Rightarrow> None
     | Some s \<Rightarrow> let t = js_trim s in if t = [] then None else Some t)"

lemma truthy_Some [simp]: "truthy (Some s) \<longleftrightarrow> s \<noteq> []" by (simp add: truthy_def)
lemma truthy_None [simp]: "\<not> truthy None" by (simp add: truthy_def)

lemma trim_or_null_truthy: "trim_or_null x = Some t \<Longrightarrow> t \<noteq> []"
  by (auto simp: trim_or_null_def Let_def split: option.splits if_splits)

lemma starts_with_iff: "starts_with s p \<longleftrightarrow> (\<exists>r. s = p @ r)"
  by (induction s p rule: starts_with.induct) auto

lemma starts_with_append [simp]: "starts_with (p @ r) p"
  by (auto simp: starts_with_iff)

lemma str_split_none: "d \<notin> set s \<Longrightarrow> str_split d s = [s]"
  by (induction s) auto

lemma str_split_at: "d \<notin> set s \<Longrightarrow> str_split d (s @ d # t) = s # str_split d t"
  by (induction s) auto

text \<open>A field of a request body: left out, \<open>null\<close>, or a string.\<close>

datatype patch = Absent | Nulled | Given string

fun patch_truthy :: "patch \<Rightarrow> bool" where
  "patch_truthy (Given s) = (s \<noteq> [])"
| "patch_truthy _ = False"

text \<open>The column after \<open>SET col = value\<close>; an absent field is not part of the statement.\<close>

fun patched :: "patch \<Rightarrow> string option \<Rightarrow> string option" where
  "patched Absent old = old"
| "patched Nulled old = None"
| "patched (Given s) old = Some s"

fun patched_str :: "patch \<Rightarrow> string \<Rightarrow> string" where
  "patched_str (Given s) old = s"
| "patched_str _ old = old"

fun patch_str :: "patch \<Rightarrow> string" where
  "patch_str (Given s) = s"
| "patch_str _ = []"

section \<open>Decimal numerals\<close>

lemma digit_char_inj: "digit_char m = digit_char n \<Longrightarrow> m mod 10 = n mod 10"
proof -
  assume "digit_char m = digit_char n"
  then have "of_char (digit_char m) = (of_char (digit_char n) :: nat)" by simp
  then have "take_bit 8 (48 + m mod 10) = take_bit 8 (48 + n mod 10)" by simp
  moreover have "48 + k mod 10 < 2 ^ 8" for k :: nat
    by (rule less_trans [of _ "48 + 10"]) simp_all
  ultimately show ?thesis by (simp add: take_bit_nat_eq_self)
qed

lemma dec_nonempty [simp]: "dec n \<noteq> []" "[] \<noteq> dec n"
  by (subst dec.simps, simp)+

lemma dec_last: "last (dec n) = digit_char n"
  by (subst dec.simps) simp

lemma dec_butlast: "butlast (dec n) = (if n < 10 then [] else dec (n div 10))"
  by (subst dec.simps) simp

lemma dec_inj: "dec m = dec n \<Longrightarrow> m = n"
proof (induction m arbitrary: n rule: less_induct)
  case (less m)
  from less.prems have l: "m mod 10 = n mod 10"
    using digit_char_inj dec_last by metis
  have b: "butlast (dec m) = butlast (dec n)" using less.prems by simp
  show ?case
  proof (cases "m < 10")
    case True
    with b have "n < 10" by (cases "n < 10") (simp_all add: dec_butlast [of n] dec_butlast [of m])
    with True l show ?thesis by simp
  next
    case False
    with b have n: "\<not> n < 10" by (cases "n < 10") (simp_all add: dec_butlast [of n] dec_butlast [of m])
    with False b have e: "dec (m div 10) = dec (n div 10)" by (simp add: dec_butlast)
    from False have "m div 10 < m" by simp
    with less.IH e have "m div 10 = n div 10" by blast
    with l show ?thesis by (metis div_mult_mod_eq)
  qed
qed

lemma digit_char_zero: "digit_char 0 = CHR ''0''"
  by code_simp

lemma digit_char_0: "digit_char n = CHR ''0'' \<longleftrightarrow> n mod 10 = 0"
proof
  assume "digit_char n = CHR ''0''"
  then have "digit_char n = digit_char 0" by (simp only: digit_char_zero)
  then have "n mod 10 = 0 mod 10" by (rule digit_char_inj)
  then show "n mod 10 = 0" by simp
next
  assume "n mod 10 = 0"
  then have "digit_char n = digit_char 0" by simp
  then show "digit_char n = CHR ''0''" by (simp only: digit_char_zero)
qed

lemma hd_dec_pos: "0 < n \<Longrightarrow> hd (dec n) \<noteq> CHR ''0''"
proof (induction n rule: less_induct)
  case (less n)
  show ?case
  proof (cases "n < 10")
    case True
    with less.prems have "n mod 10 \<noteq> 0" by simp
    with True show ?thesis by (subst dec.simps) (simp add: digit_char_0 del: digit_char.simps)
  next
    case False
    then have "0 < n div 10" "n div 10 < n" by auto
    then have "hd (dec (n div 10)) \<noteq> CHR ''0''" using less.IH by blast
    with False show ?thesis by (subst dec.simps) simp
  qed
qed

lemma dropWhile_pad: "0 < n \<Longrightarrow> dropWhile (\<lambda>c. c = CHR ''0'') (pad_start w (CHR ''0'') (dec n)) = dec n"
proof -
  assume "0 < n"
  then have h: "hd (dec n) \<noteq> CHR ''0''" by (rule hd_dec_pos)
  obtain c cs where d: "dec n = c # cs" by (cases "dec n") auto
  have "dropWhile (\<lambda>c. c = CHR ''0'') (replicate k (CHR ''0'') @ dec n) = dec n" for k
    using h d by (induction k) auto
  then show ?thesis by (simp add: pad_start_def)
qed

text \<open>Zero-padded positive numerals are distinct for distinct numbers.\<close>

lemma pad_dec_inj:
  "pad_start w (CHR ''0'') (dec m) = pad_start w (CHR ''0'') (dec n) \<Longrightarrow> 0 < m \<Longrightarrow> 0 < n \<Longrightarrow> m = n"
  using dropWhile_pad dec_inj by metis

section \<open>Lists\<close>

lemma find_SomeD: "find P xs = Some x \<Longrightarrow> x \<in> set xs \<and> P x"
  by (induction xs) (auto split: if_splits)

lemma find_map_upd:
  "\<lbrakk>find P xs = Some x; \<And>y. P (f y) = P y\<rbrakk> \<Longrightarrow> find P (map f xs) = Some (f x)"
  by (induction xs) (auto split: if_splits)

lemma find_None_iff_all: "find P xs = None \<longleftrightarrow> (\<forall>x \<in> set xs. \<not> P x)"
  by (induction xs) auto

end
