(* ===== verification/Principal.thy ===== *)
theory Principal
  imports Prelude
begin

text \<open>
  The authenticated caller as the guards and services see it (\<open>common/types/index.ts\<close>,
  \<open>CurrentUser\<close>), and the permission scopes attached to it. A scope's \<open>scopeValues\<close>
  column is a JSON text; \<open>scope_values\<close> is what parsing it gives, a list of strings, or
  \<open>None\<close> when it does not parse to an array.
\<close>

record perm_scope =
  scope_slug :: string
  scope_type :: string
  scope_values :: "string list option"

record principal =
  p_id :: string
  p_email :: string
  p_role :: string
  p_userType :: string
  p_companyId :: "string option"
  p_effective :: "string option"
  p_location :: "string option"
  p_slugs :: "string list"
  p_scopes :: "perm_scope list"

text \<open>The clock and the random identifiers a request draws.\<close>

record world =
  now :: int
  uuid :: "nat \<Rightarrow> string"

text \<open>\<open>user.role === 'SUPER_ADMIN' && !user.companyId\<close>: no tenant selected.\<close>

definition global_admin :: "principal \<Rightarrow> bool" where
  "global_admin u \<longleftrightarrow> p_role u = ''SUPER_ADMIN'' \<and> \<not> truthy (p_companyId u)"

end
