(* ===== verification/Sql_Where.thy ===== *)
theory Sql_Where
  imports Prelude
begin

text \<open>
  The query compiler of \<open>database/database.service.ts\<close>: \<open>buildWhereClauses\<close> turns the
  \<open>where\<close> object of a repository call into SQL conditions with placeholders and a list of
  values, and \<open>common/security/sql-identifier.ts\<close> quotes the column names.

  A JavaScript value is a \<open>jsv\<close> (a \<open>Date\<close> is its millisecond number: both reach the
  same branches). A compiled condition is a \<open>clause\<close>, one constructor per template string
  of the code, and \<open>render\<close> prints the template. Evaluation of the printed SQL is MySQL's:
  three-valued logic (\<open>None\<close> is NULL), an unknown column rejects the statement, and a
  placeholder takes the next value of the list. Comparison of strings is exact; the server's
  collation may identify more. mysql2 expands an array or object bound to a placeholder into
  text; such a statement counts as rejected here.
\<close>

section \<open>JavaScript values\<close>

datatype jsv =
    JUndef | JNull | JBool bool | JNum int | JStr string
  | JArr "jsv list" | JObj "(string \<times> jsv) list"

type_synonym jsobj = "(string \<times> jsv) list"

definition field :: "jsobj \<Rightarrow> string \<Rightarrow> jsv" where
  "field es k = (case map_of es k of None \<Rightarrow> JUndef | Some v \<Rightarrow> v)"

text \<open>A template literal's \<open>${value}\<close>.\<close>

fun js_text :: "jsv \<Rightarrow> string" where
  "js_text JUndef = ''undefined''"
| "js_text JNull = ''null''"
| "js_text (JBool b) = (if b then ''true'' else ''false'')"
| "js_text (JNum n) = (if n < 0 then ''-'' else '''') @ dec (nat \<bar>n\<bar>)"
| "js_text (JStr s) = s"
| "js_text (JArr xs) = str_join '','' (map (\<lambda>x. if x = JNull \<or> x = JUndef then [] else js_text x) xs)"
| "js_text (JObj es) = ''[object Object]''"

text \<open>A measure for recursion over values.\<close>

fun jsize :: "jsv \<Rightarrow> nat" where
  "jsize (JArr xs) = Suc (sum_list (map (\<lambda>x. Suc (jsize x)) xs))"
| "jsize (JObj es) = Suc (sum_list (map (\<lambda>(k, v). Suc (jsize v)) es))"
| "jsize _ = 1"

section \<open>Identifiers\<close>

definition ident_start :: "char \<Rightarrow> bool" where
  "ident_start c \<longleftrightarrow> (let n = of_char c :: nat in (65 \<le> n \<and> n \<le> 90) \<or> (97 \<le> n \<and> n \<le> 122) \<or> n = 95)"

definition ident_char :: "char \<Rightarrow> bool" where
  "ident_char c \<longleftrightarrow> ident_start c \<or> (let n = of_char c :: nat in 48 \<le> n \<and> n \<le> 57)"

fun sql_identifier :: "string \<Rightarrow> bool" where
  "sql_identifier [] = False"
| "sql_identifier (c # cs) = (ident_start c \<and> list_all ident_char cs)"

definition escape_sql_identifier :: "string \<Rightarrow> string res" where
  "escape_sql_identifier s =
     (if sql_identifier s then Inr (''`'' @ s @ ''`'')
      else Inl (BadRequest (''Invalid SQL identifier: '' @ s)))"

definition normalize_column :: "string \<Rightarrow> string \<Rightarrow> string" where
  "normalize_column table col =
     (if table = ''Permission'' \<and> col = ''group'' then ''grp'' else col)"

section \<open>The compiler\<close>

datatype exists_kind = ByTicket | ByCreator

datatype clause =
    CIsNull string | CLike string | CGe string | CLe string | CNotNull string | CNe string
  | CFalse | CIn string nat | CEq string
  | COr "clause list" | CExists exists_kind "clause list"

type_synonym compiled = "(clause list \<times> jsv list) res"

definition checked :: "string \<Rightarrow> clause list \<Rightarrow> jsv list \<Rightarrow> compiled" where
  "checked col cs vs = (case escape_sql_identifier col of Inl e \<Rightarrow> Inl e | Inr _ \<Rightarrow> Inr (cs, vs))"

definition build_column :: "string \<Rightarrow> jsv \<Rightarrow> jsv list \<Rightarrow> compiled" where
  "build_column c v vs =
     (case v of
        JNull \<Rightarrow> checked c [CIsNull c] vs
      | JObj ops \<Rightarrow>
          if field ops ''contains'' \<noteq> JUndef
            then checked c [CLike c] (vs @ [JStr (''%'' @ js_text (field ops ''contains'') @ ''%'')])
          else if field ops ''gte'' \<noteq> JUndef then checked c [CGe c] (vs @ [field ops ''gte''])
          else if field ops ''lte'' \<noteq> JUndef then checked c [CLe c] (vs @ [field ops ''lte''])
          else if field ops ''not'' \<noteq> JUndef then
            (if field ops ''not'' = JNull then checked c [CNotNull c] vs
             else checked c [CNe c] (vs @ [field ops ''not'']))
          else (case field ops ''in'' of
                  JArr xs \<Rightarrow> if xs = [] then Inr ([CFalse], vs)
                             else checked c [CIn c (length xs)] (vs @ xs)
                | _ \<Rightarrow> checked c [CEq c] (vs @ [v]))
      | _ \<Rightarrow> checked c [CEq c] (vs @ [v]))"

definition exists_key :: "string \<Rightarrow> string \<Rightarrow> exists_kind option" where
  "exists_key table key =
     (if table = ''TicketTimeline'' \<and> key = ''ticket'' then Some ByTicket
      else if table = ''Ticket'' \<and> key = ''createdBy'' then Some ByCreator else None)"

fun exists_table :: "exists_kind \<Rightarrow> string" where
  "exists_table ByTicket = ''Ticket''"
| "exists_table ByCreator = ''User''"

function (sequential) build_where :: "string \<Rightarrow> jsobj \<Rightarrow> jsv list \<Rightarrow> compiled"
  and build_entry :: "string \<Rightarrow> string \<Rightarrow> jsv \<Rightarrow> jsv list \<Rightarrow> compiled"
  and build_or :: "string \<Rightarrow> jsv list \<Rightarrow> jsv list \<Rightarrow> compiled" where
  "build_where table [] vs = Inr ([], vs)"
| "build_where table ((k, v) # es) vs =
     (case build_entry table k v vs of
        Inl e \<Rightarrow> Inl e
      | Inr (cs, vs') \<Rightarrow> (case build_where table es vs' of
                            Inl e \<Rightarrow> Inl e
                          | Inr (ds, vs'') \<Rightarrow> Inr (cs @ ds, vs'')))"
| "build_entry table k (JArr conds) vs =
     (if k = ''OR'' then
        (case build_or table conds vs of
           Inl e \<Rightarrow> Inl e
         | Inr (cs, vs') \<Rightarrow> Inr (if cs = [] then [] else [COr cs], vs'))
      else (case exists_key table k of
              Some kind \<Rightarrow> if conds = [] then Inr ([CExists kind []], vs)
                           else Inl (BadRequest ''Invalid SQL identifier: 0'')
            | None \<Rightarrow> build_column (normalize_column table k) (JArr conds) vs))"
| "build_entry table k (JObj ops) vs =
     (case exists_key table k of
        Some kind \<Rightarrow>
          (case build_where (exists_table kind) ops [] of
             Inl e \<Rightarrow> Inl e
           | Inr (cs, ws) \<Rightarrow> Inr ([CExists kind cs], vs @ ws))
      | None \<Rightarrow> build_column (normalize_column table k) (JObj ops) vs)"
| "build_entry table k v vs = build_column (normalize_column table k) v vs"
| "build_or table [] vs = Inr ([], vs)"
| "build_or table (JObj es # conds) vs =
     (case build_where table es vs of
        Inl e \<Rightarrow> Inl e
      | Inr (cs, vs') \<Rightarrow> (case build_or table conds vs' of
                            Inl e \<Rightarrow> Inl e
                          | Inr (ds, vs'') \<Rightarrow> Inr (cs @ ds, vs'')))"
| "build_or table (_ # conds) vs = Inl (ServerError ''a condition of OR is not an object'')"
  by pat_completeness auto

termination
  by (relation "measure (case_sum (\<lambda>(t, es, vs). Suc (sum_list (map (\<lambda>(k, v). Suc (jsize v)) es)))
        (case_sum (\<lambda>(t, k, v, vs). Suc (jsize v))
                  (\<lambda>(t, xs, vs). Suc (sum_list (map (\<lambda>x. Suc (jsize x)) xs)))))") auto

section \<open>The SQL text\<close>

definition col_text :: "string \<Rightarrow> string" where
  "col_text c = ''`'' @ c @ ''`''"

fun render :: "clause \<Rightarrow> string" where
  "render (CIsNull c) = col_text c @ '' IS NULL''"
| "render (CLike c) = col_text c @ '' LIKE ?''"
| "render (CGe c) = col_text c @ '' >= ?''"
| "render (CLe c) = col_text c @ '' <= ?''"
| "render (CNotNull c) = col_text c @ '' IS NOT NULL''"
| "render (CNe c) = col_text c @ '' <> ?''"
| "render CFalse = ''1 = 0''"
| "render (CIn c n) = col_text c @ '' IN ('' @ str_join '', '' (replicate n ''?'') @ '')''"
| "render (CEq c) = col_text c @ '' = ?''"
| "render (COr cs) = ''('' @ str_join '' OR '' (map render cs) @ '')''"
| "render (CExists ByTicket cs) =
     ''EXISTS (SELECT 1 FROM Ticket WHERE Ticket.id = TicketTimeline.ticketId AND ''
       @ str_join '' AND '' (map render cs) @ '')''"
| "render (CExists ByCreator cs) =
     ''EXISTS (SELECT 1 FROM User WHERE User.id = Ticket.createdById AND ''
       @ str_join '' AND '' (map render cs) @ '')''"

definition where_text :: "clause list \<Rightarrow> string" where
  "where_text cs = str_join '' AND '' (map render cs)"

section \<open>Evaluation\<close>

datatype sqlv = SNull | SInt int | SStr string

type_synonym row = "string \<Rightarrow> sqlv"

record dbase =
  columns :: "string \<Rightarrow> string list"
  rows :: "string \<Rightarrow> row list"

type_synonym env = "(string \<times> row) list"

fun and3 :: "bool option \<Rightarrow> bool option \<Rightarrow> bool option" where
  "and3 (Some False) b = Some False"
| "and3 a (Some False) = Some False"
| "and3 (Some True) (Some True) = Some True"
| "and3 a b = None"

fun or3 :: "bool option \<Rightarrow> bool option \<Rightarrow> bool option" where
  "or3 (Some True) b = Some True"
| "or3 a (Some True) = Some True"
| "or3 (Some False) (Some False) = Some False"
| "or3 a b = None"

definition conj3 :: "bool option list \<Rightarrow> bool option" where
  "conj3 bs = foldr and3 bs (Some True)"

definition disj3 :: "bool option list \<Rightarrow> bool option" where
  "disj3 bs = foldr or3 bs (Some False)"

text \<open>The value a placeholder binds; arrays and objects are no scalars.\<close>

fun bind_param :: "jsv \<Rightarrow> sqlv option" where
  "bind_param JUndef = Some SNull"
| "bind_param JNull = Some SNull"
| "bind_param (JBool b) = Some (SInt (if b then 1 else 0))"
| "bind_param (JNum n) = Some (SInt n)"
| "bind_param (JStr s) = Some (SStr s)"
| "bind_param _ = None"

definition bound :: "jsv \<Rightarrow> sqlv" where
  "bound v = (case bind_param v of None \<Rightarrow> SNull | Some x \<Rightarrow> x)"

definition sql_eq :: "sqlv \<Rightarrow> sqlv \<Rightarrow> bool option" where
  "sql_eq a b = (if a = SNull \<or> b = SNull then None else Some (a = b))"

fun sql_le :: "sqlv \<Rightarrow> sqlv \<Rightarrow> bool option" where
  "sql_le (SInt a) (SInt b) = Some (a \<le> b)"
| "sql_le _ _ = None"

text \<open>\<open>LIKE\<close>: \<open>%\<close> any text, \<open>_\<close> one character, backslash quotes the next.\<close>

fun like_match :: "string \<Rightarrow> string \<Rightarrow> bool" where
  "like_match [] s = (s = [])"
| "like_match (p # ps) [] = (p = CHR ''%'' \<and> like_match ps [])"
| "like_match (p # ps) (c # s) =
     (if p = CHR ''%'' then like_match ps (c # s) \<or> like_match (p # ps) s
      else if p = CHR ''_'' then like_match ps s
      else if of_char p = (92 :: nat) then
        (case ps of [] \<Rightarrow> c = p \<and> s = [] | q # qs \<Rightarrow> c = q \<and> like_match qs s)
      else c = p \<and> like_match ps s)"

fun sql_like :: "sqlv \<Rightarrow> sqlv \<Rightarrow> bool option" where
  "sql_like (SStr s) (SStr p) = Some (like_match p s)"
| "sql_like _ _ = None"

definition not3 :: "bool option \<Rightarrow> bool option" where
  "not3 b = map_option Not b"

fun lookup_col :: "dbase \<Rightarrow> env \<Rightarrow> string \<Rightarrow> sqlv" where
  "lookup_col db [] c = SNull"
| "lookup_col db ((t, r) # en) c = (if c \<in> set (columns db t) then r c else lookup_col db en c)"

fun join_column :: "exists_kind \<Rightarrow> string" where
  "join_column ByTicket = ''ticketId''"
| "join_column ByCreator = ''createdById''"

definition joined :: "exists_kind \<Rightarrow> env \<Rightarrow> row \<Rightarrow> bool" where
  "joined kind en r = (case en of [] \<Rightarrow> False
     | (t, outer) # _ \<Rightarrow> sql_eq (r ''id'') (outer (join_column kind)) = Some True)"

fun nparams :: "clause \<Rightarrow> nat" where
  "nparams (CIsNull c) = 0"
| "nparams (CNotNull c) = 0"
| "nparams CFalse = 0"
| "nparams (CIn c n) = n"
| "nparams (COr cs) = sum_list (map nparams cs)"
| "nparams (CExists kind cs) = sum_list (map nparams cs)"
| "nparams _ = 1"

definition nparams_list :: "clause list \<Rightarrow> nat" where
  "nparams_list cs = sum_list (map nparams cs)"

fun nth_param :: "jsv list \<Rightarrow> sqlv" where
  "nth_param [] = SNull"
| "nth_param (p # ps) = bound p"

fun eval_clause :: "dbase \<Rightarrow> env \<Rightarrow> clause \<Rightarrow> jsv list \<Rightarrow> bool option"
  and eval_clauses :: "dbase \<Rightarrow> env \<Rightarrow> clause list \<Rightarrow> jsv list \<Rightarrow> bool option list" where
  "eval_clause db en (CIsNull c) ps = Some (lookup_col db en c = SNull)"
| "eval_clause db en (CNotNull c) ps = Some (lookup_col db en c \<noteq> SNull)"
| "eval_clause db en CFalse ps = Some False"
| "eval_clause db en (CLike c) ps = sql_like (lookup_col db en c) (nth_param ps)"
| "eval_clause db en (CGe c) ps = sql_le (nth_param ps) (lookup_col db en c)"
| "eval_clause db en (CLe c) ps = sql_le (lookup_col db en c) (nth_param ps)"
| "eval_clause db en (CNe c) ps = not3 (sql_eq (lookup_col db en c) (nth_param ps))"
| "eval_clause db en (CEq c) ps = sql_eq (lookup_col db en c) (nth_param ps)"
| "eval_clause db en (CIn c n) ps = disj3 (map (\<lambda>p. sql_eq (lookup_col db en c) (bound p)) ps)"
| "eval_clause db en (COr cs) ps = disj3 (eval_clauses db en cs ps)"
| "eval_clause db en (CExists kind cs) ps =
     Some (list_ex (\<lambda>r. joined kind en r
              \<and> conj3 (eval_clauses db ((exists_table kind, r) # en) cs ps) = Some True)
            (rows db (exists_table kind)))"
| "eval_clauses db en [] ps = []"
| "eval_clauses db en (c # cs) ps =
     eval_clause db en c (take (nparams c) ps) # eval_clauses db en cs (drop (nparams c) ps)"

text \<open>MySQL refuses a statement that names a column no table in scope has, or is malformed.\<close>

fun clause_ok :: "dbase \<Rightarrow> string list \<Rightarrow> clause \<Rightarrow> bool" where
  "clause_ok db ts CFalse = True"
| "clause_ok db ts (COr cs) = list_all (clause_ok db ts) cs"
| "clause_ok db ts (CExists kind cs) =
     (cs \<noteq> [] \<and> list_all (clause_ok db (exists_table kind # ts)) cs)"
| "clause_ok db ts (CIsNull c) = list_ex (\<lambda>t. c \<in> set (columns db t)) ts"
| "clause_ok db ts (CNotNull c) = list_ex (\<lambda>t. c \<in> set (columns db t)) ts"
| "clause_ok db ts (CLike c) = list_ex (\<lambda>t. c \<in> set (columns db t)) ts"
| "clause_ok db ts (CGe c) = list_ex (\<lambda>t. c \<in> set (columns db t)) ts"
| "clause_ok db ts (CLe c) = list_ex (\<lambda>t. c \<in> set (columns db t)) ts"
| "clause_ok db ts (CNe c) = list_ex (\<lambda>t. c \<in> set (columns db t)) ts"
| "clause_ok db ts (CIn c n) = list_ex (\<lambda>t. c \<in> set (columns db t)) ts"
| "clause_ok db ts (CEq c) = list_ex (\<lambda>t. c \<in> set (columns db t)) ts"

definition statement_ok :: "dbase \<Rightarrow> string \<Rightarrow> clause list \<Rightarrow> jsv list \<Rightarrow> bool" where
  "statement_ok db t cs ps \<longleftrightarrow>
     list_all (clause_ok db [t]) cs \<and> list_all (\<lambda>p. bind_param p \<noteq> None) ps"

text \<open>
  The rows a repository's \<open>SELECT ... WHERE\<close> returns, in storage order: the code joins the
  clauses with AND, and without any clause (\<open>WHERE\<close> followed by nothing) the statement is
  malformed.
\<close>

definition select_records :: "dbase \<Rightarrow> ('a \<Rightarrow> row) \<Rightarrow> string \<Rightarrow> 'a list \<Rightarrow> jsobj \<Rightarrow> 'a list res" where
  "select_records db f t xs es =
     (case build_where t es [] of
        Inl e \<Rightarrow> Inl e
      | Inr (cs, ps) \<Rightarrow>
          if cs = [] \<or> \<not> statement_ok db t cs ps then Inl (ServerError ''query rejected'')
          else Inr (filter (\<lambda>x. conj3 (eval_clauses db [(t, f x)] cs ps) = Some True) xs))"

definition select_where :: "dbase \<Rightarrow> string \<Rightarrow> jsobj \<Rightarrow> row list res" where
  "select_where db t es = select_records db (\<lambda>r. r) t (rows db t) es"

definition find_first_where :: "dbase \<Rightarrow> string \<Rightarrow> jsobj \<Rightarrow> row option res" where
  "find_first_where db t es =
     (case select_where db t es of
        Inl e \<Rightarrow> Inl e
      | Inr rs \<Rightarrow> Inr (case rs of [] \<Rightarrow> None | r # _ \<Rightarrow> Some r))"

text \<open>\<open>ticket.findMany\<close> and \<open>ticket.count\<close> leave the condition out when the object is empty.\<close>

definition find_many_where :: "dbase \<Rightarrow> string \<Rightarrow> jsobj \<Rightarrow> row list res" where
  "find_many_where db t es = (if es = [] then Inr (rows db t) else select_where db t es)"

definition count_where :: "dbase \<Rightarrow> string \<Rightarrow> jsobj \<Rightarrow> nat res" where
  "count_where db t es =
     (case find_many_where db t es of Inl e \<Rightarrow> Inl e | Inr rs \<Rightarrow> Inr (length rs))"

end
