(* ===== verification/Where_Correct.thy ===== *)
theory Where_Correct
  imports Sql_Where
begin

text \<open>
  What the query compiler computes, stated without placeholders: \<open>sem_where\<close> gives the
  truth values of the conditions a \<open>where\<close> object stands for in this code, \<open>intended\<close> the
  reading its callers (and the repository's own comments) assume, with \<open>AND\<close> arrays as
  conjunctions and each alternative of \<open>OR\<close> as the conjunction of its entries. The compiled
  statement always agrees with the first, and with the second on the fragment \<open>plain_where\<close>.
\<close>

section \<open>The meaning of a where object\<close>

definition sem_column :: "dbase \<Rightarrow> env \<Rightarrow> string \<Rightarrow> jsv \<Rightarrow> bool option" where
  "sem_column db en c v =
     (let x = lookup_col db en c in
      case v of
        JNull \<Rightarrow> Some (x = SNull)
      | JObj ops \<Rightarrow>
          if field ops ''contains'' \<noteq> JUndef
            then sql_like x (SStr (''%'' @ js_text (field ops ''contains'') @ ''%''))
          else if field ops ''gte'' \<noteq> JUndef then sql_le (bound (field ops ''gte'')) x
          else if field ops ''lte'' \<noteq> JUndef then sql_le x (bound (field ops ''lte''))
          else if field ops ''not'' \<noteq> JUndef then
            (if field ops ''not'' = JNull then Some (x \<noteq> SNull)
             else not3 (sql_eq x (bound (field ops ''not''))))
          else (case field ops ''in'' of
                  JArr xs \<Rightarrow> if xs = [] then Some False else disj3 (map (\<lambda>p. sql_eq x (bound p)) xs)
                | _ \<Rightarrow> sql_eq x (bound v))
      | _ \<Rightarrow> sql_eq x (bound v))"

function (sequential) sem_where :: "dbase \<Rightarrow> env \<Rightarrow> string \<Rightarrow> jsobj \<Rightarrow> bool option list"
  and sem_entry :: "dbase \<Rightarrow> env \<Rightarrow> string \<Rightarrow> string \<Rightarrow> jsv \<Rightarrow> bool option list"
  and sem_or :: "dbase \<Rightarrow> env \<Rightarrow> string \<Rightarrow> jsv list \<Rightarrow> bool option list" where
  "sem_where db en t [] = []"
| "sem_where db en t ((k, v) # es) = sem_entry db en t k v @ sem_where db en t es"
| "sem_entry db en t k (JArr conds) =
     (if k = ''OR'' then
        (let bs = sem_or db en t conds in if bs = [] then [] else [disj3 bs])
      else (case exists_key t k of
              Some kind \<Rightarrow> [Some (list_ex (\<lambda>r. joined kind en r) (rows db (exists_table kind)))]
            | None \<Rightarrow> [sem_column db en (normalize_column t k) (JArr conds)]))"
| "sem_entry db en t k (JObj ops) =
     (case exists_key t k of
        Some kind \<Rightarrow>
          [Some (list_ex (\<lambda>r. joined kind en r
                   \<and> conj3 (sem_where db ((exists_table kind, r) # en) (exists_table kind) ops) = Some True)
                 (rows db (exists_table kind)))]
      | None \<Rightarrow> [sem_column db en (normalize_column t k) (JObj ops)])"
| "sem_entry db en t k v = [sem_column db en (normalize_column t k) v]"
| "sem_or db en t [] = []"
| "sem_or db en t (JObj es # conds) = sem_where db en t es @ sem_or db en t conds"
| "sem_or db en t (_ # conds) = sem_or db en t conds"
  by pat_completeness auto

termination
  by (relation "measure (case_sum (\<lambda>(d, en, t, es). Suc (sum_list (map (\<lambda>(k, v). Suc (jsize v)) es)))
        (case_sum (\<lambda>(d, en, t, k, v). Suc (jsize v))
                  (\<lambda>(d, en, t, xs). Suc (sum_list (map (\<lambda>x. Suc (jsize x)) xs)))))") auto

section \<open>Placeholders and values line up\<close>

lemma nparams_list_simps [simp]:
  "nparams_list [] = 0"
  "nparams_list (c # cs) = nparams c + nparams_list cs"
  "nparams_list (cs @ ds) = nparams_list cs + nparams_list ds"
  by (simp_all add: nparams_list_def)

lemma nparams_groups [simp]: "sum_list (map nparams cs) = nparams_list cs"
  by (simp add: nparams_list_def)

lemma eval_clauses_append:
  "eval_clauses db en (cs @ ds) ps =
     eval_clauses db en cs (take (nparams_list cs) ps) @ eval_clauses db en ds (drop (nparams_list cs) ps)"
proof (induction cs arbitrary: ps)
  case (Cons c cs)
  then show ?case by (simp add: drop_take add.commute)
qed simp

lemma length_eval_clauses [simp]: "length (eval_clauses db en cs ps) = length cs"
  by (induction cs arbitrary: ps) auto

definition realises :: "(dbase \<Rightarrow> env \<Rightarrow> bool option list) \<Rightarrow> clause list \<Rightarrow> jsv list \<Rightarrow> bool" where
  "realises sem cs ps \<longleftrightarrow>
     length ps = nparams_list cs \<and> (\<forall>db en. eval_clauses db en cs ps = sem db en)"

lemma realises_Nil: "realises (\<lambda>db en. []) [] []"
  by (simp add: realises_def)

lemma realises_append:
  "realises f cs ps \<Longrightarrow> realises g ds qs \<Longrightarrow> realises (\<lambda>db en. f db en @ g db en) (cs @ ds) (ps @ qs)"
  by (simp add: realises_def eval_clauses_append)

lemma realises_single:
  "length ps = nparams c \<Longrightarrow> (\<And>db en. eval_clause db en c ps = f db en)
     \<Longrightarrow> realises (\<lambda>db en. [f db en]) [c] ps"
  by (simp add: realises_def)

lemma checked_Inr [simp]: "checked c cs vs = Inr r \<longleftrightarrow> sql_identifier c \<and> r = (cs, vs)"
  by (auto simp: checked_def escape_sql_identifier_def)

lemma build_column_realises:
  assumes "build_column c v vs = Inr (cs, ws)"
  shows "\<exists>ps. ws = vs @ ps \<and> realises (\<lambda>db en. [sem_column db en c v]) cs ps"
proof (cases v)
  case (JObj ops)
  show ?thesis
  proof (cases "field ops ''in''")
    case (JArr xs)
    with JObj assms show ?thesis
      by (auto simp: build_column_def sem_column_def realises_def bound_def split: if_splits)
  qed (use JObj assms in
      \<open>auto simp: build_column_def sem_column_def realises_def bound_def split: if_splits\<close>)
qed (use assms in \<open>auto simp: build_column_def sem_column_def realises_def\<close>)

text \<open>
  The compiler is correct: the values it appends are exactly those its placeholders consume,
  in order, and evaluating the statement with them gives the meaning of the object.
\<close>

lemma build_realises:
  "build_where t es vs = Inr (cs, ws) \<Longrightarrow>
     \<exists>ps. ws = vs @ ps \<and> realises (\<lambda>db en. sem_where db en t es) cs ps"
  "build_entry t k v vs = Inr (cs, ws) \<Longrightarrow>
     \<exists>ps. ws = vs @ ps \<and> realises (\<lambda>db en. sem_entry db en t k v) cs ps"
  "build_or t xs vs = Inr (cs, ws) \<Longrightarrow>
     \<exists>ps. ws = vs @ ps \<and> realises (\<lambda>db en. sem_or db en t xs) cs ps"
proof (induction t es vs and t k v vs and t xs vs arbitrary: cs ws and cs ws and cs ws
       rule: build_where_build_entry_build_or.induct)
  case (1 table vs)
  then show ?case by (simp add: realises_Nil)
next
  case (2 table k v es vs)
  from "2.prems" obtain c1 v1 c2 where
    a: "build_entry table k v vs = Inr (c1, v1)" and b: "build_where table es v1 = Inr (c2, ws)"
    and c: "cs = c1 @ c2"
    by (auto split: sum.splits prod.splits)
  from "2.IH"(1)[OF a] obtain p1 where p1: "v1 = vs @ p1" "realises (\<lambda>db en. sem_entry db en table k v) c1 p1" by blast
  from "2.IH"(2)[OF a refl b] obtain p2 where p2: "ws = v1 @ p2" "realises (\<lambda>db en. sem_where db en table es) c2 p2" by blast
  show ?case using realises_append[OF p1(2) p2(2)] p1(1) p2(1) c by auto
next
  case (3 table k conds vs)
  show ?case
  proof (cases "k = ''OR''")
    case True
    with "3.prems" obtain c1 where a: "build_or table conds vs = Inr (c1, ws)"
      and c: "cs = (if c1 = [] then [] else [COr c1])"
      by (auto split: sum.splits prod.splits)
    from "3.IH"[OF True a] obtain p where p: "ws = vs @ p" "realises (\<lambda>db en. sem_or db en table conds) c1 p" by blast
    have e: "sem_or db en table conds = [] \<longleftrightarrow> c1 = []" for db en
      using p(2) length_eval_clauses[of db en c1 p] unfolding realises_def by (metis length_0_conv)
    have "realises (\<lambda>db en. sem_entry db en table k (JArr conds)) cs p"
      using p(2) e True c by (auto simp: realises_def Let_def)
    with p(1) show ?thesis by blast
  next
    case False
    show ?thesis
    proof (cases "exists_key table k")
      case None
      with False "3.prems" have "build_column (normalize_column table k) (JArr conds) vs = Inr (cs, ws)" by simp
      from build_column_realises[OF this] show ?thesis using False None by simp
    next
      case (Some kind)
      with False "3.prems" have "cs = [CExists kind []]" "ws = vs" by (auto split: if_splits)
      then show ?thesis using False Some by (auto simp: realises_def conj3_def)
    qed
  qed
next
  case (4 table k ops vs)
  show ?case
  proof (cases "exists_key table k")
    case None
    with "4.prems" have "build_column (normalize_column table k) (JObj ops) vs = Inr (cs, ws)" by simp
    from build_column_realises[OF this] show ?thesis using None by simp
  next
    case (Some kind)
    with "4.prems" obtain c1 p1 where a: "build_where (exists_table kind) ops [] = Inr (c1, p1)"
      and c: "cs = [CExists kind c1]" "ws = vs @ p1"
      by (auto split: sum.splits prod.splits)
    from "4.IH"[OF Some a] have p: "realises (\<lambda>db en. sem_where db en (exists_table kind) ops) c1 p1" by auto
    then show ?thesis using c Some by (auto simp: realises_def)
  qed
next
  case (7 table es conds vs)
  from "7.prems" obtain c1 v1 c2 where
    a: "build_where table es vs = Inr (c1, v1)" and b: "build_or table conds v1 = Inr (c2, ws)"
    and c: "cs = c1 @ c2"
    by (auto split: sum.splits prod.splits)
  from "7.IH"(1)[OF a] obtain p1 where p1: "v1 = vs @ p1" "realises (\<lambda>db en. sem_where db en table es) c1 p1" by blast
  from "7.IH"(2)[OF a refl b] obtain p2 where p2: "ws = v1 @ p2" "realises (\<lambda>db en. sem_or db en table conds) c2 p2" by blast
  show ?case using realises_append[OF p1(2) p2(2)] p1(1) p2(1) c by auto
qed (auto simp: realises_Nil dest: build_column_realises)

section \<open>No value reaches the SQL text\<close>

text \<open>The shape of a value: every scalar replaced by a fixed one of its type.\<close>

fun erase :: "jsv \<Rightarrow> jsv" where
  "erase JUndef = JUndef"
| "erase JNull = JNull"
| "erase (JBool b) = JBool False"
| "erase (JNum n) = JNum 0"
| "erase (JStr s) = JStr []"
| "erase (JArr xs) = JArr (map erase xs)"
| "erase (JObj es) = JObj (map (\<lambda>(k, v). (k, erase v)) es)"

definition erase_obj :: "jsobj \<Rightarrow> jsobj" where
  "erase_obj es = map (\<lambda>(k, v). (k, erase v)) es"

definition clauses_of :: "compiled \<Rightarrow> clause list res" where
  "clauses_of r = map_sum id fst r"

lemma erase_special [simp]:
  "erase v = JUndef \<longleftrightarrow> v = JUndef" "erase v = JNull \<longleftrightarrow> v = JNull"
  by (cases v; simp)+

lemma field_erase [simp]: "field (erase_obj ops) k = erase (field ops k)"
  by (induction ops) (auto simp: field_def erase_obj_def)

lemma erase_obj_simps [simp]:
  "erase_obj [] = []" "erase_obj ((k, v) # es) = (k, erase v) # erase_obj es"
  by (simp_all add: erase_obj_def)

lemma erase_JObj [simp]: "erase (JObj es) = JObj (erase_obj es)"
  by (simp add: erase_obj_def)

declare erase.simps(7) [simp del]

lemma clauses_of_checked [simp]:
  "clauses_of (checked c cs vs) = (if sql_identifier c then Inr cs
     else Inl (BadRequest (''Invalid SQL identifier: '' @ c)))"
  by (simp add: clauses_of_def checked_def escape_sql_identifier_def)

lemma clauses_of_Inr [simp]: "clauses_of (Inr (cs, vs)) = Inr cs" "clauses_of (Inl e) = Inl e"
  by (simp_all add: clauses_of_def)

lemma build_column_erase: "clauses_of (build_column c (erase v) us) = clauses_of (build_column c v vs)"
proof (cases v)
  case (JObj ops)
  show ?thesis
  proof (cases "field ops ''in''")
    case (JArr xs)
    with JObj show ?thesis by (simp add: build_column_def)
  qed (use JObj in \<open>simp_all add: build_column_def\<close>)
qed (simp_all add: build_column_def)

lemma clauses_of_seq:
  "clauses_of (case r of Inl e \<Rightarrow> Inl e | Inr (cs, v') \<Rightarrow> (case f v' of Inl e \<Rightarrow> Inl e | Inr (ds, w) \<Rightarrow> Inr (cs @ ds, w)))
   = (case clauses_of r of Inl e \<Rightarrow> Inl e
      | Inr cs \<Rightarrow> (case clauses_of (f (snd (projr r))) of Inl e \<Rightarrow> Inl e | Inr ds \<Rightarrow> Inr (cs @ ds)))"
  by (cases r) (auto split: sum.splits prod.splits)

lemma clauses_of_Inl_iff: "clauses_of r = Inl e \<longleftrightarrow> r = Inl e"
  by (cases r) (auto simp: clauses_of_def)

lemma clauses_of_Inr_iff: "clauses_of r = Inr cs \<longleftrightarrow> (\<exists>vs. r = Inr (cs, vs))"
  by (cases r) (auto simp: clauses_of_def)

lemma build_erase:
  "clauses_of (build_where t (erase_obj es) us) = clauses_of (build_where t es vs)"
  "clauses_of (build_entry t k (erase v) us) = clauses_of (build_entry t k v vs)"
  "clauses_of (build_or t (map erase xs) us) = clauses_of (build_or t xs vs)"
proof (induction t es vs and t k v vs and t xs vs arbitrary: us and us and us
       rule: build_where_build_entry_build_or.induct)
  case (2 table k v es vs)
  have a: "clauses_of (build_entry table k (erase v) us) = clauses_of (build_entry table k v vs)"
    by (rule "2.IH"(1))
  show ?case
  proof (cases "build_entry table k v vs")
    case (Inl e)
    with a have "build_entry table k (erase v) us = Inl e" by (simp add: clauses_of_Inl_iff)
    with Inl show ?thesis by simp
  next
    case (Inr r)
    obtain cs v1 where r: "r = (cs, v1)" by (cases r)
    with a Inr obtain u1 where u: "build_entry table k (erase v) us = Inr (cs, u1)"
      by (auto simp: clauses_of_Inr_iff)
    have "clauses_of (build_where table (erase_obj es) u1) = clauses_of (build_where table es v1)"
      using "2.IH"(2)[OF Inr r[symmetric]] r by simp
    with u Inr r show ?thesis
      by (auto simp: clauses_of_Inr_iff clauses_of_Inl_iff split: sum.splits prod.splits)
  qed
next
  case (3 table k conds vs)
  show ?case
  proof (cases "k = ''OR''")
    case True
    have "clauses_of (build_or table (map erase conds) us) = clauses_of (build_or table conds vs)"
      by (rule "3.IH"[OF True])
    with True show ?thesis
      by (auto simp: clauses_of_Inr_iff clauses_of_Inl_iff split: sum.splits prod.splits)
  next
    case False
    then show ?thesis
      using build_column_erase[of _ "JArr conds"] by (auto split: option.splits)
  qed
next
  case (4 table k ops vs)
  show ?case
  proof (cases "exists_key table k")
    case None
    then show ?thesis using build_column_erase[of _ "JObj ops"] by simp
  next
    case (Some kind)
    from "4.IH"[OF Some] have
      "clauses_of (build_where (exists_table kind) (erase_obj ops) []) = clauses_of (build_where (exists_table kind) ops [])" .
    with Some show ?thesis
      by (auto simp: clauses_of_Inr_iff clauses_of_Inl_iff split: sum.splits prod.splits)
  qed
next
  case (7 table es conds vs)
  have a: "clauses_of (build_where table (erase_obj es) us) = clauses_of (build_where table es vs)"
    by (rule "7.IH"(1))
  show ?case
  proof (cases "build_where table es vs")
    case (Inl e)
    with a have "build_where table (erase_obj es) us = Inl e" by (simp add: clauses_of_Inl_iff)
    with Inl show ?thesis by simp
  next
    case (Inr r)
    obtain cs v1 where r: "r = (cs, v1)" by (cases r)
    with a Inr obtain u1 where u: "build_where table (erase_obj es) us = Inr (cs, u1)"
      by (auto simp: clauses_of_Inr_iff)
    have "clauses_of (build_or table (map erase conds) u1) = clauses_of (build_or table conds v1)"
      using "7.IH"(2)[OF Inr r[symmetric]] r by simp
    with u Inr r show ?thesis
      by (auto simp: clauses_of_Inr_iff clauses_of_Inl_iff split: sum.splits prod.splits)
  qed
qed (simp_all add: build_column_def)

fun clause_columns :: "clause \<Rightarrow> string list" where
  "clause_columns CFalse = []"
| "clause_columns (COr cs) = concat (map clause_columns cs)"
| "clause_columns (CExists kind cs) = concat (map clause_columns cs)"
| "clause_columns (CIsNull c) = [c]"
| "clause_columns (CNotNull c) = [c]"
| "clause_columns (CLike c) = [c]"
| "clause_columns (CGe c) = [c]"
| "clause_columns (CLe c) = [c]"
| "clause_columns (CNe c) = [c]"
| "clause_columns (CIn c n) = [c]"
| "clause_columns (CEq c) = [c]"

definition quoted_ok :: "clause list \<Rightarrow> bool" where
  "quoted_ok cs \<longleftrightarrow> (\<forall>c \<in> set cs. \<forall>x \<in> set (clause_columns c). sql_identifier x)"

lemma quoted_ok_simps [simp]:
  "quoted_ok []" "quoted_ok (cs @ ds) \<longleftrightarrow> quoted_ok cs \<and> quoted_ok ds"
  "quoted_ok [COr cs] \<longleftrightarrow> quoted_ok cs" "quoted_ok [CExists kind cs] \<longleftrightarrow> quoted_ok cs"
  by (auto simp: quoted_ok_def)

lemma build_column_quoted: "build_column c v vs = Inr (cs, ws) \<Longrightarrow> quoted_ok cs"
proof (cases v)
  case (JObj ops)
  assume a: "build_column c v vs = Inr (cs, ws)"
  show ?thesis
  proof (cases "field ops ''in''")
    case (JArr xs)
    with JObj a show ?thesis by (auto simp: build_column_def quoted_ok_def split: if_splits)
  qed (use JObj a in \<open>auto simp: build_column_def quoted_ok_def split: if_splits\<close>)
qed (auto simp: build_column_def quoted_ok_def)

lemma build_quoted:
  "build_where t es vs = Inr (cs, ws) \<Longrightarrow> quoted_ok cs"
  "build_entry t k v vs = Inr (cs, ws) \<Longrightarrow> quoted_ok cs"
  "build_or t xs vs = Inr (cs, ws) \<Longrightarrow> quoted_ok cs"
proof (induction t es vs and t k v vs and t xs vs arbitrary: cs ws and cs ws and cs ws
       rule: build_where_build_entry_build_or.induct)
  case (2 table k v es vs)
  from "2.prems" obtain c1 v1 c2 where
    a: "build_entry table k v vs = Inr (c1, v1)" and b: "build_where table es v1 = Inr (c2, ws)"
    and c: "cs = c1 @ c2"
    by (auto split: sum.splits prod.splits)
  show ?case using "2.IH"(1)[OF a] "2.IH"(2)[OF a refl b] c by simp
next
  case (7 table es conds vs)
  from "7.prems" obtain c1 v1 c2 where
    a: "build_where table es vs = Inr (c1, v1)" and b: "build_or table conds v1 = Inr (c2, ws)"
    and c: "cs = c1 @ c2"
    by (auto split: sum.splits prod.splits)
  show ?case using "7.IH"(1)[OF a] "7.IH"(2)[OF a refl b] c by simp
qed (auto simp: build_column_quoted split: sum.splits prod.splits if_splits option.splits
       dest: build_column_quoted)

section \<open>The callers' reading\<close>

definition column_ops :: "dbase \<Rightarrow> env \<Rightarrow> string \<Rightarrow> jsobj \<Rightarrow> bool option list" where
  "column_ops db en c ops =
     (let x = lookup_col db en c in
      (case field ops ''contains'' of JUndef \<Rightarrow> []
         | v \<Rightarrow> [sql_like x (SStr (''%'' @ js_text v @ ''%''))])
      @ (case field ops ''gte'' of JUndef \<Rightarrow> [] | v \<Rightarrow> [sql_le (bound v) x])
      @ (case field ops ''lte'' of JUndef \<Rightarrow> [] | v \<Rightarrow> [sql_le x (bound v)])
      @ (case field ops ''not'' of JUndef \<Rightarrow> [] | JNull \<Rightarrow> [Some (x \<noteq> SNull)]
         | v \<Rightarrow> [not3 (sql_eq x (bound v))])
      @ (case field ops ''in'' of JArr xs \<Rightarrow> [disj3 (map (\<lambda>p. sql_eq x (bound p)) xs)] | _ \<Rightarrow> []))"

definition intended_column :: "dbase \<Rightarrow> env \<Rightarrow> string \<Rightarrow> jsv \<Rightarrow> bool option" where
  "intended_column db en c v =
     (case v of
        JNull \<Rightarrow> Some (lookup_col db en c = SNull)
      | JObj ops \<Rightarrow>
          (let bs = column_ops db en c ops in
           if bs = [] then sql_eq (lookup_col db en c) (bound v) else conj3 bs)
      | _ \<Rightarrow> sql_eq (lookup_col db en c) (bound v))"

function (sequential) intended :: "dbase \<Rightarrow> env \<Rightarrow> string \<Rightarrow> jsobj \<Rightarrow> bool option"
  and intended_entry :: "dbase \<Rightarrow> env \<Rightarrow> string \<Rightarrow> string \<Rightarrow> jsv \<Rightarrow> bool option"
  and intended_each :: "dbase \<Rightarrow> env \<Rightarrow> string \<Rightarrow> jsv list \<Rightarrow> bool option list" where
  "intended db en t [] = Some True"
| "intended db en t ((k, v) # es) = and3 (intended_entry db en t k v) (intended db en t es)"
| "intended_entry db en t k (JArr conds) =
     (if k = ''OR'' then disj3 (intended_each db en t conds)
      else if k = ''AND'' then conj3 (intended_each db en t conds)
      else sql_eq (lookup_col db en (normalize_column t k)) SNull)"
| "intended_entry db en t k (JObj ops) =
     (case exists_key t k of
        Some kind \<Rightarrow>
          Some (list_ex (\<lambda>r. joined kind en r
                   \<and> intended db ((exists_table kind, r) # en) (exists_table kind) ops = Some True)
                 (rows db (exists_table kind)))
      | None \<Rightarrow> intended_column db en (normalize_column t k) (JObj ops))"
| "intended_entry db en t k v = intended_column db en (normalize_column t k) v"
| "intended_each db en t [] = []"
| "intended_each db en t (JObj es # conds) = intended db en t es # intended_each db en t conds"
| "intended_each db en t (_ # conds) = intended_each db en t conds"
  by pat_completeness auto

termination
  by (relation "measure (case_sum (\<lambda>(d, en, t, es). Suc (sum_list (map (\<lambda>(k, v). Suc (jsize v)) es)))
        (case_sum (\<lambda>(d, en, t, k, v). Suc (jsize v))
                  (\<lambda>(d, en, t, xs). Suc (sum_list (map (\<lambda>x. Suc (jsize x)) xs)))))") auto

text \<open>
  The fragment the code reads as intended: no \<open>AND\<close> key, at least one alternative in an
  \<open>OR\<close> and each alternative one entry, at most one operator per column.
\<close>

definition single_op :: "jsobj \<Rightarrow> bool" where
  "single_op ops \<longleftrightarrow>
     length (filter (\<lambda>k. field ops k \<noteq> JUndef) [''contains'', ''gte'', ''lte'', ''not'', ''in'']) \<le> 1"

fun plain_value :: "string \<Rightarrow> string \<Rightarrow> jsv \<Rightarrow> bool" where
  "plain_value t k (JArr conds) =
     (k = ''OR'' \<and> conds \<noteq> []
      \<and> list_all (\<lambda>c. case c of JObj [(k', v)] \<Rightarrow> plain_value t k' v | _ \<Rightarrow> False) conds)"
| "plain_value t k (JObj ops) =
     (case exists_key t k of
        Some kind \<Rightarrow> list_all (\<lambda>(k', v). plain_value (exists_table kind) k' v) ops
      | None \<Rightarrow> single_op ops)"
| "plain_value t k v = True"

definition plain_where :: "string \<Rightarrow> jsobj \<Rightarrow> bool" where
  "plain_where t es = list_all (\<lambda>(k, v). plain_value t k v) es"

lemma and3_True [simp]: "and3 a (Some True) = a" "and3 (Some True) a = a"
  by (cases a rule: option.exhaust; simp; case_tac x2; simp)+

lemma or3_False [simp]: "or3 a (Some False) = a" "or3 (Some False) a = a"
  by (cases a rule: option.exhaust; simp; case_tac x2; simp)+

lemma and3_assoc: "and3 (and3 a b) c = and3 a (and3 b c)"
  by (induction a b rule: and3.induct; cases c rule: option.exhaust; simp; case_tac x2; simp)

lemma conj3_simps [simp]:
  "conj3 [] = Some True" "conj3 (b # bs) = and3 b (conj3 bs)"
  by (simp_all add: conj3_def)

lemma conj3_append: "conj3 (bs @ cs) = and3 (conj3 bs) (conj3 cs)"
  by (induction bs) (simp_all add: and3_assoc)

lemma disj3_simps [simp]:
  "disj3 [] = Some False" "disj3 (b # bs) = or3 b (disj3 bs)"
  by (simp_all add: disj3_def)

lemma single_op_cases:
  assumes "single_op ops"
  obtains "field ops ''gte'' = JUndef" "field ops ''lte'' = JUndef" "field ops ''not'' = JUndef" "field ops ''in'' = JUndef"
  | "field ops ''contains'' = JUndef" "field ops ''lte'' = JUndef" "field ops ''not'' = JUndef" "field ops ''in'' = JUndef"
  | "field ops ''contains'' = JUndef" "field ops ''gte'' = JUndef" "field ops ''not'' = JUndef" "field ops ''in'' = JUndef"
  | "field ops ''contains'' = JUndef" "field ops ''gte'' = JUndef" "field ops ''lte'' = JUndef" "field ops ''in'' = JUndef"
  | "field ops ''contains'' = JUndef" "field ops ''gte'' = JUndef" "field ops ''lte'' = JUndef" "field ops ''not'' = JUndef"
  using assms unfolding single_op_def by (auto split: if_splits)

lemma sem_column_plain:
  assumes "single_op ops"
  shows "sem_column db en c (JObj ops) = intended_column db en c (JObj ops)"
  using assms
proof (cases rule: single_op_cases)
  case 1
  then show ?thesis
    by (cases "field ops ''contains''") (simp_all add: sem_column_def intended_column_def column_ops_def)
next
  case 2
  then show ?thesis
    by (cases "field ops ''gte''") (simp_all add: sem_column_def intended_column_def column_ops_def)
next
  case 3
  then show ?thesis
    by (cases "field ops ''lte''") (simp_all add: sem_column_def intended_column_def column_ops_def)
next
  case 4
  then show ?thesis
    by (cases "field ops ''not''") (simp_all add: sem_column_def intended_column_def column_ops_def)
next
  case 5
  then show ?thesis
    by (cases "field ops ''in''") (simp_all add: sem_column_def intended_column_def column_ops_def)
qed

lemma plain_agrees:
  "list_all (\<lambda>(k, v). plain_value t k v) es \<Longrightarrow> conj3 (sem_where db en t es) = intended db en t es
     \<and> length (sem_where db en t es) = length es"
  "plain_value t k v \<Longrightarrow> conj3 (sem_entry db en t k v) = intended_entry db en t k v
     \<and> length (sem_entry db en t k v) = 1"
  "list_all (\<lambda>c. case c of JObj [(k', v)] \<Rightarrow> plain_value t k' v | _ \<Rightarrow> False) xs \<Longrightarrow>
     sem_or db en t xs = intended_each db en t xs"
proof (induction db en t es and db en t k v and db en t xs
       rule: sem_where_sem_entry_sem_or.induct)
  case (2 db en t k v es)
  then show ?case by (simp add: conj3_append)
next
  case (3 db en t k conds)
  then have or: "sem_or db en t conds = intended_each db en t conds" by simp
  have "intended_each db en t conds \<noteq> []"
    using "3.prems" by (cases conds) (auto split: jsv.splits list.splits)
  with or "3.prems" show ?case by (simp add: Let_def)
next
  case (4 db en t k ops)
  show ?case
  proof (cases "exists_key t k")
    case None
    with "4.prems" show ?thesis by (simp add: sem_column_plain)
  next
    case (Some kind)
    with "4.prems" have "list_all (\<lambda>(k', v). plain_value (exists_table kind) k' v) ops" by simp
    with "4.IH"[OF Some] have
      "conj3 (sem_where db ((exists_table kind, r) # en) (exists_table kind) ops)
        = intended db ((exists_table kind, r) # en) (exists_table kind) ops"
      if "r \<in> set (rows db (exists_table kind))" for r
      using that by blast
    with Some show ?thesis by (auto simp: list_ex_iff)
  qed
next
  case (7 db en t es conds)
  from "7.prems" have "case es of [(k', v)] \<Rightarrow> plain_value t k' v | _ \<Rightarrow> False" by simp
  then obtain k v where es: "es = [(k, v)]" and pv: "plain_value t k v"
    by (cases es; cases "tl es"; cases "hd es") simp_all
  have "length (sem_where db en t es) = 1"
    using "7.IH"(1) es pv by simp
  then have "sem_entry db en t k v = [conj3 (sem_entry db en t k v)]"
    using es by (cases "sem_entry db en t k v") simp_all
  with "7.IH" "7.prems" es pv show ?case by simp
qed (simp_all add: sem_column_def intended_column_def)

section \<open>Using a query\<close>

lemma select_records_sem:
  assumes "select_records db f t xs es = Inr rs"
  shows "rs = filter (\<lambda>x. conj3 (sem_where db [(t, f x)] t es) = Some True) xs"
proof -
  from assms obtain cs ps where b: "build_where t es [] = Inr (cs, ps)"
    and rs: "rs = filter (\<lambda>x. conj3 (eval_clauses db [(t, f x)] cs ps) = Some True) xs"
    by (auto simp: select_records_def split: sum.splits if_splits)
  from build_realises(1)[OF b] have "realises (\<lambda>db en. sem_where db en t es) cs ps" by auto
  with rs show ?thesis by (simp add: realises_def)
qed

lemma and3_eq_True: "and3 a b = Some True \<longleftrightarrow> a = Some True \<and> b = Some True"
  by (induction a b rule: and3.induct) auto

lemma conj3_eq_True: "conj3 bs = Some True \<longleftrightarrow> (\<forall>b \<in> set bs. b = Some True)"
  by (induction bs) (auto simp: and3_eq_True)

lemma or3_eq_True: "or3 a b = Some True \<longleftrightarrow> a = Some True \<or> b = Some True"
  by (induction a b rule: or3.induct) auto

lemma disj3_eq_True: "disj3 bs = Some True \<longleftrightarrow> (\<exists>b \<in> set bs. b = Some True)"
  by (induction bs) (auto simp: or3_eq_True)

lemma sem_where_member:
  "(k, v) \<in> set es \<Longrightarrow> b \<in> set (sem_entry db en t k v) \<Longrightarrow> b \<in> set (sem_where db en t es)"
  by (induction es) auto

text \<open>A row a query returns satisfies each condition of the object.\<close>

lemma select_records_cond:
  assumes "select_records db f t xs es = Inr rs" "x \<in> set rs" "(k, v) \<in> set es"
    and "b \<in> set (sem_entry db [(t, f x)] t k v)"
  shows "b = Some True"
proof -
  from select_records_sem[OF assms(1)] assms(2)
  have "conj3 (sem_where db [(t, f x)] t es) = Some True" by auto
  with sem_where_member[OF assms(3,4)] show ?thesis by (auto simp: conj3_eq_True)
qed

lemma select_records_subset: "select_records db f t xs es = Inr rs \<Longrightarrow> set rs \<subseteq> set xs"
  by (auto simp: select_records_def split: sum.splits if_splits)

end
