(* ===== verification/Query_Scopes.thy ===== *)
theory Query_Scopes
  imports Where_Correct
begin

text \<open>
  The tables the ticket queries touch (their columns, as \<open>ensureTables\<close> creates them), the
  scope builders of \<open>database/query-builders.ts\<close>, and the properties of the query compiler:
  it agrees with its meaning, lets no value into the SQL text, reads plain objects as
  intended, and rejects the \<open>AND\<close> objects the scope builders and the permission scopes
  produce.
\<close>

section \<open>The schema\<close>

definition user_columns :: "string list" where
  "user_columns = [''id'', ''email'', ''passwordHash'', ''firstName'', ''lastName'', ''phone'',
     ''jobTitle'', ''department'', ''location'', ''preferredContactMethod'', ''timezone'',
     ''avatarUrl'', ''featureOverrides'', ''role'', ''userType'', ''companyId'', ''isActive'',
     ''emailVerified'', ''lastLoginAt'', ''resetToken'', ''resetTokenExpiresAt'',
     ''emailVerificationToken'', ''emailVerificationExpiresAt'', ''createdAt'', ''updatedAt'',
     ''deletedAt'']"

definition ticket_columns :: "string list" where
  "ticket_columns = [''id'', ''ticketNumber'', ''title'', ''description'', ''contactName'',
     ''contactEmail'', ''contactPhone'', ''category'', ''subcategory'', ''location'', ''latitude'',
     ''longitude'', ''status'', ''priority'', ''type'', ''companyId'', ''createdById'',
     ''assignedToId'', ''assetId'', ''slaId'', ''contractId'', ''trackingToken'', ''onHoldReason'',
     ''resolution'', ''resolvedAt'', ''resolvedById'', ''createdAt'', ''updatedAt'', ''deletedAt'']"

definition timeline_columns :: "string list" where
  "timeline_columns = [''id'', ''ticketId'', ''action'', ''actorId'', ''oldValue'', ''newValue'',
     ''comment'', ''isInternal'', ''createdAt'']"

definition app_columns :: "string \<Rightarrow> string list" where
  "app_columns t =
     (if t = ''User'' then user_columns else if t = ''Ticket'' then ticket_columns
      else if t = ''TicketTimeline'' then timeline_columns else [])"

section \<open>Scope builders\<close>

type_synonym filters = "(string \<times> jsv) list"

definition obj_truthy :: "jsv \<Rightarrow> bool" where
  "obj_truthy v \<longleftrightarrow> v \<notin> {JUndef, JNull, JBool False, JNum 0, JStr []}"

definition push_if :: "filters \<Rightarrow> string \<Rightarrow> jsv list" where
  "push_if fs k = (if obj_truthy (field fs k) then [JObj [(k, field fs k)]] else [])"

definition build_company_scope :: "string \<Rightarrow> filters option \<Rightarrow> jsobj" where
  "build_company_scope companyId extra =
     [(''AND'', JArr (JObj [(''companyId'', JStr companyId)]
        # (case extra of None \<Rightarrow> []
           | Some es \<Rightarrow> map (\<lambda>(k, v). JObj [(k, v)])
                          (filter (\<lambda>(k, v). v \<noteq> JUndef \<and> v \<noteq> JNull) es))))]"

definition build_asset_scope :: "string \<Rightarrow> filters \<Rightarrow> jsobj" where
  "build_asset_scope companyId fs =
     [(''AND'', JArr (JObj [(''companyId'', JStr companyId)]
        # push_if fs ''assetType'' @ push_if fs ''status'' @ push_if fs ''enrollmentStatus''
        @ push_if fs ''complianceStatus'' @ push_if fs ''assignedUser''
        @ (if obj_truthy (field fs ''serialNumber'')
           then [JObj [(''serialNumber'', JObj [(''contains'', field fs ''serialNumber'')])]] else [])))]"

definition build_ticket_scope :: "string \<Rightarrow> filters \<Rightarrow> jsobj" where
  "build_ticket_scope companyId fs =
     [(''AND'', JArr (JObj [(''companyId'', JStr companyId)]
        # push_if fs ''status'' @ push_if fs ''priority'' @ push_if fs ''assignedToId''
        @ push_if fs ''type'' @ push_if fs ''createdById''))]"

definition pack_conditions :: "jsobj list \<Rightarrow> jsobj" where
  "pack_conditions cs =
     (case cs of [] \<Rightarrow> [] | [c] \<Rightarrow> c | _ \<Rightarrow> [(''AND'', JArr (map JObj cs))])"

definition build_permission_scope :: "filters \<Rightarrow> jsobj" where
  "build_permission_scope fs =
     pack_conditions
       (concat (map (\<lambda>k. if obj_truthy (field fs k) then [[(k, field fs k)]] else [])
          [''userId'', ''roleId'', ''companyId'', ''permissionSlug'']))"

text \<open>\<open>mergeScopes\<close>: an \<open>AND\<close> array is spliced in (its other keys are dropped), any other
  non-empty object is one condition.\<close>

definition merge_one :: "jsobj \<Rightarrow> jsobj list" where
  "merge_one s =
     (case field s ''AND'' of
        JArr xs \<Rightarrow> map (\<lambda>x. case x of JObj es \<Rightarrow> es | _ \<Rightarrow> []) xs
      | _ \<Rightarrow> if s = [] then [] else [s])"

definition merge_scopes :: "jsobj list \<Rightarrow> jsobj" where
  "merge_scopes ss = pack_conditions (concat (map merge_one ss))"

section \<open>AND is not a column\<close>

lemma sql_identifier_AND [simp]: "sql_identifier ''AND''" by code_simp

lemma build_where_AND_clause:
  "build_where t es vs = Inr (cs, ws) \<Longrightarrow> (''AND'', JArr xs) \<in> set es \<Longrightarrow> exists_key t ''AND'' = None
     \<Longrightarrow> CEq ''AND'' \<in> set cs"
proof (induction es arbitrary: vs cs)
  case (Cons e es)
  obtain k v where e: "e = (k, v)" by (cases e)
  from Cons.prems(1) e obtain c1 v1 c2 where
    a: "build_entry t k v vs = Inr (c1, v1)" and b: "build_where t es v1 = Inr (c2, ws)"
    and c: "cs = c1 @ c2"
    by (auto split: sum.splits prod.splits)
  show ?case
  proof (cases "e = (''AND'', JArr xs)")
    case True
    with a e Cons.prems(3) have "c1 = [CEq ''AND'']"
      by (auto simp: build_column_def normalize_column_def)
    with c show ?thesis by simp
  next
    case False
    with Cons.prems(2) have "(''AND'', JArr xs) \<in> set es" by auto
    from Cons.IH[OF b this Cons.prems(3)] c show ?thesis by simp
  qed
qed simp

lemma exists_key_AND [simp]: "exists_key t ''AND'' = None"
  by (simp add: exists_key_def)

lemma select_AND_rejected:
  assumes "(''AND'', JArr xs) \<in> set es" and "''AND'' \<notin> set (columns db t)"
  shows "\<exists>e. select_records db f t ys es = Inl e"
proof (cases "build_where t es []")
  case (Inl e)
  then show ?thesis by (simp add: select_records_def)
next
  case (Inr r)
  obtain cs ps where r: "r = (cs, ps)" by (cases r)
  from build_where_AND_clause[OF _ assms(1)] Inr r have m: "CEq ''AND'' \<in> set cs" by auto
  have "\<not> clause_ok db [t] (CEq ''AND'')" using assms(2) by simp
  with m have "\<not> statement_ok db t cs ps" 
    by (auto simp: statement_ok_def list_all_iff intro!: bexI [of _ "CEq ''AND''"])
  with Inr r show ?thesis by (simp add: select_records_def)
qed

section \<open>Properties\<close>

definition demo_ticket :: "string \<Rightarrow> string \<Rightarrow> row" where
  "demo_ticket i company =
     (\<lambda>c. if c = ''id'' then SStr i else if c = ''companyId'' then SStr company else SNull)"

definition demo_db :: dbase where
  "demo_db = \<lparr>columns = app_columns,
     rows = (\<lambda>t. if t = ''Ticket'' then [demo_ticket ''t1'' ''c1'', demo_ticket ''t2'' ''c2''] else [])\<rparr>"

lemma demo_columns [simp]: "columns demo_db = app_columns" by (simp add: demo_db_def)

lemma demo_select:
  "select_where demo_db ''Ticket'' [(''companyId'', JStr ''c2''), (''deletedAt'', JNull)]
     = Inr [demo_ticket ''t2'' ''c2'']"
  by (simp add: select_where_def select_records_def build_column_def normalize_column_def statement_ok_def
        checked_def escape_sql_identifier_def ident_start_def ident_char_def
        app_columns_def ticket_columns_def demo_db_def demo_ticket_def sql_eq_def bound_def)

text \<open>
  The query compiler is correct. Whenever a repository query over a \<open>where\<close> object runs,
  it returns, in storage order, exactly the rows for which every condition of the object
  holds: the values \<open>buildWhereClauses\<close> collects are the ones its placeholders consume, in
  the same order, through \<open>OR\<close> groups and \<open>EXISTS\<close> subqueries.
\<close>
theorem compiled_query_correct:
  assumes "select_where db t es = Inr rs"
  shows "rs = filter (\<lambda>r. conj3 (sem_where db [(t, r)] t es) = Some True) (rows db t)"
  using assms unfolding select_where_def by (rule select_records_sem)

theorem compiled_query_correct_witness:
  "[demo_ticket ''t2'' ''c2''] =
     filter (\<lambda>r. conj3 (sem_where demo_db [(''Ticket'', r)] ''Ticket''
                 [(''companyId'', JStr ''c2''), (''deletedAt'', JNull)]) = Some True)
            (rows demo_db ''Ticket'')"
  by (rule compiled_query_correct [OF demo_select])

text \<open>
  C26. No value reaches the SQL text. The conditions compiled from a \<open>where\<close> object, and so
  the SQL that is printed, depend only on the shape of the object (its keys, operators and
  list lengths), not on any string, number or boolean in it; a rejected object is rejected
  for its shape; and every column name that is printed between backquotes is an identifier.
\<close>
theorem sql_text_value_free:
  "clauses_of (build_where t es vs) = clauses_of (build_where t (erase_obj es) [])
   \<and> (case build_where t es vs of Inl _ \<Rightarrow> True | Inr (cs, ps) \<Rightarrow> quoted_ok cs)"
  using build_erase(1)[of t es "[]" vs] build_quoted(1)[of t es vs]
  by (auto split: sum.splits)

text \<open>
  C6. A plain query returns the rows that are meant. When the where object is plain (no
  \<open>AND\<close> array, each \<open>OR\<close> alternative a single entry, one operator per column, nested
  \<open>createdBy\<close> objects alike) and the database accepts the query, it returns exactly the rows
  that satisfy every condition of the object, in table order. The queries of the ticket
  service for callers without ticket scopes are plain (\<open>ticket_queries_plain\<close>).
\<close>
theorem plain_query_as_intended:
  assumes "plain_where t es" and "select_where db t es = Inr rs"
  shows "rs = filter (\<lambda>r. intended db [(t, r)] t es = Some True) (rows db t)"
  using select_records_sem[OF assms(2)[unfolded select_where_def]] assms(1)
  by (simp add: plain_where_def plain_agrees(1))

theorem plain_query_as_intended_witness:
  "[demo_ticket ''t2'' ''c2''] =
     filter (\<lambda>r. intended demo_db [(''Ticket'', r)] ''Ticket''
                 [(''companyId'', JStr ''c2''), (''deletedAt'', JNull)] = Some True)
            (rows demo_db ''Ticket'')"
  by (rule plain_query_as_intended [OF _ demo_select]) (simp add: plain_where_def)

text \<open>
  The scope builders' result cannot be queried. \<open>buildWhereClauses\<close> has no case for
  \<open>AND\<close>, so a company, asset or ticket scope compiles to a comparison with a column named
  \<open>AND\<close>, and every ticket query or count over it is rejected by the database, whatever the
  other conditions are. The access is refused, never widened.
\<close>
theorem and_scopes_rejected:
  assumes "columns db = app_columns"
    and "s \<in> {build_company_scope c extra, build_asset_scope c fs, build_ticket_scope c fs}"
  shows "(\<exists>e. find_many_where db ''Ticket'' (s @ es) = Inl e)
       \<and> (\<exists>e. count_where db ''Ticket'' (s @ es) = Inl e)
       \<and> (\<exists>e. find_first_where db ''Ticket'' (s @ es) = Inl e)"
proof -
  from assms(2) obtain xs where s: "s = [(''AND'', JArr xs)]"
    by (auto simp: build_company_scope_def build_asset_scope_def build_ticket_scope_def)
  have "''AND'' \<notin> set (columns db ''Ticket'')"
    by (simp add: assms(1) app_columns_def ticket_columns_def)
  then have "\<exists>e. select_where db ''Ticket'' (s @ es) = Inl e"
    unfolding select_where_def by (rule select_AND_rejected [where xs = xs, rotated]) (simp_all add: s)
  then show ?thesis by (auto simp: find_many_where_def count_where_def find_first_where_def s)
qed

theorem and_scopes_rejected_witness:
  "\<exists>e. find_many_where demo_db ''Ticket'' (build_ticket_scope ''c1'' [(''status'', JStr ''OPEN'')]) = Inl e"
  using and_scopes_rejected [of demo_db "build_ticket_scope ''c1'' [(''status'', JStr ''OPEN'')]"
      "''c1''" None "[(''status'', JStr ''OPEN'')]" "[]"]
  by simp

lemma intended_each_map: "intended_each db en t (map JObj cs) = map (intended db en t) cs"
  by (induction cs) simp_all

lemma intended_pack: "intended db en t (pack_conditions cs) = conj3 (map (intended db en t) cs)"
  by (auto simp: pack_conditions_def intended_each_map split: list.splits)

definition mergeable :: "jsobj \<Rightarrow> bool" where
  "mergeable s \<longleftrightarrow> (case field s ''AND'' of
      JUndef \<Rightarrow> True
    | JArr xs \<Rightarrow> (\<exists>cs. s = [(''AND'', JArr (map JObj cs))])
    | _ \<Rightarrow> True)"

lemma merge_one_intended:
  assumes "mergeable s"
  shows "conj3 (map (intended db en t) (merge_one s)) = intended db en t s"
proof (cases "field s ''AND''")
  case (JArr xs)
  with assms obtain cs where s: "s = [(''AND'', JArr (map JObj cs))]" by (auto simp: mergeable_def)
  then have "merge_one s = cs" by (simp add: merge_one_def field_def comp_def)
  with s show ?thesis by (simp add: intended_each_map)
qed (simp_all add: merge_one_def)

text \<open>
  Merging scopes is conjunction: if each scope is an \<open>AND\<close> object with nothing beside
  it, or has no \<open>AND\<close> array, a row satisfies the merged object exactly when it satisfies
  every one of them.
\<close>
theorem merge_scopes_conjunction:
  assumes "\<forall>s \<in> set ss. mergeable s"
  shows "intended db en t (merge_scopes ss) = conj3 (map (intended db en t) ss)"
proof -
  have "conj3 (map (intended db en t) (concat (map merge_one ss))) = conj3 (map (intended db en t) ss)"
    using assms by (induction ss) (simp_all add: conj3_append merge_one_intended)
  then show ?thesis by (simp add: merge_scopes_def intended_pack)
qed

theorem merge_scopes_conjunction_witness:
  "intended demo_db [(''Ticket'', demo_ticket ''t1'' ''c1'')] ''Ticket''
     (merge_scopes [build_company_scope ''c1'' None, [(''deletedAt'', JNull)]])
   = conj3 (map (intended demo_db [(''Ticket'', demo_ticket ''t1'' ''c1'')] ''Ticket'')
       [build_company_scope ''c1'' None, [(''deletedAt'', JNull)]])"
proof (rule merge_scopes_conjunction)
  have "mergeable (build_company_scope ''c1'' None)"
    unfolding mergeable_def build_company_scope_def field_def
    by (simp, rule exI [of _ "[[(''companyId'', JStr ''c1'')]]"], simp)
  moreover have "mergeable [(''deletedAt'', JNull)]" by (simp add: mergeable_def field_def)
  ultimately show "\<forall>s \<in> set [build_company_scope ''c1'' None, [(''deletedAt'', JNull)]]. mergeable s"
    by simp
qed

end
