(* ===== verification/Tickets.thy ===== *)
theory Tickets
  imports Query_Scopes Principal
begin

text \<open>
  The ticket store and the read paths of \<open>modules/tickets/services/tickets.service.ts\<close>:
  tenant scoping, permission scopes, the detail view, masking, and the list. Queries go
  through the compiler of \<open>Sql_Where\<close>, over the rows of the tables below.

  Joins that only decorate the answer (asset, attachments, dispatches) are left out, and so
  are latitude and longitude.
\<close>

section \<open>Tables\<close>

record ticket =
  t_id :: string
  t_number :: string
  t_title :: string
  t_description :: "string option"
  t_contactName :: "string option"
  t_contactEmail :: "string option"
  t_contactPhone :: "string option"
  t_category :: "string option"
  t_subcategory :: "string option"
  t_location :: "string option"
  t_status :: "string option"
  t_priority :: "string option"
  t_type :: string
  t_companyId :: "string option"
  t_createdById :: string
  t_assignedToId :: "string option"
  t_assetId :: "string option"
  t_slaId :: "string option"
  t_contractId :: "string option"
  t_trackingToken :: "string option"
  t_onHoldReason :: "string option"
  t_resolution :: "string option"
  t_resolvedAt :: "int option"
  t_resolvedById :: "string option"
  t_createdAt :: int
  t_deletedAt :: "int option"

record person =
  u_id :: string
  u_email :: string
  u_firstName :: string
  u_lastName :: string
  u_phone :: "string option"
  u_location :: "string option"
  u_role :: string
  u_userType :: string
  u_companyId :: "string option"
  u_isActive :: bool
  u_deletedAt :: "int option"

text \<open>
  A timeline comment is plain text or the JSON of an approval request (approval id,
  checkpoint, detail, amount, requested at) or decision (approval id, decision, comment,
  decided at, requested checkpoint).
\<close>

datatype remark =
    NoComment
  | Text string
  | ApprovalRequest string string string "int option" int
  | ApprovalDecision string string "string option" int "string option"

record entry =
  e_id :: string
  e_ticketId :: string
  e_action :: string
  e_actorId :: string
  e_old :: "string option"
  e_new :: "string option"
  e_comment :: remark
  e_internal :: bool
  e_createdAt :: int

record relationship =
  r_subject :: string
  r_relation :: string
  r_type :: string
  r_resource :: string
  r_expiresAt :: "int option"

record sla =
  s_id :: string
  s_resolutionMin :: int

record in_app = n_user :: string n_company :: string n_title :: string n_body :: string n_type :: string

record email =
  m_companyId :: "string option"
  m_ticketId :: string
  m_userId :: "string option"
  m_to :: string
  m_name :: "string option"
  m_eventType :: string
  m_category :: string
  m_action :: string
  m_detail :: "string option"
  m_actor :: "string option"

record tstate =
  tickets :: "ticket list"
  people :: "person list"
  timeline :: "entry list"
  relationships :: "relationship list"
  slas :: "sla list"
  in_apps :: "in_app list"
  outbox :: "email list"
  emitted :: "(string \<times> string \<times> string) list"
  usage_calls :: "(string \<times> string) list"
  drawn :: nat

section \<open>Tables as rows\<close>

fun opt_sql :: "string option \<Rightarrow> sqlv" where
  "opt_sql None = SNull"
| "opt_sql (Some s) = SStr s"

fun opt_time :: "int option \<Rightarrow> sqlv" where
  "opt_time None = SNull"
| "opt_time (Some n) = SInt n"

definition ticket_row :: "ticket \<Rightarrow> row" where
  "ticket_row t c =
     (case map_of
        [(''id'', SStr (t_id t)), (''ticketNumber'', SStr (t_number t)), (''title'', SStr (t_title t)),
         (''description'', opt_sql (t_description t)), (''contactName'', opt_sql (t_contactName t)),
         (''contactEmail'', opt_sql (t_contactEmail t)), (''contactPhone'', opt_sql (t_contactPhone t)),
         (''category'', opt_sql (t_category t)), (''subcategory'', opt_sql (t_subcategory t)),
         (''location'', opt_sql (t_location t)), (''status'', opt_sql (t_status t)),
         (''priority'', opt_sql (t_priority t)), (''type'', SStr (t_type t)),
         (''companyId'', opt_sql (t_companyId t)), (''createdById'', SStr (t_createdById t)),
         (''assignedToId'', opt_sql (t_assignedToId t)), (''assetId'', opt_sql (t_assetId t)),
         (''slaId'', opt_sql (t_slaId t)), (''contractId'', opt_sql (t_contractId t)),
         (''trackingToken'', opt_sql (t_trackingToken t)), (''onHoldReason'', opt_sql (t_onHoldReason t)),
         (''resolution'', opt_sql (t_resolution t)), (''resolvedAt'', opt_time (t_resolvedAt t)),
         (''resolvedById'', opt_sql (t_resolvedById t)), (''createdAt'', SInt (t_createdAt t)),
         (''deletedAt'', opt_time (t_deletedAt t))] c
      of None \<Rightarrow> SNull | Some v \<Rightarrow> v)"

definition person_row :: "person \<Rightarrow> row" where
  "person_row u c =
     (case map_of
        [(''id'', SStr (u_id u)), (''email'', SStr (u_email u)), (''firstName'', SStr (u_firstName u)),
         (''lastName'', SStr (u_lastName u)), (''phone'', opt_sql (u_phone u)),
         (''location'', opt_sql (u_location u)), (''role'', SStr (u_role u)),
         (''userType'', SStr (u_userType u)), (''companyId'', opt_sql (u_companyId u)),
         (''isActive'', SInt (if u_isActive u then 1 else 0)), (''deletedAt'', opt_time (u_deletedAt u))] c
      of None \<Rightarrow> SNull | Some v \<Rightarrow> v)"

definition ticket_db :: "tstate \<Rightarrow> dbase" where
  "ticket_db s = \<lparr>columns = app_columns,
     rows = (\<lambda>t. if t = ''Ticket'' then map ticket_row (tickets s)
                 else if t = ''User'' then map person_row (people s) else [])\<rparr>"

definition tickets_where :: "tstate \<Rightarrow> jsobj \<Rightarrow> ticket list res" where
  "tickets_where s es = select_records (ticket_db s) ticket_row ''Ticket'' (tickets s) es"

definition ticket_count :: "jsobj \<Rightarrow> tstate \<Rightarrow> nat res" where
  "ticket_count es s =
     (if es = [] then Inr (length (tickets s))
      else case tickets_where s es of Inl e \<Rightarrow> Inl e | Inr ts \<Rightarrow> Inr (length ts))"

definition find_user :: "tstate \<Rightarrow> string \<Rightarrow> person option" where
  "find_user s i = find (\<lambda>u. u_id u = i) (people s)"

section \<open>Scopes\<close>

text \<open>\<open>where.key = value\<close> on a JavaScript object: an existing key keeps its place.\<close>

fun obj_set :: "jsobj \<Rightarrow> string \<Rightarrow> jsv \<Rightarrow> jsobj" where
  "obj_set [] k v = [(k, v)]"
| "obj_set ((k', v') # es) k v = (if k' = k then (k, v) # es else (k', v') # obj_set es k v)"

fun js_opt :: "string option \<Rightarrow> jsv" where
  "js_opt None = JNull"
| "js_opt (Some s) = JStr s"

definition is_global_tech :: "principal \<Rightarrow> bool" where
  "is_global_tech u \<longleftrightarrow> p_role u = ''GLOBAL_TECH''"

definition apply_global_tech_scope :: "jsobj \<Rightarrow> jsobj" where
  "apply_global_tech_scope es =
     obj_set es ''OR'' (JArr [JObj [(''companyId'', JNull)],
                              JObj [(''createdBy'', JObj [(''userType'', JStr ''PUBLIC'')])]])"

definition base_scope :: "principal \<Rightarrow> jsobj \<Rightarrow> jsobj" where
  "base_scope u es =
     (if global_admin u then es
      else if is_global_tech u then apply_global_tech_scope es
      else if p_userType u = ''PUBLIC'' then obj_set es ''createdById'' (JStr (p_id u))
      else obj_set es ''companyId'' (js_opt (p_companyId u)))"

definition parse_scope_values :: "string list option \<Rightarrow> string list" where
  "parse_scope_values v = (case v of None \<Rightarrow> [] | Some xs \<Rightarrow> filter (\<lambda>x. x \<noteq> []) xs)"

definition in_list :: "string \<Rightarrow> string list \<Rightarrow> jsv list" where
  "in_list k xs = (if xs = [] then [] else [JObj [(k, JObj [(''in'', JArr (map JStr xs))])]])"

definition live_relationships :: "int \<Rightarrow> string \<Rightarrow> tstate \<Rightarrow> relationship list" where
  "live_relationships t who s =
     filter (\<lambda>r. r_subject r = who \<and> r_relation r \<in> {''viewer'', ''editor'', ''owner'', ''technician''}
               \<and> (case r_expiresAt r of None \<Rightarrow> True | Some x \<Rightarrow> x > t)
               \<and> r_type r \<in> {''TICKET'', ''COMPANY''}) (relationships s)"

definition scope_alternatives :: "relationship list \<Rightarrow> principal \<Rightarrow> perm_scope \<Rightarrow> jsv list" where
  "scope_alternatives rels u sc =
     (if scope_type sc = ''ASSIGNED'' then [JObj [(''assignedToId'', JStr (p_id u))]]
      else if scope_type sc = ''LOCATION'' \<and> truthy (p_location u)
        then [JObj [(''location'', js_opt (p_location u))]]
      else if scope_type sc = ''CUSTOMERS'' then in_list ''companyId'' (parse_scope_values (scope_values sc))
      else if scope_type sc = ''RELATIONSHIP'' then
        in_list ''id'' (map r_resource (filter (\<lambda>r. r_type r = ''TICKET'') rels))
        @ in_list ''companyId'' (map r_resource (filter (\<lambda>r. r_type r = ''COMPANY'') rels))
      else [])"

definition ticket_scopes :: "principal \<Rightarrow> perm_scope list" where
  "ticket_scopes u = filter (\<lambda>sc. starts_with (scope_slug sc) ''tickets.'') (p_scopes u)"

definition apply_ticket_scopes :: "world \<Rightarrow> tstate \<Rightarrow> principal \<Rightarrow> jsobj \<Rightarrow> jsobj" where
  "apply_ticket_scopes v s u es =
     (let m = ticket_scopes u in
      if m = [] \<or> list_ex (\<lambda>sc. scope_type sc = ''ALL'') m then es
      else let alts = concat (map (scope_alternatives (live_relationships (now v) (p_id u) s) u) m);
               old = (case field es ''AND'' of JArr xs \<Rightarrow> xs | _ \<Rightarrow> []) in
        obj_set es ''AND''
          (JArr (old @ [if alts = [] then JObj [(''id'', JStr ''__scope_denied__'')]
                        else JObj [(''OR'', JArr alts)]])))"

definition detail_where :: "world \<Rightarrow> tstate \<Rightarrow> principal \<Rightarrow> string \<Rightarrow> jsobj" where
  "detail_where v s u i =
     apply_ticket_scopes v s u (base_scope u [(''id'', JStr i), (''deletedAt'', JNull)])"

section \<open>The detail view\<close>

record ticket_view =
  v_ticket :: ticket
  v_createdBy :: "person option"
  v_assignedTo :: "person option"
  v_resolvedBy :: "person option"
  v_timeline :: "entry list"
  v_sla :: "(string \<times> int option) option"

definition find_opt_user :: "tstate \<Rightarrow> string option \<Rightarrow> person option" where
  "find_opt_user s x = (case x of None \<Rightarrow> None | Some i \<Rightarrow> if i = [] then None else find_user s i)"

text \<open>\<open>enrichTicket\<close> with the detail's \<open>include\<close>: the newest 50 entries; the include's own
  \<open>where\<close> is not read.\<close>

definition timeline_of :: "tstate \<Rightarrow> string \<Rightarrow> nat \<Rightarrow> entry list" where
  "timeline_of s i n = take n (sort_key (\<lambda>e. - e_createdAt e) (filter (\<lambda>e. e_ticketId e = i) (timeline s)))"

definition enrich_ticket :: "tstate \<Rightarrow> ticket \<Rightarrow> ticket_view" where
  "enrich_ticket s t = \<lparr>v_ticket = t, v_createdBy = find_user s (t_createdById t),
     v_assignedTo = find_opt_user s (t_assignedToId t), v_resolvedBy = find_opt_user s (t_resolvedById t),
     v_timeline = timeline_of s (t_id t) 50, v_sla = None\<rparr>"

text \<open>\<open>Math.round(elapsed / total * 100)\<close> on integers, ties towards plus infinity. A zero
  total divides to an infinity, or to NaN when nothing has elapsed; a progress that is not a
  finite number is \<open>None\<close>.\<close>

definition sla_status :: "int \<Rightarrow> ticket \<Rightarrow> sla \<Rightarrow> string \<times> int option" where
  "sla_status t tk sl =
     (let elapsed = t - t_createdAt tk; total = s_resolutionMin sl * 60 * 1000 in
      if total = 0 then (if elapsed > 0 then (''breached'', Some 100) else (''within_sla'', None))
      else let pct = min 100 ((200 * elapsed + total) div (2 * total)) in
        (if pct \<ge> 100 then ''breached'' else if pct \<ge> 75 then ''at_risk'' else ''within_sla'', Some pct))"

definition find_one :: "world \<Rightarrow> principal \<Rightarrow> string \<Rightarrow> (tstate, ticket_view) act" where
  "find_one v u i s =
     (case tickets_where s (detail_where v s u i) of
        Inl e \<Rightarrow> (Inl e, s)
      | Inr [] \<Rightarrow> (Inl (NotFound ''Ticket not found''), s)
      | Inr (t # _) \<Rightarrow>
          (Inr (enrich_ticket s t \<lparr>v_sla :=
             (case t_slaId t of None \<Rightarrow> None
              | Some k \<Rightarrow> (case find (\<lambda>sl. s_id sl = k) (slas s) of
                  None \<Rightarrow> None | Some sl \<Rightarrow> Some (sla_status (now v) t sl)))\<rparr>), s))"

definition can_view_internal :: "principal \<Rightarrow> bool" where
  "can_view_internal u \<longleftrightarrow>
     p_role u \<in> {''SUPER_ADMIN'', ''GLOBAL_TECH'', ''TENANT_ADMIN'', ''TECHNICIAN''}
     \<or> ''tickets.sensitive.view'' \<in> set (p_slugs u)"

section \<open>Masking\<close>

definition mask_email :: "string \<Rightarrow> string" where
  "mask_email e =
     (case str_split (CHR ''@'') e of
        a # d # _ \<Rightarrow> if d = [] then ''***'' else take 1 a @ ''***@'' @ d
      | _ \<Rightarrow> ''***'')"

definition is_digit :: "char \<Rightarrow> bool" where
  "is_digit c \<longleftrightarrow> (let n = of_char c :: nat in 48 \<le> n \<and> n \<le> 57)"

definition mask_phone :: "string \<Rightarrow> string" where
  "mask_phone p =
     (let d = filter is_digit p in
      if length d \<ge> 4 then ''***-***-'' @ drop (length d - 4) d else ''***'')"

definition mask_name :: "string \<Rightarrow> string" where
  "mask_name n = take 1 n @ ''***''"

definition mask_opt :: "(string \<Rightarrow> string) \<Rightarrow> string option \<Rightarrow> string option" where
  "mask_opt f x = (if truthy x then map_option f x else x)"

definition sees_all :: "principal \<Rightarrow> bool" where
  "sees_all u \<longleftrightarrow> p_role u = ''SUPER_ADMIN'' \<or> p_userType u = ''PUBLIC''
     \<or> ''tickets.sensitive.view'' \<in> set (p_slugs u)"

definition mask_contact :: "ticket \<Rightarrow> ticket" where
  "mask_contact t = t\<lparr>t_contactEmail := mask_opt mask_email (t_contactEmail t),
     t_contactPhone := mask_opt mask_phone (t_contactPhone t),
     t_contactName := mask_opt mask_name (t_contactName t)\<rparr>"

definition mask_view :: "principal \<Rightarrow> ticket_view \<Rightarrow> ticket_view" where
  "mask_view u w =
     (if sees_all u then w
      else w\<lparr>v_ticket := mask_contact (v_ticket w),
             v_timeline := (if can_view_internal u then v_timeline w
                            else filter (\<lambda>e. \<not> e_internal e) (v_timeline w))\<rparr>)"

definition ticket_detail :: "world \<Rightarrow> principal \<Rightarrow> string \<Rightarrow> (tstate, ticket_view) act" where
  "ticket_detail v u i = bindE (find_one v u i) (\<lambda>w. ret (mask_view u w))"

section \<open>The list\<close>

definition list_where :: "world \<Rightarrow> tstate \<Rightarrow> principal \<Rightarrow> string option \<Rightarrow> string option \<Rightarrow> jsobj" where
  "list_where v s u status search =
     (let w1 = apply_ticket_scopes v s u (base_scope u [(''deletedAt'', JNull)]);
          w2 = (if truthy status then obj_set w1 ''status'' (js_opt status) else w1) in
      if truthy search then
        obj_set w2 ''OR'' (JArr [JObj [(''title'', JObj [(''contains'', js_opt search)])],
                                 JObj [(''ticketNumber'', JObj [(''contains'', js_opt search)])]])
      else w2)"

definition page_of :: "nat \<Rightarrow> nat \<Rightarrow> 'a list \<Rightarrow> 'a list" where
  "page_of page limit xs = take limit (drop ((page - 1) * limit) xs)"

record ticket_page =
  pg_data :: "ticket list"
  pg_total :: nat
  pg_pages :: nat

text \<open>\<open>findAll\<close> for a positive page and limit (0 and absent become 1 and 25).\<close>

definition find_all :: "world \<Rightarrow> principal \<Rightarrow> nat \<Rightarrow> nat \<Rightarrow> string option \<Rightarrow> string option
    \<Rightarrow> (tstate, ticket_page) act" where
  "find_all v u page0 limit0 status search s =
     (let page = (if page0 = 0 then 1 else page0); limit = (if limit0 = 0 then 25 else limit0) in
      case tickets_where s (list_where v s u status search) of
        Inl e \<Rightarrow> (Inl e, s)
      | Inr ts \<Rightarrow>
          (Inr \<lparr>pg_data = map (\<lambda>t. if sees_all u then t else mask_contact t)
                            (page_of page limit (sort_key (\<lambda>t. - t_createdAt t) ts)),
                pg_total = length ts, pg_pages = (length ts + limit - 1) div limit\<rparr>, s))"

end
