(* ===== verification/Ticket_Ops.thy ===== *)
theory Ticket_Ops
  imports Tickets
begin

text \<open>
  The writing operations of \<open>tickets.service.ts\<close>, with \<open>ticket-timeline.service.ts\<close>,
  \<open>ticket-participant-notifier.service.ts\<close> and the handlers of
  \<open>controllers/tickets.controller.ts\<close> that have logic of their own.

  Requests to the mail queue are collected in \<open>outbox\<close>, websocket events in \<open>emitted\<close>
  (company, event, ticket id), calls to the usage counter in \<open>usage_calls\<close>.
\<close>

section \<open>Timeline and notifications\<close>

definition whenE :: "bool \<Rightarrow> ('s, unit) act \<Rightarrow> ('s, unit) act" where
  "whenE b m = (if b then m else ret ())"

definition add_entry :: "world \<Rightarrow> string \<Rightarrow> string \<Rightarrow> string \<Rightarrow> remark \<Rightarrow> string option \<Rightarrow> string option
    \<Rightarrow> bool \<Rightarrow> (tstate, entry) act" where
  "add_entry v ticketId actorId action comment old new internal s =
     (let e = \<lparr>e_id = uuid v (drawn s), e_ticketId = ticketId, e_action = action, e_actorId = actorId,
               e_old = old, e_new = new, e_comment = comment, e_internal = internal,
               e_createdAt = now v\<rparr> in
      (Inr e, s\<lparr>timeline := timeline s @ [e], drawn := Suc (drawn s)\<rparr>))"

definition log_entry :: "world \<Rightarrow> string \<Rightarrow> string \<Rightarrow> string \<Rightarrow> string \<Rightarrow> string option \<Rightarrow> string option
    \<Rightarrow> (tstate, unit) act" where
  "log_entry v ticketId actorId action comment old new =
     bindE (add_entry v ticketId actorId action (Text comment) old new False) (\<lambda>_. ret ())"

definition notify_in_app :: "string \<Rightarrow> string \<Rightarrow> string \<Rightarrow> string \<Rightarrow> string \<Rightarrow> (tstate, unit) act" where
  "notify_in_app who company title body kind =
     writes (\<lambda>s. s\<lparr>in_apps := in_apps s @ [\<lparr>n_user = who, n_company = company, n_title = title,
                                          n_body = body, n_type = kind\<rparr>]\<rparr>)"

definition notify_ticket_update :: "string option \<Rightarrow> string \<Rightarrow> string \<Rightarrow> (tstate, unit) act" where
  "notify_ticket_update company event i =
     whenE (truthy company) (writes (\<lambda>s. s\<lparr>emitted := emitted s @ [(or_str company [], event, i)]\<rparr>))"

definition full_name :: "person \<Rightarrow> string" where
  "full_name u = str_join '' '' (filter (\<lambda>x. x \<noteq> []) [u_firstName u, u_lastName u])"

record recipient =
  rc_email :: string
  rc_name :: "string option"
  rc_userId :: "string option"

text \<open>\<open>uniqueRecipients\<close>: a map keyed by the normalised address, in order of first insertion.\<close>

definition clean_email :: "string \<Rightarrow> string" where
  "clean_email e = js_lower (js_trim e)"

definition unique_step :: "recipient \<Rightarrow> recipient list \<Rightarrow> recipient list" where
  "unique_step r acc =
     (let e = clean_email (rc_email r) in
      if e \<noteq> [] \<and> e \<notin> rc_email ` set acc then acc @ [r\<lparr>rc_email := e\<rparr>] else acc)"

definition unique_recipients :: "recipient list \<Rightarrow> recipient list" where
  "unique_recipients rs = fold unique_step rs []"

definition infer_category :: "string \<Rightarrow> string" where
  "infer_category action =
     (let v = js_lower action; h = str_includes v in
      if h ''resolved'' \<or> h ''closed'' then ''ticket_resolution''
      else if h ''status'' \<or> h ''reopened'' then ''ticket_status''
      else if h ''comment'' \<or> h ''message'' \<or> h ''reply'' then ''ticket_comments''
      else if h ''assign'' \<or> h ''technician'' then ''ticket_assignment''
      else if h ''attachment'' \<or> h ''file'' then ''ticket_attachments''
      else if h ''time'' \<or> h ''work log'' then ''ticket_time''
      else if h ''dispatch'' \<or> h ''visit'' \<or> h ''arrival'' then ''dispatch''
      else if h ''opened'' \<or> h ''created'' then ''ticket_created''
      else ''automated'')"

definition ticket_recipients :: "tstate \<Rightarrow> ticket \<Rightarrow> string list \<Rightarrow> recipient list" where
  "ticket_recipients s t excluded =
     (let creator = find_user s (t_createdById t) in
      filter (\<lambda>r. rc_email r \<notin> clean_email ` set excluded)
        (unique_recipients
           [\<lparr>rc_email = or_str (t_contactEmail t) [], rc_name = t_contactName t, rc_userId = None\<rparr>,
            \<lparr>rc_email = (case creator of None \<Rightarrow> [] | Some c \<Rightarrow> u_email c),
             rc_name = map_option full_name creator, rc_userId = map_option u_id creator\<rparr>]))"

definition recipient_user :: "tstate \<Rightarrow> recipient \<Rightarrow> string option" where
  "recipient_user s r =
     (if truthy (rc_userId r) then rc_userId r
      else map_option u_id (find (\<lambda>u. js_lower (u_email u) = rc_email r \<and> u_deletedAt u = None) (people s)))"

text \<open>\<open>notify\<close> never throws: whatever goes wrong inside it is logged.\<close>

definition participant_notify :: "string \<Rightarrow> string \<Rightarrow> string option \<Rightarrow> string option \<Rightarrow> string option
    \<Rightarrow> string list \<Rightarrow> (tstate, unit) act" where
  "participant_notify i action detail actorId category excluded s =
     (case find (\<lambda>t. t_id t = i) (tickets s) of
        None \<Rightarrow> (Inr (), s)
      | Some t \<Rightarrow>
          (let actor = find_opt_user s actorId;
               actorName = map_option (\<lambda>a. or_str (Some (full_name a)) (u_email a)) actor in
           (Inr (), s\<lparr>outbox := outbox s @ map (\<lambda>r.
              \<lparr>m_companyId = t_companyId t, m_ticketId = t_id t, m_userId = recipient_user s r,
               m_to = rc_email r, m_name = rc_name r, m_eventType = ''TICKET_PARTICIPANT'',
               m_category = or_str category (infer_category action), m_action = action,
               m_detail = detail, m_actor = actorName\<rparr>) (ticket_recipients s t excluded)\<rparr>)))"

definition queue_assignee_email :: "ticket \<Rightarrow> person \<Rightarrow> string \<Rightarrow> string option \<Rightarrow> (tstate, unit) act" where
  "queue_assignee_email t u action detail =
     whenE (u_email u \<noteq> [])
       (writes (\<lambda>s. s\<lparr>outbox := outbox s @ [\<lparr>m_companyId = t_companyId t, m_ticketId = t_id t,
          m_userId = Some (u_id u), m_to = u_email u, m_name = Some (full_name u),
          m_eventType = ''TICKET_ASSIGNEE'', m_category = ''ticket_assignment'', m_action = action,
          m_detail = detail, m_actor = None\<rparr>]\<rparr>))"

section \<open>Statuses\<close>

definition valid_transitions :: "(string \<times> string list) list" where
  "valid_transitions =
     [(''OPEN'', [''ASSIGNED'', ''IN_PROGRESS'', ''RESOLVED'']),
      (''ASSIGNED'', [''IN_PROGRESS'', ''RESOLVED'', ''OPEN'', ''ON_HOLD'']),
      (''IN_PROGRESS'', [''RESOLVED'', ''ASSIGNED'', ''OPEN'', ''ON_HOLD'']),
      (''ON_HOLD'', [''ASSIGNED'', ''IN_PROGRESS'', ''RESOLVED'', ''OPEN'']),
      (''RESOLVED'', [''CLOSED'', ''OPEN'']),
      (''CLOSED'', [''OPEN''])]"

definition may_move :: "string option \<Rightarrow> string \<Rightarrow> bool" where
  "may_move from to \<longleftrightarrow>
     from = Some to
     \<or> (case from of None \<Rightarrow> False
        | Some f \<Rightarrow> (case map_of valid_transitions f of None \<Rightarrow> False | Some xs \<Rightarrow> to \<in> set xs))"

definition status_text :: "string option \<Rightarrow> string" where
  "status_text x = (case x of None \<Rightarrow> ''null'' | Some s \<Rightarrow> s)"

definition validate_transition :: "string option \<Rightarrow> string \<Rightarrow> (tstate, unit) act" where
  "validate_transition from to =
     guard (may_move from to)
       (BadRequest (''Invalid status transition from '' @ status_text from @ '' to '' @ to))"

section \<open>Creating\<close>

record create_dto =
  c_title :: string
  c_description :: "string option"
  c_contactName :: string
  c_contactEmail :: string
  c_contactPhone :: string
  c_category :: "string option"
  c_subcategory :: "string option"
  c_location :: "string option"
  c_priority :: "string option"
  c_type :: "string option"
  c_assetId :: "string option"
  c_slaId :: "string option"

definition radix36_char :: "nat \<Rightarrow> char" where
  "radix36_char n = (if n < 10 then char_of (48 + n) else char_of (55 + n))"

fun radix36 :: "nat \<Rightarrow> string" where
  "radix36 n = (if n < 36 then [radix36_char n] else radix36 (n div 36) @ [radix36_char (n mod 36)])"

declare radix36.simps [simp del]

definition numbered :: "string \<Rightarrow> nat \<Rightarrow> string" where
  "numbered prefix n = prefix @ ''-'' @ pad_start 5 (CHR ''0'') (dec n)"

fun next_number_from :: "(string \<Rightarrow> bool) \<Rightarrow> string \<Rightarrow> string \<Rightarrow> nat \<Rightarrow> nat \<Rightarrow> string" where
  "next_number_from taken prefix fallback 0 n = fallback"
| "next_number_from taken prefix fallback (Suc k) n =
     (if taken (numbered prefix n) then next_number_from taken prefix fallback k (Suc n)
      else numbered prefix n)"

definition number_taken :: "tstate \<Rightarrow> string \<Rightarrow> bool" where
  "number_taken s x \<longleftrightarrow> list_ex (\<lambda>t. t_number t = x) (tickets s)"

definition next_ticket_number :: "world \<Rightarrow> tstate \<Rightarrow> string \<Rightarrow> nat \<Rightarrow> string" where
  "next_ticket_number v s prefix startingCount =
     next_number_from (number_taken s) prefix (prefix @ ''-'' @ radix36 (nat (now v))) 100 (Suc startingCount)"

text \<open>The table's keys: the primary key and the unique ticket number.\<close>

definition insert_ticket :: "ticket \<Rightarrow> (tstate, ticket) act" where
  "insert_ticket t s =
     (if number_taken s (t_number t) \<or> list_ex (\<lambda>x. t_id x = t_id t) (tickets s)
      then (Inl (ServerError ''duplicate entry''), s)
      else (Inr t, s\<lparr>tickets := tickets s @ [t]\<rparr>))"

definition draw :: "world \<Rightarrow> (tstate, string) act" where
  "draw v s = (Inr (uuid v (drawn s)), s\<lparr>drawn := Suc (drawn s)\<rparr>)"

definition ticket_prefix :: "string option \<Rightarrow> string" where
  "ticket_prefix company =
     (if truthy company then ''TKT-'' @ js_upper (take 4 (or_str company [])) else ''TKT-PUB'')"

definition ticket_of_dto :: "world \<Rightarrow> string \<Rightarrow> create_dto \<Rightarrow> string option \<Rightarrow> string \<Rightarrow> string \<Rightarrow> string
    \<Rightarrow> ticket" where
  "ticket_of_dto v i d company creator number token =
     \<lparr>t_id = i, t_number = number, t_title = c_title d, t_description = c_description d,
      t_contactName = Some (c_contactName d), t_contactEmail = Some (c_contactEmail d),
      t_contactPhone = Some (c_contactPhone d), t_category = c_category d,
      t_subcategory = c_subcategory d, t_location = c_location d, t_status = Some ''OPEN'',
      t_priority = Some (case c_priority d of None \<Rightarrow> ''MEDIUM'' | Some p \<Rightarrow> p),
      t_type = (case c_type d of None \<Rightarrow> ''INCIDENT'' | Some k \<Rightarrow> k), t_companyId = company,
      t_createdById = creator, t_assignedToId = None, t_assetId = c_assetId d, t_slaId = c_slaId d,
      t_contractId = None, t_trackingToken = Some token, t_onHoldReason = None, t_resolution = None,
      t_resolvedAt = None, t_resolvedById = None, t_createdAt = now v, t_deletedAt = None\<rparr>"

definition after_create :: "world \<Rightarrow> string \<Rightarrow> string \<Rightarrow> string \<Rightarrow> string option \<Rightarrow> (tstate, unit) act" where
  "after_create v i userId prio company =
     bindE (log_entry v i userId ''CREATED''
              (''Ticket created with status '' @ prio @ '' priority'') None None) (\<lambda>_.
     bindE (participant_notify i ''Ticket opened''
              (Some (''Priority: '' @ prio @ [CHR 0x0A] @ ''Status: OPEN'')) (Some userId) None []) (\<lambda>_.
     bindE (whenE (truthy company)
              (writes (\<lambda>s. s\<lparr>usage_calls := usage_calls s @ [(or_str company [], ''tickets'')]\<rparr>))) (\<lambda>_.
     notify_ticket_update company ''ticket:created'' i)))"

definition create_ticket :: "world \<Rightarrow> string \<Rightarrow> create_dto \<Rightarrow> string option \<Rightarrow> string \<Rightarrow> string
    \<Rightarrow> (tstate, ticket) act" where
  "create_ticket v token d companyId userId userType =
     bindE (guard (c_contactName d \<noteq> [] \<and> c_contactEmail d \<noteq> [] \<and> c_contactPhone d \<noteq> [])
              (BadRequest ''contactName, contactEmail, and contactPhone are required'')) (\<lambda>_.
     bindE (guard (c_title d \<noteq> []) (BadRequest ''title is required'')) (\<lambda>_.
     let company = (if userType = ''PUBLIC'' then None else companyId) in
     bindE (\<lambda>s. (ticket_count (if truthy company then [(''companyId'', js_opt company)]
                               else [(''createdById'', JStr userId)]) s, s)) (\<lambda>n.
     bindE (reads (\<lambda>s. next_ticket_number v s (ticket_prefix company) n)) (\<lambda>number.
     bindE (draw v) (\<lambda>i.
     bindE (insert_ticket (ticket_of_dto v i d company userId number token)) (\<lambda>t.
     bindE (after_create v i userId (or_str (c_priority d) ''MEDIUM'') company) (\<lambda>_. ret t)))))))"

definition create_public :: "world \<Rightarrow> string \<Rightarrow> create_dto \<Rightarrow> (tstate, ticket) act" where
  "create_public v token d =
     (let email = js_trim (js_lower (c_contactEmail d)) in
      bindE (reads (\<lambda>s. find (\<lambda>u. u_email u = email) (people s))) (\<lambda>found.
      case found of
        Some u \<Rightarrow> create_ticket v token d None (u_id u) ''PUBLIC''
      | None \<Rightarrow>
          bindE (draw v) (\<lambda>i.
          bindE (writes (\<lambda>s. s\<lparr>people := people s @
             [\<lparr>u_id = i, u_email = email, u_firstName = or_str (Some (js_trim (c_contactName d))) email,
               u_lastName = ''Requester'', u_phone = Some (c_contactPhone d), u_location = None, u_role = ''CLIENT'',
               u_userType = ''PUBLIC'', u_companyId = None, u_isActive = True, u_deletedAt = None\<rparr>]\<rparr>))
            (\<lambda>_. create_ticket v token d None i ''PUBLIC''))))"

section \<open>Updating\<close>

record update_dto =
  d_status :: patch
  d_priority :: patch
  d_title :: patch
  d_description :: patch
  d_category :: patch
  d_subcategory :: patch
  d_location :: patch
  d_assignedToId :: patch
  d_onHoldReason :: patch
  d_resolution :: patch
  d_contactName :: patch
  d_contactEmail :: patch
  d_contactPhone :: patch

definition no_update :: update_dto where
  "no_update = \<lparr>d_status = Absent, d_priority = Absent, d_title = Absent, d_description = Absent,
     d_category = Absent, d_subcategory = Absent, d_location = Absent, d_assignedToId = Absent,
     d_onHoldReason = Absent, d_resolution = Absent, d_contactName = Absent,
     d_contactEmail = Absent, d_contactPhone = Absent\<rparr>"

definition assert_assignable :: "string option \<Rightarrow> string \<Rightarrow> (tstate, unit) act" where
  "assert_assignable company userId =
     bindE (guard (truthy company) (BadRequest ''Ticket has no company context'')) (\<lambda>_.
     bindE (reads (\<lambda>s. find (\<lambda>u. u_id u = userId \<and> u_companyId u = company \<and> u_deletedAt u = None
                                \<and> u_isActive u) (people s))) (\<lambda>target.
     guard (case target of None \<Rightarrow> False | Some u \<Rightarrow> u_role u \<in> {''TECHNICIAN'', ''TENANT_ADMIN''})
       (BadRequest ''Assignee must be an active user in the current tenant'')))"

text \<open>The row after the \<open>UPDATE\<close>, from the ticket that was read and the request.\<close>

definition updated_row :: "int \<Rightarrow> string \<Rightarrow> ticket \<Rightarrow> update_dto \<Rightarrow> ticket \<Rightarrow> ticket" where
  "updated_row n actor t d r =
     (let asked = patch_truthy (d_status d); to = patch_str (d_status d);
          resolving = (asked \<and> to = ''RESOLVED'' \<and> t_status t \<noteq> Some ''RESOLVED'');
          leaving = (asked \<and> to \<noteq> ''RESOLVED'' \<and> t_status t = Some ''RESOLVED'') in
      r\<lparr>t_status := (if patch_truthy (d_assignedToId d) \<and> \<not> asked \<and> t_status t = Some ''OPEN''
                     then Some ''ASSIGNED'' else patched (d_status d) (t_status r)),
        t_priority := patched (d_priority d) (t_priority r),
        t_title := patched_str (d_title d) (t_title r),
        t_description := patched (d_description d) (t_description r),
        t_category := patched (d_category d) (t_category r),
        t_subcategory := patched (d_subcategory d) (t_subcategory r),
        t_location := patched (d_location d) (t_location r),
        t_assignedToId := patched (d_assignedToId d) (t_assignedToId r),
        t_onHoldReason := (if asked \<and> to \<noteq> ''ON_HOLD'' \<and> t_status t = Some ''ON_HOLD'' then None
                           else patched (d_onHoldReason d) (t_onHoldReason r)),
        t_contactName := patched (d_contactName d) (t_contactName r),
        t_contactEmail := patched (d_contactEmail d) (t_contactEmail r),
        t_contactPhone := patched (d_contactPhone d) (t_contactPhone r),
        t_resolution := (if leaving then None
                         else if resolving then Some (patch_str (d_resolution d))
                         else patched (d_resolution d) (t_resolution r)),
        t_resolvedAt := (if leaving then None else if resolving then Some n else t_resolvedAt r),
        t_resolvedById := (if leaving then None else if resolving then Some actor
                           else t_resolvedById r)\<rparr>)"

definition write_ticket :: "string \<Rightarrow> (ticket \<Rightarrow> ticket) \<Rightarrow> (tstate, unit) act" where
  "write_ticket i f = writes (\<lambda>s. s\<lparr>tickets := map (\<lambda>t. if t_id t = i then f t else t) (tickets s)\<rparr>)"

definition add_change :: "string \<Rightarrow> string option \<Rightarrow> string option \<Rightarrow> string list" where
  "add_change label old new =
     (if (case old of None \<Rightarrow> [] | Some x \<Rightarrow> x) \<noteq> (case new of None \<Rightarrow> [] | Some x \<Rightarrow> x)
      then [label @ '': '' @ or_str old ''None'' @ '' -> '' @ or_str new ''None''] else [])"

definition differs :: "patch \<Rightarrow> string option \<Rightarrow> bool" where
  "differs p x = (case p of Absent \<Rightarrow> False | Nulled \<Rightarrow> x \<noteq> None | Given y \<Rightarrow> x \<noteq> Some y)"

definition spaced :: "string \<Rightarrow> string" where
  "spaced = map (\<lambda>c. if c = CHR ''_'' then CHR '' '' else c)"

definition describe_update :: "ticket \<Rightarrow> ticket \<Rightarrow> person option \<Rightarrow> update_dto \<Rightarrow> (string \<times> string) option" where
  "describe_update t r assignee d =
     (let changes =
        add_change ''Status'' (t_status t) (t_status r)
        @ add_change ''Priority'' (t_priority t) (t_priority r)
        @ add_change ''Title'' (Some (t_title t)) (Some (t_title r))
        @ add_change ''Description'' (t_description t) (t_description r)
        @ add_change ''Category'' (t_category t) (t_category r)
        @ add_change ''Subcategory'' (t_subcategory t) (t_subcategory r)
        @ add_change ''Location'' (t_location t) (t_location r)
        @ add_change ''Affected user'' (t_contactName t) (t_contactName r)
        @ add_change ''Affected user email'' (t_contactEmail t) (t_contactEmail r)
        @ add_change ''Affected user phone'' (t_contactPhone t) (t_contactPhone r)
        @ (if differs (d_assignedToId d) (t_assignedToId t)
           then [''Assignment: '' @ or_str (map_option full_name assignee) ''Unassigned''] else [])
        @ (if patch_truthy (d_onHoldReason d) \<and> differs (d_onHoldReason d) (t_onHoldReason t)
           then [''Hold reason: '' @ patch_str (d_onHoldReason d)] else [])
        @ (if patch_truthy (d_resolution d) \<and> differs (d_resolution d) (t_resolution t)
           then [''Resolution: '' @ patch_str (d_resolution d)] else []) in
      if changes = [] then None
      else Some
        (if t_status r = Some ''RESOLVED'' \<and> t_status t \<noteq> Some ''RESOLVED'' then ''Ticket resolved''
         else if t_status r = Some ''ON_HOLD'' \<and> t_status t \<noteq> Some ''ON_HOLD'' then ''Ticket placed on hold''
         else if t_status r \<noteq> t_status t then ''Status changed to '' @ spaced (status_text (t_status r))
         else if differs (d_assignedToId d) (t_assignedToId t) then ''Ticket assignment changed''
         else ''Ticket details updated'', str_join [CHR 0x0A] changes))"

text \<open>The steps after the row is written: history, notifications, mail and events.\<close>

definition tell_assignee :: "ticket \<Rightarrow> string option \<Rightarrow> string \<Rightarrow> string \<Rightarrow> string \<Rightarrow> string \<Rightarrow> string option
    \<Rightarrow> (tstate, unit) act" where
  "tell_assignee t company who title body action detail =
     bindE (reads (\<lambda>s. find_user s who)) (\<lambda>found.
     case found of
       None \<Rightarrow> ret ()
     | Some u \<Rightarrow> whenE (truthy company)
         (bindE (notify_in_app (u_id u) (or_str company []) title body ''info'')
            (\<lambda>_. queue_assignee_email t u action detail)))"

definition after_status :: "world \<Rightarrow> string \<Rightarrow> string \<Rightarrow> ticket \<Rightarrow> update_dto \<Rightarrow> (tstate, unit) act" where
  "after_status v i userId t d =
     (let to = patch_str (d_status d); company = t_companyId t in
      bindE (log_entry v i userId ''STATUS_CHANGED''
               (''Status changed from '' @ status_text (t_status t) @ '' to '' @ to)
               (t_status t) (Some to)) (\<lambda>_.
      bindE (whenE (to = ''ON_HOLD'')
        (bindE (log_entry v i userId ''HOLD'' (patch_str (d_onHoldReason d)) None None) (\<lambda>_.
         whenE (truthy (t_assignedToId t))
           (tell_assignee t company (or_str (t_assignedToId t) [])
              (''Ticket '' @ t_number t @ '' on hold'') (patch_str (d_onHoldReason d))
              ''Ticket placed on hold'' (Some ''Review the ticket for the current hold status.''))))) (\<lambda>_.
      whenE (to = ''RESOLVED'')
        (bindE (log_entry v i userId ''RESOLVED''
                  (if patch_truthy (d_resolution d) then patch_str (d_resolution d) else ''Ticket resolved'')
                  (t_status t) (Some ''RESOLVED'')) (\<lambda>_.
         whenE (t_createdById t \<noteq> [] \<and> truthy company)
           (notify_in_app (t_createdById t) (or_str company [])
              (''Ticket '' @ t_number t @ '' resolved'')
              (if patch_truthy (d_resolution d) then patch_str (d_resolution d)
               else ''Ticket has been resolved'') ''success''))))))"

definition after_assign :: "world \<Rightarrow> string \<Rightarrow> string \<Rightarrow> ticket \<Rightarrow> string \<Rightarrow> string \<Rightarrow> (tstate, unit) act" where
  "after_assign v i actor t who comment =
     bindE (log_entry v i actor ''ASSIGNED'' comment
              (Some (or_str (t_assignedToId t) ''unassigned'')) (Some who)) (\<lambda>_.
     tell_assignee t (t_companyId t) who
       (''Ticket '' @ t_number t @ '' assigned to you'') (t_title t) ''Ticket assigned to you'' None)"

definition update_ticket :: "world \<Rightarrow> string \<Rightarrow> update_dto \<Rightarrow> principal \<Rightarrow> string \<Rightarrow> (tstate, ticket) act" where
  "update_ticket v i d u userId =
     bindE (find_one v u i) (\<lambda>w.
     let t = v_ticket w; company = t_companyId t; to = patch_str (d_status d);
         moving = (patch_truthy (d_status d) \<and> t_status t \<noteq> Some to) in
     bindE (if moving then
              bindE (validate_transition (t_status t) to) (\<lambda>_.
              guard (to = ''ON_HOLD'' \<longrightarrow> patch_truthy (d_onHoldReason d))
                (BadRequest ''onHoldReason is required when placing a ticket on hold''))
            else ret ()) (\<lambda>_.
     bindE (if patch_truthy (d_assignedToId d) then assert_assignable company (patch_str (d_assignedToId d))
            else ret ()) (\<lambda>_.
     bindE (guard (d_title d \<noteq> Nulled) (ServerError ''Column title cannot be null'')) (\<lambda>_.
     bindE (write_ticket i (updated_row (now v) userId t d)) (\<lambda>_.
     let r = updated_row (now v) userId t d t in
     bindE (reads (\<lambda>s. find_opt_user s (t_assignedToId r))) (\<lambda>assignee.
     bindE (whenE moving (after_status v i userId t d)) (\<lambda>_.
     bindE (whenE (patch_truthy (d_assignedToId d) \<and> differs (d_assignedToId d) (t_assignedToId t))
              (after_assign v i userId t (patch_str (d_assignedToId d))
                 (''Assigned to user '' @ patch_str (d_assignedToId d)))) (\<lambda>_.
     bindE (case describe_update t r assignee d of
              None \<Rightarrow> ret ()
            | Some (action, detail) \<Rightarrow> participant_notify i action (Some detail) (Some userId) None []) (\<lambda>_.
     bindE (notify_ticket_update company ''ticket:updated'' i) (\<lambda>_. ret r))))))))))"

definition remove_ticket :: "world \<Rightarrow> string \<Rightarrow> principal \<Rightarrow> (tstate, ticket) act" where
  "remove_ticket v i u =
     bindE (find_one v u i) (\<lambda>w.
     bindE (write_ticket i (\<lambda>r. r\<lparr>t_deletedAt := Some (now v)\<rparr>)) (\<lambda>_.
     bindE (participant_notify i ''Ticket deleted''
              (Some ''The ticket was removed from the active ticket list.'') (Some (p_id u)) None []) (\<lambda>_.
     bindE (notify_ticket_update (t_companyId (v_ticket w)) ''ticket:deleted'' i) (\<lambda>_.
     ret ((v_ticket w)\<lparr>t_deletedAt := Some (now v)\<rparr>)))))"

definition assign_ticket :: "world \<Rightarrow> string \<Rightarrow> string \<Rightarrow> principal \<Rightarrow> string \<Rightarrow> (tstate, ticket) act" where
  "assign_ticket v i target u actor =
     bindE (find_one v u i) (\<lambda>w.
     let t = v_ticket w; company = t_companyId t in
     bindE (assert_assignable company target) (\<lambda>_.
     bindE (validate_transition (t_status t) ''ASSIGNED'') (\<lambda>_.
     bindE (write_ticket i (\<lambda>r. r\<lparr>t_assignedToId := Some target, t_status := Some ''ASSIGNED''\<rparr>)) (\<lambda>_.
     bindE (after_assign v i (or_str (Some actor) target) t target ''Assigned to user'') (\<lambda>_.
     bindE (reads (\<lambda>s. find_user s target)) (\<lambda>found.
     bindE (participant_notify i ''Ticket assigned''
              (Some (case found of
                       Some a \<Rightarrow> ''Assigned to: '' @ or_str (Some (full_name a)) (u_email a)
                     | None \<Rightarrow> ''The ticket assignment changed.'')) (Some actor) None []) (\<lambda>_.
     bindE (notify_ticket_update company ''ticket:assigned'' i) (\<lambda>_.
     ret (t\<lparr>t_assignedToId := Some target, t_status := Some ''ASSIGNED''\<rparr>)))))))))"

definition resolved_row :: "int \<Rightarrow> string \<Rightarrow> string option \<Rightarrow> ticket \<Rightarrow> ticket" where
  "resolved_row n userId resolution r =
     r\<lparr>t_status := Some ''RESOLVED'',
       t_resolution := (case resolution of None \<Rightarrow> t_resolution r | Some x \<Rightarrow> Some x),
       t_resolvedAt := Some n, t_resolvedById := Some userId\<rparr>"

definition resolve_ticket :: "world \<Rightarrow> string \<Rightarrow> string option \<Rightarrow> principal \<Rightarrow> string \<Rightarrow> (tstate, ticket) act" where
  "resolve_ticket v i resolution u userId =
     bindE (find_one v u i) (\<lambda>w.
     let t = v_ticket w; company = t_companyId t in
     bindE (validate_transition (t_status t) ''RESOLVED'') (\<lambda>_.
     bindE (write_ticket i (resolved_row (now v) userId resolution)) (\<lambda>_.
     bindE (log_entry v i userId ''RESOLVED'' (or_str resolution ''Ticket resolved'')
              (t_status t) (Some ''RESOLVED'')) (\<lambda>_.
     bindE (whenE (t_createdById t \<noteq> [] \<and> truthy company)
              (notify_in_app (t_createdById t) (or_str company [])
                 (''Ticket '' @ t_number t @ '' resolved'')
                 (or_str resolution ''Ticket has been resolved'') ''success'')) (\<lambda>_.
     bindE (participant_notify i ''Ticket resolved''
              (Some (or_str resolution ''The ticket has been resolved.'')) (Some userId) None []) (\<lambda>_.
     bindE (notify_ticket_update company ''ticket:resolved'' i) (\<lambda>_.
     ret (resolved_row (now v) userId resolution t))))))))"

section \<open>Approvals\<close>

definition entry_row :: "entry \<Rightarrow> row" where
  "entry_row e c =
     (if c = ''id'' then SStr (e_id e) else if c = ''ticketId'' then SStr (e_ticketId e)
      else if c = ''action'' then SStr (e_action e) else if c = ''actorId'' then SStr (e_actorId e)
      else if c = ''isInternal'' then SInt (if e_internal e then 1 else 0) else SNull)"

text \<open>\<open>ticketTimeline.findMany\<close> knows equality and NULL only; a value that is no scalar makes
  the statement fail.\<close>

definition timeline_where :: "jsobj \<Rightarrow> tstate \<Rightarrow> entry list res" where
  "timeline_where es s =
     (if list_ex (\<lambda>(k, x). bind_param x = None) es then Inl (ServerError ''query rejected'')
      else Inr (filter (\<lambda>e. list_all (\<lambda>(k, x). if x = JNull then entry_row e k = SNull
                                  else sql_eq (entry_row e k) (bound x) = Some True) es) (timeline s)))"

record approval =
  a_id :: string
  a_status :: string
  a_entry :: string
  a_checkpoint :: "string option"
  a_by :: string

definition request_approval :: "world \<Rightarrow> string \<Rightarrow> principal \<Rightarrow> string option \<Rightarrow> string option \<Rightarrow> int option
    \<Rightarrow> (tstate, approval) act" where
  "request_approval v i u checkpoint detail amount =
     bindE (find_one v u i) (\<lambda>w.
     let cp = js_upper (or_str checkpoint ''WORK_APPROVAL'') in
     bindE (draw v) (\<lambda>aid.
     bindE (add_entry v i (p_id u) ''APPROVAL_REQUESTED''
              (ApprovalRequest aid cp
                 (or_str (trim_or_null detail) ''Customer approval requested before work continues.'')
                 amount (now v)) None (Some ''PENDING'') False) (\<lambda>e.
     bindE (notify_ticket_update (t_companyId (v_ticket w)) ''ticket:approval-requested'' i) (\<lambda>_.
     ret \<lparr>a_id = aid, a_status = ''PENDING'', a_entry = e_id e, a_checkpoint = Some cp, a_by = p_id u\<rparr>))))"

definition approval_checkpoint :: "string \<Rightarrow> entry list \<Rightarrow> string option" where
  "approval_checkpoint aid es =
     (case find (\<lambda>e. case e_comment e of ApprovalRequest a cp dt am n \<Rightarrow> a = aid | _ \<Rightarrow> False) es of
        Some e \<Rightarrow> (case e_comment e of ApprovalRequest a cp dt am n \<Rightarrow> Some cp | _ \<Rightarrow> None)
      | None \<Rightarrow> None)"

definition decide_approval :: "world \<Rightarrow> string \<Rightarrow> string \<Rightarrow> principal \<Rightarrow> string option \<Rightarrow> string option
    \<Rightarrow> (tstate, approval) act" where
  "decide_approval v i aid u decision comment =
     bindE (find_one v u i) (\<lambda>w.
     let dc = js_upper (or_str decision []) in
     bindE (guard (dc \<in> {''APPROVED'', ''REJECTED''})
              (BadRequest ''decision must be APPROVED or REJECTED'')) (\<lambda>_.
     bindE (\<lambda>s. (timeline_where [(''ticketId'', JStr i), (''action'', JStr ''APPROVAL_REQUESTED'')] s, s)) (\<lambda>es.
     let cp = approval_checkpoint aid (sort_key (\<lambda>e. - e_createdAt e) es) in
     bindE (add_entry v i (p_id u) (''APPROVAL_'' @ dc)
              (ApprovalDecision aid dc (trim_or_null comment) (now v) cp)
              (Some ''PENDING'') (Some dc) False) (\<lambda>e.
     bindE (notify_ticket_update (t_companyId (v_ticket w)) ''ticket:approval-decided'' i) (\<lambda>_.
     ret \<lparr>a_id = aid, a_status = dc, a_entry = e_id e, a_checkpoint = cp, a_by = p_id u\<rparr>)))))"

text \<open>The fold of \<open>listApprovals\<close>: a request opens an approval (keeping a status already
  there), a decision closes it.\<close>

definition approval_step :: "entry \<Rightarrow> (string \<times> approval) list \<Rightarrow> (string \<times> approval) list" where
  "approval_step e acc =
     (let put = (\<lambda>k a. if k \<in> fst ` set acc then map (\<lambda>(k', a'). if k' = k then (k, a) else (k', a')) acc
                      else acc @ [(k, a)]) in
      case e_comment e of
        ApprovalRequest k cp dt am n \<Rightarrow>
          put k \<lparr>a_id = k, a_status = (case map_of acc k of None \<Rightarrow> ''PENDING'' | Some a \<Rightarrow> or_str (Some (a_status a)) ''PENDING''),
                 a_entry = e_id e, a_checkpoint = Some cp, a_by = e_actorId e\<rparr>
      | ApprovalDecision k dc c n cp \<Rightarrow>
          put k (case map_of acc k of
                   None \<Rightarrow> \<lparr>a_id = [], a_status = dc, a_entry = [], a_checkpoint = None, a_by = e_actorId e\<rparr>
                 | Some a \<Rightarrow> a\<lparr>a_status := dc, a_by := e_actorId e\<rparr>)
      | _ \<Rightarrow> acc)"

definition list_approvals :: "world \<Rightarrow> string \<Rightarrow> principal \<Rightarrow> (tstate, approval list) act" where
  "list_approvals v i u =
     bindE (find_one v u i) (\<lambda>_.
     bindE (\<lambda>s. (timeline_where [(''ticketId'', JStr i), (''action'', JObj [(''in'',
               JArr [JStr ''APPROVAL_REQUESTED'', JStr ''APPROVAL_APPROVED'', JStr ''APPROVAL_REJECTED''])])] s, s)) (\<lambda>es.
     ret (rev (map snd (fold approval_step (sort_key e_createdAt es) [])))))"

section \<open>Controller handlers\<close>

definition access_where :: "principal \<Rightarrow> string \<Rightarrow> jsobj" where
  "access_where u i = base_scope u [(''id'', JStr i), (''deletedAt'', JNull)]"

definition assert_ticket_access :: "principal \<Rightarrow> string \<Rightarrow> (tstate, ticket) act" where
  "assert_ticket_access u i s =
     (case tickets_where s (access_where u i) of
        Inl e \<Rightarrow> (Inl e, s)
      | Inr [] \<Rightarrow> (Inl (NotFound ''Ticket not found''), s)
      | Inr (t # _) \<Rightarrow> (Inr t, s))"

definition add_comment :: "world \<Rightarrow> string \<Rightarrow> principal \<Rightarrow> string \<Rightarrow> bool \<Rightarrow> (tstate, entry) act" where
  "add_comment v i u comment internal =
     bindE (assert_ticket_access u i) (\<lambda>_.
     bindE (add_entry v i (p_id u) ''COMMENT'' (Text comment) None None internal) (\<lambda>e.
     bindE (whenE (\<not> internal)
              (participant_notify i ''Comment added'' (Some comment) (Some (p_id u)) None [])) (\<lambda>_.
     ret e)))"

definition get_timeline :: "string \<Rightarrow> principal \<Rightarrow> (tstate, entry list) act" where
  "get_timeline i u =
     bindE (assert_ticket_access u i) (\<lambda>_.
     bindE (\<lambda>s. (timeline_where ((''ticketId'', JStr i)
              # (if can_view_internal u then [] else [(''isInternal'', JBool False)])) s, s)) (\<lambda>es.
     ret (sort_key (\<lambda>e. - e_createdAt e) es)))"

fun bulk :: "(string \<Rightarrow> (tstate, ticket) act) \<Rightarrow> string list \<Rightarrow> tstate \<Rightarrow> (string \<times> bool) list \<times> tstate" where
  "bulk f [] s = ([], s)"
| "bulk f (i # is) s =
     (case f i s of (r, s1) \<Rightarrow>
        case bulk f is s1 of (rs, s2) \<Rightarrow> ((i, case r of Inl _ \<Rightarrow> False | Inr _ \<Rightarrow> True) # rs, s2))"

definition bulk_status :: "world \<Rightarrow> principal \<Rightarrow> string list \<Rightarrow> patch \<Rightarrow> tstate
    \<Rightarrow> (string \<times> bool) list \<times> tstate" where
  "bulk_status v u ids status =
     bulk (\<lambda>i. update_ticket v i (no_update\<lparr>d_status := status\<rparr>) u (p_id u)) ids"

definition bulk_assign :: "world \<Rightarrow> principal \<Rightarrow> string list \<Rightarrow> string \<Rightarrow> tstate
    \<Rightarrow> (string \<times> bool) list \<times> tstate" where
  "bulk_assign v u ids target = bulk (\<lambda>i. assign_ticket v i target u (p_id u)) ids"

definition bulk_delete :: "world \<Rightarrow> principal \<Rightarrow> string list \<Rightarrow> tstate
    \<Rightarrow> (string \<times> bool) list \<times> tstate" where
  "bulk_delete v u ids = bulk (\<lambda>i. remove_ticket v i u) ids"

section \<open>CSV export\<close>

definition csv_quote :: "string \<Rightarrow> string" where
  "csv_quote x = [CHR 0x22] @ concat (map (\<lambda>c. if c = CHR 0x22 then [CHR 0x22, CHR 0x22] else [c]) x)
     @ [CHR 0x22]"

definition csv_person :: "person option \<Rightarrow> string" where
  "csv_person p = (case p of None \<Rightarrow> [] | Some u \<Rightarrow> u_firstName u @ '' '' @ u_lastName u)"

definition csv_row :: "(int \<Rightarrow> string) \<Rightarrow> ticket \<Rightarrow> person option \<Rightarrow> person option \<Rightarrow> string" where
  "csv_row stamp t creator assignee =
     str_join '','' [t_number t, csv_quote (t_title t), or_str (t_status t) [], or_str (t_priority t) [],
       or_str (t_category t) [], or_str (t_contactName t) [], or_str (t_contactEmail t) [],
       or_str (t_contactPhone t) [], csv_person creator, csv_person assignee, stamp (t_createdAt t),
       (case t_resolvedAt t of None \<Rightarrow> [] | Some n \<Rightarrow> stamp n), csv_quote (or_str (t_resolution t) [])]"

end
