(* ===== verification/Ticket_Lemmas.thy ===== *)
theory Ticket_Lemmas
  imports Ticket_Ops
begin

text \<open>
  What the ticket operations do to the ticket table: the read paths only return tickets of
  the caller's scope, and each operation leaves the table alone or rewrites the one row the
  caller's scope let it find.
\<close>

section \<open>Reading\<close>

lemma obj_set_new: "(k, v) \<in> set (obj_set es k v)"
  by (induction es k v rule: obj_set.induct) auto

lemma obj_set_other: "(k', v') \<in> set es \<Longrightarrow> k' \<noteq> k \<Longrightarrow> (k', v') \<in> set (obj_set es k v)"
  by (induction es k v rule: obj_set.induct) auto

lemma apply_ticket_scopes_mem:
  "(k, x) \<in> set es \<Longrightarrow> k \<noteq> ''AND'' \<Longrightarrow> (k, x) \<in> set (apply_ticket_scopes v s u es)"
  by (auto simp: apply_ticket_scopes_def Let_def obj_set_other)

lemma ticket_columns_read [simp]:
  "columns (ticket_db s) = app_columns"
  "rows (ticket_db s) ''Ticket'' = map ticket_row (tickets s)"
  "rows (ticket_db s) ''User'' = map person_row (people s)"
  by (simp_all add: ticket_db_def)

definition ticket_cell :: "tstate \<Rightarrow> ticket \<Rightarrow> string \<Rightarrow> sqlv" where
  "ticket_cell s t k = lookup_col (ticket_db s) [(''Ticket'', ticket_row t)] k"

lemma ticket_cols:
  "ticket_cell s t ''id'' = SStr (t_id t)"
  "ticket_cell s t ''companyId'' = opt_sql (t_companyId t)"
  "ticket_cell s t ''createdById'' = SStr (t_createdById t)"
  "ticket_cell s t ''deletedAt'' = opt_time (t_deletedAt t)"
  by (simp_all add: ticket_cell_def app_columns_def ticket_columns_def ticket_row_def)

lemma opt_sql_eq [simp]:
  "opt_sql x = SStr y \<longleftrightarrow> x = Some y" "opt_sql x = SNull \<longleftrightarrow> x = None"
  "opt_time z = SNull \<longleftrightarrow> z = None"
  by (cases x; simp)+ (cases z; simp)

lemma sql_eq_True: "sql_eq a b = Some True \<longleftrightarrow> a = b \<and> a \<noteq> SNull"
  by (auto simp: sql_eq_def)

lemma str_cond:
  assumes "tickets_where s es = Inr ts" "t \<in> set ts" "(k, JStr x) \<in> set es"
    and "normalize_column ''Ticket'' k = k"
  shows "ticket_cell s t k = SStr x"
  using select_records_cond[OF assms(1)[unfolded tickets_where_def] assms(2,3)] assms(4)
  by (simp add: ticket_cell_def sem_column_def Let_def sql_eq_True bound_def)

lemma null_cond:
  assumes "tickets_where s es = Inr ts" "t \<in> set ts" "(k, JNull) \<in> set es"
    and "normalize_column ''Ticket'' k = k"
  shows "ticket_cell s t k = SNull"
  using select_records_cond[OF assms(1)[unfolded tickets_where_def] assms(2,3)] assms(4)
  by (simp add: ticket_cell_def sem_column_def Let_def)

lemma norm_Ticket [simp]: "normalize_column ''Ticket'' k = k"
  by (simp add: normalize_column_def)

text \<open>The tickets a caller owns: a public user's own, a tenant user's company's.\<close>

definition owned :: "principal \<Rightarrow> ticket \<Rightarrow> bool" where
  "owned u t \<longleftrightarrow>
     (if p_userType u = ''PUBLIC'' then t_createdById t = p_id u else t_companyId t = p_companyId u)"

definition tenant_user :: "principal \<Rightarrow> bool" where
  "tenant_user u \<longleftrightarrow> \<not> global_admin u \<and> \<not> is_global_tech u"

lemma base_scope_mem: "(k, x) \<in> set es \<Longrightarrow> k \<notin> {''OR'', ''createdById'', ''companyId''}
    \<Longrightarrow> (k, x) \<in> set (base_scope u es)"
  by (simp add: base_scope_def apply_global_tech_scope_def obj_set_other)

lemma tickets_where_subset: "tickets_where s es = Inr ts \<Longrightarrow> set ts \<subseteq> set (tickets s)"
  unfolding tickets_where_def by (rule select_records_subset)

lemma scoped_owned:
  assumes q: "tickets_where s es = Inr ts" and t: "t \<in> set ts" and u: "tenant_user u"
    and es: "\<And>k x. (k, x) \<in> set (base_scope u b) \<Longrightarrow> k \<noteq> ''AND'' \<Longrightarrow> (k, x) \<in> set es"
  shows "owned u t"
proof (cases "p_userType u = ''PUBLIC''")
  case True
  then have "(''createdById'', JStr (p_id u)) \<in> set (base_scope u b)"
    using u by (simp add: base_scope_def tenant_user_def obj_set_new)
  with es have "(''createdById'', JStr (p_id u)) \<in> set es" by simp
  from str_cond[OF q t this] True show ?thesis by (simp add: ticket_cols owned_def)
next
  case False
  then have m: "(''companyId'', js_opt (p_companyId u)) \<in> set es"
    using u by (intro es) (simp_all add: base_scope_def tenant_user_def obj_set_new)
  show ?thesis
  proof (cases "p_companyId u")
    case None
    with null_cond[OF q t, of "''companyId''"] m False show ?thesis by (simp add: ticket_cols owned_def)
  next
    case (Some c)
    with str_cond[OF q t, of "''companyId''"] m False show ?thesis by (simp add: ticket_cols owned_def)
  qed
qed

definition readable :: "principal \<Rightarrow> string \<Rightarrow> tstate \<Rightarrow> ticket \<Rightarrow> bool" where
  "readable u i s t \<longleftrightarrow> t \<in> set (tickets s) \<and> t_id t = i \<and> t_deletedAt t = None
     \<and> (tenant_user u \<longrightarrow> owned u t)"

lemma scoped_readable:
  assumes q: "tickets_where s es = Inr ts" and t: "t \<in> set ts"
    and es: "\<And>k x. (k, x) \<in> set (base_scope u [(''id'', JStr i), (''deletedAt'', JNull)])
               \<Longrightarrow> k \<noteq> ''AND'' \<Longrightarrow> (k, x) \<in> set es"
  shows "readable u i s t"
proof -
  have "(''id'', JStr i) \<in> set es" by (rule es) (simp_all add: base_scope_mem)
  from str_cond[OF q t this] have "t_id t = i" by (simp add: ticket_cols)
  moreover have "(''deletedAt'', JNull) \<in> set es" by (rule es) (simp_all add: base_scope_mem)
  from null_cond[OF q t this] have "t_deletedAt t = None" by (simp add: ticket_cols)
  moreover have "tenant_user u \<Longrightarrow> owned u t" using scoped_owned[OF q t _ es] by blast
  moreover have "t \<in> set (tickets s)" using tickets_where_subset[OF q] t by blast
  ultimately show ?thesis by (simp add: readable_def)
qed

lemma find_one_readable: "find_one v u i s = (Inr w, s') \<Longrightarrow> readable u i s (v_ticket w) \<and> s' = s"
proof -
  assume f: "find_one v u i s = (Inr w, s')"
  then obtain t ts where q: "tickets_where s (detail_where v s u i) = Inr (t # ts)"
    and w: "v_ticket w = t" and s: "s' = s"
    by (auto simp: find_one_def enrich_ticket_def split: sum.splits list.splits)
  have "readable u i s t"
    by (rule scoped_readable[OF q]) (simp_all add: detail_where_def apply_ticket_scopes_mem)
  with w s show ?thesis by simp
qed

lemma find_one_state: "snd (find_one v u i s) = s"
  by (simp add: find_one_def split: sum.splits list.splits)

lemma find_one_keeps [keeps_intros]: "keeps I (find_one v u i)"
  by (simp add: keeps_def find_one_state)

lemma find_one_triple:
  "triple (\<lambda>s. s = s0) (find_one v u i) (\<lambda>w s. s = s0 \<and> readable u i s0 (v_ticket w)) (\<lambda>s. s = s0)"
proof -
  have "case find_one v u i s0 of (Inl e, t) \<Rightarrow> t = s0
      | (Inr w, t) \<Rightarrow> t = s0 \<and> readable u i s0 (v_ticket w)"
    using find_one_readable[of v u i s0] find_one_state[of v u i s0]
    by (cases "find_one v u i s0"; cases "fst (find_one v u i s0)") auto
  then show ?thesis by (simp add: triple_def)
qed

section \<open>Steps that leave the ticket table alone\<close>

abbreviation same_tickets :: "ticket list \<Rightarrow> tstate \<Rightarrow> bool" where
  "same_tickets T \<equiv> (\<lambda>s. tickets s = T)"

lemma same_whenE [keeps_intros]: "keeps I m \<Longrightarrow> keeps I (whenE b m)"
  by (simp add: whenE_def keeps_ret)

lemma same_add_entry [keeps_intros]: "keeps (same_tickets T) (add_entry v i a b c d e f)"
  by (simp add: keeps_def add_entry_def Let_def)

lemma same_log_entry [keeps_intros]: "keeps (same_tickets T) (log_entry v i a b c d e)"
  unfolding log_entry_def by (intro keeps_intros)

lemma same_notify_in_app [keeps_intros]: "keeps (same_tickets T) (notify_in_app a b c d e)"
  unfolding notify_in_app_def by (rule keeps_writes) simp

lemma same_notify_update [keeps_intros]: "keeps (same_tickets T) (notify_ticket_update c e i)"
  unfolding notify_ticket_update_def by (intro keeps_intros keeps_writes) simp

lemma same_participant_notify [keeps_intros]: "keeps (same_tickets T) (participant_notify i a b c d e)"
  by (simp add: keeps_def participant_notify_def Let_def split: option.splits)

lemma same_queue_email [keeps_intros]: "keeps (same_tickets T) (queue_assignee_email t u a d)"
  unfolding queue_assignee_email_def by (intro keeps_intros keeps_writes) simp

lemma same_draw [keeps_intros]: "keeps (same_tickets T) (draw v)"
  by (simp add: keeps_def draw_def)

lemma same_validate [keeps_intros]: "keeps I (validate_transition a b)"
  unfolding validate_transition_def by (intro keeps_intros)

lemma same_assert_assignable [keeps_intros]: "keeps I (assert_assignable c x)"
  unfolding assert_assignable_def by (intro keeps_intros)

lemma same_tell [keeps_intros]: "keeps (same_tickets T) (tell_assignee t c w x y z d)"
  unfolding tell_assignee_def by (intro keeps_intros)

lemma same_after_status [keeps_intros]: "keeps (same_tickets T) (after_status v i a t d)"
  unfolding after_status_def Let_def by (intro keeps_intros)

lemma same_after_assign [keeps_intros]: "keeps (same_tickets T) (after_assign v i a t w c)"
  unfolding after_assign_def by (intro keeps_intros)

lemma same_query [keeps_intros]: "keeps I (\<lambda>s. (f s, s))"
  by (simp add: keeps_def)

section \<open>What each operation writes\<close>

text \<open>From \<open>s0\<close>, the table is unchanged, or the row of one readable ticket became a row in
  relation \<open>R\<close> to it.\<close>

definition rewrites_one :: "principal \<Rightarrow> string \<Rightarrow> (ticket \<Rightarrow> ticket \<Rightarrow> bool) \<Rightarrow> tstate \<Rightarrow> tstate \<Rightarrow> bool" where
  "rewrites_one u i R s0 s \<longleftrightarrow>
     tickets s = tickets s0
     \<or> (\<exists>t f. readable u i s0 t \<and> R t (f t)
          \<and> tickets s = map (\<lambda>r. if t_id r = i then f r else r) (tickets s0))"

lemma rewrites_one_refl: "s = s0 \<Longrightarrow> rewrites_one u i R s0 s"
  by (simp add: rewrites_one_def)

lemma triple_pre: "triple P m Q R \<Longrightarrow> (\<And>s. P' s \<Longrightarrow> P s) \<Longrightarrow> triple P' m Q R"
  by (simp add: triple_def)

lemma triple_post:
  "triple P m Q' R' \<Longrightarrow> (\<And>x s. Q' x s \<Longrightarrow> Q x s) \<Longrightarrow> (\<And>s. R' s \<Longrightarrow> R s) \<Longrightarrow> triple P m Q R"
  by (rule triple_weaken)

text \<open>A write followed by steps that leave the table alone.\<close>

lemma write_then_rest:
  assumes "R t (f t)" "readable u i s0 t" "\<And>T x. keeps (same_tickets T) (rest x)"
  shows "triple (\<lambda>s. s = s0) (bindE (write_ticket i f) rest) (\<lambda>_. rewrites_one u i R s0) (rewrites_one u i R s0)"
proof (rule triple_post)
  let ?T = "map (\<lambda>r. if t_id r = i then f r else r) (tickets s0)"
  show "triple (\<lambda>s. s = s0) (bindE (write_ticket i f) rest) (\<lambda>_. same_tickets ?T) (same_tickets ?T)"
    by (rule triple_bindE[where M = "\<lambda>_. same_tickets ?T"])
       (auto simp: write_ticket_def assms(3) intro!: triple_writes triple_keeps)
  show "same_tickets ?T s \<Longrightarrow> rewrites_one u i R s0 s" for s
    using assms(1,2) by (auto simp: rewrites_one_def)
  then show "same_tickets ?T s \<Longrightarrow> rewrites_one u i R s0 s" for s .
qed

text \<open>Reading the ticket first, with the rest proved for what was read.\<close>

lemma find_then:
  assumes "\<And>w. readable u i s0 (v_ticket w) \<Longrightarrow>
      triple (\<lambda>s. s = s0) (f w) (\<lambda>_. rewrites_one u i R s0) (rewrites_one u i R s0)"
  shows "triple (\<lambda>s. s = s0) (bindE (find_one v u i) f) (\<lambda>_. rewrites_one u i R s0) (rewrites_one u i R s0)"
proof (rule triple_bindE)
  show "triple (\<lambda>s. s = s0) (find_one v u i) (\<lambda>w s. s = s0 \<and> readable u i s0 (v_ticket w)) (rewrites_one u i R s0)"
    by (rule triple_post[OF find_one_triple]) (auto intro: rewrites_one_refl)
  show "triple (\<lambda>s. s = s0 \<and> readable u i s0 (v_ticket w)) (f w)
          (\<lambda>_. rewrites_one u i R s0) (rewrites_one u i R s0)" for w
  proof (cases "readable u i s0 (v_ticket w)")
    case True
    then show ?thesis by (intro triple_pre[OF assms]) auto
  next
    case False
    then show ?thesis by (simp add: triple_def)
  qed
qed

text \<open>A check before the write: what it establishes may be used in the rest.\<close>

lemma check_then:
  assumes "\<And>e s'. m s0 = (Inl e, s') \<Longrightarrow> s' = s0" "\<And>x s'. m s0 = (Inr x, s') \<Longrightarrow> s' = s0 \<and> B"
    and "\<And>x. B \<Longrightarrow> triple (\<lambda>s. s = s0) (f x) (\<lambda>_. rewrites_one u i R s0) (rewrites_one u i R s0)"
  shows "triple (\<lambda>s. s = s0) (bindE m f) (\<lambda>_. rewrites_one u i R s0) (rewrites_one u i R s0)"
  using assms by (fastforce simp: triple_def bindE_def rewrites_one_refl split: prod.splits sum.splits)

lemma validate_eval: "validate_transition a b s = (if may_move a b then Inr () else
    Inl (BadRequest (''Invalid status transition from '' @ status_text a @ '' to '' @ b)), s)"
  by (simp add: validate_transition_def guard_def)

lemma assert_assignable_state: "snd (assert_assignable c x s) = s"
  by (simp add: assert_assignable_def act_simps split: option.splits)

lemma assert_assignable_check: "assert_assignable c x s0 = (r, s') \<Longrightarrow> s' = s0"
  by (metis assert_assignable_state snd_conv)

definition same_owner :: "ticket \<Rightarrow> ticket \<Rightarrow> bool" where
  "same_owner t r \<longleftrightarrow> t_id r = t_id t \<and> t_number r = t_number t \<and> t_companyId r = t_companyId t
     \<and> t_createdById r = t_createdById t"

definition update_rel :: "int \<Rightarrow> string \<Rightarrow> update_dto \<Rightarrow> ticket \<Rightarrow> ticket \<Rightarrow> bool" where
  "update_rel n who d t r \<longleftrightarrow> r = updated_row n who t d t
     \<and> (patch_truthy (d_status d) \<longrightarrow> may_move (t_status t) (patch_str (d_status d)))
     \<and> (patch_truthy (d_status d) \<and> t_status t \<noteq> Some (patch_str (d_status d))
          \<and> patch_str (d_status d) = ''ON_HOLD'' \<longrightarrow> patch_truthy (d_onHoldReason d))"

lemma update_effect:
  "triple (\<lambda>s. s = s0) (update_ticket v i d u who)
     (\<lambda>_. rewrites_one u i (update_rel (now v) who d) s0) (rewrites_one u i (update_rel (now v) who d) s0)"
  unfolding update_ticket_def Let_def
  apply (rule find_then)
  apply (rule_tac B = "update_rel (now v) who d (v_ticket w) (updated_row (now v) who (v_ticket w) d (v_ticket w))"
      in check_then)
    apply (auto simp: act_simps validate_eval split: if_splits)[1]
   apply (auto simp: act_simps validate_eval update_rel_def may_move_def split: if_splits)[1]
  apply (rule_tac B = True in check_then)
    apply (auto simp: act_simps dest: assert_assignable_check split: if_splits)[1]
   apply (auto simp: act_simps dest: assert_assignable_check split: if_splits)[1]
  apply (rule_tac B = True in check_then)
    apply (auto simp: act_simps split: if_splits)[1]
   apply (auto simp: act_simps split: if_splits)[1]
  apply (rule_tac t = "v_ticket w" in write_then_rest)
    apply assumption
   apply assumption
  apply (intro keeps_intros)
  done

definition assign_rel :: "string \<Rightarrow> ticket \<Rightarrow> ticket \<Rightarrow> bool" where
  "assign_rel target t r \<longleftrightarrow> may_move (t_status t) ''ASSIGNED''
     \<and> r = t\<lparr>t_assignedToId := Some target, t_status := Some ''ASSIGNED''\<rparr>"

lemma assign_effect:
  "triple (\<lambda>s. s = s0) (assign_ticket v i target u actor)
     (\<lambda>_. rewrites_one u i (assign_rel target) s0) (rewrites_one u i (assign_rel target) s0)"
  unfolding assign_ticket_def Let_def
  apply (rule find_then)
  apply (rule_tac B = True in check_then)
    apply (auto dest: assert_assignable_check)[2]
  apply (rule_tac B = "may_move (t_status (v_ticket w)) ''ASSIGNED''" in check_then)
    apply (auto simp: validate_eval split: if_splits)[2]
  apply (rule_tac t = "v_ticket w" in write_then_rest)
    apply (simp add: assign_rel_def)
   apply assumption
  apply (intro keeps_intros)
  done

definition resolve_rel :: "int \<Rightarrow> string \<Rightarrow> string option \<Rightarrow> ticket \<Rightarrow> ticket \<Rightarrow> bool" where
  "resolve_rel n who resolution t r \<longleftrightarrow> may_move (t_status t) ''RESOLVED'' \<and> r = resolved_row n who resolution t"

lemma resolve_effect:
  "triple (\<lambda>s. s = s0) (resolve_ticket v i res u who)
     (\<lambda>_. rewrites_one u i (resolve_rel (now v) who res) s0) (rewrites_one u i (resolve_rel (now v) who res) s0)"
  unfolding resolve_ticket_def Let_def
  apply (rule find_then)
  apply (rule_tac B = "may_move (t_status (v_ticket w)) ''RESOLVED''" in check_then)
    apply (auto simp: validate_eval split: if_splits)[2]
  apply (rule_tac t = "v_ticket w" in write_then_rest)
    apply (simp add: resolve_rel_def)
   apply assumption
  apply (intro keeps_intros)
  done

lemma remove_effect:
  "triple (\<lambda>s. s = s0) (remove_ticket v i u)
     (\<lambda>_. rewrites_one u i (\<lambda>t r. r = t\<lparr>t_deletedAt := Some (now v)\<rparr>) s0)
     (rewrites_one u i (\<lambda>t r. r = t\<lparr>t_deletedAt := Some (now v)\<rparr>) s0)"
  unfolding remove_ticket_def
  apply (rule find_then)
  apply (rule_tac t = "v_ticket w" in write_then_rest)
    apply simp
   apply assumption
  apply (intro keeps_intros)
  done

text \<open>Creation appends_one one row, or nothing.\<close>

definition appends_one :: "(ticket \<Rightarrow> bool) \<Rightarrow> tstate \<Rightarrow> tstate \<Rightarrow> bool" where
  "appends_one P s0 s \<longleftrightarrow> tickets s = tickets s0
     \<or> (\<exists>t. P t \<and> tickets s = tickets s0 @ [t] \<and> t_id t \<notin> t_id ` set (tickets s0)
            \<and> t_number t \<notin> t_number ` set (tickets s0))"

definition counted :: "string option \<Rightarrow> string \<Rightarrow> jsobj" where
  "counted company userId = (if truthy company then [(''companyId'', js_opt company)]
     else [(''createdById'', JStr userId)])"

definition created_by :: "world \<Rightarrow> string \<Rightarrow> create_dto \<Rightarrow> string option \<Rightarrow> string \<Rightarrow> tstate \<Rightarrow> ticket \<Rightarrow> bool" where
  "created_by v token d company userId s0 t \<longleftrightarrow>
     (\<exists>i n. ticket_count (counted company userId) s0 = Inr n
        \<and> t = ticket_of_dto v i d company userId (next_ticket_number v s0 (ticket_prefix company) n) token)"

lemma same_create_steps [keeps_intros]: "keeps (same_tickets T) (writes (\<lambda>s. s\<lparr>usage_calls := f s\<rparr>))"
  by (rule keeps_writes) simp

definition appended :: "tstate \<Rightarrow> ticket \<Rightarrow> tstate \<Rightarrow> bool" where
  "appended s0 t s \<longleftrightarrow> tickets s = tickets s0 @ [t] \<and> t_id t \<notin> t_id ` set (tickets s0)
     \<and> t_number t \<notin> t_number ` set (tickets s0)"

lemma appended_keeps: "(\<And>T. keeps (same_tickets T) m) \<Longrightarrow> triple (appended s0 t) m (\<lambda>_. appended s0 t) (appended s0 t)"
proof -
  assume k: "\<And>T. keeps (same_tickets T) m"
  have "tickets (snd (m s)) = tickets s" for s
    using k[of "tickets s"] by (simp add: keeps_def)
  then show ?thesis
    by (auto simp: triple_def appended_def split: prod.splits sum.splits) (metis snd_conv)+
qed

lemma same_after_create [keeps_intros]: "keeps (same_tickets T) (after_create v i userId prio company)"
  unfolding after_create_def by (intro keeps_intros)

text \<open>The insertion and what follows, with the number already chosen.\<close>

lemma insert_then_rest:
  "triple (same_tickets (tickets s0)) (bindE (insert_ticket t) (\<lambda>t. bindE (after_create v i userId prio company) (\<lambda>_. ret t)))
     (\<lambda>x s. x = t \<and> appended s0 t s) (\<lambda>s. tickets s = tickets s0 \<or> appended s0 t s)"
proof (rule triple_bindE)
  show "triple (same_tickets (tickets s0)) (insert_ticket t) (\<lambda>x s. x = t \<and> appended s0 t s)
     (\<lambda>s. tickets s = tickets s0 \<or> appended s0 t s)"
    by (auto simp: triple_def insert_ticket_def number_taken_def list_ex_iff appended_def)
  have "triple (appended s0 t) (bindE (after_create v i userId prio company) (\<lambda>_. ret t))
     (\<lambda>y s. y = t \<and> appended s0 t s) (\<lambda>s. tickets s = tickets s0 \<or> appended s0 t s)"
  proof (rule triple_bindE[where M = "\<lambda>_. appended s0 t"])
    have "triple (appended s0 t) (after_create v i userId prio company) (\<lambda>_. appended s0 t) (appended s0 t)"
      by (rule appended_keeps) (intro keeps_intros)
    then show "triple (appended s0 t) (after_create v i userId prio company) (\<lambda>_. appended s0 t)
        (\<lambda>s. tickets s = tickets s0 \<or> appended s0 t s)"
      by (rule triple_post) auto
  qed (rule triple_ret, simp)
  then show "triple (\<lambda>s. x = t \<and> appended s0 t s) (bindE (after_create v i userId prio company) (\<lambda>_. ret x))
     (\<lambda>y s. y = t \<and> appended s0 t s) (\<lambda>s. tickets s = tickets s0 \<or> appended s0 t s)" for x
    by (auto simp: triple_def)
qed

lemma create_effect:
  assumes c: "company = (if userType = ''PUBLIC'' then None else companyId)"
    and r: "create_ticket v token d companyId userId userType s0 = (r, s)"
  shows "(case r of Inl _ \<Rightarrow> appends_one (created_by v token d company userId s0) s0 s
     | Inr t \<Rightarrow> created_by v token d company userId s0 t \<and> appended s0 t s)"
proof (cases "ticket_count (counted company userId) s0")
  case (Inl e)
  with r show ?thesis
    by (auto simp: create_ticket_def act_simps counted_def c[symmetric] Let_def appends_one_def split: if_splits)
next
  case (Inr n)
  let ?t = "ticket_of_dto v (uuid v (drawn s0)) d company userId
      (next_ticket_number v s0 (ticket_prefix company) n) token"
  let ?rest = "bindE (insert_ticket ?t) (\<lambda>t. bindE (after_create v (uuid v (drawn s0)) userId
      (or_str (c_priority d) ''MEDIUM'') company) (\<lambda>_. ret t))"
  have t: "created_by v token d company userId s0 ?t" using Inr by (auto simp: created_by_def)
  consider (bad) e where "r = Inl e" "s = s0" | (go) "?rest (s0\<lparr>drawn := Suc (drawn s0)\<rparr>) = (r, s)"
    using r Inr by (auto simp: create_ticket_def guard_eval reads_eval bindE_def draw_def counted_def
        c[symmetric] Let_def split: if_splits)
  then show ?thesis
  proof cases
    case bad
    then show ?thesis by (simp add: appends_one_def)
  next
    case go
    with insert_then_rest[of s0 ?t v "uuid v (drawn s0)" userId "or_str (c_priority d) ''MEDIUM''" company]
    have "case r of Inl _ \<Rightarrow> tickets s = tickets s0 \<or> appended s0 ?t s | Inr x \<Rightarrow> x = ?t \<and> appended s0 ?t s"
      by (auto simp: triple_def split: sum.splits dest!: spec[of _ "s0\<lparr>drawn := Suc (drawn s0)\<rparr>"])
    with t show ?thesis by (auto simp: appends_one_def appended_def split: sum.splits)
  qed
qed

end
