(* ===== verification/Ticket_Props.thy ===== *)
theory Ticket_Props
  imports Ticket_Lemmas
begin

text \<open>
  The ticket service as a machine over its calls, and its properties: tenants do not affect
  each other's tickets, statuses move along the transition table, the resolution fields
  follow the status, ticket numbers stay unique.
\<close>

section \<open>The machine\<close>

datatype ticket_call =
    Create string create_dto
  | Update string update_dto
  | Remove string
  | Assign string string
  | Resolve string "string option"
  | RequestApproval string "string option" "string option" "int option"
  | DecideApproval string string "string option" "string option"
  | Comment string string bool

fun ticket_step :: "world \<times> principal \<times> ticket_call \<Rightarrow> tstate \<Rightarrow> tstate" where
  "ticket_step (v, u, Create token d) s = snd (create_ticket v token d (p_companyId u) (p_id u) (p_userType u) s)"
| "ticket_step (v, u, Update i d) s = snd (update_ticket v i d u (p_id u) s)"
| "ticket_step (v, u, Remove i) s = snd (remove_ticket v i u s)"
| "ticket_step (v, u, Assign i target) s = snd (assign_ticket v i target u (p_id u) s)"
| "ticket_step (v, u, Resolve i res) s = snd (resolve_ticket v i res u (p_id u) s)"
| "ticket_step (v, u, RequestApproval i cp dt am) s = snd (request_approval v i u cp dt am s)"
| "ticket_step (v, u, DecideApproval i a dc c) s = snd (decide_approval v i a u dc c s)"
| "ticket_step (v, u, Comment i c internal) s = snd (add_comment v i u c internal s)"

definition row_step :: "int \<Rightarrow> principal \<Rightarrow> ticket_call \<Rightarrow> ticket \<Rightarrow> ticket \<Rightarrow> bool" where
  "row_step n u c t r \<longleftrightarrow>
     (case c of
        Update i d \<Rightarrow> update_rel n (p_id u) d t r
      | Remove i \<Rightarrow> r = t\<lparr>t_deletedAt := Some n\<rparr>
      | Assign i target \<Rightarrow> assign_rel target t r
      | Resolve i res \<Rightarrow> resolve_rel n (p_id u) res t r
      | _ \<Rightarrow> False)"

lemma tripleE:
  assumes "triple (\<lambda>s. s = s0) m (\<lambda>_. P) P" shows "P (snd (m s0))"
  using assms by (auto simp: triple_def split: prod.splits sum.splits)

lemma keeps_snd: "keeps (same_tickets (tickets s)) m \<Longrightarrow> tickets (snd (m s)) = tickets s"
  by (simp add: keeps_def)

lemma same_request_approval: "keeps (same_tickets T) (request_approval v i u cp dt am)"
  unfolding request_approval_def Let_def by (intro keeps_intros)

lemma same_decide_approval: "keeps (same_tickets T) (decide_approval v i a u dc c)"
  unfolding decide_approval_def Let_def by (intro keeps_intros)

lemma assert_access_state: "snd (assert_ticket_access u i s) = s"
  by (simp add: assert_ticket_access_def split: sum.splits list.splits)

lemma same_assert_access [keeps_intros]: "keeps I (assert_ticket_access u i)"
  by (simp add: keeps_def assert_access_state)

lemma same_add_comment: "keeps (same_tickets T) (add_comment v i u c b)"
  unfolding add_comment_def by (intro keeps_intros)

text \<open>Every call leaves the table alone, appends a created ticket, or rewrites one row.\<close>

definition created_row :: "world \<Rightarrow> principal \<Rightarrow> ticket_call \<Rightarrow> tstate \<Rightarrow> ticket \<Rightarrow> bool" where
  "created_row v u c s t \<longleftrightarrow> (\<exists>token d. c = Create token d
     \<and> created_by v token d (if p_userType u = ''PUBLIC'' then None else p_companyId u) (p_id u) s t)"

lemma step_cases:
  obtains (same) "tickets (ticket_step (v, u, c) s) = tickets s"
  | (new) t where "created_row v u c s t" "appended s t (ticket_step (v, u, c) s)"
  | (row) i t f where "readable u i s t" "row_step (now v) u c t (f t)"
      "tickets (ticket_step (v, u, c) s) = map (\<lambda>r. if t_id r = i then f r else r) (tickets s)"
proof (cases c)
  case (Create token d)
  let ?co = "if p_userType u = ''PUBLIC'' then None else p_companyId u"
  obtain r s' where r: "create_ticket v token d (p_companyId u) (p_id u) (p_userType u) s = (r, s')"
    by (meson surj_pair)
  from create_effect[OF refl r] have "appends_one (created_by v token d ?co (p_id u) s) s s'"
    by (auto simp: appends_one_def appended_def split: sum.splits)
  then show thesis
    using that(1,2) Create r by (auto simp: appends_one_def appended_def created_row_def)
next
  case (Update i d)
  with tripleE[OF update_effect[of s v i d u "p_id u"]] that(1,3) show thesis
    by (auto simp: rewrites_one_def row_step_def)
next
  case (Remove i)
  with tripleE[OF remove_effect[of s v i u]] that(1,3) show thesis
    by (auto simp: rewrites_one_def row_step_def)
next
  case (Assign i target)
  with tripleE[OF assign_effect[of s v i target u "p_id u"]] that(1,3) show thesis
    by (auto simp: rewrites_one_def row_step_def)
next
  case (Resolve i res)
  with tripleE[OF resolve_effect[of s v i res u "p_id u"]] that(1,3) show thesis
    by (auto simp: rewrites_one_def row_step_def)
next
  case (RequestApproval i cp dt am)
  with that(1) show thesis by (simp add: keeps_snd[OF same_request_approval])
next
  case (DecideApproval i a dc co)
  with that(1) show thesis by (simp add: keeps_snd[OF same_decide_approval])
next
  case (Comment i co b)
  with that(1) show thesis by (simp add: keeps_snd[OF same_add_comment])
qed

lemma row_step_owner: "row_step n u c t r \<Longrightarrow> same_owner t r"
  by (auto simp: row_step_def same_owner_def update_rel_def updated_row_def Let_def assign_rel_def
      resolve_rel_def resolved_row_def split: ticket_call.splits)

text \<open>A request whose status is absent or a non-empty text.\<close>

definition proper_status :: "patch \<Rightarrow> bool" where
  "proper_status p \<longleftrightarrow> p = Absent \<or> patch_truthy p"

fun proper_call :: "world \<times> principal \<times> ticket_call \<Rightarrow> bool" where
  "proper_call (v, u, Update i d) = proper_status (d_status d)"
| "proper_call _ = True"

lemma proper_status_cases:
  "proper_status p \<Longrightarrow> p = Absent \<or> (\<exists>x. p = Given x \<and> x \<noteq> [])"
  by (cases p) (auto simp: proper_status_def)

lemma row_step_status:
  assumes "row_step n u c t r"
  shows "t_status r = t_status t \<or> (\<exists>x. t_status r = Some x \<and> may_move (t_status t) x)
    \<or> (\<exists>i d. c = Update i d \<and> d_status d \<in> {Nulled, Given []} \<and> t_status r = patched (d_status d) None)"
proof (cases c)
  case (Update i d)
  with assms have r: "r = updated_row n (p_id u) t d t"
    and m: "patch_truthy (d_status d) \<Longrightarrow> may_move (t_status t) (patch_str (d_status d))"
    by (simp_all add: row_step_def update_rel_def)
  consider "d_status d = Absent" | "d_status d \<in> {Nulled, Given []}" | x where "d_status d = Given x" "x \<noteq> []"
    by (cases "d_status d") auto
  then show ?thesis
    by cases (use Update r m in \<open>auto simp: updated_row_def Let_def may_move_def valid_transitions_def\<close>)
qed (use assms in \<open>simp_all add: row_step_def assign_rel_def resolve_rel_def resolved_row_def\<close>)

section \<open>The invariant\<close>

definition keys_unique :: "tstate \<Rightarrow> bool" where
  "keys_unique s \<longleftrightarrow> distinct (map t_id (tickets s)) \<and> distinct (map t_number (tickets s))"

definition resolution_ok :: "ticket \<Rightarrow> bool" where
  "resolution_ok t \<longleftrightarrow> (t_status t = Some ''RESOLVED'' \<longleftrightarrow> t_resolvedAt t \<noteq> None)
     \<and> (t_resolvedAt t \<noteq> None \<longrightarrow> t_resolvedById t \<noteq> None)"

definition tickets_ok :: "tstate \<Rightarrow> bool" where
  "tickets_ok s \<longleftrightarrow> keys_unique s \<and> (\<forall>t \<in> set (tickets s). resolution_ok t)"

lemma key_row:
  assumes "distinct (map t_id (tickets s))" "readable u i s t"
  shows "map (\<lambda>r. if t_id r = i then f r else r) (tickets s)
       = map (\<lambda>r. if r = t then f t else r) (tickets s)"
proof (rule map_cong[OF refl])
  fix r assume "r \<in> set (tickets s)"
  moreover from assms have "inj_on t_id (set (tickets s))" "t \<in> set (tickets s)" "t_id t = i"
    by (simp_all add: readable_def distinct_map)
  ultimately have "t_id r = i \<longleftrightarrow> r = t" by (metis inj_onD)
  then show "(if t_id r = i then f r else r) = (if r = t then f t else r)" by auto
qed

lemma keyed_cases [consumes 1, case_names same new row]:
  assumes "keys_unique s"
  obtains "tickets (ticket_step (v, u, c) s) = tickets s"
  | t where "created_row v u c s t" "appended s t (ticket_step (v, u, c) s)"
  | i t r where "readable u i s t" "row_step (now v) u c t r"
      "tickets (ticket_step (v, u, c) s) = map (\<lambda>x. if x = t then r else x) (tickets s)"
proof (cases rule: step_cases[of v u c s])
  case (row i t f)
  from assms have "distinct (map t_id (tickets s))" by (simp add: keys_unique_def)
  from key_row[OF this row(1), of f] row(3)
  have "tickets (ticket_step (v, u, c) s) = map (\<lambda>x. if x = t then f t else x) (tickets s)" by metis
  with that(3) row(1,2) show thesis by blast
qed (use that in blast)+

lemma row_keys:
  assumes "\<And>r. r \<in> set xs \<Longrightarrow> g (h r) = g r"
  shows "map g (map h xs) = map g xs"
  using assms by simp

lemma updated_resolution:
  assumes "resolution_ok t" "proper_status (d_status d)"
  shows "resolution_ok (updated_row n who t d t)"
proof (cases "d_status d = Absent")
  case True
  then show ?thesis using assms(1)
    by (cases "t_status t = Some ''OPEN''") (simp_all add: resolution_ok_def updated_row_def Let_def)
next
  case False
  then obtain x where "d_status d = Given x" "x \<noteq> []" using assms(2) proper_status_cases by blast
  then show ?thesis using assms(1) by (simp add: resolution_ok_def updated_row_def Let_def)
qed

lemma assignable_from: "may_move x ''ASSIGNED'' \<Longrightarrow> x \<noteq> Some ''RESOLVED''"
  by (auto simp: may_move_def valid_transitions_def)

lemma row_step_resolution:
  assumes "row_step n u c t r" "resolution_ok t" "proper_call (v, u, c)"
  shows "resolution_ok r"
proof (cases c)
  case (Update i d)
  with assms show ?thesis by (simp add: row_step_def update_rel_def updated_resolution)
next
  case (Assign i target)
  with assms have "t_status t \<noteq> Some ''RESOLVED''" by (simp add: row_step_def assign_rel_def assignable_from)
  with Assign assms show ?thesis by (simp add: row_step_def assign_rel_def resolution_ok_def)
next
  case (Resolve i res)
  with assms show ?thesis by (simp add: row_step_def resolve_rel_def resolution_ok_def resolved_row_def)
qed (use assms in \<open>simp_all add: row_step_def resolution_ok_def\<close>)

lemma created_resolution: "created_row v u c s t \<Longrightarrow> resolution_ok t"
  by (auto simp: created_row_def created_by_def ticket_of_dto_def resolution_ok_def)

lemma step_ok:
  assumes ok: "tickets_ok s" and p: "proper_call e"
  shows "tickets_ok (ticket_step e s)"
proof -
  obtain v u c where e: "e = (v, u, c)" by (cases e)
  from ok have "keys_unique s" by (simp add: tickets_ok_def)
  then show ?thesis
  proof (cases rule: keyed_cases[of s v u c])
    case same
    with ok e show ?thesis by (simp add: tickets_ok_def keys_unique_def)
  next
    case (new t)
    with ok e show ?thesis
      by (auto simp: tickets_ok_def keys_unique_def appended_def created_resolution)
  next
    case (row i t r)
    have k: "tickets (ticket_step e s) = map (\<lambda>x. if x = t then r else x) (tickets s)"
      using row(3) e by simp
    have o: "same_owner t r" using row(2) by (rule row_step_owner)
    have "resolution_ok r"
      using row_step_resolution[OF row(2), of v] ok row(1) p e
      by (auto simp: tickets_ok_def readable_def)
    then have "\<forall>r \<in> set (tickets (ticket_step e s)). resolution_ok r"
      using ok k by (auto simp: tickets_ok_def)
    moreover have "map t_id (tickets (ticket_step e s)) = map t_id (tickets s)"
      unfolding k by (rule row_keys) (use o in \<open>simp add: same_owner_def\<close>)
    moreover have "map t_number (tickets (ticket_step e s)) = map t_number (tickets s)"
      unfolding k by (rule row_keys) (use o in \<open>simp add: same_owner_def\<close>)
    ultimately show ?thesis using ok unfolding tickets_ok_def keys_unique_def by simp
  qed
qed

interpretation tkm: guarded_machine proper_call ticket_step tickets_ok
  by unfold_locales (rule step_ok)

section \<open>A small instance\<close>

definition t_demo :: "string \<Rightarrow> string \<Rightarrow> string \<Rightarrow> ticket" where
  "t_demo i number company = \<lparr>t_id = i, t_number = number, t_title = ''Printer'', t_description = None,
     t_contactName = Some ''Ann'', t_contactEmail = Some ''ann@x.io'', t_contactPhone = Some ''5551234'',
     t_category = None, t_subcategory = None, t_location = None, t_status = Some ''OPEN'',
     t_priority = Some ''LOW'', t_type = ''INCIDENT'', t_companyId = Some company, t_createdById = ''u9'',
     t_assignedToId = None, t_assetId = None, t_slaId = None, t_contractId = None, t_trackingToken = None,
     t_onHoldReason = None, t_resolution = None, t_resolvedAt = None, t_resolvedById = None,
     t_createdAt = 0, t_deletedAt = None\<rparr>"

definition s_demo :: tstate where
  "s_demo = \<lparr>tickets = [t_demo ''t1'' ''TKT-C1-00001'' ''c1'', t_demo ''t2'' ''TKT-C2-00001'' ''c2''],
     people = [], timeline = [], relationships = [], slas = [], in_apps = [], outbox = [], emitted = [],
     usage_calls = [], drawn = 0\<rparr>"

definition w_demo :: world where
  "w_demo = \<lparr>now = 1000, uuid = (\<lambda>n. ''e'' @ dec n)\<rparr>"

definition u_demo :: "string \<Rightarrow> string \<Rightarrow> principal" where
  "u_demo role company = \<lparr>p_id = ''u1'', p_email = ''u1@x.io'', p_role = role, p_userType = ''BUSINESS'',
     p_companyId = Some company, p_effective = None, p_location = None, p_slugs = [], p_scopes = []\<rparr>"

lemma keys_demo: "keys_unique s_demo"
  by (simp add: keys_unique_def s_demo_def t_demo_def)

lemma demo_tickets [simp]:
  "tickets s_demo = [t_demo ''t1'' ''TKT-C1-00001'' ''c1'', t_demo ''t2'' ''TKT-C2-00001'' ''c2'']"
  by (simp add: s_demo_def)

lemma ok_demo: "tickets_ok s_demo"
  by (simp add: tickets_ok_def keys_demo resolution_ok_def t_demo_def)

lemma tenant_demo: "tenant_user (u_demo ''TECHNICIAN'' ''c1'')"
  by (simp add: tenant_user_def u_demo_def global_admin_def is_global_tech_def)

section \<open>Properties\<close>

text \<open>
  C1. Tenants do not affect each other's tickets. Whatever call a tenant user makes (create,
  update, assign, resolve, remove, approvals, comments), the tickets the user does not own,
  those of other companies, or of other creators for a public user, are exactly the same
  afterwards, in the same order, also when the call fails part-way.
\<close>
theorem tenant_isolation:
  assumes "tenant_user u" and "keys_unique s"
  shows "filter (\<lambda>t. \<not> owned u t) (tickets (ticket_step (v, u, c) s))
       = filter (\<lambda>t. \<not> owned u t) (tickets s)"
  using assms(2)
proof (cases rule: keyed_cases[of s v u c])
  case same
  then show ?thesis by simp
next
  case (new t)
  have "owned u t"
    using new(1) by (auto simp: created_row_def created_by_def ticket_of_dto_def owned_def)
  then show ?thesis using new(2) by (simp add: appended_def)
next
  case (row i t r)
  have "owned u t" using row(1) assms(1) by (simp add: readable_def)
  moreover have "owned u r"
    using calculation row_step_owner[OF row(2)] by (simp add: owned_def same_owner_def)
  ultimately have "filter (\<lambda>x. \<not> owned u x) (map (\<lambda>x. if x = t then r else x) xs)
      = filter (\<lambda>x. \<not> owned u x) xs" for xs
    by (induction xs) auto
  then show ?thesis by (simp only: row(3))
qed

theorem tenant_isolation_witness:
  "filter (\<lambda>t. \<not> owned (u_demo ''TECHNICIAN'' ''c1'') t)
     (tickets (ticket_step (w_demo, u_demo ''TECHNICIAN'' ''c1'', Resolve ''t1'' (Some ''done'')) s_demo))
   = [t_demo ''t2'' ''TKT-C2-00001'' ''c2'']"
  using tenant_isolation[OF tenant_demo keys_demo, of w_demo "Resolve ''t1'' (Some ''done'')"]
  by (simp add: s_demo_def owned_def u_demo_def t_demo_def)

text \<open>
  C15. Statuses move along the transition table. In every call each ticket of the table keeps
  its status or moves to one the table \<open>validTransitions\<close> allows from it, through update,
  assign, resolve and the automatic assignment of an open ticket alike; the one exception is
  an update whose status field is null or empty, which stores that value unchecked.
\<close>
theorem status_follows_table:
  assumes "keys_unique s"
    and "t \<in> set (tickets s)" and "r \<in> set (tickets (ticket_step (v, u, c) s))" and "t_id r = t_id t"
  shows "t_status r = t_status t \<or> (\<exists>x. t_status r = Some x \<and> may_move (t_status t) x)
    \<or> (\<exists>i d. c = Update i d \<and> d_status d \<in> {Nulled, Given []} \<and> t_status r = patched (d_status d) None)"
  using assms(1)
proof (cases rule: keyed_cases[of s v u c])
  case same
  with assms have "r = t" by (auto simp: keys_unique_def distinct_map dest: inj_onD)
  then show ?thesis by simp
next
  case (new t')
  with assms have "r = t" by (auto simp: appended_def keys_unique_def distinct_map dest: inj_onD)
  then show ?thesis by simp
next
  case (row i t' r')
  have d: "inj_on t_id (set (tickets s))" using assms(1) by (simp add: keys_unique_def distinct_map)
  from row(3) assms(3) obtain r0 where r0: "r0 \<in> set (tickets s)" "r = (if r0 = t' then r' else r0)"
    by auto
  with row_step_owner[OF row(2)] have "t_id r = t_id r0" by (auto simp: same_owner_def)
  with d r0(1) assms(2,4) have "r0 = t" by (auto dest: inj_onD)
  with r0(2) show ?thesis using row_step_status[OF row(2)] by auto
qed

lemma demo_resolved:
  "map (\<lambda>t. (t_id t, t_status t)) (tickets (ticket_step (w_demo, u_demo ''TECHNICIAN'' ''c1'', Resolve ''t1'' None) s_demo))
   = [(''t1'', Some ''RESOLVED''), (''t2'', Some ''OPEN'')]"
  by code_simp

theorem status_follows_table_witness:
  "\<exists>r \<in> set (tickets (ticket_step (w_demo, u_demo ''TECHNICIAN'' ''c1'', Resolve ''t1'' None) s_demo)).
     t_status r = Some ''RESOLVED'' \<and> (t_status r = Some ''OPEN''
       \<or> (\<exists>x. t_status r = Some x \<and> may_move (Some ''OPEN'') x))"
proof -
  obtain r where r: "r \<in> set (tickets (ticket_step (w_demo, u_demo ''TECHNICIAN'' ''c1'', Resolve ''t1'' None) s_demo))"
    "t_id r = ''t1''" "t_status r = Some ''RESOLVED''"
    using arg_cong[OF demo_resolved, of hd] arg_cong[OF demo_resolved, of length]
    by (cases "tickets (ticket_step (w_demo, u_demo ''TECHNICIAN'' ''c1'', Resolve ''t1'' None) s_demo)") auto
  from status_follows_table[OF keys_demo _ r(1), of "t_demo ''t1'' ''TKT-C1-00001'' ''c1''"] r(2,3)
  show ?thesis by (intro bexI[OF _ r(1)]) (simp add: t_demo_def)
qed

text \<open>
  C16. The ticket table stays consistent. From a consistent table, after any sequence of
  calls with proper status fields, by any users, ids and ticket numbers are unique, and a
  ticket has a resolution time exactly when its status is RESOLVED (with the resolving user
  recorded), so reopening and closing clear it.
\<close>
theorem tickets_stay_consistent:
  assumes "reachable_by proper_call ticket_step s0 s" and "tickets_ok s0"
  shows "keys_unique s \<and> (\<forall>t \<in> set (tickets s). resolution_ok t)"
  using tkm.reachable_inv[OF assms] by (simp add: tickets_ok_def)

theorem tickets_stay_consistent_witness:
  "keys_unique (ticket_step (w_demo, u_demo ''TECHNICIAN'' ''c1'', Resolve ''t1'' None) s_demo)"
  using tickets_stay_consistent[OF reach_step[OF reach_start, of proper_call
      "(w_demo, u_demo ''TECHNICIAN'' ''c1'', Resolve ''t1'' None)" ticket_step s_demo] ok_demo]
  by simp

end
