(* ===== verification/Ticket_Views.thy ===== *)
theory Ticket_Views
  imports Ticket_Props
begin

text \<open>
  Properties of what the ticket service shows and sends: the scope of the detail view and its
  masking, internal comments, permission scopes, the search of global technicians, numbering
  of new tickets, and the recipients of participant mail.
\<close>

lemma detail_cases:
  "ticket_detail v u i s = (Inr w, s') \<longleftrightarrow> (\<exists>w0. find_one v u i s = (Inr w0, s) \<and> w = mask_view u w0 \<and> s' = s)"
  using find_one_state[of v u i s]
  by (auto simp: ticket_detail_def act_simps split: prod.splits sum.splits)

lemma find_one_timeline:
  "find_one v u i s = (Inr w, s') \<Longrightarrow> v_timeline w = timeline_of s i 50 \<and> v_ticket w \<in> set (tickets s)"
  using find_one_readable[of v u i s w s']
  by (auto simp: find_one_def enrich_ticket_def readable_def split: sum.splits list.splits)

definition t_internal :: entry where
  "t_internal = \<lparr>e_id = ''e1'', e_ticketId = ''t1'', e_action = ''COMMENT'', e_actorId = ''u2'', e_old = None,
     e_new = None, e_comment = Text ''call the lawyer'', e_internal = True, e_createdAt = 5\<rparr>"

definition s_demo2 :: tstate where
  "s_demo2 = s_demo\<lparr>timeline := [t_internal]\<rparr>"

lemma demo2_found:
  "map_sum id v_ticket (fst (find_one w_demo (u_demo ''AUDITOR'' ''c1'') ''t1'' s_demo2))
     = Inr (t_demo ''t1'' ''TKT-C1-00001'' ''c1'')"
  by code_simp

lemma demo2_detail:
  "\<exists>w. ticket_detail w_demo (u_demo ''AUDITOR'' ''c1'') ''t1'' s_demo2 = (Inr w, s_demo2)"
  using demo2_found find_one_state[of w_demo "u_demo ''AUDITOR'' ''c1''" "''t1''" s_demo2]
  by (cases "find_one w_demo (u_demo ''AUDITOR'' ''c1'') ''t1'' s_demo2") (auto simp: detail_cases map_sum_def split: sum.splits)

text \<open>The other reads: the list, the timeline and the approvals of a ticket.\<close>

lemma listed_readable:
  assumes "tickets_where s (list_where v s u status search) = Inr ts" "t \<in> set ts" "tenant_user u"
  shows "t \<in> set (tickets s) \<and> t_deletedAt t = None \<and> owned u t"
proof -
  have m: "(k, x) \<in> set (list_where v s u status search)" if "(k, x) \<in> set (base_scope u [(''deletedAt'', JNull)])" "k \<noteq> ''AND''" for k x
  proof -
    have k: "k \<in> {''deletedAt'', ''createdById'', ''companyId''}"
      using that(1) assms(3) by (auto simp: base_scope_def tenant_user_def split: if_splits)
    have "(k, x) \<in> set (apply_ticket_scopes v s u (base_scope u [(''deletedAt'', JNull)]))"
      using that by (rule apply_ticket_scopes_mem)
    then show ?thesis using k unfolding list_where_def Let_def by (auto intro!: obj_set_other)
  qed
  have "(''deletedAt'', JNull) \<in> set (list_where v s u status search)"
    by (rule m) (simp_all add: base_scope_mem)
  from null_cond[OF assms(1,2) this] have "t_deletedAt t = None" by (simp add: ticket_cols)
  moreover have "owned u t" by (rule scoped_owned[OF assms m])
  ultimately show ?thesis using tickets_where_subset[OF assms(1)] assms(2) by blast
qed

lemma tickets_where_count:
  assumes "tickets_where s es = Inr ts" "\<And>t. t \<in> set ts \<Longrightarrow> Q t"
  shows "length ts \<le> length (filter Q (tickets s))"
proof -
  obtain P where ts: "ts = filter P (tickets s)"
    using select_records_sem[OF assms(1)[unfolded tickets_where_def]] by blast
  have "length (filter P xs) \<le> length (filter Q xs)" if "\<And>t. t \<in> set xs \<Longrightarrow> P t \<Longrightarrow> Q t" for xs
    using that by (induction xs) fastforce+
  with assms(2) ts show ?thesis by auto
qed

lemma find_all_cases: "find_all v u page limit status search s = (Inr pg, s') \<Longrightarrow>
    \<exists>ts. tickets_where s (list_where v s u status search) = Inr ts \<and> pg_total pg = length ts
      \<and> set (pg_data pg) \<subseteq> (\<lambda>t. if sees_all u then t else mask_contact t) ` set ts"
  by (cases "sees_all u") (auto simp: find_all_def page_of_def Let_def split: sum.splits dest!: in_set_takeD in_set_dropD)

lemma access_readable: "assert_ticket_access u i s = (Inr t, s') \<Longrightarrow> readable u i s t \<and> s' = s"
proof -
  assume a: "assert_ticket_access u i s = (Inr t, s')"
  then obtain ts where q: "tickets_where s (access_where u i) = Inr (t # ts)" and s: "s' = s"
    by (auto simp: assert_ticket_access_def split: sum.splits list.splits)
  have "readable u i s t" by (rule scoped_readable[OF q]) (simp_all add: access_where_def)
  with s show ?thesis by simp
qed

lemma timeline_access:
  assumes "get_timeline i u s = (Inr es, s')"
  shows "(\<exists>t. readable u i s t) \<and> (\<forall>e \<in> set es. e_ticketId e = i \<and> e \<in> set (timeline s))"
proof -
  obtain t s1 where t: "assert_ticket_access u i s = (Inr t, s1)"
    and es: "(bindE (\<lambda>s. (timeline_where ((''ticketId'', JStr i)
              # (if can_view_internal u then [] else [(''isInternal'', JBool False)])) s, s)) (\<lambda>es.
     ret (sort_key (\<lambda>e. - e_createdAt e) es))) s1 = (Inr es, s')"
    using assms by (auto simp: get_timeline_def elim: bindE_InrE)
  from access_readable[OF t] have "readable u i s t" "s1 = s" by simp_all
  then show ?thesis using es
    by (auto simp: act_simps timeline_where_def entry_row_def sql_eq_True bound_def split: if_splits)
qed

lemma approvals_access: "list_approvals v i u s = (Inr ap, s') \<Longrightarrow> \<exists>t. readable u i s t"
  by (auto simp: list_approvals_def elim!: bindE_InrE dest!: find_one_readable)

text \<open>
  The queries of the detail view and of the list are plain for a caller without narrowing
  ticket scopes, so they mean what the service writes (\<open>plain_query_as_intended\<close>).
\<close>

lemma plain_obj_set: "plain_where t es \<Longrightarrow> plain_value t k x \<Longrightarrow> plain_where t (obj_set es k x)"
  by (induction es k x rule: obj_set.induct) (simp_all add: plain_where_def)

lemma ticket_queries_plain:
  assumes "ticket_scopes u = []"
  shows "plain_where ''Ticket'' (detail_where v s u i) \<and> plain_where ''Ticket'' (list_where v s u status search)"
proof -
  have o: "plain_value t k (js_opt x)" for t k x by (cases x) simp_all
  have c: "single_op [(''contains'', js_opt x)]" for x by (simp add: single_op_def field_def)
  have b: "plain_where ''Ticket'' es \<Longrightarrow> plain_where ''Ticket'' (base_scope u es)" for es
    by (auto simp: base_scope_def apply_global_tech_scope_def exists_key_def intro!: plain_obj_set o)
  have s: "apply_ticket_scopes v s u es = es" for es using assms by (simp add: apply_ticket_scopes_def)
  have d: "plain_where ''Ticket'' [(''deletedAt'', JNull)]" "plain_where ''Ticket'' [(''id'', JStr i), (''deletedAt'', JNull)]"
    by (simp_all add: plain_where_def)
  show ?thesis unfolding detail_where_def list_where_def s Let_def
    by (auto intro!: plain_obj_set o b d simp: exists_key_def c)
qed

text \<open>
  C4. What the detail view shows a tenant user. The ticket that is returned has the id asked
  for, is not deleted, belongs to the user's company (for a public user: was created by the
  user). Unless the user is a super admin, a public user or holds the permission
  \<open>tickets.sensitive.view\<close> (those see the row as stored), its contact name, phone and mail
  address are masked, and a user without access to internal comments gets none of them.
\<close>
theorem detail_scoped_and_masked:
  assumes "ticket_detail v u i s = (Inr w, s')" and "tenant_user u"
  shows "s' = s \<and> (\<exists>t \<in> set (tickets s). t_id t = i \<and> t_deletedAt t = None \<and> owned u t
           \<and> v_ticket w = (if sees_all u then t else mask_contact t))
       \<and> (\<not> sees_all u \<and> \<not> can_view_internal u \<longrightarrow> (\<forall>e \<in> set (v_timeline w). \<not> e_internal e))"
proof -
  obtain w0 where f: "find_one v u i s = (Inr w0, s)" and w: "w = mask_view u w0" and s: "s' = s"
    using assms(1) by (auto simp: detail_cases)
  from find_one_readable[OF f] assms(2)
  have "v_ticket w0 \<in> set (tickets s)" "t_id (v_ticket w0) = i" "t_deletedAt (v_ticket w0) = None"
    "owned u (v_ticket w0)" by (simp_all add: readable_def)
  with w s show ?thesis by (auto simp: mask_view_def)
qed

theorem detail_scoped_and_masked_witness:
  "\<exists>w. ticket_detail w_demo (u_demo ''AUDITOR'' ''c1'') ''t1'' s_demo2 = (Inr w, s_demo2)
     \<and> (\<forall>e \<in> set (v_timeline w). \<not> e_internal e)"
proof -
  obtain w where w: "ticket_detail w_demo (u_demo ''AUDITOR'' ''c1'') ''t1'' s_demo2 = (Inr w, s_demo2)"
    using demo2_detail by blast
  moreover have "tenant_user (u_demo ''AUDITOR'' ''c1'')"
    by (simp add: tenant_user_def u_demo_def global_admin_def is_global_tech_def)
  ultimately have "\<forall>e \<in> set (v_timeline w). \<not> e_internal e"
    using detail_scoped_and_masked[OF w] by (simp add: sees_all_def can_view_internal_def u_demo_def)
  with w show ?thesis by blast
qed

text \<open>
  Internal comments reach public requesters. For a public user the masking returns the
  ticket as read, and the repository does not apply the \<open>isInternal\<close> condition of the
  \<open>include\<close>: the timeline is the newest 50 entries of the ticket, internal ones included.
\<close>
theorem public_reader_sees_internal:
  assumes "ticket_detail v u i s = (Inr w, s')" and "p_userType u = ''PUBLIC''"
  shows "v_timeline w = take 50 (sort_key (\<lambda>e. - e_createdAt e) (filter (\<lambda>e. e_ticketId e = i) (timeline s)))"
proof -
  obtain w0 where f: "find_one v u i s = (Inr w0, s)" and w: "w = mask_view u w0"
    using assms(1) by (auto simp: detail_cases)
  from find_one_timeline[OF f] w assms(2) show ?thesis
    by (simp add: mask_view_def sees_all_def timeline_of_def)
qed

definition u_public :: principal where
  "u_public = (u_demo ''CLIENT'' ''c1'')\<lparr>p_id := ''u9'', p_userType := ''PUBLIC'', p_companyId := None\<rparr>"

lemma public_found: "map_sum id v_ticket (fst (find_one w_demo u_public ''t1'' s_demo2))
     = Inr (t_demo ''t1'' ''TKT-C1-00001'' ''c1'')"
  by code_simp

theorem public_reader_sees_internal_witness:
  "\<exists>w. ticket_detail w_demo u_public ''t1'' s_demo2 = (Inr w, s_demo2) \<and> v_timeline w = [t_internal]"
proof -
  have "\<exists>w. ticket_detail w_demo u_public ''t1'' s_demo2 = (Inr w, s_demo2)"
    using public_found find_one_state[of w_demo u_public "''t1''" s_demo2]
    by (cases "find_one w_demo u_public ''t1'' s_demo2") (auto simp: detail_cases map_sum_def split: sum.splits)
  then obtain w where w: "ticket_detail w_demo u_public ''t1'' s_demo2 = (Inr w, s_demo2)" by blast
  from public_reader_sees_internal[OF this] have "v_timeline w = [t_internal]"
    by (simp add: u_public_def s_demo2_def t_internal_def)
  with w show ?thesis by blast
qed

text \<open>
  A caller with a narrowing ticket scope is shut out. When the caller has a permission
  scope on tickets and none of type ALL, the scope is attached as an \<open>AND\<close> object the query
  compiler has no case for: the detail view and every operation that reads the ticket first
  (update, assign, resolve, remove) fail and change nothing, as does the list.
\<close>
theorem scoped_caller_shut_out:
  assumes "ticket_scopes u \<noteq> []" and "\<forall>sc \<in> set (ticket_scopes u). scope_type sc \<noteq> ''ALL''"
  shows "(\<exists>e. find_one v u i s = (Inl e, s)) \<and> (\<exists>e. update_ticket v i d u actor s = (Inl e, s))
       \<and> (\<exists>e. assign_ticket v i target u actor s = (Inl e, s))
       \<and> (\<exists>e. resolve_ticket v i res u actor s = (Inl e, s)) \<and> (\<exists>e. remove_ticket v i u s = (Inl e, s))
       \<and> (\<exists>e. find_all v u page limit None None s = (Inl e, s))"
proof -
  have c: "\<exists>xs. (''AND'', JArr xs) \<in> set (apply_ticket_scopes v s u es)" for es
    using assms by (auto simp: apply_ticket_scopes_def Let_def list_ex_iff intro: obj_set_new)
  have n: "''AND'' \<notin> set (columns (ticket_db s) ''Ticket'')"
    by (simp add: app_columns_def ticket_columns_def)
  have "\<exists>e. tickets_where s (apply_ticket_scopes v s u es) = Inl e" for es
    using c[of es] select_AND_rejected[OF _ n] unfolding tickets_where_def by blast
  then obtain e where e: "tickets_where s (apply_ticket_scopes v s u es) = Inl (e es)" for es by metis
  then have f: "\<exists>e. find_one v u i s = (Inl e, s)"
    by (simp add: find_one_def detail_where_def)
  moreover have "\<exists>e. find_all v u page limit None None s = (Inl e, s)"
    by (simp add: find_all_def list_where_def Let_def e)
  ultimately show ?thesis
    by (auto simp: update_ticket_def assign_ticket_def resolve_ticket_def remove_ticket_def bindE_def)
qed

definition u_scoped :: principal where
  "u_scoped = (u_demo ''TECHNICIAN'' ''c1'')\<lparr>p_scopes :=
     [\<lparr>scope_slug = ''tickets.view'', scope_type = ''ASSIGNED'', scope_values = None\<rparr>]\<rparr>"

theorem scoped_caller_shut_out_witness:
  "\<exists>e. find_one w_demo u_scoped ''t1'' s_demo = (Inl e, s_demo)"
  using scoped_caller_shut_out[of u_scoped w_demo "''t1''" s_demo no_update "[]" "[]" None 1 25]
  by (simp add: u_scoped_def u_demo_def ticket_scopes_def)

text \<open>
  A search lifts the global technician's restriction. \<open>findAll\<close> stores the search in
  the \<open>OR\<close> key that holds the technician's scope, so a search returns the tickets, and their
  total, that a global administrator's same search returns, of every tenant.
\<close>
theorem global_tech_search_unscoped:
  assumes "is_global_tech u" and "ticket_scopes u = []" and "q \<noteq> []"
    and "global_admin a" and "ticket_scopes a = []"
  shows "list_where v s u None (Some q) = list_where v s a None (Some q)
       \<and> map_sum id pg_total (fst (find_all v u page limit None (Some q) s))
         = map_sum id pg_total (fst (find_all v a page limit None (Some q) s))"
proof -
  from assms(1) have "\<not> global_admin u" by (auto simp: is_global_tech_def global_admin_def)
  with assms have "list_where v s u None (Some q) = list_where v s a None (Some q)"
    by (simp add: list_where_def apply_ticket_scopes_def base_scope_def apply_global_tech_scope_def Let_def)
  then show ?thesis by (simp add: find_all_def Let_def split: sum.splits)
qed

theorem global_tech_search_unscoped_witness:
  "list_where w_demo s_demo (u_demo ''GLOBAL_TECH'' ''c9'') None (Some ''Printer'')
     = [(''deletedAt'', JNull),
        (''OR'', JArr [JObj [(''title'', JObj [(''contains'', JStr ''Printer'')])],
                       JObj [(''ticketNumber'', JObj [(''contains'', JStr ''Printer'')])]])]"
  using global_tech_search_unscoped[of "u_demo ''GLOBAL_TECH'' ''c9''" "''Printer''"
      "u_demo ''SUPER_ADMIN'' []" w_demo s_demo 1 25]
  by (simp add: is_global_tech_def global_admin_def u_demo_def ticket_scopes_def list_where_def
      apply_ticket_scopes_def base_scope_def Let_def)

section \<open>Numbering\<close>

lemma next_number_least:
  assumes "j < k" "\<not> taken (numbered p (n + j))" "\<And>i. i < j \<Longrightarrow> taken (numbered p (n + i))"
  shows "next_number_from taken p fallback k n = numbered p (n + j)"
  using assms
proof (induction k arbitrary: j n)
  case (Suc k)
  show ?case
  proof (cases j)
    case 0
    with Suc.prems show ?thesis by simp
  next
    case (Suc j')
    have "taken (numbered p n)" using Suc.prems(3)[of 0] Suc by simp
    moreover have "taken (numbered p (Suc n + i))" if "i < j'" for i
      using Suc.prems(3)[of "Suc i"] Suc that by simp
    then have "next_number_from taken p fallback k (Suc n) = numbered p (Suc n + j')"
      using Suc.prems(1,2) Suc by (intro Suc.IH) simp_all
    ultimately show ?thesis using Suc by simp
  qed
qed simp

lemma numbered_inj: "numbered p m = numbered p n \<Longrightarrow> 0 < m \<Longrightarrow> 0 < n \<Longrightarrow> m = n"
  using pad_dec_inj by (simp add: numbered_def)

text \<open>
  New tickets get the next free number. When the contact data and title are present, the
  drawn id is new and one of the hundred numbers after the count of the company's tickets
  (for public users: of the user's) is free, the creation succeeds: the ticket has the first
  free of them, is OPEN and unassigned, belongs to the caller's company (none for a public
  user), and is the only row added.
\<close>
theorem create_takes_first_free_number:
  fixes company :: "string option"
  assumes "c_contactName d \<noteq> []" "c_contactEmail d \<noteq> []" "c_contactPhone d \<noteq> []" "c_title d \<noteq> []"
    and "company = (if userType = ''PUBLIC'' then None else companyId)"
    and "ticket_count (if truthy company then [(''companyId'', js_opt company)]
                       else [(''createdById'', JStr userId)]) s = Inr n"
    and "\<forall>t \<in> set (tickets s). t_id t \<noteq> uuid v (drawn s)"
    and "j < 100" "\<not> number_taken s (numbered (ticket_prefix company) (Suc n + j))"
    and "\<forall>i < j. number_taken s (numbered (ticket_prefix company) (Suc n + i))"
  shows "\<exists>t s'. create_ticket v token d companyId userId userType s = (Inr t, s')
       \<and> tickets s' = tickets s @ [t] \<and> t_number t = numbered (ticket_prefix company) (Suc n + j)
       \<and> t_status t = Some ''OPEN'' \<and> t_assignedToId t = None \<and> t_companyId t = company
       \<and> t_createdById t = userId"
proof -
  let ?p = "ticket_prefix company"
  let ?t = "ticket_of_dto v (uuid v (drawn s)) d company userId (numbered ?p (Suc n + j)) token"
  have num: "next_ticket_number v s ?p n = numbered ?p (Suc n + j)"
    unfolding next_ticket_number_def using assms(8-10) by (intro next_number_least) auto
  have f: "fst (after_create v i who prio co x) = Inr ()" for i who prio co x
    by (simp add: after_create_def log_entry_def add_entry_def participant_notify_def whenE_def
        notify_ticket_update_def act_simps Let_def split: option.splits)
  obtain r s' where r: "create_ticket v token d companyId userId userType s = (r, s')" by (meson surj_pair)
  have "\<exists>t. r = Inr t"
    using r assms(1-4,6,7,9) num
      f[of "uuid v (drawn s)" userId "or_str (c_priority d) ''MEDIUM''" company
          "s\<lparr>drawn := Suc (drawn s), tickets := tickets s @ [?t]\<rparr>"]
    by (auto simp: create_ticket_def act_simps assms(5)[symmetric] Let_def draw_def insert_ticket_def
        number_taken_def list_ex_iff ticket_of_dto_def split: prod.splits sum.splits if_splits)
  then obtain t where t: "r = Inr t" by blast
  from create_effect[OF assms(5) r] t assms(6)
  have "created_by v token d company userId s t" "tickets s' = tickets s @ [t]"
    by (simp_all add: appended_def)
  with num assms(6) r t show ?thesis
    by (auto simp: created_by_def counted_def ticket_of_dto_def split: if_splits)
qed

definition d_demo :: create_dto where
  "d_demo = \<lparr>c_title = ''Router'', c_description = None, c_contactName = ''Bob'', c_contactEmail = ''b@x.io'',
     c_contactPhone = ''555'', c_category = None, c_subcategory = None, c_location = None,
     c_priority = None, c_type = None, c_assetId = None, c_slaId = None\<rparr>"

theorem create_takes_first_free_number_witness:
  "\<exists>t s'. create_ticket w_demo ''tok'' d_demo (Some ''c1'') ''u1'' ''BUSINESS'' s_demo = (Inr t, s')
       \<and> tickets s' = tickets s_demo @ [t] \<and> t_number t = numbered (ticket_prefix (Some ''c1'')) (Suc 1 + 0)
       \<and> t_status t = Some ''OPEN'' \<and> t_assignedToId t = None \<and> t_companyId t = Some ''c1''
       \<and> t_createdById t = ''u1''"
proof (rule create_takes_first_free_number)
  show "ticket_count (if truthy (Some ''c1'') then [(''companyId'', js_opt (Some ''c1''))]
                       else [(''createdById'', JStr ''u1'')]) s_demo = Inr 1"
    by code_simp
  show "\<forall>t \<in> set (tickets s_demo). t_id t \<noteq> uuid w_demo (drawn s_demo)"
    by (simp add: t_demo_def w_demo_def)
  show "\<not> number_taken s_demo (numbered (ticket_prefix (Some ''c1'')) (Suc 1 + 0))"
    by code_simp
qed (simp_all add: d_demo_def)

section \<open>Mail\<close>

lemma unique_fold:
  "distinct (map rc_email acc) \<Longrightarrow> distinct (map rc_email (fold unique_step rs acc))"
  by (induction rs arbitrary: acc) (auto simp: unique_step_def Let_def)

lemma unique_fold_clean:
  "\<forall>r \<in> set acc. rc_email r \<noteq> [] \<and> (\<exists>e. rc_email r = clean_email e) \<Longrightarrow>
   \<forall>r \<in> set (fold unique_step rs acc). rc_email r \<noteq> [] \<and> (\<exists>e. rc_email r = clean_email e)"
proof (induction rs arbitrary: acc)
  case (Cons r rs)
  have "\<forall>x \<in> set (unique_step r acc). rc_email x \<noteq> [] \<and> (\<exists>e. rc_email x = clean_email e)"
    using Cons.prems by (auto simp: unique_step_def Let_def)
  from Cons.IH[OF this] show ?case by simp
qed simp

text \<open>
  Participant mail goes out once per address. The notifications a ticket event queues
  keep the earlier queue, have pairwise different normalised addresses, none empty and none
  of the excluded ones, and carry the ticket's id and company; the rest of the state is
  untouched.
\<close>
theorem one_mail_per_address:
  "\<exists>ms. snd (participant_notify i action detail actorId category excluded s) = s\<lparr>outbox := outbox s @ ms\<rparr>
     \<and> distinct (map m_to ms)
     \<and> (\<forall>m \<in> set ms. m_to m \<noteq> [] \<and> m_to m \<notin> clean_email ` set excluded \<and> m_ticketId m = i
          \<and> (\<exists>t \<in> set (tickets s). t_id t = i \<and> m_companyId m = t_companyId t))"
proof (cases "find (\<lambda>t. t_id t = i) (tickets s)")
  case None
  then show ?thesis by (intro exI[of _ "[]"]) (simp add: participant_notify_def)
next
  case (Some t)
  then have t: "t \<in> set (tickets s)" "t_id t = i" by (auto dest: find_SomeD)
  let ?rs = "ticket_recipients s t excluded"
  have u: "distinct (map rc_email (unique_recipients rs))" for rs
    unfolding unique_recipients_def by (rule unique_fold) simp
  have c: "\<forall>r \<in> set (unique_recipients rs). rc_email r \<noteq> []" for rs
    unfolding unique_recipients_def using unique_fold_clean[of "[]" rs] by simp
  have "distinct (map rc_email ?rs)"
    unfolding ticket_recipients_def Let_def by (rule distinct_map_filter) (rule u)
  moreover have "\<forall>r \<in> set ?rs. rc_email r \<noteq> [] \<and> rc_email r \<notin> clean_email ` set excluded"
    unfolding ticket_recipients_def Let_def set_filter using c by blast
  moreover have "\<exists>t' \<in> set (tickets s). t_id t' = i \<and> t_companyId t = t_companyId t'"
    using t by blast
  ultimately show ?thesis
    using Some t
    by (intro exI[of _ "map (\<lambda>r. \<lparr>m_companyId = t_companyId t, m_ticketId = t_id t,
           m_userId = recipient_user s r, m_to = rc_email r, m_name = rc_name r,
           m_eventType = ''TICKET_PARTICIPANT'', m_category = or_str category (infer_category action),
           m_action = action, m_detail = detail,
           m_actor = map_option (\<lambda>a. or_str (Some (full_name a)) (u_email a)) (find_opt_user s actorId)\<rparr>) ?rs"])
       (simp add: participant_notify_def Let_def comp_def)
qed

lemma demo_notified: "length (outbox (snd (participant_notify ''t1'' ''Ticket opened'' None None None [] s_demo))) = 1"
  by code_simp

theorem one_mail_per_address_witness:
  "\<exists>ms. outbox (snd (participant_notify ''t1'' ''Ticket opened'' None None None [] s_demo)) = ms
     \<and> length ms = 1 \<and> (\<forall>m \<in> set ms. m_to m \<noteq> [] \<and> m_companyId m = Some ''c1'')"
  using one_mail_per_address[of "''t1''" "''Ticket opened''" None None None "[]" s_demo] demo_notified
  by (auto simp: s_demo_def t_demo_def)

end
