(* ===== verification/Tenant_Table.thy ===== *)
theory Tenant_Table
  imports Principal
begin

text \<open>
  Tables whose rows belong to a company, as the inventory, quote and other services keep
  them: the scope of a caller (\<open>scopeFor\<close>, \<open>resolveWriteCompany\<close>), the scoped lookup
  and the scoped \<open>UPDATE ... WHERE id = ? AND companyId = ?\<close>. The locale states what a
  service's row updates must keep, and proves once that such updates stay inside a company.
\<close>

section \<open>Scopes\<close>

text \<open>\<open>Some c\<close> restricts to the company \<open>c\<close>; \<open>None\<close> is a super admin without a selected company.\<close>

definition scope_for :: "string \<Rightarrow> principal \<Rightarrow> string option res" where
  "scope_for what u =
     (if truthy (p_companyId u) then Inr (p_companyId u)
      else if p_role u = ''SUPER_ADMIN'' then Inr (if truthy (p_effective u) then p_effective u else None)
      else Inl (Forbidden (''Select a company context to manage '' @ what)))"

definition resolve_write_company :: "string \<Rightarrow> principal \<Rightarrow> string option \<Rightarrow> string res" where
  "resolve_write_company what u requested =
     (if truthy (p_companyId u) then Inr (or_str (p_companyId u) [])
      else if p_role u = ''SUPER_ADMIN'' \<and> truthy (or_opt (p_effective u) requested)
        then Inr (or_str (or_opt (p_effective u) requested) [])
      else Inl (Forbidden (''Select a company context before creating '' @ what)))"

definition scoped_find :: "('r \<Rightarrow> string) \<Rightarrow> ('r \<Rightarrow> string) \<Rightarrow> string option \<Rightarrow> string \<Rightarrow> 'r list \<Rightarrow> 'r option" where
  "scoped_find key company scope i rows =
     find (\<lambda>r. key r = i \<and> (case scope of None \<Rightarrow> True | Some c \<Rightarrow> company r = c)) rows"

definition scoped_write :: "('r \<Rightarrow> string) \<Rightarrow> ('r \<Rightarrow> string) \<Rightarrow> string \<Rightarrow> string \<Rightarrow> ('r \<Rightarrow> 'r)
    \<Rightarrow> 'r list \<Rightarrow> 'r list" where
  "scoped_write key company i c f rows = map (\<lambda>r. if key r = i \<and> company r = c then f r else r) rows"

lemma scoped_findD:
  "scoped_find key company scope i rows = Some r \<Longrightarrow>
     r \<in> set rows \<and> key r = i \<and> (\<forall>c. scope = Some c \<longrightarrow> company r = c)"
  by (auto simp: scoped_find_def dest: find_SomeD)

text \<open>\<open>x?.trim() || null\<close> on a field that is written only when the request has it.\<close>

fun trim_patch :: "patch \<Rightarrow> patch" where
  "trim_patch Absent = Absent"
| "trim_patch Nulled = Nulled"
| "trim_patch (Given s) = (if js_trim s = [] then Nulled else Given (js_trim s))"

definition patch_opt :: "patch \<Rightarrow> string option" where
  "patch_opt p = patched p None"

text \<open>\<open>String(value).toUpperCase()\<close>, which must be one of the allowed options.\<close>

definition normalize_option :: "string \<Rightarrow> string list \<Rightarrow> string \<Rightarrow> string res" where
  "normalize_option x allowed label =
     (if js_upper x \<in> set allowed then Inr (js_upper x) else Inl (BadRequest (''Invalid '' @ label)))"

section \<open>The contract of row updates\<close>

locale tenant_table =
  fixes key :: "'r \<Rightarrow> string" and company :: "'r \<Rightarrow> string" and change :: "'p \<Rightarrow> 'r \<Rightarrow> 'r"
  assumes key_change: "key (change p r) = key r"
    and company_change: "company (change p r) = company r"
begin

lemma write_keys: "map key (scoped_write key company i c (change p) rows) = map key rows"
  by (simp add: scoped_write_def key_change)

lemma write_companies: "map company (scoped_write key company i c (change p) rows) = map company rows"
  by (simp add: scoped_write_def company_change)

lemma write_others:
  "filter (\<lambda>r. company r \<noteq> c) (scoped_write key company i c (change p) rows)
     = filter (\<lambda>r. company r \<noteq> c) rows"
  by (induction rows) (auto simp: scoped_write_def company_change)

lemma write_all:
  assumes "\<forall>r \<in> set rows. P r" "\<And>r. P r \<Longrightarrow> key r = i \<Longrightarrow> company r = c \<Longrightarrow> r \<in> set rows \<Longrightarrow> P (change p r)"
  shows "\<forall>r \<in> set (scoped_write key company i c (change p) rows). P r"
  using assms by (auto simp: scoped_write_def)

lemma write_find:
  assumes "distinct (map key rows)" "r \<in> set rows" "key r = i" "company r = c"
  shows "scoped_find key company (Some c) i (scoped_write key company i c (change p) rows) = Some (change p r)"
  using assms
proof (induction rows)
  case (Cons x rows)
  show ?case
  proof (cases "key x = i")
    case True
    with Cons.prems have "x = r" by (auto simp: image_iff)
    with Cons.prems show ?thesis by (simp add: scoped_find_def scoped_write_def key_change company_change)
  next
    case False
    with Cons show ?thesis by (auto simp: scoped_find_def scoped_write_def)
  qed
qed simp

lemma unique_row:
  assumes "distinct (map key rows)" "r \<in> set rows" "x \<in> set rows" "key x = key r"
  shows "x = r"
  using assms by (metis distinct_map inj_onD)

end

end
