(* ===== verification/Inventory.thy ===== *)
theory Inventory
  imports Tenant_Table
begin

text \<open>
  \<open>modules/inventory/inventory.service.ts\<close>: parts, locations and the stock movements with
  their log. Quantities and prices are integers of hundredths, the precision of the columns;
  a numeric request field is the number JavaScript coerces it to (NaN as 0). The prepared
  statements of the driver refuse an undefined parameter, so creating a part without one of
  its text fields fails.
\<close>

section \<open>Tables\<close>

record part =
  ip_id :: string
  ip_companyId :: string
  ip_sku :: "string option"
  ip_name :: string
  ip_description :: "string option"
  ip_category :: "string option"
  ip_vendor :: "string option"
  ip_manufacturer :: "string option"
  ip_model :: "string option"
  ip_locationId :: "string option"
  ip_unitCost :: int
  ip_unitPrice :: int
  ip_onHand :: int
  ip_reserved :: int
  ip_reorderPoint :: int
  ip_reorderQuantity :: int
  ip_status :: string
  ip_createdById :: string
  ip_updatedAt :: int

record location =
  il_id :: string
  il_companyId :: string
  il_name :: string
  il_type :: string
  il_assignedToId :: "string option"
  il_address :: "string option"

record movement =
  im_id :: string
  im_companyId :: string
  im_partId :: string
  im_locationId :: "string option"
  im_type :: string
  im_quantity :: int
  im_notes :: "string option"
  im_ticketId :: "string option"
  im_actorId :: string
  im_createdAt :: int

record istate =
  parts :: "part list"
  locations :: "location list"
  movements :: "movement list"
  i_drawn :: nat

record part_dto =
  pd_companyId :: "string option"
  pd_name :: patch
  pd_sku :: patch
  pd_description :: patch
  pd_category :: patch
  pd_vendor :: patch
  pd_manufacturer :: patch
  pd_model :: patch
  pd_locationId :: patch
  pd_unitCost :: "int option"
  pd_unitPrice :: "int option"
  pd_onHand :: "int option"
  pd_reorderPoint :: "int option"
  pd_reorderQuantity :: "int option"
  pd_status :: patch

record location_dto =
  ld_companyId :: "string option"
  ld_name :: "string option"
  ld_type :: "string option"
  ld_assignedToId :: "string option"
  ld_address :: "string option"

record movement_dto =
  md_partId :: string
  md_type :: "string option"
  md_quantity :: int
  md_locationId :: "string option"
  md_notes :: "string option"
  md_ticketId :: "string option"

section \<open>Helpers\<close>

definition LOCATION_TYPES :: "string list" where
  "LOCATION_TYPES = [''WAREHOUSE'', ''VAN'', ''CUSTOMER_SITE'', ''OTHER'']"

definition MOVEMENT_TYPES :: "string list" where
  "MOVEMENT_TYPES = [''RECEIVE'', ''ADJUST'', ''TRANSFER_IN'', ''TRANSFER_OUT'', ''RESERVE'', ''USE'', ''RETURN'']"

definition signed_quantity :: "string \<Rightarrow> int \<Rightarrow> int" where
  "signed_quantity kind q =
     (if kind \<in> {''USE'', ''TRANSFER_OUT''} then - q
      else if kind = ''RETURN'' then 0 else if kind = ''RESERVE'' then 0 else q)"

definition reserved_delta :: "string \<Rightarrow> int \<Rightarrow> int" where
  "reserved_delta kind q =
     (if kind = ''RESERVE'' then q else if kind = ''USE'' \<or> kind = ''RETURN'' then - q else 0)"

definition i_fresh :: "world \<Rightarrow> (istate, string) act" where
  "i_fresh v s = (Inr (uuid v (i_drawn s)), s\<lparr>i_drawn := Suc (i_drawn s)\<rparr>)"

definition get_part :: "principal \<Rightarrow> string \<Rightarrow> (istate, part) act" where
  "get_part u i s =
     (case scope_for ''inventory'' u of
        Inl e \<Rightarrow> (Inl e, s)
      | Inr scope \<Rightarrow> (case scoped_find ip_id ip_companyId scope i (parts s) of
            None \<Rightarrow> (Inl (NotFound ''Inventory part not found''), s)
          | Some p \<Rightarrow> (Inr p, s)))"

definition log_transaction :: "world \<Rightarrow> string \<Rightarrow> string \<Rightarrow> string option \<Rightarrow> string \<Rightarrow> int \<Rightarrow> string option
    \<Rightarrow> string option \<Rightarrow> string \<Rightarrow> (istate, unit) act" where
  "log_transaction v company partId locationId kind q notes ticketId actor =
     bindE (i_fresh v) (\<lambda>i. writes (\<lambda>s. s\<lparr>movements := movements s @
       [\<lparr>im_id = i, im_companyId = company, im_partId = partId, im_locationId = locationId,
         im_type = kind, im_quantity = q, im_notes = trim_or_null notes, im_ticketId = ticketId,
         im_actorId = actor, im_createdAt = now v\<rparr>]\<rparr>))"

section \<open>Locations\<close>

definition insert_location :: "world \<Rightarrow> string \<Rightarrow> location_dto \<Rightarrow> (istate, location) act" where
  "insert_location v company d =
     (case trim_or_null (ld_name d) of
        None \<Rightarrow> raise (BadRequest ''Location name is required'')
      | Some name \<Rightarrow>
          bindE (of_res (normalize_option (or_str (ld_type d) ''WAREHOUSE'') LOCATION_TYPES ''location type'')) (\<lambda>kind.
          bindE (i_fresh v) (\<lambda>i.
          let l = \<lparr>il_id = i, il_companyId = company, il_name = name, il_type = kind,
                   il_assignedToId = (if truthy (ld_assignedToId d) then ld_assignedToId d else None),
                   il_address = trim_or_null (ld_address d)\<rparr> in
          bindE (writes (\<lambda>s. s\<lparr>locations := locations s @ [l]\<rparr>)) (\<lambda>_. ret l))))"

definition create_location :: "world \<Rightarrow> principal \<Rightarrow> location_dto \<Rightarrow> (istate, location) act" where
  "create_location v u d =
     bindE (of_res (resolve_write_company ''inventory records'' u (ld_companyId d)))
       (\<lambda>company. insert_location v company d)"

definition default_location :: "world \<Rightarrow> string \<Rightarrow> (istate, string) act" where
  "default_location v company =
     bindE (reads (\<lambda>s. find (\<lambda>l. il_companyId l = company \<and> il_type l = ''WAREHOUSE'') (locations s))) (\<lambda>found.
     case found of
       Some l \<Rightarrow> ret (il_id l)
     | None \<Rightarrow> bindE (create_location v
           \<lparr>p_id = ''system'', p_email = ''system'', p_role = ''SUPER_ADMIN'', p_userType = ''BUSINESS'',
            p_companyId = Some company, p_effective = None, p_location = None, p_slugs = [], p_scopes = []\<rparr>
           \<lparr>ld_companyId = None, ld_name = Some ''Main Warehouse'', ld_type = Some ''WAREHOUSE'',
            ld_assignedToId = None, ld_address = None\<rparr>)
         (\<lambda>l. ret (il_id l)))"

definition assert_location :: "string \<Rightarrow> string \<Rightarrow> (istate, unit) act" where
  "assert_location company i =
     bindE (reads (\<lambda>s. list_ex (\<lambda>l. il_id l = i \<and> il_companyId l = company) (locations s))) (\<lambda>ok.
     guard ok (BadRequest ''Inventory location is not available''))"

section \<open>Parts\<close>

text \<open>The outcome of \<open>normalizePart\<close>: \<open>Absent\<close> and \<open>None\<close> are \<open>undefined\<close>.\<close>

record part_data =
  nd_name :: patch
  nd_sku :: patch
  nd_description :: patch
  nd_category :: patch
  nd_vendor :: patch
  nd_manufacturer :: patch
  nd_model :: patch
  nd_locationId :: patch
  nd_unitCost :: "int option"
  nd_unitPrice :: "int option"
  nd_onHand :: "int option"
  nd_reorderPoint :: "int option"
  nd_reorderQuantity :: "int option"
  nd_status :: patch

definition number_field :: "bool \<Rightarrow> int option \<Rightarrow> int option" where
  "number_field required x = (case x of Some n \<Rightarrow> Some (max 0 n) | None \<Rightarrow> if required then Some 0 else None)"

definition normalize_part :: "world \<Rightarrow> string \<Rightarrow> part_dto \<Rightarrow> bool \<Rightarrow> (istate, part_data) act" where
  "normalize_part v company d required =
     (let name = (case trim_patch (pd_name d) of Given n \<Rightarrow> Given n | _ \<Rightarrow> Absent) in
      bindE (guard (required \<longrightarrow> name \<noteq> Absent) (BadRequest ''Part name is required'')) (\<lambda>_.
      bindE (case pd_locationId d of
               Given l \<Rightarrow> ret (if l = [] then Nulled else Given l)
             | Nulled \<Rightarrow> ret Nulled
             | Absent \<Rightarrow> (if required then bindE (default_location v company) (\<lambda>l. ret (Given l)) else ret Absent)) (\<lambda>loc.
      bindE (case loc of Given l \<Rightarrow> assert_location company l | _ \<Rightarrow> ret ()) (\<lambda>_.
      ret \<lparr>nd_name = name, nd_sku = trim_patch (pd_sku d), nd_description = trim_patch (pd_description d),
           nd_category = trim_patch (pd_category d), nd_vendor = trim_patch (pd_vendor d),
           nd_manufacturer = trim_patch (pd_manufacturer d), nd_model = trim_patch (pd_model d),
           nd_locationId = loc, nd_unitCost = number_field required (pd_unitCost d),
           nd_unitPrice = number_field required (pd_unitPrice d),
           nd_onHand = number_field required (pd_onHand d),
           nd_reorderPoint = number_field required (pd_reorderPoint d),
           nd_reorderQuantity = number_field required (pd_reorderQuantity d),
           nd_status = (case pd_status d of
                          Absent \<Rightarrow> if required then Given ''ACTIVE'' else Absent
                        | p \<Rightarrow> (case trim_patch p of Given x \<Rightarrow> Given x | _ \<Rightarrow> Given ''ACTIVE''))\<rparr>))))"

definition opt_or :: "'a option \<Rightarrow> 'a \<Rightarrow> 'a" where
  "opt_or x d = (case x of None \<Rightarrow> d | Some y \<Rightarrow> y)"

definition sku_taken :: "istate \<Rightarrow> string \<Rightarrow> string \<Rightarrow> string option \<Rightarrow> bool" where
  "sku_taken s company i sku \<longleftrightarrow>
     sku \<noteq> None \<and> list_ex (\<lambda>p. ip_companyId p = company \<and> ip_sku p = sku \<and> ip_id p \<noteq> i) (parts s)"

definition create_part :: "world \<Rightarrow> principal \<Rightarrow> part_dto \<Rightarrow> (istate, part) act" where
  "create_part v u d =
     bindE (of_res (resolve_write_company ''inventory records'' u (pd_companyId d))) (\<lambda>company.
     bindE (normalize_part v company d True) (\<lambda>n.
     let q = opt_or (nd_onHand n) 0 in
     bindE (i_fresh v) (\<lambda>i.
     bindE (guard (Absent \<notin> {nd_sku n, nd_description n, nd_category n, nd_vendor n, nd_manufacturer n, nd_model n})
              (ServerError ''Bind parameters must not contain undefined'')) (\<lambda>_.
     bindE (reads (\<lambda>s. sku_taken s company i (patch_opt (nd_sku n)) \<or> list_ex (\<lambda>p. ip_id p = i) (parts s))) (\<lambda>dup.
     bindE (guard (\<not> dup) (ServerError ''duplicate entry'')) (\<lambda>_.
     bindE (writes (\<lambda>s. s\<lparr>parts := parts s @
        [\<lparr>ip_id = i, ip_companyId = company, ip_sku = patch_opt (nd_sku n), ip_name = patch_str (nd_name n),
          ip_description = patch_opt (nd_description n), ip_category = patch_opt (nd_category n),
          ip_vendor = patch_opt (nd_vendor n), ip_manufacturer = patch_opt (nd_manufacturer n),
          ip_model = patch_opt (nd_model n), ip_locationId = patch_opt (nd_locationId n),
          ip_unitCost = opt_or (nd_unitCost n) 0, ip_unitPrice = opt_or (nd_unitPrice n) 0,
          ip_onHand = q, ip_reserved = 0, ip_reorderPoint = opt_or (nd_reorderPoint n) 0,
          ip_reorderQuantity = opt_or (nd_reorderQuantity n) 0, ip_status = patch_str (nd_status n),
          ip_createdById = p_id u, ip_updatedAt = now v\<rparr>]\<rparr>)) (\<lambda>_.
     bindE (if q > 0 then log_transaction v company i (patch_opt (nd_locationId n)) ''RECEIVE'' q
              (Some ''Initial stock'') None (p_id u) else ret ()) (\<lambda>_.
     get_part u i))))))))"

definition change_part :: "int \<times> part_data \<Rightarrow> part \<Rightarrow> part" where
  "change_part c r = (case c of (t, n) \<Rightarrow>
     r\<lparr>ip_sku := patched (nd_sku n) (ip_sku r), ip_name := patched_str (nd_name n) (ip_name r),
       ip_description := patched (nd_description n) (ip_description r),
       ip_category := patched (nd_category n) (ip_category r),
       ip_vendor := patched (nd_vendor n) (ip_vendor r),
       ip_manufacturer := patched (nd_manufacturer n) (ip_manufacturer r),
       ip_model := patched (nd_model n) (ip_model r),
       ip_locationId := patched (nd_locationId n) (ip_locationId r),
       ip_unitCost := opt_or (nd_unitCost n) (ip_unitCost r),
       ip_unitPrice := opt_or (nd_unitPrice n) (ip_unitPrice r),
       ip_onHand := opt_or (nd_onHand n) (ip_onHand r),
       ip_reorderPoint := opt_or (nd_reorderPoint n) (ip_reorderPoint r),
       ip_reorderQuantity := opt_or (nd_reorderQuantity n) (ip_reorderQuantity r),
       ip_status := patched_str (nd_status n) (ip_status r), ip_updatedAt := t\<rparr>)"

definition update_part :: "world \<Rightarrow> principal \<Rightarrow> string \<Rightarrow> part_dto \<Rightarrow> (istate, part) act" where
  "update_part v u i d =
     bindE (get_part u i) (\<lambda>_.
     bindE (of_res (resolve_write_company ''inventory records'' u (pd_companyId d))) (\<lambda>company.
     bindE (normalize_part v company d False) (\<lambda>n.
     bindE (reads (\<lambda>s. list_ex (\<lambda>p. ip_id p = i \<and> ip_companyId p = company) (parts s)
                      \<and> sku_taken s company i (case nd_sku n of Given x \<Rightarrow> Some x | _ \<Rightarrow> None))) (\<lambda>dup.
     bindE (guard (\<not> dup) (ServerError ''duplicate entry'')) (\<lambda>_.
     bindE (writes (\<lambda>s. s\<lparr>parts := scoped_write ip_id ip_companyId i company (change_part (now v, n)) (parts s)\<rparr>)) (\<lambda>_.
     get_part u i))))))"

section \<open>Movements\<close>

text \<open>The checks of \<open>createMovement\<close> on the part as it was read, and the write that follows.\<close>

definition check_movement :: "part \<Rightarrow> string \<Rightarrow> int \<Rightarrow> unit res" where
  "check_movement p kind q =
     (let available = ip_onHand p - ip_reserved p in
      if q \<le> 0 then Inl (BadRequest ''Quantity must be greater than zero'')
      else if kind \<in> {''USE'', ''TRANSFER_OUT''} \<and> q > available then Inl (BadRequest ''Not enough available stock'')
      else if kind = ''RESERVE'' \<and> q > available then Inl (BadRequest ''Not enough available stock to reserve'')
      else if kind = ''RETURN'' \<and> q > ip_reserved p then Inl (BadRequest ''Return quantity exceeds reserved stock'')
      else Inr ())"

definition move_stock :: "int \<times> string \<times> int \<Rightarrow> part \<Rightarrow> part" where
  "move_stock c r = (case c of (t, kind, q) \<Rightarrow>
     r\<lparr>ip_onHand := ip_onHand r + signed_quantity kind q,
       ip_reserved := max 0 (ip_reserved r + reserved_delta kind q), ip_updatedAt := t\<rparr>)"

definition write_movement :: "world \<Rightarrow> principal \<Rightarrow> movement_dto \<Rightarrow> part \<Rightarrow> string \<Rightarrow> (istate, part) act" where
  "write_movement v u d p kind =
     (let q = max 0 (md_quantity d) in
      bindE (writes (\<lambda>s. s\<lparr>parts := scoped_write ip_id ip_companyId (ip_id p) (ip_companyId p)
               (move_stock (now v, kind, q)) (parts s)\<rparr>)) (\<lambda>_.
      bindE (log_transaction v (ip_companyId p) (ip_id p)
               (if truthy (md_locationId d) then md_locationId d else ip_locationId p) kind q (md_notes d)
               (if truthy (md_ticketId d) then md_ticketId d else None) (p_id u)) (\<lambda>_.
      get_part u (ip_id p))))"

definition create_movement :: "world \<Rightarrow> principal \<Rightarrow> movement_dto \<Rightarrow> (istate, part) act" where
  "create_movement v u d =
     bindE (get_part u (md_partId d)) (\<lambda>p.
     bindE (of_res (normalize_option (or_str (md_type d) []) MOVEMENT_TYPES ''movement type'')) (\<lambda>kind.
     bindE (of_res (check_movement p kind (max 0 (md_quantity d)))) (\<lambda>_.
     write_movement v u d p kind)))"

section \<open>Reports\<close>

record inventory_summary =
  sum_parts :: nat
  sum_lowStock :: nat
  sum_value :: int
  sum_reserved :: int
  sum_poNeeded :: nat

definition in_scope :: "('r \<Rightarrow> string) \<Rightarrow> string option \<Rightarrow> 'r list \<Rightarrow> 'r list" where
  "in_scope company scope rows = filter (\<lambda>r. case scope of None \<Rightarrow> True | Some c \<Rightarrow> company r = c) rows"

definition inventory_report :: "principal \<Rightarrow> (istate, inventory_summary) act" where
  "inventory_report u =
     bindE (of_res (scope_for ''inventory'' u)) (\<lambda>scope.
     bindE (reads (\<lambda>s. in_scope ip_companyId scope (parts s))) (\<lambda>ps.
     ret \<lparr>sum_parts = length ps,
          sum_lowStock = length (filter (\<lambda>p. ip_onHand p \<le> ip_reorderPoint p) ps),
          sum_value = sum_list (map (\<lambda>p. ip_onHand p * ip_unitCost p) ps),
          sum_reserved = sum_list (map ip_reserved ps),
          sum_poNeeded = length (filter (\<lambda>p. ip_onHand p \<le> ip_reorderPoint p \<and> ip_reorderPoint p > 0) ps)\<rparr>))"

definition list_transactions :: "principal \<Rightarrow> string option \<Rightarrow> string option \<Rightarrow> nat \<Rightarrow> (istate, movement list) act" where
  "list_transactions u partId ticketId limit =
     bindE (of_res (scope_for ''inventory'' u)) (\<lambda>scope.
     bindE (reads (\<lambda>s. filter (\<lambda>m. (truthy partId \<longrightarrow> Some (im_partId m) = partId)
                               \<and> (truthy ticketId \<longrightarrow> im_ticketId m = ticketId))
                         (in_scope im_companyId scope (movements s)))) (\<lambda>ms.
     ret (take (min (max (if limit = 0 then 50 else limit) 1) 200)
            (sort_key (\<lambda>m. - im_createdAt m) ms))))"

end
