(* ===== verification/Inventory_Props.thy ===== *)
theory Inventory_Props
  imports Inventory
begin

text \<open>
  The stock invariant of the inventory: over any sequence of part and location creations,
  part edits that leave the count alone and movements, the stock of a part is the sum of its
  logged movements and covers its reservations. Two interleaved movements break it.
\<close>

section \<open>The tables of the model satisfy the tenant contract\<close>

interpretation part_edit: tenant_table ip_id ip_companyId change_part
  by unfold_locales (auto simp: change_part_def split: prod.splits)

interpretation part_move: tenant_table ip_id ip_companyId move_stock
  by unfold_locales (auto simp: move_stock_def split: prod.splits)

section \<open>Effects\<close>

abbreviation same_stock :: "part list \<Rightarrow> movement list \<Rightarrow> istate \<Rightarrow> bool" where
  "same_stock P M \<equiv> (\<lambda>s. parts s = P \<and> movements s = M)"

lemma fresh_stock [keeps_intros]: "keeps (same_stock P M) (i_fresh v)"
  by (simp add: keeps_def i_fresh_def)

lemma insert_location_stock [keeps_intros]: "keeps (same_stock P M) (insert_location v c d)"
  unfolding insert_location_def Let_def by (intro keeps_intros keeps_writes) simp

lemma create_location_stock [keeps_intros]: "keeps (same_stock P M) (create_location v u d)"
  unfolding create_location_def by (intro keeps_intros)

lemma normalize_part_stock [keeps_intros]: "keeps (same_stock P M) (normalize_part v c d b)"
  unfolding normalize_part_def default_location_def assert_location_def Let_def
  by (intro keeps_intros | simp split: patch.split | (intro allI impI conjI))+

lemma get_part_state: "snd (get_part u i s) = s"
  by (simp add: get_part_def split: sum.splits option.splits)

lemma get_part_cases: "get_part u i s = (Inr p, s') \<longleftrightarrow> s' = s \<and>
   (\<exists>scope. scope_for ''inventory'' u = Inr scope \<and> scoped_find ip_id ip_companyId scope i (parts s) = Some p)"
  by (auto simp: get_part_def split: sum.splits option.splits)

lemma get_part_stored: "get_part u i s = (Inr p, s') \<Longrightarrow> p \<in> set (parts s) \<and> ip_id p = i"
  by (auto simp: get_part_cases dest: scoped_findD)

definition logged :: "string \<Rightarrow> string \<Rightarrow> int \<Rightarrow> movement \<Rightarrow> bool" where
  "logged i kind q m \<longleftrightarrow> im_partId m = i \<and> im_type m = kind \<and> im_quantity m = q"

lemma write_movement_effect:
  "\<exists>m. logged (ip_id p) kind (max 0 (md_quantity d)) m
     \<and> movements (snd (write_movement v u d p kind s)) = movements s @ [m]
     \<and> parts (snd (write_movement v u d p kind s)) = scoped_write ip_id ip_companyId (ip_id p) (ip_companyId p)
         (move_stock (now v, kind, max 0 (md_quantity d))) (parts s)"
  by (auto simp: write_movement_def log_transaction_def i_fresh_def act_simps get_part_state logged_def Let_def)

lemma create_movement_effect:
  obtains "snd (create_movement v u d s) = s"
  | p kind m where "p \<in> set (parts s)" "check_movement p kind (max 0 (md_quantity d)) = Inr ()"
      "kind \<in> set MOVEMENT_TYPES" "logged (ip_id p) kind (max 0 (md_quantity d)) m"
      "movements (snd (create_movement v u d s)) = movements s @ [m]"
      "parts (snd (create_movement v u d s)) = scoped_write ip_id ip_companyId (ip_id p) (ip_companyId p)
         (move_stock (now v, kind, max 0 (md_quantity d))) (parts s)"
      "get_part u (md_partId d) s = (Inr p, s)"
proof -
  show thesis
  proof (cases "get_part u (md_partId d) s")
    case (Pair r s1)
    with get_part_state[of u "md_partId d" s] have s1: "s1 = s" by simp
    show thesis
    proof (cases r)
      case (Inl e)
      with Pair s1 that(1) show thesis by (simp add: create_movement_def act_simps)
    next
      case (Inr p)
      with Pair s1 have g: "get_part u (md_partId d) s = (Inr p, s)" by simp
      show thesis
      proof (cases "normalize_option (or_str (md_type d) []) MOVEMENT_TYPES ''movement type''")
        case (Inl e)
        with g that(1) show thesis by (simp add: create_movement_def act_simps)
      next
        case (Inr kind)
        then have k: "kind \<in> set MOVEMENT_TYPES" by (auto simp: normalize_option_def split: if_splits)
        show thesis
        proof (cases "check_movement p kind (max 0 (md_quantity d))")
          case (Inl e)
          with g Inr that(1) show thesis by (simp add: create_movement_def act_simps)
        next
          case (Inr x)
          have e: "create_movement v u d s = write_movement v u d p kind s"
            using g \<open>normalize_option _ _ _ = Inr kind\<close> Inr by (simp add: create_movement_def act_simps)
          from write_movement_effect[where p = p and kind = kind and d = d and v = v and u = u and s = s] that(2)[of p kind] get_part_stored[OF g] k Inr g
          show thesis unfolding e by auto
        qed
      qed
    qed
  qed
qed

section \<open>The invariant\<close>

definition ledger :: "movement list \<Rightarrow> string \<Rightarrow> int" where
  "ledger ms i = sum_list (map (\<lambda>m. signed_quantity (im_type m) (im_quantity m)) (filter (\<lambda>m. im_partId m = i) ms))"

definition part_ok :: "movement list \<Rightarrow> part \<Rightarrow> bool" where
  "part_ok ms p \<longleftrightarrow> 0 \<le> ip_reserved p \<and> ip_reserved p \<le> ip_onHand p \<and> ip_onHand p = ledger ms (ip_id p)"

definition stock_ok :: "istate \<Rightarrow> bool" where
  "stock_ok s \<longleftrightarrow> distinct (map ip_id (parts s)) \<and> (\<forall>p \<in> set (parts s). part_ok (movements s) p)
     \<and> (\<forall>m \<in> set (movements s). im_partId m \<in> ip_id ` set (parts s))"

datatype stock_call = NewPart part_dto | EditPart string part_dto | NewLocation location_dto | Move movement_dto

fun stock_step :: "world \<times> principal \<times> stock_call \<Rightarrow> istate \<Rightarrow> istate" where
  "stock_step (v, u, NewPart d) s = snd (create_part v u d s)"
| "stock_step (v, u, EditPart i d) s = snd (update_part v u i d s)"
| "stock_step (v, u, NewLocation d) s = snd (create_location v u d s)"
| "stock_step (v, u, Move d) s = snd (create_movement v u d s)"

text \<open>An edit that does not overwrite the count.\<close>

fun keeps_count :: "world \<times> principal \<times> stock_call \<Rightarrow> bool" where
  "keeps_count (v, u, EditPart i d) = (pd_onHand d = None)"
| "keeps_count _ = True"

lemma ledger_append: "ledger (ms @ [m]) i =
    ledger ms i + (if im_partId m = i then signed_quantity (im_type m) (im_quantity m) else 0)"
  by (simp add: ledger_def)

lemma ledger_none: "\<forall>m \<in> set ms. im_partId m \<noteq> i \<Longrightarrow> ledger ms i = 0"
  by (induction ms) (simp_all add: ledger_def)

lemma move_stock_ok:
  assumes "part_ok ms p" "check_movement p kind q = Inr ()" "kind \<in> set MOVEMENT_TYPES"
    and "logged (ip_id p) kind q m"
  shows "part_ok (ms @ [m]) (move_stock (t, kind, q) p)"
  using assms
  by (auto simp: part_ok_def check_movement_def MOVEMENT_TYPES_def move_stock_def signed_quantity_def
      reserved_delta_def logged_def ledger_append Let_def split: if_splits)

lemma stock_move:
  assumes "stock_ok s"
  shows "stock_ok (snd (create_movement v u d s))"
proof (cases rule: create_movement_effect[of v u d s])
  case 1
  with assms show ?thesis by simp
next
  case (2 p kind m)
  let ?q = "max 0 (md_quantity d)"
  let ?s = "snd (create_movement v u d s)"
  have d: "distinct (map ip_id (parts s))" using assms by (simp add: stock_ok_def)
  have ids: "map ip_id (parts ?s) = map ip_id (parts s)" using 2(6) by (simp add: part_move.write_keys)
  have "part_ok (movements ?s) r'" if r': "r' \<in> set (parts ?s)" for r'
  proof -
    from r' 2(6) obtain r where r: "r \<in> set (parts s)"
      and e: "r' = (if ip_id r = ip_id p \<and> ip_companyId r = ip_companyId p
                    then move_stock (now v, kind, ?q) r else r)"
      by (auto simp: scoped_write_def)
    show ?thesis
    proof (cases "ip_id r = ip_id p")
      case True
      with part_move.unique_row[OF d 2(1) r] have "r = p" by simp
      with e move_stock_ok[OF _ 2(2,3,4)] assms 2(1,5) show ?thesis by (simp add: stock_ok_def)
    next
      case False
      with e r assms 2(4,5) show ?thesis
        by (auto simp: stock_ok_def part_ok_def ledger_append logged_def)
    qed
  qed
  moreover have "ip_id ` set (parts ?s) = ip_id ` set (parts s)"
    using ids by (metis list.set_map)
  ultimately show ?thesis
    using assms d ids 2(1,4,5) by (auto simp: stock_ok_def logged_def)
qed

lemma stock_same: "stock_ok s \<Longrightarrow> parts t = parts s \<Longrightarrow> movements t = movements s \<Longrightarrow> stock_ok t"
  by (simp add: stock_ok_def)

lemma stock_location: "stock_ok s \<Longrightarrow> stock_ok (snd (create_location v u d s))"
  using create_location_stock[of "parts s" "movements s" v u d]
  by (auto simp: keeps_def intro: stock_same)

lemma normalize_part_state:
  "normalize_part v c d b s = (r, t) \<Longrightarrow> parts t = parts s \<and> movements t = movements s"
  using normalize_part_stock[of "parts s" "movements s" v c d b] by (auto dest: keepsD)

lemma normalize_part_count:
  "normalize_part v c d False s = (Inr n, t) \<Longrightarrow> pd_onHand d = None \<Longrightarrow> nd_onHand n = None"
  by (auto simp: normalize_part_def Let_def number_field_def elim!: bindE_InrE simp: ret_def)

lemma normalize_part_nonneg:
  "normalize_part v c d True s = (Inr n, t) \<Longrightarrow> \<exists>q \<ge> 0. nd_onHand n = Some q"
  by (auto simp: normalize_part_def Let_def number_field_def elim!: bindE_InrE
      simp: ret_def split: option.splits)

lemma update_part_effect:
  obtains "parts (snd (update_part v u i d s)) = parts s" "movements (snd (update_part v u i d s)) = movements s"
  | company nd where "resolve_write_company ''inventory records'' u (pd_companyId d) = Inr company"
      "pd_onHand d = None \<longrightarrow> nd_onHand nd = None"
      "parts (snd (update_part v u i d s)) =
         scoped_write ip_id ip_companyId i company (change_part (now v, nd)) (parts s)"
      "movements (snd (update_part v u i d s)) = movements s"
proof (cases "get_part u i s")
  case (Pair r0 s0)
  with get_part_state[of u i s] have s0: "s0 = s" by simp
  show thesis
  proof (cases r0)
    case (Inl e)
    with Pair s0 that(1) show thesis by (simp add: update_part_def act_simps)
  next
    case g: (Inr p)
    show thesis
    proof (cases "resolve_write_company ''inventory records'' u (pd_companyId d)")
      case (Inl e)
      with Pair s0 g that(1) show thesis by (simp add: update_part_def act_simps)
    next
      case c: (Inr company)
      obtain r1 s1 where n: "normalize_part v company d False s = (r1, s1)" by (meson surj_pair)
      from normalize_part_state[OF n] have s1: "parts s1 = parts s" "movements s1 = movements s" by simp_all
      show thesis
      proof (cases r1)
        case (Inl e)
        with n Pair s0 g c s1 that(1) show thesis by (simp add: update_part_def act_simps)
      next
        case (Inr nd)
        let ?P = "scoped_write ip_id ip_companyId i company (change_part (now v, nd)) (parts s1)"
        have "snd (update_part v u i d s) = s1 \<or> snd (update_part v u i d s) = s1\<lparr>parts := ?P\<rparr>"
          using n Pair s0 g c Inr by (simp add: update_part_def act_simps get_part_state)
        moreover have "pd_onHand d = None \<longrightarrow> nd_onHand nd = None"
          using n Inr normalize_part_count by blast
        ultimately show thesis using that(1) that(2)[OF c, of nd] s1 by auto
      qed
    qed
  qed
qed

lemma stock_edit:
  assumes "stock_ok s" "pd_onHand d = None"
  shows "stock_ok (snd (update_part v u i d s))"
proof (cases rule: update_part_effect[of v u i d s])
  case 1
  with assms(1) show ?thesis by (auto intro: stock_same)
next
  case (2 company nd)
  let ?P = "scoped_write ip_id ip_companyId i company (change_part (now v, nd)) (parts s)"
  have ids: "map ip_id ?P = map ip_id (parts s)" by (rule part_edit.write_keys)
  have "\<forall>r \<in> set ?P. part_ok (movements s) r"
    by (rule part_edit.write_all)
      (use assms 2(2) in \<open>auto simp: stock_ok_def part_ok_def change_part_def opt_or_def\<close>)
  moreover have "ip_id ` set ?P = ip_id ` set (parts s)" using ids by (metis list.set_map)
  ultimately show ?thesis using assms ids 2(3,4) by (simp add: stock_ok_def)
qed

lemma create_part_effect:
  obtains "parts (snd (create_part v u d s)) = parts s" "movements (snd (create_part v u d s)) = movements s"
  | p ms where "parts (snd (create_part v u d s)) = parts s @ [p]" "ip_id p \<notin> ip_id ` set (parts s)"
      "movements (snd (create_part v u d s)) = movements s @ ms" "ip_reserved p = 0" "ip_onHand p \<ge> 0"
      "ms = [] \<and> ip_onHand p = 0 \<or> (\<exists>m. ms = [m] \<and> logged (ip_id p) ''RECEIVE'' (ip_onHand p) m)"
      "resolve_write_company ''inventory records'' u (pd_companyId d) = Inr (ip_companyId p)"
proof (cases "resolve_write_company ''inventory records'' u (pd_companyId d)")
  case (Inl e)
  with that(1) show thesis by (simp add: create_part_def act_simps)
next
  case c: (Inr company)
  obtain r1 s1 where n: "normalize_part v company d True s = (r1, s1)" by (meson surj_pair)
  from normalize_part_state[OF n] have s1: "parts s1 = parts s" "movements s1 = movements s" by simp_all
  show thesis
  proof (cases r1)
    case (Inl e)
    with n c s1 that(1) show thesis by (simp add: create_part_def act_simps)
  next
    case (Inr nd)
    with n obtain q where q: "nd_onHand nd = Some q" "q \<ge> 0" by (auto dest: normalize_part_nonneg)
    show thesis
    proof (cases "Absent \<in> {nd_sku nd, nd_description nd, nd_category nd, nd_vendor nd, nd_manufacturer nd, nd_model nd}
        \<or> sku_taken (s1\<lparr>i_drawn := Suc (i_drawn s1)\<rparr>) company (uuid v (i_drawn s1)) (patch_opt (nd_sku nd))
        \<or> list_ex (\<lambda>p. ip_id p = uuid v (i_drawn s1)) (parts s1)")
      case True
      then have "snd (create_part v u d s) = s1\<lparr>i_drawn := Suc (i_drawn s1)\<rparr>"
        using n c Inr by (auto simp: create_part_def act_simps i_fresh_def Let_def)
      with s1 that(1) show thesis by simp
    next
      case False
      let ?t = "snd (create_part v u d s)"
      note eval = create_part_def act_simps i_fresh_def Let_def get_part_state log_transaction_def
        opt_or_def logged_def list_ex_iff
      show thesis
      proof (cases "q > 0")
        case True
        show thesis
          by (rule that(2)[of "last (parts ?t)" "[last (movements ?t)]"])
            (use True False n c Inr q s1 in \<open>auto simp: eval\<close>)
      next
        case nq: False
        show thesis
          by (rule that(2)[of "last (parts ?t)" "[]"])
            (use nq False n c Inr q s1 in \<open>auto simp: eval\<close>)
      qed
    qed
  qed
qed

lemma stock_new:
  assumes "stock_ok s"
  shows "stock_ok (snd (create_part v u d s))"
proof (cases rule: create_part_effect[of v u d s])
  case 1
  with assms show ?thesis by (auto intro: stock_same)
next
  case (2 p ms)
  have "\<forall>m \<in> set (movements s). im_partId m \<noteq> ip_id p"
    using assms 2(2) unfolding stock_ok_def by metis
  then have none: "ledger (movements s) (ip_id p) = 0" by (rule ledger_none)
  from 2(6) none have new: "ledger (movements s @ ms) (ip_id p) = ip_onHand p"
    by (auto simp: ledger_append logged_def signed_quantity_def)
  have old: "ledger (movements s @ ms) (ip_id r) = ledger (movements s) (ip_id r)" if "r \<in> set (parts s)" for r
    using 2(2,6) that by (auto simp: ledger_append logged_def)
  show ?thesis
    using assms 2(1-5) new old 2(6) by (auto simp: stock_ok_def part_ok_def logged_def)
qed

lemma stock_step_ok: "keeps_count e \<Longrightarrow> stock_ok s \<Longrightarrow> stock_ok (stock_step e s)"
  by (cases e rule: keeps_count.cases)
    (simp_all add: stock_new stock_edit stock_location stock_move)

interpretation stockm: guarded_machine keeps_count stock_step stock_ok
  by unfold_locales (rule stock_step_ok)

section \<open>A small instance\<close>

definition i_demo :: istate where
  "i_demo = \<lparr>parts = [], locations = [], movements = [], i_drawn = 0\<rparr>"

definition i_world :: world where
  "i_world = \<lparr>now = 7, uuid = (\<lambda>n. ''i'' @ dec n)\<rparr>"

definition i_user :: principal where
  "i_user = \<lparr>p_id = ''u1'', p_email = ''u1@x.io'', p_role = ''TENANT_ADMIN'', p_userType = ''BUSINESS'',
     p_companyId = Some ''c1'', p_effective = None, p_location = None, p_slugs = [], p_scopes = []\<rparr>"

definition new_cable :: part_dto where
  "new_cable = \<lparr>pd_companyId = None, pd_name = Given ''Cable'', pd_sku = Given ''K1'', pd_description = Nulled,
     pd_category = Nulled, pd_vendor = Nulled, pd_manufacturer = Nulled, pd_model = Nulled,
     pd_locationId = Nulled, pd_unitCost = Some 100, pd_unitPrice = Some 250, pd_onHand = Some 1000,
     pd_reorderPoint = Some 100, pd_reorderQuantity = None, pd_status = Absent\<rparr>"

definition use_cable :: "int \<Rightarrow> movement_dto" where
  "use_cable q = \<lparr>md_partId = ''i0'', md_type = Some ''use'', md_quantity = q, md_locationId = None,
     md_notes = None, md_ticketId = None\<rparr>"

definition i_demo1 :: istate where
  "i_demo1 = stock_step (i_world, i_user, NewPart new_cable) i_demo"

definition i_demo2 :: istate where
  "i_demo2 = stock_step (i_world, i_user, Move (use_cable 300)) i_demo1"

lemma i_demo_ok: "stock_ok i_demo"
  by (simp add: stock_ok_def i_demo_def)

lemma i_demo2_reachable: "reachable_by keeps_count stock_step i_demo i_demo2"
  unfolding i_demo2_def i_demo1_def by (intro reach_step reach_start) simp_all

lemma i_demo2_stock: "map ip_onHand (parts i_demo2) = [700]"
  by code_simp

section \<open>Properties\<close>

text \<open>
  C18. Stock agrees with its log. From an inventory where it holds (an empty one, say), after
  any sequence of part creations, location creations, part edits without a count and
  movements, by any users and with failures among them, every part's reservations are
  between zero and its stock, and its stock is the sum of the logged movements: receipts,
  adjustments and transfers in minus uses and transfers out.
\<close>
theorem stock_agrees_with_log:
  assumes "reachable_by keeps_count stock_step s0 s" and "stock_ok s0" and "p \<in> set (parts s)"
  shows "0 \<le> ip_reserved p \<and> ip_reserved p \<le> ip_onHand p
       \<and> ip_onHand p = sum_list (map (\<lambda>m. signed_quantity (im_type m) (im_quantity m))
                          (filter (\<lambda>m. im_partId m = ip_id p) (movements s)))"
proof -
  from stockm.reachable_inv[OF assms(1,2)] assms(3) have "part_ok (movements s) p"
    by (simp add: stock_ok_def)
  then show ?thesis unfolding part_ok_def ledger_def by blast
qed

theorem stock_agrees_with_log_witness:
  "ip_onHand (hd (parts i_demo2)) = 700 \<and> ip_reserved (hd (parts i_demo2)) \<le> 700
   \<and> sum_list (map (\<lambda>m. signed_quantity (im_type m) (im_quantity m))
       (filter (\<lambda>m. im_partId m = ip_id (hd (parts i_demo2))) (movements i_demo2))) = 700"
proof -
  obtain p where p: "parts i_demo2 = [p]" "ip_onHand p = 700" using i_demo2_stock by auto
  then have "p \<in> set (parts i_demo2)" by simp
  from stock_agrees_with_log[OF i_demo2_reachable i_demo_ok this] p show ?thesis by simp
qed

lemma scope_of_tenant: "truthy (p_companyId u) \<Longrightarrow> scope_for w u = Inr scope \<Longrightarrow> scope = p_companyId u"
  by (simp add: scope_for_def split: if_splits)

lemma write_company_of_tenant:
  "truthy (p_companyId u) \<Longrightarrow> resolve_write_company w u r = Inr c \<Longrightarrow> p_companyId u = Some c"
  by (cases "p_companyId u") (simp_all add: resolve_write_company_def or_str_def)

text \<open>
  The inventory keeps tenants apart. No call of a user with a company changes a part of
  another company, nor its place in the table.
\<close>
theorem inventory_isolation:
  assumes "p_companyId u = Some c" and "c \<noteq> []"
  shows "filter (\<lambda>p. ip_companyId p \<noteq> c) (parts (stock_step (v, u, call) s))
       = filter (\<lambda>p. ip_companyId p \<noteq> c) (parts s)"
proof (cases call)
  case (NewPart d)
  have t: "truthy (p_companyId u)" using assms by simp
  show ?thesis
  proof (cases rule: create_part_effect[of v u d s])
    case 1
    with NewPart show ?thesis by simp
  next
    case (2 p ms)
    with NewPart write_company_of_tenant[OF t 2(7)] assms(1) show ?thesis by simp
  qed
next
  case (EditPart i d)
  have t: "truthy (p_companyId u)" using assms by simp
  show ?thesis
  proof (cases rule: update_part_effect[of v u i d s])
    case 1
    with EditPart show ?thesis by simp
  next
    case (2 company nd)
    with EditPart write_company_of_tenant[OF t 2(1)] assms(1) show ?thesis
      by (simp add: part_edit.write_others)
  qed
next
  case (NewLocation d)
  with create_location_stock[of "parts s" "movements s" v u d] show ?thesis by (simp add: keeps_def)
next
  case (Move d)
  have t: "truthy (p_companyId u)" using assms by simp
  show ?thesis
  proof (cases rule: create_movement_effect[of v u d s])
    case 1
    with Move show ?thesis by simp
  next
    case (2 p kind m)
    from 2(7) obtain scope where "scope_for ''inventory'' u = Inr scope"
      "scoped_find ip_id ip_companyId scope (md_partId d) (parts s) = Some p"
      by (auto simp: get_part_cases)
    with scope_of_tenant[OF t] assms(1) have "ip_companyId p = c" by (auto dest: scoped_findD)
    with Move 2(6) show ?thesis by (simp add: part_move.write_others)
  qed
qed

theorem inventory_isolation_witness:
  "filter (\<lambda>p. ip_companyId p \<noteq> ''c1'') (parts (stock_step (i_world, i_user, Move (use_cable 300)) i_demo1))
     = filter (\<lambda>p. ip_companyId p \<noteq> ''c1'') (parts i_demo1)"
  by (rule inventory_isolation) (simp_all add: i_user_def)

text \<open>
  Concurrent movements can drive the stock below zero. The checks run on the part as it
  was read, the write adds to the stored count: when two uses that each fit the available
  stock, but not both, are checked before either is written, both succeed and the stock is
  negative.
\<close>
theorem interleaved_uses_overdraw:
  assumes "distinct (map ip_id (parts s))" and "p \<in> set (parts s)"
    and "check_movement p ''USE'' q1 = Inr ()" and "check_movement p ''USE'' q2 = Inr ()"
    and "q1 + q2 > ip_onHand p" and "md_quantity d1 = q1" and "md_quantity d2 = q2"
  shows "\<exists>p'. scoped_find ip_id ip_companyId (Some (ip_companyId p)) (ip_id p)
        (parts (snd (write_movement v2 u2 d2 p ''USE'' (snd (write_movement v1 u1 d1 p ''USE'' s))))) = Some p'
      \<and> ip_onHand p' < 0"
proof -
  have q: "q1 > 0" "q2 > 0" using assms(3,4) by (auto simp: check_movement_def Let_def split: if_splits)
  let ?s1 = "snd (write_movement v1 u1 d1 p ''USE'' s)"
  let ?p1 = "move_stock (now v1, ''USE'', q1) p"
  from write_movement_effect[where p = p and kind = "''USE''" and d = d1 and v = v1 and u = u1 and s = s]
  have s1: "parts ?s1 = scoped_write ip_id ip_companyId (ip_id p) (ip_companyId p)
      (move_stock (now v1, ''USE'', q1)) (parts s)" using assms(6) q by auto
  from part_move.write_find[OF assms(1,2) refl refl] s1
  have f1: "scoped_find ip_id ip_companyId (Some (ip_companyId p)) (ip_id p) (parts ?s1) = Some ?p1" by simp
  then have m1: "?p1 \<in> set (parts ?s1)" "ip_id ?p1 = ip_id p" "ip_companyId ?p1 = ip_companyId p"
    by (auto dest: scoped_findD)
  have d1: "distinct (map ip_id (parts ?s1))" using s1 assms(1) by (simp add: part_move.write_keys)
  from write_movement_effect[where p = p and kind = "''USE''" and d = d2 and v = v2 and u = u2 and s = ?s1]
  have "parts (snd (write_movement v2 u2 d2 p ''USE'' ?s1)) = scoped_write ip_id ip_companyId (ip_id p)
      (ip_companyId p) (move_stock (now v2, ''USE'', q2)) (parts ?s1)" using assms(7) q by auto
  with part_move.write_find[OF d1 m1] have "scoped_find ip_id ip_companyId (Some (ip_companyId p)) (ip_id p)
      (parts (snd (write_movement v2 u2 d2 p ''USE'' ?s1))) = Some (move_stock (now v2, ''USE'', q2) ?p1)"
    by simp
  with assms(5) show ?thesis by (simp add: move_stock_def signed_quantity_def)
qed

theorem interleaved_uses_overdraw_witness:
  "\<exists>p'. scoped_find ip_id ip_companyId (Some (ip_companyId (hd (parts i_demo1)))) (ip_id (hd (parts i_demo1)))
      (parts (snd (write_movement i_world i_user (use_cable 600) (hd (parts i_demo1)) ''USE''
         (snd (write_movement i_world i_user (use_cable 700) (hd (parts i_demo1)) ''USE'' i_demo1))))) = Some p'
    \<and> ip_onHand p' < 0"
proof -
  have m: "map (\<lambda>p. (ip_onHand p, ip_reserved p)) (parts i_demo1) = [(1000, 0)]" by code_simp
  then obtain p where p: "parts i_demo1 = [p]" "ip_onHand p = 1000" "ip_reserved p = 0" by auto
  show ?thesis
    by (rule interleaved_uses_overdraw[where ?q1.0 = 700 and ?q2.0 = 600])
      (simp_all add: p check_movement_def use_cable_def)
qed

end
