(* ===== verification/Quotes.thy ===== *)
theory Quotes
  imports Tenant_Table Complex_Main
begin

text \<open>
  \<open>modules/quotes-invoices/quotes-invoices.service.ts\<close>: quotes and invoices with their
  lines, the totals, sequential numbers per company and year, and the conversion of a quote.
  Amounts are exact rationals in the code's computations (JavaScript's floating point is not
  modelled); \<open>round_money\<close> is the code's own rounding, epsilon included, and a row keeps what the
  DECIMAL columns of \<open>createSchema\<close> hold of the values written to it. Amounts beyond the ten
  digits of a column, which the server refuses, are not modelled. A request number is what \<open>Number(x) || 0\<close> gives. As in the inventory, the
  driver's prepared statements refuse an undefined parameter.
\<close>

section \<open>Tables\<close>

record line =
  l_id :: string
  l_position :: nat
  l_description :: string
  l_quantity :: rat
  l_unitPrice :: rat
  l_taxable :: bool
  l_total :: rat

record quote =
  q_id :: string
  q_companyId :: string
  q_number :: string
  q_title :: string
  q_customerName :: "string option"
  q_customerEmail :: "string option"
  q_customerPhone :: "string option"
  q_ticketId :: "string option"
  q_status :: string
  q_currency :: string
  q_subtotal :: rat
  q_taxRate :: rat
  q_taxTotal :: rat
  q_discount :: rat
  q_total :: rat
  q_notes :: "string option"
  q_terms :: "string option"
  q_validUntil :: "int option"
  q_approvedAt :: "int option"
  q_invoiceId :: "string option"
  q_createdById :: string
  q_updatedAt :: int

record invoice =
  v_id :: string
  v_companyId :: string
  v_number :: string
  v_quoteId :: "string option"
  v_ticketId :: "string option"
  v_title :: "string option"
  v_customerName :: "string option"
  v_customerEmail :: "string option"
  v_customerPhone :: "string option"
  v_status :: string
  v_currency :: string
  v_subtotal :: rat
  v_taxRate :: rat
  v_taxTotal :: rat
  v_discount :: rat
  v_total :: rat
  v_amountPaid :: rat
  v_balanceDue :: rat
  v_notes :: "string option"
  v_terms :: "string option"
  v_dueAt :: "int option"
  v_sentAt :: "int option"
  v_paidAt :: "int option"
  v_createdById :: string
  v_updatedAt :: int

record qstate =
  quotes :: "quote list"
  quote_lines :: "(string \<times> line) list"
  invoices :: "invoice list"
  invoice_lines :: "(string \<times> line) list"
  q_drawn :: nat

record line_dto =
  ln_description :: "string option"
  ln_quantity :: rat
  ln_unitPrice :: rat
  ln_taxable :: "bool option"

text \<open>A date field: absent, null (or empty), or a time.\<close>

datatype date_patch = NoDate | NullDate | DateAt int

record quote_dto =
  qd_companyId :: "string option"
  qd_title :: patch
  qd_customerName :: patch
  qd_customerEmail :: patch
  qd_customerPhone :: patch
  qd_ticketId :: patch
  qd_status :: "string option"
  qd_currency :: patch
  qd_taxRate :: "rat option"
  qd_discount :: "rat option"
  qd_notes :: patch
  qd_terms :: patch
  qd_validUntil :: date_patch
  qd_lines :: "line_dto list option"

definition QUOTE_STATUSES :: "string list" where
  "QUOTE_STATUSES = [''DRAFT'', ''SENT'', ''APPROVED'', ''DECLINED'', ''EXPIRED'', ''CONVERTED'']"

definition INVOICE_STATUSES :: "string list" where
  "INVOICE_STATUSES = [''DRAFT'', ''SENT'', ''PARTIAL'', ''PAID'', ''VOID'', ''OVERDUE'']"

section \<open>Amounts\<close>

text \<open>\<open>Math.round((value + Number.EPSILON) * 100) / 100\<close>, halves upwards.\<close>

definition epsilon :: rat where
  "epsilon = 1 / 2 ^ 52"

definition round_money :: "rat \<Rightarrow> rat" where
  "round_money x = of_int \<lfloor>(x + epsilon) * 100 + 1 / 2\<rfloor> / 100"

text \<open>
  The value a DECIMAL column with \<open>p\<close> decimals keeps: the nearest one, halves away from zero.
\<close>

definition decimal :: "nat \<Rightarrow> rat \<Rightarrow> rat" where
  "decimal p x = (if x < 0 then - of_int \<lfloor>(- x) * 10 ^ p + 1 / 2\<rfloor> else of_int \<lfloor>x * 10 ^ p + 1 / 2\<rfloor>) / 10 ^ p"

definition stored_line :: "line \<Rightarrow> line" where
  "stored_line l = l\<lparr>l_quantity := decimal 2 (l_quantity l), l_unitPrice := decimal 2 (l_unitPrice l), l_total := decimal 2 (l_total l)\<rparr>"

definition stored_quote :: "quote \<Rightarrow> quote" where
  "stored_quote q = q\<lparr>q_subtotal := decimal 2 (q_subtotal q), q_taxRate := decimal 4 (q_taxRate q),
     q_taxTotal := decimal 2 (q_taxTotal q), q_discount := decimal 2 (q_discount q), q_total := decimal 2 (q_total q)\<rparr>"

definition stored_invoice :: "invoice \<Rightarrow> invoice" where
  "stored_invoice i = i\<lparr>v_subtotal := decimal 2 (v_subtotal i), v_taxRate := decimal 4 (v_taxRate i),
     v_taxTotal := decimal 2 (v_taxTotal i), v_discount := decimal 2 (v_discount i), v_total := decimal 2 (v_total i),
     v_amountPaid := decimal 2 (v_amountPaid i), v_balanceDue := decimal 2 (v_balanceDue i)\<rparr>"

definition normalize_line :: "string \<Rightarrow> nat \<Rightarrow> line_dto \<Rightarrow> line res" where
  "normalize_line i pos d =
     (case trim_or_null (ln_description d) of
        None \<Rightarrow> Inl (BadRequest ''Line item description is required'')
      | Some desc \<Rightarrow>
          (let quantity = max 0 (ln_quantity d); unitPrice = max 0 (ln_unitPrice d) in
           if quantity \<le> 0 then Inl (BadRequest ''Line item quantity must be greater than zero'')
           else Inr \<lparr>l_id = i, l_position = pos, l_description = desc, l_quantity = quantity,
                     l_unitPrice = unitPrice, l_taxable = (ln_taxable d \<noteq> Some False),
                     l_total = round_money (quantity * unitPrice)\<rparr>))"

fun normalize_each :: "world \<Rightarrow> nat \<Rightarrow> nat \<Rightarrow> line_dto list \<Rightarrow> line list res" where
  "normalize_each v k pos [] = Inr []"
| "normalize_each v k pos (d # ds) =
     (case normalize_line (uuid v k) pos d of
        Inl e \<Rightarrow> Inl e
      | Inr l \<Rightarrow> (case normalize_each v (Suc k) (Suc pos) ds of Inl e \<Rightarrow> Inl e | Inr ls \<Rightarrow> Inr (l # ls)))"

definition normalize_lines :: "world \<Rightarrow> line_dto list option \<Rightarrow> (qstate, line list) act" where
  "normalize_lines v lines s =
     (case lines of
        Some (d # ds) \<Rightarrow>
          (case normalize_each v (q_drawn s) 1 (d # ds) of
             Inl e \<Rightarrow> (Inl e, s)
           | Inr ls \<Rightarrow> (Inr (take 100 ls), s\<lparr>q_drawn := q_drawn s + length ls\<rparr>))
      | _ \<Rightarrow> (Inl (BadRequest ''At least one line item is required''), s))"

definition totals :: "line list \<Rightarrow> rat \<Rightarrow> rat \<Rightarrow> rat \<times> rat \<times> rat" where
  "totals lines taxRate discount =
     (let subtotal = round_money (sum_list (map l_total lines));
          taxable = round_money (sum_list (map l_total (filter l_taxable lines)));
          taxTotal = round_money (max 0 (taxable - discount) * (taxRate / 100));
          grand = round_money (max 0 (subtotal - discount + taxTotal)) in
      (subtotal, taxTotal, grand))"

section \<open>Numbers\<close>

definition doc_number :: "string \<Rightarrow> nat \<Rightarrow> nat \<Rightarrow> string" where
  "doc_number prefix year n = prefix @ ''-'' @ dec year @ ''-'' @ pad_start 5 (CHR ''0'') (dec n)"

definition year_prefix :: "string \<Rightarrow> nat \<Rightarrow> string" where
  "year_prefix prefix year = prefix @ ''-'' @ dec year @ ''-''"

text \<open>\<open>COUNT(*) ... WHERE companyId = ? AND number LIKE 'prefix-year-%'\<close>, plus one.\<close>

definition next_number :: "('r \<Rightarrow> string) \<Rightarrow> ('r \<Rightarrow> string) \<Rightarrow> string \<Rightarrow> nat \<Rightarrow> string \<Rightarrow> 'r list \<Rightarrow> string" where
  "next_number company number prefix year c rows =
     doc_number prefix year
       (Suc (length (filter (\<lambda>r. company r = c \<and> starts_with (number r) (year_prefix prefix year)) rows)))"

section \<open>Reading\<close>

definition lines_of :: "string \<Rightarrow> (string \<times> line) list \<Rightarrow> line list" where
  "lines_of i ls = sort_key l_position (map snd (filter (\<lambda>(k, l). k = i) ls))"

definition get_quote :: "principal \<Rightarrow> string \<Rightarrow> (qstate, quote \<times> line list) act" where
  "get_quote u i s =
     (case scope_for ''quotes and invoices'' u of
        Inl e \<Rightarrow> (Inl e, s)
      | Inr scope \<Rightarrow> (case scoped_find q_id q_companyId scope i (quotes s) of
            None \<Rightarrow> (Inl (NotFound ''Quote not found''), s)
          | Some q \<Rightarrow> (Inr (q, lines_of i (quote_lines s)), s)))"

definition get_invoice :: "principal \<Rightarrow> string \<Rightarrow> (qstate, invoice \<times> line list) act" where
  "get_invoice u i s =
     (case scope_for ''quotes and invoices'' u of
        Inl e \<Rightarrow> (Inl e, s)
      | Inr scope \<Rightarrow> (case scoped_find v_id v_companyId scope i (invoices s) of
            None \<Rightarrow> (Inl (NotFound ''Invoice not found''), s)
          | Some q \<Rightarrow> (Inr (q, lines_of i (invoice_lines s)), s)))"

section \<open>Writing quotes\<close>

record doc_data =
  dd_title :: patch
  dd_customerName :: patch
  dd_customerEmail :: patch
  dd_customerPhone :: patch
  dd_ticketId :: patch
  dd_status :: "string option"
  dd_currency :: "string option"
  dd_taxRate :: "rat option"
  dd_discount :: "rat option"
  dd_notes :: patch
  dd_terms :: patch
  dd_validUntil :: date_patch

definition nonneg :: "bool \<Rightarrow> rat option \<Rightarrow> rat option" where
  "nonneg required x = (case x of Some n \<Rightarrow> Some (max 0 n) | None \<Rightarrow> if required then Some 0 else None)"

definition normalize_document :: "quote_dto \<Rightarrow> bool \<Rightarrow> doc_data res" where
  "normalize_document d required =
     (let title = (case trim_patch (qd_title d) of Given t \<Rightarrow> Given t | _ \<Rightarrow> Absent);
          cur = (case qd_currency d of
                   Absent \<Rightarrow> if required then Some ''USD'' else None
                 | p \<Rightarrow> (case trim_patch p of Given c \<Rightarrow> Some c | _ \<Rightarrow> Some ''USD''));
          st = (if truthy (qd_status d)
                then map_sum id Some (normalize_option (or_str (qd_status d) []) QUOTE_STATUSES ''quote status'')
                else Inr (if required then Some ''DRAFT'' else None)) in
      if required \<and> title = Absent then Inl (BadRequest ''Title is required'')
      else (case st of
        Inl e \<Rightarrow> Inl e
      | Inr status \<Rightarrow> Inr \<lparr>dd_title = title, dd_customerName = trim_patch (qd_customerName d),
          dd_customerEmail = trim_patch (qd_customerEmail d), dd_customerPhone = trim_patch (qd_customerPhone d),
          dd_ticketId = (case qd_ticketId d of Given t \<Rightarrow> if t = [] then Nulled else Given t | p \<Rightarrow> p),
          dd_status = status, dd_currency = cur, dd_taxRate = nonneg required (qd_taxRate d),
          dd_discount = nonneg required (qd_discount d), dd_notes = trim_patch (qd_notes d),
          dd_terms = trim_patch (qd_terms d), dd_validUntil = qd_validUntil d\<rparr>))"

definition date_opt :: "date_patch \<Rightarrow> int option" where
  "date_opt x = (case x of DateAt t \<Rightarrow> Some t | _ \<Rightarrow> None)"

definition rat_or :: "'a option \<Rightarrow> 'a \<Rightarrow> 'a" where
  "rat_or x d = (case x of None \<Rightarrow> d | Some y \<Rightarrow> y)"

definition q_fresh :: "world \<Rightarrow> (qstate, string) act" where
  "q_fresh v s = (Inr (uuid v (q_drawn s)), s\<lparr>q_drawn := Suc (q_drawn s)\<rparr>)"

definition replace_lines :: "string \<Rightarrow> line list \<Rightarrow> (string \<times> line) list \<Rightarrow> (string \<times> line) list" where
  "replace_lines i ls all = filter (\<lambda>(k, l). k \<noteq> i) all @ map (\<lambda>l. (i, stored_line l)) ls"

definition unbound :: "doc_data \<Rightarrow> bool" where
  "unbound n \<longleftrightarrow> Absent \<in> {dd_customerName n, dd_customerEmail n, dd_customerPhone n, dd_ticketId n,
      dd_notes n, dd_terms n} \<or> dd_validUntil n = NoDate"

definition insert_quote :: "quote \<Rightarrow> (qstate, unit) act" where
  "insert_quote q =
     bindE (reads (\<lambda>s. list_ex (\<lambda>r. q_id r = q_id q \<or> (q_companyId r = q_companyId q \<and> q_number r = q_number q)) (quotes s))) (\<lambda>dup.
     bindE (guard (\<not> dup) (ServerError ''duplicate entry'')) (\<lambda>_.
     writes (\<lambda>s. s\<lparr>quotes := quotes s @ [stored_quote q]\<rparr>)))"

definition insert_invoice :: "invoice \<Rightarrow> (qstate, unit) act" where
  "insert_invoice i =
     bindE (reads (\<lambda>s. list_ex (\<lambda>r. v_id r = v_id i \<or> (v_companyId r = v_companyId i \<and> v_number r = v_number i)) (invoices s))) (\<lambda>dup.
     bindE (guard (\<not> dup) (ServerError ''duplicate entry'')) (\<lambda>_.
     writes (\<lambda>s. s\<lparr>invoices := invoices s @ [stored_invoice i]\<rparr>)))"

definition create_quote :: "world \<Rightarrow> nat \<Rightarrow> principal \<Rightarrow> quote_dto \<Rightarrow> (qstate, quote \<times> line list) act" where
  "create_quote v year u d =
     bindE (of_res (resolve_write_company ''quotes or invoices'' u (qd_companyId d))) (\<lambda>company.
     bindE (of_res (normalize_document d True)) (\<lambda>n.
     bindE (normalize_lines v (qd_lines d)) (\<lambda>lines.
     case totals lines (rat_or (dd_taxRate n) 0) (rat_or (dd_discount n) 0) of (subtotal, taxTotal, grand) \<Rightarrow>
     bindE (q_fresh v) (\<lambda>i.
     bindE (reads (\<lambda>s. next_number q_companyId q_number ''Q'' year company (quotes s))) (\<lambda>number.
     bindE (guard (\<not> unbound n) (ServerError ''Bind parameters must not contain undefined'')) (\<lambda>_.
     bindE (insert_quote \<lparr>q_id = i, q_companyId = company, q_number = number, q_title = patch_str (dd_title n),
        q_customerName = patch_opt (dd_customerName n), q_customerEmail = patch_opt (dd_customerEmail n),
        q_customerPhone = patch_opt (dd_customerPhone n), q_ticketId = patch_opt (dd_ticketId n),
        q_status = or_str (dd_status n) ''DRAFT'', q_currency = rat_or (dd_currency n) ''USD'',
        q_subtotal = subtotal, q_taxRate = rat_or (dd_taxRate n) 0, q_taxTotal = taxTotal,
        q_discount = rat_or (dd_discount n) 0, q_total = grand, q_notes = patch_opt (dd_notes n),
        q_terms = patch_opt (dd_terms n), q_validUntil = date_opt (dd_validUntil n), q_approvedAt = None,
        q_invoiceId = None, q_createdById = p_id u, q_updatedAt = now v\<rparr>) (\<lambda>_.
     bindE (writes (\<lambda>s. s\<lparr>quote_lines := replace_lines i lines (quote_lines s)\<rparr>)) (\<lambda>_.
     get_quote u i))))))))"

text \<open>The columns an update writes, as they are stored; \<open>None\<close> totals are left alone.\<close>

definition change_quote :: "int \<times> doc_data \<times> (rat \<times> rat \<times> rat) option \<Rightarrow> quote \<Rightarrow> quote" where
  "change_quote c r = (case c of (t, n, tot) \<Rightarrow>
     r\<lparr>q_title := patched_str (dd_title n) (q_title r),
       q_customerName := patched (dd_customerName n) (q_customerName r),
       q_customerEmail := patched (dd_customerEmail n) (q_customerEmail r),
       q_customerPhone := patched (dd_customerPhone n) (q_customerPhone r),
       q_ticketId := patched (dd_ticketId n) (q_ticketId r),
       q_status := rat_or (dd_status n) (q_status r), q_currency := rat_or (dd_currency n) (q_currency r),
       q_taxRate := rat_or (map_option (decimal 4) (dd_taxRate n)) (q_taxRate r),
       q_discount := rat_or (map_option (decimal 2) (dd_discount n)) (q_discount r),
       q_subtotal := (case tot of None \<Rightarrow> q_subtotal r | Some (a, b, c) \<Rightarrow> decimal 2 a),
       q_taxTotal := (case tot of None \<Rightarrow> q_taxTotal r | Some (a, b, c) \<Rightarrow> decimal 2 b),
       q_total := (case tot of None \<Rightarrow> q_total r | Some (a, b, c) \<Rightarrow> decimal 2 c),
       q_notes := patched (dd_notes n) (q_notes r), q_terms := patched (dd_terms n) (q_terms r),
       q_validUntil := (case dd_validUntil n of NoDate \<Rightarrow> q_validUntil r | NullDate \<Rightarrow> None | DateAt x \<Rightarrow> Some x),
       q_approvedAt := (if dd_status n = Some ''APPROVED'' then Some t else q_approvedAt r),
       q_updatedAt := t\<rparr>)"

definition update_quote :: "world \<Rightarrow> principal \<Rightarrow> string \<Rightarrow> quote_dto \<Rightarrow> (qstate, quote \<times> line list) act" where
  "update_quote v u i d =
     bindE (get_quote u i) (\<lambda>(q, _).
     bindE (guard (\<not> (q_status q = ''CONVERTED'' \<and> qd_lines d \<noteq> None))
              (BadRequest ''Converted quotes cannot have line items changed'')) (\<lambda>_.
     bindE (of_res (normalize_document d False)) (\<lambda>n.
     bindE (case qd_lines d of
              None \<Rightarrow> ret None
            | Some ls \<Rightarrow> bindE (normalize_lines v (Some ls)) (\<lambda>lines.
                bindE (writes (\<lambda>s. s\<lparr>quote_lines := replace_lines i lines (quote_lines s)\<rparr>)) (\<lambda>_.
                ret (Some (totals lines (rat_or (dd_taxRate n) (q_taxRate q)) (rat_or (dd_discount n) (q_discount q))))))) (\<lambda>tot.
     bindE (writes (\<lambda>s. s\<lparr>quotes := scoped_write q_id q_companyId i (q_companyId q)
               (change_quote (now v, n, tot)) (quotes s)\<rparr>)) (\<lambda>_.
     get_quote u i)))))"

section \<open>Converting\<close>

record convert_dto =
  cd_title :: "string option"
  cd_notes :: "string option"
  cd_terms :: "string option"
  cd_dueAt :: "int option"

fun copy_lines :: "world \<Rightarrow> nat \<Rightarrow> line list \<Rightarrow> line list" where
  "copy_lines v k [] = []"
| "copy_lines v k (l # ls) = l\<lparr>l_id := uuid v k\<rparr> # copy_lines v (Suc k) ls"

definition mark_converted :: "int \<times> string \<Rightarrow> quote \<Rightarrow> quote" where
  "mark_converted c r = (case c of (t, i) \<Rightarrow>
     r\<lparr>q_status := ''CONVERTED'', q_invoiceId := Some i, q_updatedAt := t\<rparr>)"

definition convert_quote :: "world \<Rightarrow> nat \<Rightarrow> principal \<Rightarrow> string \<Rightarrow> convert_dto \<Rightarrow> (qstate, invoice \<times> line list) act" where
  "convert_quote v year u i d =
     bindE (get_quote u i) (\<lambda>(q, lines).
     if truthy (q_invoiceId q) then get_invoice u (or_str (q_invoiceId q) [])
     else
       bindE (guard (lines \<noteq> []) (BadRequest ''Quote needs at least one line item before conversion'')) (\<lambda>_.
       bindE (q_fresh v) (\<lambda>iid.
       bindE (reads (\<lambda>s. next_number v_companyId v_number ''INV'' year (q_companyId q) (invoices s))) (\<lambda>number.
       bindE (insert_invoice \<lparr>v_id = iid, v_companyId = q_companyId q, v_number = number, v_quoteId = Some (q_id q),
          v_ticketId = q_ticketId q, v_title = or_opt (trim_or_null (cd_title d)) (Some (q_title q)),
          v_customerName = q_customerName q, v_customerEmail = q_customerEmail q,
          v_customerPhone = q_customerPhone q, v_status = ''DRAFT'',
          v_currency = or_str (Some (q_currency q)) ''USD'', v_subtotal = q_subtotal q, v_taxRate = q_taxRate q,
          v_taxTotal = q_taxTotal q, v_discount = q_discount q, v_total = q_total q, v_amountPaid = 0,
          v_balanceDue = q_total q, v_notes = or_opt (trim_or_null (cd_notes d)) (q_notes q),
          v_terms = or_opt (trim_or_null (cd_terms d)) (q_terms q), v_dueAt = cd_dueAt d, v_sentAt = None,
          v_paidAt = None, v_createdById = p_id u, v_updatedAt = now v\<rparr>) (\<lambda>_.
       bindE (writes (\<lambda>s. s\<lparr>invoice_lines := replace_lines iid (copy_lines v (q_drawn s) lines) (invoice_lines s),
                          q_drawn := q_drawn s + length lines\<rparr>)) (\<lambda>_.
       bindE (writes (\<lambda>s. s\<lparr>quotes := scoped_write q_id q_companyId (q_id q) (q_companyId q)
                 (mark_converted (now v, iid)) (quotes s)\<rparr>)) (\<lambda>_.
       get_invoice u iid)))))))"

section \<open>Invoices\<close>

record invoice_dto =
  vd_title :: patch
  vd_customerName :: patch
  vd_customerEmail :: patch
  vd_customerPhone :: patch
  vd_notes :: patch
  vd_terms :: patch
  vd_status :: "string option"
  vd_dueAt :: date_patch
  vd_amountPaid :: "rat option"

definition change_invoice :: "int \<times> invoice_dto \<times> string option \<times> rat \<Rightarrow> invoice \<Rightarrow> invoice" where
  "change_invoice c r = (case c of (t, d, status, due) \<Rightarrow>
     let paid = (case vd_amountPaid d of None \<Rightarrow> None | Some p \<Rightarrow> Some (max 0 p));
         balance = (case paid of
                      Some p \<Rightarrow> Some (max 0 (due - p))
                    | None \<Rightarrow> if status \<in> {Some ''PAID'', Some ''VOID''} then Some 0 else None);
         settled = (paid \<noteq> None \<and> balance = Some 0);
         partial = (\<not> settled \<and> (case paid of None \<Rightarrow> False | Some p \<Rightarrow> p > 0)) in
     r\<lparr>v_title := patched (trim_patch (vd_title d)) (v_title r),
       v_customerName := patched (trim_patch (vd_customerName d)) (v_customerName r),
       v_customerEmail := patched (trim_patch (vd_customerEmail d)) (v_customerEmail r),
       v_customerPhone := patched (trim_patch (vd_customerPhone d)) (v_customerPhone r),
       v_notes := patched (trim_patch (vd_notes d)) (v_notes r),
       v_terms := patched (trim_patch (vd_terms d)) (v_terms r),
       v_status := (if settled then ''PAID'' else if partial then ''PARTIAL'' else rat_or status (v_status r)),
       v_sentAt := (if status = Some ''SENT'' then Some t else v_sentAt r),
       v_paidAt := (if settled \<or> status = Some ''PAID'' then Some t else v_paidAt r),
       v_dueAt := (case vd_dueAt d of NoDate \<Rightarrow> v_dueAt r | NullDate \<Rightarrow> None | DateAt x \<Rightarrow> Some x),
       v_amountPaid := rat_or (map_option (decimal 2) paid) (v_amountPaid r),
       v_balanceDue := rat_or (map_option (decimal 2) balance) (v_balanceDue r),
       v_updatedAt := t\<rparr>)"

definition update_invoice :: "world \<Rightarrow> principal \<Rightarrow> string \<Rightarrow> invoice_dto \<Rightarrow> (qstate, invoice \<times> line list) act" where
  "update_invoice v u i d =
     bindE (get_invoice u i) (\<lambda>(inv, _).
     bindE (if truthy (vd_status d)
            then of_res (map_sum id Some (normalize_option (or_str (vd_status d) []) INVOICE_STATUSES ''invoice status''))
            else ret None) (\<lambda>status.
     bindE (guard (trim_patch (vd_title d) \<noteq> Nulled) (ServerError ''Column title cannot be null'')) (\<lambda>_.
     bindE (writes (\<lambda>s. s\<lparr>invoices := scoped_write v_id v_companyId i (v_companyId inv)
               (change_invoice (now v, d, status, v_total inv)) (invoices s)\<rparr>)) (\<lambda>_.
     get_invoice u i))))"

end
