(* ===== verification/Quotes_Props.thy ===== *)
theory Quotes_Props
  imports Quotes
begin

text \<open>
  Quotes and invoices: the totals of a quote belong to its lines, numbers are sequential and
  never collide, conversion happens once, payments settle invoices, and companies stay apart.
\<close>

section \<open>The tables satisfy the tenant contract\<close>

interpretation quote_edit: tenant_table q_id q_companyId change_quote
  by unfold_locales (auto simp: change_quote_def split: prod.splits)

interpretation quote_mark: tenant_table q_id q_companyId mark_converted
  by unfold_locales (auto simp: mark_converted_def split: prod.splits)

interpretation invoice_edit: tenant_table v_id v_companyId change_invoice
  by unfold_locales (auto simp: change_invoice_def Let_def split: prod.splits)

section \<open>What the columns keep\<close>

lemma decimal_cents: "decimal p (of_int n / 10 ^ p) = of_int n / 10 ^ p"
proof -
  have f: "\<lfloor>of_int k + 1 / 2 :: rat\<rfloor> = k" for k by (rule floor_unique) simp_all
  show ?thesis using f[of n] f[of "- n"] by (simp add: decimal_def)
qed

lemma decimal_grid: "\<exists>n. decimal p x = of_int n / 10 ^ p"
proof (cases "x < 0")
  case True
  then have "decimal p x = of_int (- \<lfloor>(- x) * 10 ^ p + 1 / 2\<rfloor>) / 10 ^ p" by (simp add: decimal_def)
  then show ?thesis by blast
qed (auto simp: decimal_def)

lemma decimal_decimal [simp]: "decimal p (decimal p x) = decimal p x"
  using decimal_grid[of p x] decimal_cents by auto

lemma decimal_diff: "decimal p x = x \<Longrightarrow> decimal p y = y \<Longrightarrow> decimal p (x - y) = x - y"
proof -
  assume "decimal p x = x" "decimal p y = y"
  then obtain m n where "x = of_int m / 10 ^ p" "y = of_int n / 10 ^ p" using decimal_grid by metis
  then have "x - y = of_int (m - n) / 10 ^ p" by (simp add: diff_divide_distrib)
  then show ?thesis using decimal_cents by metis
qed

lemma decimal_round [simp]: "decimal 2 (round_money x) = round_money x"
  using decimal_cents[of 2 "\<lfloor>(x + epsilon) * 100 + 1 / 2\<rfloor>"] by (simp add: round_money_def)

lemma decimal_of_int: "decimal p (of_int n) = of_int n"
  using decimal_cents[of p "n * 10 ^ p"] by simp

lemma decimal_int [simp]: "decimal p 0 = 0" "decimal p (numeral k) = numeral k"
  using decimal_of_int[of p 0] decimal_of_int[of p "numeral k"] by simp_all

lemma decimal_max: "decimal p x = x \<Longrightarrow> decimal p (max 0 x) = max 0 x"
  by (cases "0 \<le> x") (simp_all add: max_def)

lemma decimal_totals:
  "totals ls rate disc = (a, b, c) \<Longrightarrow> decimal 2 a = a \<and> decimal 2 b = b \<and> decimal 2 c = c"
  by (auto simp: totals_def Let_def)

lemma stored_line_fields [simp]: "l_position (stored_line l) = l_position l" "l_taxable (stored_line l) = l_taxable l"
  by (simp_all add: stored_line_def)

lemma stored_quote_fields [simp]: "q_id (stored_quote q) = q_id q" "q_companyId (stored_quote q) = q_companyId q"
    "q_number (stored_quote q) = q_number q"
  by (simp_all add: stored_quote_def)

lemma stored_invoice_fields [simp]: "v_id (stored_invoice i) = v_id i" "v_companyId (stored_invoice i) = v_companyId i"
    "v_number (stored_invoice i) = v_number i"
  by (simp_all add: stored_invoice_def)

text \<open>The total of a normalized line has two decimals already, so storing it changes no totals.\<close>

definition rounded_lines :: "line list \<Rightarrow> bool" where
  "rounded_lines ls \<longleftrightarrow> (\<forall>l \<in> set ls. decimal 2 (l_total l) = l_total l)"

lemma totals_stored: "rounded_lines ls \<Longrightarrow> totals (map stored_line ls) rate disc = totals ls rate disc"
proof -
  assume r: "rounded_lines ls"
  then have "map l_total (map stored_line ls) = map l_total ls"
    by (induction ls) (simp_all add: rounded_lines_def stored_line_def)
  moreover from r have "map l_total (filter l_taxable (map stored_line ls)) = map l_total (filter l_taxable ls)"
    by (induction ls) (simp_all add: rounded_lines_def stored_line_def)
  ultimately show ?thesis unfolding totals_def by (simp only:)
qed

section \<open>Lines\<close>

lemma normalize_each_positions:
  "normalize_each v k pos ds = Inr ls \<Longrightarrow> map l_position ls = [pos..<pos + length ls]"
proof (induction v k pos ds arbitrary: ls rule: normalize_each.induct)
  case (2 v k pos d ds)
  then obtain l ls' where l: "normalize_line (uuid v k) pos d = Inr l"
    "normalize_each v (Suc k) (Suc pos) ds = Inr ls'" "ls = l # ls'"
    by (auto split: sum.splits)
  with 2 have "map l_position ls' = [Suc pos..<Suc pos + length ls']" by simp
  moreover have "l_position l = pos"
    using l(1) by (auto simp: normalize_line_def Let_def split: option.splits if_splits)
  ultimately show ?case using l(3) by (simp add: upt_rec)
qed simp

lemma sorted_key_id: "sorted (map f xs) \<Longrightarrow> sort_key f xs = xs"
  by (rule sort_key_id_if_sorted)

lemma lines_replaced:
  assumes "sorted (map l_position ls)"
  shows "lines_of i (replace_lines i ls all) = map stored_line ls"
proof -
  have a: "filter (\<lambda>(k, l). k = i) (filter (\<lambda>(k, l). k \<noteq> i) all) = []"
    by (induction all) auto
  have b: "map snd (filter (\<lambda>(k, l). k = i) (map (\<lambda>l. (i, stored_line l)) ls)) = map stored_line ls"
    by (induction ls) simp_all
  have c: "sorted (map l_position (map stored_line ls))" using assms by (simp add: comp_def)
  show ?thesis unfolding lines_of_def replace_lines_def filter_append map_append a b
    using sorted_key_id[OF c] by simp
qed

lemma lines_other: "j \<noteq> i \<Longrightarrow> lines_of j (replace_lines i ls all) = lines_of j all"
proof -
  assume n: "j \<noteq> i"
  have "filter (\<lambda>(k, l). k = j) (filter (\<lambda>(k, l). k \<noteq> i) all) = filter (\<lambda>(k, l). k = j) all"
    using n by (induction all) auto
  moreover have "filter (\<lambda>(k, l). k = j) (map (\<lambda>l. (i, stored_line l)) ls) = []"
    using n by (induction ls) auto
  ultimately show ?thesis unfolding lines_of_def replace_lines_def filter_append map_append by simp
qed

lemma normalize_each_rounded: "normalize_each v k pos ds = Inr ls \<Longrightarrow> rounded_lines ls"
  by (induction v k pos ds arbitrary: ls rule: normalize_each.induct)
    (auto simp: rounded_lines_def normalize_line_def Let_def split: sum.splits option.splits if_splits)

lemma normalize_lines_ok:
  "normalize_lines v ds s = (Inr ls, t) \<Longrightarrow> sorted (map l_position ls) \<and> ls \<noteq> [] \<and> length ls \<le> 100
     \<and> t = s\<lparr>q_drawn := q_drawn t\<rparr> \<and> rounded_lines ls"
proof -
  assume a: "normalize_lines v ds s = (Inr ls, t)"
  then obtain d ds' all where n: "normalize_each v (q_drawn s) 1 (d # ds') = Inr all"
    and ls: "ls = take 100 all" and t: "t = s\<lparr>q_drawn := q_drawn s + length all\<rparr>"
    by (auto simp: normalize_lines_def split: option.splits list.splits sum.splits)
  have "map l_position ls = take 100 [1..<1 + length all]"
    using normalize_each_positions[OF n] ls by (metis take_map)
  then have "sorted (map l_position ls)" by (simp only: sorted_wrt_take sorted_upt)
  moreover have "all \<noteq> []" using n by (auto split: sum.splits)
  moreover have "rounded_lines ls"
    using normalize_each_rounded[OF n] ls by (auto simp: rounded_lines_def dest: in_set_takeD)
  ultimately show ?thesis using ls t by simp
qed

lemma normalize_lines_state: "normalize_lines v ds s = (r, t) \<Longrightarrow> \<exists>k. t = s\<lparr>q_drawn := k\<rparr>"
  by (auto simp: normalize_lines_def split: option.splits list.splits sum.splits intro: exI[of _ "q_drawn s"])

section \<open>Numbers\<close>

lemma digit_not_dash: "digit_char n \<noteq> CHR ''-''"
proof
  assume "digit_char n = CHR ''-''"
  then have "(of_char (digit_char n) :: nat) = 45" by simp
  moreover have "48 + n mod 10 < 2 ^ 8" by (rule less_trans [of _ "48 + 10"]) simp_all
  ultimately show False by (simp add: take_bit_nat_eq_self)
qed

lemma dec_no_dash: "CHR ''-'' \<notin> set (dec n)"
proof (induction n rule: dec.induct)
  case (1 n)
  then show ?case using digit_not_dash[of n] by (subst dec.simps) (auto simp del: digit_char.simps)
qed

lemma until_dash: "CHR ''-'' \<notin> set xs \<Longrightarrow> takeWhile (\<lambda>c. c \<noteq> CHR ''-'') (xs @ CHR ''-'' # r) = xs"
  by (induction xs) auto

lemma year_of_number: "starts_with (doc_number p y n) (year_prefix p y') \<longleftrightarrow> y = y'"
proof
  assume "starts_with (doc_number p y n) (year_prefix p y')"
  then obtain r where "dec y @ CHR ''-'' # pad_start 5 (CHR ''0'') (dec n) = dec y' @ CHR ''-'' # r"
    by (auto simp: starts_with_iff doc_number_def year_prefix_def)
  then have "dec y = dec y'" using until_dash[OF dec_no_dash] by metis
  then show "y = y'" by (rule dec_inj)
qed (simp add: starts_with_iff doc_number_def year_prefix_def)

lemma doc_number_inj: "doc_number p y m = doc_number p y n \<Longrightarrow> 0 < m \<Longrightarrow> 0 < n \<Longrightarrow> m = n"
  using pad_dec_inj by (simp add: doc_number_def)

text \<open>The numbers of a company and year, in creation order, are 1, 2, 3 and so on.\<close>

definition numbering :: "('r \<Rightarrow> string) \<Rightarrow> ('r \<Rightarrow> string) \<Rightarrow> string \<Rightarrow> 'r list \<Rightarrow> bool" where
  "numbering company number p rows \<longleftrightarrow>
     (\<forall>r \<in> set rows. \<exists>y n. 0 < n \<and> number r = doc_number p y n)
     \<and> (\<forall>c y. map number (filter (\<lambda>r. company r = c \<and> starts_with (number r) (year_prefix p y)) rows)
          = map (doc_number p y) [1..<Suc (length (filter (\<lambda>r. company r = c
                                          \<and> starts_with (number r) (year_prefix p y)) rows))])"

lemma numbering_fresh:
  assumes "numbering company number p rows" "r \<in> set rows" "company r = c"
  shows "number r \<noteq> next_number company number p y c rows"
proof
  let ?fs = "filter (\<lambda>r. company r = c \<and> starts_with (number r) (year_prefix p y)) rows"
  assume e: "number r = next_number company number p y c rows"
  then have "r \<in> set ?fs" using assms(2,3) by (simp add: next_number_def year_of_number)
  then have "number r \<in> set (map number ?fs)" by simp
  also have "map number ?fs = map (doc_number p y) [1..<Suc (length ?fs)]"
    using assms(1) by (simp add: numbering_def)
  finally obtain k where "number r = doc_number p y k" "0 < k" "k < Suc (length ?fs)"
    by (auto simp del: upt_Suc)
  with e doc_number_inj[of p y k "Suc (length ?fs)"] show False by (simp add: next_number_def)
qed

lemma numbering_append:
  assumes "numbering company number p rows"
    and "number r = next_number company number p y (company r) rows"
  shows "numbering company number p (rows @ [r])"
  unfolding numbering_def
proof (intro conjI ballI allI)
  fix x assume "x \<in> set (rows @ [r])"
  with assms show "\<exists>y n. 0 < n \<and> number x = doc_number p y n"
    by (auto simp: numbering_def next_number_def)
next
  fix c y'
  let ?f = "\<lambda>rs. filter (\<lambda>r. company r = c \<and> starts_with (number r) (year_prefix p y')) rs"
  have m: "map number (?f rows) = map (doc_number p y') [1..<Suc (length (?f rows))]"
    using assms(1) by (simp add: numbering_def)
  have s: "starts_with (number r) (year_prefix p y') \<longleftrightarrow> y = y'"
    using assms(2) by (simp add: next_number_def year_of_number)
  show "map number (?f (rows @ [r])) = map (doc_number p y') [1..<Suc (length (?f (rows @ [r])))]"
  proof (cases "company r = c \<and> y = y'")
    case True
    then have "number r = doc_number p y' (Suc (length (?f rows)))"
      using assms(2) by (simp add: next_number_def)
    with True m s show ?thesis by simp
  next
    case False
    with m s show ?thesis by auto
  qed
qed

lemma numbering_map:
  assumes "numbering company number p rows" "\<And>r. r \<in> set rows \<Longrightarrow> company (f r) = company r \<and> number (f r) = number r"
  shows "numbering company number p (map f rows)"
proof -
  have fl: "filter (\<lambda>r. company r = c \<and> starts_with (number r) q) (map f rows)
      = map f (filter (\<lambda>r. company r = c \<and> starts_with (number r) q) rows)" for c q
    using assms(2) by (induction rows) auto
  have mp: "map number (map f (filter P rows)) = map number (filter P rows)" for P
    using assms(2) by simp
  show ?thesis using assms unfolding numbering_def fl mp by auto
qed

section \<open>Effects\<close>

lemma get_quote_state: "snd (get_quote u i s) = s"
  by (simp add: get_quote_def split: sum.splits option.splits)

lemma get_invoice_state: "snd (get_invoice u i s) = s"
  by (simp add: get_invoice_def split: sum.splits option.splits)

lemma get_quote_cases: "get_quote u i s = (Inr (q, ls), s') \<longleftrightarrow> s' = s \<and> ls = lines_of i (quote_lines s) \<and>
   (\<exists>scope. scope_for ''quotes and invoices'' u = Inr scope \<and> scoped_find q_id q_companyId scope i (quotes s) = Some q)"
  by (auto simp: get_quote_def split: sum.splits option.splits)

lemma get_invoice_cases: "get_invoice u i s = (Inr (q, ls), s') \<longleftrightarrow> s' = s \<and> ls = lines_of i (invoice_lines s) \<and>
   (\<exists>scope. scope_for ''quotes and invoices'' u = Inr scope \<and> scoped_find v_id v_companyId scope i (invoices s) = Some q)"
  by (auto simp: get_invoice_def split: sum.splits option.splits)

lemma get_quote_stored: "get_quote u i s = (Inr (q, ls), s') \<Longrightarrow> q \<in> set (quotes s) \<and> q_id q = i"
  by (auto simp: get_quote_cases dest: scoped_findD)

lemma get_quote_split:
  obtains e where "get_quote u i s = (Inl e, s)" | q ls where "get_quote u i s = (Inr (q, ls), s)"
  using get_quote_state[of u i s] by (cases "get_quote u i s"; cases "fst (get_quote u i s)") auto

lemma get_invoice_split:
  obtains e where "get_invoice u i s = (Inl e, s)" | q ls where "get_invoice u i s = (Inr (q, ls), s)"
  using get_invoice_state[of u i s] by (cases "get_invoice u i s"; cases "fst (get_invoice u i s)") auto

definition same_docs :: "qstate \<Rightarrow> qstate \<Rightarrow> bool" where
  "same_docs s t \<longleftrightarrow> quotes t = quotes s \<and> quote_lines t = quote_lines s \<and> invoices t = invoices s
     \<and> invoice_lines t = invoice_lines s"

lemma same_docs_refl [simp]: "same_docs s s" by (simp add: same_docs_def)
lemma same_docs_drawn [simp]: "same_docs s (s\<lparr>q_drawn := k\<rparr>)" by (simp add: same_docs_def)

definition totals_ok :: "(string \<times> line) list \<Rightarrow> quote \<Rightarrow> bool" where
  "totals_ok ls q \<longleftrightarrow> totals (lines_of (q_id q) ls) (q_taxRate q) (q_discount q)
     = (q_subtotal q, q_taxTotal q, q_total q)"

text \<open>Tax rates and discounts a request gives have no more decimals than their columns.\<close>

definition column_rates :: "quote_dto \<Rightarrow> bool" where
  "column_rates d \<longleftrightarrow> map_option (decimal 4) (qd_taxRate d) = qd_taxRate d \<and> map_option (decimal 2) (qd_discount d) = qd_discount d"

lemma column_rates_document:
  assumes "column_rates d" "normalize_document d b = Inr n"
  shows "map_option (decimal 4) (dd_taxRate n) = dd_taxRate n \<and> map_option (decimal 2) (dd_discount n) = dd_discount n"
proof -
  have m: "map_option (decimal p) (nonneg b x) = nonneg b x" if "map_option (decimal p) x = x" for p x
    using that by (cases x) (auto simp: nonneg_def max_def)
  have "dd_taxRate n = nonneg b (qd_taxRate d) \<and> dd_discount n = nonneg b (qd_discount d)"
    using assms(2) by (auto simp: normalize_document_def Let_def split: if_splits sum.splits)
  with m assms(1) show ?thesis by (simp add: column_rates_def)
qed

lemma column_rate_or: "map_option (decimal p) x = x \<Longrightarrow> decimal p (rat_or x 0) = rat_or x 0"
  by (cases x) (simp_all add: rat_or_def)

lemma create_quote_effect:
  obtains "same_docs s (snd (create_quote v year u d s))"
  | q ls where "quotes (snd (create_quote v year u d s)) = quotes s @ [q]"
      "quote_lines (snd (create_quote v year u d s)) = replace_lines (q_id q) ls (quote_lines s)"
      "invoices (snd (create_quote v year u d s)) = invoices s" "q_id q \<notin> q_id ` set (quotes s)"
      "column_rates d \<Longrightarrow> totals_ok (replace_lines (q_id q) ls (quote_lines s)) q"
      "decimal 4 (q_taxRate q) = q_taxRate q \<and> decimal 2 (q_discount q) = q_discount q"
      "q_number q = next_number q_companyId q_number ''Q'' year (q_companyId q) (quotes s)"
      "resolve_write_company ''quotes or invoices'' u (qd_companyId d) = Inr (q_companyId q)"
proof (cases "resolve_write_company ''quotes or invoices'' u (qd_companyId d)")
  case (Inl e)
  with that(1) show thesis by (simp add: create_quote_def act_simps)
next
  case c: (Inr company)
  show thesis
  proof (cases "normalize_document d True")
    case (Inl e)
    with c that(1) show thesis by (simp add: create_quote_def act_simps)
  next
    case n: (Inr nd)
    obtain r t where l: "normalize_lines v (qd_lines d) s = (r, t)" by (meson surj_pair)
    from normalize_lines_state[OF l] obtain k where t: "t = s\<lparr>q_drawn := k\<rparr>" by blast
    show thesis
    proof (cases r)
      case (Inl e)
      with c n l t that(1) show thesis by (simp add: create_quote_def act_simps)
    next
      case (Inr ls)
      from l Inr normalize_lines_ok have so: "sorted (map l_position ls)" "rounded_lines ls" by blast+
      obtain a b g where tot: "totals ls (rat_or (dd_taxRate nd) 0) (rat_or (dd_discount nd) 0) = (a, b, g)"
        by (metis prod_cases3)
      note eval = c n l t Inr tot create_quote_def act_simps q_fresh_def insert_quote_def get_quote_state
      let ?N = "next_number q_companyId q_number ''Q'' year company (quotes s)"
      let ?S = "snd (create_quote v year u d s)"
      show thesis
      proof (cases "unbound nd \<or> (\<exists>r \<in> set (quotes s). q_id r = uuid v k \<or> q_companyId r = company \<and> q_number r = ?N)")
        case True
        then have "same_docs s ?S" by (auto simp: eval list_ex_iff same_docs_def)
        with that(1) show thesis .
      next
        case False
        let ?q = "last (quotes ?S)"
        have q: "q_id ?q = uuid v k" "q_taxRate ?q = decimal 4 (rat_or (dd_taxRate nd) 0)"
            "q_discount ?q = decimal 2 (rat_or (dd_discount nd) 0)" "q_subtotal ?q = a" "q_taxTotal ?q = b" "q_total ?q = g"
          using False decimal_totals[OF tot] by (auto simp: eval list_ex_iff stored_quote_def)
        have ok: "totals_ok (replace_lines (q_id ?q) ls (quote_lines s)) ?q" if "column_rates d"
          using column_rates_document[OF that n] tot
          by (simp add: totals_ok_def q lines_replaced[OF so(1)] totals_stored[OF so(2)] column_rate_or)
        show thesis
          by (rule that(2)[of ?q ls]) (use False ok q in \<open>auto simp: eval list_ex_iff\<close>)
      qed
    qed
  qed
qed

lemma update_quote_effect:
  obtains "same_docs s (snd (update_quote v u i d s))"
  | q nd tot where "get_quote u i s = (Inr (q, lines_of i (quote_lines s)), s)" "normalize_document d False = Inr nd"
      "quotes (snd (update_quote v u i d s)) =
         scoped_write q_id q_companyId i (q_companyId q) (change_quote (now v, nd, tot)) (quotes s)"
      "invoices (snd (update_quote v u i d s)) = invoices s"
      "tot = None \<and> qd_lines d = None \<and> quote_lines (snd (update_quote v u i d s)) = quote_lines s
       \<or> (\<exists>ls. quote_lines (snd (update_quote v u i d s)) = replace_lines i ls (quote_lines s)
            \<and> sorted (map l_position ls) \<and> rounded_lines ls
            \<and> tot = Some (totals ls (rat_or (dd_taxRate nd) (q_taxRate q)) (rat_or (dd_discount nd) (q_discount q))))"
proof (cases rule: get_quote_split[of u i s])
  case (1 e)
  with that(1) show thesis by (simp add: update_quote_def act_simps)
next
  case g: (2 q ls0)
  then have ls0: "ls0 = lines_of i (quote_lines s)" by (simp add: get_quote_cases)
  show thesis
  proof (cases "normalize_document d False")
    case (Inl e)
    with g that(1) show thesis by (simp add: update_quote_def act_simps split: if_splits)
  next
    case n: (Inr nd)
    show thesis
    proof (cases "q_status q = ''CONVERTED'' \<and> qd_lines d \<noteq> None")
      case True
      with g that(1) show thesis by (simp add: update_quote_def act_simps)
    next
      case nc: False
      show thesis
      proof (cases "qd_lines d")
        case None
        show thesis
          by (rule that(2)[of q nd None])
            (use g n nc None ls0 in \<open>simp_all add: update_quote_def act_simps get_quote_state\<close>)
      next
        case (Some ds)
        obtain r t where l: "normalize_lines v (Some ds) s = (r, t)" by (meson surj_pair)
        from normalize_lines_state[OF l] obtain k where t: "t = s\<lparr>q_drawn := k\<rparr>" by blast
        show thesis
        proof (cases r)
          case (Inl e)
          with g n nc l t Some that(1) show thesis by (simp add: update_quote_def act_simps)
        next
          case (Inr ls)
          from l Inr normalize_lines_ok have so: "sorted (map l_position ls)" "rounded_lines ls" by blast+
          show thesis
            by (rule that(2)[of q nd "Some (totals ls (rat_or (dd_taxRate nd) (q_taxRate q)) (rat_or (dd_discount nd) (q_discount q)))"])
              (use g n nc Some l t Inr so ls0 in \<open>auto simp: update_quote_def act_simps get_quote_state\<close>)
        qed
      qed
    qed
  qed
qed

lemma convert_quote_effect:
  obtains "same_docs s (snd (convert_quote v year u i d s))"
  | q inv iid where "get_quote u i s = (Inr (q, lines_of i (quote_lines s)), s)" "\<not> truthy (q_invoiceId q)"
      "quotes (snd (convert_quote v year u i d s)) =
         scoped_write q_id q_companyId i (q_companyId q) (mark_converted (now v, iid)) (quotes s)"
      "quote_lines (snd (convert_quote v year u i d s)) = quote_lines s"
      "invoices (snd (convert_quote v year u i d s)) = invoices s @ [inv]" "v_id inv = iid"
      "v_companyId inv = q_companyId q" "v_id inv \<notin> v_id ` set (invoices s)" "iid = uuid v (q_drawn s)"
      "v_number inv = next_number v_companyId v_number ''INV'' year (q_companyId q) (invoices s)"
      "v_total inv = decimal 2 (q_total q) \<and> v_balanceDue inv = decimal 2 (q_total q) \<and> v_amountPaid inv = 0"
proof (cases rule: get_quote_split[of u i s])
  case (1 e)
  with that(1) show thesis by (simp add: convert_quote_def act_simps)
next
  case g: (2 q ls)
  then have ls: "ls = lines_of i (quote_lines s)" by (simp add: get_quote_cases)
  from get_quote_stored[OF g] have qi: "q_id q = i" by simp
  show thesis
  proof (cases "truthy (q_invoiceId q)")
    case True
    with g that(1) show thesis by (simp add: convert_quote_def act_simps get_invoice_state)
  next
    case nt: False
    note eval = g nt convert_quote_def act_simps q_fresh_def insert_invoice_def get_invoice_state
    let ?N = "next_number v_companyId v_number ''INV'' year (q_companyId q) (invoices s)"
    let ?S = "snd (convert_quote v year u i d s)"
    show thesis
    proof (cases "ls = [] \<or> (\<exists>r \<in> set (invoices s). v_id r = uuid v (q_drawn s) \<or> v_companyId r = q_companyId q \<and> v_number r = ?N)")
      case True
      then have "same_docs s ?S" by (auto simp: eval list_ex_iff same_docs_def)
      with that(1) show thesis .
    next
      case False
      show thesis
        by (rule that(2)[of q "uuid v (q_drawn s)" "last (invoices ?S)"])
          (use False ls qi in \<open>auto simp: eval list_ex_iff stored_invoice_def\<close>)
    qed
  qed
qed

lemma update_invoice_effect:
  obtains "same_docs s (snd (update_invoice v u i d s))"
  | inv status where "get_invoice u i s = (Inr (inv, lines_of i (invoice_lines s)), s)"
      "snd (update_invoice v u i d s) = s\<lparr>invoices := scoped_write v_id v_companyId i (v_companyId inv)
               (change_invoice (now v, d, status, v_total inv)) (invoices s)\<rparr>"
proof (cases rule: get_invoice_split[of u i s])
  case (1 e)
  with that(1) show thesis by (simp add: update_invoice_def act_simps)
next
  case g: (2 inv ls)
  then have ls: "ls = lines_of i (invoice_lines s)" by (simp add: get_invoice_cases)
  note eval = g update_invoice_def act_simps get_invoice_state
  let ?w = "\<lambda>status. s\<lparr>invoices := scoped_write v_id v_companyId i (v_companyId inv)
               (change_invoice (now v, d, status, v_total inv)) (invoices s)\<rparr>"
  have "\<exists>status. snd (update_invoice v u i d s) \<in> {s, ?w status}"
  proof (cases "truthy (vd_status d)")
    case False
    then show ?thesis by (intro exI[of _ None]) (simp add: eval)
  next
    case True
    show ?thesis
    proof (cases "normalize_option (or_str (vd_status d) []) INVOICE_STATUSES ''invoice status''")
      case (Inl e)
      with True show ?thesis by (simp add: eval)
    next
      case (Inr st)
      with True show ?thesis by (intro exI[of _ "Some st"]) (simp add: eval)
    qed
  qed
  then show thesis using that g ls by auto
qed

section \<open>The machine and its invariant\<close>

datatype quote_call = NewQuote nat quote_dto | EditQuote string quote_dto
  | Convert nat string convert_dto | EditInvoice string invoice_dto

fun quote_step :: "world \<times> principal \<times> quote_call \<Rightarrow> qstate \<Rightarrow> qstate" where
  "quote_step (v, u, NewQuote y d) s = snd (create_quote v y u d s)"
| "quote_step (v, u, EditQuote i d) s = snd (update_quote v u i d s)"
| "quote_step (v, u, Convert y i d) s = snd (convert_quote v y u i d s)"
| "quote_step (v, u, EditInvoice i d) s = snd (update_invoice v u i d s)"

text \<open>
  An edit that changes the tax rate or the discount comes with lines, and rates and discounts
  fit their columns: what a column rounds away was part of the totals.
\<close>

fun full_edit :: "world \<times> principal \<times> quote_call \<Rightarrow> bool" where
  "full_edit (v, u, NewQuote y d) = column_rates d"
| "full_edit (v, u, EditQuote i d) = (column_rates d \<and> (qd_lines d \<noteq> None \<or> qd_taxRate d = None \<and> qd_discount d = None))"
| "full_edit _ = True"

definition docs_ok :: "qstate \<Rightarrow> bool" where
  "docs_ok s \<longleftrightarrow> distinct (map q_id (quotes s)) \<and> (\<forall>q \<in> set (quotes s). totals_ok (quote_lines s) q
       \<and> decimal 4 (q_taxRate q) = q_taxRate q \<and> decimal 2 (q_discount q) = q_discount q)
     \<and> numbering q_companyId q_number ''Q'' (quotes s) \<and> numbering v_companyId v_number ''INV'' (invoices s)"

lemma docs_same: "docs_ok s \<Longrightarrow> same_docs s t \<Longrightarrow> docs_ok t"
  by (simp add: docs_ok_def same_docs_def)

lemma totals_other: "q_id q \<noteq> i \<Longrightarrow> totals_ok (replace_lines i ls all) q = totals_ok all q"
  by (simp add: totals_ok_def lines_other)

lemma numbering_write:
  "numbering company number p rows \<Longrightarrow> (\<And>r. company (f r) = company r \<and> number (f r) = number r)
     \<Longrightarrow> numbering company number p (scoped_write key company i c f rows)"
  unfolding scoped_write_def by (rule numbering_map) auto

lemma docs_create: "column_rates d \<Longrightarrow> docs_ok s \<Longrightarrow> docs_ok (snd (create_quote v y u d s))"
proof (cases rule: create_quote_effect[of s v y u d])
  case (2 q ls)
  assume ok: "docs_ok s" and rates: "column_rates d"
  have "totals_ok (replace_lines (q_id q) ls (quote_lines s)) r" if "r \<in> set (quotes s)" for r
  proof -
    have "q_id r \<noteq> q_id q" using that 2(4) by (metis imageI)
    with ok that show ?thesis by (simp add: totals_other docs_ok_def)
  qed
  with ok 2 rates show ?thesis by (auto simp: docs_ok_def numbering_append)
qed (auto intro: docs_same)

lemma docs_update:
  assumes ok: "docs_ok s" and cr: "column_rates d" and l: "qd_lines d \<noteq> None \<or> qd_taxRate d = None \<and> qd_discount d = None"
  shows "docs_ok (snd (update_quote v u i d s))"
proof (cases rule: update_quote_effect[of s v u i d])
  case 1
  with ok show ?thesis by (rule docs_same)
next
  case (2 q nd tot)
  let ?s = "snd (update_quote v u i d s)"
  have d: "distinct (map q_id (quotes s))" using ok by (simp add: docs_ok_def)
  have q: "q \<in> set (quotes s)" "q_id q = i" using get_quote_stored[OF 2(1)] by simp_all
  have rates: "dd_taxRate nd = None \<and> dd_discount nd = None" if "qd_lines d = None"
    using 2(2) l that by (auto simp: normalize_document_def nonneg_def Let_def split: if_splits sum.splits)
  have grid: "decimal 4 (q_taxRate q) = q_taxRate q" "decimal 2 (q_discount q) = q_discount q"
    using ok q(1) by (simp_all add: docs_ok_def)
  have kept: "rat_or (map_option (decimal 4) (dd_taxRate nd)) (q_taxRate q) = rat_or (dd_taxRate nd) (q_taxRate q)"
      "rat_or (map_option (decimal 2) (dd_discount nd)) (q_discount q) = rat_or (dd_discount nd) (q_discount q)"
    using column_rates_document[OF cr 2(2)] by simp_all
  have "totals_ok (quote_lines ?s) r' \<and> decimal 4 (q_taxRate r') = q_taxRate r' \<and> decimal 2 (q_discount r') = q_discount r'"
    if "r' \<in> set (quotes ?s)" for r'
  proof -
    from that 2(3) obtain r where r: "r \<in> set (quotes s)"
      and r': "r' = (if q_id r = i \<and> q_companyId r = q_companyId q then change_quote (now v, nd, tot) r else r)"
      by (auto simp: scoped_write_def)
    have o: "totals_ok (quote_lines s) r" "decimal 4 (q_taxRate r) = q_taxRate r" "decimal 2 (q_discount r) = q_discount r"
      using ok r by (simp_all add: docs_ok_def)
    show ?thesis
    proof (cases "q_id r = i")
      case True
      with quote_edit.unique_row[OF d q(1) r] q(2) have rq: "r = q" by simp
      with r' q(2) have e: "r' = change_quote (now v, nd, tot) q" by simp
      have g: "decimal 4 (q_taxRate r') = q_taxRate r' \<and> decimal 2 (q_discount r') = q_discount r'"
        unfolding e change_quote_def using grid
        by (cases "dd_taxRate nd"; cases "dd_discount nd") (simp_all add: rat_or_def)
      from 2(5) have "totals_ok (quote_lines ?s) r'"
      proof
        assume "tot = None \<and> qd_lines d = None \<and> quote_lines ?s = quote_lines s"
        with e o(1) rq rates show ?thesis by (simp add: totals_ok_def change_quote_def rat_or_def)
      next
        assume "\<exists>ls. quote_lines ?s = replace_lines i ls (quote_lines s) \<and> sorted (map l_position ls) \<and> rounded_lines ls
            \<and> tot = Some (totals ls (rat_or (dd_taxRate nd) (q_taxRate q)) (rat_or (dd_discount nd) (q_discount q)))"
        then obtain ls where ls: "quote_lines ?s = replace_lines i ls (quote_lines s)" "sorted (map l_position ls)" "rounded_lines ls"
          and tot: "tot = Some (totals ls (rat_or (dd_taxRate nd) (q_taxRate q)) (rat_or (dd_discount nd) (q_discount q)))" by blast
        obtain a b g where t: "totals ls (rat_or (dd_taxRate nd) (q_taxRate q)) (rat_or (dd_discount nd) (q_discount q)) = (a, b, g)"
          by (metis prod_cases3)
        show ?thesis unfolding totals_ok_def ls(1) e
          by (simp add: change_quote_def q(2) lines_replaced[OF ls(2)] totals_stored[OF ls(3)] kept tot t decimal_totals[OF t])
      qed
      with g show ?thesis by simp
    next
      case False
      with r' have "r' = r" by simp
      with 2(5) False o show ?thesis by (auto simp: totals_other)
    qed
  qed
  moreover have "map q_id (quotes ?s) = map q_id (quotes s)" using 2(3) by (simp add: quote_edit.write_keys)
  moreover have "numbering q_companyId q_number ''Q'' (quotes ?s)"
    unfolding 2(3) using ok
    by (intro numbering_write) (auto simp: docs_ok_def change_quote_def)
  ultimately show ?thesis using ok 2(4) d by (simp add: docs_ok_def)
qed

lemma docs_convert: "docs_ok s \<Longrightarrow> docs_ok (snd (convert_quote v y u i d s))"
proof (cases rule: convert_quote_effect[of s v y u i d])
  case (2 q inv iid)
  assume ok: "docs_ok s"
  let ?s = "snd (convert_quote v y u i d s)"
  have "map q_id (quotes ?s) = map q_id (quotes s)" using 2(3) by (simp add: quote_mark.write_keys)
  moreover have "\<forall>r \<in> set (quotes ?s). totals_ok (quote_lines s) r
      \<and> decimal 4 (q_taxRate r) = q_taxRate r \<and> decimal 2 (q_discount r) = q_discount r"
    unfolding 2(3) using ok
    by (intro quote_mark.write_all) (auto simp: docs_ok_def totals_ok_def mark_converted_def)
  moreover have "numbering q_companyId q_number ''Q'' (quotes ?s)"
    unfolding 2(3) using ok by (intro numbering_write) (auto simp: docs_ok_def mark_converted_def)
  moreover have "numbering v_companyId v_number ''INV'' (invoices ?s)"
    unfolding 2(5) using ok 2(7,10) by (intro numbering_append) (auto simp: docs_ok_def)
  ultimately show ?thesis using ok 2(4) by (simp add: docs_ok_def)
qed (auto intro: docs_same)

lemma docs_invoice: "docs_ok s \<Longrightarrow> docs_ok (snd (update_invoice v u i d s))"
proof (cases rule: update_invoice_effect[of s v u i d])
  case (2 inv status)
  assume ok: "docs_ok s"
  have "numbering v_companyId v_number ''INV'' (scoped_write v_id v_companyId i (v_companyId inv)
               (change_invoice (now v, d, status, v_total inv)) (invoices s))"
    using ok by (intro numbering_write) (auto simp: docs_ok_def change_invoice_def Let_def)
  with ok 2(2) show ?thesis by (simp add: docs_ok_def)
qed (auto intro: docs_same)

lemma docs_step: "full_edit e \<Longrightarrow> docs_ok s \<Longrightarrow> docs_ok (quote_step e s)"
  by (cases e rule: full_edit.cases)
    (simp_all add: docs_create docs_update docs_convert docs_invoice)

interpretation quotem: guarded_machine full_edit quote_step docs_ok
  by unfold_locales (rule docs_step)

end
