(* ===== verification/Quotes_Claims.thy ===== *)
theory Quotes_Claims
  imports Quotes_Props
begin

text \<open>
  The properties of the quote and invoice service, with a small instance for their witnesses.
\<close>

section \<open>A small instance\<close>

lemma round_money_cents: "round_money (of_int n / 100) = of_int n / 100"
proof -
  have "\<lfloor>(of_int n / 100 + epsilon) * 100 + 1 / 2\<rfloor> = n"
    by (rule floor_unique) (simp_all add: epsilon_def field_simps)
  then show ?thesis by (simp add: round_money_def)
qed
lemma round_money_int: "round_money (of_int n) = of_int n"
  using round_money_cents[of "100 * n"] by simp

lemma round_money_numeral: "round_money (numeral k) = numeral k"
  using round_money_int[of "numeral k"] by simp

definition q_world :: world where
  "q_world = \<lparr>now = 9, uuid = (\<lambda>n. ''x'' @ dec n)\<rparr>"

definition q_user :: principal where
  "q_user = \<lparr>p_id = ''u1'', p_email = ''u1@x.io'', p_role = ''TENANT_ADMIN'', p_userType = ''BUSINESS'',
     p_companyId = Some ''c1'', p_effective = None, p_location = None, p_slugs = [], p_scopes = []\<rparr>"

definition q_line :: line where
  "q_line = \<lparr>l_id = ''l1'', l_position = 1, l_description = ''Cable'', l_quantity = 3, l_unitPrice = 20,
     l_taxable = True, l_total = 60\<rparr>"

definition q_quote :: quote where
  "q_quote = \<lparr>q_id = ''q1'', q_companyId = ''c1'', q_number = doc_number ''Q'' 2026 1, q_title = ''Rewire'',
     q_customerName = None, q_customerEmail = None, q_customerPhone = None, q_ticketId = None,
     q_status = ''DRAFT'', q_currency = ''USD'', q_subtotal = 60, q_taxRate = 10, q_taxTotal = 6,
     q_discount = 0, q_total = 66, q_notes = None, q_terms = None, q_validUntil = None, q_approvedAt = None,
     q_invoiceId = None, q_createdById = ''u1'', q_updatedAt = 5\<rparr>"

definition q_demo :: qstate where
  "q_demo = \<lparr>quotes = [q_quote], quote_lines = [(''q1'', q_line)], invoices = [], invoice_lines = [], q_drawn = 0\<rparr>"

lemma q_demo_ok: "docs_ok q_demo"
proof -
  have "numbering q_companyId q_number ''Q'' ([] @ [q_quote])"
    by (rule numbering_append[of _ _ _ _ _ 2026]) (simp_all add: numbering_def next_number_def q_quote_def)
  moreover have "totals_ok (quote_lines q_demo) q_quote"
    by (simp add: totals_ok_def q_demo_def q_quote_def q_line_def lines_of_def totals_def round_money_numeral)
  moreover have "decimal 4 (q_taxRate q_quote) = q_taxRate q_quote \<and> decimal 2 (q_discount q_quote) = q_discount q_quote"
    by (simp add: q_quote_def)
  ultimately show ?thesis
    by (simp add: docs_ok_def q_demo_def numbering_def)
qed
definition q_convert :: convert_dto where
  "q_convert = \<lparr>cd_title = None, cd_notes = None, cd_terms = None, cd_dueAt = None\<rparr>"

lemma q_scope: "scope_for w q_user = Inr (Some ''c1'')"
  by (simp add: scope_for_def q_user_def)

lemma q_get: "get_quote q_user ''q1'' q_demo = (Inr (q_quote, [q_line]), q_demo)"
  by (simp add: get_quote_def q_scope scoped_find_def q_demo_def q_quote_def lines_of_def)

lemma q_convert_step: "\<exists>i ls s'. convert_quote q_world 2026 q_user ''q1'' q_convert q_demo = (Inr (i, ls), s') \<and> v_total i = 66"
  by (simp add: convert_quote_def bindE_def guard_def reads_def writes_def q_get q_fresh_def insert_invoice_def get_invoice_def q_scope scoped_find_def)
     (simp add: q_demo_def q_quote_def stored_invoice_def)
section \<open>Properties\<close>

text \<open>
  C17. A quote's totals are those of its lines, and document numbers never collide. After any
  sequence of creations, conversions, invoice edits and quote edits (where an edit of tax
  rate or discount also sends the lines, and tax rates are given with at most four decimals
  and discounts with at most two, as their columns hold them), each quote's stored subtotal,
  tax and total are what \<open>calculateTotals\<close> gives for its stored lines, tax rate and discount,
  and the next quote and invoice number of any company and year is one no document of the
  company has.
\<close>
theorem quotes_consistent:
  assumes "reachable_by full_edit quote_step s0 s" and "docs_ok s0"
  shows "(\<forall>q \<in> set (quotes s). totals (lines_of (q_id q) (quote_lines s)) (q_taxRate q) (q_discount q)
            = (q_subtotal q, q_taxTotal q, q_total q))
       \<and> (\<forall>q \<in> set (quotes s). q_number q \<noteq> next_number q_companyId q_number ''Q'' year (q_companyId q) (quotes s))
       \<and> (\<forall>i \<in> set (invoices s). v_number i \<noteq> next_number v_companyId v_number ''INV'' year (v_companyId i) (invoices s))"
proof -
  have ok: "docs_ok s" using quotem.reachable_inv[OF assms] .
  then have "numbering q_companyId q_number ''Q'' (quotes s)" "numbering v_companyId v_number ''INV'' (invoices s)"
    by (simp_all add: docs_ok_def)
  from numbering_fresh[OF this(1) _ refl] numbering_fresh[OF this(2) _ refl] ok show ?thesis
    by (simp add: docs_ok_def totals_ok_def)
qed

definition q_demo2 :: qstate where
  "q_demo2 = quote_step (q_world, q_user, Convert 2026 ''q1'' q_convert) q_demo"

lemma q_demo2_reachable: "reachable_by full_edit quote_step q_demo q_demo2"
  unfolding q_demo2_def by (intro reach_step reach_start) simp

lemma q_demo2_quote: "quotes q_demo2 = [mark_converted (9, ''x'' @ dec 0) q_quote]"
  by (simp add: q_demo2_def convert_quote_def bindE_def guard_def reads_def writes_def q_get q_fresh_def
      insert_invoice_def get_invoice_state)
     (simp add: q_demo_def q_quote_def q_world_def scoped_write_def)

theorem quotes_consistent_witness:
  "totals (lines_of ''q1'' (quote_lines q_demo2)) 10 0 = (60, 6, 66)"
  using quotes_consistent[OF q_demo2_reachable q_demo_ok]
  by (simp add: q_demo2_quote mark_converted_def q_quote_def)

lemma find_first_write:
  assumes "scoped_find key company scope i rows = Some r" "\<And>x. key (f x) = key x \<and> company (f x) = company x"
  shows "scoped_find key company scope i (scoped_write key company i (company r) f rows) = Some (f r)"
  using assms
  by (induction rows) (auto simp: scoped_find_def scoped_write_def split: if_splits option.splits)

text \<open>
  A quote is converted once. When a conversion has returned an invoice, converting the
  same quote again, at any later time and with any other request data, returns the same
  invoice with its lines and changes nothing.
\<close>
theorem conversion_is_idempotent:
  assumes "convert_quote v year u i d s = (Inr r, s')" and "\<forall>k. uuid v k \<noteq> []"
  shows "convert_quote v' year' u i d' s' = (Inr r, s')"
proof -
  obtain q ls where g: "get_quote u i s = (Inr (q, ls), s)"
    using assms(1) by (cases rule: get_quote_split[of u i s]) (auto simp: convert_quote_def act_simps)
  then obtain scope where sc: "scope_for ''quotes and invoices'' u = Inr scope"
    "scoped_find q_id q_companyId scope i (quotes s) = Some q" by (auto simp: get_quote_cases)
  show ?thesis
  proof (cases "truthy (q_invoiceId q)")
    case True
    with g assms(1) have "get_invoice u (or_str (q_invoiceId q) []) s = (Inr r, s')"
      by (simp add: convert_quote_def act_simps)
    moreover from this have "s' = s" using get_invoice_state by (metis snd_conv)
    ultimately show ?thesis using g True by (simp add: convert_quote_def act_simps)
  next
    case nt: False
    let ?iid = "uuid v (q_drawn s)"
    have "\<exists>t. get_invoice u ?iid t = (Inr r, s') \<and> quotes t =
        scoped_write q_id q_companyId (q_id q) (q_companyId q) (mark_converted (now v, ?iid)) (quotes s)"
      using assms(1) nt
      by (simp add: g convert_quote_def bindE_def guard_def reads_def writes_def q_fresh_def
          insert_invoice_def split: if_splits) (rule exI, rule conjI, assumption, simp)
    then obtain t where t: "get_invoice u ?iid t = (Inr r, s')" "quotes t =
        scoped_write q_id q_companyId (q_id q) (q_companyId q) (mark_converted (now v, ?iid)) (quotes s)"
      by blast
    from t(1) have "t = s'" using get_invoice_state[of u ?iid t] by simp
    with t have w: "get_invoice u ?iid s' = (Inr r, s')"
        "quotes s' = scoped_write q_id q_companyId (q_id q) (q_companyId q) (mark_converted (now v, ?iid)) (quotes s)"
      by simp_all
    have "q_id q = i" using get_quote_stored[OF g] by simp
    with w(2) find_first_write[OF sc(2), of "mark_converted (now v, ?iid)"]
    have "scoped_find q_id q_companyId scope i (quotes s') = Some (mark_converted (now v, ?iid) q)"
      by (simp add: quote_mark.key_change quote_mark.company_change)
    with sc(1) have "get_quote u i s' = (Inr (mark_converted (now v, ?iid) q, lines_of i (quote_lines s')), s')"
      by (simp add: get_quote_cases)
    with w(1) assms(2) show ?thesis
      by (simp add: convert_quote_def act_simps mark_converted_def or_str_def)
  qed
qed

theorem conversion_is_idempotent_witness:
  "\<exists>r s'. convert_quote q_world 2026 q_user ''q1'' q_convert q_demo = (Inr r, s')
      \<and> convert_quote q_world 2027 q_user ''q1'' q_convert s' = (Inr r, s')"
proof -
  obtain r s' where r: "convert_quote q_world 2026 q_user ''q1'' q_convert q_demo = (Inr r, s')"
    using q_convert_step by blast
  with conversion_is_idempotent[OF r, of q_world 2027 q_convert] show ?thesis by (auto simp: q_world_def)
qed

text \<open>
  C34. Recording a payment. When an invoice edit with an amount paid succeeds, the invoice
  that is returned has that amount (never below zero) as paid and the rest of its total
  (never below zero) as balance, both rounded to cents by their columns; when the amount
  covers the total its status is PAID with the time of payment and nothing is left; a
  positive smaller amount makes it PARTIAL, whatever status was asked for. For an amount in
  whole cents nothing is rounded, and nothing is left only when the total is covered.
\<close>
theorem payment_settles_invoice:
  assumes "update_invoice v u i d s = (Inr (doc, ls), s')" and "vd_amountPaid d = Some p"
  shows "v_amountPaid doc = decimal 2 (max 0 p) \<and> v_balanceDue doc = decimal 2 (max 0 (v_total doc - max 0 p))
       \<and> (v_total doc \<le> max 0 p \<longrightarrow> v_status doc = ''PAID'' \<and> v_paidAt doc = Some (now v) \<and> v_balanceDue doc = 0)
       \<and> (0 < p \<and> p < v_total doc \<longrightarrow> v_status doc = ''PARTIAL'')
       \<and> (decimal 2 p = p \<and> decimal 2 (v_total doc) = v_total doc \<longrightarrow>
            v_amountPaid doc = max 0 p \<and> v_balanceDue doc = max 0 (v_total doc - max 0 p)
          \<and> (v_balanceDue doc = 0 \<longleftrightarrow> v_total doc \<le> max 0 p))"
proof -
  obtain inv0 ls0 where g: "get_invoice u i s = (Inr (inv0, ls0), s)"
    using assms(1) by (cases rule: get_invoice_split[of u i s]) (auto simp: update_invoice_def act_simps)
  then obtain scope where sc: "scope_for ''quotes and invoices'' u = Inr scope"
    "scoped_find v_id v_companyId scope i (invoices s) = Some inv0" by (auto simp: get_invoice_cases)
  let ?w = "\<lambda>status. s\<lparr>invoices := scoped_write v_id v_companyId i (v_companyId inv0)
               (change_invoice (now v, d, status, v_total inv0)) (invoices s)\<rparr>"
  have "\<exists>status. get_invoice u i (?w status) = (Inr (doc, ls), s')"
  proof (cases "truthy (vd_status d)")
    case False
    with g assms(1) show ?thesis
      by (intro exI[of _ None]) (simp add: update_invoice_def act_simps split: if_splits)
  next
    case True
    with g assms(1) show ?thesis
      by (cases "normalize_option (or_str (vd_status d) []) INVOICE_STATUSES ''invoice status''")
        (auto simp: update_invoice_def act_simps split: if_splits)
  qed
  then obtain status where "get_invoice u i (?w status) = (Inr (doc, ls), s')" by blast
  with sc find_first_write[OF sc(2), of "change_invoice (now v, d, status, v_total inv0)"]
  have "doc = change_invoice (now v, d, status, v_total inv0) inv0"
    by (auto simp: get_invoice_cases invoice_edit.key_change invoice_edit.company_change)
  then have e: "v_amountPaid doc = decimal 2 (max 0 p)" "v_balanceDue doc = decimal 2 (max 0 (v_total doc - max 0 p))"
      "v_total doc \<le> max 0 p \<Longrightarrow> v_status doc = ''PAID'' \<and> v_paidAt doc = Some (now v) \<and> v_balanceDue doc = 0"
      "0 < p \<Longrightarrow> p < v_total doc \<Longrightarrow> v_status doc = ''PARTIAL''"
    using assms(2) by (auto simp: change_invoice_def Let_def rat_or_def max_def split: if_splits)
  have "decimal 2 (max 0 p) = max 0 p \<and> decimal 2 (max 0 (v_total doc - max 0 p)) = max 0 (v_total doc - max 0 p)"
    if "decimal 2 p = p" "decimal 2 (v_total doc) = v_total doc"
    using that by (simp add: decimal_max decimal_diff)
  then show ?thesis using e by (auto simp: max_def)
qed

definition q_invoice :: invoice where
  "q_invoice = \<lparr>v_id = ''i1'', v_companyId = ''c1'', v_number = ''INV-2026-00001'', v_quoteId = None,
     v_ticketId = None, v_title = Some ''Rewire'', v_customerName = None, v_customerEmail = None,
     v_customerPhone = None, v_status = ''SENT'', v_currency = ''USD'', v_subtotal = 60, v_taxRate = 10,
     v_taxTotal = 6, v_discount = 0, v_total = 66, v_amountPaid = 0, v_balanceDue = 66, v_notes = None,
     v_terms = None, v_dueAt = None, v_sentAt = None, v_paidAt = None, v_createdById = ''u1'', v_updatedAt = 5\<rparr>"

definition q_pay :: invoice_dto where
  "q_pay = \<lparr>vd_title = Absent, vd_customerName = Absent, vd_customerEmail = Absent, vd_customerPhone = Absent,
     vd_notes = Absent, vd_terms = Absent, vd_status = None, vd_dueAt = NoDate, vd_amountPaid = Some 60\<rparr>"

lemma q_paid: "\<exists>doc ls s'. update_invoice q_world q_user ''i1'' q_pay (q_demo\<lparr>invoices := [q_invoice]\<rparr>) = (Inr (doc, ls), s')
    \<and> v_total doc = 66"
  by (simp add: update_invoice_def act_simps get_invoice_def q_scope scoped_find_def scoped_write_def q_invoice_def
      change_invoice_def q_pay_def Let_def)

text \<open>
  The status is settled before the columns round: a payment of 9.999 on a total of 10 is
  stored as 10.00 with nothing left, and the invoice is PARTIAL.
\<close>
theorem fraction_of_cent_stays_partial:
  assumes "v_total doc = 10" "vd_amountPaid d = Some (9999 / 1000)"
  shows "v_amountPaid (change_invoice (t, d, status, v_total doc) doc) = 10
    \<and> v_balanceDue (change_invoice (t, d, status, v_total doc) doc) = 0
    \<and> v_status (change_invoice (t, d, status, v_total doc) doc) = ''PARTIAL''"
  using assms by (simp add: change_invoice_def Let_def rat_or_def decimal_def floor_eq_iff)

theorem payment_settles_invoice_witness:
  "\<exists>doc ls s'. update_invoice q_world q_user ''i1'' q_pay (q_demo\<lparr>invoices := [q_invoice]\<rparr>) = (Inr (doc, ls), s')
      \<and> v_balanceDue doc = 6 \<and> v_status doc = ''PARTIAL''"
proof -
  obtain doc ls s' where r: "update_invoice q_world q_user ''i1'' q_pay (q_demo\<lparr>invoices := [q_invoice]\<rparr>) = (Inr (doc, ls), s')"
    "v_total doc = 66"
    using q_paid by blast
  with payment_settles_invoice[OF r(1), of 60] show ?thesis by (simp add: q_pay_def)
qed

end
