(* ===== verification/Credentials.thy ===== *)
theory Credentials
  imports Prelude "HOL-Library.Word"
begin

text \<open>
  Credentials: stored token hashes (\<open>common/security/credential-hash.ts\<close>), the password
  policy (\<open>password-policy.ts\<close>), base 32 and one-time codes (\<open>auth/services/mfa.service.ts\<close>).
  SHA-256, HMAC-SHA-1, bcrypt, AES and the JWT library are fields of the parameter \<open>crypto\<close>;
  \<open>decrypt\<close> covers \<open>decryptSecret\<close>, which throws on a damaged value (\<open>None\<close>). Unicode
  normalisation is the identity on ASCII.
\<close>

unbundle bit_operations_syntax

type_synonym byte = "8 word"

record payload =
  y_sub :: string
  y_sid :: "string option"
  y_av :: "int option"
  y_purpose :: "string option"
  y_nonce :: "string option"
  y_role :: "string option"

record crypto =
  sha256 :: "string \<Rightarrow> string"
  hmac_sha1 :: "byte list \<Rightarrow> byte list \<Rightarrow> byte list"
  bcrypt_ok :: "string \<Rightarrow> string \<Rightarrow> bool"
  bcrypt_hash :: "string \<Rightarrow> string"
  encrypt :: "string \<Rightarrow> string"
  decrypt :: "string \<Rightarrow> string option"
  jwt_sign :: "payload \<Rightarrow> int \<Rightarrow> string"
  jwt_verify :: "int \<Rightarrow> string \<Rightarrow> payload option"
  access_lifetime :: int

section \<open>Stored hashes\<close>

definition hash_credential :: "crypto \<Rightarrow> string \<Rightarrow> string" where
  "hash_credential cr x = ''sha256:'' @ sha256 cr x"

definition is_hashed :: "string \<Rightarrow> bool" where
  "is_hashed x = starts_with x ''sha256:''"

definition lookup_values :: "crypto \<Rightarrow> string \<Rightarrow> string list" where
  "lookup_values cr x = (let h = hash_credential cr x in if h = x then [x] else [h, x])"

definition credential_matches :: "crypto \<Rightarrow> string \<Rightarrow> string option \<Rightarrow> bool" where
  "credential_matches cr candidate stored =
     (case stored of
        None \<Rightarrow> False
      | Some v \<Rightarrow> v \<noteq> [] \<and> v = (if is_hashed v then hash_credential cr candidate else candidate))"

section \<open>Password policy\<close>

definition PASSWORD_MIN_LENGTH :: nat where "PASSWORD_MIN_LENGTH = 15"
definition PASSWORD_MAX_LENGTH :: nat where "PASSWORD_MAX_LENGTH = 128"

definition BLOCKED_PASSWORDS :: "string list" where
  "BLOCKED_PASSWORDS = [''123456789012345'', ''adminadminadmin'', ''changemechangeme'', ''fieldserviceit'',
     ''letmeinletmein'', ''passwordpassword'', ''qwertyqwertyqwerty'', ''welcome123456789'']"

definition ch_digit :: "char \<Rightarrow> bool" where
  "ch_digit c \<longleftrightarrow> (let n = of_char c :: nat in 48 \<le> n \<and> n \<le> 57)"

definition ch_lower_alnum :: "char \<Rightarrow> bool" where
  "ch_lower_alnum c \<longleftrightarrow> ch_digit c \<or> (let n = of_char c :: nat in 97 \<le> n \<and> n \<le> 122)"

text \<open>\<open>split(/[^a-z0-9]+/)\<close>; the empty pieces between adjacent separators are too short to matter.\<close>

definition context_words :: "string list \<Rightarrow> string list" where
  "context_words vs =
     filter (\<lambda>w. length w \<ge> 4)
       (concat (map (\<lambda>v. str_split (CHR '' '')
          (map (\<lambda>c. if ch_lower_alnum c then c else CHR '' '') (js_lower v))) vs))"

definition password_policy_error :: "string option \<Rightarrow> string list \<Rightarrow> string option" where
  "password_policy_error password contextValues =
     (case password of
        None \<Rightarrow> Some ''Password is required''
      | Some p \<Rightarrow>
         if length p < PASSWORD_MIN_LENGTH then Some ''Password must be at least 15 characters''
         else if length p > PASSWORD_MAX_LENGTH then Some ''Password must be no more than 128 characters''
         else if js_lower p \<in> set BLOCKED_PASSWORDS
           then Some ''Choose a password that is not commonly used or associated with this service''
         else if list_ex (str_includes (js_lower p)) (context_words contextValues)
           then Some ''Password must not contain your email address, name, or organization name''
         else None)"

definition assert_password_policy :: "string option \<Rightarrow> string list \<Rightarrow> unit res" where
  "assert_password_policy password contextValues =
     (case password_policy_error password contextValues of None \<Rightarrow> Inr () | Some e \<Rightarrow> Inl (BadRequest e))"

section \<open>Base 32\<close>

definition BASE32_ALPHABET :: string where
  "BASE32_ALPHABET = ''ABCDEFGHIJKLMNOPQRSTUVWXYZ234567''"

text \<open>\<open>toString(2).padStart(w, '0')\<close> and \<open>parseInt(bits, 2)\<close>, most significant bit first.\<close>

definition to_bits :: "nat \<Rightarrow> nat \<Rightarrow> bool list" where
  "to_bits w n = map (\<lambda>i. bit n (w - 1 - i)) [0..<w]"

definition of_bits :: "bool list \<Rightarrow> nat" where
  "of_bits bs = foldl (\<lambda>n b. 2 * n + of_bool b) 0 bs"

function group_text :: "nat \<Rightarrow> string \<Rightarrow> bool list \<Rightarrow> string" where
  "group_text w letters bs =
     (if bs = [] \<or> w = 0 then []
      else letters ! of_bits (take w bs @ replicate (w - length bs) False) # group_text w letters (drop w bs))"
  by pat_completeness auto
termination by (relation "measure (\<lambda>(w, letters, bs). length bs)") auto

declare group_text.simps [simp del]

definition encode_base32 :: "byte list \<Rightarrow> string" where
  "encode_base32 value = group_text 5 BASE32_ALPHABET (concat (map (\<lambda>b. to_bits 8 (unat b)) value))"

fun index_of :: "'a \<Rightarrow> 'a list \<Rightarrow> nat option" where
  "index_of x [] = None"
| "index_of x (y # ys) = (if x = y then Some 0 else map_option Suc (index_of x ys))"

function decode_bits :: "bool list \<Rightarrow> byte list" where
  "decode_bits bs = (if length bs < 8 then [] else of_nat (of_bits (take 8 bs)) # decode_bits (drop 8 bs))"
  by pat_completeness auto
termination by (relation "measure length") auto

declare decode_bits.simps [simp del]

definition char_bits :: "nat \<Rightarrow> string \<Rightarrow> char \<Rightarrow> bool list" where
  "char_bits w letters c = (case index_of c letters of None \<Rightarrow> [] | Some i \<Rightarrow> to_bits w i)"

definition decode_base32 :: "string \<Rightarrow> byte list" where
  "decode_base32 value =
     decode_bits (concat (map (char_bits 5 BASE32_ALPHABET) (js_upper (rev (dropWhile (\<lambda>c. c = CHR ''='') (rev value))))))"

section \<open>One-time codes\<close>

definition counter_bytes :: "nat \<Rightarrow> byte list" where
  "counter_bytes n = map (\<lambda>i. of_nat (n div 256 ^ (7 - i))) [0..<8]"

definition truncated :: "byte list \<Rightarrow> 32 word" where
  "truncated d =
     (let offset = unat (last d AND 0x0f);
          at = (\<lambda>k. ucast (d ! (offset + k)) :: 32 word) in
      push_bit 24 (at 0 AND 0x7f) OR push_bit 16 (at 1) OR push_bit 8 (at 2) OR at 3)"

definition hotp :: "crypto \<Rightarrow> string \<Rightarrow> nat \<Rightarrow> string" where
  "hotp cr secret counter =
     (let digest = hmac_sha1 cr (decode_base32 secret) (counter_bytes counter) in
      pad_start 6 (CHR ''0'') (dec (unat (truncated digest) mod 1000000)))"

text \<open>Counters \<open>now div 30000\<close> and its neighbours; \<open>now\<close> is past the first half minute of 1970.\<close>

definition verify_totp :: "crypto \<Rightarrow> string \<Rightarrow> string \<Rightarrow> int \<Rightarrow> bool" where
  "verify_totp cr secret code t =
     (let counter = nat (t div 30000) in
      list_ex (\<lambda>n. hotp cr secret n = js_trim code) [counter - 1, counter, counter + 1])"

definition six_digits :: "string \<Rightarrow> bool" where
  "six_digits s \<longleftrightarrow> length s = 6 \<and> list_all ch_digit s"

definition hash_recovery_code :: "crypto \<Rightarrow> string \<Rightarrow> string" where
  "hash_recovery_code cr x = sha256 cr (filter (\<lambda>c. ch_lower_alnum (ch_lower c)) (js_upper x))"

definition recovery_code :: "string \<Rightarrow> string" where
  "recovery_code hex = take 5 (js_upper hex) @ ''-'' @ drop 5 (js_upper hex)"

section \<open>Round trip and length\<close>

lemma of_bits_snoc: "of_bits (bs @ [b]) = 2 * of_bits bs + of_bool b"
  by (simp add: of_bits_def)

lemma to_bits_Suc: "to_bits (Suc w) n = to_bits w (n div 2) @ [odd n]"
proof -
  have "map (\<lambda>i. bit n (w - i)) [0..<w] = map (\<lambda>i. bit (n div 2) (w - 1 - i)) [0..<w]"
    by (rule map_cong) (auto simp: Suc_diff_Suc simp flip: bit_Suc)
  then show ?thesis by (simp add: to_bits_def bit_0)
qed

lemma of_to_bits: "of_bits (to_bits w n) = n mod 2 ^ w"
proof (induction w arbitrary: n)
  case 0
  then show ?case by (simp add: to_bits_def of_bits_def)
next
  case (Suc w)
  have "n mod 2 ^ Suc w = 2 * (n div 2 mod 2 ^ w) + n mod 2"
    by (simp add: mod_mult2_eq)
  then show ?case by (simp add: to_bits_Suc of_bits_snoc Suc mod_2_eq_odd)
qed

lemma length_to_bits [simp]: "length (to_bits w n) = w"
  by (simp add: to_bits_def)

lemma of_bits_less: "of_bits bs < 2 ^ length bs"
  by (induction bs rule: rev_induct) (auto simp: of_bits_snoc of_bits_def)

lemma to_of_bits: "to_bits (length bs) (of_bits bs) = bs"
proof (induction bs rule: rev_induct)
  case Nil
  then show ?case by (simp add: to_bits_def)
next
  case (snoc b bs)
  then show ?case by (simp add: to_bits_Suc of_bits_snoc)
qed

lemma alphabet_plain: "c \<in> set BASE32_ALPHABET \<Longrightarrow> ch_upper c = c \<and> c \<noteq> CHR ''=''"
proof -
  have "list_all (\<lambda>c. ch_upper c = c \<and> c \<noteq> CHR ''='') BASE32_ALPHABET"
    by code_simp
  then show "c \<in> set BASE32_ALPHABET \<Longrightarrow> ch_upper c = c \<and> c \<noteq> CHR ''=''"
    by (simp add: list_all_iff)
qed

lemma index_of_nth: "distinct xs \<Longrightarrow> i < length xs \<Longrightarrow> index_of (xs ! i) xs = Some i"
  by (induction xs arbitrary: i) (auto simp: nth_Cons split: nat.splits)

text \<open>
  Texts that write bit strings in groups of \<open>w\<close> bits, one letter for each group, the last one
  filled with zero bits: what an alphabet must satisfy for the bits to be read back.
\<close>

locale radix =
  fixes w :: nat and letters :: string
  assumes width: "0 < w" and letters_length: "length letters = 2 ^ w" and letters_distinct: "distinct letters"
begin

lemma group_step:
  "bs \<noteq> [] \<Longrightarrow> \<exists>c k. c \<in> set letters \<and> k < w \<and> group_text w letters bs = c # group_text w letters (drop w bs)
     \<and> char_bits w letters c = take w bs @ replicate k False \<and> (k = 0 \<or> length bs < w)"
proof -
  assume b: "bs \<noteq> []"
  let ?g = "take w bs @ replicate (w - length bs) False"
  have g: "length ?g = w" by simp
  have l: "of_bits ?g < length letters" using of_bits_less[of ?g] unfolding g letters_length .
  have "to_bits w (of_bits ?g) = ?g" using to_of_bits[of ?g] unfolding g .
  with l have "char_bits w letters (letters ! of_bits ?g) = ?g"
    by (simp add: char_bits_def index_of_nth letters_distinct)
  moreover have "w - length bs < w" using b width by (cases bs) auto
  ultimately show ?thesis
    using b width l by (subst group_text.simps) (intro exI[of _ "letters ! of_bits ?g"] exI[of _ "w - length bs"], auto)
qed

lemma group_read:
  "\<exists>k < w. concat (map (char_bits w letters) (group_text w letters bs)) = bs @ replicate k False
     \<and> set (group_text w letters bs) \<subseteq> set letters"
proof (induction "length bs" arbitrary: bs rule: less_induct)
  case less
  show ?case
  proof (cases "bs = []")
    case True
    then show ?thesis using width by (subst group_text.simps, subst (2) group_text.simps) auto
  next
    case False
    from group_step[OF this] obtain c k where c: "c \<in> set letters" "k < w"
      and e: "group_text w letters bs = c # group_text w letters (drop w bs)"
      and b: "char_bits w letters c = take w bs @ replicate k False" and l: "k = 0 \<or> length bs < w" by auto
    from False width less[of "drop w bs"] obtain k' where k': "k' < w"
      and r: "concat (map (char_bits w letters) (group_text w letters (drop w bs))) = drop w bs @ replicate k' False"
      and s: "set (group_text w letters (drop w bs)) \<subseteq> set letters" by auto
    have "\<exists>j < w. (take w bs @ replicate k False)
        @ concat (map (char_bits w letters) (group_text w letters (drop w bs))) = bs @ replicate j False"
    proof (cases "k = 0")
      case True
      with r k' show ?thesis by (intro exI[of _ k']) (simp add: append_assoc[symmetric] del: append_assoc)
    next
      case False
      with l have "drop w bs = []" "take w bs = bs" by simp_all
      with c show ?thesis by (intro exI[of _ k]) (simp add: group_text.simps)
    qed
    with c s show ?thesis by (simp add: e b)
  qed
qed

end

interpretation b32: radix 5 BASE32_ALPHABET
  by unfold_locales (simp_all add: BASE32_ALPHABET_def)

lemma unat_lt_8: "unat (b :: byte) < 256"
  using unsigned_less[of b] by (simp add: unsigned_less[THEN less_le_trans])

lemma decode_bits_pad: "k < 8 \<Longrightarrow> decode_bits (concat (map (\<lambda>b. to_bits 8 (unat b)) value) @ replicate k False) = value"
proof (induction "value")
  case Nil
  then show ?case by (subst decode_bits.simps) simp
next
  case (Cons b bs)
  have "of_bits (to_bits 8 (unat b)) = unat b"
    using unat_lt_8[of b] by (simp add: of_to_bits)
  with Cons show ?case by (subst decode_bits.simps) simp
qed

lemma dec_length: "n < 10 ^ k \<Longrightarrow> 0 < k \<Longrightarrow> length (dec n) \<le> k"
proof (induction n arbitrary: k rule: dec.induct)
  case (1 n)
  show ?case
  proof (cases "n < 10")
    case True
    with 1(3) show ?thesis by (subst dec.simps) simp
  next
    case False
    then obtain j where j: "k = Suc j" "0 < j" using 1(2,3) by (cases k; cases "k - 1") auto
    then have "n div 10 < 10 ^ j" using 1(2) by (simp add: less_mult_imp_div_less mult.commute)
    with 1(1)[OF False this j(2)] False j show ?thesis by (subst dec.simps) simp
  qed
qed

lemma hotp_length: "length (hotp cr secret counter) = 6"
proof -
  let ?n = "unat (truncated (hmac_sha1 cr (decode_base32 secret) (counter_bytes counter))) mod 1000000"
  have "length (dec ?n) \<le> 6" by (rule dec_length) (simp_all add: mod_less_divisor)
  then show ?thesis by (simp add: hotp_def Let_def pad_start_def)
qed

text \<open>
  Authenticator secrets survive the base 32 form. Decoding what \<open>encodeBase32\<close> writes for
  a byte string gives the byte string back, whatever its length.
\<close>
theorem base32_round_trip: "decode_base32 (encode_base32 value) = value"
proof -
  let ?bs = "concat (map (\<lambda>b. to_bits 8 (unat b)) value)"
  let ?t = "group_text 5 BASE32_ALPHABET ?bs"
  obtain k where k: "k < 5" "concat (map (char_bits 5 BASE32_ALPHABET) ?t) = ?bs @ replicate k False"
    and t: "set ?t \<subseteq> set BASE32_ALPHABET"
    using b32.group_read by blast
  have c: "\<forall>c \<in> set ?t. ch_upper c = c \<and> c \<noteq> CHR ''=''" using t alphabet_plain by blast
  have "dropWhile (\<lambda>c. c = CHR ''='') (rev ?t) = rev ?t"
    using c by (cases "rev ?t") (auto simp: rev_swap)
  moreover have "js_upper ?t = ?t" using c by (simp add: map_idI)
  ultimately show ?thesis
    using k decode_bits_pad[of k "value"] by (simp add: decode_base32_def encode_base32_def)
qed

end
