(* ===== verification/Auth.thy ===== *)
theory Auth
  imports Credentials Principal
begin

text \<open>
  Accounts, sessions and tokens: \<open>database/repositories/session.repository.ts\<close>,
  \<open>auth/services/auth.service.ts\<close>, the user columns of \<open>auth/services/mfa.service.ts\<close>,
  \<open>auth/services/mfa-reset.service.ts\<close> and \<open>auth/strategies/jwt.strategy.ts\<close>. JSON columns
  appear parsed. Row ids of alerts, consents, rotations and audit entries, the alert
  details and the mail bodies are left out; every table exists (the fall-back for a missing
  abuse table is not modelled), and queries do not fail. The unique refresh-token column
  does reject a duplicate, which \<open>generateTokens\<close> retries.
\<close>

section \<open>Tables\<close>

record account =
  ac_id :: string
  ac_email :: string
  ac_firstName :: string
  ac_lastName :: string
  ac_phone :: "string option"
  ac_jobTitle :: "string option"
  ac_department :: "string option"
  ac_location :: "string option"
  ac_contact :: "string option"
  ac_timezone :: "string option"
  ac_role :: string
  ac_userType :: string
  ac_companyId :: "string option"
  ac_emailVerified :: bool
  ac_passwordHash :: "string option"
  ac_isActive :: bool
  ac_breakGlass :: bool
  ac_authVersion :: int
  ac_lastLoginAt :: "int option"
  ac_mfaEnabled :: bool
  ac_mfaSecret :: "string option"
  ac_mfaPending :: "string option"
  ac_recovery :: "string list"
  ac_mfaAt :: "int option"
  ac_verifyToken :: "string option"
  ac_verifyExpires :: "int option"
  ac_resetToken :: "string option"
  ac_resetExpires :: "int option"

record session =
  se_id :: string
  se_userId :: string
  se_refresh :: string
  se_device :: string
  se_agent :: "string option"
  se_ip :: "string option"
  se_createdAt :: int
  se_lastSeenAt :: "int option"
  se_mfaAt :: "int option"
  se_expiresAt :: int
  se_revokedAt :: "int option"
  se_revokedById :: "string option"
  se_reason :: "string option"

record rotation =
  rt_sessionId :: string
  rt_userId :: string
  rt_hash :: string
  rt_expiresAt :: int

record abuse_row =
  ab_hash :: string
  ab_count :: int
  ab_lockedUntil :: "int option"
  ab_lastAt :: int

record alert =
  al_companyId :: "string option"
  al_type :: string
  al_severity :: string
  al_subject :: string
  al_summary :: string

record sec_policy =
  sp_lifetime :: int
  sp_maxActive :: int
  sp_mfaSuper :: bool
  sp_mfaTenant :: bool
  sp_mfaTech :: bool

record tenant_row =
  tn_id :: string
  tn_name :: string
  tn_slug :: string
  tn_invite :: "string option"
  tn_inviteExpires :: "int option"
  tn_domain :: "string option"
  tn_isActive :: bool

record reset_request =
  rr_id :: string
  rr_userId :: string
  rr_email :: string
  rr_reason :: "string option"
  rr_status :: string
  rr_reviewer :: "string option"
  rr_notes :: "string option"
  rr_reviewedAt :: "int option"

record auth_db =
  accounts :: "account list"
  sessions :: "session list"
  rotations :: "rotation list"
  abuse :: "abuse_row list"
  alerts :: "alert list"
  sec_policy :: "sec_policy option"
  tenants :: "tenant_row list"
  consents :: "(string \<times> string \<times> string \<times> int) list"
  resets :: "reset_request list"
  auth_mail :: "(string \<times> string \<times> string) list"
  reviews :: "(string option \<times> string \<times> string \<times> string) list"

text \<open>What a request draws: \<open>rnd\<close> are \<open>randomBytes\<close> texts in hexadecimal.\<close>

record auth_world = world +
  rnd :: "nat \<Rightarrow> string"
  rnd_secret :: "byte list"

record session_ctx =
  sx_ip :: "string option"
  sx_agent :: "string option"
  sx_mfaAt :: "int option"

type_synonym 'a auth = "(auth_db, 'a) act"

definition no_ctx :: session_ctx where
  "no_ctx = \<lparr>sx_ip = None, sx_agent = None, sx_mfaAt = None\<rparr>"

definition find_account :: "string \<Rightarrow> auth_db \<Rightarrow> account option" where
  "find_account i s = find (\<lambda>a. ac_id a = i) (accounts s)"

definition account_by_email :: "string \<Rightarrow> auth_db \<Rightarrow> account option" where
  "account_by_email e s = find (\<lambda>a. ac_email a = e) (accounts s)"

definition set_account :: "string \<Rightarrow> (account \<Rightarrow> account) \<Rightarrow> unit auth" where
  "set_account i f = writes (\<lambda>s. s\<lparr>accounts := map (\<lambda>a. if ac_id a = i then f a else a) (accounts s)\<rparr>)"

definition set_sessions :: "(session \<Rightarrow> bool) \<Rightarrow> (session \<Rightarrow> session) \<Rightarrow> unit auth" where
  "set_sessions P f = writes (\<lambda>s. s\<lparr>sessions := map (\<lambda>x. if P x then f x else x) (sessions s)\<rparr>)"

text \<open>An update that reports how many rows it matched.\<close>

definition update_sessions :: "(session \<Rightarrow> bool) \<Rightarrow> (session \<Rightarrow> session) \<Rightarrow> bool auth" where
  "update_sessions P f =
     bindE (reads (\<lambda>s. list_ex P (sessions s))) (\<lambda>hit. bindE (set_sessions P f) (\<lambda>_. ret hit))"

section \<open>Session repository\<close>

definition live :: "int \<Rightarrow> session \<Rightarrow> bool" where
  "live t x \<longleftrightarrow> se_revokedAt x = None \<and> se_expiresAt x > t"

definition revoke :: "int \<Rightarrow> string option \<Rightarrow> string \<Rightarrow> session \<Rightarrow> session" where
  "revoke t by why x = x\<lparr>se_revokedAt := Some t,
     se_revokedById := (case by of None \<Rightarrow> se_revokedById x | Some b \<Rightarrow> Some b), se_reason := Some why\<rparr>"

definition find_by_refresh :: "crypto \<Rightarrow> string \<Rightarrow> auth_db \<Rightarrow> session option" where
  "find_by_refresh cr token s =
     (case find (\<lambda>x. se_refresh x = hash_credential cr token) (sessions s) of
        Some x \<Rightarrow> Some x
      | None \<Rightarrow> find (\<lambda>x. se_refresh x \<in> set (lookup_values cr token)) (sessions s))"

definition revoke_by_refresh :: "crypto \<Rightarrow> int \<Rightarrow> string \<Rightarrow> string \<Rightarrow> unit auth" where
  "revoke_by_refresh cr t token why =
     set_sessions (\<lambda>x. se_refresh x \<in> set (lookup_values cr token)) (revoke t None why)"

definition revoke_family :: "int \<Rightarrow> string \<Rightarrow> string \<Rightarrow> unit auth" where
  "revoke_family t userId why =
     set_sessions (\<lambda>x. se_userId x = userId \<and> se_revokedAt x = None) (revoke t None why)"

definition record_rotation :: "crypto \<Rightarrow> string \<Rightarrow> string \<Rightarrow> string \<Rightarrow> int \<Rightarrow> unit auth" where
  "record_rotation cr sessionId userId previous expiresAt =
     writes (\<lambda>s. if list_ex (\<lambda>r. rt_hash r = hash_credential cr previous) (rotations s) then s
       else s\<lparr>rotations := rotations s @ [\<lparr>rt_sessionId = sessionId, rt_userId = userId,
                rt_hash = hash_credential cr previous, rt_expiresAt = expiresAt\<rparr>]\<rparr>)"

definition duplicate :: http_error where
  "duplicate = ServerError ''Duplicate entry''"

definition rotate_session :: "crypto \<Rightarrow> int \<Rightarrow> string \<Rightarrow> string \<Rightarrow> string \<Rightarrow> string \<Rightarrow> int \<Rightarrow> int option \<Rightarrow> bool auth" where
  "rotate_session cr t sessionId userId previous newHash expiresAt mfaAt =
     bindE (reads (\<lambda>s. let hit = (\<lambda>x. se_id x = sessionId \<and> se_userId x = userId
                 \<and> se_refresh x \<in> set (lookup_values cr previous) \<and> live t x) in
              (list_ex hit (sessions s),
               list_ex (\<lambda>x. se_refresh x = newHash \<and> \<not> hit x) (sessions s)))) (\<lambda>(hit, taken).
     if \<not> hit then ret False
     else bindE (guard (\<not> taken) duplicate) (\<lambda>_.
     bindE (set_sessions (\<lambda>x. se_id x = sessionId \<and> se_userId x = userId
                 \<and> se_refresh x \<in> set (lookup_values cr previous) \<and> live t x)
              (\<lambda>x. x\<lparr>se_refresh := newHash, se_expiresAt := expiresAt, se_lastSeenAt := Some t,
                     se_revokedAt := None, se_revokedById := None, se_reason := None,
                     se_mfaAt := (case mfaAt of None \<Rightarrow> se_mfaAt x | Some m \<Rightarrow> Some m)\<rparr>)) (\<lambda>_.
     bindE (record_rotation cr sessionId userId previous expiresAt) (\<lambda>_.
     ret True))))"

definition find_reused :: "crypto \<Rightarrow> int \<Rightarrow> string \<Rightarrow> auth_db \<Rightarrow> rotation option" where
  "find_reused cr t token s =
     find (\<lambda>r. rt_hash r = hash_credential cr token \<and> rt_expiresAt r > t) (rotations s)"

section \<open>Tokens\<close>

definition or_int :: "int option \<Rightarrow> int \<Rightarrow> int" where
  "or_int x d = (case x of None \<Rightarrow> d | Some n \<Rightarrow> if n = 0 then d else n)"

definition lifetime_days :: "auth_db \<Rightarrow> int" where
  "lifetime_days s = min (max (or_int (map_option sp_lifetime (sec_policy s)) 7) 1) 30"

definition max_active :: "auth_db \<Rightarrow> nat" where
  "max_active s = nat (min (max (or_int (map_option sp_maxActive (sec_policy s)) 10) 1) 50)"

definition device_label :: "string option \<Rightarrow> string" where
  "device_label agent =
     (let v = or_str agent []; has = str_includes v;
          browser = (if has ''Edg/'' then ''Edge'' else if has ''Chrome/'' then ''Chrome''
            else if has ''Firefox/'' then ''Firefox'' else if has ''Safari/'' then ''Safari'' else ''Browser'');
          os = (if has ''Windows'' then ''Windows'' else if has ''Mac OS'' then ''macOS''
            else if has ''Android'' then ''Android'' else if has ''iPhone'' \<or> has ''iPad'' then ''iOS''
            else if has ''Linux'' then ''Linux'' else ''Unknown device'') in
      take 191 (browser @ '' on '' @ os))"

definition seen_at :: "session \<Rightarrow> int" where
  "seen_at x = (case se_lastSeenAt x of None \<Rightarrow> se_createdAt x | Some t \<Rightarrow> t)"

text \<open>The sessions past the limit, most recently seen first; rows seen at the same time keep
  the table's order.\<close>

definition stale_sessions :: "int \<Rightarrow> string \<Rightarrow> nat \<Rightarrow> string \<Rightarrow> session list \<Rightarrow> session list" where
  "stale_sessions t userId n keep ss =
     filter (\<lambda>x. se_id x \<noteq> keep)
       (drop n (sort_key (\<lambda>x. - seen_at x) (filter (\<lambda>x. se_userId x = userId \<and> live t x) ss)))"

definition trim_sessions :: "int \<Rightarrow> string \<Rightarrow> nat \<Rightarrow> string \<Rightarrow> unit auth" where
  "trim_sessions t userId n keep =
     bindE (reads (\<lambda>s. map se_id (stale_sessions t userId n keep (sessions s)))) (\<lambda>ids.
     if ids = [] then ret ()
     else set_sessions (\<lambda>x. se_id x \<in> set ids) (revoke t None ''session-limit''))"

definition create_session :: "session \<Rightarrow> unit auth" where
  "create_session x =
     bindE (reads (\<lambda>s. list_ex (\<lambda>y. se_id y = se_id x \<or> se_refresh y = se_refresh x) (sessions s))) (\<lambda>dup.
     bindE (guard (\<not> dup) duplicate) (\<lambda>_.
     writes (\<lambda>s. s\<lparr>sessions := sessions s @ [x]\<rparr>)))"

definition access_payload :: "account \<Rightarrow> string \<Rightarrow> payload" where
  "access_payload a sid = \<lparr>y_sub = ac_id a, y_sid = Some sid, y_av = Some (ac_authVersion a),
     y_purpose = None, y_nonce = None, y_role = Some (ac_role a)\<rparr>"

text \<open>One attempt of the loop: the access and the refresh token.\<close>

definition token_attempt :: "crypto \<Rightarrow> auth_world \<Rightarrow> account \<Rightarrow> session_ctx \<Rightarrow> (string \<times> string) option \<Rightarrow> nat
    \<Rightarrow> (string \<times> string) auth" where
  "token_attempt cr w a x existing k =
     bindE (reads lifetime_days) (\<lambda>days. bindE (reads max_active) (\<lambda>n.
     let expiresAt = now w + days * 24 * 60 * 60 * 1000; token = rnd w k in
     bindE (case existing of
         Some (sid, previous) \<Rightarrow>
           bindE (guard (previous \<noteq> []) (Unauthorized ''Invalid refresh token'')) (\<lambda>_.
           bindE (rotate_session cr (now w) sid (ac_id a) previous (hash_credential cr token) expiresAt (sx_mfaAt x)) (\<lambda>ok.
           bindE (guard ok (Unauthorized ''Refresh token has already been rotated'')) (\<lambda>_. ret sid)))
       | None \<Rightarrow>
           bindE (create_session \<lparr>se_id = uuid w k, se_userId = ac_id a, se_refresh = hash_credential cr token,
              se_device = device_label (sx_agent x),
              se_agent = (if truthy (sx_agent x) then map_option (take 500) (sx_agent x) else None),
              se_ip = (if truthy (sx_ip x) then map_option (take 191) (sx_ip x) else None),
              se_createdAt = now w, se_lastSeenAt = Some (now w), se_mfaAt = sx_mfaAt x, se_expiresAt = expiresAt,
              se_revokedAt = None, se_revokedById = None, se_reason = None\<rparr>) (\<lambda>_. ret (uuid w k))) (\<lambda>sid.
     bindE (trim_sessions (now w) (ac_id a) n sid) (\<lambda>_.
     ret (jwt_sign cr (access_payload a sid) (now w + access_lifetime cr), token)))))"

text \<open>At most five attempts, the last of which passes its error on.\<close>

fun token_attempts :: "crypto \<Rightarrow> auth_world \<Rightarrow> account \<Rightarrow> session_ctx \<Rightarrow> (string \<times> string) option \<Rightarrow> nat \<Rightarrow> nat
    \<Rightarrow> (string \<times> string) auth" where
  "token_attempts cr w a x existing 0 k = raise (Unauthorized ''Unable to create session'')"
| "token_attempts cr w a x existing (Suc n) k =
     catchE (token_attempt cr w a x existing k)
       (\<lambda>e. if e \<noteq> duplicate \<or> n = 0 then raise e else token_attempts cr w a x existing n (Suc k))"

definition generate_tokens :: "crypto \<Rightarrow> auth_world \<Rightarrow> account \<Rightarrow> session_ctx \<Rightarrow> (string \<times> string) option
    \<Rightarrow> (string \<times> string) auth" where
  "generate_tokens cr w a x existing = token_attempts cr w a x existing 5 0"

definition mfa_challenge :: "crypto \<Rightarrow> auth_world \<Rightarrow> string \<Rightarrow> string \<Rightarrow> string" where
  "mfa_challenge cr w userId purpose =
     jwt_sign cr \<lparr>y_sub = userId, y_sid = None, y_av = None, y_purpose = Some purpose, y_nonce = Some (rnd w 9),
       y_role = None\<rparr> (now w + 5 * 60 * 1000)"

definition verify_challenge :: "crypto \<Rightarrow> int \<Rightarrow> string \<Rightarrow> string \<Rightarrow> string res" where
  "verify_challenge cr t token purpose =
     (case jwt_verify cr t token of
        None \<Rightarrow> Inl (Unauthorized ''MFA challenge is invalid or expired'')
      | Some y \<Rightarrow> if y_purpose y \<noteq> Some purpose \<or> y_sub y = []
                   then Inl (Unauthorized ''MFA challenge is invalid or expired'') else Inr (y_sub y))"

text \<open>\<open>JwtStrategy.validate\<close>, for a bearer token the JWT library accepts.\<close>

definition jwt_validate :: "int \<Rightarrow> payload \<Rightarrow> (account \<times> string option) auth" where
  "jwt_validate t y =
     bindE (if truthy (y_sid y)
        then bindE (reads (\<lambda>s. find (\<lambda>x. Some (se_id x) = y_sid y \<and> se_userId x = y_sub y \<and> live t x) (sessions s))) (\<lambda>hit.
          case hit of
            None \<Rightarrow> raise (Unauthorized [])
          | Some x \<Rightarrow>
              if t - (case se_lastSeenAt x of None \<Rightarrow> 0 | Some l \<Rightarrow> l) > 5 * 60 * 1000
              then set_sessions (\<lambda>z. se_id z = se_id x) (\<lambda>z. z\<lparr>se_lastSeenAt := Some t\<rparr>) else ret ())
        else ret ()) (\<lambda>_.
     bindE (reads (find_account (y_sub y))) (\<lambda>u.
     case u of
       None \<Rightarrow> raise (Unauthorized [])
     | Some a \<Rightarrow>
         bindE (guard (ac_isActive a) (Unauthorized [])) (\<lambda>_.
         bindE (guard (\<not> (y_av y \<noteq> None \<and> y_av y \<noteq> Some (ac_authVersion a))) (Unauthorized [])) (\<lambda>_.
         ret (a, y_sid y)))))"

definition authenticate :: "crypto \<Rightarrow> int \<Rightarrow> string \<Rightarrow> (account \<times> string option) auth" where
  "authenticate cr t token =
     (case jwt_verify cr t token of None \<Rightarrow> raise (Unauthorized []) | Some y \<Rightarrow> jwt_validate t y)"

section \<open>Second factor\<close>

definition mfa_required :: "string \<Rightarrow> auth_db \<Rightarrow> bool" where
  "mfa_required role s =
     (case sec_policy s of
        None \<Rightarrow> False
      | Some p \<Rightarrow>
          if role = ''SUPER_ADMIN'' then sp_mfaSuper p
          else if role = ''TENANT_ADMIN'' then sp_mfaTenant p
          else role \<in> {''TECHNICIAN'', ''GLOBAL_TECH''} \<and> sp_mfaTech p)"

definition begin_setup :: "crypto \<Rightarrow> auth_world \<Rightarrow> string \<Rightarrow> string auth" where
  "begin_setup cr w userId =
     (let secret = encode_base32 (rnd_secret w) in
      bindE (set_account userId (\<lambda>a. a\<lparr>ac_mfaPending := Some (encrypt cr secret)\<rparr>)) (\<lambda>_. ret secret))"

definition recovery_codes :: "auth_world \<Rightarrow> string list" where
  "recovery_codes w = map (\<lambda>k. recovery_code (rnd w (10 + k))) [0..<10]"

definition confirm_setup :: "crypto \<Rightarrow> auth_world \<Rightarrow> string \<Rightarrow> string \<Rightarrow> string list auth" where
  "confirm_setup cr w userId code =
     bindE (reads (find_account userId)) (\<lambda>u.
     case (case u of None \<Rightarrow> None | Some a \<Rightarrow> if truthy (ac_mfaPending a) then ac_mfaPending a else None) of
       None \<Rightarrow> raise (BadRequest ''Start MFA setup before confirming it'')
     | Some enc \<Rightarrow>
        (case decrypt cr enc of
           None \<Rightarrow> raise (ServerError ''Encrypted value is invalid'')
         | Some secret \<Rightarrow>
            bindE (guard (verify_totp cr secret code (now w)) (BadRequest ''The authenticator code is invalid'')) (\<lambda>_.
            bindE (set_account userId (\<lambda>a. a\<lparr>ac_mfaEnabled := True, ac_mfaSecret := Some (encrypt cr secret),
                ac_mfaPending := None, ac_recovery := map (hash_recovery_code cr) (recovery_codes w),
                ac_mfaAt := Some (now w)\<rparr>)) (\<lambda>_.
            ret (recovery_codes w)))))"

text \<open>A six-digit code that is not a valid one-time code is tried as a recovery code; a
  secret that cannot be decrypted throws.\<close>

definition verify_user_code :: "crypto \<Rightarrow> int \<Rightarrow> string \<Rightarrow> string \<Rightarrow> unit auth" where
  "verify_user_code cr t userId code =
     bindE (reads (find_account userId)) (\<lambda>u.
     case (case u of None \<Rightarrow> None
           | Some a \<Rightarrow> if ac_mfaEnabled a \<and> truthy (ac_mfaSecret a) then Some a else None) of
       None \<Rightarrow> raise (Unauthorized ''MFA is not configured'')
     | Some a \<Rightarrow>
        (let normalized = js_upper (js_trim code) in
         bindE (if six_digits normalized
                then (case decrypt cr (or_str (ac_mfaSecret a) []) of
                        None \<Rightarrow> raise (ServerError ''Encrypted value is invalid'')
                      | Some secret \<Rightarrow> ret (verify_totp cr secret normalized t))
                else ret False) (\<lambda>totp.
         if totp then ret ()
         else case index_of (hash_recovery_code cr normalized) (ac_recovery a) of
           None \<Rightarrow> raise (Unauthorized ''Invalid MFA code'')
         | Some i \<Rightarrow>
             set_account userId (\<lambda>b. b\<lparr>ac_recovery := take i (ac_recovery a) @ drop (Suc i) (ac_recovery a)\<rparr>))))"

definition clear_mfa :: "account \<Rightarrow> account" where
  "clear_mfa a = a\<lparr>ac_mfaEnabled := False, ac_mfaSecret := None, ac_mfaPending := None, ac_recovery := [],
     ac_mfaAt := None\<rparr>"

definition disable_mfa_code :: "crypto \<Rightarrow> int \<Rightarrow> string \<Rightarrow> string \<Rightarrow> unit auth" where
  "disable_mfa_code cr t userId code =
     bindE (verify_user_code cr t userId code) (\<lambda>_. set_account userId clear_mfa)"

definition regenerate_recovery :: "crypto \<Rightarrow> auth_world \<Rightarrow> string \<Rightarrow> string \<Rightarrow> string list auth" where
  "regenerate_recovery cr w userId code =
     bindE (verify_user_code cr (now w) userId code) (\<lambda>_.
     bindE (set_account userId (\<lambda>a. a\<lparr>ac_recovery := map (hash_recovery_code cr) (recovery_codes w)\<rparr>)) (\<lambda>_.
     ret (recovery_codes w)))"

end
