(* ===== verification/Auth_Ops.thy ===== *)
theory Auth_Ops
  imports Auth
begin

text \<open>
  The operations of \<open>AuthService\<close> and \<open>MfaResetService\<close>: sign-in with its failure counter,
  challenges, registration, e-mail and password tokens, sessions, and the reviewed reset of
  a second factor. The delay before a sign-in is the value \<open>login_delay\<close>; it changes no state.
\<close>

section \<open>Replies\<close>

record brief_user =
  b_id :: string
  b_email :: string
  b_role :: string
  b_userType :: string
  b_companyId :: "string option"
  b_emailVerified :: bool

definition response_user :: "account \<Rightarrow> brief_user" where
  "response_user a = \<lparr>b_id = ac_id a, b_email = ac_email a, b_role = ac_role a, b_userType = ac_userType a,
     b_companyId = ac_companyId a, b_emailVerified = ac_emailVerified a\<rparr>"

text \<open>The two tokens, or the token of a challenge still to be answered.\<close>

datatype sign_in =
    SignedIn brief_user string string
  | MfaRequired string brief_user
  | EnrollmentRequired string brief_user

section \<open>Failure counter\<close>

definition LOGIN_LOCK_THRESHOLD :: int where "LOGIN_LOCK_THRESHOLD = 5"
definition LOGIN_LOCK_MS :: int where "LOGIN_LOCK_MS = 15 * 60 * 1000"

definition login_email_hash :: "crypto \<Rightarrow> string \<Rightarrow> string" where
  "login_email_hash cr email = sha256 cr (js_trim (js_lower email))"

definition find_abuse :: "string \<Rightarrow> auth_db \<Rightarrow> abuse_row option" where
  "find_abuse h s = find (\<lambda>r. ab_hash r = h) (abuse s)"

definition login_delay :: "abuse_row \<Rightarrow> int" where
  "login_delay r = min 2000 (ab_count r * 250)"

definition enforce_backoff :: "crypto \<Rightarrow> int \<Rightarrow> string \<Rightarrow> unit auth" where
  "enforce_backoff cr t email =
     bindE (reads (find_abuse (login_email_hash cr email))) (\<lambda>row.
     case row of
       None \<Rightarrow> ret ()
     | Some r \<Rightarrow> guard (\<not> (case ab_lockedUntil r of None \<Rightarrow> 0 | Some l \<Rightarrow> l) > t) (Unauthorized ''Invalid credentials''))"

text \<open>\<open>ON DUPLICATE KEY UPDATE\<close>: MySQL assigns from left to right, so the lock sees the new count.\<close>

definition count_failure :: "int \<Rightarrow> abuse_row \<Rightarrow> abuse_row" where
  "count_failure t r =
     (let n = (if ab_lastAt r < t - LOGIN_LOCK_MS then 1 else ab_count r + 1) in
      r\<lparr>ab_count := n,
        ab_lockedUntil := (if n \<ge> LOGIN_LOCK_THRESHOLD then Some (t + LOGIN_LOCK_MS)
          else (case ab_lockedUntil r of None \<Rightarrow> None | Some l \<Rightarrow> if l > t then Some l else None)),
        ab_lastAt := t\<rparr>)"

definition record_failure :: "crypto \<Rightarrow> int \<Rightarrow> string \<Rightarrow> unit auth" where
  "record_failure cr t email =
     (let h = login_email_hash cr email in
      writes (\<lambda>s. if list_ex (\<lambda>r. ab_hash r = h) (abuse s)
        then s\<lparr>abuse := map (\<lambda>r. if ab_hash r = h then count_failure t r else r) (abuse s)\<rparr>
        else s\<lparr>abuse := abuse s @ [\<lparr>ab_hash = h, ab_count = 1, ab_lockedUntil = None, ab_lastAt = t\<rparr>]\<rparr>))"

definition clear_failures :: "crypto \<Rightarrow> string \<Rightarrow> unit auth" where
  "clear_failures cr email =
     writes (\<lambda>s. s\<lparr>abuse := filter (\<lambda>r. ab_hash r \<noteq> login_email_hash cr email) (abuse s)\<rparr>)"

section \<open>Alerts\<close>

definition insert_alert :: "string option \<Rightarrow> string \<Rightarrow> string \<Rightarrow> string \<Rightarrow> string \<Rightarrow> unit auth" where
  "insert_alert company kind severity subject summary =
     writes (\<lambda>s. s\<lparr>alerts := alerts s @ [\<lparr>al_companyId = company, al_type = kind, al_severity = severity,
       al_subject = subject, al_summary = take 255 summary\<rparr>]\<rparr>)"

definition other_context :: "int \<Rightarrow> session_ctx \<Rightarrow> string \<Rightarrow> session \<Rightarrow> bool" where
  "other_context t x userId y \<longleftrightarrow>
     se_userId y = userId \<and> se_createdAt y \<ge> t - 90 * 24 * 60 * 60 * 1000 \<and> se_revokedAt y = None
     \<and> ((case se_ip y of None \<Rightarrow> False | Some i \<Rightarrow> i \<noteq> or_str (sx_ip x) [])
        \<or> (case se_agent y of None \<Rightarrow> False | Some g \<Rightarrow> g \<noteq> or_str (sx_agent x) []))"

definition security_signals :: "int \<Rightarrow> account \<Rightarrow> session_ctx \<Rightarrow> unit auth" where
  "security_signals t a x =
     (if ac_role a \<notin> {''SUPER_ADMIN'', ''TENANT_ADMIN''} then ret ()
      else bindE (reads (\<lambda>s. list_ex (other_context t x (ac_id a)) (sessions s))) (\<lambda>prior.
      bindE (if prior then insert_alert (ac_companyId a) ''PRIVILEGED_NEW_CONTEXT'' ''warning'' (ac_id a)
               (''Privileged login from a new network or device: '' @ ac_email a) else ret ()) (\<lambda>_.
      if ac_breakGlass a then insert_alert (ac_companyId a) ''BREAK_GLASS_LOGIN'' ''critical'' (ac_id a)
               (''Break-glass account used: '' @ ac_email a) else ret ())))"

section \<open>Signing in\<close>

definition invalid_credentials :: http_error where
  "invalid_credentials = Unauthorized ''Invalid credentials''"

text \<open>The tail every completed sign-in shares: tokens, signals, the time of the last login.\<close>

definition complete_sign_in :: "crypto \<Rightarrow> auth_world \<Rightarrow> account \<Rightarrow> session_ctx \<Rightarrow> sign_in auth" where
  "complete_sign_in cr w a x =
     bindE (generate_tokens cr w a x None) (\<lambda>(access, refresh).
     bindE (security_signals (now w) a x) (\<lambda>_.
     bindE (set_account (ac_id a) (\<lambda>b. b\<lparr>ac_lastLoginAt := Some (now w)\<rparr>)) (\<lambda>_.
     ret (SignedIn (response_user a) access refresh))))"

definition fail_login :: "crypto \<Rightarrow> int \<Rightarrow> string \<Rightarrow> 'a auth" where
  "fail_login cr t email = bindE (record_failure cr t email) (\<lambda>_. raise invalid_credentials)"

definition login :: "crypto \<Rightarrow> auth_world \<Rightarrow> string \<Rightarrow> string \<Rightarrow> string option \<Rightarrow> session_ctx \<Rightarrow> sign_in auth" where
  "login cr w email password mfaCode x =
     (let e = js_trim (js_lower email); t = now w in
      bindE (enforce_backoff cr t e) (\<lambda>_.
      bindE (reads (account_by_email e)) (\<lambda>u.
      case u of
        None \<Rightarrow> fail_login cr t e
      | Some a \<Rightarrow>
          if \<not> ac_isActive a then fail_login cr t e
          else if \<not> truthy (ac_passwordHash a) then fail_login cr t e
          else if \<not> bcrypt_ok cr password (or_str (ac_passwordHash a) []) then fail_login cr t e
          else bindE (reads (mfa_required (ac_role a))) (\<lambda>required.
            if ac_mfaEnabled a then
              (if \<not> truthy mfaCode then ret (MfaRequired (mfa_challenge cr w (ac_id a) ''login'') (response_user a))
               else bindE (verify_user_code cr t (ac_id a) (or_str mfaCode [])) (\<lambda>_.
                    bindE (clear_failures cr e) (\<lambda>_. complete_sign_in cr w a (x\<lparr>sx_mfaAt := Some t\<rparr>))))
            else if required then
              ret (EnrollmentRequired (mfa_challenge cr w (ac_id a) ''enroll'') (response_user a))
            else bindE (clear_failures cr e) (\<lambda>_. complete_sign_in cr w a x)))))"

text \<open>The account a challenge or an external sign-in names, which must be active.\<close>

definition active_account :: "string \<Rightarrow> http_error \<Rightarrow> account auth" where
  "active_account i e =
     bindE (reads (find_account i)) (\<lambda>u.
     case u of None \<Rightarrow> raise e | Some a \<Rightarrow> bindE (guard (ac_isActive a) e) (\<lambda>_. ret a))"

definition begin_challenge_enrollment :: "crypto \<Rightarrow> auth_world \<Rightarrow> string \<Rightarrow> string auth" where
  "begin_challenge_enrollment cr w token =
     bindE (of_res (verify_challenge cr (now w) token ''enroll'')) (\<lambda>i.
     bindE (active_account i (Unauthorized ''MFA challenge is invalid'')) (\<lambda>a.
     begin_setup cr w (ac_id a)))"

definition confirm_challenge_enrollment :: "crypto \<Rightarrow> auth_world \<Rightarrow> string \<Rightarrow> string \<Rightarrow> session_ctx
    \<Rightarrow> (sign_in \<times> string list) auth" where
  "confirm_challenge_enrollment cr w token code x =
     bindE (of_res (verify_challenge cr (now w) token ''enroll'')) (\<lambda>i.
     bindE (active_account i (Unauthorized ''MFA challenge is invalid'')) (\<lambda>a.
     bindE (confirm_setup cr w (ac_id a) code) (\<lambda>codes.
     bindE (complete_sign_in cr w a (x\<lparr>sx_mfaAt := Some (now w)\<rparr>)) (\<lambda>r.
     ret (r, codes)))))"

definition confirm_challenge_login :: "crypto \<Rightarrow> auth_world \<Rightarrow> string \<Rightarrow> string \<Rightarrow> session_ctx \<Rightarrow> sign_in auth" where
  "confirm_challenge_login cr w token code x =
     bindE (of_res (verify_challenge cr (now w) token ''login'')) (\<lambda>i.
     bindE (active_account i (Unauthorized ''MFA challenge is invalid'')) (\<lambda>a.
     bindE (verify_user_code cr (now w) (ac_id a) code) (\<lambda>_.
     bindE (clear_failures cr (ac_email a)) (\<lambda>_.
     complete_sign_in cr w a (x\<lparr>sx_mfaAt := Some (now w)\<rparr>)))))"

definition complete_sso :: "crypto \<Rightarrow> auth_world \<Rightarrow> string \<Rightarrow> session_ctx \<Rightarrow> bool \<Rightarrow> sign_in auth" where
  "complete_sso cr w userId x trustedMfa =
     bindE (active_account userId (Unauthorized ''SSO account is not available'')) (\<lambda>a.
     bindE (reads (mfa_required (ac_role a))) (\<lambda>required.
     if required \<and> \<not> trustedMfa \<and> \<not> ac_mfaEnabled a
     then ret (EnrollmentRequired (mfa_challenge cr w (ac_id a) ''enroll'') (response_user a))
     else complete_sign_in cr w a (if trustedMfa then x\<lparr>sx_mfaAt := Some (now w)\<rparr> else x)))"

definition complete_passkey :: "crypto \<Rightarrow> auth_world \<Rightarrow> string \<Rightarrow> session_ctx \<Rightarrow> sign_in auth" where
  "complete_passkey cr w userId x =
     bindE (active_account userId (Unauthorized ''Passkey authentication failed'')) (\<lambda>a.
     bindE (clear_failures cr (ac_email a)) (\<lambda>_.
     complete_sign_in cr w a (x\<lparr>sx_mfaAt := Some (now w)\<rparr>)))"

section \<open>Sessions\<close>

text \<open>A session whose user is gone makes \<open>user.id\<close> throw.\<close>

definition refresh :: "crypto \<Rightarrow> auth_world \<Rightarrow> string \<Rightarrow> (string \<times> string) auth" where
  "refresh cr w token =
     (let t = now w; bad = Unauthorized ''Invalid refresh token'' in
      bindE (guard (token \<noteq> []) bad) (\<lambda>_.
      bindE (reads (find_by_refresh cr token)) (\<lambda>hit.
      case hit of
        None \<Rightarrow>
          bindE (reads (find_reused cr t token)) (\<lambda>reused.
          bindE (case reused of
              None \<Rightarrow> ret ()
            | Some r \<Rightarrow>
                bindE (revoke_family t (rt_userId r) ''refresh-token-reuse'') (\<lambda>_.
                bindE (reads (find_account (rt_userId r))) (\<lambda>u.
                insert_alert (case u of None \<Rightarrow> None
                      | Some a \<Rightarrow> if truthy (ac_companyId a) then ac_companyId a else None)
                  ''REFRESH_TOKEN_REUSE'' ''critical'' (rt_userId r)
                  ''A rotated refresh token was reused; active sessions were revoked''))) (\<lambda>_.
          raise bad))
      | Some x \<Rightarrow>
          bindE (guard (\<not> (se_expiresAt x < t \<or> se_revokedAt x \<noteq> None)) bad) (\<lambda>_.
          bindE (reads (find_account (se_userId x))) (\<lambda>u.
          case u of
            None \<Rightarrow> raise (ServerError ''TypeError'')
          | Some a \<Rightarrow> generate_tokens cr w a no_ctx (Some (se_id x, token)))))))"

definition logout :: "crypto \<Rightarrow> int \<Rightarrow> string \<Rightarrow> unit auth" where
  "logout cr t token = (if token = [] then ret () else revoke_by_refresh cr t token ''logout'')"

definition step_up :: "crypto \<Rightarrow> int \<Rightarrow> string \<Rightarrow> string option \<Rightarrow> string \<Rightarrow> int auth" where
  "step_up cr t userId sessionId code =
     bindE (guard (truthy sessionId) (Unauthorized ''A revocable session is required'')) (\<lambda>_.
     bindE (verify_user_code cr t userId code) (\<lambda>_.
     bindE (update_sessions (\<lambda>x. Some (se_id x) = sessionId \<and> se_userId x = userId \<and> live t x)
              (\<lambda>x. x\<lparr>se_mfaAt := Some t, se_lastSeenAt := Some t\<rparr>)) (\<lambda>hit.
     bindE (guard hit (Unauthorized ''Session is not active'')) (\<lambda>_.
     ret (t + 10 * 60 * 1000)))))"

definition list_sessions :: "int \<Rightarrow> string \<Rightarrow> string option \<Rightarrow> auth_db \<Rightarrow> (session \<times> bool \<times> bool) list" where
  "list_sessions t userId current s =
     map (\<lambda>x. (x, Some (se_id x) = current, live t x))
       (sort_key (\<lambda>x. - seen_at x) (filter (\<lambda>x. se_userId x = userId) (sessions s)))"

definition revoke_session :: "int \<Rightarrow> string \<Rightarrow> string \<Rightarrow> string \<Rightarrow> unit auth" where
  "revoke_session t userId sessionId actor =
     bindE (update_sessions (\<lambda>x. se_id x = sessionId \<and> se_userId x = userId \<and> se_revokedAt x = None)
              (revoke t (Some actor) ''user-revoked'')) (\<lambda>hit.
     guard hit (BadRequest ''Session is not active''))"

definition revoke_others :: "int \<Rightarrow> string \<Rightarrow> string option \<Rightarrow> unit auth" where
  "revoke_others t userId current =
     set_sessions (\<lambda>x. se_userId x = userId \<and> se_revokedAt x = None
                       \<and> (truthy current \<longrightarrow> Some (se_id x) \<noteq> current))
       (revoke t (Some userId) ''user-revoked-others'')"

section \<open>Confirmed changes of the second factor\<close>

definition confirm_password :: "crypto \<Rightarrow> string \<Rightarrow> string \<Rightarrow> unit auth" where
  "confirm_password cr userId password =
     bindE (reads (find_account userId)) (\<lambda>u.
     guard (case u of None \<Rightarrow> False
            | Some a \<Rightarrow> truthy (ac_passwordHash a) \<and> bcrypt_ok cr password (or_str (ac_passwordHash a) []))
       (Unauthorized ''Password confirmation is invalid''))"

definition disable_mfa :: "crypto \<Rightarrow> int \<Rightarrow> string \<Rightarrow> string \<Rightarrow> string \<Rightarrow> unit auth" where
  "disable_mfa cr t userId code password =
     bindE (guard (password \<noteq> []) (Unauthorized ''Password confirmation is invalid'')) (\<lambda>_.
     bindE (confirm_password cr userId password) (\<lambda>_. disable_mfa_code cr t userId code))"

definition regenerate_recovery_codes :: "crypto \<Rightarrow> auth_world \<Rightarrow> string \<Rightarrow> string \<Rightarrow> string \<Rightarrow> string list auth" where
  "regenerate_recovery_codes cr w userId code password =
     bindE (confirm_password cr userId password) (\<lambda>_. regenerate_recovery cr w userId code)"

end
