(* ===== verification/Guards.thy ===== *)
theory Guards
  imports Tickets Tenant_Table Auth_Ops
begin

text \<open>
  The request guards of \<open>common/guards\<close>: company context and impersonation
  (\<open>tenant.guard.ts\<close>), permissions and contextual policies (\<open>permissions.guard.ts\<close>), plan
  features (\<open>feature-access.guard.ts\<close>, \<open>authorization/feature-entitlements.ts\<close>), roles,
  business accounts, recent MFA and service accounts. A guard returns the request it lets
  through or the exception. JSON columns appear as what parsing them gives; SHA-256 is the
  parameter \<open>sha\<close>.
\<close>

unbundle bit_operations_syntax

section \<open>Requests and tables\<close>

record request =
  rq_user :: "principal option"
  rq_company :: "string option"
  rq_impersonator :: "(string \<times> string) option"
  rq_as_company :: bool
  rq_scopes :: "perm_scope list"
  rq_override :: bool

record headers =
  h_impersonation :: "string option"
  h_companyContext :: "string option"
  h_serviceToken :: "string option"

record company =
  co_id :: string
  co_isActive :: bool
  co_deletedAt :: "int option"

record impersonation =
  is_id :: string
  is_actorId :: string
  is_targetId :: string
  is_endedAt :: "int option"
  is_expiresAt :: int

section \<open>Roles and account types\<close>

definition roles_guard :: "string list option \<Rightarrow> request \<Rightarrow> request res" where
  "roles_guard required r =
     (case required of
        None \<Rightarrow> Inr r
      | Some rs \<Rightarrow>
          if rs = [] then Inr r
          else (case rq_user r of
            None \<Rightarrow> Inl (Forbidden ''Authentication required'')
          | Some u \<Rightarrow>
              if p_role u = ''SUPER_ADMIN'' \<or> p_role u \<in> set rs then Inr r
              else Inl (Forbidden ''Insufficient permissions'')))"

definition business_only_guard :: "bool \<Rightarrow> request \<Rightarrow> request res" where
  "business_only_guard marked r =
     (if \<not> marked then Inr r
      else case rq_user r of
        Some u \<Rightarrow> if p_userType u = ''BUSINESS'' then Inr r
                  else Inl (Forbidden ''This feature is only available for business accounts'')
      | None \<Rightarrow> Inl (Forbidden ''This feature is only available for business accounts''))"

section \<open>Company context\<close>

text \<open>The user an impersonation session stands for: a live session of the caller on an
  active, undeleted account.\<close>

definition person_principal :: "person \<Rightarrow> principal" where
  "person_principal t = \<lparr>p_id = u_id t, p_email = u_email t, p_role = u_role t, p_userType = u_userType t,
     p_companyId = u_companyId t, p_effective = None, p_location = u_location t, p_slugs = [], p_scopes = []\<rparr>"

definition impersonated :: "int \<Rightarrow> impersonation list \<Rightarrow> person list \<Rightarrow> string \<Rightarrow> string
    \<Rightarrow> (impersonation \<times> person) option" where
  "impersonated t logged users i actor =
     (case find (\<lambda>x. is_id x = i \<and> is_actorId x = actor \<and> is_endedAt x = None \<and> is_expiresAt x > t) logged of
        None \<Rightarrow> None
      | Some x \<Rightarrow> (case find (\<lambda>u. u_id u = is_targetId x \<and> u_isActive u \<and> u_deletedAt u = None) users of
            None \<Rightarrow> None | Some u \<Rightarrow> Some (x, u)))"

definition tenant_guard :: "int \<Rightarrow> impersonation list \<Rightarrow> person list \<Rightarrow> company list \<Rightarrow> bool \<Rightarrow> headers
    \<Rightarrow> string option \<Rightarrow> request \<Rightarrow> request res" where
  "tenant_guard t logged users companies is_public h requested r =
     (if is_public then Inr r
      else case rq_user r of
        None \<Rightarrow> Inl (Forbidden ''Authentication required'')
      | Some u \<Rightarrow>
        (let step =
           (if truthy (h_impersonation h) \<and> p_role u \<in> {''SUPER_ADMIN'', ''TENANT_ADMIN''}
            then (case impersonated t logged users (or_str (h_impersonation h) []) (p_id u) of
                    None \<Rightarrow> Inl (Forbidden ''Impersonation session is invalid or expired'')
                  | Some (x, v) \<Rightarrow> Inr (person_principal v, Some (is_id x, p_id u)))
            else Inr (u, rq_impersonator r)) in
         case step of
           Inl e \<Rightarrow> Inl e
         | Inr (e, who) \<Rightarrow>
            (let r1 = r\<lparr>rq_user := Some e, rq_impersonator := who\<rparr> in
             if p_role e = ''GLOBAL_TECH'' then Inr (r1\<lparr>rq_company := None\<rparr>)
             else if p_role e = ''SUPER_ADMIN'' then
               (if \<not> truthy (h_companyContext h) then Inr (r1\<lparr>rq_company := None\<rparr>)
                else case find (\<lambda>c. co_id c = or_str (h_companyContext h) [] \<and> co_deletedAt c = None
                                   \<and> co_isActive c) companies of
                  None \<Rightarrow> Inl (Forbidden ''Selected company context is not available'')
                | Some c \<Rightarrow> Inr (r1\<lparr>rq_company := Some (co_id c),
                    rq_user := Some (e\<lparr>p_companyId := Some (co_id c), p_effective := Some (co_id c)\<rparr>),
                    rq_as_company := True\<rparr>))
             else if p_userType e = ''PUBLIC'' then Inr (r1\<lparr>rq_company := None\<rparr>)
             else if \<not> truthy (p_companyId e) then Inl (Forbidden ''No company context available'')
             else if truthy requested \<and> requested \<noteq> p_companyId e
               then Inl (Forbidden ''Cross-tenant access denied'')
             else Inr (r1\<lparr>rq_company := p_companyId e\<rparr>))))"

section \<open>Permissions\<close>

definition tenant_admin_defaults :: "string list" where
  "tenant_admin_defaults =
     [''access-requests.create'', ''access-requests.manage'', ''ai-agent.use'', ''assets.create'',
      ''assets.delete'', ''assets.edit'', ''assets.export'', ''assets.view'', ''audit-logs.view'',
      ''authorization-tests.manage'', ''billing.approve'', ''billing.create'', ''billing.edit'',
      ''billing.export'', ''billing.manage'', ''billing.sensitive.view'', ''billing.view'',
      ''catalog.create'', ''catalog.manage'', ''catalog.view'', ''companies.view'',
      ''contextual-access.manage'', ''dispatch.create'', ''dispatch.edit'', ''dispatch.view'',
      ''email-operations.manage'', ''email-operations.view'', ''inventory.manage'', ''inventory.view'',
      ''invoices.approve'', ''invoices.create'', ''invoices.edit'', ''invoices.export'', ''invoices.view'',
      ''knowledge-base.manage'', ''knowledge-base.view'', ''maintenance.manage'', ''maintenance.view'',
      ''network.actions.run'', ''network.config.manage'', ''network.credentials.manage'',
      ''network.credentials.view'', ''network.monitoring.view'', ''operations.manage'', ''operations.view'',
      ''patches.deploy'', ''patches.manage'', ''patches.view'', ''permissions.governance.manage'',
      ''permissions.governance.view'', ''platform-security.manage'', ''platform-security.view'',
      ''policy-bundles.manage'', ''quotes.approve'', ''quotes.create'', ''quotes.edit'', ''quotes.export'',
      ''quotes.view'', ''remote-access.launch'', ''remote-access.manage'', ''remote-access.view'',
      ''reports.export'', ''reports.view'', ''roles.manage'', ''roles.view'', ''security-center.manage'',
      ''security-center.view'', ''settings.manage'', ''settings.view'', ''tickets.approve'',
      ''tickets.create'', ''tickets.delete'', ''tickets.edit'', ''tickets.export'',
      ''tickets.sensitive.view'', ''tickets.view'', ''topology.manage'', ''topology.view'',
      ''users.create'', ''users.delete'', ''users.manage'', ''users.view'', ''workflows.manage'',
      ''workflows.view'']"

record role =
  ro_id :: string
  ro_name :: string
  ro_slug :: string
  ro_isSystem :: bool
  ro_permissions :: "string list"

record temp_grant =
  tg_userId :: string
  tg_slug :: string
  tg_revokedAt :: "int option"
  tg_startsAt :: int
  tg_expiresAt :: int

record scope_row =
  sr_scope :: perm_scope
  sr_userId :: "string option"
  sr_roleId :: "string option"
  sr_companyId :: "string option"

record conditions =
  cn_ips :: "string list option"
  cn_countries :: "string list option"
  cn_department :: "string option"
  cn_location :: "string option"
  cn_trusted :: bool
  cn_mfa :: bool
  cn_phishing :: bool
  cn_hours :: "(int \<times> int) option"

record policy =
  po_name :: string
  po_active :: bool
  po_targetType :: string
  po_target :: string
  po_companyId :: "string option"
  po_effect :: string
  po_conditions :: conditions

record authz =
  az_userRoles :: "(string \<times> string) list"
  az_roles :: "role list"
  az_grants :: "temp_grant list"
  az_scopes :: "scope_row list"
  az_policies :: "policy list"

record ctx =
  cx_ip :: string
  cx_country :: string
  cx_assurance :: string
  cx_device :: string
  cx_hour :: int
  cx_department :: "string option"

text \<open>\<open>findUserRolePermissions\<close> and \<open>findSystemRolePermissions\<close>: (role id, slug) pairs.\<close>

definition user_role_permissions :: "authz \<Rightarrow> string \<Rightarrow> (string \<times> string) list" where
  "user_role_permissions az i =
     concat (map (\<lambda>(u, rid). if u = i
         then concat (map (\<lambda>r. if ro_id r = rid then map (Pair rid) (ro_permissions r) else []) (az_roles az))
         else []) (az_userRoles az))"

definition role_slug :: "string \<Rightarrow> string" where
  "role_slug role = map (\<lambda>c. if c = CHR ''_'' then CHR ''-'' else c) (js_lower role)"

definition system_role_permissions :: "authz \<Rightarrow> string \<Rightarrow> (string \<times> string) list" where
  "system_role_permissions az role =
     concat (map (\<lambda>r. if ro_isSystem r \<and> (ro_name r = role \<or> ro_slug r = role_slug role)
         then map (Pair (ro_id r)) (ro_permissions r) else []) (az_roles az))"

definition live_grants :: "int \<Rightarrow> authz \<Rightarrow> string \<Rightarrow> string list" where
  "live_grants t az i =
     map tg_slug (filter (\<lambda>g. tg_userId g = i \<and> tg_revokedAt g = None \<and> tg_startsAt g \<le> t
                              \<and> tg_expiresAt g > t) (az_grants az))"

definition user_slugs :: "int \<Rightarrow> authz \<Rightarrow> principal \<Rightarrow> string list" where
  "user_slugs t az u =
     remdups ((if p_role u = ''TENANT_ADMIN'' then tenant_admin_defaults else [])
       @ map snd (user_role_permissions az (p_id u)) @ map snd (system_role_permissions az (p_role u))
       @ live_grants t az (p_id u))"

definition effective_roles :: "authz \<Rightarrow> principal \<Rightarrow> string list" where
  "effective_roles az u =
     remdups (map fst (user_role_permissions az (p_id u)) @ map fst (system_role_permissions az (p_role u)))"

definition user_scopes :: "authz \<Rightarrow> principal \<Rightarrow> perm_scope list" where
  "user_scopes az u =
     map sr_scope (filter (\<lambda>x. (sr_userId x = Some (p_id u)
                               \<or> (case sr_roleId x of None \<Rightarrow> False | Some r \<Rightarrow> r \<in> set (effective_roles az u)))
                             \<and> (sr_companyId x = None
                               \<or> truthy (p_companyId u) \<and> sr_companyId x = p_companyId u)) (az_scopes az))"

section \<open>Contextual policies\<close>

definition digit_value :: "char \<Rightarrow> nat" where
  "digit_value c = of_char c - 48"

text \<open>\<open>Number(text)\<close> on integer texts, signed or not; the empty text is 0. Fractions,
  exponents and other radices are not modelled and count as NaN, as every other text does.\<close>

definition js_digits :: "string \<Rightarrow> nat" where
  "js_digits s = foldl (\<lambda>n c. 10 * n + digit_value c) 0 s"

definition js_number :: "string \<Rightarrow> int option" where
  "js_number s =
     (let t = js_trim s in
      if list_all is_digit t then Some (int (js_digits t))
      else case t of
        c # ds \<Rightarrow> if c = CHR ''-'' \<and> ds \<noteq> [] \<and> list_all is_digit ds then Some (- int (js_digits ds))
                  else if c = CHR ''+'' \<and> ds \<noteq> [] \<and> list_all is_digit ds then Some (int (js_digits ds))
                  else None
      | [] \<Rightarrow> None)"

text \<open>One step of the reduction: \<open>(result << 8) + Number(octet)\<close> on 32-bit integers; a NaN
  becomes 0 at the next shift.\<close>

definition ip_step :: "32 word \<Rightarrow> string \<Rightarrow> 32 word" where
  "ip_step r octet = (case js_number octet of None \<Rightarrow> 0 | Some n \<Rightarrow> push_bit 8 r + of_int n)"

definition ip_number :: "string \<Rightarrow> 32 word" where
  "ip_number s = foldl ip_step 0 (str_split (CHR ''.'') s)"

definition ip_mask :: "nat \<Rightarrow> 32 word" where
  "ip_mask prefix = (if prefix = 0 then 0 else push_bit (32 - prefix) (- 1))"

definition ip_matches :: "string \<Rightarrow> string \<Rightarrow> bool" where
  "ip_matches ip rule =
     (case str_split (CHR ''/'') rule of
        network # prefixText # _ \<Rightarrow>
          (case js_number prefixText of
             None \<Rightarrow> ip_number ip = ip_number network
           | Some prefix \<Rightarrow>
               if prefix < 0 \<or> prefix > 32 then False
               else (ip_number ip AND ip_mask (nat prefix)) = (ip_number network AND ip_mask (nat prefix)))
      | _ \<Rightarrow> ip = rule)"

definition same_text :: "string option \<Rightarrow> string option \<Rightarrow> bool" where
  "same_text x y \<longleftrightarrow> js_lower (or_str x []) = js_lower (or_str y [])"

definition context_matches :: "conditions \<Rightarrow> principal \<Rightarrow> ctx \<Rightarrow> bool" where
  "context_matches c u x \<longleftrightarrow>
     (case cn_ips c of None \<Rightarrow> True | Some rules \<Rightarrow> list_ex (ip_matches (cx_ip x)) rules)
     \<and> (case cn_countries c of None \<Rightarrow> True | Some cs \<Rightarrow> cx_country x \<in> set (map js_upper cs))
     \<and> (truthy (cn_department c) \<longrightarrow> same_text (cx_department x) (cn_department c))
     \<and> (truthy (cn_location c) \<longrightarrow> same_text (p_location u) (cn_location c))
     \<and> (cn_trusted c \<longrightarrow> cx_device x = ''trusted'')
     \<and> (cn_mfa c \<longrightarrow> cx_assurance x \<in> {''mfa'', ''phishing-resistant''})
     \<and> (cn_phishing c \<longrightarrow> cx_assurance x = ''phishing-resistant'')
     \<and> (case cn_hours c of None \<Rightarrow> True | Some (a, b) \<Rightarrow> \<not> (cx_hour x < a \<or> cx_hour x \<ge> b))"

definition policy_denies :: "policy \<Rightarrow> principal \<Rightarrow> ctx \<Rightarrow> bool" where
  "policy_denies p u x \<longleftrightarrow>
     (if js_upper (po_effect p) = ''DENY'' then context_matches (po_conditions p) u x
      else \<not> context_matches (po_conditions p) u x)"

definition applicable :: "principal \<Rightarrow> string list \<Rightarrow> policy \<Rightarrow> bool" where
  "applicable u required p \<longleftrightarrow>
     po_active p \<and> po_targetType p = ''PERMISSION'' \<and> po_target p \<in> set required
     \<and> (po_companyId p = None \<or> truthy (p_companyId u) \<and> po_companyId p = p_companyId u)"

definition enforce_policies :: "authz \<Rightarrow> principal \<Rightarrow> string list \<Rightarrow> ctx \<Rightarrow> unit res" where
  "enforce_policies az u required x =
     (case find (\<lambda>p. policy_denies p u x) (filter (applicable u required) (az_policies az)) of
        None \<Rightarrow> Inr ()
      | Some p \<Rightarrow> Inl (Forbidden (''Access blocked by contextual policy: '' @ po_name p)))"

definition permissions_guard :: "int \<Rightarrow> authz \<Rightarrow> ctx \<Rightarrow> string list option \<Rightarrow> bool \<Rightarrow> request \<Rightarrow> request res" where
  "permissions_guard t az x required service r =
     (case required of
        None \<Rightarrow> Inr r
      | Some req \<Rightarrow>
         if req = [] then Inr r
         else case rq_user r of
           None \<Rightarrow> Inl (Forbidden ''Authentication required'')
         | Some u \<Rightarrow>
            if p_role u = ''SUPER_ADMIN'' then Inr (r\<lparr>rq_override := True\<rparr>)
            else if service then
              (if list_all (\<lambda>p. p \<in> set (p_slugs u)) req then Inr (r\<lparr>rq_scopes := p_scopes u\<rparr>)
               else Inl (Forbidden ''Insufficient permissions''))
            else
              (let slugs = user_slugs t az u; scopes = user_scopes az u;
                   u' = u\<lparr>p_slugs := slugs, p_scopes := scopes\<rparr> in
               if \<not> list_all (\<lambda>p. p \<in> set slugs) req then Inl (Forbidden ''Insufficient permissions'')
               else case enforce_policies az u' req x of
                 Inl e \<Rightarrow> Inl e
               | Inr _ \<Rightarrow> Inr (r\<lparr>rq_user := Some u', rq_scopes := scopes\<rparr>)))"

section \<open>Features\<close>

type_synonym feature_map = "(string \<times> bool) list"

text \<open>\<open>parseFeatureMap\<close> on a parsed value: the boolean entries of an object.\<close>

definition parse_feature_map :: "jsv \<Rightarrow> feature_map" where
  "parse_feature_map v =
     (case v of
        JObj es \<Rightarrow> concat (map (\<lambda>(k, x). case x of JBool b \<Rightarrow> [(k, b)] | _ \<Rightarrow> []) es)
      | _ \<Rightarrow> [])"

definition is_feature_enabled :: "string \<Rightarrow> jsv \<Rightarrow> jsv \<Rightarrow> jsv \<Rightarrow> bool" where
  "is_feature_enabled f plan company user \<longleftrightarrow>
     f = ''billing''
     \<or> (map_of (parse_feature_map plan) f = Some True
        \<and> map_of (parse_feature_map company) f \<noteq> Some False
        \<and> map_of (parse_feature_map user) f \<noteq> Some False)"

record company_plan =
  cp_status :: "string option"
  cp_graceEndsAt :: "int option"
  cp_features :: "jsv option"

text \<open>Whether a subscription entitles: active or trialing, or past due within the grace period.\<close>

definition entitled_status :: "int \<Rightarrow> string option \<Rightarrow> int option \<Rightarrow> bool" where
  "entitled_status t status grace \<longleftrightarrow>
     (let st = js_upper (or_str status ''ACTIVE'') in
      st \<in> {''ACTIVE'', ''TRIALING''} \<or> (st = ''PAST_DUE'' \<and> (case grace of None \<Rightarrow> 0 | Some g \<Rightarrow> g) > t))"

definition override_off :: "jsv \<Rightarrow> string \<Rightarrow> bool" where
  "override_off v f \<longleftrightarrow> (case v of JObj es \<Rightarrow> field es f = JBool False | _ \<Rightarrow> False)"

definition feature_label :: "string \<Rightarrow> string" where
  "feature_label f =
     (case concat (map (\<lambda>c. if ch_lower c \<noteq> c then [CHR '' '', c] else [c]) f) of
        [] \<Rightarrow> [] | c # cs \<Rightarrow> ch_upper c # cs)"

definition feature_guard :: "int \<Rightarrow> string option \<Rightarrow> jsv \<Rightarrow> jsv \<Rightarrow> company_plan option \<Rightarrow> request \<Rightarrow> request res" where
  "feature_guard t feature companyOverrides userOverrides plan r =
     (case feature of
        None \<Rightarrow> Inr r
      | Some f \<Rightarrow>
         if f = [] \<or> (case rq_user r of None \<Rightarrow> True | Some u \<Rightarrow> \<not> truthy (p_companyId u)) then Inr r
         else if (case plan of None \<Rightarrow> False
                  | Some p \<Rightarrow> \<not> entitled_status t (cp_status p) (cp_graceEndsAt p)) \<and> f \<noteq> ''billing''
           then Inl (Forbidden ''Billing access is required to continue using this function'')
         else (case (case plan of None \<Rightarrow> None | Some p \<Rightarrow> cp_features p) of
             Some features \<Rightarrow>
               if is_feature_enabled f features companyOverrides userOverrides then Inr r
               else Inl (Forbidden (feature_label f @ '' is not included or is disabled for this account''))
           | None \<Rightarrow>
               if map_of (parse_feature_map userOverrides) f = Some False \<or> override_off companyOverrides f
               then Inl (Forbidden (feature_label f @ '' is disabled for this account'')) else Inr r))"

section \<open>Recent MFA, service accounts\<close>

text \<open>A session that is not found makes \<open>row.mfaVerifiedAt\<close> throw.\<close>

definition step_up_guard :: "int \<Rightarrow> bool \<Rightarrow> session list \<Rightarrow> string option \<Rightarrow> request \<Rightarrow> request res" where
  "step_up_guard t required logged sessionId r =
     (if \<not> required then Inr r
      else case rq_user r of
        None \<Rightarrow> Inl (Forbidden ''STEP_UP_REQUIRED'')
      | Some u \<Rightarrow>
         if \<not> truthy sessionId then Inl (Forbidden ''STEP_UP_REQUIRED'')
         else (case find (\<lambda>x. Some (se_id x) = sessionId \<and> se_userId x = p_id u \<and> se_revokedAt x = None) logged of
             None \<Rightarrow> Inl (ServerError ''TypeError'')
           | Some x \<Rightarrow>
               if t - (case se_mfaAt x of None \<Rightarrow> 0 | Some a \<Rightarrow> a) > 10 * 60 * 1000
               then Inl (Forbidden ''STEP_UP_REQUIRED'') else Inr r))"

record service_account =
  sa_id :: string
  sa_name :: string
  sa_companyId :: "string option"
  sa_tokenHash :: string
  sa_isActive :: bool
  sa_revokedAt :: "int option"
  sa_expiresAt :: "int option"
  sa_slugs :: "string list"
  sa_scopeType :: string
  sa_scopeValues :: "string list"

definition service_account_guard :: "(string \<Rightarrow> string) \<Rightarrow> int \<Rightarrow> service_account list \<Rightarrow> headers \<Rightarrow> request \<Rightarrow> request res" where
  "service_account_guard sha t machines h r =
     (let token = js_trim (or_str (h_serviceToken h) []) in
      if \<not> starts_with token ''fsit_sa_'' then Inl (Unauthorized ''Service account token is required'')
      else case find (\<lambda>a. sa_tokenHash a = sha token \<and> sa_isActive a \<and> sa_revokedAt a = None
                         \<and> (case sa_expiresAt a of None \<Rightarrow> True | Some e \<Rightarrow> e > t)) machines of
        None \<Rightarrow> Inl (Unauthorized ''Service account token is invalid'')
      | Some a \<Rightarrow> Inr (r\<lparr>rq_user := Some \<lparr>p_id = sa_id a, p_email = sa_name a @ ''@service-account.local'',
            p_role = ''SERVICE_ACCOUNT'', p_userType = ''SERVICE_ACCOUNT'', p_companyId = sa_companyId a,
            p_effective = None, p_location = None, p_slugs = sa_slugs a,
            p_scopes = map (\<lambda>sl. \<lparr>scope_slug = sl, scope_type = sa_scopeType a,
                                  scope_values = Some (sa_scopeValues a)\<rparr>) (sa_slugs a)\<rparr>\<rparr>))"

end
