(* ===== verification/Auth_Accounts.thy ===== *)
theory Auth_Accounts
  imports Auth_Ops
begin

text \<open>
  Registration, e-mail verification, password reset (\<open>AuthService\<close>) and the reviewed reset
  of a second factor (\<open>MfaResetService\<close>). The request validation gives every registration
  an e-mail with a domain part.
\<close>

section \<open>Registration\<close>

definition TERMS_VERSION :: string where "TERMS_VERSION = ''2026-07-29''"
definition PRIVACY_VERSION :: string where "PRIVACY_VERSION = ''2026-07-29''"

record registration =
  rg_email :: string
  rg_password :: string
  rg_firstName :: string
  rg_lastName :: string
  rg_phone :: "string option"
  rg_location :: "string option"
  rg_contact :: "string option"
  rg_timezone :: "string option"
  rg_planName :: "string option"
  rg_termsAccepted :: bool
  rg_termsVersion :: string
  rg_privacyVersion :: string
  rg_jobTitle :: "string option"
  rg_department :: "string option"
  rg_companyName :: "string option"
  rg_inviteCode :: "string option"
  rg_domain :: "string option"

definition assert_legal_consent :: "registration \<Rightarrow> unit res" where
  "assert_legal_consent d =
     (if \<not> rg_termsAccepted d \<or> rg_termsVersion d \<noteq> TERMS_VERSION \<or> rg_privacyVersion d \<noteq> PRIVACY_VERSION
      then Inl (BadRequest ''Review and accept the current Terms of Service and Privacy Policy'') else Inr ())"

definition record_consent :: "string \<Rightarrow> int \<Rightarrow> registration \<Rightarrow> unit auth" where
  "record_consent userId t d =
     writes (\<lambda>s. s\<lparr>consents := consents s @ [(userId, rg_termsVersion d, rg_privacyVersion d, t)]\<rparr>)"

definition new_account :: "crypto \<Rightarrow> string \<Rightarrow> string \<Rightarrow> registration \<Rightarrow> string \<Rightarrow> string \<Rightarrow> string option \<Rightarrow> account" where
  "new_account cr i email d role userType company =
     \<lparr>ac_id = i, ac_email = email, ac_firstName = rg_firstName d, ac_lastName = rg_lastName d,
      ac_phone = trim_or_null (rg_phone d),
      ac_jobTitle = (if userType = ''BUSINESS'' then trim_or_null (rg_jobTitle d) else None),
      ac_department = (if userType = ''BUSINESS'' then trim_or_null (rg_department d) else None),
      ac_location = trim_or_null (rg_location d), ac_contact = trim_or_null (rg_contact d),
      ac_timezone = trim_or_null (rg_timezone d), ac_role = role, ac_userType = userType, ac_companyId = company,
      ac_emailVerified = True, ac_passwordHash = Some (bcrypt_hash cr (rg_password d)), ac_isActive = True,
      ac_breakGlass = False, ac_authVersion = 0, ac_lastLoginAt = None, ac_mfaEnabled = False,
      ac_mfaSecret = None, ac_mfaPending = None, ac_recovery = [], ac_mfaAt = None, ac_verifyToken = None,
      ac_verifyExpires = None, ac_resetToken = None, ac_resetExpires = None\<rparr>"

definition insert_account :: "account \<Rightarrow> unit auth" where
  "insert_account a =
     bindE (reads (\<lambda>s. list_ex (\<lambda>b. ac_id b = ac_id a \<or> ac_email b = ac_email a) (accounts s))) (\<lambda>dup.
     bindE (guard (\<not> dup) duplicate) (\<lambda>_.
     writes (\<lambda>s. s\<lparr>accounts := accounts s @ [a]\<rparr>)))"

text \<open>The checks both registrations start with; the normalised e-mail.\<close>

definition registration_checks :: "registration \<Rightarrow> string list \<Rightarrow> string auth" where
  "registration_checks d names =
     bindE (of_res (assert_password_policy (Some (rg_password d)) ([rg_email d, rg_firstName d, rg_lastName d] @ names))) (\<lambda>_.
     bindE (of_res (assert_legal_consent d)) (\<lambda>_.
     let email = js_trim (js_lower (rg_email d)) in
     bindE (reads (account_by_email email)) (\<lambda>existing.
     bindE (guard (existing = None) (Conflict ''Email already registered'')) (\<lambda>_. ret email))))"

definition finish_registration :: "crypto \<Rightarrow> auth_world \<Rightarrow> registration \<Rightarrow> account \<Rightarrow> sign_in auth" where
  "finish_registration cr w d a =
     bindE (insert_account a) (\<lambda>_.
     bindE (record_consent (ac_id a) (now w) d) (\<lambda>_.
     bindE (generate_tokens cr w a no_ctx None) (\<lambda>(access, refresh).
     ret (SignedIn (response_user a) access refresh))))"

definition register_public :: "crypto \<Rightarrow> auth_world \<Rightarrow> registration \<Rightarrow> sign_in auth" where
  "register_public cr w d =
     bindE (registration_checks d []) (\<lambda>email.
     finish_registration cr w d (new_account cr (uuid w 10) email d ''CLIENT'' ''PUBLIC'' None))"

text \<open>\<open>toLowerCase().replace(/[^a-z0-9]+/g, '-').replace(/^-|-$/g, '')\<close>.\<close>

fun dashes :: "string \<Rightarrow> string" where
  "dashes [] = []"
| "dashes (c # s) =
     (if ch_lower_alnum c then c # dashes s
      else case dashes s of
        [] \<Rightarrow> [CHR ''-'']
      | d # r \<Rightarrow> if d = CHR ''-'' then d # r else CHR ''-'' # d # r)"

definition slugify :: "string \<Rightarrow> string" where
  "slugify name =
     (let s = dashes (js_lower name);
          s1 = (case s of [] \<Rightarrow> [] | c # r \<Rightarrow> if c = CHR ''-'' then r else s) in
      if s1 \<noteq> [] \<and> last s1 = CHR ''-'' then butlast s1 else s1)"

definition insert_tenant :: "tenant_row \<Rightarrow> unit auth" where
  "insert_tenant c =
     bindE (reads (\<lambda>s. list_ex (\<lambda>b. tn_id b = tn_id c \<or> tn_slug b = tn_slug c
                                    \<or> tn_invite b \<noteq> None \<and> tn_invite b = tn_invite c) (tenants s))) (\<lambda>dup.
     bindE (guard (\<not> dup) duplicate) (\<lambda>_.
     writes (\<lambda>s. s\<lparr>tenants := tenants s @ [c]\<rparr>)))"

definition email_domain :: "string \<Rightarrow> string" where
  "email_domain email = (case str_split (CHR ''@'') email of _ # d # _ \<Rightarrow> d | _ \<Rightarrow> [])"

text \<open>The company a business registration joins or creates, and whether it creates it.\<close>

definition registration_company :: "auth_world \<Rightarrow> registration \<Rightarrow> string \<Rightarrow> (string \<times> bool) auth" where
  "registration_company w d email =
     (if truthy (rg_companyName d) \<and> \<not> truthy (rg_inviteCode d) \<and> \<not> truthy (rg_domain d) then
        (let name = or_str (rg_companyName d) [] in
         bindE (insert_tenant \<lparr>tn_id = uuid w 11, tn_name = name,
             tn_slug = slugify name @ ''-'' @ dec (nat (now w)), tn_invite = Some (js_upper (rnd w 20)),
             tn_inviteExpires = Some (now w + 30 * 24 * 60 * 60 * 1000), tn_domain = None, tn_isActive = True\<rparr>) (\<lambda>_.
         ret (uuid w 11, True)))
      else if truthy (rg_inviteCode d) then
        bindE (reads (\<lambda>s. find (\<lambda>c. tn_invite c = rg_inviteCode d) (tenants s))) (\<lambda>hit.
        case hit of
          None \<Rightarrow> raise (BadRequest ''Invalid invite code'')
        | Some c \<Rightarrow>
            bindE (guard (tn_isActive c) (BadRequest ''Invalid invite code'')) (\<lambda>_.
            bindE (guard (\<not> (case tn_inviteExpires c of None \<Rightarrow> False | Some e \<Rightarrow> e < now w))
                     (BadRequest ''Invite code has expired'')) (\<lambda>_. ret (tn_id c, False))))
      else if truthy (rg_domain d) then
        bindE (reads (\<lambda>s. find (\<lambda>c. tn_domain c = Some (email_domain email) \<and> tn_isActive c) (tenants s))) (\<lambda>hit.
        case hit of
          None \<Rightarrow> raise (BadRequest ''No company found for your email domain'')
        | Some c \<Rightarrow> ret (tn_id c, False))
      else raise (BadRequest ''Either companyName, invite code, or company domain is required''))"

definition register_business :: "crypto \<Rightarrow> auth_world \<Rightarrow> registration \<Rightarrow> sign_in auth" where
  "register_business cr w d =
     bindE (registration_checks d [or_str (rg_companyName d) []]) (\<lambda>email.
     bindE (guard (\<not> (truthy (rg_planName d) \<and> js_lower (or_str (rg_planName d) []) \<noteq> ''business''))
              (BadRequest ''Companies must choose the Business plan'')) (\<lambda>_.
     bindE (registration_company w d email) (\<lambda>(company, creates).
     finish_registration cr w d
       (new_account cr (uuid w 10) email d (if creates then ''TENANT_ADMIN'' else ''CLIENT'') ''BUSINESS'' (Some company)))))"

section \<open>E-mail and password tokens\<close>

text \<open>\<open>findUserByCredential\<close>: the column holds the token or its hash and has not expired.\<close>

definition find_by_credential :: "(account \<Rightarrow> string option) \<Rightarrow> (account \<Rightarrow> int option) \<Rightarrow> crypto \<Rightarrow> int \<Rightarrow> string
    \<Rightarrow> auth_db \<Rightarrow> account option" where
  "find_by_credential column expiry cr t token s =
     find (\<lambda>a. column a \<in> {Some (hash_credential cr token), Some token}
               \<and> (case expiry a of None \<Rightarrow> False | Some e \<Rightarrow> e \<ge> t)) (accounts s)"

definition verify_email :: "crypto \<Rightarrow> int \<Rightarrow> string \<Rightarrow> unit auth" where
  "verify_email cr t token =
     bindE (reads (find_by_credential ac_verifyToken ac_verifyExpires cr t token)) (\<lambda>u.
     case u of
       None \<Rightarrow> raise (BadRequest ''Invalid or expired verification token'')
     | Some a \<Rightarrow> set_account (ac_id a) (\<lambda>b. b\<lparr>ac_emailVerified := True, ac_verifyToken := None,
                                               ac_verifyExpires := None\<rparr>))"

definition send_mail :: "string \<Rightarrow> string \<Rightarrow> string \<Rightarrow> unit auth" where
  "send_mail kind address content = writes (\<lambda>s. s\<lparr>auth_mail := auth_mail s @ [(kind, address, content)]\<rparr>)"

definition resend_verification :: "crypto \<Rightarrow> auth_world \<Rightarrow> string \<Rightarrow> unit auth" where
  "resend_verification cr w email =
     bindE (reads (account_by_email (js_trim (js_lower email)))) (\<lambda>u.
     case u of
       None \<Rightarrow> ret ()
     | Some a \<Rightarrow>
         if ac_emailVerified a then ret ()
         else bindE (set_account (ac_id a) (\<lambda>b. b\<lparr>ac_verifyToken := Some (hash_credential cr (rnd w 0)),
                        ac_verifyExpires := Some (now w + 24 * 60 * 60 * 1000)\<rparr>)) (\<lambda>_.
              send_mail ''verify'' (ac_email a) (rnd w 0)))"

definition forgot_password :: "crypto \<Rightarrow> auth_world \<Rightarrow> string \<Rightarrow> unit auth" where
  "forgot_password cr w email =
     bindE (reads (account_by_email email)) (\<lambda>u.
     case u of
       None \<Rightarrow> ret ()
     | Some a \<Rightarrow>
         bindE (set_account (ac_id a) (\<lambda>b. b\<lparr>ac_resetToken := Some (hash_credential cr (rnd w 0)),
                  ac_resetExpires := Some (now w + 60 * 60 * 1000)\<rparr>)) (\<lambda>_.
         send_mail ''reset'' (ac_email a) (rnd w 0)))"

definition reset_password :: "crypto \<Rightarrow> int \<Rightarrow> string \<Rightarrow> string \<Rightarrow> unit auth" where
  "reset_password cr t token password =
     bindE (of_res (assert_password_policy (Some password) [])) (\<lambda>_.
     bindE (reads (find_by_credential ac_resetToken ac_resetExpires cr t token)) (\<lambda>u.
     case u of
       None \<Rightarrow> raise (BadRequest ''Invalid or expired reset token'')
     | Some a \<Rightarrow>
         bindE (set_account (ac_id a) (\<lambda>b. b\<lparr>ac_passwordHash := Some (bcrypt_hash cr password),
                  ac_resetToken := None, ac_resetExpires := None\<rparr>)) (\<lambda>_.
         writes (\<lambda>s. s\<lparr>sessions := filter (\<lambda>x. se_userId x \<noteq> ac_id a) (sessions s)\<rparr>))))"

section \<open>Reviewed reset of a second factor\<close>

definition request_reset :: "auth_world \<Rightarrow> string \<Rightarrow> string option \<Rightarrow> unit auth" where
  "request_reset w address reason =
     (let email = js_lower (js_trim address) in
      bindE (reads (\<lambda>s. find (\<lambda>a. ac_email a = email \<and> ac_isActive a) (accounts s))) (\<lambda>u.
      case u of
        None \<Rightarrow> ret ()
      | Some a \<Rightarrow>
          bindE (reads (\<lambda>s. list_ex (\<lambda>r. rr_userId r = ac_id a \<and> rr_status r = ''PENDING'') (resets s))) (\<lambda>active.
          if active then ret ()
          else writes (\<lambda>s. s\<lparr>resets := resets s @ [\<lparr>rr_id = uuid w 0, rr_userId = ac_id a, rr_email = email,
                 rr_reason = trim_or_null reason, rr_status = ''PENDING'', rr_reviewer = None, rr_notes = None,
                 rr_reviewedAt = None\<rparr>]\<rparr>))))"

definition review_company :: "principal \<Rightarrow> string option" where
  "review_company u = or_opt (p_effective u) (p_companyId u)"

text \<open>The requests a reviewer sees: those of accounts of the reviewer's company, or all for a
  super admin without one. Without a company SQL compares with null, which is never true.\<close>

definition reset_visible :: "principal \<Rightarrow> auth_db \<Rightarrow> reset_request \<Rightarrow> bool" where
  "reset_visible u s r \<longleftrightarrow>
     (p_role u = ''SUPER_ADMIN'' \<and> \<not> truthy (review_company u))
     \<or> (review_company u \<noteq> None
        \<and> (case find_account (rr_userId r) s of None \<Rightarrow> False | Some a \<Rightarrow> ac_companyId a = review_company u))"

definition list_resets :: "principal \<Rightarrow> auth_db \<Rightarrow> reset_request list" where
  "list_resets u s =
     take 250 (sort_key (\<lambda>r. if rr_status r = ''PENDING'' then 1 else if rr_status r = ''APPROVED'' then 2
        else if rr_status r = ''DENIED'' then 3 else (0 :: nat)) (filter (reset_visible u s) (resets s)))"

definition review_reset :: "auth_world \<Rightarrow> string \<Rightarrow> string \<Rightarrow> string option \<Rightarrow> principal \<Rightarrow> string auth" where
  "review_reset w i status notes u =
     (let text = js_trim (or_str notes []) in
      bindE (guard (text \<noteq> []) (BadRequest ''Review notes are required'')) (\<lambda>_.
      bindE (reads (\<lambda>s. find (\<lambda>r. rr_id r = i \<and> rr_status r = ''PENDING'' \<and> reset_visible u s r) (resets s))) (\<lambda>hit.
      case hit of
        None \<Rightarrow> raise (NotFound ''MFA reset request not found'')
      | Some r \<Rightarrow>
          bindE (if status = ''APPROVED'' \<and> rr_userId r \<noteq> [] then
              bindE (set_account (rr_userId r) (\<lambda>a. (clear_mfa a)\<lparr>ac_authVersion := ac_authVersion a + 1\<rparr>)) (\<lambda>_.
              set_sessions (\<lambda>x. se_userId x = rr_userId r \<and> se_revokedAt x = None)
                (revoke (now w) (Some (p_id u)) ''approved-mfa-reset''))
            else ret ()) (\<lambda>_.
          bindE (writes (\<lambda>s. s\<lparr>resets := map (\<lambda>q. if rr_id q = i \<and> rr_status q = ''PENDING''
              then q\<lparr>rr_status := status, rr_reviewer := Some (p_id u), rr_notes := Some text,
                     rr_reviewedAt := Some (now w)\<rparr> else q) (resets s)\<rparr>)) (\<lambda>_.
          bindE (writes (\<lambda>s. s\<lparr>reviews := reviews s @ [(case find_account (rr_userId r) s of None \<Rightarrow> None
                    | Some a \<Rightarrow> ac_companyId a, p_id u, i, status)]\<rparr>)) (\<lambda>_.
          bindE (send_mail ''mfa-reset'' (rr_email r) status) (\<lambda>_.
          ret status)))))))"

end
