(* ===== verification/Auth_Props.thy ===== *)
theory Auth_Props
  imports Auth_Accounts
begin

text \<open>
  What every call keeps of the session table: ids and stored refresh tokens stay unique, and
  a stored refresh token is always a hash.
\<close>

section \<open>The invariant\<close>

definition sessions_ok :: "session list \<Rightarrow> bool" where
  "sessions_ok ss \<longleftrightarrow> distinct (map se_id ss) \<and> distinct (map se_refresh ss)
     \<and> list_all is_hashed (map se_refresh ss)"

abbreviation auth_ok :: "auth_db \<Rightarrow> bool" where
  "auth_ok s \<equiv> sessions_ok (sessions s)"

lemma hash_is_hashed [simp]: "is_hashed (hash_credential cr x)"
  by (simp add: is_hashed_def hash_credential_def del: append.simps)

lemma sessions_ok_map:
  assumes "\<And>x. se_id (f x) = se_id x" and "\<And>x. se_refresh (f x) = se_refresh x" and "sessions_ok ss"
  shows "sessions_ok (map (\<lambda>x. if P x then f x else x) ss)"
proof -
  have "map se_id (map (\<lambda>x. if P x then f x else x) ss) = map se_id ss"
    "map se_refresh (map (\<lambda>x. if P x then f x else x) ss) = map se_refresh ss"
    using assms(1,2) by simp_all
  then show ?thesis using assms(3) by (simp only: sessions_ok_def)
qed

lemma sessions_ok_filter: "sessions_ok ss \<Longrightarrow> sessions_ok (filter P ss)"
  by (auto simp: sessions_ok_def list_all_iff distinct_map intro: inj_on_subset)

lemma rotated_distinct:
  assumes "distinct (map se_id ss)" "distinct (map se_refresh ss)"
    and "\<And>x. hit x \<Longrightarrow> se_id x = sid" and "\<And>x. se_refresh (f x) = h"
    and "\<not> list_ex (\<lambda>x. se_refresh x = h \<and> \<not> hit x) ss"
  shows "distinct (map se_refresh (map (\<lambda>x. if hit x then f x else x) ss))"
  using assms(1,2,5)
proof (induction ss)
  case (Cons x xs)
  show ?case
  proof (cases "hit x")
    case True
    with Cons.prems(1) assms(3) have n: "\<not> hit y" if "y \<in> set xs" for y
      using that by (metis distinct.simps(2) image_eqI list.simps(9) set_map)
    then have "map (\<lambda>x. if hit x then f x else x) xs = xs" by (simp add: map_idI)
    moreover have "h \<notin> se_refresh ` set xs" using n Cons.prems(3) by (auto simp: list_ex_iff)
    ultimately show ?thesis using True Cons.prems assms(4) by simp
  next
    case False
    then have "se_refresh x \<noteq> h" using Cons.prems(3) by auto
    then have "\<forall>y \<in> set xs. se_refresh x \<noteq> se_refresh (if hit y then f y else y)"
      using Cons.prems(2) assms(4) by auto
    moreover have "distinct (map se_refresh (map (\<lambda>x. if hit x then f x else x) xs))"
      using Cons by simp
    ultimately show ?thesis using False by (auto simp: image_iff)
  qed
qed simp

lemma keeps_set_account [keeps_intros]: "keeps auth_ok (set_account i f)"
  by (simp add: set_account_def keeps_writes)

lemma keeps_set_sessions:
  "(\<And>x. se_id (f x) = se_id x) \<Longrightarrow> (\<And>x. se_refresh (f x) = se_refresh x) \<Longrightarrow> keeps auth_ok (set_sessions P f)"
  unfolding set_sessions_def by (rule keeps_writes) (simp add: sessions_ok_map)

lemma keeps_update_sessions:
  "(\<And>x. se_id (f x) = se_id x) \<Longrightarrow> (\<And>x. se_refresh (f x) = se_refresh x) \<Longrightarrow> keeps auth_ok (update_sessions P f)"
  unfolding update_sessions_def by (intro keeps_intros keeps_set_sessions) auto

lemma revoke_fields [simp]: "se_id (revoke t b y x) = se_id x" "se_refresh (revoke t b y x) = se_refresh x"
  by (simp_all add: revoke_def)

lemma keeps_revoke [keeps_intros]: "keeps auth_ok (set_sessions P (revoke t b y))"
  "keeps auth_ok (update_sessions P (revoke t b y))"
  by (rule keeps_set_sessions, simp_all) (rule keeps_update_sessions, simp_all)

lemma keeps_create_session:
  "is_hashed (se_refresh x) \<Longrightarrow> keeps auth_ok (create_session x)"
  by (rule keepsI) (auto simp: create_session_def act_simps sessions_ok_def list_ex_iff split: if_splits)

lemma keeps_record_rotation [keeps_intros]: "keeps auth_ok (record_rotation cr i u p e)"
  unfolding record_rotation_def by (rule keeps_writes) simp

lemma keeps_rotate [keeps_intros]: "keeps auth_ok (rotate_session cr t sid uid prev (hash_credential cr tk) e m)"
proof (rule keepsI)
  fix s assume ok: "auth_ok s"
  let ?h = "hash_credential cr tk"
  let ?hit = "\<lambda>x. se_id x = sid \<and> se_userId x = uid \<and> se_refresh x \<in> set (lookup_values cr prev) \<and> live t x"
  let ?f = "\<lambda>x. x\<lparr>se_refresh := ?h, se_expiresAt := e, se_lastSeenAt := Some t,
                     se_revokedAt := None, se_revokedById := None, se_reason := None,
                     se_mfaAt := (case m of None \<Rightarrow> se_mfaAt x | Some m \<Rightarrow> Some m)\<rparr>"
  have new: "sessions_ok (map (\<lambda>x. if ?hit x then ?f x else x) (sessions s))"
    if "\<not> list_ex (\<lambda>x. se_refresh x = ?h \<and> \<not> ?hit x) (sessions s)"
  proof -
    have "map se_id (map (\<lambda>x. if ?hit x then ?f x else x) (sessions s)) = map se_id (sessions s)"
      by simp
    moreover have "distinct (map se_refresh (map (\<lambda>x. if ?hit x then ?f x else x) (sessions s)))"
      by (rule rotated_distinct[where sid = sid and h = ?h]) (use ok that in \<open>auto simp: sessions_ok_def\<close>)
    moreover have "list_all is_hashed (map se_refresh (map (\<lambda>x. if ?hit x then ?f x else x) (sessions s)))"
      using ok by (auto simp: sessions_ok_def list_all_iff)
    ultimately show ?thesis using ok by (simp only: sessions_ok_def)
  qed
  from keepsD[OF keeps_record_rotation] show "auth_ok (snd (rotate_session cr t sid uid prev ?h e m s))"
    using ok new by (auto simp: rotate_session_def act_simps set_sessions_def record_rotation_def split: if_splits)
qed

section \<open>Every call keeps it\<close>

lemma keeps_other [keeps_intros]:
  "keeps auth_ok (record_failure cr t e)" "keeps auth_ok (clear_failures cr e)"
  "keeps auth_ok (insert_alert c k v b m)" "keeps auth_ok (record_consent i t d)"
  "keeps auth_ok (insert_account a)" "keeps auth_ok (insert_tenant tn)" "keeps auth_ok (send_mail k ad m)"
  unfolding record_failure_def clear_failures_def insert_alert_def record_consent_def insert_account_def
    insert_tenant_def send_mail_def Let_def
  by (intro keeps_intros keeps_writes; simp)+

lemma keeps_trim [keeps_intros]: "keeps auth_ok (trim_sessions t u n k)"
  unfolding trim_sessions_def by (intro keeps_intros)

lemma keeps_tokens [keeps_intros]: "keeps auth_ok (generate_tokens cr w a x ex)"
proof -
  have "keeps auth_ok (token_attempt cr w a x ex k)" for k
    unfolding token_attempt_def Let_def by (intro keeps_intros keeps_create_session) simp
  then have "keeps auth_ok (token_attempts cr w a x ex n k)" for n k
    by (induction n arbitrary: k) (auto intro!: keeps_intros)
  then show ?thesis by (simp add: generate_tokens_def)
qed

lemma keeps_signals [keeps_intros]: "keeps auth_ok (security_signals t a x)"
  unfolding security_signals_def by (intro keeps_intros)

lemma keeps_mfa [keeps_intros]:
  "keeps auth_ok (begin_setup cr w i)" "keeps auth_ok (confirm_setup cr w i code)"
  "keeps auth_ok (verify_user_code cr t i code)" "keeps auth_ok (confirm_password cr i pw)"
  unfolding begin_setup_def confirm_setup_def verify_user_code_def confirm_password_def Let_def
  by (intro keeps_intros)+

lemma keeps_mfa_changes [keeps_intros]:
  "keeps auth_ok (disable_mfa cr t i code pw)" "keeps auth_ok (regenerate_recovery_codes cr w i code pw)"
  unfolding disable_mfa_def disable_mfa_code_def regenerate_recovery_codes_def regenerate_recovery_def
  by (intro keeps_intros)+

lemma keeps_sign_in [keeps_intros]:
  "keeps auth_ok (complete_sign_in cr w a x)" "keeps auth_ok (fail_login cr t e)"
  "keeps auth_ok (enforce_backoff cr t e)" "keeps auth_ok (active_account i er)"
  unfolding complete_sign_in_def fail_login_def enforce_backoff_def active_account_def
  by (intro keeps_intros)+

lemma keeps_logins [keeps_intros]:
  "keeps auth_ok (login cr w e pw c x)" "keeps auth_ok (begin_challenge_enrollment cr w tk)"
  "keeps auth_ok (confirm_challenge_enrollment cr w tk code x)" "keeps auth_ok (confirm_challenge_login cr w tk code x)"
  "keeps auth_ok (complete_sso cr w i x b)" "keeps auth_ok (complete_passkey cr w i x)"
  unfolding login_def begin_challenge_enrollment_def confirm_challenge_enrollment_def
    confirm_challenge_login_def complete_sso_def complete_passkey_def Let_def
  by (intro keeps_intros)+

lemma keeps_session_ops [keeps_intros]:
  "keeps auth_ok (refresh cr w tk)" "keeps auth_ok (logout cr t tk)" "keeps auth_ok (step_up cr t i sid code)"
  "keeps auth_ok (revoke_session t i sd by)" "keeps auth_ok (revoke_others t i cur)"
  unfolding refresh_def logout_def step_up_def revoke_session_def revoke_others_def revoke_by_refresh_def
    revoke_family_def Let_def
  by (intro keeps_intros keeps_update_sessions; simp)+

lemma keeps_account_ops [keeps_intros]:
  "keeps auth_ok (register_public cr w d)" "keeps auth_ok (register_business cr w d)"
  "keeps auth_ok (verify_email cr t tk)" "keeps auth_ok (resend_verification cr w e)"
  "keeps auth_ok (forgot_password cr w e)" "keeps auth_ok (reset_password cr t tk pw)"
  unfolding register_public_def register_business_def registration_checks_def finish_registration_def
    registration_company_def verify_email_def resend_verification_def forgot_password_def reset_password_def Let_def
  by (intro keeps_intros keeps_writes; simp add: sessions_ok_filter)+

lemma keeps_resets [keeps_intros]:
  "keeps auth_ok (request_reset w e r)" "keeps auth_ok (review_reset w i st n u)"
  unfolding request_reset_def review_reset_def Let_def
  by (intro keeps_intros keeps_writes; simp)+

lemma keeps_bearer [keeps_intros]: "keeps auth_ok (authenticate cr t tk)"
  unfolding authenticate_def jwt_validate_def by (intro keeps_intros keeps_set_sessions) simp_all

datatype auth_event =
    Login auth_world string string "string option" session_ctx
  | BeginEnrollment auth_world string
  | ConfirmEnrollment auth_world string string session_ctx
  | ConfirmLogin auth_world string string session_ctx
  | SsoLogin auth_world string session_ctx bool
  | PasskeyLogin auth_world string session_ctx
  | Refresh auth_world string
  | Logout int string
  | StepUp int string "string option" string
  | RevokeSession int string string string
  | RevokeOthers int string "string option"
  | BeginMfa auth_world string
  | ConfirmMfa auth_world string string
  | DisableMfa int string string string
  | RegenerateCodes auth_world string string string
  | RegisterPublic auth_world registration
  | RegisterBusiness auth_world registration
  | VerifyEmail int string
  | ResendVerification auth_world string
  | ForgotPassword auth_world string
  | ResetPassword int string string
  | RequestReset auth_world string "string option"
  | ReviewReset auth_world string string "string option" principal
  | Bearer int string

fun auth_step :: "crypto \<Rightarrow> auth_event \<Rightarrow> auth_db \<Rightarrow> auth_db" where
  "auth_step cr (Login w e pw c x) s = snd (login cr w e pw c x s)"
| "auth_step cr (BeginEnrollment w tk) s = snd (begin_challenge_enrollment cr w tk s)"
| "auth_step cr (ConfirmEnrollment w tk code x) s = snd (confirm_challenge_enrollment cr w tk code x s)"
| "auth_step cr (ConfirmLogin w tk code x) s = snd (confirm_challenge_login cr w tk code x s)"
| "auth_step cr (SsoLogin w i x b) s = snd (complete_sso cr w i x b s)"
| "auth_step cr (PasskeyLogin w i x) s = snd (complete_passkey cr w i x s)"
| "auth_step cr (Refresh w tk) s = snd (refresh cr w tk s)"
| "auth_step cr (Logout t tk) s = snd (logout cr t tk s)"
| "auth_step cr (StepUp t i sid code) s = snd (step_up cr t i sid code s)"
| "auth_step cr (RevokeSession t i sid by) s = snd (revoke_session t i sid by s)"
| "auth_step cr (RevokeOthers t i cur) s = snd (revoke_others t i cur s)"
| "auth_step cr (BeginMfa w i) s = snd (begin_setup cr w i s)"
| "auth_step cr (ConfirmMfa w i code) s = snd (confirm_setup cr w i code s)"
| "auth_step cr (DisableMfa t i code pw) s = snd (disable_mfa cr t i code pw s)"
| "auth_step cr (RegenerateCodes w i code pw) s = snd (regenerate_recovery_codes cr w i code pw s)"
| "auth_step cr (RegisterPublic w d) s = snd (register_public cr w d s)"
| "auth_step cr (RegisterBusiness w d) s = snd (register_business cr w d s)"
| "auth_step cr (VerifyEmail t tk) s = snd (verify_email cr t tk s)"
| "auth_step cr (ResendVerification w e) s = snd (resend_verification cr w e s)"
| "auth_step cr (ForgotPassword w e) s = snd (forgot_password cr w e s)"
| "auth_step cr (ResetPassword t tk pw) s = snd (reset_password cr t tk pw s)"
| "auth_step cr (RequestReset w e r) s = snd (request_reset w e r s)"
| "auth_step cr (ReviewReset w i st n u) s = snd (review_reset w i st n u s)"
| "auth_step cr (Bearer t tk) s = snd (authenticate cr t tk s)"

lemma keeps_snd_ok: "keeps auth_ok m \<Longrightarrow> auth_ok s \<Longrightarrow> auth_ok (snd (m s))"
  by (simp add: keeps_def)

interpretation authm: guarded_machine any_call "auth_step cr" auth_ok for cr
proof unfold_locales
  fix e :: auth_event and s
  assume "auth_ok s"
  then show "auth_ok (auth_step cr e s)"
    by (cases e) (simp_all only: auth_step.simps, (rule keeps_snd_ok; (assumption | rule keeps_intros))+)
qed

end
