(* ===== verification/Auth_Claims.thy ===== *)
theory Auth_Claims
  imports Auth_Props "HOL-Library.Countable"
begin

text \<open>Properties of sign-in, refresh tokens, challenges and password resets.\<close>

section \<open>Stored refresh tokens\<close>

text \<open>
  The session table never holds a refresh token in the clear. Starting from a table whose
  sessions have distinct ids and distinct hashed tokens, after any sequence of calls of the
  authentication service, including failed ones and whatever random values they draw, ids
  and tokens are still distinct and every stored token carries the hash prefix.
\<close>
theorem refresh_tokens_stay_hashed:
  assumes "sessions_ok (sessions s0)"
  shows "sessions_ok (sessions (fold (auth_step cr) events s0))"
  using authm.fold_inv[of events s0 cr] assms by (simp add: list_all_iff)

definition no_auth :: auth_db where
  "no_auth = \<lparr>accounts = [], sessions = [], rotations = [], abuse = [], alerts = [], sec_policy = None,
     tenants = [], consents = [], resets = [], auth_mail = [], reviews = []\<rparr>"

definition toy_crypto :: crypto where
  "toy_crypto = \<lparr>sha256 = (\<lambda>x. CHR ''h'' # x), hmac_sha1 = (\<lambda>k m. replicate 20 0),
     bcrypt_ok = (\<lambda>p h. CHR ''b'' # p = h), bcrypt_hash = (\<lambda>p. CHR ''b'' # p), encrypt = (\<lambda>x. x), decrypt = Some,
     jwt_sign = (\<lambda>y t. y_sub y), jwt_verify = (\<lambda>t x. Some \<lparr>y_sub = x, y_sid = None, y_av = None,
        y_purpose = Some ''login'', y_nonce = None, y_role = None\<rparr>), access_lifetime = 900000\<rparr>"

definition toy_account :: account where
  "toy_account = \<lparr>ac_id = ''u1'', ac_email = ''a@x.io'', ac_firstName = ''A'', ac_lastName = ''B'', ac_phone = None,
     ac_jobTitle = None, ac_department = None, ac_location = None, ac_contact = None, ac_timezone = None,
     ac_role = ''TECHNICIAN'', ac_userType = ''BUSINESS'', ac_companyId = Some ''c1'', ac_emailVerified = True,
     ac_passwordHash = Some ''bsecret'', ac_isActive = True, ac_breakGlass = False, ac_authVersion = 0,
     ac_lastLoginAt = None, ac_mfaEnabled = False, ac_mfaSecret = None, ac_mfaPending = None, ac_recovery = [],
     ac_mfaAt = None, ac_verifyToken = None, ac_verifyExpires = None, ac_resetToken = Some ''sha256:hreset'',
     ac_resetExpires = Some 5000\<rparr>"

definition toy_world :: "int \<Rightarrow> string \<Rightarrow> auth_world" where
  "toy_world t p = \<lparr>now = t, uuid = (\<lambda>k. p @ replicate k (CHR ''u'')), rnd = (\<lambda>k. p @ replicate k (CHR ''r'')),
     rnd_secret = []\<rparr>"

definition toy_db :: auth_db where
  "toy_db = no_auth\<lparr>accounts := [toy_account]\<rparr>"

definition toy_events :: "auth_event list" where
  "toy_events = [Login (toy_world 1000 ''a'') ''a@x.io'' ''secret'' None no_ctx, Refresh (toy_world 2000 ''b'') ''a'']"

lemma toy_ok: "sessions_ok (sessions toy_db)"
  by (simp add: toy_db_def no_auth_def sessions_ok_def)

lemma toy_run: "map se_refresh (sessions (fold (auth_step toy_crypto) toy_events toy_db)) = [''sha256:hb'']"
  by code_simp

theorem refresh_tokens_stay_hashed_witness:
  "sessions_ok (sessions (fold (auth_step toy_crypto) toy_events toy_db))
   \<and> map se_refresh (sessions (fold (auth_step toy_crypto) toy_events toy_db)) = [''sha256:hb'']"
  using refresh_tokens_stay_hashed[OF toy_ok] toy_run by simp

definition signed_in_db :: auth_db where
  "signed_in_db = auth_step toy_crypto (Login (toy_world 1000 ''a'') ''a@x.io'' ''secret'' None no_ctx) toy_db"

section \<open>Lock after five failures\<close>

text \<open>The state of an e-mail's failure counter: \<open>n\<close> failures, no lock, the last at \<open>t\<close>.\<close>

definition failed :: "crypto \<Rightarrow> string \<Rightarrow> int \<Rightarrow> int \<Rightarrow> auth_db \<Rightarrow> bool" where
  "failed cr e n t s \<longleftrightarrow>
     (\<exists>r. find_abuse (login_email_hash cr e) s = Some r \<and> ab_count r = n \<and> ab_lockedUntil r = None \<and> ab_lastAt r = t)"

text \<open>A password no account of the e-mail accepts.\<close>

definition wrong_password :: "crypto \<Rightarrow> string \<Rightarrow> string \<Rightarrow> auth_db \<Rightarrow> bool" where
  "wrong_password cr e pw s \<longleftrightarrow>
     (case account_by_email (js_trim (js_lower e)) s of
        None \<Rightarrow> True
      | Some a \<Rightarrow> \<not> ac_isActive a \<or> \<not> truthy (ac_passwordHash a) \<or> \<not> bcrypt_ok cr pw (or_str (ac_passwordHash a) []))"

lemma find_append_new: "find P xs = None \<Longrightarrow> find P (xs @ [x]) = (if P x then Some x else None)"
  by (induction xs) (auto split: if_splits)

lemma record_failure_first:
  assumes "find_abuse (login_email_hash cr e) s = None"
  shows "failed cr e 1 t (snd (record_failure cr t e s)) \<and> accounts (snd (record_failure cr t e s)) = accounts s"
  using assms
  by (auto simp: failed_def record_failure_def act_simps find_abuse_def Let_def find_append_new list_ex_iff
      find_None_iff_all)

lemma count_failure_hash [simp]: "ab_hash (count_failure t r) = ab_hash r"
  by (simp add: count_failure_def Let_def)

lemma record_failure_again:
  assumes "find_abuse (login_email_hash cr e) s = Some r"
  shows "find_abuse (login_email_hash cr e) (snd (record_failure cr t e s)) = Some (count_failure t r)
       \<and> accounts (snd (record_failure cr t e s)) = accounts s"
proof -
  let ?h = "login_email_hash cr e"
  have r: "r \<in> set (abuse s)" "ab_hash r = ?h"
    using assms by (auto simp: find_abuse_def dest!: find_SomeD)
  then have "list_ex (\<lambda>r. ab_hash r = ?h) (abuse s)" by (auto simp: list_ex_iff)
  moreover have "find (\<lambda>r. ab_hash r = ?h) (map (\<lambda>r. if ab_hash r = ?h then count_failure t r else r) (abuse s))
      = Some (if ab_hash r = ?h then count_failure t r else r)"
    by (rule find_map_upd) (use assms in \<open>auto simp: find_abuse_def\<close>)
  ultimately show ?thesis
    using r by (simp add: record_failure_def act_simps find_abuse_def Let_def)
qed

text \<open>A failed sign-in only counts, and says nothing else.\<close>

lemma wrong_login:
  assumes "wrong_password cr e pw s" and "fst (enforce_backoff cr (now w) (js_trim (js_lower e)) s) = Inr ()"
  shows "login cr w e pw code x s = (Inl invalid_credentials, snd (record_failure cr (now w) (js_trim (js_lower e)) s))"
proof -
  obtain s' where b: "enforce_backoff cr (now w) (js_trim (js_lower e)) s = (Inr (), s)"
    using assms(2) by (auto simp: enforce_backoff_def act_simps split: option.splits if_splits)
  show ?thesis
    using assms(1) by (auto simp: login_def Let_def bindE_eval b reads_eval fail_login_def raise_eval
        wrong_password_def record_failure_def writes_eval split: option.splits)
qed

type_synonym attempt = "auth_world \<times> string \<times> string option \<times> session_ctx"

definition attempt_at :: "attempt \<Rightarrow> int" where
  "attempt_at a = now (fst a)"

definition try_login :: "crypto \<Rightarrow> string \<Rightarrow> attempt \<Rightarrow> auth_db \<Rightarrow> auth_db" where
  "try_login cr e a s = (case a of (w, pw, code, x) \<Rightarrow> snd (login cr w e pw code x s))"

abbreviation key_of :: "string \<Rightarrow> string" where "key_of e \<equiv> js_trim (js_lower e)"

lemma wrong_password_accounts: "accounts s = accounts s' \<Longrightarrow> wrong_password cr e pw s = wrong_password cr e pw s'"
  by (simp add: wrong_password_def account_by_email_def)

lemma try_wrong:
  assumes "wrong_password cr e (fst (snd a)) s" "fst (enforce_backoff cr (attempt_at a) (key_of e) s) = Inr ()"
  shows "try_login cr e a s = snd (record_failure cr (attempt_at a) (key_of e) s)"
  using wrong_login[of cr e "fst (snd a)" s "fst a"] assms by (cases a) (simp add: try_login_def attempt_at_def)

lemma backoff_failed: "failed cr k n t s \<Longrightarrow> 0 \<le> t' \<Longrightarrow> fst (enforce_backoff cr t' k s) = Inr ()"
  by (auto simp: failed_def enforce_backoff_def act_simps)

lemma try_again:
  assumes "failed cr (key_of e) n t s" "wrong_password cr e (fst (snd a)) s"
    and "0 \<le> t" "t \<le> attempt_at a" "attempt_at a - t \<le> LOGIN_LOCK_MS"
  shows "accounts (try_login cr e a s) = accounts s"
    and "n < 4 \<Longrightarrow> failed cr (key_of e) (n + 1) (attempt_at a) (try_login cr e a s)"
    and "n = 4 \<Longrightarrow> \<exists>r. find_abuse (login_email_hash cr (key_of e)) (try_login cr e a s) = Some r
           \<and> ab_lockedUntil r = Some (attempt_at a + LOGIN_LOCK_MS)"
proof -
  obtain r where r: "find_abuse (login_email_hash cr (key_of e)) s = Some r"
    and n: "ab_count r = n" "ab_lockedUntil r = None" "ab_lastAt r = t" using assms(1) by (auto simp: failed_def)
  have tr: "try_login cr e a s = snd (record_failure cr (attempt_at a) (key_of e) s)"
    using assms by (intro try_wrong backoff_failed) auto
  note again = record_failure_again[OF r, of "attempt_at a"]
  from again tr show "accounts (try_login cr e a s) = accounts s" by simp
  from again tr n assms(5) show "n < 4 \<Longrightarrow> failed cr (key_of e) (n + 1) (attempt_at a) (try_login cr e a s)"
    by (auto simp: failed_def count_failure_def Let_def LOGIN_LOCK_THRESHOLD_def)
  from again tr n assms(5) show "n = 4 \<Longrightarrow> \<exists>r. find_abuse (login_email_hash cr (key_of e)) (try_login cr e a s) = Some r
           \<and> ab_lockedUntil r = Some (attempt_at a + LOGIN_LOCK_MS)"
    by (auto simp: count_failure_def Let_def LOGIN_LOCK_THRESHOLD_def)
qed

lemma tries_count:
  assumes "failed cr (key_of e) n t s" "n + int (length as) \<le> 4" "0 \<le> t"
    and "sorted (t # map attempt_at as)" "last (t # map attempt_at as) - t \<le> LOGIN_LOCK_MS"
    and "\<forall>a \<in> set as. wrong_password cr e (fst (snd a)) s"
  shows "failed cr (key_of e) (n + int (length as)) (last (t # map attempt_at as)) (fold (try_login cr e) as s)
       \<and> accounts (fold (try_login cr e) as s) = accounts s"
  using assms
proof (induction "as" arbitrary: n t s)
  case (Cons a as)
  let ?s = "try_login cr e a s"
  have le: "t \<le> attempt_at a" and l: "attempt_at a \<le> last (attempt_at a # map attempt_at as)"
    using Cons.prems(4) last_in_set[of "attempt_at a # map attempt_at as"] by auto
  then have w: "attempt_at a - t \<le> LOGIN_LOCK_MS" using Cons.prems(5) by auto
  note step = try_again[OF Cons.prems(1) _ Cons.prems(3) le w]
  have ac: "accounts ?s = accounts s" and f: "failed cr (key_of e) (n + 1) (attempt_at a) ?s"
    using step Cons.prems(2,6) by auto
  have "failed cr (key_of e) (n + 1 + int (length as)) (last (attempt_at a # map attempt_at as)) (fold (try_login cr e) as ?s)
       \<and> accounts (fold (try_login cr e) as ?s) = accounts ?s"
    using Cons.prems le l f wrong_password_accounts[OF ac] by (intro Cons.IH) auto
  with ac show ?case by (simp add: algebra_simps)
qed simp

text \<open>
  C7. Five wrong passwords lock the account. When an e-mail has no recorded failure and five
  sign-ins with a wrong password follow each other within fifteen minutes, every further
  sign-in with that e-mail in the fifteen minutes after the last of them is refused with the
  same error and changes nothing, whatever its password and second factor.
\<close>
theorem five_failures_lock:
  assumes "find_abuse (login_email_hash cr (js_trim (js_lower e))) s = None"
    and "length as = 5" and "sorted (0 # map attempt_at as)"
    and "attempt_at (last as) - attempt_at (hd as) \<le> LOGIN_LOCK_MS"
    and "\<forall>a \<in> set as. wrong_password cr e (fst (snd a)) s"
    and "now w < attempt_at (last as) + LOGIN_LOCK_MS"
  shows "login cr w e password code x (fold (try_login cr e) as s)
         = (Inl invalid_credentials, fold (try_login cr e) as s)"
proof -
  obtain a ys where "as = a # ys" "length ys = 4" using assms(2) by (cases "as") auto
  moreover obtain zs z where "ys = zs @ [z]" using \<open>length ys = 4\<close> by (cases ys rule: rev_cases) auto
  ultimately have "as": "as = a # zs @ [z]" and z: "length zs = 3" by auto
  let ?s1 = "try_login cr e a s" and ?t = "attempt_at a" and ?m = "last (attempt_at a # map attempt_at zs)"
  have "enforce_backoff cr ?t (key_of e) s = (Inr (), s)" using assms(1) by (simp add: enforce_backoff_def act_simps)
  then have 1: "failed cr (key_of e) 1 ?t ?s1" "accounts ?s1 = accounts s"
    using try_wrong[of cr e a s] record_failure_first[OF assms(1), of ?t] assms(5) "as" by auto
  have m: "?t \<le> ?m" "?m \<le> attempt_at z" "0 \<le> ?t" "sorted (?t # map attempt_at zs)"
    using assms(3) last_in_set[of "attempt_at a # map attempt_at zs"] unfolding "as"
    by (auto simp: sorted_append)
  have w: "attempt_at z - ?t \<le> LOGIN_LOCK_MS" using assms(4) "as" by simp
  let ?s4 = "fold (try_login cr e) zs ?s1"
  have 4: "failed cr (key_of e) 4 ?m ?s4" "accounts ?s4 = accounts s"
    using tries_count[OF 1(1), of zs] z m w 1(2) assms(5) wrong_password_accounts[OF 1(2)] "as" by auto
  have "wrong_password cr e (fst (snd z)) ?s4" using assms(5) wrong_password_accounts[OF 4(2)] "as" by auto
  from try_again(3)[OF 4(1) this] m w obtain r
    where r: "find_abuse (login_email_hash cr (key_of e)) (try_login cr e z ?s4) = Some r"
      "ab_lockedUntil r = Some (attempt_at z + LOGIN_LOCK_MS)" by auto
  have "fold (try_login cr e) as s = try_login cr e z ?s4" using "as" by simp
  with r assms(6) "as" show ?thesis
    by (simp add: login_def Let_def act_simps enforce_backoff_def invalid_credentials_def)
qed

definition wrong_tries :: "attempt list" where
  "wrong_tries = map (\<lambda>t. (toy_world t ''a'', ''guess'', None, no_ctx)) [1000, 2000, 3000, 4000, 5000]"

theorem five_failures_lock_witness:
  "login toy_crypto (toy_world 6000 ''b'') ''a@x.io'' ''secret'' None no_ctx (fold (try_login toy_crypto ''a@x.io'') wrong_tries toy_db)
   = (Inl invalid_credentials, fold (try_login toy_crypto ''a@x.io'') wrong_tries toy_db)"
proof (rule five_failures_lock)
  show "find_abuse (login_email_hash toy_crypto (js_trim (js_lower ''a@x.io''))) toy_db = None"
    by (simp add: find_abuse_def toy_db_def no_auth_def)
  have "wrong_password toy_crypto ''a@x.io'' ''guess'' toy_db" by code_simp
  then show "\<forall>a \<in> set wrong_tries. wrong_password toy_crypto ''a@x.io'' (fst (snd a)) toy_db"
    by (simp add: wrong_tries_def)
qed (simp_all add: wrong_tries_def attempt_at_def toy_world_def LOGIN_LOCK_MS_def)

section \<open>Challenge tokens\<close>

lemma login_mfa_accounts:
  assumes "login cr w e pw code x s = (Inr (MfaRequired token u), s')"
  shows "s' = s \<and> (\<exists>a. account_by_email (js_trim (js_lower e)) s = Some a \<and> ac_isActive a \<and> ac_mfaEnabled a
           \<and> u = response_user a \<and> token = mfa_challenge cr w (ac_id a) ''login'')"
  using assms
  by (auto simp: login_def Let_def act_simps enforce_backoff_def fail_login_def complete_sign_in_def
      split: option.splits if_splits sum.splits prod.splits)

lemma find_by_id:
  "distinct (map ac_id xs) \<Longrightarrow> a \<in> set xs \<Longrightarrow> find (\<lambda>b. ac_id b = ac_id a) xs = Some a"
  by (induction xs) (auto simp: image_iff)

text \<open>
  C40. A second-factor challenge already is a bearer token. Assume account ids are distinct and
  that the JWT library verifies what it signed until it expires. When a sign-in stops at the
  second factor, the challenge token it returns is accepted as an access token of that
  account for the next five minutes, without any code: the strategy checks neither the
  purpose nor, as the token names no session and no version, anything but the account.
\<close>
theorem challenge_token_is_bearer_token:
  assumes "\<And>y t t'. t < t' \<Longrightarrow> jwt_verify cr t (jwt_sign cr y t') = Some y"
    and "distinct (map ac_id (accounts s))"
    and "login cr w e password code x s = (Inr (MfaRequired token u), s')"
    and "t < now w + 5 * 60 * 1000"
  shows "\<exists>a. ac_id a = b_id u \<and> ac_mfaEnabled a \<and> authenticate cr t token s' = (Inr (a, None), s')"
proof -
  obtain a where a: "account_by_email (js_trim (js_lower e)) s = Some a" "ac_isActive a" "ac_mfaEnabled a"
    and u: "u = response_user a" and tk: "token = mfa_challenge cr w (ac_id a) ''login''" and s: "s' = s"
    using login_mfa_accounts[OF assms(3)] by auto
  have "find_account (ac_id a) s = Some a"
    unfolding find_account_def
    by (rule find_by_id[OF assms(2)]) (use a(1) in \<open>auto simp: account_by_email_def dest: find_SomeD\<close>)
  then have "authenticate cr t token s = (Inr (a, None), s)"
    using assms(1)[OF assms(4)] a(2) by (simp add: authenticate_def tk mfa_challenge_def jwt_validate_def act_simps)
  then show ?thesis using u a(3) s by (auto simp: response_user_def)
qed

text \<open>A token format for the example: the payload and the expiry as a number, in unary.\<close>

definition payload_fields :: "payload \<Rightarrow> string \<times> string option \<times> int option \<times> string option \<times> string option \<times> string option" where
  "payload_fields y = (y_sub y, y_sid y, y_av y, y_purpose y, y_nonce y, y_role y)"

definition payload_from :: "string \<times> string option \<times> int option \<times> string option \<times> string option \<times> string option \<Rightarrow> payload" where
  "payload_from = (\<lambda>(a, b, c, d, e, f). \<lparr>y_sub = a, y_sid = b, y_av = c, y_purpose = d, y_nonce = e, y_role = f\<rparr>)"

definition unary_sign :: "payload \<Rightarrow> int \<Rightarrow> string" where
  "unary_sign y t = replicate (to_nat (payload_fields y, t)) (CHR ''x'')"

definition unary_verify :: "int \<Rightarrow> string \<Rightarrow> payload option" where
  "unary_verify t token = (case from_nat (length token) of (f, t') \<Rightarrow> if t < t' then Some (payload_from f) else None)"

definition unary_crypto :: crypto where
  "unary_crypto = toy_crypto\<lparr>jwt_sign := unary_sign, jwt_verify := unary_verify\<rparr>"

definition mfa_db :: auth_db where
  "mfa_db = toy_db\<lparr>accounts := [toy_account\<lparr>ac_mfaEnabled := True, ac_mfaSecret := Some ''ABC''\<rparr>]\<rparr>"

lemma unary_round_trip: "t < t' \<Longrightarrow> unary_verify t (unary_sign y t') = Some y"
  by (simp add: unary_verify_def unary_sign_def payload_fields_def payload_from_def)

lemma mfa_login:
  "login unary_crypto (toy_world 1000 ''a'') ''a@x.io'' ''secret'' None no_ctx mfa_db
   = (Inr (MfaRequired (mfa_challenge unary_crypto (toy_world 1000 ''a'') ''u1'' ''login'')
        (response_user toy_account)), mfa_db)"
proof -
  have "js_trim (js_lower ''a@x.io'') = ''a@x.io''" by code_simp
  then show ?thesis
    by (simp add: login_def Let_def act_simps enforce_backoff_def find_abuse_def account_by_email_def mfa_db_def
        toy_db_def no_auth_def toy_account_def unary_crypto_def toy_crypto_def or_str_def response_user_def)
qed

theorem challenge_token_is_bearer_token_witness:
  "\<exists>a. ac_id a = ''u1'' \<and> ac_mfaEnabled a
     \<and> authenticate unary_crypto 2000 (mfa_challenge unary_crypto (toy_world 1000 ''a'') ''u1'' ''login'') mfa_db
       = (Inr (a, None), mfa_db)"
proof -
  have v: "t < t' \<Longrightarrow> jwt_verify unary_crypto t (jwt_sign unary_crypto y t') = Some y" for y t t'
    by (simp add: unary_crypto_def unary_round_trip)
  have d: "distinct (map ac_id (accounts mfa_db))" by (simp add: mfa_db_def)
  from challenge_token_is_bearer_token[OF v d mfa_login, of 2000] show ?thesis
    by (simp add: toy_world_def response_user_def toy_account_def)
qed

section \<open>Rotation\<close>

lemma trim_form:
  "trim_sessions t u n k s = (r, s') \<Longrightarrow> r = Inr () \<and> (s' = s \<or> (\<exists>P. s' = s\<lparr>sessions :=
     map (\<lambda>x. if P x then revoke t None ''session-limit'' x else x) (sessions s)\<rparr>))"
  unfolding trim_sessions_def set_sessions_def bindE_eval reads_eval
  by (simp add: writes_eval ret_eval split: if_splits)
    (intro disjI2 exI[of _ "\<lambda>x. se_id x \<in> se_id ` set (stale_sessions t u n k (sessions s))"], simp)

lemma revoked_refreshes:
  "se_refresh ` set (map (\<lambda>x. if P x then revoke t b y x else x) ss) = se_refresh ` set ss"
  unfolding set_map image_image by (rule image_cong) auto

lemma trim_fields:
  assumes "trim_sessions t u n k s = (r, s')"
  shows "r = Inr () \<and> rotations s' = rotations s \<and> se_refresh ` set (sessions s') = se_refresh ` set (sessions s)"
proof -
  from trim_form[OF assms] consider "r = Inr ()" "s' = s" | P where "r = Inr ()"
    "s' = s\<lparr>sessions := map (\<lambda>x. if P x then revoke t None ''session-limit'' x else x) (sessions s)\<rparr>" by blast
  then show ?thesis
  proof cases
    case 2
    have "sessions s' = map (\<lambda>x. if P x then revoke t None ''session-limit'' x else x) (sessions s)"
      "rotations s' = rotations s" by (simp_all add: 2(2))
    with 2(1) show ?thesis by (simp only: revoked_refreshes)
  qed simp
qed

lemma rotate_fails_clean: "rotate_session cr t i u p h e m s = (Inl er, s') \<Longrightarrow> s' = s"
  by (auto simp: rotate_session_def act_simps set_sessions_def record_rotation_def split: if_splits)

lemma rotate_refused_clean: "rotate_session cr t i u p h e m s = (Inr False, s') \<Longrightarrow> s' = s"
  by (auto simp: rotate_session_def act_simps set_sessions_def record_rotation_def split: if_splits)

lemma attempt_fails_clean:
  "token_attempt cr w a x (Some q) k s = (Inl e, s') \<Longrightarrow> s' = s"
  by (cases q) (auto simp: token_attempt_def Let_def act_simps split: sum.splits prod.splits if_splits
      dest: rotate_fails_clean rotate_refused_clean trim_fields)

lemma attempts_succeed:
  "token_attempts cr w a x (Some q) n k s = (Inr r, s') \<Longrightarrow>
     \<exists>j < k + n. token_attempt cr w a x (Some q) j s = (Inr r, s')"
proof (induction n arbitrary: k)
  case (Suc n)
  show ?case
  proof (cases "token_attempt cr w a x (Some q) k s")
    case (Pair res s1)
    show ?thesis
    proof (cases res)
      case (Inl er)
      with attempt_fails_clean Pair have "s1 = s" by blast
      with Suc.prems Pair Inl have "token_attempts cr w a x (Some q) n (Suc k) s = (Inr r, s')"
        by (auto simp: act_simps split: if_splits)
      from Suc.IH[OF this] show ?thesis by auto
    next
      case (Inr v)
      with Suc.prems Pair show ?thesis by (intro exI[of _ k]) (auto simp: act_simps)
    qed
  qed
qed (simp add: act_simps)

lemma unique_refresh:
  "sessions_ok ss \<Longrightarrow> x \<in> set ss \<Longrightarrow> y \<in> set ss \<Longrightarrow> se_refresh x = se_refresh y \<Longrightarrow> x = y"
  by (auto simp: sessions_ok_def distinct_map dest: inj_onD)

lemma rotate_moves_token:
  assumes "rotate_session cr t sid uid tk (hash_credential cr new) e m s = (Inr True, s')"
    and ok: "sessions_ok (sessions s)" and nh: "\<not> is_hashed tk"
    and new: "hash_credential cr new \<noteq> hash_credential cr tk"
    and none: "\<forall>r \<in> set (rotations s). rt_hash r \<noteq> hash_credential cr tk"
  shows "(\<exists>x \<in> set (sessions s). se_refresh x = hash_credential cr tk \<and> se_userId x = uid)
       \<and> rotations s' = rotations s @ [\<lparr>rt_sessionId = sid, rt_userId = uid, rt_hash = hash_credential cr tk, rt_expiresAt = e\<rparr>]
       \<and> hash_credential cr tk \<notin> se_refresh ` set (sessions s')"
proof -
  let ?hit = "\<lambda>x. se_id x = sid \<and> se_userId x = uid \<and> se_refresh x \<in> set (lookup_values cr tk) \<and> live t x"
  let ?f = "\<lambda>x. x\<lparr>se_refresh := hash_credential cr new, se_expiresAt := e, se_lastSeenAt := Some t,
                     se_revokedAt := None, se_revokedById := None, se_reason := None,
                     se_mfaAt := (case m of None \<Rightarrow> se_mfaAt x | Some m \<Rightarrow> Some m)\<rparr>"
  have hs: "is_hashed (se_refresh x)" if "x \<in> set (sessions s)" for x
    using ok that by (auto simp: sessions_ok_def list_all_iff)
  obtain x where x: "x \<in> set (sessions s)" "?hit x"
    using assms(1) by (auto simp: rotate_session_def act_simps list_ex_iff split: if_splits)
  then have rx: "se_refresh x = hash_credential cr tk"
    using hs[OF x(1)] nh by (auto simp: lookup_values_def Let_def split: if_splits)
  have hit: "?hit y" if "y \<in> set (sessions s)" "se_refresh y = hash_credential cr tk" for y
    using unique_refresh[OF ok that(1) x(1)] that(2) rx x(2) by simp
  have s': "s' = s\<lparr>sessions := map (\<lambda>x. if ?hit x then ?f x else x) (sessions s),
      rotations := rotations s @ [\<lparr>rt_sessionId = sid, rt_userId = uid, rt_hash = hash_credential cr tk, rt_expiresAt = e\<rparr>]\<rparr>"
    using assms(1) none
    by (auto simp: rotate_session_def act_simps set_sessions_def record_rotation_def list_ex_iff split: if_splits)
  have "se_refresh (if ?hit y then ?f y else y) \<noteq> hash_credential cr tk" if "y \<in> set (sessions s)" for y
    using hit[OF that] new by auto
  then have "hash_credential cr tk \<notin> se_refresh ` set (sessions s')" unfolding s' by force
  with x rx s' show ?thesis by auto
qed

lemma refresh_rotates:
  assumes "refresh cr w tk s = (Inr r, s')" and ok: "sessions_ok (sessions s)" and nh: "\<not> is_hashed tk"
    and new: "\<forall>k < 5. hash_credential cr (rnd w k) \<noteq> hash_credential cr tk"
    and none: "\<forall>r \<in> set (rotations s). rt_hash r \<noteq> hash_credential cr tk"
  shows "tk \<noteq> [] \<and> (\<exists>x \<in> set (sessions s). se_refresh x = hash_credential cr tk
       \<and> (\<exists>sid. rotations s' = rotations s @ [\<lparr>rt_sessionId = sid, rt_userId = se_userId x,
              rt_hash = hash_credential cr tk, rt_expiresAt = now w + lifetime_days s * 24 * 60 * 60 * 1000\<rparr>])
       \<and> hash_credential cr tk \<notin> se_refresh ` set (sessions s'))"
proof -
  obtain x :: session and a where a: "find_account (se_userId x) s = Some a" and tk: "tk \<noteq> []"
    and g: "generate_tokens cr w a no_ctx (Some (se_id x, tk)) s = (Inr r, s')"
    using assms(1) by (auto simp: refresh_def Let_def act_simps split: option.splits if_splits prod.splits sum.splits)
  from attempts_succeed[OF g[unfolded generate_tokens_def]] obtain k where k: "k < 5"
    and t: "token_attempt cr w a no_ctx (Some (se_id x, tk)) k s = (Inr r, s')" by auto
  from t obtain s1 where rot: "rotate_session cr (now w) (se_id x) (ac_id a) tk (hash_credential cr (rnd w k))
      (now w + lifetime_days s * 24 * 60 * 60 * 1000) None s = (Inr True, s1)"
    and trim: "trim_sessions (now w) (ac_id a) (max_active s) (se_id x) s1 = (Inr (), s')"
    by (auto simp: token_attempt_def Let_def act_simps no_ctx_def split: sum.splits prod.splits if_splits dest: trim_fields)
  from rotate_moves_token[OF rot ok nh _ none] new k trim_fields[OF trim] tk show ?thesis by auto
qed


lemma signed_in:
  "map se_refresh (sessions signed_in_db) = [''sha256:ha''] \<and> map se_revokedAt (sessions signed_in_db) = [None]
   \<and> rotations signed_in_db = [] \<and> isl (fst (refresh toy_crypto (toy_world 2000 ''b'') ''a'' signed_in_db)) = False"
  by code_simp


section \<open>Password reset\<close>

lemma find_upd_account:
  assumes "find_account i s = Some a" "\<And>b. ac_id (f b) = ac_id b"
  shows "find (\<lambda>b. ac_id b = i) (map (\<lambda>b. if ac_id b = i then f b else b) (accounts s)) = Some (f a)"
proof -
  have "find (\<lambda>b. ac_id b = i) (map (\<lambda>b. if ac_id b = i then f b else b) (accounts s))
      = Some (if ac_id a = i then f a else a)"
    by (rule find_map_upd) (use assms in \<open>auto simp: find_account_def\<close>)
  then show ?thesis using assms(1) by (auto simp: find_account_def dest: find_SomeD)
qed

text \<open>
  A password reset takes over the account. When account ids are distinct and a reset
  succeeds, the token was the unexpired reset token of some account, stored or hashed; that
  account now has the new password hash and no reset token, other accounts' sessions are
  untouched, and from then on every bearer token that names a session of that account is
  refused.
\<close>
theorem password_reset_ends_sessions:
  assumes "distinct (map ac_id (accounts s))" and "reset_password cr t token password s = (Inr (), s')"
  shows "\<exists>a \<in> set (accounts s). ac_resetToken a \<in> {Some token, Some (hash_credential cr token)}
     \<and> (\<exists>e. ac_resetExpires a = Some e \<and> t \<le> e)
     \<and> find_account (ac_id a) s' = Some (a\<lparr>ac_passwordHash := Some (bcrypt_hash cr password),
          ac_resetToken := None, ac_resetExpires := None\<rparr>)
     \<and> sessions s' = filter (\<lambda>x. se_userId x \<noteq> ac_id a) (sessions s)
     \<and> (\<forall>t' y. y_sub y = ac_id a \<and> truthy (y_sid y) \<longrightarrow> jwt_validate t' y s' = (Inl (Unauthorized []), s'))"
proof -
  obtain a where f: "find_by_credential ac_resetToken ac_resetExpires cr t token s = Some a"
    and s': "s' = s\<lparr>accounts := map (\<lambda>b. if ac_id b = ac_id a then b\<lparr>ac_passwordHash := Some (bcrypt_hash cr password),
          ac_resetToken := None, ac_resetExpires := None\<rparr> else b) (accounts s),
        sessions := filter (\<lambda>x. se_userId x \<noteq> ac_id a) (sessions s)\<rparr>"
    using assms(2)
    by (auto simp: reset_password_def act_simps set_account_def split: option.splits sum.splits prod.splits if_splits)
  from find_SomeD[OF f[unfolded find_by_credential_def]]
  have a: "a \<in> set (accounts s)" "ac_resetToken a \<in> {Some token, Some (hash_credential cr token)}"
    "\<exists>e. ac_resetExpires a = Some e \<and> t \<le> e" by (auto split: option.splits)
  have "find_account (ac_id a) s = Some a" unfolding find_account_def by (rule find_by_id[OF assms(1) a(1)])
  from find_upd_account[OF this, of "\<lambda>b. b\<lparr>ac_passwordHash := Some (bcrypt_hash cr password),
          ac_resetToken := None, ac_resetExpires := None\<rparr>"]
  have u: "find_account (ac_id a) s' = Some (a\<lparr>ac_passwordHash := Some (bcrypt_hash cr password),
          ac_resetToken := None, ac_resetExpires := None\<rparr>)" by (simp add: s' find_account_def)
  have "jwt_validate t' y s' = (Inl (Unauthorized []), s')" if "y_sub y = ac_id a \<and> truthy (y_sid y)" for t' y
  proof -
    have "find (\<lambda>x. Some (se_id x) = y_sid y \<and> se_userId x = y_sub y \<and> live t' x) (sessions s') = None"
      using that by (auto simp: s' find_None_iff_all)
    with that show ?thesis by (simp add: jwt_validate_def act_simps)
  qed
  with a u show ?thesis by (intro bexI[of _ a]) (auto simp: s')
qed

lemma reset_run:
  "reset_password toy_crypto 2000 ''reset'' ''correct horse battery'' signed_in_db
   = (Inr (), snd (reset_password toy_crypto 2000 ''reset'' ''correct horse battery'' signed_in_db))"
proof -
  have "\<not> isl (fst (reset_password toy_crypto 2000 ''reset'' ''correct horse battery'' signed_in_db))" by code_simp
  then show ?thesis
    by (cases "reset_password toy_crypto 2000 ''reset'' ''correct horse battery'' signed_in_db";
        cases "fst (reset_password toy_crypto 2000 ''reset'' ''correct horse battery'' signed_in_db)") auto
qed

theorem password_reset_ends_sessions_witness:
  "sessions (snd (reset_password toy_crypto 2000 ''reset'' ''correct horse battery'' signed_in_db)) = []"
proof -
  have d: "distinct (map ac_id (accounts signed_in_db))" by code_simp
  have u: "map se_userId (sessions signed_in_db) = [''u1'']" "map ac_id (accounts signed_in_db) = [''u1'']" by code_simp+
  from password_reset_ends_sessions[OF d reset_run] u show ?thesis
    by (auto simp: filter_empty_conv map_eq_Cons_conv)
qed

end
