(* ===== verification/Guard_Props.thy ===== *)
theory Guard_Props
  imports Guards Ticket_Views Auth_Claims
begin

text \<open>
  What the guards let through: permissions against the tables that grant them, the company
  context of a request and the tickets it can read, and the address rules.
\<close>

section \<open>Permissions\<close>

text \<open>The permissions a user holds, stated over the tables.\<close>

definition holds_permission :: "int \<Rightarrow> authz \<Rightarrow> principal \<Rightarrow> string \<Rightarrow> bool" where
  "holds_permission t az u p \<longleftrightarrow>
     (p_role u = ''TENANT_ADMIN'' \<and> p \<in> set tenant_admin_defaults)
     \<or> (\<exists>r \<in> set (az_roles az). p \<in> set (ro_permissions r)
          \<and> ((p_id u, ro_id r) \<in> set (az_userRoles az)
             \<or> ro_isSystem r \<and> (ro_name r = p_role u \<or> ro_slug r = role_slug (p_role u))))
     \<or> (\<exists>g \<in> set (az_grants az). tg_userId g = p_id u \<and> tg_slug g = p \<and> tg_revokedAt g = None
          \<and> tg_startsAt g \<le> t \<and> t < tg_expiresAt g)"

lemma user_role_mem: "p \<in> snd ` set (user_role_permissions az i) \<longleftrightarrow>
    (\<exists>r \<in> set (az_roles az). p \<in> set (ro_permissions r) \<and> (i, ro_id r) \<in> set (az_userRoles az))"
  by (force simp: user_role_permissions_def image_iff split: if_splits)

lemma system_role_mem: "p \<in> snd ` set (system_role_permissions az role) \<longleftrightarrow>
    (\<exists>r \<in> set (az_roles az). p \<in> set (ro_permissions r)
        \<and> ro_isSystem r \<and> (ro_name r = role \<or> ro_slug r = role_slug role))"
  by (force simp: system_role_permissions_def image_iff split: if_splits)

lemma user_slugs_mem: "p \<in> set (user_slugs t az u) \<longleftrightarrow> holds_permission t az u p"
proof -
  have "p \<in> set (user_slugs t az u) \<longleftrightarrow>
      (p_role u = ''TENANT_ADMIN'' \<and> p \<in> set tenant_admin_defaults)
      \<or> p \<in> snd ` set (user_role_permissions az (p_id u))
      \<or> p \<in> snd ` set (system_role_permissions az (p_role u)) \<or> p \<in> set (live_grants t az (p_id u))"
    by (simp add: user_slugs_def)
  then show ?thesis
    unfolding user_role_mem system_role_mem holds_permission_def by (auto simp: live_grants_def)
qed

lemma policies_allow:
  "(\<exists>v. enforce_policies az (u\<lparr>p_slugs := sl, p_scopes := sc\<rparr>) req x = Inr v) \<longleftrightarrow>
     (\<forall>pol \<in> set (az_policies az). applicable u req pol \<longrightarrow> \<not> policy_denies pol u x)"
proof -
  let ?u = "u\<lparr>p_slugs := sl, p_scopes := sc\<rparr>"
  have a: "applicable ?u req = applicable u req" by (rule ext) (simp add: applicable_def)
  have d: "policy_denies pol ?u x = policy_denies pol u x" for pol
    by (simp add: policy_denies_def context_matches_def)
  have "(\<exists>v. enforce_policies az ?u req x = Inr v) \<longleftrightarrow>
      find (\<lambda>p. policy_denies p u x) (filter (applicable u req) (az_policies az)) = None"
    unfolding enforce_policies_def a d by (simp split: option.splits)
  then show ?thesis by (auto simp: find_None_iff_all)
qed

text \<open>
  C2. The permission guard grants exactly what the tables grant. For an ordinary user (no
  super admin, no service account) and a non-empty list of required permissions, the guard
  lets the request through if and only if the user holds each of them, by the tenant-admin
  defaults, an assigned role, a system role or a live temporary grant, and no active policy
  on one of them denies the context; the request then carries the user's scopes.
\<close>
theorem permission_guard_exact:
  assumes "rq_user r = Some u" and "p_role u \<noteq> ''SUPER_ADMIN''" and "req \<noteq> []"
  shows "((\<exists>r'. permissions_guard t az x (Some req) False r = Inr r') \<longleftrightarrow>
           (\<forall>p \<in> set req. holds_permission t az u p)
           \<and> (\<forall>pol \<in> set (az_policies az). applicable u req pol \<longrightarrow> \<not> policy_denies pol u x))
       \<and> (\<forall>r'. permissions_guard t az x (Some req) False r = Inr r' \<longrightarrow> rq_scopes r' = user_scopes az u)"
proof -
  let ?u = "u\<lparr>p_slugs := user_slugs t az u, p_scopes := user_scopes az u\<rparr>"
  note e = policies_allow[where az = az and u = u and sl = "user_slugs t az u" and sc = "user_scopes az u" and req = req and x = x]
  have "(\<exists>r'. permissions_guard t az x (Some req) False r = Inr r') \<longleftrightarrow>
       (\<forall>p \<in> set req. holds_permission t az u p) \<and> (\<exists>v. enforce_policies az ?u req x = Inr v)"
    using assms by (auto simp: permissions_guard_def Let_def list_all_iff user_slugs_mem split: sum.splits)
  moreover have "permissions_guard t az x (Some req) False r = Inr r' \<Longrightarrow> rq_scopes r' = user_scopes az u" for r'
    using assms by (auto simp: permissions_guard_def Let_def split: sum.splits if_splits)
  ultimately show ?thesis using e by blast
qed

definition g_user :: principal where
  "g_user = \<lparr>p_id = ''u1'', p_email = ''u1@x.io'', p_role = ''TENANT_ADMIN'', p_userType = ''BUSINESS'',
     p_companyId = Some ''c1'', p_effective = None, p_location = None, p_slugs = [], p_scopes = []\<rparr>"

definition g_request :: request where
  "g_request = \<lparr>rq_user = Some g_user, rq_company = None, rq_impersonator = None, rq_as_company = False,
     rq_scopes = [], rq_override = False\<rparr>"

definition g_authz :: authz where
  "g_authz = \<lparr>az_userRoles = [], az_roles = [], az_grants = [], az_scopes = [],
     az_policies = [\<lparr>po_name = ''office'', po_active = True, po_targetType = ''PERMISSION'',
        po_target = ''tickets.view'', po_companyId = None, po_effect = ''ALLOW'',
        po_conditions = \<lparr>cn_ips = Some [''10.0.0.0/8''], cn_countries = None, cn_department = None,
          cn_location = None, cn_trusted = False, cn_mfa = False, cn_phishing = False, cn_hours = None\<rparr>\<rparr>]\<rparr>"

definition g_ctx :: ctx where
  "g_ctx = \<lparr>cx_ip = ''10.1.2.3'', cx_country = [], cx_assurance = [], cx_device = [], cx_hour = 9,
     cx_department = None\<rparr>"

lemma g_policy: "\<not> list_ex (\<lambda>pol. applicable g_user [''tickets.view''] pol \<and> policy_denies pol g_user g_ctx) (az_policies g_authz)"
  by code_simp

theorem permission_guard_exact_witness:
  "(\<exists>r'. permissions_guard 0 g_authz g_ctx (Some [''tickets.view'']) False g_request = Inr r')
   \<and> \<not> (\<exists>r'. permissions_guard 0 g_authz g_ctx (Some [''platform.root'']) False g_request = Inr r')"
proof -
  have u: "rq_user g_request = Some g_user" "p_role g_user \<noteq> ''SUPER_ADMIN''"
    by (simp_all add: g_request_def g_user_def)
  have "holds_permission 0 g_authz g_user ''tickets.view''"
    by (simp add: holds_permission_def g_user_def tenant_admin_defaults_def)
  moreover have "\<not> holds_permission 0 g_authz g_user ''platform.root''"
    by (simp add: holds_permission_def g_user_def g_authz_def tenant_admin_defaults_def)
  ultimately show ?thesis
    using permission_guard_exact[OF u, of "[''tickets.view'']" 0 g_authz g_ctx]
      permission_guard_exact[OF u, of "[''platform.root'']" 0 g_authz g_ctx] g_policy
    by (auto simp: list_ex_iff)
qed

section \<open>Company context\<close>

lemma impersonatedD:
  "impersonated t ss us i a = Some (x, v) \<Longrightarrow> x \<in> set ss \<and> is_id x = i \<and> is_actorId x = a
     \<and> is_endedAt x = None \<and> t < is_expiresAt x \<and> v \<in> set us \<and> u_id v = is_targetId x
     \<and> u_isActive v \<and> u_deletedAt v = None"
  by (auto simp: impersonated_def split: option.splits dest!: find_SomeD)

text \<open>
  C3. The tenant guard settles the company. A protected request that passes it continues with
  one identity: without an impersonation header (or for a role that cannot impersonate) the
  authenticated user, with one the active target of that live impersonation session of the
  user, with the id, role, type and company of the target's own account. A global technician
  and a public user get no company; a super admin gets none, or the active company named in
  the context header, which then also is the caller's; everyone else gets the own company of
  that identity, which any company named in the request must be.
\<close>
theorem tenant_guard_settles_company:
  assumes "tenant_guard t ss us cs False h requested r = Inr r'" and "rq_user r = Some u"
  shows "\<exists>b e. rq_user r' = Some e
    \<and> (if truthy (h_impersonation h) \<and> p_role u \<in> {''SUPER_ADMIN'', ''TENANT_ADMIN''}
       then \<exists>x \<in> set ss. \<exists>v \<in> set us. Some (is_id x) = h_impersonation h \<and> is_actorId x = p_id u
            \<and> is_endedAt x = None \<and> t < is_expiresAt x \<and> rq_impersonator r' = Some (is_id x, p_id u)
            \<and> u_id v = is_targetId x \<and> u_isActive v \<and> u_deletedAt v = None
            \<and> p_id b = u_id v \<and> p_role b = u_role v \<and> p_userType b = u_userType v \<and> p_companyId b = u_companyId v
       else b = u)
    \<and> (if p_role b = ''GLOBAL_TECH'' then e = b \<and> rq_company r' = None
       else if p_role b = ''SUPER_ADMIN'' then
         (if truthy (h_companyContext h)
          then \<exists>c \<in> set cs. Some (co_id c) = h_companyContext h \<and> co_isActive c \<and> co_deletedAt c = None
             \<and> rq_company r' = Some (co_id c) \<and> e = b\<lparr>p_companyId := Some (co_id c), p_effective := Some (co_id c)\<rparr>
          else e = b \<and> rq_company r' = None)
       else e = b \<and> (if p_userType b = ''PUBLIC'' then rq_company r' = None
          else truthy (p_companyId b) \<and> rq_company r' = p_companyId b \<and> (truthy requested \<longrightarrow> requested = p_companyId b)))"
proof -
  let ?imp = "truthy (h_impersonation h) \<and> p_role u \<in> {''SUPER_ADMIN'', ''TENANT_ADMIN''}"
  obtain b who where st: "(if ?imp
            then (case impersonated t ss us (or_str (h_impersonation h) []) (p_id u) of
                    None \<Rightarrow> Inl (Forbidden ''Impersonation session is invalid or expired'')
                  | Some (x, v) \<Rightarrow> Inr (person_principal v, Some (is_id x, p_id u)))
            else Inr (u, rq_impersonator r)) = Inr (b, who)"
    using assms by (auto simp: tenant_guard_def Let_def split: sum.splits prod.splits)
  note run = assms(1)[unfolded tenant_guard_def Let_def assms(2) option.case st sum.case prod.case if_False]
  have named: "truthy z \<Longrightarrow> Some (or_str z []) = z" for z
    by (auto simp: truthy_def or_str_def split: option.splits)
  have who: "rq_impersonator r' = who"
    using run by (auto split: if_splits option.splits)
  have id: "if ?imp then \<exists>x \<in> set ss. \<exists>v \<in> set us. Some (is_id x) = h_impersonation h \<and> is_actorId x = p_id u
            \<and> is_endedAt x = None \<and> t < is_expiresAt x \<and> rq_impersonator r' = Some (is_id x, p_id u)
            \<and> u_id v = is_targetId x \<and> u_isActive v \<and> u_deletedAt v = None
            \<and> p_id b = u_id v \<and> p_role b = u_role v \<and> p_userType b = u_userType v \<and> p_companyId b = u_companyId v
          else b = u"
  proof (cases ?imp)
    case True
    with st obtain x v where m: "impersonated t ss us (or_str (h_impersonation h) []) (p_id u) = Some (x, v)"
      and e: "b = person_principal v" "who = Some (is_id x, p_id u)" by (auto split: option.splits)
    from impersonatedD[OF m] named[of "h_impersonation h"] True who e show ?thesis
      by (auto simp: person_principal_def intro!: bexI[of _ x] bexI[of _ v])
  next
    case False
    from st[unfolded if_not_P[OF False]] show ?thesis unfolding if_not_P[OF False] by simp
  qed
  show ?thesis
  proof (cases "p_role b = ''SUPER_ADMIN'' \<and> truthy (h_companyContext h)")
    case True
    with run obtain c where c: "find (\<lambda>c. co_id c = or_str (h_companyContext h) [] \<and> co_deletedAt c = None
                                   \<and> co_isActive c) cs = Some c"
      and r': "rq_user r' = Some (b\<lparr>p_companyId := Some (co_id c), p_effective := Some (co_id c)\<rparr>)"
        "rq_company r' = Some (co_id c)"
      by (auto split: option.splits if_splits)
    have n: "Some (co_id c) = h_companyContext h" using find_SomeD[OF c] named[of "h_companyContext h"] True by simp
    have "\<exists>d \<in> set cs. Some (co_id d) = h_companyContext h \<and> co_isActive d \<and> co_deletedAt d = None
        \<and> rq_company r' = Some (co_id d)
        \<and> b\<lparr>p_companyId := Some (co_id c), p_effective := Some (co_id c)\<rparr> = b\<lparr>p_companyId := Some (co_id d), p_effective := Some (co_id d)\<rparr>"
      using find_SomeD[OF c] r' n by (intro bexI[of _ c]) simp_all
    with id r'(1) True show ?thesis
      by (intro exI[of _ b] exI[of _ "b\<lparr>p_companyId := Some (co_id c), p_effective := Some (co_id c)\<rparr>"] conjI) simp_all
  next
    case False
    with run have e: "rq_user r' = Some b" by (auto split: if_splits)
    have "if p_role b = ''GLOBAL_TECH'' then rq_company r' = None
       else if p_role b = ''SUPER_ADMIN'' then rq_company r' = None
       else if p_userType b = ''PUBLIC'' then rq_company r' = None
          else truthy (p_companyId b) \<and> rq_company r' = p_companyId b \<and> (truthy requested \<longrightarrow> requested = p_companyId b)"
      using run False by (auto split: if_splits)
    with e id False show ?thesis by (intro exI[of _ b] conjI) simp_all
  qed
qed

definition g_headers :: headers where
  "g_headers = \<lparr>h_impersonation = None, h_companyContext = None, h_serviceToken = None\<rparr>"

lemma g_tenant: "tenant_guard 0 [] [] [] False g_headers None g_request = Inr (g_request\<lparr>rq_company := Some ''c1''\<rparr>)"
  by (simp add: tenant_guard_def g_headers_def g_request_def g_user_def)

theorem tenant_guard_settles_company_witness:
  "\<exists>e. rq_user (g_request\<lparr>rq_company := Some ''c1''\<rparr>) = Some e \<and> p_companyId e = Some ''c1''"
  using tenant_guard_settles_company[OF g_tenant, of g_user]
  by (auto simp: g_request_def g_user_def)

section \<open>From the guard to the tickets\<close>

text \<open>
  C5. Past the tenant guard, the ticket reads stay in the company. When a request passes the
  guard with a caller of neither global role nor public type, the request has a company, and
  of tickets: the detail view returns one that is undeleted and of that company; every row of
  a list page, whatever page, status and search are asked for, is an undeleted ticket of that
  company, and the total counts no others; and a timeline or a list of approvals is only
  returned for an undeleted ticket of that company, the timeline with entries of that ticket
  alone.
\<close>
theorem guarded_reads_in_company:
  assumes "tenant_guard t ss us cs False h requested r = Inr r'" and "rq_user r' = Some e"
    and "p_role e \<notin> {''SUPER_ADMIN'', ''GLOBAL_TECH''}" and "p_userType e \<noteq> ''PUBLIC''"
  shows "\<exists>c. rq_company r' = Some c \<and> c \<noteq> []
    \<and> (\<forall>i w s'. ticket_detail v e i s = (Inr w, s') \<longrightarrow> t_id (v_ticket w) = i \<and> t_companyId (v_ticket w) = Some c
         \<and> list_ex (\<lambda>tk. t_id tk = i \<and> t_companyId tk = Some c \<and> t_deletedAt tk = None) (tickets s))
    \<and> (\<forall>page limit status search pg s'. find_all v e page limit status search s = (Inr pg, s') \<longrightarrow>
         (\<forall>x \<in> set (pg_data pg). t_companyId x = Some c
            \<and> list_ex (\<lambda>tk. t_id tk = t_id x \<and> t_companyId tk = Some c \<and> t_deletedAt tk = None) (tickets s))
         \<and> pg_total pg \<le> length (filter (\<lambda>tk. t_companyId tk = Some c \<and> t_deletedAt tk = None) (tickets s)))
    \<and> (\<forall>i es s'. get_timeline i e s = (Inr es, s') \<longrightarrow> (\<forall>x \<in> set es. e_ticketId x = i)
         \<and> list_ex (\<lambda>tk. t_id tk = i \<and> t_companyId tk = Some c \<and> t_deletedAt tk = None) (tickets s))
    \<and> (\<forall>i ap s'. list_approvals v i e s = (Inr ap, s') \<longrightarrow>
         list_ex (\<lambda>tk. t_id tk = i \<and> t_companyId tk = Some c \<and> t_deletedAt tk = None) (tickets s))"
proof -
  have c: "truthy (p_companyId e) \<and> rq_company r' = p_companyId e"
    using assms by (auto simp: tenant_guard_def Let_def split: option.splits sum.splits prod.splits if_splits)
  then obtain c where c: "p_companyId e = Some c" "c \<noteq> []" "rq_company r' = Some c"
    by (cases "p_companyId e") auto
  have tu: "tenant_user e" using assms(3) by (simp add: tenant_user_def global_admin_def is_global_tech_def)
  have own: "owned e tk \<longleftrightarrow> t_companyId tk = Some c" for tk using assms(4) c(1) by (simp add: owned_def)
  have read: "list_ex (\<lambda>tk. t_id tk = i \<and> t_companyId tk = Some c \<and> t_deletedAt tk = None) (tickets s)
      \<and> t_id tk = i \<and> t_companyId tk = Some c" if "readable e i s tk" for i tk
    using that tu by (auto simp: readable_def own list_ex_iff)
  have detail: "t_id (v_ticket w) = i \<and> t_companyId (v_ticket w) = Some c
      \<and> list_ex (\<lambda>tk. t_id tk = i \<and> t_companyId tk = Some c \<and> t_deletedAt tk = None) (tickets s)"
    if d: "ticket_detail v e i s = (Inr w, s')" for i w s'
  proof -
    obtain w0 where f: "find_one v e i s = (Inr w0, s)" and w: "w = mask_view e w0"
      using d unfolding detail_cases by blast
    with find_one_readable[OF f] read[of i "v_ticket w0"] show ?thesis by (simp add: mask_view_def mask_contact_def)
  qed
  have listed: "(\<forall>x \<in> set (pg_data pg). t_companyId x = Some c
        \<and> list_ex (\<lambda>tk. t_id tk = t_id x \<and> t_companyId tk = Some c \<and> t_deletedAt tk = None) (tickets s))
      \<and> pg_total pg \<le> length (filter (\<lambda>tk. t_companyId tk = Some c \<and> t_deletedAt tk = None) (tickets s))"
    if "find_all v e page limit status search s = (Inr pg, s')" for page limit status search pg s'
  proof -
    from find_all_cases[OF that] obtain ts where ts: "tickets_where s (list_where v s e status search) = Inr ts"
      "pg_total pg = length ts" "set (pg_data pg) \<subseteq> (\<lambda>t. if sees_all e then t else mask_contact t) ` set ts" by blast
    have l: "tk \<in> set (tickets s) \<and> t_deletedAt tk = None \<and> t_companyId tk = Some c" if "tk \<in> set ts" for tk
      using listed_readable[OF ts(1) that tu] own by simp
    have "length ts \<le> length (filter (\<lambda>tk. t_companyId tk = Some c \<and> t_deletedAt tk = None) (tickets s))"
      by (rule tickets_where_count[OF ts(1)]) (use l in simp)
    moreover have "t_companyId x = Some c
        \<and> list_ex (\<lambda>tk. t_id tk = t_id x \<and> t_companyId tk = Some c \<and> t_deletedAt tk = None) (tickets s)"
      if "x \<in> set (pg_data pg)" for x
    proof -
      from that ts(3) obtain tk where tk: "tk \<in> set ts" "x = (if sees_all e then tk else mask_contact tk)" by blast
      then have "t_companyId x = t_companyId tk" "t_id x = t_id tk" by (simp_all add: mask_contact_def)
      with l[OF tk(1)] show ?thesis by (auto simp: list_ex_iff intro!: bexI[of _ tk])
    qed
    ultimately show ?thesis using ts(2) by simp
  qed
  have timed: "(\<forall>x \<in> set es. e_ticketId x = i)
      \<and> list_ex (\<lambda>tk. t_id tk = i \<and> t_companyId tk = Some c \<and> t_deletedAt tk = None) (tickets s)"
    if "get_timeline i e s = (Inr es, s')" for i es s'
    using timeline_access[OF that] read by blast
  have approved: "list_ex (\<lambda>tk. t_id tk = i \<and> t_companyId tk = Some c \<and> t_deletedAt tk = None) (tickets s)"
    if "list_approvals v i e s = (Inr ap, s')" for i ap s'
    using approvals_access[OF that] read by blast
  show ?thesis
    by (rule exI[of _ c]) (intro conjI; (intro allI impI)?; (rule c detail listed timed approved; assumption)?)
qed

lemma g_detail: "map_sum id (\<lambda>w. t_companyId (v_ticket w)) (fst (ticket_detail w_demo g_user ''t1'' s_demo)) = Inr (Some ''c1'')"
  by code_simp

theorem guarded_reads_in_company_witness:
  "\<exists>w s'. ticket_detail w_demo g_user ''t1'' s_demo = (Inr w, s') \<and> t_companyId (v_ticket w) = Some ''c1''"
proof -
  obtain w s' where w: "ticket_detail w_demo g_user ''t1'' s_demo = (Inr w, s')"
    using g_detail by (cases "ticket_detail w_demo g_user ''t1'' s_demo") (auto simp: map_sum_def split: sum.splits)
  with guarded_reads_in_company[OF g_tenant, of g_user w_demo s_demo] show ?thesis
    by (auto simp: g_request_def g_user_def)
qed

section \<open>Address rules\<close>

definition dotted :: "nat \<Rightarrow> nat \<Rightarrow> nat \<Rightarrow> nat \<Rightarrow> string" where
  "dotted a b c d = dec a @ ''.'' @ dec b @ ''.'' @ dec c @ ''.'' @ dec d"

definition quad :: "nat \<Rightarrow> nat \<Rightarrow> nat \<Rightarrow> nat \<Rightarrow> nat" where
  "quad a b c d = ((a * 256 + b) * 256 + c) * 256 + d"

lemma of_char_digit_char: "of_char (digit_char n) = (48 + n mod 10 :: nat)"
proof -
  have "48 + n mod 10 < 2 ^ 8" by (rule less_trans [of _ "48 + 10"]) simp_all
  then show ?thesis by (simp add: take_bit_nat_eq_self)
qed

lemma digit_plain: "is_digit c \<Longrightarrow> \<not> ch_space c \<and> c \<noteq> CHR ''.'' \<and> c \<noteq> CHR ''/''"
  by (auto simp: is_digit_def ch_space_def)

lemma digit_char_digit: "is_digit (digit_char n)" "digit_value (digit_char n) = n mod 10"
proof -
  have "n mod 10 < 10" by simp
  then have "n mod 10 \<le> 9" by linarith
  then show "is_digit (digit_char n)" "digit_value (digit_char n) = n mod 10"
    by (simp_all add: is_digit_def digit_value_def Let_def of_char_digit_char del: digit_char.simps)
qed

lemma dec_chars: "c \<in> set (dec n) \<Longrightarrow> \<exists>m. c = digit_char m"
proof (induction n rule: dec.induct)
  case (1 n)
  show ?case
  proof (cases "c = digit_char n")
    case False
    with 1(2) have "\<not> n < 10" "c \<in> set (dec (n div 10))"
      by (subst (asm) dec.simps, simp del: digit_char.simps split: if_splits)+
    then show ?thesis by (rule 1(1))
  qed (rule exI)
qed

lemma dec_digits: "c \<in> set (dec n) \<Longrightarrow> is_digit c \<and> \<not> ch_space c \<and> c \<noteq> CHR ''.'' \<and> c \<noteq> CHR ''/''"
  using dec_chars digit_char_digit(1) digit_plain by metis

lemma js_digits_dec: "js_digits (dec n) = n"
proof (induction n rule: dec.induct)
  case (1 n)
  show ?case
  proof (cases "n < 10")
    case True
    then show ?thesis
      by (subst dec.simps) (simp add: js_digits_def digit_char_digit del: digit_char.simps)
  next
    case False
    from 1[OF False] False show ?thesis
      by (subst dec.simps) (simp add: js_digits_def digit_char_digit del: digit_char.simps)
  qed
qed

lemma js_trim_id: "(\<And>c. c \<in> set s \<Longrightarrow> \<not> ch_space c) \<Longrightarrow> js_trim s = s"
proof -
  have "(\<And>c. c \<in> set t \<Longrightarrow> \<not> ch_space c) \<Longrightarrow> dropWhile ch_space t = t" for t
    by (cases t) auto
  from this[of s] this[of "rev s"] show "(\<And>c. c \<in> set s \<Longrightarrow> \<not> ch_space c) \<Longrightarrow> js_trim s = s" by (simp add: js_trim_def)
qed

lemma js_number_dec [simp]: "js_number (dec n) = Some (int n)"
proof -
  have "js_trim (dec n) = dec n" by (rule js_trim_id) (blast dest: dec_digits)
  moreover have "list_all is_digit (dec n)" unfolding list_all_iff by (blast dest: dec_digits)
  ultimately show ?thesis by (simp add: js_number_def js_digits_dec)
qed

lemma dec_sep [simp]: "CHR ''.'' \<notin> set (dec n)" "CHR ''/'' \<notin> set (dec n)"
  by (auto dest: dec_digits)

lemma dotted_split: "str_split (CHR ''.'') (dotted a b c d) = [dec a, dec b, dec c, dec d]"
  by (simp add: dotted_def str_split_at str_split_none)

lemma ip_number_dotted: "ip_number (dotted a b c d) = word_of_nat (quad a b c d)"
  by (simp add: ip_number_def dotted_split ip_step_def quad_def push_bit_eq_mult mult.commute)

lemma mask_eq: "(x AND push_bit k (- 1)) = push_bit k (drop_bit k (x :: 32 word))"
  by (rule bit_eqI) (auto simp: bit_simps)

lemma unat_word: "z < 2 ^ 32 \<Longrightarrow> unat (word_of_nat z :: 32 word) = z"
  by (simp add: unat_of_nat take_bit_nat_eq_self)

lemma drop_word:
  assumes "z < 2 ^ 32"
  shows "drop_bit k (word_of_nat z :: 32 word) = word_of_nat (z div 2 ^ k)"
proof (rule word_unat_eq_iff[THEN iffD2])
  have "z div 2 ^ k < 2 ^ 32" using assms div_le_dividend le_less_trans by blast
  from unat_word[OF this] show "unat (drop_bit k (word_of_nat z :: 32 word)) = unat (word_of_nat (z div 2 ^ k) :: 32 word)"
    unfolding unat_drop_bit_eq unat_word[OF assms] by (simp only: drop_bit_eq_div)
qed

lemma masked_iff:
  fixes x y :: nat
  assumes "x < 2 ^ 32" "y < 2 ^ 32" "p \<le> 32"
  shows "(word_of_nat x AND ip_mask p) = (word_of_nat y AND ip_mask p)
           \<longleftrightarrow> x div 2 ^ (32 - p) = y div 2 ^ (32 - p)"
proof (cases "p = 0")
  case True
  with assms show ?thesis by (simp add: ip_mask_def)
next
  case False
  let ?k = "32 - p"
  have k: "?k < 32" using False assms(3) by simp
  have "push_bit ?k (drop_bit ?k v) = push_bit ?k (drop_bit ?k w) \<longleftrightarrow> drop_bit ?k v = drop_bit ?k w" for v w :: "32 word"
  proof
    assume e: "push_bit ?k (drop_bit ?k v) = push_bit ?k (drop_bit ?k w)"
    have "drop_bit ?k (push_bit ?k (drop_bit ?k z)) = drop_bit ?k z" for z :: "32 word"
      by (rule bit_eqI) (auto simp: bit_simps dest: bit_imp_le_length)
    with e show "drop_bit ?k v = drop_bit ?k w" by metis
  qed simp
  moreover have "(word_of_nat (x div 2 ^ ?k) :: 32 word) = word_of_nat (y div 2 ^ ?k) \<longleftrightarrow> x div 2 ^ ?k = y div 2 ^ ?k"
    using assms(1,2) by (simp add: word_of_nat_eq_iff take_bit_nat_eq_self div_le_dividend[THEN le_less_trans])
  ultimately show ?thesis
    by (metis ip_mask_def if_not_P[OF False] mask_eq drop_word[OF assms(1)] drop_word[OF assms(2)])
qed

lemma quad_bound:
  assumes "a < 256" "b < 256" "c < 256" "d < 256"
  shows "quad a b c d < 2 ^ 32"
  using assms by (simp add: quad_def)

text \<open>
  An address range matches on the network prefix. For addresses in dotted notation
  with octets below 256 and a prefix length up to 32, the rule \<open>network/prefix\<close> matches an
  address if and only if the first \<open>prefix\<close> bits of the two addresses agree.
\<close>
theorem range_rule_compares_prefix:
  assumes "list_all (\<lambda>n. n < 256) [a, b, c, d, a', b', c', d']" and "p \<le> 32"
  shows "ip_matches (dotted a b c d) (dotted a' b' c' d' @ ''/'' @ dec p)
           \<longleftrightarrow> quad a b c d div 2 ^ (32 - p) = quad a' b' c' d' div 2 ^ (32 - p)"
proof -
  have "CHR ''/'' \<notin> set (dotted a' b' c' d')" by (simp add: dotted_def)
  then have "str_split (CHR ''/'') (dotted a' b' c' d' @ ''/'' @ dec p) = [dotted a' b' c' d', dec p]"
    by (simp add: str_split_at str_split_none)
  then have "ip_matches (dotted a b c d) (dotted a' b' c' d' @ ''/'' @ dec p) \<longleftrightarrow>
      (word_of_nat (quad a b c d) AND ip_mask p) = (word_of_nat (quad a' b' c' d') AND ip_mask p)"
    using assms(2) by (simp add: ip_matches_def ip_number_dotted)
  with masked_iff[OF quad_bound quad_bound assms(2)] assms(1) show ?thesis by simp
qed

theorem range_rule_compares_prefix_witness:
  "ip_matches (dotted 10 1 2 3) (dotted 10 0 0 0 @ ''/'' @ dec 8)
   \<and> \<not> ip_matches (dotted 11 1 2 3) (dotted 10 0 0 0 @ ''/'' @ dec 8)"
  using range_rule_compares_prefix[of 10 1 2 3 10 0 0 0 8] range_rule_compares_prefix[of 11 1 2 3 10 0 0 0 8]
  by (simp add: quad_def)

section \<open>Recent second factor\<close>

lemma find_by_session_id:
  "distinct (map se_id xs) \<Longrightarrow> x \<in> set xs \<Longrightarrow> P x \<Longrightarrow>
     find (\<lambda>y. Some (se_id y) = Some (se_id x) \<and> P y) xs = Some x"
  by (induction xs) (auto simp: image_iff)

text \<open>
  A verified second factor opens the guarded routes for ten minutes. When session ids are
  distinct and a step-up of a user's session succeeds, the step-up guard lets requests of
  that user on that session through from then until ten minutes have passed, on the state
  the step-up left.
\<close>
theorem step_up_opens_guard:
  assumes "step_up cr t (p_id u) sid code s = (Inr until, s')" and "distinct (map se_id (sessions s))"
    and "rq_user r = Some u" and "t' \<le> t + 10 * 60 * 1000"
  shows "step_up_guard t' True (sessions s') sid r = Inr r"
proof -
  let ?hit = "\<lambda>x. Some (se_id x) = sid \<and> se_userId x = p_id u \<and> live t x"
  let ?f = "\<lambda>x. x\<lparr>se_mfaAt := Some t, se_lastSeenAt := Some t\<rparr>"
  have tr: "truthy sid" using assms(1) by (auto simp: step_up_def act_simps split: if_splits)
  obtain s1 where v: "verify_user_code cr t (p_id u) code s = (Inr (), s1)" and hit: "list_ex ?hit (sessions s1)"
    and s': "sessions s' = map (\<lambda>x. if ?hit x then ?f x else x) (sessions s1)"
    using assms(1) by (auto simp: step_up_def act_simps update_sessions_def set_sessions_def
        split: if_splits prod.splits sum.splits)
  have "sessions s1 = sessions s"
    using v by (auto simp: verify_user_code_def act_simps Let_def set_account_def split: option.splits if_splits sum.splits prod.splits)
  with hit obtain x where x: "x \<in> set (sessions s1)" "?hit x" and d: "distinct (map se_id (sessions s1))"
    using assms(2) by (auto simp: list_ex_iff)
  have "map se_id (sessions s') = map se_id (sessions s1)" unfolding s' by simp
  with d have "distinct (map se_id (sessions s'))" by simp
  moreover have "?f x \<in> set (sessions s')" using x by (force simp: s')
  ultimately have "find (\<lambda>y. Some (se_id y) = Some (se_id (?f x)) \<and> (se_userId y = p_id u \<and> se_revokedAt y = None)) (sessions s')
      = Some (?f x)"
    by (rule find_by_session_id) (use x(2) in \<open>auto simp: live_def\<close>)
  then show ?thesis using x(2) tr assms(3,4) by (simp add: step_up_guard_def)
qed

definition s_account :: "string list \<Rightarrow> account" where
  "s_account codes = toy_account\<lparr>ac_mfaEnabled := True, ac_mfaSecret := Some ''ABC'', ac_recovery := codes\<rparr>"

definition s_stepped :: auth_db where
  "s_stepped = no_auth\<lparr>accounts := [s_account [''hCODE1'']],
     sessions := [\<lparr>se_id = ''a'', se_userId = ''u1'', se_refresh = ''sha256:ha'', se_device = ''Browser on Linux'',
       se_agent = None, se_ip = None, se_createdAt = 1000, se_lastSeenAt = Some 1000, se_mfaAt = None,
       se_expiresAt = 9000000, se_revokedAt = None, se_revokedById = None, se_reason = None\<rparr>]\<rparr>"

lemma code_upper: "js_upper (js_trim ''code-1'') = ''CODE-1''"
  by (simp add: js_trim_def ch_space_def ch_upper_def Let_def char_of_eq_iff take_bit_nat_eq_self)

lemma code_not_digits: "\<not> six_digits ''CODE-1''"
  by (simp add: six_digits_def ch_digit_def)

lemma code_hash: "hash_recovery_code toy_crypto ''CODE-1'' = ''hCODE1''"
proof -
  have "filter (\<lambda>c. ch_lower_alnum (ch_lower c)) (js_upper ''CODE-1'') = ''CODE1''"
    by (simp add: ch_upper_def ch_lower_def ch_lower_alnum_def ch_digit_def Let_def char_of_eq_iff take_bit_nat_eq_self)
  then show ?thesis by (simp only: hash_recovery_code_def) (simp add: toy_crypto_def)
qed

lemma s_verified: "verify_user_code toy_crypto 2000 ''u1'' ''code-1'' s_stepped = (Inr (), s_stepped\<lparr>accounts := [s_account []]\<rparr>)"
  using code_not_digits code_hash by (simp add: code_upper verify_user_code_def act_simps s_stepped_def s_account_def find_account_def toy_account_def set_account_def Let_def no_auth_def)

lemma s_step:
  "step_up toy_crypto 2000 ''u1'' (Some ''a'') ''code-1'' s_stepped
   = (Inr 602000, snd (step_up toy_crypto 2000 ''u1'' (Some ''a'') ''code-1'' s_stepped))"
proof -
  have "list_ex (\<lambda>x. Some (se_id x) = Some ''a'' \<and> se_userId x = ''u1'' \<and> live 2000 x) (sessions s_stepped)"
    by (simp add: s_stepped_def live_def)
  then show ?thesis by (simp add: step_up_def act_simps s_verified update_sessions_def set_sessions_def)
qed

theorem step_up_opens_guard_witness:
  "step_up_guard 600000 True (sessions (snd (step_up toy_crypto 2000 ''u1'' (Some ''a'') ''code-1'' s_stepped))) (Some ''a'') g_request
   = Inr g_request"
proof -
  have u: "p_id g_user = ''u1''" by (simp add: g_user_def)
  have d: "distinct (map se_id (sessions s_stepped))" by (simp add: s_stepped_def)
  show ?thesis
    by (rule step_up_opens_guard[where u = g_user and t = 2000, OF _ d, unfolded u, OF s_step]) (simp_all add: g_request_def)
qed

end
