(* ===== verification/Billing.thy ===== *)
theory Billing
  imports Guards Complex_Main
begin

text \<open>
  Subscriptions: \<open>modules/billing/services/{billing,plans,usage}.service.ts\<close>, the limit guard
  \<open>guards/feature.guard.ts\<close>, the response mask of the controller and the parsing half of
  \<open>providers/paypal.provider.ts\<close>. PayPal's answers, the URL and date parsers, the JSON parser
  and the bounds of the current month are parameters; prices are rationals.
\<close>

section \<open>Tables\<close>

record plan =
  pl_id :: string
  pl_isActive :: bool
  pl_monthly :: rat
  pl_annual :: rat
  pl_trialDays :: int
  pl_features :: jsv
  pl_maxTickets :: "int option"
  pl_maxUsers :: "int option"

record subscription =
  sb_companyId :: string
  sb_planId :: string
  sb_provider :: string
  sb_customerId :: "string option"
  sb_subscriptionId :: "string option"
  sb_interval :: string
  sb_seats :: int
  sb_status :: "string option"
  sb_cancelAtEnd :: bool
  sb_trialEndsAt :: "int option"
  sb_periodStart :: "int option"
  sb_periodEnd :: "int option"
  sb_graceEndsAt :: "int option"
  sb_updatedAt :: int

record price =
  pr_planId :: string
  pr_interval :: string
  pr_component :: string
  pr_externalId :: string
  pr_isActive :: bool

record bevent_row =
  be_id :: string
  be_eventId :: string
  be_type :: string
  be_companyId :: "string option"
  be_status :: string
  be_error :: "http_error option"

record usage_row =
  us_id :: string
  us_companyId :: string
  us_metric :: string
  us_count :: nat
  us_start :: int
  us_end :: int

record bstate =
  subs :: "subscription list"
  plans :: "plan list"
  prices :: "price list"
  bevents :: "bevent_row list"
  usages :: "usage_row list"
  bconsents :: "(string \<times> string \<times> string) list"

definition find_sub :: "string \<Rightarrow> bstate \<Rightarrow> subscription option" where
  "find_sub c s = find (\<lambda>x. sb_companyId x = c) (subs s)"

definition find_plan :: "string \<Rightarrow> bstate \<Rightarrow> plan option" where
  "find_plan i s = find (\<lambda>p. pl_id p = i) (plans s)"

definition upsert_sub :: "string \<Rightarrow> (subscription \<Rightarrow> subscription) \<Rightarrow> subscription \<Rightarrow> bstate \<Rightarrow> bstate" where
  "upsert_sub c update new s =
     (if find_sub c s \<noteq> None then s\<lparr>subs := map (\<lambda>x. if sb_companyId x = c then update x else x) (subs s)\<rparr>
      else s\<lparr>subs := subs s @ [new]\<rparr>)"

section \<open>PayPal events\<close>

text \<open>The parts of a webhook resource the provider reads; objects are present or not.\<close>

record resource =
  rs_id :: "string option"
  rs_agreementId :: "string option"
  rs_customId :: "string option"
  rs_planId :: "string option"
  rs_status :: "string option"
  rs_quantity :: "string option"
  rs_subscriber :: "string option option"
  rs_payer :: "string option option"
  rs_startTime :: "string option"
  rs_nextBilling :: "string option"
  rs_statusUpdate :: "string option"

record bevent =
  ev_id :: string
  ev_type :: string
  ev_companyId :: "string option"
  ev_planId :: "string option"
  ev_customerId :: "string option"
  ev_subscriptionId :: "string option"
  ev_status :: "string option"
  ev_interval :: "string option"
  ev_seats :: "int option"
  ev_cancelAtEnd :: bool
  ev_periodStart :: "int option"
  ev_periodEnd :: "int option"

definition str_field :: "jsobj \<Rightarrow> string \<Rightarrow> string option" where
  "str_field es k = (case field es k of JStr v \<Rightarrow> Some v | _ \<Rightarrow> None)"

definition json_seats :: "jsobj \<Rightarrow> int option" where
  "json_seats es = (case field es ''seats'' of JNum n \<Rightarrow> Some n | JStr v \<Rightarrow> js_number v | _ \<Rightarrow> None)"

text \<open>\<open>companyId|planId|interval|seats\<close>, or a JSON object; anything else gives no fields.\<close>

definition parse_custom_id :: "(string \<Rightarrow> jsv option) \<Rightarrow> string option
    \<Rightarrow> string option \<times> string option \<times> string option \<times> int option" where
  "parse_custom_id json v =
     (if \<not> truthy v then (None, None, None, None)
      else case str_split (CHR ''|'') (or_str v []) of
        [a, b, c, d] \<Rightarrow> (Some a, Some b, Some c, js_number d)
      | _ \<Rightarrow> (case json (or_str v []) of
          Some (JObj es) \<Rightarrow> (str_field es ''companyId'', str_field es ''planId'', str_field es ''interval'', json_seats es)
        | _ \<Rightarrow> (None, None, None, None)))"

definition custom_id :: "string \<Rightarrow> string \<Rightarrow> string \<Rightarrow> nat \<Rightarrow> string" where
  "custom_id company planId interval seats = take 127 (company @ ''|'' @ planId @ ''|'' @ interval @ ''|'' @ dec seats)"

definition from_iso :: "(string \<Rightarrow> int option) \<Rightarrow> string option \<Rightarrow> int option" where
  "from_iso date v = (if truthy v then date (or_str v []) else None)"

definition nonzero :: "int option \<Rightarrow> int option" where
  "nonzero x = (if x = Some 0 then None else x)"

text \<open>\<open>verifyAndParseWebhook\<close> after the signature check.\<close>

definition normalize_event :: "(string \<Rightarrow> jsv option) \<Rightarrow> (string \<Rightarrow> int option) \<Rightarrow> string \<Rightarrow> string \<Rightarrow> resource \<Rightarrow> bevent" where
  "normalize_event json date i type r =
     (case parse_custom_id json (rs_customId r) of (company, planId, interval, seats) \<Rightarrow>
      let payer = (case rs_subscriber r of Some p \<Rightarrow> p | None \<Rightarrow> (case rs_payer r of Some p \<Rightarrow> p | None \<Rightarrow> None)) in
      \<lparr>ev_id = i, ev_type = type, ev_companyId = or_null (or_opt company (rs_customId r)),
       ev_planId = or_null (or_opt planId (rs_planId r)),
       ev_customerId = or_null (or_opt payer (case rs_subscriber r of Some p \<Rightarrow> p | None \<Rightarrow> None)),
       ev_subscriptionId = or_null (or_opt (rs_id r) (rs_agreementId r)), ev_status = rs_status r,
       ev_interval = or_null interval,
       ev_seats = (case nonzero seats of Some n \<Rightarrow> Some n
          | None \<Rightarrow> if truthy (rs_quantity r) then js_number (or_str (rs_quantity r) []) else None),
       ev_cancelAtEnd = (js_upper (or_str (rs_status r) []) \<in> {''CANCELLED'', ''SUSPENDED''}),
       ev_periodStart = from_iso date (rs_startTime r),
       ev_periodEnd = from_iso date (or_opt (rs_nextBilling r) (rs_statusUpdate r))\<rparr>)"

section \<open>Events\<close>

definition map_status :: "string option \<Rightarrow> string" where
  "map_status v =
     (let st = js_lower (or_str v []) in
      if st \<in> {''active'', ''paid'', ''completed''} then ''ACTIVE''
      else if st \<in> {''trialing'', ''on_trial''} then ''TRIALING''
      else if st \<in> {''past_due'', ''past-due''} then ''PAST_DUE''
      else if st \<in> {''cancelled'', ''canceled''} then ''CANCELED''
      else if st = ''suspended'' then ''PAST_DUE''
      else if st = ''unpaid'' then ''UNPAID''
      else ''INCOMPLETE'')"

definition map_status_from_event :: "bevent \<Rightarrow> string" where
  "map_status_from_event e =
     (let has = str_includes (js_lower (ev_type e)) in
      if has ''activated'' then ''ACTIVE''
      else if has ''cancelled'' \<or> has ''canceled'' then ''CANCELED''
      else if has ''suspended'' then ''PAST_DUE''
      else if has ''expired'' then ''CANCELED''
      else map_status (ev_status e))"

definition is_failed_payment :: "string \<Rightarrow> bool" where
  "is_failed_payment ty \<longleftrightarrow> list_ex (str_includes ty)
     [''payment_failed'', ''payment.failed'', ''invoice_payment_failed'', ''subscription_payment_failed'']"

definition is_paid :: "string \<Rightarrow> bool" where
  "is_paid ty \<longleftrightarrow> list_ex (str_includes ty)
     [''payment_succeeded'', ''payment.sale.completed'', ''invoice_paid'', ''invoice.payment_succeeded'',
      ''transaction.completed'']"

definition is_subscription :: "string \<Rightarrow> bool" where
  "is_subscription ty \<longleftrightarrow> list_ex (str_includes ty) [''subscription'', ''checkout'', ''transaction.completed'']"

text \<open>\<open>BILLING_GRACE_PERIOD_DAYS\<close>, when set, as a number.\<close>

definition grace_days :: "int option \<Rightarrow> int" where
  "grace_days env = max 0 (min 30 (case env of None \<Rightarrow> 7 | Some n \<Rightarrow> n))"

definition or_else :: "'a option \<Rightarrow> 'a option \<Rightarrow> 'a option" where
  "or_else x y = (case x of None \<Rightarrow> y | Some v \<Rightarrow> Some v)"

text \<open>The columns an accepted event writes, over the current row if there is one.\<close>

definition event_data :: "int \<Rightarrow> bevent \<Rightarrow> string \<Rightarrow> string \<Rightarrow> string \<Rightarrow> subscription option \<Rightarrow> subscription" where
  "event_data t e company planId status cur =
     \<lparr>sb_companyId = company, sb_planId = planId, sb_provider = ''PAYPAL'',
      sb_customerId = or_null (or_opt (ev_customerId e) (Option.bind cur sb_customerId)),
      sb_subscriptionId = or_null (or_opt (ev_subscriptionId e) (Option.bind cur sb_subscriptionId)),
      sb_interval = or_str (or_opt (ev_interval e) (map_option sb_interval cur)) ''MONTH'',
      sb_seats = (case or_else (nonzero (ev_seats e)) (nonzero (map_option sb_seats cur)) of None \<Rightarrow> 1 | Some n \<Rightarrow> n),
      sb_status = Some status, sb_cancelAtEnd = ev_cancelAtEnd e,
      sb_trialEndsAt = Option.bind cur sb_trialEndsAt,
      sb_periodStart = or_else (ev_periodStart e) (Option.bind cur sb_periodStart),
      sb_periodEnd = or_else (ev_periodEnd e) (Option.bind cur sb_periodEnd),
      sb_graceEndsAt = (if status = ''ACTIVE'' then None else Option.bind cur sb_graceEndsAt),
      sb_updatedAt = t\<rparr>"

definition current_sub :: "bevent \<Rightarrow> bstate \<Rightarrow> subscription option" where
  "current_sub e s =
     (case (if truthy (ev_companyId e) then find_sub (or_str (ev_companyId e) []) s else None) of
        Some x \<Rightarrow> Some x
      | None \<Rightarrow> if truthy (ev_subscriptionId e) then find (\<lambda>x. sb_subscriptionId x = ev_subscriptionId e) (subs s) else None)"

definition apply_event :: "int option \<Rightarrow> int \<Rightarrow> bevent \<Rightarrow> (bstate, bool) act" where
  "apply_event env t e =
     (let ty = js_lower (ev_type e) in
      if \<not> is_failed_payment ty \<and> \<not> is_paid ty \<and> \<not> is_subscription ty then ret False
      else bindE (reads (current_sub e)) (\<lambda>cur.
        let company = or_opt (ev_companyId e) (map_option sb_companyId cur) in
        bindE (guard (truthy company) (BadRequest ''Billing event is missing company metadata'')) (\<lambda>_.
        let c = or_str company [] in
        if is_failed_payment ty then
          bindE (writes (\<lambda>s. s\<lparr>subs := map (\<lambda>x. if sb_companyId x = c
              then x\<lparr>sb_status := Some ''PAST_DUE'', sb_graceEndsAt := Some (t + grace_days env * 86400000), sb_updatedAt := t\<rparr>
              else x) (subs s)\<rparr>)) (\<lambda>_. ret True)
        else
          (let status = (if is_paid ty then ''ACTIVE'' else map_status_from_event e);
               planId = or_opt (ev_planId e) (map_option sb_planId cur) in
           bindE (guard (truthy planId) (BadRequest ''Billing event is missing plan metadata'')) (\<lambda>_.
           let row = event_data t e c (or_str planId []) status cur in
           bindE (writes (upsert_sub c (\<lambda>_. row) row)) (\<lambda>_. ret True))))))"

definition set_bevent :: "string \<Rightarrow> (bevent_row \<Rightarrow> bevent_row) \<Rightarrow> (bstate, unit) act" where
  "set_bevent i f = writes (\<lambda>s. s\<lparr>bevents := map (\<lambda>r. if be_id r = i then f r else r) (bevents s)\<rparr>)"

datatype webhook_reply = Received | Duplicate

definition find_bevent :: "string \<Rightarrow> bstate \<Rightarrow> bevent_row option" where
  "find_bevent i s = find (\<lambda>r. be_eventId r = i) (bevents s)"

definition handle_webhook :: "int option \<Rightarrow> world \<Rightarrow> bevent res \<Rightarrow> (bstate, webhook_reply) act" where
  "handle_webhook env w parsed =
     bindE (of_res parsed) (\<lambda>e.
     bindE (reads (find_bevent (ev_id e))) (\<lambda>existing.
     if (case existing of None \<Rightarrow> False | Some r \<Rightarrow> be_status r \<in> {''PROCESSED'', ''IGNORED''}) then ret Duplicate
     else
       (let i = (case existing of None \<Rightarrow> uuid w 0 | Some r \<Rightarrow> be_id r) in
        bindE (if existing = None then
                 bindE (reads (\<lambda>s. map be_id (bevents s))) (\<lambda>ids.
                 bindE (guard (i \<notin> set ids) duplicate) (\<lambda>_.
                 writes (\<lambda>s. s\<lparr>bevents := bevents s @ [\<lparr>be_id = i, be_eventId = ev_id e,
                  be_type = ev_type e, be_companyId = or_null (ev_companyId e), be_status = ''RECEIVED'', be_error = None\<rparr>]\<rparr>)))
               else ret ()) (\<lambda>_.
        catchE
          (bindE (apply_event env (now w) e) (\<lambda>processed.
           bindE (set_bevent i (\<lambda>r. r\<lparr>be_companyId := or_null (ev_companyId e),
                    be_status := (if processed then ''PROCESSED'' else ''IGNORED''), be_error := None\<rparr>)) (\<lambda>_.
           ret Received)))
          (\<lambda>er. bindE (set_bevent i (\<lambda>r. r\<lparr>be_status := ''FAILED'', be_error := Some er\<rparr>)) (\<lambda>_. raise er))))))"

section \<open>Checkout\<close>

record checkout_options =
  co_userId :: "string option"
  co_termsAccepted :: bool
  co_termsVersion :: string
  co_privacyVersion :: string
  co_interval :: "string option"
  co_seats :: "int option"

record checkout_input =
  ci_companyId :: string
  ci_planId :: string
  ci_customerId :: "string option"
  ci_subscriptionId :: "string option"
  ci_interval :: string
  ci_seats :: int
  ci_priceId :: string

record checkout_result =
  cr_url :: string
  cr_sessionId :: "string option"
  cr_customerId :: "string option"
  cr_subscriptionId :: "string option"

definition record_checkout_consent :: "checkout_options \<Rightarrow> (bstate, unit) act" where
  "record_checkout_consent d =
     bindE (guard (truthy (co_userId d) \<and> co_termsAccepted d \<and> co_termsVersion d = ''2026-07-29''
                   \<and> co_privacyVersion d = ''2026-07-29'')
        (BadRequest ''Review and accept the current Terms of Service and Privacy Policy before checkout'')) (\<lambda>_.
     writes (\<lambda>s. s\<lparr>bconsents := bconsents s @ [(or_str (co_userId d) [], co_termsVersion d, co_privacyVersion d)]\<rparr>))"

definition checkout_seats :: "int option \<Rightarrow> int" where
  "checkout_seats x = max 1 (min 10000 (case nonzero x of None \<Rightarrow> 1 | Some n \<Rightarrow> n))"

definition create_checkout :: "bool \<Rightarrow> (checkout_input \<Rightarrow> checkout_result res) \<Rightarrow> int \<Rightarrow> string \<Rightarrow> string
    \<Rightarrow> checkout_options \<Rightarrow> (bstate, checkout_result) act" where
  "create_checkout configured provider t company planId d =
     bindE (record_checkout_consent d) (\<lambda>_.
     bindE (guard configured (Unavailable ''PayPal is not configured'')) (\<lambda>_.
     bindE (reads (find_plan planId)) (\<lambda>hit.
     case hit of
       None \<Rightarrow> raise (NotFound ''Plan not found'')
     | Some p \<Rightarrow>
        bindE (guard (pl_isActive p) (BadRequest ''Plan is not active'')) (\<lambda>_.
        let interval = (if co_interval d = Some ''YEAR'' then ''YEAR'' else ''MONTH''); seats = checkout_seats (co_seats d) in
        bindE (guard ((if interval = ''YEAR'' then pl_annual p else pl_monthly p) > 0)
                 (BadRequest ''Free plans do not use checkout'')) (\<lambda>_.
        bindE (reads (\<lambda>s. find (\<lambda>r. pr_planId r = planId \<and> pr_interval r = interval \<and> pr_isActive r
                              \<and> pr_component r = ''BASE'') (prices s))) (\<lambda>price.
        bindE (guard (case price of None \<Rightarrow> False | Some r \<Rightarrow> pr_externalId r \<noteq> [])
                 (BadRequest (''PayPal '' @ js_lower interval @ '' price is not configured''))) (\<lambda>_.
        bindE (reads (find_sub company)) (\<lambda>cp.
        let mine = (case cp of None \<Rightarrow> True | Some x \<Rightarrow> sb_provider x = ''PAYPAL'' \<or> sb_provider x = []);
            customer = (if mine then Option.bind cp sb_customerId else None);
            subscr = (if mine then Option.bind cp sb_subscriptionId else None) in
        bindE (of_res (provider \<lparr>ci_companyId = company, ci_planId = planId, ci_customerId = customer,
                 ci_subscriptionId = subscr, ci_interval = interval, ci_seats = seats,
                 ci_priceId = (case price of None \<Rightarrow> [] | Some r \<Rightarrow> pr_externalId r)\<rparr>)) (\<lambda>result.
        let row = \<lparr>sb_companyId = company, sb_planId = planId, sb_provider = ''PAYPAL'',
              sb_customerId = or_null (or_opt (cr_customerId result) customer),
              sb_subscriptionId = or_null (or_opt (cr_subscriptionId result) (or_opt (cr_sessionId result) subscr)),
              sb_interval = interval, sb_seats = seats, sb_status = Some ''INCOMPLETE'', sb_cancelAtEnd = False,
              sb_trialEndsAt = None, sb_periodStart = None, sb_periodEnd = None, sb_graceEndsAt = None, sb_updatedAt = t\<rparr> in
        bindE (writes (upsert_sub company (\<lambda>_. row) row)) (\<lambda>_. ret result))))))))))"

section \<open>Summary, prices, plans\<close>

text \<open>\<open>getBillingSummary\<close>: whether the company is entitled, and the state shown for it.\<close>

definition entitlement :: "int \<Rightarrow> subscription option \<Rightarrow> bool \<times> string" where
  "entitlement t cp =
     (case cp of
        None \<Rightarrow> (True, ''NO_SUBSCRIPTION'')
      | Some x \<Rightarrow>
          (let grace = (case sb_graceEndsAt x of None \<Rightarrow> 0 | Some g \<Rightarrow> g); st = js_upper (or_str (sb_status x) ''ACTIVE'') in
           (st \<in> {''ACTIVE'', ''TRIALING''} \<or> st = ''PAST_DUE'' \<and> grace > t,
            if st = ''PAST_DUE'' \<and> grace > t then ''GRACE_PERIOD'' else st)))"

definition upsert_price :: "string \<Rightarrow> string \<Rightarrow> string \<Rightarrow> string option \<Rightarrow> bool option \<Rightarrow> (bstate, unit) act" where
  "upsert_price planId interval component externalId active =
     (let iv = (if interval = ''YEAR'' then ''YEAR'' else ''MONTH'');
          e = js_trim (or_str externalId []) in
      bindE (guard (component = [] \<or> component = ''BASE'')
               (BadRequest ''PayPal billing supports base subscription plan mappings only'')) (\<lambda>_.
      bindE (guard (e \<noteq> []) (BadRequest ''External price ID is required'')) (\<lambda>_.
      writes (\<lambda>s. let row = \<lparr>pr_planId = planId, pr_interval = iv, pr_component = ''BASE'', pr_externalId = e,
                              pr_isActive = (active \<noteq> Some False)\<rparr>;
                      same = (\<lambda>r. pr_planId r = planId \<and> pr_interval r = iv \<and> pr_component r = ''BASE'') in
        if list_ex same (prices s) then s\<lparr>prices := map (\<lambda>r. if same r then row else r) (prices s)\<rparr>
        else s\<lparr>prices := prices s @ [row]\<rparr>))))"

definition company_plan_of :: "string \<Rightarrow> bstate \<Rightarrow> (subscription \<times> plan option) option" where
  "company_plan_of c s = map_option (\<lambda>x. (x, find_plan (sb_planId x) s)) (find_sub c s)"

text \<open>The row the feature guard reads.\<close>

definition guard_plan :: "string \<Rightarrow> bstate \<Rightarrow> company_plan option" where
  "guard_plan c s = map_option (\<lambda>(x, p). \<lparr>cp_status = sb_status x, cp_graceEndsAt = sb_graceEndsAt x,
     cp_features = map_option pl_features p\<rparr>) (company_plan_of c s)"

section \<open>Usage and limits\<close>

definition in_period :: "string \<Rightarrow> string \<Rightarrow> int \<times> int \<Rightarrow> usage_row \<Rightarrow> bool" where
  "in_period c metric period r \<longleftrightarrow> us_companyId r = c \<and> us_metric r = metric
     \<and> us_start r \<ge> fst period \<and> us_end r \<le> snd period"

definition find_usage :: "string \<Rightarrow> string \<Rightarrow> int \<times> int \<Rightarrow> bstate \<Rightarrow> usage_row option" where
  "find_usage c metric period s = find (in_period c metric period) (usages s)"

definition get_or_create_usage :: "string \<Rightarrow> string \<Rightarrow> string \<Rightarrow> int \<times> int \<Rightarrow> (bstate, usage_row) act" where
  "get_or_create_usage i c metric period =
     bindE (reads (find_usage c metric period)) (\<lambda>hit.
     case hit of
       Some r \<Rightarrow> ret r
     | None \<Rightarrow>
        (let r = \<lparr>us_id = i, us_companyId = c, us_metric = metric, us_count = 0, us_start = fst period, us_end = snd period\<rparr> in
         bindE (writes (\<lambda>s. s\<lparr>usages := usages s @ [r]\<rparr>)) (\<lambda>_. ret r)))"

definition write_count :: "string \<Rightarrow> nat \<Rightarrow> (bstate, unit) act" where
  "write_count i n = writes (\<lambda>s. s\<lparr>usages := map (\<lambda>r. if us_id r = i then r\<lparr>us_count := n\<rparr> else r) (usages s)\<rparr>)"

definition increment_usage :: "(int \<Rightarrow> int \<times> int) \<Rightarrow> world \<Rightarrow> string \<Rightarrow> string \<Rightarrow> (bstate, unit) act" where
  "increment_usage month w c metric =
     bindE (get_or_create_usage (uuid w 0) c metric (month (now w))) (\<lambda>r. write_count (us_id r) (us_count r + 1))"

definition get_usage :: "(int \<Rightarrow> int \<times> int) \<Rightarrow> int \<Rightarrow> string \<Rightarrow> string \<Rightarrow> bstate \<Rightarrow> nat" where
  "get_usage month t c metric s = (case find_usage c metric (month t) s of None \<Rightarrow> 0 | Some r \<Rightarrow> us_count r)"

text \<open>A limit: absent or -1 is unlimited. A subscription without a plan row makes
  \<open>plan.maxTickets\<close> throw.\<close>

definition check_limit :: "(plan \<Rightarrow> int option) \<Rightarrow> string \<Rightarrow> string \<Rightarrow> nat \<Rightarrow> bstate \<Rightarrow> unit res" where
  "check_limit limit msg c current s =
     (case company_plan_of c s of
        None \<Rightarrow> Inr ()
      | Some (_, None) \<Rightarrow> Inl (ServerError ''TypeError'')
      | Some (_, Some p) \<Rightarrow>
          (case limit p of
             None \<Rightarrow> Inr ()
           | Some n \<Rightarrow> if n = -1 \<or> int current < n then Inr () else Inl (Forbidden msg)))"

definition check_ticket_limit :: "(int \<Rightarrow> int \<times> int) \<Rightarrow> int \<Rightarrow> string \<Rightarrow> bstate \<Rightarrow> unit res" where
  "check_ticket_limit month t c s =
     check_limit pl_maxTickets ''Ticket limit reached for your plan. Upgrade to create more tickets.'' c
       (get_usage month t c ''tickets'' s) s"

definition check_user_limit :: "nat \<Rightarrow> string \<Rightarrow> bstate \<Rightarrow> unit res" where
  "check_user_limit activeUsers c s =
     check_limit pl_maxUsers ''User limit reached for your plan. Upgrade to add more users.'' c activeUsers s"

definition limit_guard :: "(int \<Rightarrow> int \<times> int) \<Rightarrow> int \<Rightarrow> nat \<Rightarrow> bool \<Rightarrow> bool \<Rightarrow> bstate \<Rightarrow> request \<Rightarrow> request res" where
  "limit_guard month t activeUsers checkTicket checkUser s r =
     (if \<not> checkTicket \<and> \<not> checkUser then Inr r
      else case rq_user r of
        None \<Rightarrow> Inr r
      | Some u \<Rightarrow>
         if \<not> truthy (p_companyId u) then Inr r
         else (case (if checkTicket then check_ticket_limit month t (or_str (p_companyId u) []) s else Inr ()) of
             Inl e \<Rightarrow> Inl e
           | Inr _ \<Rightarrow> (case (if checkUser then check_user_limit activeUsers (or_str (p_companyId u) []) s else Inr ()) of
               Inl e \<Rightarrow> Inl e | Inr _ \<Rightarrow> Inr r)))"

section \<open>Masking\<close>

definition sensitive_fields :: "string list" where
  "sensitive_fields = [''amount'', ''subtotal'', ''total'', ''amountDue'', ''amountPaid'', ''amountRemaining'',
     ''customerEmail'', ''paymentMethod'', ''last4'', ''cardBrand'']"

fun mask_value :: "jsv \<Rightarrow> jsv" where
  "mask_value (JArr xs) = JArr (map mask_value xs)"
| "mask_value (JObj es) = JObj (map (\<lambda>(k, v). (k, if k \<in> set sensitive_fields then JStr ''restricted'' else mask_value v)) es)"
| "mask_value v = v"

definition mask_billing :: "principal \<Rightarrow> jsv \<Rightarrow> jsv" where
  "mask_billing u v =
     (if p_role u = ''SUPER_ADMIN'' \<or> ''billing.sensitive.view'' \<in> set (p_slugs u) then v else mask_value v)"

end
