(* ===== verification/Billing_Props.thy ===== *)
theory Billing_Props
  imports Billing Guard_Props
begin

text \<open>Properties of the subscription state: events, grace period, checkout, usage limits.\<close>

definition b_sub :: subscription where
  "b_sub = \<lparr>sb_companyId = ''c1'', sb_planId = ''p1'', sb_provider = ''PAYPAL'', sb_customerId = None,
     sb_subscriptionId = Some ''I-1'', sb_interval = ''MONTH'', sb_seats = 1, sb_status = Some ''ACTIVE'',
     sb_cancelAtEnd = False, sb_trialEndsAt = None, sb_periodStart = None, sb_periodEnd = None,
     sb_graceEndsAt = None, sb_updatedAt = 0\<rparr>"

definition b_plan :: plan where
  "b_plan = \<lparr>pl_id = ''p1'', pl_isActive = True, pl_monthly = 10, pl_annual = 100, pl_trialDays = 0,
     pl_features = JObj [], pl_maxTickets = Some 2, pl_maxUsers = None\<rparr>"

definition b_state :: bstate where
  "b_state = \<lparr>subs = [b_sub], plans = [b_plan],
     prices = [\<lparr>pr_planId = ''p1'', pr_interval = ''MONTH'', pr_component = ''BASE'', pr_externalId = ''P-1'', pr_isActive = True\<rparr>],
     bevents = [], usages = [], bconsents = []\<rparr>"

definition b_event :: bevent where
  "b_event = \<lparr>ev_id = ''e1'', ev_type = ''payment.failed'', ev_companyId = Some ''c1'', ev_planId = None,
     ev_customerId = None, ev_subscriptionId = None, ev_status = None, ev_interval = None, ev_seats = None,
     ev_cancelAtEnd = False, ev_periodStart = None, ev_periodEnd = None\<rparr>"

definition b_world :: "int \<Rightarrow> string \<Rightarrow> world" where
  "b_world t i = \<lparr>now = t, uuid = (\<lambda>k. i)\<rparr>"

lemma b_event_fields [simp]: "ev_id b_event = ''e1''" "ev_companyId b_event = Some ''c1''"
  by (simp_all add: b_event_def)

lemma b_failed [simp]: "is_failed_payment (js_lower (ev_type b_event))" by code_simp

section \<open>Events are applied once\<close>

lemma apply_event_bevents: "apply_event env t e s = (r, s') \<Longrightarrow> bevents s' = bevents s"
  by (auto simp: apply_event_def Let_def act_simps upsert_sub_def split: if_splits sum.splits prod.splits)

lemma find_bevent_set:
  assumes "find_bevent i s = Some r" and "\<And>q. be_eventId (f q) = be_eventId q"
  shows "find (\<lambda>q. be_eventId q = i) (map (\<lambda>q. if be_id q = be_id r then f q else q) (bevents s)) = Some (f r)"
proof -
  have "find (\<lambda>q. be_eventId q = i) (map (\<lambda>q. if be_id q = be_id r then f q else q) (bevents s))
      = Some (if be_id r = be_id r then f r else r)"
    by (rule find_map_upd) (use assms in \<open>auto simp: find_bevent_def\<close>)
  then show ?thesis by simp
qed

text \<open>The other calls of the service leave the events alone.\<close>

datatype billing_call =
    BWebhook "int option" world "bevent res"
  | BCheckout bool "checkout_input \<Rightarrow> checkout_result res" int string string checkout_options
  | BPrice string string string "string option" "bool option"
  | BUsage "int \<Rightarrow> int \<times> int" world string string

fun billing_step :: "billing_call \<Rightarrow> bstate \<Rightarrow> bstate" where
  "billing_step (BWebhook env w e) s = snd (handle_webhook env w e s)"
| "billing_step (BCheckout b p t c i d) s = snd (create_checkout b p t c i d s)"
| "billing_step (BPrice i v k x b) s = snd (upsert_price i v k x b s)"
| "billing_step (BUsage m w c x) s = snd (increment_usage m w c x s)"

definition event_done :: "string \<Rightarrow> bstate \<Rightarrow> bool" where
  "event_done i s \<longleftrightarrow> distinct (map be_id (bevents s))
     \<and> (\<exists>r. find_bevent i s = Some r \<and> be_status r \<in> {''PROCESSED'', ''IGNORED''})"

text \<open>What a webhook call does to the event rows: nothing, or one row is new or open and changed.\<close>

lemma webhook_rows:
  obtains "bevents (snd (handle_webhook env w (Inr e) s)) = bevents s"
    "fst (handle_webhook env w (Inr e) s) = Inr Received \<Longrightarrow> False"
    "fst (handle_webhook env w (Inr e) s) = Inr Duplicate \<Longrightarrow>
       \<exists>r. find_bevent (ev_id e) s = Some r \<and> be_status r \<in> {''PROCESSED'', ''IGNORED''}"
  | rs i f where "if find_bevent (ev_id e) s = None then \<exists>q. rs = bevents s @ [q] \<and> be_id q = i \<and> be_eventId q = ev_id e \<and> i \<notin> be_id ` set (bevents s)
      else rs = bevents s \<and> (\<exists>q. find_bevent (ev_id e) s = Some q \<and> be_id q = i \<and> be_status q \<notin> {''PROCESSED'', ''IGNORED''})"
    "bevents (snd (handle_webhook env w (Inr e) s)) = map (\<lambda>q. if be_id q = i then f q else q) rs"
    "\<And>q. be_eventId (f q) = be_eventId q \<and> be_id (f q) = be_id q"
    "\<And>reply q. fst (handle_webhook env w (Inr e) s) = Inr reply \<Longrightarrow> be_status (f q) \<in> {''PROCESSED'', ''IGNORED''}"
proof (cases "case find_bevent (ev_id e) s of None \<Rightarrow> False | Some r \<Rightarrow> be_status r \<in> {''PROCESSED'', ''IGNORED''}")
  case True
  then have "handle_webhook env w (Inr e) s = (Inr Duplicate, s)" by (simp add: handle_webhook_def act_simps)
  with True that(1) show thesis by (auto split: option.splits)
next
  case open_event: False
  let ?n = "find_bevent (ev_id e) s = None"
  let ?i = "case find_bevent (ev_id e) s of None \<Rightarrow> uuid w 0 | Some r \<Rightarrow> be_id r"
  show thesis
  proof (cases "?n \<and> ?i \<in> set (map be_id (bevents s))")
    case True
    then have n: "find_bevent (ev_id e) s = None" "uuid w 0 \<in> be_id ` set (bevents s)" by auto
    have "handle_webhook env w (Inr e) s = (Inl duplicate, s)" using n(2) by (simp add: handle_webhook_def act_simps Let_def n(1))
    with that(1) show thesis by simp
  next
    case fresh: False
    let ?row = "\<lparr>be_id = ?i, be_eventId = ev_id e, be_type = ev_type e, be_companyId = or_null (ev_companyId e),
        be_status = ''RECEIVED'', be_error = None\<rparr>"
    let ?s = "if ?n then s\<lparr>bevents := bevents s @ [?row]\<rparr> else s"
    obtain x s2 where a: "apply_event env (now w) e ?s = (x, s2)" by (meson surj_pair)
    from apply_event_bevents[OF a] have rows: "bevents s2 = bevents ?s" .
    let ?f = "case x of Inl er \<Rightarrow> (\<lambda>r. r\<lparr>be_status := ''FAILED'', be_error := Some er\<rparr>)
      | Inr b \<Rightarrow> (\<lambda>r. r\<lparr>be_companyId := or_null (ev_companyId e), be_status := (if b then ''PROCESSED'' else ''IGNORED''), be_error := None\<rparr>)"
    have run: "handle_webhook env w (Inr e) s = (map_sum id (\<lambda>_. Received) x, s2\<lparr>bevents := map (\<lambda>q. if be_id q = ?i then ?f q else q) (bevents s2)\<rparr>)"
      using open_event fresh a
      by (cases x) (auto simp: handle_webhook_def act_simps Let_def set_bevent_def split: option.splits)
    have sel: "bevents (y\<lparr>bevents := z\<rparr>) = z" for y :: bstate and z by simp
    show thesis
    proof (rule that(2)[of "bevents ?s" ?i ?f])
      show "if ?n then \<exists>q. bevents ?s = bevents s @ [q] \<and> be_id q = ?i \<and> be_eventId q = ev_id e \<and> ?i \<notin> be_id ` set (bevents s)
        else bevents ?s = bevents s \<and> (\<exists>q. find_bevent (ev_id e) s = Some q \<and> be_id q = ?i \<and> be_status q \<notin> {''PROCESSED'', ''IGNORED''})"
        using open_event fresh by (auto split: option.splits)
      show "bevents (snd (handle_webhook env w (Inr e) s)) = map (\<lambda>q. if be_id q = ?i then ?f q else q) (bevents ?s)"
        unfolding run snd_conv rows[symmetric] by (rule sel)
      show "be_eventId (?f q) = be_eventId q \<and> be_id (?f q) = be_id q" for q by (cases x) simp_all
      show "be_status (?f q) \<in> {''PROCESSED'', ''IGNORED''}" if "fst (handle_webhook env w (Inr e) s) = Inr reply" for reply q
        using that unfolding run by (cases x) simp_all
    qed
  qed
qed

lemma find_append_hit: "find P xs = Some x \<Longrightarrow> find P (xs @ ys) = Some x"
  by (induction xs) (auto split: if_splits)

lemma distinct_rows: "distinct (map be_id xs) \<Longrightarrow> (\<And>q. be_id (f q) = be_id q) \<Longrightarrow> distinct (map be_id (map (\<lambda>q. if be_id q = i then f q else q) xs))"
proof -
  assume d: "distinct (map be_id xs)" and f: "\<And>q. be_id (f q) = be_id q"
  have "map be_id (map (\<lambda>q. if be_id q = i then f q else q) xs) = map be_id xs"
    by (induction xs) (simp_all add: f)
  with d show ?thesis by (simp only:)
qed

lemma webhook_distinct:
  assumes "distinct (map be_id (bevents s))"
  shows "distinct (map be_id (bevents (snd (handle_webhook env w (Inr e) s))))"
proof (cases rule: webhook_rows[of env w e s])
  case 1
  with assms show ?thesis by simp
next
  case (2 rs i f)
  then have "distinct (map be_id rs)" using assms by (auto split: if_splits)
  then show ?thesis unfolding 2(2) by (rule distinct_rows) (simp add: 2(3))
qed

lemma webhook_settles:
  assumes "distinct (map be_id (bevents s))" "handle_webhook env w (Inr e) s = (Inr reply, s')"
  shows "event_done (ev_id e) s'"
proof (cases rule: webhook_rows[of env w e s])
  case 1
  then show ?thesis using assms by (cases reply) (auto simp: event_done_def find_bevent_def)
next
  case (2 rs i f)
  have "\<exists>q. find (\<lambda>q. be_eventId q = ev_id e) rs = Some q \<and> be_id q = i"
    using 2(1) by (auto simp: find_bevent_def find_append_new split: if_splits)
  then obtain q where q: "find (\<lambda>q. be_eventId q = ev_id e) rs = Some q" "be_id q = i" by blast
  have "find (\<lambda>q. be_eventId q = ev_id e) (map (\<lambda>q. if be_id q = i then f q else q) rs) = Some (if be_id q = i then f q else q)"
    by (rule find_map_upd[OF q(1)]) (use 2(3) in auto)
  with 2(2,4) q(2) assms webhook_distinct[OF assms(1), of env w e] show ?thesis
    by (simp add: event_done_def find_bevent_def)
qed

lemma done_webhook:
  assumes "event_done i s"
  shows "event_done i (snd (handle_webhook env w (Inr e) s))"
proof (cases rule: webhook_rows[of env w e s])
  case 1
  with assms show ?thesis by (simp add: event_done_def find_bevent_def)
next
  case (2 rs j f)
  from assms obtain r where r: "find (\<lambda>q. be_eventId q = i) (bevents s) = Some r" "be_status r \<in> {''PROCESSED'', ''IGNORED''}"
    and d: "distinct (map be_id (bevents s))" by (auto simp: event_done_def find_bevent_def)
  from find_SomeD[OF r(1)] have m: "r \<in> set (bevents s)" "be_eventId r = i" by simp_all
  have r': "find (\<lambda>q. be_eventId q = i) rs = Some r"
    using 2(1) r(1) by (auto simp: find_append_hit split: if_splits)
  have "be_id r \<noteq> j"
  proof (cases "find_bevent (ev_id e) s")
    case None
    with 2(1) have "j \<notin> be_id ` set (bevents s)" by auto
    with m(1) show ?thesis by blast
  next
    case (Some q)
    with 2(1) have q: "be_id q = j" "be_status q \<notin> {''PROCESSED'', ''IGNORED''}" by simp_all
    from Some have "q \<in> set (bevents s)" by (auto simp: find_bevent_def dest: find_SomeD)
    with d m(1) q r(2) show ?thesis by (auto simp: distinct_map dest: inj_onD)
  qed
  moreover have "find (\<lambda>q. be_eventId q = i) (map (\<lambda>q. if be_id q = j then f q else q) rs) = Some (if be_id r = j then f r else r)"
    by (rule find_map_upd[OF r']) (use 2(3) in auto)
  ultimately show ?thesis using r(2) 2(2) webhook_distinct[OF d, of env w e] by (simp add: event_done_def find_bevent_def)
qed

lemma done_other: "bevents (f s) = bevents s \<Longrightarrow> event_done i (f s) = event_done i s"
  by (simp add: event_done_def find_bevent_def)

lemma done_calls: "event_done i s \<Longrightarrow> event_done i (billing_step c s)"
proof (cases c)
  case (BWebhook env w e)
  assume "event_done i s"
  with BWebhook show ?thesis
    by (cases e) (simp_all add: done_webhook, simp add: handle_webhook_def act_simps)
next
  case (BCheckout b p t k x d)
  assume d: "event_done i s"
  have "keeps (event_done i) (create_checkout b p t k x d)"
    unfolding create_checkout_def record_checkout_consent_def Let_def
    by (intro keeps_intros keeps_writes; simp add: done_other event_done_def find_bevent_def upsert_sub_def)
  with BCheckout d show ?thesis by (simp add: keeps_def)
next
  case (BPrice x v k y b)
  assume d: "event_done i s"
  have "keeps (event_done i) (upsert_price x v k y b)"
    unfolding upsert_price_def Let_def by (intro keeps_intros keeps_writes; simp add: event_done_def find_bevent_def)
  with BPrice d show ?thesis by (simp add: keeps_def)
next
  case (BUsage m w k x)
  assume d: "event_done i s"
  have "keeps (event_done i) (increment_usage m w k x)"
    unfolding increment_usage_def get_or_create_usage_def write_count_def Let_def
    by (intro keeps_intros keeps_writes; simp add: event_done_def find_bevent_def)
  with BUsage d show ?thesis by (simp add: keeps_def)
qed

interpretation events: guarded_machine any_call billing_step "event_done i" for i
  by unfold_locales (rule done_calls)

text \<open>
  C24. A billing event takes effect once. Once a webhook call has returned without an error, and
  whatever webhook calls (failing ones included), checkouts, price changes and usage counts
  come after it, any delivery with the same event id, whatever it carries and whenever it
  arrives, is reported as a duplicate and changes nothing.
\<close>
theorem webhook_applies_once:
  assumes "handle_webhook env w (Inr e) s = (Inr reply, s1)" and "distinct (map be_id (bevents s))"
    and "reachable_by any_call billing_step s1 s2" and "ev_id e' = ev_id e"
  shows "handle_webhook env' w' (Inr e') s2 = (Inr Duplicate, s2)"
proof -
  have "event_done (ev_id e) s2"
    using events.reachable_inv[OF assms(3)] webhook_settles[OF assms(2,1)] by blast
  with assms(4) show ?thesis by (auto simp: event_done_def handle_webhook_def act_simps)
qed

lemma b_webhook:
  "handle_webhook None (b_world 1000 ''r1'') (Inr b_event) b_state
   = (Inr Received, snd (handle_webhook None (b_world 1000 ''r1'') (Inr b_event) b_state))"
  by (simp add: handle_webhook_def act_simps Let_def apply_event_def find_bevent_def b_state_def
      set_bevent_def or_opt_def)

theorem webhook_applies_once_witness:
  "fst (handle_webhook None (b_world 9000 ''r3'') (Inr b_event)
      (billing_step (BWebhook None (b_world 2000 ''r2'') (Inr (b_event\<lparr>ev_id := ''e2'', ev_type := ''x''\<rparr>)))
        (snd (handle_webhook None (b_world 1000 ''r1'') (Inr b_event) b_state)))) = Inr Duplicate"
proof -
  have "distinct (map be_id (bevents b_state))" by (simp add: b_state_def)
  from webhook_applies_once[OF b_webhook this reach_step[OF reach_start]]
  show ?thesis by (simp only: fst_conv)
qed

section \<open>Failed payments and the feature guard\<close>

lemma find_sub_map:
  "find_sub c s = Some x \<Longrightarrow> (\<And>y. sb_companyId (f y) = sb_companyId y) \<Longrightarrow>
     find (\<lambda>y. sb_companyId y = c) (map (\<lambda>y. if sb_companyId y = c then f y else y) (subs s)) = Some (f x)"
proof -
  assume a: "find_sub c s = Some x" "\<And>y. sb_companyId (f y) = sb_companyId y"
  have "find (\<lambda>y. sb_companyId y = c) (map (\<lambda>y. if sb_companyId y = c then f y else y) (subs s))
      = Some (if sb_companyId x = c then f x else x)"
    by (rule find_map_upd) (use a in \<open>auto simp: find_sub_def\<close>)
  then show ?thesis using a(1) by (auto simp: find_sub_def dest: find_SomeD)
qed

lemma entitlement_guard:
  "fst (entitlement t (find_sub c s)) = (case guard_plan c s of None \<Rightarrow> True
     | Some p \<Rightarrow> entitled_status t (cp_status p) (cp_graceEndsAt p))"
  by (simp add: entitlement_def guard_plan_def company_plan_of_def entitled_status_def Let_def split: option.splits)

lemma guard_blocks_iff:
  assumes "rq_user r = Some u" "p_companyId u = Some c" "c \<noteq> []" "f \<notin> {[], ''billing''}"
  shows "feature_guard t (Some f) co us (guard_plan c s) r
           = Inl (Forbidden ''Billing access is required to continue using this function'')
         \<longleftrightarrow> \<not> fst (entitlement t (find_sub c s))"
proof -
  have l: "feature_label f @ x \<noteq> ''Billing access is required to continue using this function''"
    if "x \<in> {'' is not included or is disabled for this account'', '' is disabled for this account''}" for x
  proof
    assume "feature_label f @ x = ''Billing access is required to continue using this function''"
    then have "last (feature_label f @ x) = last ''Billing access is required to continue using this function''" by simp
    with that show False by auto
  qed
  show ?thesis
    using assms l unfolding entitlement_guard
    by (auto simp: feature_guard_def split: option.splits)
qed

lemma failed_payment_row:
  assumes "apply_event env t e s = (Inr b, s')" "is_failed_payment (js_lower (ev_type e))"
    and "ev_companyId e = Some c" "c \<noteq> []" "find_sub c s = Some x"
  shows "find_sub c s' = Some (x\<lparr>sb_status := Some ''PAST_DUE'',
           sb_graceEndsAt := Some (t + grace_days env * 86400000), sb_updatedAt := t\<rparr>)"
proof -
  have "current_sub e s = Some x" using assms(3-5) by (simp add: current_sub_def or_str_def)
  then have "s' = s\<lparr>subs := map (\<lambda>y. if sb_companyId y = c then y\<lparr>sb_status := Some ''PAST_DUE'',
      sb_graceEndsAt := Some (t + grace_days env * 86400000), sb_updatedAt := t\<rparr> else y) (subs s)\<rparr>"
    using assms by (auto simp: apply_event_def Let_def act_simps or_opt_def or_str_def)
  with find_sub_map[OF assms(5)] show ?thesis by (simp add: find_sub_def)
qed

text \<open>
  A failed payment closes the paid functions when the grace period ends, not before. After
  a failed-payment event for a company with a subscription is applied at time \<open>t\<close>, a request of
  one of the company's users to a function other than billing is refused for missing billing
  access exactly from \<open>t\<close> plus the configured grace days on.
\<close>
theorem failed_payment_grace:
  assumes "apply_event env t e s = (Inr b, s')" and "is_failed_payment (js_lower (ev_type e))"
    and "ev_companyId e = Some c" and "find_sub c s = Some x" and "c \<noteq> []"
    and "rq_user r = Some u" and "p_companyId u = Some c" and "f \<noteq> []" and "f \<noteq> ''billing''"
  shows "feature_guard t' (Some f) co us (guard_plan c s') r
           = Inl (Forbidden ''Billing access is required to continue using this function'')
         \<longleftrightarrow> t + grace_days env * 86400000 \<le> t'"
proof -
  have "js_upper ''PAST_DUE'' = ''PAST_DUE''" by code_simp
  then have "fst (entitlement t' (find_sub c s')) \<longleftrightarrow> t' < t + grace_days env * 86400000"
    by (simp add: failed_payment_row[OF assms(1-3,5,4)] entitlement_def Let_def or_str_def)
  with guard_blocks_iff[OF assms(6,7,5)] assms(8,9) show ?thesis by auto
qed

lemma b_apply:
  "apply_event None 1000 b_event b_state = (Inr True, snd (apply_event None 1000 b_event b_state))"
  by (simp add: act_simps Let_def apply_event_def or_opt_def)

lemma b_grace: "grace_days None = 7" by (simp add: grace_days_def)

theorem failed_payment_grace_witness:
  "feature_guard 604801000 (Some ''tickets'') (JObj []) (JObj []) (guard_plan ''c1'' (snd (apply_event None 1000 b_event b_state))) g_request
     = Inl (Forbidden ''Billing access is required to continue using this function'')
   \<and> feature_guard 604800999 (Some ''tickets'') (JObj []) (JObj []) (guard_plan ''c1'' (snd (apply_event None 1000 b_event b_state))) g_request
     \<noteq> Inl (Forbidden ''Billing access is required to continue using this function'')"
proof -
  have e: "ev_companyId b_event = Some ''c1''" "rq_user g_request = Some g_user" "p_companyId g_user = Some ''c1''"
    by (simp_all add: b_event_def g_request_def g_user_def)
  have f: "find_sub ''c1'' b_state = Some b_sub" by (simp add: find_sub_def b_state_def b_sub_def)
  show ?thesis
    by (simp add: b_grace failed_payment_grace[OF b_apply b_failed e(1) f _ e(2,3)])
qed

section \<open>Starting a checkout\<close>

lemma find_upsert: "sb_companyId row = c \<Longrightarrow> find_sub c (upsert_sub c (\<lambda>_. row) row s) = Some row"
proof (cases "find_sub c s")
  case None
  moreover assume "sb_companyId row = c"
  ultimately show ?thesis by (simp add: upsert_sub_def find_sub_def find_append_new)
next
  case (Some x)
  assume c: "sb_companyId row = c"
  have "find (\<lambda>y. sb_companyId y = c) (map (\<lambda>y. if sb_companyId y = c then row else y) ys) = Some row"
    if "find (\<lambda>y. sb_companyId y = c) ys = Some x" for ys
    using that c by (induction ys) (auto split: if_splits)
  then show ?thesis using Some by (simp add: upsert_sub_def find_sub_def)
qed

text \<open>
  Starting a checkout suspends the company. As soon as a checkout session has been created,
  before anything is paid and whether or not the company had an active subscription, the
  company is not entitled at any time until a later event changes its subscription.
\<close>
theorem checkout_suspends_company:
  assumes "create_checkout configured provider t company planId d s = (Inr result, s')"
  shows "\<not> fst (entitlement t' (find_sub company s'))"
proof -
  obtain s1 row where "s' = upsert_sub company (\<lambda>_. row) row s1" "sb_companyId row = company"
    "sb_status row = Some ''INCOMPLETE''"
    using assms
    by (auto simp: create_checkout_def record_checkout_consent_def act_simps Let_def of_res_def
        split: if_splits option.splits sum.splits prod.splits)
  moreover have "js_upper ''INCOMPLETE'' = ''INCOMPLETE''" by code_simp
  ultimately show ?thesis by (simp add: find_upsert entitlement_def Let_def or_str_def)
qed

definition b_options :: checkout_options where
  "b_options = \<lparr>co_userId = Some ''u1'', co_termsAccepted = True, co_termsVersion = ''2026-07-29'',
     co_privacyVersion = ''2026-07-29'', co_interval = None, co_seats = None\<rparr>"

definition b_result :: checkout_result where
  "b_result = \<lparr>cr_url = ''https://pay'', cr_sessionId = Some ''I-2'', cr_customerId = None, cr_subscriptionId = Some ''I-2''\<rparr>"

lemma b_checkout:
  "create_checkout True (\<lambda>_. Inr b_result) 5000 ''c1'' ''p1'' b_options b_state
   = (Inr b_result, snd (create_checkout True (\<lambda>_. Inr b_result) 5000 ''c1'' ''p1'' b_options b_state))"
  by (simp add: create_checkout_def record_checkout_consent_def act_simps Let_def b_options_def find_plan_def b_state_def b_plan_def)

theorem checkout_suspends_company_witness:
  "fst (entitlement 6000 (find_sub ''c1'' b_state))
   \<and> \<not> fst (entitlement 6000 (find_sub ''c1'' (snd (create_checkout True (\<lambda>_. Inr b_result) 5000 ''c1'' ''p1'' b_options b_state))))"
proof
  have "js_upper ''ACTIVE'' = ''ACTIVE''" by code_simp
  then show "fst (entitlement 6000 (find_sub ''c1'' b_state))"
    by (simp add: entitlement_def find_sub_def b_state_def b_sub_def Let_def or_str_def)
qed (rule checkout_suspends_company[OF b_checkout])

section \<open>Provider metadata\<close>

lemma dec_no_bar: "CHR ''|'' \<notin> set (dec n)"
proof
  assume "CHR ''|'' \<in> set (dec n)"
  then have "is_digit (CHR ''|'')" using dec_digits by blast
  then show False by (simp add: is_digit_def)
qed

text \<open>
  The metadata sent to the provider comes back. Parsing the custom id that a checkout wrote
  gives its company, plan, interval and seats back, as long as none of the names contains
  the separator and the whole stays within the 127 characters kept.
\<close>
theorem custom_id_round_trip:
  assumes "CHR ''|'' \<notin> set company" and "CHR ''|'' \<notin> set planId" and "CHR ''|'' \<notin> set interval"
    and "length company + length planId + length interval + length (dec seats) \<le> 124"
  shows "parse_custom_id json (Some (custom_id company planId interval seats))
           = (Some company, Some planId, Some interval, Some (int seats))"
proof -
  have c: "custom_id company planId interval seats = company @ CHR ''|'' # planId @ CHR ''|'' # interval @ CHR ''|'' # dec seats"
    using assms(4) by (simp add: custom_id_def)
  have "str_split (CHR ''|'') (custom_id company planId interval seats) = [company, planId, interval, dec seats]"
    unfolding c using assms(1-3) by (simp add: str_split_at str_split_none dec_no_bar)
  moreover have "custom_id company planId interval seats \<noteq> []" unfolding c by simp
  ultimately show ?thesis by (simp add: parse_custom_id_def or_str_def)
qed

theorem custom_id_round_trip_witness:
  "parse_custom_id (\<lambda>_. None) (Some (custom_id ''c1'' ''p1'' ''YEAR'' 25)) = (Some ''c1'', Some ''p1'', Some ''YEAR'', Some 25)"
proof -
  have "length (dec 25) \<le> 2" by (rule dec_length) simp_all
  with custom_id_round_trip[of "''c1''" "''p1''" "''YEAR''" 25 "\<lambda>_. None"] show ?thesis by simp
qed

section \<open>Usage\<close>

lemma find_usage_written:
  assumes "distinct (map us_id rs)" and "find (in_period c m p) rs = Some r"
  shows "find (in_period c m p) (map (\<lambda>q. if us_id q = us_id r then q\<lparr>us_count := n\<rparr> else q) rs) = Some (r\<lparr>us_count := n\<rparr>)"
proof -
  have "find (in_period c m p) (map (\<lambda>q. if us_id q = us_id r then q\<lparr>us_count := n\<rparr> else q) rs)
      = Some (if us_id r = us_id r then r\<lparr>us_count := n\<rparr> else r)"
    by (rule find_map_upd) (use assms in \<open>auto simp: in_period_def\<close>)
  then show ?thesis by simp
qed

lemma written_ids: "map us_id (map (\<lambda>q. if us_id q = i then q\<lparr>us_count := n\<rparr> else q) rs) = map us_id rs"
  by simp

lemma increment_once:
  assumes "distinct (map us_id (usages s))" and "uuid w 0 \<notin> us_id ` set (usages s)" and "month (now w) = month t"
    and "fst (month t) \<le> snd (month t)"
    and s'_def: "s' = snd (increment_usage month w c m s)"
  shows "get_usage month t c m s' = Suc (get_usage month t c m s) \<and> distinct (map us_id (usages s'))
     \<and> us_id ` set (usages s') \<subseteq> insert (uuid w 0) (us_id ` set (usages s))
     \<and> subs s' = subs s \<and> plans s' = plans s"
proof (cases "find_usage c m (month t) s")
  case None
  let ?r = "\<lparr>us_id = uuid w 0, us_companyId = c, us_metric = m, us_count = 0, us_start = fst (month t), us_end = snd (month t)\<rparr>"
  have f: "find (in_period c m (month t)) (usages s @ [?r]) = Some ?r"
    using None by (simp add: find_usage_def find_append_new in_period_def)
  have d: "distinct (map us_id (usages s @ [?r]))" using assms(1,2) by auto
  have s': "usages s' = map (\<lambda>q. if us_id q = us_id ?r then q\<lparr>us_count := 1\<rparr> else q) (usages s @ [?r])"
    "subs s' = subs s" "plans s' = plans s"
    unfolding s'_def using None assms(3)
    by (simp_all add: increment_usage_def get_or_create_usage_def act_simps Let_def write_count_def)
  have "map us_id (usages s') = map us_id (usages s @ [?r])" unfolding s'(1) by (rule written_ids)
  moreover have "find_usage c m (month t) s' = Some (?r\<lparr>us_count := 1\<rparr>)"
    unfolding find_usage_def s'(1) by (rule find_usage_written[OF d f])
  ultimately show ?thesis using None d s'(2,3)
    by (auto simp: get_usage_def simp flip: set_map)
next
  case (Some r)
  have s': "usages s' = map (\<lambda>q. if us_id q = us_id r then q\<lparr>us_count := us_count r + 1\<rparr> else q) (usages s)"
    "subs s' = subs s" "plans s' = plans s"
    unfolding s'_def using Some assms(3)
    by (simp_all add: increment_usage_def get_or_create_usage_def act_simps Let_def write_count_def)
  have "map us_id (usages s') = map us_id (usages s)" unfolding s'(1) by (rule written_ids)
  moreover have "find_usage c m (month t) s' = Some (r\<lparr>us_count := us_count r + 1\<rparr>)"
    unfolding find_usage_def s'(1) by (rule find_usage_written[OF assms(1) Some[unfolded find_usage_def]])
  ultimately show ?thesis using Some assms(1) s'(2,3)
    by (auto simp: get_usage_def simp flip: set_map)
qed

definition count_tickets :: "(int \<Rightarrow> int \<times> int) \<Rightarrow> string \<Rightarrow> world list \<Rightarrow> bstate \<Rightarrow> bstate" where
  "count_tickets month c ws s = fold (\<lambda>w s. snd (increment_usage month w c ''tickets'' s)) ws s"

lemma subset_insert_disjoint: "A \<subseteq> insert u B \<Longrightarrow> B \<inter> C = {} \<Longrightarrow> u \<notin> C \<Longrightarrow> A \<inter> C = {}"
  by blast

lemma count_tickets_sum:
  assumes "distinct (map us_id (usages s) @ map (\<lambda>w. uuid w 0) ws)" and "\<forall>w \<in> set ws. month (now w) = month t"
    and "fst (month t) \<le> snd (month t)"
  shows "get_usage month t c ''tickets'' (count_tickets month c ws s) = get_usage month t c ''tickets'' s + length ws
     \<and> subs (count_tickets month c ws s) = subs s \<and> plans (count_tickets month c ws s) = plans s"
  using assms
proof (induction ws arbitrary: s)
  case (Cons w ws)
  let ?s = "snd (increment_usage month w c ''tickets'' s)"
  have one: "get_usage month t c ''tickets'' ?s = Suc (get_usage month t c ''tickets'' s)" "distinct (map us_id (usages ?s))"
    "us_id ` set (usages ?s) \<subseteq> insert (uuid w 0) (us_id ` set (usages s))" "subs ?s = subs s" "plans ?s = plans s"
    using increment_once[of s w month t ?s c "''tickets''"] Cons.prems by auto
  have "(us_id ` set (usages s)) \<inter> ((\<lambda>w. uuid w 0) ` set ws) = {}" "uuid w 0 \<notin> (\<lambda>w. uuid w 0) ` set ws"
    using Cons.prems(1) by auto
  from subset_insert_disjoint[OF one(3) this]
  have "(us_id ` set (usages ?s)) \<inter> ((\<lambda>w. uuid w 0) ` set ws) = {}" .
  then have "distinct (map us_id (usages ?s) @ map (\<lambda>w. uuid w 0) ws)"
    using one(2) Cons.prems(1) by (simp only: distinct_append list.map distinct.simps set_map)
  from Cons.IH[OF this] Cons.prems(2,3)
  have "get_usage month t c ''tickets'' (count_tickets month c ws ?s) = get_usage month t c ''tickets'' ?s + length ws
     \<and> subs (count_tickets month c ws ?s) = subs ?s \<and> plans (count_tickets month c ws ?s) = plans ?s" by simp
  moreover have "count_tickets month c (w # ws) s = count_tickets month c ws ?s" by (simp add: count_tickets_def)
  ultimately show ?case using one(1,4,5) by simp
qed (simp add: count_tickets_def)

text \<open>
  The ticket limit of a plan is exact within a month. Counting \<open>n\<close> tickets one after the
  other in a month raises the month's usage by \<open>n\<close>; for a user of a company whose plan allows
  \<open>m\<close> tickets (and not -1), the limit guard then passes if and only if the usage is below \<open>m\<close>.
\<close>
theorem ticket_limit_exact:
  assumes "distinct (map us_id (usages s) @ map (\<lambda>w. uuid w 0) ws)" and "\<forall>w \<in> set ws. month (now w) = month t"
    and "fst (month t) \<le> snd (month t)"
    and "company_plan_of c s = Some (x, Some p)" and "pl_maxTickets p = Some m" and "m \<noteq> -1"
    and "rq_user r = Some u" and "p_companyId u = Some c" and "c \<noteq> []"
  shows "limit_guard month t activeUsers True False (count_tickets month c ws s) r = Inr r
         \<longleftrightarrow> int (get_usage month t c ''tickets'' s + length ws) < m"
proof -
  note n = count_tickets_sum[OF assms(1-3), of c]
  have "company_plan_of c (count_tickets month c ws s) = Some (x, Some p)"
    using n assms(4) by (simp add: company_plan_of_def find_sub_def find_plan_def)
  then show ?thesis
    using n assms(5-9) by (simp add: limit_guard_def check_ticket_limit_def check_limit_def or_str_def)
qed

theorem ticket_limit_exact_witness:
  "limit_guard (\<lambda>_. (0, 100)) 5 0 True False (count_tickets (\<lambda>_. (0, 100)) ''c1'' [b_world 1 ''a''] b_state) g_request = Inr g_request
   \<and> limit_guard (\<lambda>_. (0, 100)) 5 0 True False (count_tickets (\<lambda>_. (0, 100)) ''c1'' [b_world 1 ''a'', b_world 2 ''b''] b_state) g_request
     \<noteq> Inr g_request"
proof -
  have p: "company_plan_of ''c1'' b_state = Some (b_sub, Some b_plan)" "pl_maxTickets b_plan = Some 2"
    by (simp_all add: company_plan_of_def find_sub_def find_plan_def b_state_def b_sub_def b_plan_def)
  have u: "rq_user g_request = Some g_user" "p_companyId g_user = Some ''c1''" by (simp_all add: g_request_def g_user_def)
  have g: "get_usage (\<lambda>_. (0, 100)) 5 ''c1'' ''tickets'' b_state = 0" by (simp add: get_usage_def find_usage_def b_state_def)
  have e: "usages b_state = []" by (simp add: b_state_def)
  show ?thesis
    using ticket_limit_exact[OF _ _ _ p _ u, of "[b_world 1 ''a'']" "\<lambda>_. (0, 100)" 5 0]
      ticket_limit_exact[OF _ _ _ p _ u, of "[b_world 1 ''a'', b_world 2 ''b'']" "\<lambda>_. (0, 100)" 5 0]
    by (simp add: g e b_world_def)
qed

end
