(* ===== verification/Email_Text.thy ===== *)
theory Email_Text
  imports Credentials
begin

text \<open>
  The texts of outgoing mail (\<open>notifications/services/email-delivery.service.ts\<close>): address
  normalisation, HTML escaping, templates and their sanitising, the ticket mail, the signed
  unsubscribe and tracking links. A string is its sequence of UTF-8 bytes; regular
  expressions are written as the scanners they describe. HMAC-SHA-256 with the configured
  secret, in base 64 (URL alphabet), is the parameter \<open>mac\<close>; \<open>protocol\<close> stands for
  \<open>new URL(text).protocol\<close>, \<open>None\<close> when the constructor throws.
\<close>

section \<open>Base 64 for URLs\<close>

definition BASE64_ALPHABET :: string where
  "BASE64_ALPHABET = ''ABCDEFGHIJKLMNOPQRSTUVWXYZabcdefghijklmnopqrstuvwxyz0123456789-_''"

definition string_bytes :: "string \<Rightarrow> byte list" where
  "string_bytes s = map (\<lambda>c. of_nat (of_char c)) s"

definition bytes_string :: "byte list \<Rightarrow> string" where
  "bytes_string bs = map (\<lambda>b. char_of (unat b)) bs"

definition to_base64url :: "string \<Rightarrow> string" where
  "to_base64url s = group_text 6 BASE64_ALPHABET (concat (map (\<lambda>b. to_bits 8 (unat b)) (string_bytes s)))"

text \<open>Other characters are skipped.\<close>

definition from_base64url :: "string \<Rightarrow> string" where
  "from_base64url s = bytes_string (decode_bits (concat (map (char_bits 6 BASE64_ALPHABET) s)))"

section \<open>Addresses, colours, flags\<close>

text \<open>\<open>^[^\s@]+@[^\s@]+\.[^\s@]+$\<close>\<close>

definition email_shaped :: "string \<Rightarrow> bool" where
  "email_shaped s =
     (case str_split (CHR ''@'') s of
        [l, d] \<Rightarrow> l \<noteq> [] \<and> \<not> list_ex ch_space s
          \<and> list_ex (\<lambda>i. d ! i = CHR ''.'' \<and> 0 < i \<and> Suc i < length d) [0..<length d]
      | _ \<Rightarrow> False)"

definition normalize_email :: "string \<Rightarrow> string" where
  "normalize_email value = (let e = js_lower (js_trim value) in if email_shaped e then e else [])"

definition mask_address :: "string \<Rightarrow> string" where
  "mask_address e =
     (let ws = str_split (CHR ''@'') e in
      take 2 (hd ws) @ replicate (max 1 (length (hd ws) - 2)) (CHR ''*'') @ ''@''
        @ (if length ws > 1 then ws ! 1 else ''undefined''))"

definition hex_digit :: "char \<Rightarrow> bool" where
  "hex_digit c \<longleftrightarrow> ch_digit c \<or> ch_lower c \<in> set ''abcdef''"

definition safe_color :: "string \<Rightarrow> string" where
  "safe_color value =
     (case js_trim value of
        c # cs \<Rightarrow> if c = CHR ''#'' \<and> length cs = 6 \<and> list_all hex_digit cs then c # cs else ''#2563eb''
      | [] \<Rightarrow> ''#2563eb'')"

definition ch_type :: "char \<Rightarrow> bool" where
  "ch_type c \<longleftrightarrow> c \<in> set ''ABCDEFGHIJKLMNOPQRSTUVWXYZ_'' \<or> ch_digit c"

definition clean_event_type :: "string option \<Rightarrow> string res" where
  "clean_event_type value =
     (let clean = filter ch_type (js_upper (or_str value ''TICKET_PARTICIPANT'')) in
      if clean = [] then Inl (BadRequest ''Invalid template type'') else Inr (take 64 clean))"

section \<open>Escaping\<close>

definition replace_char :: "char \<Rightarrow> string \<Rightarrow> string \<Rightarrow> string" where
  "replace_char c new s = concat (map (\<lambda>x. if x = c then new else [x]) s)"

definition QUOT :: char where "QUOT = CHR 0x22"
definition APOS :: char where "APOS = CHR 0x27"
definition NEWLINE :: char where "NEWLINE = CHR 0x0A"

definition escape_html :: "string \<Rightarrow> string" where
  "escape_html s =
     replace_char APOS ''&#39;'' (replace_char QUOT ''&quot;'' (replace_char (CHR ''>'') ''&gt;''
       (replace_char (CHR ''<'') ''&lt;'' (replace_char (CHR ''&'') ''&amp;'' s))))"

section \<open>Templates\<close>

definition ch_word :: "char \<Rightarrow> bool" where
  "ch_word c \<longleftrightarrow> ch_lower_alnum (ch_lower c) \<or> c = CHR ''_''"

text \<open>
  \<open>text.replace(/.../g, f)\<close>: \<open>m\<close> says whether the expression matches at the start of a
  text, with what replaces the match and the text after it. The matches are never empty.
\<close>

function rewrite_all :: "(string \<Rightarrow> (string \<times> string) option) \<Rightarrow> string \<Rightarrow> string" where
  "rewrite_all m [] = []"
| "rewrite_all m (c # cs) =
     (case m (c # cs) of
        Some (new, rest) \<Rightarrow>
          if length rest \<le> length cs then new @ rewrite_all m rest else c # rewrite_all m cs
      | None \<Rightarrow> c # rewrite_all m cs)"
  by pat_completeness auto
termination by (relation "measure (\<lambda>(m, s). length s)") auto

text \<open>\<open>/\{\{(\w+)\}\}/\<close>; \<open>fill\<close> maps the key to its replacement.\<close>

definition field_match :: "(string \<Rightarrow> string) \<Rightarrow> string \<Rightarrow> (string \<times> string) option" where
  "field_match fill s =
     (let key = takeWhile ch_word (drop 2 s); rest = dropWhile ch_word (drop 2 s) in
      if starts_with s ''{{'' \<and> key \<noteq> [] \<and> starts_with rest ''}}'' then Some (fill key, drop 2 rest) else None)"

text \<open>The value of a field in the object literal; own properties only.\<close>

definition field_of :: "(string \<times> string) list \<Rightarrow> string \<Rightarrow> string" where
  "field_of vs k = or_str (map_of vs k) []"

definition replace_template :: "string \<Rightarrow> (string \<times> string) list \<Rightarrow> bool \<Rightarrow> string" where
  "replace_template template vs allowContentHtml =
     rewrite_all (field_match (\<lambda>k. if allowContentHtml \<and> k = ''content'' then field_of vs k
       else escape_html (field_of vs k))) template"

text \<open>\<open>replace(/[\r\n]+/g, ' ')\<close>\<close>

definition ch_break :: "char \<Rightarrow> bool" where
  "ch_break c \<longleftrightarrow> c = CHR 0x0D \<or> c = NEWLINE"

fun join_breaks :: "bool \<Rightarrow> string \<Rightarrow> string" where
  "join_breaks inside [] = []"
| "join_breaks inside (c # cs) =
     (if ch_break c then (if inside then [] else '' '') @ join_breaks True cs else c # join_breaks False cs)"

definition replace_subject_template :: "string \<Rightarrow> (string \<times> string) list \<Rightarrow> string" where
  "replace_subject_template template vs =
     take 255 (js_trim (join_breaks False (rewrite_all (field_match (field_of vs)) template)))"

section \<open>Sanitising\<close>

text \<open>Case-insensitive prefix; the pattern is in lower case.\<close>

definition ci_starts :: "string \<Rightarrow> string \<Rightarrow> bool" where
  "ci_starts s p \<longleftrightarrow> js_lower (take (length p) s) = p"

fun after_first :: "string \<Rightarrow> string \<Rightarrow> string option" where
  "after_first p [] = (if p = [] then Some [] else None)"
| "after_first p (c # cs) = (if ci_starts (c # cs) p then Some (drop (length p) (c # cs)) else after_first p cs)"

text \<open>\<open>/<tag[\s\S]*?<\/tag>/gi\<close>\<close>

definition element_match :: "string \<Rightarrow> string \<Rightarrow> (string \<times> string) option" where
  "element_match tag s =
     (if ci_starts s (''<'' @ tag)
      then map_option (Pair []) (after_first (''</'' @ tag @ ''>'') (drop (length tag + 1) s)) else None)"

text \<open>\<open>\son\w+\s*=\s*\<close>, and the text after it.\<close>

definition handler_start :: "string \<Rightarrow> string option" where
  "handler_start s =
     (case s of [] \<Rightarrow> None
      | c # cs \<Rightarrow>
          let word = drop 2 cs; rest = dropWhile ch_space (dropWhile ch_word word) in
          if ch_space c \<and> ci_starts cs ''on'' \<and> takeWhile ch_word word \<noteq> [] \<and> starts_with rest ''=''
            then Some (dropWhile ch_space (drop 1 rest)) else None)"

definition quoted_handler :: "string \<Rightarrow> (string \<times> string) option" where
  "quoted_handler s =
     (case handler_start s of
        Some (q # t) \<Rightarrow>
          let rest = dropWhile (\<lambda>c. c \<noteq> q \<and> \<not> ch_break c) t in
          if q \<in> {QUOT, APOS} \<and> starts_with rest [q] then Some ([], drop 1 rest) else None
      | _ \<Rightarrow> None)"

definition bare_handler :: "string \<Rightarrow> (string \<times> string) option" where
  "bare_handler s =
     (case handler_start s of
        Some t \<Rightarrow>
          let rest = dropWhile (\<lambda>c. \<not> ch_space c \<and> c \<noteq> CHR ''>'') t in
          if length rest < length t then Some ([], rest) else None
      | None \<Rightarrow> None)"

definition script_url :: "string \<Rightarrow> (string \<times> string) option" where
  "script_url s = (if ci_starts s ''javascript:'' then Some ([], drop 11 s) else None)"

definition sanitize_template_html :: "string \<Rightarrow> string" where
  "sanitize_template_html s =
     rewrite_all script_url (rewrite_all bare_handler (rewrite_all quoted_handler
       (rewrite_all (element_match ''style'') (rewrite_all (element_match ''script'') s))))"

section \<open>Signed links\<close>

type_synonym mac = "string \<Rightarrow> string"

text \<open>\<open>encodeURIComponent\<close>\<close>

definition hex_char :: "nat \<Rightarrow> char" where
  "hex_char n = ''0123456789ABCDEF'' ! n"

definition uri_component :: "string \<Rightarrow> string" where
  "uri_component s =
     concat (map (\<lambda>c. if ch_word c \<or> c \<in> set ''-.!~*()'' \<or> c = APOS then [c]
       else let n = of_char c :: nat in [CHR ''%'', hex_char (n div 16), hex_char (n mod 16)]) s)"

definition unsubscribe_token :: "mac \<Rightarrow> string \<Rightarrow> string" where
  "unsubscribe_token mac email =
     (let payload = to_base64url (normalize_email email) in payload @ ''.'' @ mac payload)"

definition verify_unsubscribe_token :: "mac \<Rightarrow> string \<Rightarrow> string option" where
  "verify_unsubscribe_token mac token =
     (case str_split (CHR ''.'') token of
        payload # signature # _ \<Rightarrow>
          if payload = [] \<or> signature = [] \<or> signature \<noteq> mac payload then None
          else Some (normalize_email (from_base64url payload))
      | _ \<Rightarrow> None)"

definition tracking_signature :: "mac \<Rightarrow> string \<Rightarrow> string \<Rightarrow> string \<Rightarrow> string" where
  "tracking_signature mac i event payload = mac (i @ ''|'' @ event @ ''|'' @ payload)"

definition verify_tracking :: "mac \<Rightarrow> string \<Rightarrow> string \<Rightarrow> string \<Rightarrow> string \<Rightarrow> bool" where
  "verify_tracking mac i event payload signature \<longleftrightarrow> signature = tracking_signature mac i event payload"

text \<open>\<open>href=(["'])(https?:\/\/[^"']+)\2([^>]*)>\<close>: quote, URL, the rest of the tag, the text after it.\<close>

definition href_here :: "string \<Rightarrow> (char \<times> string \<times> string \<times> string) option" where
  "href_here s =
     (case drop 5 s of
        q # t \<Rightarrow>
          let url = takeWhile (\<lambda>c. c \<notin> {QUOT, APOS}) t; r = drop (length url) t;
              after = takeWhile (\<lambda>c. c \<noteq> CHR ''>'') (drop 1 r);
              rest = dropWhile (\<lambda>c. c \<noteq> CHR ''>'') (drop 1 r) in
          if ci_starts s ''href='' \<and> q \<in> {QUOT, APOS}
             \<and> (ci_starts t ''http://'' \<and> length url > 7 \<or> ci_starts t ''https://'' \<and> length url > 8)
             \<and> starts_with r [q] \<and> rest \<noteq> []
          then Some (q, url, after, drop 1 rest) else None
      | [] \<Rightarrow> None)"

fun find_href :: "string \<Rightarrow> (string \<times> char \<times> string \<times> string \<times> string) option" where
  "find_href [] = None"
| "find_href (c # cs) =
     (case href_here (c # cs) of
        Some m \<Rightarrow> Some ([], m)
      | None \<Rightarrow> if c = CHR ''>'' then None else map_option (\<lambda>(b, m). (c # b, m)) (find_href cs))"

definition click_url :: "mac \<Rightarrow> string \<Rightarrow> string \<Rightarrow> string \<Rightarrow> string" where
  "click_url mac api i url =
     (let e = to_base64url url in
      api @ ''/v1/notifications/email/track/click/'' @ i @ ''?url='' @ uri_component e
        @ ''&sig='' @ uri_component (tracking_signature mac i ''CLICK'' e))"

definition link_match :: "mac \<Rightarrow> string \<Rightarrow> string \<Rightarrow> string \<Rightarrow> (string \<times> string) option" where
  "link_match mac api i s =
     (if ci_starts s ''<a'' \<and> length s > 2 \<and> ch_space (s ! 2) then
        (case find_href (dropWhile ch_space (drop 2 s)) of
           None \<Rightarrow> None
         | Some (before, q, url, after, rest) \<Rightarrow>
             Some (if starts_with url (api @ ''/v1/notifications/email/track/'')
                   then take (length s - length rest) s
                   else ''<a '' @ before @ ''href='' @ [q] @ click_url mac api i url @ [q] @ after @ ''>'', rest))
      else None)"

fun insert_before :: "string \<Rightarrow> string \<Rightarrow> string \<Rightarrow> string" where
  "insert_before p new [] = new"
| "insert_before p new (c # cs) =
     (if starts_with (c # cs) p then new @ c # cs else c # insert_before p new cs)"

definition pixel :: "mac \<Rightarrow> string \<Rightarrow> string \<Rightarrow> string" where
  "pixel mac api i =
     ''<img src='' @ [QUOT] @ api @ ''/v1/notifications/email/track/open/'' @ i @ ''?sig=''
       @ uri_component (tracking_signature mac i ''OPEN'' []) @ [QUOT] @ '' width='' @ [QUOT] @ ''1'' @ [QUOT]
       @ '' height='' @ [QUOT] @ ''1'' @ [QUOT] @ '' alt='' @ [QUOT, QUOT] @ '' style='' @ [QUOT]
       @ ''display:block;width:1px;height:1px;border:0'' @ [QUOT] @ '' />''"

definition instrument_html :: "mac \<Rightarrow> string \<Rightarrow> string \<Rightarrow> string \<Rightarrow> bool \<Rightarrow> string" where
  "instrument_html mac api i html rewriteLinks =
     insert_before ''</body>'' (pixel mac api i)
       (if rewriteLinks then rewrite_all (link_match mac api i) html else html)"

section \<open>The ticket mail\<close>

record mail_template =
  te_companyId :: string
  te_eventType :: string
  te_subject :: "string option"
  te_html :: "string option"
  te_senderName :: "string option"
  te_replyTo :: "string option"
  te_accent :: "string option"
  te_header :: "string option"
  te_footer :: "string option"
  te_enabled :: bool

text \<open>The company row, \<open>branding\<close> parsed.\<close>

record brand =
  bd_name :: "string option"
  bd_company :: "string option"
  bd_primary :: "string option"

record ticket_mail =
  tm_recipient :: string
  tm_name :: "string option"
  tm_number :: string
  tm_title :: string
  tm_action :: string
  tm_detail :: "string option"
  tm_actor :: "string option"
  tm_url :: string

record prepared =
  pp_subject :: string
  pp_html :: string
  pp_text :: string
  pp_sender :: string
  pp_replyTo :: "string option"

record mail_env =
  me_frontend :: string
  me_api :: string
  me_replyTo :: "string option"
  me_mac :: mac

definition no_template :: mail_template where
  "no_template = \<lparr>te_companyId = [], te_eventType = [], te_subject = None, te_html = None, te_senderName = None,
     te_replyTo = None, te_accent = None, te_header = None, te_footer = None, te_enabled = False\<rparr>"

text \<open>A line break and the indentation of the template literal.\<close>

definition nl :: "nat \<Rightarrow> string" where
  "nl k = NEWLINE # replicate k (CHR '' '')"

definition styled :: "string \<Rightarrow> string" where
  "styled s = '' style='' @ [QUOT] @ s @ [QUOT]"

definition trimmed_detail :: "ticket_mail \<Rightarrow> string" where
  "trimmed_detail i = js_trim (or_str (tm_detail i) [])"

definition greeting_of :: "ticket_mail \<Rightarrow> string" where
  "greeting_of i = (case trim_or_null (tm_name i) of Some n \<Rightarrow> ''Hello '' @ n @ '','' | None \<Rightarrow> ''Hello,'')"

definition mail_content :: "ticket_mail \<Rightarrow> string \<Rightarrow> string" where
  "mail_content i accent =
     nl 6 @ ''<p>'' @ escape_html (greeting_of i) @ ''</p>''
     @ nl 6 @ ''<p>An update was made to a ticket you opened or are listed as the affected contact.</p>''
     @ nl 6 @ ''<p>''
     @ nl 8 @ ''<strong>Ticket:</strong> '' @ escape_html (tm_number i) @ ''<br>''
     @ nl 8 @ ''<strong>Title:</strong> '' @ escape_html (tm_title i) @ ''<br>''
     @ nl 8 @ ''<strong>Action:</strong> '' @ escape_html (tm_action i)
     @ nl 6 @ ''</p>''
     @ nl 6 @ (if trimmed_detail i = [] then []
         else ''<p><strong>Details:</strong><br>'' @ replace_char NEWLINE ''<br>'' (escape_html (trimmed_detail i)) @ ''</p>'')
     @ nl 6 @ (if truthy (tm_actor i)
         then ''<p><strong>Updated by:</strong> '' @ escape_html (or_str (tm_actor i) []) @ ''</p>'' else [])
     @ nl 6 @ ''<p><a href='' @ [QUOT] @ escape_html (tm_url i) @ [QUOT]
       @ styled (''color:'' @ accent @ '';font-weight:600'') @ ''>View ticket</a></p>'' @ nl 4"

definition mail_page :: "string \<Rightarrow> string \<Rightarrow> string \<Rightarrow> string \<Rightarrow> string \<Rightarrow> string" where
  "mail_page accent companyName body footer unsubscribeUrl =
     ''<!doctype html>'' @ nl 6 @ ''<html><body''
     @ styled ''margin:0;background:#f4f6f8;font-family:Arial,sans-serif;color:#172033'' @ ''>''
     @ nl 8 @ ''<div'' @ styled ''max-width:640px;margin:0 auto;padding:24px 12px'' @ ''>''
     @ nl 10 @ ''<div'' @ styled (''border-top:4px solid '' @ accent @ '';background:#ffffff;padding:24px;border-radius:6px'') @ ''>''
     @ nl 12 @ ''<h2'' @ styled ''margin:0 0 20px;font-size:20px'' @ ''>'' @ escape_html companyName @ ''</h2>''
     @ nl 12 @ body
     @ nl 12 @ ''<hr'' @ styled ''border:0;border-top:1px solid #e5e7eb;margin:24px 0 16px'' @ ''>''
     @ nl 12 @ ''<p'' @ styled ''font-size:12px;color:#6b7280'' @ ''>'' @ escape_html footer @ ''</p>''
     @ nl 12 @ ''<p'' @ styled ''font-size:12px;color:#6b7280'' @ ''><a href='' @ [QUOT] @ escape_html unsubscribeUrl @ [QUOT]
       @ styled ''color:#6b7280'' @ ''>Manage email preferences or unsubscribe</a></p>''
     @ nl 10 @ ''</div>'' @ nl 8 @ ''</div>'' @ nl 6 @ ''</body></html>''"

definition text_lines :: "ticket_mail \<Rightarrow> string \<Rightarrow> string list" where
  "text_lines i unsubscribeUrl =
     filter (\<lambda>l. l \<noteq> [])
      [greeting_of i, [], ''Ticket: '' @ tm_number i, ''Title: '' @ tm_title i, ''Action: '' @ tm_action i,
       if trimmed_detail i = [] then [] else ''Details: '' @ trimmed_detail i,
       if truthy (tm_actor i) then ''Updated by: '' @ or_str (tm_actor i) [] else [],
       [], ''View ticket: '' @ tm_url i, ''Manage email preferences: '' @ unsubscribeUrl]"

definition prepare_ticket_mail :: "mail_env \<Rightarrow> brand \<Rightarrow> mail_template \<Rightarrow> ticket_mail \<Rightarrow> prepared" where
  "prepare_ticket_mail env b te i =
     (let accent = safe_color (or_str (or_opt (te_accent te) (bd_primary b)) ''#2563eb'');
          companyName = or_str (or_opt (te_header te) (or_opt (bd_company b) (bd_name b))) ''FieldserviceIT'';
          footer = or_str (te_footer te) ''This is an automated ticket notification.'';
          unsubscribeUrl = me_frontend env @ ''/unsubscribe?token=''
            @ uri_component (unsubscribe_token (me_mac env) (tm_recipient i));
          vs = [(''companyName'', companyName), (''ticketNumber'', tm_number i), (''ticketTitle'', tm_title i),
            (''action'', tm_action i), (''detail'', trimmed_detail i), (''actorName'', or_str (tm_actor i) []),
            (''ticketUrl'', tm_url i), (''greeting'', greeting_of i), (''unsubscribeUrl'', unsubscribeUrl)];
          content = mail_content i accent;
          body = (if truthy (te_html te)
            then sanitize_template_html (replace_template (or_str (te_html te) []) (vs @ [(''content'', content)]) True)
            else content) in
      \<lparr>pp_subject = (if truthy (te_subject te) then replace_subject_template (or_str (te_subject te) []) vs
          else ''Ticket '' @ tm_number i @ '': '' @ tm_action i),
       pp_html = mail_page accent companyName body footer unsubscribeUrl,
       pp_text = str_join [NEWLINE] (text_lines i unsubscribeUrl),
       pp_sender = or_str (te_senderName te) companyName,
       pp_replyTo = (if truthy (te_replyTo te) then te_replyTo te
          else if truthy (me_replyTo env) then me_replyTo env else None)\<rparr>)"

section \<open>Facts\<close>

interpretation b64: radix 6 BASE64_ALPHABET
  by unfold_locales (simp_all add: BASE64_ALPHABET_def)

lemma bytes_string_bytes [simp]: "bytes_string (string_bytes s) = s"
proof -
  have "char_of (unat (of_nat (of_char c) :: byte)) = c" for c :: char
    by (simp add: unsigned_of_nat char_of_take_bit_eq)
  then show ?thesis by (induction s) (simp_all add: bytes_string_def string_bytes_def)
qed

lemma base64url_round_trip [simp]: "from_base64url (to_base64url s) = s"
proof -
  let ?bs = "concat (map (\<lambda>b. to_bits 8 (unat b)) (string_bytes s))"
  obtain k where "k < 6" "concat (map (char_bits 6 BASE64_ALPHABET) (group_text 6 BASE64_ALPHABET ?bs)) = ?bs @ replicate k False"
    using b64.group_read by blast
  then show ?thesis using decode_bits_pad[of k "string_bytes s"]
    by (simp add: from_base64url_def to_base64url_def)
qed

lemma base64url_letters: "set (to_base64url s) \<subseteq> set BASE64_ALPHABET"
  unfolding to_base64url_def using b64.group_read by blast

text \<open>What escaping leaves.\<close>

definition markup :: "char \<Rightarrow> bool" where
  "markup c \<longleftrightarrow> c \<in> {CHR ''<'', CHR ''>'', QUOT, APOS}"

lemma filter_replace_char:
  "filter P (replace_char c new s) = concat (map (\<lambda>x. if x = c then filter P new else filter P [x]) s)"
  by (induction s) (simp_all add: replace_char_def)

lemma set_replace_char: "set (replace_char c new s) \<subseteq> set new \<union> (set s - {c})"
  by (induction s) (auto simp: replace_char_def)

lemma escape_html_plain: "filter markup (escape_html s) = []"
proof -
  note r = set_replace_char
  let ?a = "replace_char (CHR ''&'') ''&amp;'' s"
  let ?b = "replace_char (CHR ''<'') ''&lt;'' ?a"
  let ?c = "replace_char (CHR ''>'') ''&gt;'' ?b"
  let ?d = "replace_char QUOT ''&quot;'' ?c"
  have b: "CHR ''<'' \<notin> set ?b" using r[of "CHR ''<''" "''&lt;''" ?a] by auto
  have c: "CHR ''<'' \<notin> set ?c" "CHR ''>'' \<notin> set ?c" using r[of "CHR ''>''" "''&gt;''" ?b] b by auto
  have d: "CHR ''<'' \<notin> set ?d" "CHR ''>'' \<notin> set ?d" "QUOT \<notin> set ?d"
    using r[of QUOT "''&quot;''" ?c] c by (auto simp: QUOT_def)
  have "set (escape_html s) \<inter> {CHR ''<'', CHR ''>'', QUOT, APOS} = {}"
    using r[of APOS "''&#39;''" ?d] d by (auto simp: escape_html_def QUOT_def APOS_def)
  then show ?thesis by (auto simp: filter_empty_conv markup_def)
qed

end
