(* ===== verification/Email.thy ===== *)
theory Email
  imports Email_Text Principal
begin

text \<open>
  The outgoing mail queue (\<open>notifications/services/email-delivery.service.ts\<close>): queueing under
  preferences and suppressions, the workers for the queue, the daily digests and the SLA
  escalations, the administrators' operations, provider events and tracking. The SMTP
  server is a function from the message to a message id or an error text, \<open>zone_hour\<close>
  stands for \<open>Intl.DateTimeFormat\<close> (the hour of a zone, \<open>None\<close> when the zone is unknown).
  \<open>smtp_log\<close> lists the messages handed to the server, which no table records. A worker
  runs its deliveries one after the other; the code starts the 25 of a pass together, on
  distinct rows. JSON columns appear parsed, unread extra metadata, row ids of
  suppressions, preferences, notices and tracking events, the unused unsubscribe token of a
  preference row and \<open>updatedAt\<close> are left out; users exist.
\<close>

section \<open>Tables\<close>

datatype mail_status =
    QUEUED | DIGEST_PENDING | SENDING | SENT | DELIVERED | FAILED | BOUNCED | COMPLAINED | SUPPRESSED | CANCELLED

record mail =
  ml_id :: string
  ml_companyId :: "string option"
  ml_ticketId :: "string option"
  ml_userId :: "string option"
  ml_recipient :: string
  ml_name :: "string option"
  ml_type :: string
  ml_category :: string
  ml_subject :: string
  ml_html :: string
  ml_text :: "string option"
  ml_status :: mail_status
  ml_priority :: int
  ml_attempts :: nat
  ml_max :: nat
  ml_nextAt :: "int option"
  ml_sender :: "string option"
  ml_replyTo :: "string option"
  ml_suppression :: "string option"
  ml_createdAt :: int
  ml_providerId :: "string option"
  ml_error :: "string option"
  ml_sentAt :: "int option"
  ml_deliveredAt :: "int option"
  ml_openedAt :: "int option"
  ml_openCount :: nat
  ml_clickedAt :: "int option"
  ml_clickCount :: nat
  ml_bouncedAt :: "int option"
  ml_complainedAt :: "int option"
  ml_cancelledAt :: "int option"
  ml_cancelledBy :: "string option"
  ml_notifiedAt :: "int option"
  ml_resentFrom :: "string option"

record suppression =
  su_email :: string
  su_reason :: string
  su_source :: string
  su_details :: string

record pref =
  pf_userId :: string
  pf_email :: bool
  pf_push :: bool
  pf_sms :: bool
  pf_digest :: bool
  pf_events :: "(string \<times> bool) list"
  pf_hour :: "int option"
  pf_zone :: "string option"

record queue_control =
  qc_paused :: bool
  qc_reason :: "string option"
  qc_pausedAt :: "int option"
  qc_pausedBy :: "string option"

record mail_user =
  mu_id :: string
  mu_email :: "string option"
  mu_first :: "string option"
  mu_last :: "string option"
  mu_role :: string
  mu_companyId :: "string option"
  mu_active :: bool
  mu_deleted :: bool

text \<open>A ticket with the columns of its active SLA.\<close>

record sla_ticket =
  sl_id :: string
  sl_number :: string
  sl_title :: string
  sl_companyId :: "string option"
  sl_createdAt :: int
  sl_status :: string
  sl_deleted :: bool
  sl_resolved :: bool
  sl_resolutionMin :: nat
  sl_escalateMin :: "nat option"
  sl_assignedTo :: "string option"
  sl_escalateTo :: "string option"

record notice =
  nt_userId :: string
  nt_companyId :: "string option"
  nt_title :: string
  nt_body :: string

record tracked =
  tk_delivery :: string
  tk_type :: string
  tk_url :: "string option"
  tk_ipHash :: "string option"
  tk_agent :: "string option"

record mail_db =
  mails :: "mail list"
  suppressions :: "suppression list"
  mail_prefs :: "pref list"
  queue_ctl :: "queue_control option"
  escalations :: "(string \<times> string) list"
  mail_templates :: "mail_template list"
  brands :: "(string \<times> brand) list"
  mail_users :: "mail_user list"
  sla_tickets :: "sla_ticket list"
  notices :: "notice list"
  trackings :: "tracked list"
  smtp_log :: "(string list \<times> string) list"

record outgoing =
  og_to :: string
  og_subject :: string
  og_html :: string
  og_text :: string
  og_from :: "string option"
  og_replyTo :: "string option"

type_synonym 'a mailer = "(mail_db, 'a) act"
type_synonym smtp = "outgoing \<Rightarrow> string + string option"

definition find_mail :: "string \<Rightarrow> mail_db \<Rightarrow> mail option" where
  "find_mail i s = find (\<lambda>m. ml_id m = i) (mails s)"

definition set_mails :: "(mail \<Rightarrow> bool) \<Rightarrow> (mail \<Rightarrow> mail) \<Rightarrow> unit mailer" where
  "set_mails P f = writes (\<lambda>s. s\<lparr>mails := map (\<lambda>m. if P m then f m else m) (mails s)\<rparr>)"

text \<open>An update that returns \<open>affectedRows\<close>.\<close>

definition update_mails :: "(mail \<Rightarrow> bool) \<Rightarrow> (mail \<Rightarrow> mail) \<Rightarrow> nat mailer" where
  "update_mails P f =
     bindE (reads (\<lambda>s. length (filter P (mails s)))) (\<lambda>n. bindE (set_mails P f) (\<lambda>_. ret n))"

text \<open>The primary key rejects a second row.\<close>

definition insert_mail :: "mail \<Rightarrow> unit mailer" where
  "insert_mail m =
     bindE (reads (find_mail (ml_id m))) (\<lambda>old.
     bindE (guard (old = None) (ServerError ''Duplicate entry'')) (\<lambda>_.
     writes (\<lambda>s. s\<lparr>mails := mails s @ [m]\<rparr>)))"

definition set_prefs :: "string \<Rightarrow> (pref \<Rightarrow> pref) \<Rightarrow> unit mailer" where
  "set_prefs u f = writes (\<lambda>s. s\<lparr>mail_prefs := map (\<lambda>p. if pf_userId p = u then f p else p) (mail_prefs s)\<rparr>)"

text \<open>\<open>INSERT ... ON DUPLICATE KEY UPDATE\<close> on the unique address.\<close>

definition upsert_suppression :: "suppression \<Rightarrow> unit mailer" where
  "upsert_suppression x =
     writes (\<lambda>s. s\<lparr>suppressions :=
       (if list_ex (\<lambda>y. su_email y = su_email x) (suppressions s)
        then map (\<lambda>y. if su_email y = su_email x then x else y) (suppressions s)
        else suppressions s @ [x])\<rparr>)"

definition log_smtp :: "string list \<Rightarrow> string \<Rightarrow> unit mailer" where
  "log_smtp ids recipient = writes (\<lambda>s. s\<lparr>smtp_log := smtp_log s @ [(ids, recipient)]\<rparr>)"

section \<open>Roles and scopes\<close>

definition mail_scope :: "principal \<Rightarrow> string option" where
  "mail_scope u =
     (if p_role u = ''SUPER_ADMIN'' \<and> \<not> truthy (p_effective u) \<and> \<not> truthy (p_companyId u) then None
      else or_null (or_opt (p_effective u) (p_companyId u)))"

definition required_mail_scope :: "principal \<Rightarrow> string res" where
  "required_mail_scope u =
     (case mail_scope u of None \<Rightarrow> Inl (BadRequest ''Select a company context first'') | Some c \<Rightarrow> Inr c)"

definition operations_role :: "principal \<Rightarrow> unit mailer" where
  "operations_role u =
     guard (p_role u \<in> {''SUPER_ADMIN'', ''TENANT_ADMIN''})
       (Forbidden ''Email operations are restricted to administrators'')"

definition in_mail_scope :: "string option \<Rightarrow> mail \<Rightarrow> bool" where
  "in_mail_scope scope m \<longleftrightarrow> (case scope of None \<Rightarrow> True | Some c \<Rightarrow> ml_companyId m = Some c)"

definition scoped_delivery :: "string \<Rightarrow> principal \<Rightarrow> mail mailer" where
  "scoped_delivery i u =
     bindE (reads (\<lambda>s. find (\<lambda>m. ml_id m = i \<and> in_mail_scope (mail_scope u) m) (mails s))) (\<lambda>r.
     of_res (case r of None \<Rightarrow> Inl (NotFound ''Email delivery not found'') | Some m \<Rightarrow> Inr m))"

section \<open>Preferences\<close>

definition DEFAULT_EVENTS :: "(string \<times> bool) list" where
  "DEFAULT_EVENTS =
     map (\<lambda>k. (k, True)) [''ticket_created'', ''ticket_status'', ''ticket_resolution'', ''ticket_comments'',
       ''ticket_assignment'', ''ticket_attachments'', ''ticket_time'', ''dispatch'', ''automated'', ''sla'']"

definition CRITICAL_CATEGORIES :: "string set" where
  "CRITICAL_CATEGORIES = {''ticket_status'', ''ticket_resolution'', ''sla'', ''security''}"

text \<open>\<open>{ ...DEFAULT_EVENTS, ...parsed.events }\<close>\<close>

definition parse_settings :: "(string \<times> bool) list \<Rightarrow> (string \<times> bool) list" where
  "parse_settings saved = saved @ filter (\<lambda>(k, v). k \<notin> set (map fst saved)) DEFAULT_EVENTS"

definition default_pref :: "string \<Rightarrow> pref" where
  "default_pref userId = \<lparr>pf_userId = userId, pf_email = True, pf_push = True, pf_sms = False, pf_digest = False,
     pf_events = DEFAULT_EVENTS, pf_hour = Some 8, pf_zone = Some ''UTC''\<rparr>"

definition ensure_preferences :: "string \<Rightarrow> pref mailer" where
  "ensure_preferences userId =
     bindE (reads (\<lambda>s. find (\<lambda>p. pf_userId p = userId) (mail_prefs s))) (\<lambda>r.
     case r of
       Some p \<Rightarrow> ret p
     | None \<Rightarrow> bindE (writes (\<lambda>s. s\<lparr>mail_prefs := mail_prefs s @ [default_pref userId]\<rparr>)) (\<lambda>_.
         ret (default_pref userId)))"

text \<open>\<open>preferenceResponse\<close>: the row with the merged events, hour and zone.\<close>

definition preference_response :: "pref \<Rightarrow> pref" where
  "preference_response p = p\<lparr>pf_events := parse_settings (pf_events p),
     pf_hour := Some (case pf_hour p of None \<Rightarrow> 8 | Some h \<Rightarrow> h), pf_zone := Some (or_str (pf_zone p) ''UTC'')\<rparr>"

definition get_preferences :: "string \<Rightarrow> pref mailer" where
  "get_preferences userId = bindE (ensure_preferences userId) (\<lambda>p. ret (preference_response p))"

record pref_input =
  pi_email :: "bool option"
  pi_push :: "bool option"
  pi_sms :: "bool option"
  pi_digest :: "bool option"
  pi_events :: "(string \<times> bool) list"
  pi_hour :: "int option"
  pi_zone :: "string option"

type_synonym zones = "string \<Rightarrow> int \<Rightarrow> int option"

definition valid_zone :: "zones \<Rightarrow> int \<Rightarrow> string \<Rightarrow> string" where
  "valid_zone zone_hour t z =
     (let y = take 64 (if z = [] then ''UTC'' else z) in if zone_hour y t = None then ''UTC'' else y)"

definition set_key :: "string \<Rightarrow> bool \<Rightarrow> (string \<times> bool) list \<Rightarrow> (string \<times> bool) list" where
  "set_key k v es =
     (if k \<in> set (map fst es) then map (\<lambda>(x, y). if x = k then (x, v) else (x, y)) es else es @ [(k, v)])"

definition wanted_events :: "(string \<times> bool) list \<Rightarrow> (string \<times> bool) list \<Rightarrow> (string \<times> bool) list" where
  "wanted_events input saved =
     fold (\<lambda>k es. set_key k True es) [''ticket_status'', ''ticket_resolution'', ''sla'']
       (fold (\<lambda>k es. case map_of input k of None \<Rightarrow> es | Some v \<Rightarrow> set_key k v es)
          (map fst DEFAULT_EVENTS) (parse_settings saved))"

definition update_preferences :: "zones \<Rightarrow> int \<Rightarrow> string \<Rightarrow> pref_input \<Rightarrow> pref mailer" where
  "update_preferences zone_hour t userId i =
     bindE (ensure_preferences userId) (\<lambda>cur.
     bindE (set_prefs userId (\<lambda>p. p\<lparr>
         pf_email := (case pi_email i of None \<Rightarrow> pf_email cur | Some b \<Rightarrow> b),
         pf_push := (case pi_push i of None \<Rightarrow> pf_push cur | Some b \<Rightarrow> b),
         pf_sms := (case pi_sms i of None \<Rightarrow> pf_sms cur | Some b \<Rightarrow> b),
         pf_digest := (case pi_digest i of None \<Rightarrow> pf_digest cur | Some b \<Rightarrow> b),
         pf_events := wanted_events (pi_events i) (pf_events cur),
         pf_hour := Some (max 0 (min 23 (case pi_hour i of Some h \<Rightarrow> h
           | None \<Rightarrow> (case pf_hour cur of None \<Rightarrow> 8 | Some h \<Rightarrow> h)))),
         pf_zone := Some (valid_zone zone_hour t (or_str (or_opt (pi_zone i) (pf_zone cur)) ''UTC''))\<rparr>)) (\<lambda>_.
     get_preferences userId))"

definition unsubscribe :: "mac \<Rightarrow> string \<Rightarrow> string mailer" where
  "unsubscribe mac token =
     (case or_null (verify_unsubscribe_token mac token) of
        None \<Rightarrow> raise (BadRequest ''This unsubscribe link is invalid or expired'')
      | Some email \<Rightarrow>
          bindE (upsert_suppression \<lparr>su_email = email, su_reason = ''UNSUBSCRIBED'', su_source = ''RECIPIENT'',
            su_details = ''Unsubscribed using email preference link''\<rparr>) (\<lambda>_.
          bindE (reads (\<lambda>s. find (\<lambda>u. map_option js_lower (mu_email u) = Some email) (mail_users s))) (\<lambda>u.
          case u of
            None \<Rightarrow> ret (mask_address email)
          | Some x \<Rightarrow>
              bindE (ensure_preferences (mu_id x)) (\<lambda>_.
              bindE (set_prefs (mu_id x) (\<lambda>p. p\<lparr>pf_email := False\<rparr>)) (\<lambda>_.
              ret (mask_address email))))))"

definition resubscribe :: "string \<Rightarrow> string \<Rightarrow> pref mailer" where
  "resubscribe userId email =
     bindE (ensure_preferences userId) (\<lambda>_.
     bindE (set_prefs userId (\<lambda>p. p\<lparr>pf_email := True\<rparr>)) (\<lambda>_.
     bindE (writes (\<lambda>s. s\<lparr>suppressions :=
       filter (\<lambda>x. \<not> (su_email x = normalize_email email \<and> su_reason x = ''UNSUBSCRIBED'')) (suppressions s)\<rparr>)) (\<lambda>_.
     get_preferences userId)))"

section \<open>Queueing\<close>

record mail_input =
  mi_companyId :: "string option"
  mi_ticketId :: "string option"
  mi_userId :: "string option"
  mi_recipient :: string
  mi_name :: "string option"
  mi_type :: string
  mi_category :: string
  mi_subject :: string
  mi_html :: string
  mi_text :: "string option"
  mi_priority :: "int option"
  mi_sender :: "string option"
  mi_replyTo :: "string option"

text \<open>What stops a mail: a suppression reason, or the user's preferences.\<close>

definition blocked_by :: "mail_input \<Rightarrow> string option \<Rightarrow> bool" where
  "blocked_by i reason \<longleftrightarrow>
     truthy reason \<and> (mi_category i \<in> CRITICAL_CATEGORIES \<longrightarrow> reason \<noteq> Some ''UNSUBSCRIBED'')"

definition optional_disabled :: "mail_input \<Rightarrow> pref option \<Rightarrow> bool" where
  "optional_disabled i p \<longleftrightarrow>
     mi_category i \<notin> CRITICAL_CATEGORIES
     \<and> ((case p of None \<Rightarrow> False | Some x \<Rightarrow> \<not> pf_email x)
        \<or> map_of (parse_settings (case p of None \<Rightarrow> [] | Some x \<Rightarrow> pf_events x)) (mi_category i) = Some False)"

definition initial_status :: "mail_input \<Rightarrow> string option \<Rightarrow> pref option \<Rightarrow> mail_status" where
  "initial_status i reason p =
     (if blocked_by i reason \<or> optional_disabled i p then SUPPRESSED
      else if mi_category i \<notin> CRITICAL_CATEGORIES \<and> (case p of None \<Rightarrow> False | Some x \<Rightarrow> pf_digest x)
        then DIGEST_PENDING
      else QUEUED)"

definition new_mail :: "int \<Rightarrow> string \<Rightarrow> string \<Rightarrow> mail_input \<Rightarrow> string option \<Rightarrow> pref option \<Rightarrow> mail" where
  "new_mail t i recipient x reason p =
     \<lparr>ml_id = i, ml_companyId = or_null (mi_companyId x), ml_ticketId = or_null (mi_ticketId x),
      ml_userId = or_null (mi_userId x), ml_recipient = recipient, ml_name = trim_or_null (mi_name x),
      ml_type = mi_type x, ml_category = mi_category x, ml_subject = take 255 (mi_subject x),
      ml_html = mi_html x, ml_text = or_null (mi_text x), ml_status = initial_status x reason p,
      ml_priority = (case mi_priority x of
          Some n \<Rightarrow> if n = 0 then (if mi_category x \<in> CRITICAL_CATEGORIES then 90 else 50) else n
        | None \<Rightarrow> if mi_category x \<in> CRITICAL_CATEGORIES then 90 else 50),
      ml_attempts = 0, ml_max = 5, ml_nextAt = Some t,
      ml_sender = or_null (mi_sender x), ml_replyTo = or_null (mi_replyTo x),
      ml_suppression = (if blocked_by x reason then reason
        else if optional_disabled x p then Some ''PREFERENCE'' else None),
      ml_createdAt = t, ml_providerId = None, ml_error = None, ml_sentAt = None, ml_deliveredAt = None,
      ml_openedAt = None, ml_openCount = 0, ml_clickedAt = None, ml_clickCount = 0, ml_bouncedAt = None,
      ml_complainedAt = None, ml_cancelledAt = None, ml_cancelledBy = None, ml_notifiedAt = None,
      ml_resentFrom = None\<rparr>"

definition enqueue :: "int \<Rightarrow> string \<Rightarrow> mail_input \<Rightarrow> mail_status mailer" where
  "enqueue t i x =
     bindE (guard (normalize_email (mi_recipient x) \<noteq> []) (BadRequest ''A valid recipient email is required'')) (\<lambda>_.
     bindE (reads (\<lambda>s. map_option su_reason
       (find (\<lambda>y. su_email y = normalize_email (mi_recipient x)) (suppressions s)))) (\<lambda>reason.
     bindE (if truthy (mi_userId x) then bindE (ensure_preferences (or_str (mi_userId x) [])) (\<lambda>p. ret (Some p))
            else ret None) (\<lambda>p.
     bindE (insert_mail (new_mail t i (normalize_email (mi_recipient x)) x reason p)) (\<lambda>_.
     ret (initial_status x reason p)))))"

end
