(* ===== verification/Email_Ops.thy ===== *)
theory Email_Ops
  imports Email "HOL-Library.Char_ord" "HOL-Library.List_Lexorder"
begin

text \<open>
  The workers of the mail queue and the operations on queued mail: \<open>processQueue\<close>,
  \<open>processDigests\<close> and \<open>processSlaEscalations\<close> with their deliveries, cancelling, resending
  and retrying, provider events, open and click tracking, and the mail templates.
\<close>

section \<open>Deliveries\<close>

definition message_of :: "mail_env \<Rightarrow> mail \<Rightarrow> outgoing" where
  "message_of env m =
     \<lparr>og_to = ml_recipient m, og_subject = ml_subject m,
      og_html = instrument_html (me_mac env) (me_api env) (ml_id m) (ml_html m) True,
      og_text = or_str (ml_text m) [], og_from = or_null (ml_sender m), og_replyTo = or_null (ml_replyTo m)\<rparr>"

definition delay_minutes :: "nat \<Rightarrow> int" where
  "delay_minutes attempts = min 240 (2 ^ (attempts - 1) * 2)"

definition failure_notice :: "mail \<Rightarrow> string \<Rightarrow> mail_user \<Rightarrow> notice" where
  "failure_notice m err u =
     \<lparr>nt_userId = mu_id u, nt_companyId = or_null (or_opt (mu_companyId u) (ml_companyId m)),
      nt_title = ''Email delivery permanently failed'',
      nt_body = (if ml_subject m = [] then ''Email'' else ml_subject m) @ '' to ''
        @ (if ml_recipient m = [] then ''recipient'' else ml_recipient m) @ '' failed after ''
        @ dec (if ml_max m = 0 then 5 else ml_max m) @ '' attempts: '' @ take 500 err\<rparr>"

definition failure_readers :: "mail \<Rightarrow> mail_db \<Rightarrow> mail_user list" where
  "failure_readers m s =
     filter (\<lambda>u. mu_active u \<and> \<not> mu_deleted u
       \<and> (mu_role u = ''SUPER_ADMIN''
          \<or> truthy (ml_companyId m) \<and> mu_role u = ''TENANT_ADMIN'' \<and> mu_companyId u = ml_companyId m))
     (mail_users s)"

definition alert_permanent_failure :: "int \<Rightarrow> mail \<Rightarrow> string \<Rightarrow> unit mailer" where
  "alert_permanent_failure t m err =
     bindE (update_mails (\<lambda>x. ml_id x = ml_id m \<and> ml_notifiedAt x = None) (\<lambda>x. x\<lparr>ml_notifiedAt := Some t\<rparr>)) (\<lambda>n.
     if n = 0 then ret ()
     else bindE (reads (failure_readers m)) (\<lambda>us.
       forE us (\<lambda>u. writes (\<lambda>s. s\<lparr>notices := notices s @ [failure_notice m err u]\<rparr>))))"

text \<open>The claim of a row: only one worker gets a positive count for it.\<close>

definition claim_mail :: "string \<Rightarrow> nat mailer" where
  "claim_mail i =
     update_mails (\<lambda>m. ml_id m = i \<and> ml_status m \<in> {QUEUED, FAILED})
       (\<lambda>m. m\<lparr>ml_status := SENDING, ml_attempts := Suc (ml_attempts m)\<rparr>)"

definition deliver :: "mail_env \<Rightarrow> smtp \<Rightarrow> int \<Rightarrow> mail \<Rightarrow> unit mailer" where
  "deliver env send t m =
     bindE (claim_mail (ml_id m)) (\<lambda>n.
     if n = 0 then ret ()
     else bindE (log_smtp [ml_id m] (ml_recipient m)) (\<lambda>_.
       case send (message_of env m) of
         Inr mid \<Rightarrow> set_mails (\<lambda>x. ml_id x = ml_id m) (\<lambda>x. x\<lparr>ml_status := SENT, ml_providerId := or_null mid,
           ml_sentAt := Some t, ml_error := None\<rparr>)
       | Inl err \<Rightarrow>
           bindE (set_mails (\<lambda>x. ml_id x = ml_id m) (\<lambda>x. x\<lparr>ml_status := FAILED, ml_error := Some (take 2000 err),
             ml_nextAt := Some (t + delay_minutes (Suc (ml_attempts m)) * 60000)\<rparr>)) (\<lambda>_.
           if Suc (ml_attempts m) \<ge> (if ml_max m = 0 then 5 else ml_max m)
             then alert_permanent_failure t m err else ret ())))"

definition due :: "int \<Rightarrow> mail \<Rightarrow> bool" where
  "due t m \<longleftrightarrow> ml_status m \<in> {QUEUED, FAILED} \<and> ml_attempts m < ml_max m
     \<and> (case ml_nextAt m of None \<Rightarrow> True | Some n \<Rightarrow> n \<le> t)"

text \<open>\<open>ORDER BY priority DESC, createdAt ASC LIMIT 25\<close>; both sorts are stable.\<close>

definition queue_batch :: "int \<Rightarrow> mail_db \<Rightarrow> mail list" where
  "queue_batch t s = take 25 (sort_key (\<lambda>m. - ml_priority m) (sort_key ml_createdAt (filter (due t) (mails s))))"

definition queue_paused :: "mail_db \<Rightarrow> bool" where
  "queue_paused s \<longleftrightarrow> (case queue_ctl s of None \<Rightarrow> False | Some q \<Rightarrow> qc_paused q)"

definition process_queue :: "mail_env \<Rightarrow> smtp \<Rightarrow> int \<Rightarrow> unit mailer" where
  "process_queue env send t =
     bindE (reads queue_paused) (\<lambda>p.
     if p then ret () else bindE (reads (queue_batch t)) (\<lambda>batch. forE batch (deliver env send t)))"

section \<open>Digests\<close>

definition digest_item :: "mail \<Rightarrow> string" where
  "digest_item m =
     ''<li'' @ styled ''margin-bottom:10px'' @ ''><strong>'' @ escape_html (ml_subject m) @ ''</strong><br><span''
     @ styled ''color:#6b7280'' @ ''>'' @ escape_html (replace_char (CHR ''_'') '' '' (ml_type m)) @ ''</span></li>''"

definition digest_message :: "mail_env \<Rightarrow> mail \<Rightarrow> mail list \<Rightarrow> outgoing" where
  "digest_message env m ms =
     (let n = dec (length ms);
          html = ''<h2>Ticket update digest</h2><p>You have '' @ n @ '' ticket updates.</p><ul>''
            @ concat (map digest_item ms) @ ''</ul>'' in
      \<lparr>og_to = ml_recipient m,
       og_subject = n @ '' ticket update'' @ (if length ms = 1 then [] else ''s'') @ '' from FieldserviceIT'',
       og_html = foldl (\<lambda>h x. instrument_html (me_mac env) (me_api env) (ml_id x) h False) html ms,
       og_text = str_join [NEWLINE] (map (\<lambda>x. ''- '' @ ml_subject x) ms),
       og_from = ml_sender m, og_replyTo = ml_replyTo m\<rparr>)"

definition deliver_digest :: "mail_env \<Rightarrow> smtp \<Rightarrow> int \<Rightarrow> mail list \<Rightarrow> unit mailer" where
  "deliver_digest env send t ms =
     (case ms of
        [] \<Rightarrow> ret ()
      | m # _ \<Rightarrow>
          let ids = map ml_id ms in
          bindE (update_mails (\<lambda>x. ml_id x \<in> set ids \<and> ml_status x = DIGEST_PENDING)
            (\<lambda>x. x\<lparr>ml_status := SENDING, ml_attempts := Suc (ml_attempts x)\<rparr>)) (\<lambda>n.
          if n = 0 then ret ()
          else bindE (log_smtp ids (ml_recipient m)) (\<lambda>_.
            case send (digest_message env m ms) of
              Inr mid \<Rightarrow> set_mails (\<lambda>x. ml_id x \<in> set ids) (\<lambda>x. x\<lparr>ml_status := SENT,
                ml_providerId := or_null mid, ml_sentAt := Some t, ml_error := None\<rparr>)
            | Inl err \<Rightarrow> set_mails (\<lambda>x. ml_id x \<in> set ids) (\<lambda>x. x\<lparr>
                ml_status := (if ml_attempts x \<ge> ml_max x then FAILED else DIGEST_PENDING),
                ml_error := Some (take 2000 err)\<rparr>))))"

definition pref_of :: "mail \<Rightarrow> mail_db \<Rightarrow> pref option" where
  "pref_of m s = find (\<lambda>p. Some (pf_userId p) = ml_userId m) (mail_prefs s)"

definition digest_rows :: "int \<Rightarrow> mail_db \<Rightarrow> (mail \<times> pref option) list" where
  "digest_rows t s =
     map (\<lambda>m. (m, pref_of m s))
       (take 500 (sort_key ml_recipient (sort_key ml_createdAt
         (filter (\<lambda>m. ml_status m = DIGEST_PENDING \<and> ml_attempts m < ml_max m \<and> ml_createdAt m \<le> t - 900000)
            (mails s)))))"

definition digest_hour :: "zones \<Rightarrow> int \<Rightarrow> pref option \<Rightarrow> bool" where
  "digest_hour zone_hour t p \<longleftrightarrow>
     zone_hour (valid_zone zone_hour t (or_str (Option.bind p pf_zone) ''UTC'')) t
       = Some (case Option.bind p pf_hour of None \<Rightarrow> 8 | Some h \<Rightarrow> h)"

definition digest_key :: "mail \<Rightarrow> string" where
  "digest_key m = or_str (ml_userId m) (ml_recipient m) @ '':'' @ ml_recipient m"

text \<open>A \<open>Map\<close> from keys to lists, in insertion order.\<close>

fun add_group :: "'k \<Rightarrow> 'v \<Rightarrow> ('k \<times> 'v list) list \<Rightarrow> ('k \<times> 'v list) list" where
  "add_group k v [] = [(k, [v])]"
| "add_group k v ((k', vs) # gs) = (if k = k' then (k', vs @ [v]) # gs else (k', vs) # add_group k v gs)"

definition digest_groups :: "zones \<Rightarrow> int \<Rightarrow> (mail \<times> pref option) list \<Rightarrow> (string \<times> mail list) list" where
  "digest_groups zone_hour t rows =
     foldl (\<lambda>gs (m, p). if digest_hour zone_hour t p then add_group (digest_key m) m gs else gs) [] rows"

definition process_digests :: "mail_env \<Rightarrow> smtp \<Rightarrow> zones \<Rightarrow> int \<Rightarrow> unit mailer" where
  "process_digests env send zone_hour t =
     bindE (reads (digest_rows t)) (\<lambda>rows.
     forE (digest_groups zone_hour t rows) (\<lambda>(k, ms). deliver_digest env send t ms))"

section \<open>SLA escalations\<close>

text \<open>\<open>TIMESTAMPDIFF(MINUTE, a, b)\<close> truncates towards zero.\<close>

definition minutes_between :: "int \<Rightarrow> int \<Rightarrow> int" where
  "minutes_between a b = (if a \<le> b then (b - a) div 60000 else - ((a - b) div 60000))"

definition sla_rows :: "int \<Rightarrow> mail_db \<Rightarrow> sla_ticket list" where
  "sla_rows t s =
     take 250 (filter (\<lambda>x. \<not> sl_deleted x \<and> \<not> sl_resolved x \<and> sl_status x \<notin> {''RESOLVED'', ''CLOSED''}
       \<and> minutes_between (sl_createdAt x) t \<ge> int (sl_resolutionMin x * 3 div 4)) (sla_tickets s))"

definition age_minutes :: "int \<Rightarrow> sla_ticket \<Rightarrow> nat" where
  "age_minutes t x = nat ((t - sl_createdAt x) div 60000)"

definition sla_levels :: "int \<Rightarrow> sla_ticket \<Rightarrow> string list" where
  "sla_levels t x =
     (if age_minutes t x \<ge> sl_resolutionMin x then [''BREACHED''] else [''AT_RISK''])
     @ (case sl_escalateMin x of None \<Rightarrow> []
        | Some m \<Rightarrow> if 0 < m \<and> age_minutes t x \<ge> m then [''MANAGER_ESCALATION''] else [])"

definition person_name :: "mail_user \<Rightarrow> string" where
  "person_name u = str_join '' '' (filter (\<lambda>x. x \<noteq> []) [or_str (mu_first u) [], or_str (mu_last u) []])"

text \<open>Identity, address and name of a recipient.\<close>

definition recipient_of :: "mail_user \<Rightarrow> string \<times> string \<times> string" where
  "recipient_of u = (mu_id u, or_str (mu_email u) [], person_name u)"

definition joined_user :: "string option \<Rightarrow> mail_db \<Rightarrow> (string \<times> string \<times> string) list" where
  "joined_user i s =
     (case find (\<lambda>u. Some (mu_id u) = i) (mail_users s) of
        None \<Rightarrow> [] | Some u \<Rightarrow> if truthy (mu_email u) then [recipient_of u] else [])"

definition sla_recipients :: "sla_ticket \<Rightarrow> string \<Rightarrow> mail_db \<Rightarrow> (string \<times> string \<times> string) list" where
  "sla_recipients x level s =
     joined_user (sl_assignedTo x) s
     @ (if level = ''MANAGER_ESCALATION'' then joined_user (sl_escalateTo x) s else [])
     @ (if truthy (sl_companyId x)
        then map recipient_of (filter (\<lambda>u. mu_companyId u = sl_companyId x \<and> mu_role u = ''TENANT_ADMIN''
               \<and> mu_active u \<and> \<not> mu_deleted u \<and> mu_email u \<noteq> None) (mail_users s)) else [])"

text \<open>\<open>new Map(entries)\<close>: a later entry replaces the value, the key keeps its place.\<close>

fun map_set :: "'k \<Rightarrow> 'v \<Rightarrow> ('k \<times> 'v) list \<Rightarrow> ('k \<times> 'v) list" where
  "map_set k v [] = [(k, v)]"
| "map_set k v ((k', v') # es) = (if k = k' then (k, v) # es else (k', v') # map_set k v es)"

definition sla_unique :: "(string \<times> string \<times> string) list \<Rightarrow> (string \<times> string \<times> string) list" where
  "sla_unique rs = map snd (foldl (\<lambda>es r. map_set (normalize_email (fst (snd r))) r es) [] rs)"

definition sla_action :: "string \<Rightarrow> string" where
  "sla_action level =
     (if level = ''BREACHED'' then ''SLA resolution target breached''
      else if level = ''MANAGER_ESCALATION'' then ''SLA manager escalation required''
      else ''SLA resolution target at risk'')"

definition brand_of :: "string option \<Rightarrow> mail_db \<Rightarrow> brand" where
  "brand_of c s = (case c of None \<Rightarrow> \<lparr>bd_name = None, bd_company = None, bd_primary = None\<rparr>
     | Some i \<Rightarrow> (case map_of (brands s) i of
         None \<Rightarrow> \<lparr>bd_name = None, bd_company = None, bd_primary = None\<rparr> | Some b \<Rightarrow> b))"

definition template_of :: "string option \<Rightarrow> string \<Rightarrow> mail_db \<Rightarrow> mail_template" where
  "template_of c eventType s =
     (case c of None \<Rightarrow> no_template
      | Some i \<Rightarrow> (case find (\<lambda>te. te_companyId te = i \<and> te_eventType te = eventType \<and> te_enabled te) (mail_templates s) of
          None \<Rightarrow> no_template | Some te \<Rightarrow> te))"

definition prepare_mail :: "mail_env \<Rightarrow> string option \<Rightarrow> string \<Rightarrow> mail_template option \<Rightarrow> ticket_mail \<Rightarrow> prepared mailer" where
  "prepare_mail env companyId eventType override i =
     reads (\<lambda>s. prepare_ticket_mail env (brand_of (or_null companyId) s)
       (case override of Some te \<Rightarrow> te | None \<Rightarrow> template_of (or_null companyId) eventType s) i)"

definition escalation_mail :: "mail_env \<Rightarrow> sla_ticket \<Rightarrow> string \<Rightarrow> nat \<Rightarrow> string \<times> string \<times> string \<Rightarrow> ticket_mail" where
  "escalation_mail env x level age r =
     \<lparr>tm_recipient = fst (snd r), tm_name = Some (snd (snd r)), tm_number = sl_number x, tm_title = sl_title x,
      tm_action = sla_action level, tm_detail = Some (''This ticket has been open for '' @ dec age @ '' minutes.''),
      tm_actor = None, tm_url = me_frontend env @ ''/tickets/'' @ sl_id x\<rparr>"

definition escalation_input :: "sla_ticket \<Rightarrow> string \<Rightarrow> string \<times> string \<times> string \<Rightarrow> prepared \<Rightarrow> mail_input" where
  "escalation_input x level r p =
     \<lparr>mi_companyId = sl_companyId x, mi_ticketId = Some (sl_id x), mi_userId = Some (fst r),
      mi_recipient = fst (snd r), mi_name = Some (snd (snd r)), mi_type = ''SLA_'' @ level, mi_category = ''sla'',
      mi_subject = pp_subject p, mi_html = pp_html p, mi_text = Some (pp_text p), mi_priority = Some 100,
      mi_sender = Some (pp_sender p), mi_replyTo = pp_replyTo p\<rparr>"

text \<open>\<open>ids\<close> draws the mail ids, one for each ticket, level and recipient.\<close>

type_synonym mail_ids = "string \<Rightarrow> string \<Rightarrow> string \<Rightarrow> string"

definition escalate_to :: "mail_env \<Rightarrow> mail_ids \<Rightarrow> int \<Rightarrow> sla_ticket \<Rightarrow> string \<Rightarrow> nat
    \<Rightarrow> string \<times> string \<times> string \<Rightarrow> unit mailer" where
  "escalate_to env ids t x level age r =
     bindE (prepare_mail env (sl_companyId x) ''TICKET_PARTICIPANT'' None (escalation_mail env x level age r)) (\<lambda>p.
     bindE (enqueue t (ids (sl_id x) level (fst r)) (escalation_input x level r p)) (\<lambda>_. ret ()))"

definition queue_escalation :: "mail_env \<Rightarrow> mail_ids \<Rightarrow> int \<Rightarrow> sla_ticket \<Rightarrow> string \<Rightarrow> unit mailer" where
  "queue_escalation env ids t x level =
     bindE (reads (\<lambda>s. sla_unique (sla_recipients x level s))) (\<lambda>rs.
     if rs = [] then ret ()
     else bindE (reads (\<lambda>s. (sl_id x, level) \<in> set (escalations s))) (\<lambda>old.
       if old then ret ()
       else bindE (writes (\<lambda>s. s\<lparr>escalations := escalations s @ [(sl_id x, level)]\<rparr>)) (\<lambda>_.
         forE rs (escalate_to env ids t x level (age_minutes t x)))))"

text \<open>The worker catches and logs an error, which ends the pass.\<close>

definition process_escalations :: "mail_env \<Rightarrow> mail_ids \<Rightarrow> int \<Rightarrow> unit mailer" where
  "process_escalations env ids t =
     catchE (bindE (reads (sla_rows t)) (\<lambda>rows.
       forE rows (\<lambda>x. forE (sla_levels t x) (queue_escalation env ids t x)))) (\<lambda>_. ret ())"

section \<open>The administrators' operations\<close>

definition queue_state :: "principal \<Rightarrow> queue_control mailer" where
  "queue_state u =
     bindE (operations_role u) (\<lambda>_.
     reads (\<lambda>s. case queue_ctl s of
         None \<Rightarrow> \<lparr>qc_paused = False, qc_reason = None, qc_pausedAt = None, qc_pausedBy = None\<rparr>
       | Some q \<Rightarrow> q\<lparr>qc_reason := or_null (qc_reason q), qc_pausedBy := or_null (qc_pausedBy q)\<rparr>))"

definition pause_queue :: "int \<Rightarrow> principal \<Rightarrow> string option \<Rightarrow> queue_control mailer" where
  "pause_queue t u reason =
     bindE (operations_role u) (\<lambda>_.
     bindE (writes (\<lambda>s. s\<lparr>queue_ctl := Some \<lparr>qc_paused = True,
       qc_reason = or_null (Some (take 500 (js_trim (or_str reason [])))),
       qc_pausedAt = Some t, qc_pausedBy = Some (p_id u)\<rparr>\<rparr>)) (\<lambda>_.
     queue_state u))"

definition resume_queue :: "principal \<Rightarrow> queue_control mailer" where
  "resume_queue u =
     bindE (operations_role u) (\<lambda>_.
     bindE (writes (\<lambda>s. s\<lparr>queue_ctl := Some \<lparr>qc_paused = False, qc_reason = None,
       qc_pausedAt = None, qc_pausedBy = None\<rparr>\<rparr>)) (\<lambda>_.
     queue_state u))"

definition requeued :: "int \<Rightarrow> mail \<Rightarrow> mail" where
  "requeued t m = m\<lparr>ml_status := QUEUED, ml_attempts := 0, ml_nextAt := Some t, ml_error := None, ml_bouncedAt := None\<rparr>"

definition retry_all :: "int \<Rightarrow> principal \<Rightarrow> nat mailer" where
  "retry_all t u =
     bindE (operations_role u) (\<lambda>_.
     update_mails (\<lambda>m. ml_status m = FAILED \<and> in_mail_scope (mail_scope u) m)
       (\<lambda>m. (requeued t m)\<lparr>ml_complainedAt := None, ml_notifiedAt := None\<rparr>))"

definition retry_mail :: "int \<Rightarrow> string \<Rightarrow> principal \<Rightarrow> unit mailer" where
  "retry_mail t i u =
     bindE (operations_role u) (\<lambda>_.
     bindE (reads (find_mail i)) (\<lambda>r.
     case r of
       None \<Rightarrow> raise (NotFound ''Email delivery not found'')
     | Some m \<Rightarrow>
         bindE (guard (in_mail_scope (mail_scope u) m) (NotFound ''Email delivery not found'')) (\<lambda>_.
         bindE (guard (ml_status m = FAILED) (BadRequest ''Only failed deliveries can be retried'')) (\<lambda>_.
         set_mails (\<lambda>x. ml_id x = i) (requeued t)))))"

definition cancel_mail :: "int \<Rightarrow> string \<Rightarrow> principal \<Rightarrow> unit mailer" where
  "cancel_mail t i u =
     bindE (operations_role u) (\<lambda>_.
     bindE (scoped_delivery i u) (\<lambda>m.
     bindE (guard (ml_status m \<in> {QUEUED, DIGEST_PENDING, FAILED})
       (BadRequest ''Only queued, digest-pending, or failed email can be cancelled'')) (\<lambda>_.
     set_mails (\<lambda>x. ml_id x = i) (\<lambda>x. x\<lparr>ml_status := CANCELLED, ml_cancelledAt := Some t,
       ml_cancelledBy := Some (p_id u)\<rparr>))))"

definition resent :: "int \<Rightarrow> string \<Rightarrow> mail \<Rightarrow> mail" where
  "resent t i m =
     \<lparr>ml_id = i, ml_companyId = or_null (ml_companyId m), ml_ticketId = or_null (ml_ticketId m),
      ml_userId = or_null (ml_userId m), ml_recipient = ml_recipient m, ml_name = or_null (ml_name m),
      ml_type = ml_type m, ml_category = ml_category m, ml_subject = ml_subject m, ml_html = ml_html m,
      ml_text = or_null (ml_text m), ml_status = QUEUED, ml_priority = ml_priority m, ml_attempts = 0,
      ml_max = ml_max m, ml_nextAt = Some t, ml_sender = ml_sender m, ml_replyTo = ml_replyTo m,
      ml_suppression = ml_suppression m, ml_createdAt = t, ml_providerId = None, ml_error = None,
      ml_sentAt = None, ml_deliveredAt = None, ml_openedAt = None, ml_openCount = 0, ml_clickedAt = None,
      ml_clickCount = 0, ml_bouncedAt = None, ml_complainedAt = None, ml_cancelledAt = None,
      ml_cancelledBy = None, ml_notifiedAt = None, ml_resentFrom = Some (ml_id m)\<rparr>"

definition resend_mail :: "int \<Rightarrow> string \<Rightarrow> string \<Rightarrow> principal \<Rightarrow> unit mailer" where
  "resend_mail t newId i u =
     bindE (operations_role u) (\<lambda>_.
     bindE (scoped_delivery i u) (\<lambda>m.
     bindE (guard (ml_status m \<notin> {QUEUED, DIGEST_PENDING, SENDING})
       (BadRequest ''This email is already pending delivery'')) (\<lambda>_.
     insert_mail (resent t newId m))))"

definition ticket_history :: "string \<Rightarrow> mail_db \<Rightarrow> mail list" where
  "ticket_history ticketId s =
     take 100 (sort_key (\<lambda>m. - ml_createdAt m) (filter (\<lambda>m. ml_ticketId m = Some ticketId) (mails s)))"

section \<open>Provider events and tracking\<close>

record provider_event =
  pe_event :: string
  pe_delivery :: "string option"
  pe_message :: "string option"
  pe_email :: "string option"
  pe_reason :: "string option"
  pe_details :: "string option"

definition event_targets :: "provider_event \<Rightarrow> mail_db \<Rightarrow> mail list" where
  "event_targets e s =
     (let hit = (if truthy (pe_delivery e) then (\<lambda>m. Some (ml_id m) = pe_delivery e)
                 else if truthy (pe_message e) then (\<lambda>m. ml_providerId m = pe_message e)
                 else (\<lambda>m. ml_recipient m = normalize_email (or_str (pe_email e) []))) in
      take (if truthy (pe_delivery e) \<or> truthy (pe_message e) then 100 else 1)
        (sort_key (\<lambda>m. - ml_createdAt m) (filter hit (mails s))))"

definition record_provider_event :: "int \<Rightarrow> provider_event \<Rightarrow> nat mailer" where
  "record_provider_event t e =
     (let event = js_upper (js_trim (pe_event e)) in
      bindE (guard (event \<in> {''DELIVERED'', ''BOUNCE'', ''COMPLAINT''}) (BadRequest ''Unsupported email event'')) (\<lambda>_.
      bindE (guard (truthy (pe_delivery e) \<or> truthy (pe_message e) \<or> normalize_email (or_str (pe_email e) []) \<noteq> [])
        (BadRequest ''deliveryId, messageId, or email is required'')) (\<lambda>_.
      bindE (reads (event_targets e)) (\<lambda>rows.
      let ids = map ml_id rows;
          detail = take 2000 (or_str (or_opt (pe_details e) (pe_reason e)) (''Provider reported '' @ js_lower event)) in
      if rows = [] then ret 0
      else if event = ''DELIVERED''
        then bindE (set_mails (\<lambda>m. ml_id m \<in> set ids \<and> ml_status m \<in> {SENT, DELIVERED})
               (\<lambda>m. m\<lparr>ml_status := DELIVERED,
                 ml_deliveredAt := (case ml_deliveredAt m of None \<Rightarrow> Some t | Some d \<Rightarrow> Some d)\<rparr>)) (\<lambda>_.
             ret (length rows))
        else bindE (set_mails (\<lambda>m. ml_id m \<in> set ids)
               (\<lambda>m. if event = ''COMPLAINT''
                  then m\<lparr>ml_status := COMPLAINED, ml_complainedAt := Some t, ml_error := Some detail\<rparr>
                  else m\<lparr>ml_status := BOUNCED, ml_bouncedAt := Some t, ml_error := Some detail\<rparr>)) (\<lambda>_.
             bindE (forE (remdups (filter (\<lambda>r. r \<noteq> []) (map ml_recipient rows))) (\<lambda>r.
               upsert_suppression \<lparr>su_email = r, su_reason = event, su_source = ''PROVIDER_WEBHOOK'', su_details = detail\<rparr>)) (\<lambda>_.
             ret (length rows)))))))"

definition record_tracking :: "(string \<Rightarrow> string) \<Rightarrow> string \<Rightarrow> string \<Rightarrow> string option \<Rightarrow> string option \<Rightarrow> string option \<Rightarrow> unit mailer" where
  "record_tracking ip_hash i event url ip agent =
     writes (\<lambda>s. s\<lparr>trackings := trackings s @ [\<lparr>tk_delivery = i, tk_type = event, tk_url = or_null url,
       tk_ipHash = (if truthy ip then map_option ip_hash ip else None),
       tk_agent = or_null (Some (take 500 (or_str agent [])))\<rparr>]\<rparr>)"

definition record_open :: "mac \<Rightarrow> (string \<Rightarrow> string) \<Rightarrow> int \<Rightarrow> string \<Rightarrow> string \<Rightarrow> string option \<Rightarrow> string option \<Rightarrow> bool mailer" where
  "record_open mac ip_hash t i signature ip agent =
     (if \<not> verify_tracking mac i ''OPEN'' [] signature then ret False
      else bindE (update_mails (\<lambda>m. ml_id m = i) (\<lambda>m. m\<lparr>ml_openCount := ml_openCount m + 1,
        ml_openedAt := (case ml_openedAt m of None \<Rightarrow> Some t | Some d \<Rightarrow> Some d)\<rparr>)) (\<lambda>n.
      if n = 0 then ret False
      else bindE (record_tracking ip_hash i ''OPEN'' None ip agent) (\<lambda>_. ret True)))"

definition record_click :: "mac \<Rightarrow> (string \<Rightarrow> string option) \<Rightarrow> (string \<Rightarrow> string) \<Rightarrow> int \<Rightarrow> string \<Rightarrow> string \<Rightarrow> string
    \<Rightarrow> string option \<Rightarrow> string option \<Rightarrow> string option mailer" where
  "record_click mac protocol ip_hash t i encodedUrl signature ip agent =
     (if \<not> verify_tracking mac i ''CLICK'' encodedUrl signature then ret None
      else let targetUrl = from_base64url encodedUrl in
        if protocol targetUrl \<notin> {Some ''http:'', Some ''https:''} then ret None
        else bindE (update_mails (\<lambda>m. ml_id m = i) (\<lambda>m. m\<lparr>ml_clickCount := ml_clickCount m + 1,
          ml_clickedAt := (case ml_clickedAt m of None \<Rightarrow> Some t | Some d \<Rightarrow> Some d)\<rparr>)) (\<lambda>n.
        if n = 0 then ret None
        else bindE (record_tracking ip_hash i ''CLICK'' (Some targetUrl) ip agent) (\<lambda>_. ret (Some targetUrl))))"

section \<open>Templates\<close>

definition get_template :: "principal \<Rightarrow> string option \<Rightarrow> mail_template mailer" where
  "get_template u eventType =
     bindE (operations_role u) (\<lambda>_.
     bindE (of_res (required_mail_scope u)) (\<lambda>c.
     bindE (of_res (clean_event_type eventType)) (\<lambda>ty.
     reads (\<lambda>s. case find (\<lambda>te. te_companyId te = c \<and> te_eventType te = ty) (mail_templates s) of
         Some te \<Rightarrow> te
       | None \<Rightarrow> \<lparr>te_companyId = c, te_eventType = ty, te_subject = Some ''Ticket {{ticketNumber}}: {{action}}'',
           te_html = Some [], te_senderName = Some [], te_replyTo = Some [], te_accent = Some ''#2563eb'',
           te_header = Some [], te_footer = Some ''This is an automated ticket notification.'', te_enabled = True\<rparr>))))"

text \<open>\<open>i\<close> is the request body; \<open>te_enabled i\<close> is \<open>enabled !== false\<close>.\<close>

definition upsert_template :: "principal \<Rightarrow> string option \<Rightarrow> mail_template \<Rightarrow> mail_template mailer" where
  "upsert_template u eventType i =
     bindE (operations_role u) (\<lambda>_.
     bindE (of_res (required_mail_scope u)) (\<lambda>c.
     bindE (of_res (clean_event_type eventType)) (\<lambda>ty.
     let row = \<lparr>te_companyId = c, te_eventType = ty,
           te_subject = or_null (Some (take 255 (or_str (te_subject i) []))),
           te_html = or_null (te_html i),
           te_senderName = or_null (Some (take 191 (or_str (te_senderName i) []))),
           te_replyTo = or_null (Some (normalize_email (or_str (te_replyTo i) []))),
           te_accent = Some (safe_color (or_str (te_accent i) ''#2563eb'')),
           te_header = or_null (Some (take 255 (or_str (te_header i) []))),
           te_footer = or_null (Some (take 500 (or_str (te_footer i) []))),
           te_enabled = te_enabled i\<rparr> in
     bindE (writes (\<lambda>s. s\<lparr>mail_templates :=
       (if list_ex (\<lambda>te. te_companyId te = c \<and> te_eventType te = ty) (mail_templates s)
        then map (\<lambda>te. if te_companyId te = c \<and> te_eventType te = ty then row else te) (mail_templates s)
        else mail_templates s @ [row])\<rparr>)) (\<lambda>_.
     get_template u (Some ty)))))"

definition preview_mail :: "mail_env \<Rightarrow> principal \<Rightarrow> ticket_mail" where
  "preview_mail env u =
     \<lparr>tm_recipient = p_email u, tm_name = Some ''Jordan Taylor'', tm_number = ''TKT-PREVIEW-1042'',
      tm_title = ''Unable to connect to the office VPN'', tm_action = ''Technician added a public reply'',
      tm_detail = Some ''We reviewed the connection logs and updated the VPN profile. Please reconnect and confirm access.'',
      tm_actor = Some ''Alex Morgan'', tm_url = me_frontend env @ ''/tickets/preview''\<rparr>"

definition preview_template :: "mail_env \<Rightarrow> principal \<Rightarrow> string option \<Rightarrow> mail_template \<Rightarrow> prepared mailer" where
  "preview_template env u eventType i =
     bindE (operations_role u) (\<lambda>_.
     bindE (of_res (required_mail_scope u)) (\<lambda>c.
     bindE (of_res (clean_event_type eventType)) (\<lambda>ty.
     prepare_mail env (Some c) ty
       (Some (i\<lparr>te_accent := Some (safe_color (or_str (te_accent i) ''#2563eb''))\<rparr>)) (preview_mail env u))))"

end
