(* ===== verification/Email_Props.thy ===== *)
theory Email_Props
  imports Email_Ops
begin

text \<open>
  Properties of the mail queue. A pass of the queue worker is characterised as one pointwise
  update of the table; what it does to the work left, and which mails are final, follows.
\<close>

section \<open>One pass of the worker\<close>

definition max_attempts :: "mail \<Rightarrow> nat" where
  "max_attempts m = (if ml_max m = 0 then 5 else ml_max m)"

definition pass_result :: "mail_env \<Rightarrow> smtp \<Rightarrow> int \<Rightarrow> mail \<Rightarrow> mail" where
  "pass_result env send t m =
     (case send (message_of env m) of
        Inr mid \<Rightarrow> m\<lparr>ml_status := SENT, ml_attempts := Suc (ml_attempts m), ml_providerId := or_null mid,
          ml_sentAt := Some t, ml_error := None\<rparr>
      | Inl err \<Rightarrow> m\<lparr>ml_status := FAILED, ml_attempts := Suc (ml_attempts m), ml_error := Some (take 2000 err),
          ml_nextAt := Some (t + delay_minutes (Suc (ml_attempts m)) * 60000),
          ml_notifiedAt := (if Suc (ml_attempts m) \<ge> max_attempts m \<and> ml_notifiedAt m = None then Some t
            else ml_notifiedAt m)\<rparr>)"

lemma pass_result_id [simp]: "ml_id (pass_result env send t m) = ml_id m"
  by (simp add: pass_result_def split: sum.split)

lemma forE_notices: "\<exists>ns. forE us (\<lambda>u. writes (\<lambda>s. s\<lparr>notices := notices s @ [f u]\<rparr>)) s = (Inr (), s\<lparr>notices := ns\<rparr>)"
proof (induction us arbitrary: s)
  case Nil
  show ?case by (rule exI[of _ "notices s"]) (simp add: act_simps)
next
  case (Cons u us)
  from Cons[of "s\<lparr>notices := notices s @ [f u]\<rparr>"] show ?case by (auto simp: act_simps)
qed

lemma update_count: "update_mails P f s = (Inr (length (filter P (mails s))), s\<lparr>mails := map (\<lambda>m. if P m then f m else m) (mails s)\<rparr>)"
  by (simp add: update_mails_def set_mails_def act_simps)

lemma same_id: "distinct (map ml_id ms) \<Longrightarrow> m \<in> set ms \<Longrightarrow> x \<in> set ms \<Longrightarrow> ml_id x = ml_id m \<Longrightarrow> x = m"
  by (meson distinct_map inj_on_def)

lemma alert_effect:
  "\<exists>ns. alert_permanent_failure t m err s = (Inr (), s\<lparr>mails := map (\<lambda>x. if ml_id x = ml_id m \<and> ml_notifiedAt x = None
     then x\<lparr>ml_notifiedAt := Some t\<rparr> else x) (mails s), notices := ns\<rparr>)"
proof (cases "filter (\<lambda>x. ml_id x = ml_id m \<and> ml_notifiedAt x = None) (mails s) = []")
  case True
  then have "alert_permanent_failure t m err s = (Inr (), s\<lparr>mails := map (\<lambda>x. if ml_id x = ml_id m \<and> ml_notifiedAt x = None
     then x\<lparr>ml_notifiedAt := Some t\<rparr> else x) (mails s), notices := notices s\<rparr>)"
    by (simp add: alert_permanent_failure_def update_count act_simps)
  then show ?thesis by blast
next
  case False
  let ?s = "s\<lparr>mails := map (\<lambda>x. if ml_id x = ml_id m \<and> ml_notifiedAt x = None
     then x\<lparr>ml_notifiedAt := Some t\<rparr> else x) (mails s)\<rparr>"
  obtain ns where "forE (failure_readers m ?s) (\<lambda>u. writes (\<lambda>s. s\<lparr>notices := notices s @ [failure_notice m err u]\<rparr>)) ?s
      = (Inr (), ?s\<lparr>notices := ns\<rparr>)"
    using forE_notices by blast
  with False show ?thesis by (simp add: alert_permanent_failure_def update_count act_simps) blast
qed

lemma count_Suc: "m \<in> set xs \<Longrightarrow> P m \<Longrightarrow> \<exists>n. length (filter P xs) = Suc n"
  by (induction xs) auto

lemma deliver_effect:
  assumes d: "distinct (map ml_id (mails s))" and m: "m \<in> set (mails s)" "ml_status m \<in> {QUEUED, FAILED}"
  shows "\<exists>ns. deliver env send t m s = (Inr (), s\<lparr>mails := map (\<lambda>x. if ml_id x = ml_id m then pass_result env send t x else x) (mails s),
    smtp_log := smtp_log s @ [([ml_id m], ml_recipient m)], notices := ns\<rparr>)"
proof -
  let ?c = "\<lambda>x. if ml_id x = ml_id m \<and> ml_status x \<in> {QUEUED, FAILED}
      then x\<lparr>ml_status := SENDING, ml_attempts := Suc (ml_attempts x)\<rparr> else x"
  let ?s = "s\<lparr>mails := map ?c (mails s), smtp_log := smtp_log s @ [([ml_id m], ml_recipient m)]\<rparr>"
  have claim: "\<exists>n. claim_mail (ml_id m) s = (Inr (Suc n), s\<lparr>mails := map ?c (mails s)\<rparr>)"
    using count_Suc[of m "mails s" "\<lambda>x. ml_id x = ml_id m \<and> ml_status x \<in> {QUEUED, FAILED}"] m
    unfolding claim_mail_def update_count by auto
  have eq: "x = m" if "x \<in> set (mails s)" "ml_id x = ml_id m" for x using same_id[OF d m(1) that] .
  show ?thesis
  proof (cases "send (message_of env m)")
    case (Inr mid)
    have "map (\<lambda>x. if ml_id x = ml_id m then x\<lparr>ml_status := SENT, ml_providerId := or_null mid,
           ml_sentAt := Some t, ml_error := None\<rparr> else x) (map ?c (mails s))
       = map (\<lambda>x. if ml_id x = ml_id m then pass_result env send t x else x) (mails s)"
      using m(2) by (auto simp: pass_result_def Inr dest: eq)
    with claim Inr show ?thesis
      by (auto simp: deliver_def act_simps log_smtp_def set_mails_def intro!: exI[of _ "notices s"])
  next
    case (Inl err)
    let ?f = "\<lambda>x. if ml_id x = ml_id m then x\<lparr>ml_status := FAILED, ml_error := Some (take 2000 err),
        ml_nextAt := Some (t + delay_minutes (Suc (ml_attempts m)) * 60000)\<rparr> else x"
    let ?t = "?s\<lparr>mails := map ?f (map ?c (mails s))\<rparr>"
    have run: "deliver env send t m s = (if Suc (ml_attempts m) \<ge> max_attempts m
        then alert_permanent_failure t m err ?t else (Inr (), ?t))"
      using claim Inl by (cases "max_attempts m \<le> Suc (ml_attempts m)")
        (auto simp: deliver_def act_simps log_smtp_def set_mails_def max_attempts_def)
    show ?thesis
    proof (cases "Suc (ml_attempts m) \<ge> max_attempts m")
      case True
      let ?g = "\<lambda>x. if ml_id x = ml_id m \<and> ml_notifiedAt x = None then x\<lparr>ml_notifiedAt := Some t\<rparr> else x"
      obtain ns where n: "alert_permanent_failure t m err ?t = (Inr (), ?t\<lparr>mails := map ?g (mails ?t), notices := ns\<rparr>)"
        using alert_effect by blast
      have e: "map ?g (mails ?t) = map (\<lambda>x. if ml_id x = ml_id m then pass_result env send t x else x) (mails s)"
        using m(2) True by (auto simp: pass_result_def Inl dest: eq)
      have "deliver env send t m s = (Inr (), s\<lparr>mails := map (\<lambda>x. if ml_id x = ml_id m then pass_result env send t x else x) (mails s),
          smtp_log := smtp_log s @ [([ml_id m], ml_recipient m)], notices := ns\<rparr>)"
        using run True n unfolding e by simp
      then show ?thesis by blast
    next
      case False
      have "mails ?t = map (\<lambda>x. if ml_id x = ml_id m then pass_result env send t x else x) (mails s)"
        using m(2) False by (auto simp: pass_result_def Inl dest: eq)
      with run False show ?thesis by (auto intro!: exI[of _ "notices s"])
    qed
  qed
qed

definition in_queue :: "mail \<Rightarrow> bool" where
  "in_queue m \<longleftrightarrow> ml_status m \<in> {QUEUED, FAILED}"

lemma batch_effect:
  assumes "distinct (map ml_id (mails s))" "distinct (map ml_id ms)" "set ms \<subseteq> set (mails s)" "list_all in_queue ms"
  shows "\<exists>ns. forE ms (deliver env send t) s = (Inr (), s\<lparr>
    mails := map (\<lambda>x. if ml_id x \<in> ml_id ` set ms then pass_result env send t x else x) (mails s),
    smtp_log := smtp_log s @ map (\<lambda>m. ([ml_id m], ml_recipient m)) ms, notices := ns\<rparr>)"
  using assms
proof (induction ms arbitrary: s)
  case Nil
  show ?case by (rule exI[of _ "notices s"]) (simp add: act_simps)
next
  case (Cons m ms)
  obtain ns where d: "deliver env send t m s = (Inr (), s\<lparr>mails := map (\<lambda>x. if ml_id x = ml_id m then pass_result env send t x else x) (mails s),
      smtp_log := smtp_log s @ [([ml_id m], ml_recipient m)], notices := ns\<rparr>)" (is "_ = (_, ?s)")
    using deliver_effect[of s m env send t] Cons.prems by (auto simp: in_queue_def)
  have "map ml_id (mails ?s) = map ml_id (mails s)" by simp
  with Cons.prems(1) have u: "distinct (map ml_id (mails ?s))" by metis
  have sub: "set ms \<subseteq> set (mails ?s)"
  proof
    fix x assume "x \<in> set ms"
    with Cons.prems have "x \<in> set (mails s)" "ml_id x \<noteq> ml_id m" by (auto simp: image_iff)
    then show "x \<in> set (mails ?s)" by (auto simp: image_iff intro: bexI[of _ x])
  qed
  have ms: "distinct (map ml_id ms)" "list_all in_queue ms" using Cons.prems by simp_all
  obtain ns' where
    i: "forE ms (deliver env send t) ?s = (Inr (), ?s\<lparr>
      mails := map (\<lambda>x. if ml_id x \<in> ml_id ` set ms then pass_result env send t x else x) (mails ?s),
      smtp_log := smtp_log ?s @ map (\<lambda>m. ([ml_id m], ml_recipient m)) ms, notices := ns'\<rparr>)"
    using Cons.IH[OF u ms(1) sub ms(2)] by blast
  have e: "map (\<lambda>x. if ml_id x \<in> ml_id ` set ms then pass_result env send t x else x) (mails ?s)
      = map (\<lambda>x. if ml_id x \<in> ml_id ` set (m # ms) then pass_result env send t x else x) (mails s)"
    using Cons.prems(2) by auto
  from i have "forE (m # ms) (deliver env send t) s = (Inr (), s\<lparr>
    mails := map (\<lambda>x. if ml_id x \<in> ml_id ` set (m # ms) then pass_result env send t x else x) (mails s),
    smtp_log := smtp_log s @ map (\<lambda>m. ([ml_id m], ml_recipient m)) (m # ms), notices := ns'\<rparr>)"
    unfolding e by (simp add: bindE_def d)
  then show ?case by blast
qed

lemma queue_batch_props:
  assumes "distinct (map ml_id (mails s))"
  shows "distinct (map ml_id (queue_batch t s))" "set (queue_batch t s) \<subseteq> {m \<in> set (mails s). due t m}"
    "length (queue_batch t s) = min 25 (length (filter (due t) (mails s)))"
proof -
  let ?sorted = "sort_key (\<lambda>m. - ml_priority m) (sort_key ml_createdAt (filter (due t) (mails s)))"
  have "distinct (mails s)" using assms by (simp add: distinct_map)
  then have "distinct ?sorted" by simp
  moreover have "inj_on ml_id (set ?sorted)" using assms by (auto simp: distinct_map inj_on_def)
  ultimately have "distinct (map ml_id ?sorted)" by (simp add: distinct_map)
  then show "distinct (map ml_id (queue_batch t s))" unfolding queue_batch_def take_map[symmetric] by (rule distinct_take)
  show "set (queue_batch t s) \<subseteq> {m \<in> set (mails s). due t m}"
    unfolding queue_batch_def by (rule subset_trans[OF set_take_subset]) auto
qed (simp add: queue_batch_def)

definition after_pass :: "mail_env \<Rightarrow> smtp \<Rightarrow> int \<Rightarrow> mail_db \<Rightarrow> mail \<Rightarrow> mail" where
  "after_pass env send t s x =
     (if \<not> queue_paused s \<and> x \<in> set (queue_batch t s) then pass_result env send t x else x)"

lemma pass_effect:
  assumes "distinct (map ml_id (mails s))"
  shows "\<exists>ns. process_queue env send t s = (Inr (), s\<lparr>mails := map (after_pass env send t s) (mails s),
    smtp_log := smtp_log s @ (if queue_paused s then [] else map (\<lambda>m. ([ml_id m], ml_recipient m)) (queue_batch t s)),
    notices := ns\<rparr>)"
proof (cases "queue_paused s")
  case True
  then have "after_pass env send t s = (\<lambda>x. x)" by (auto simp: after_pass_def)
  with True show ?thesis by (intro exI[of _ "notices s"]) (simp add: process_queue_def act_simps)
next
  case False
  note b = queue_batch_props[OF assms, of t]
  have sub: "set (queue_batch t s) \<subseteq> set (mails s)" using b(2) by auto
  have q: "list_all in_queue (queue_batch t s)" using b(2) by (auto simp: list_all_iff due_def in_queue_def)
  have "ml_id x \<in> ml_id ` set (queue_batch t s) \<longleftrightarrow> x \<in> set (queue_batch t s)" if "x \<in> set (mails s)" for x
    using sub same_id[OF assms _ that] by auto
  then have "map (\<lambda>x. if ml_id x \<in> ml_id ` set (queue_batch t s) then pass_result env send t x else x) (mails s)
      = map (after_pass env send t s) (mails s)"
    using False by (simp add: after_pass_def)
  with batch_effect[OF assms b(1) sub q, of env send t] False show ?thesis
    by (simp add: process_queue_def bindE_def reads_def)
qed

lemma after_pass_id [simp]: "ml_id (after_pass env send t s x) = ml_id x"
  by (simp add: after_pass_def)

text \<open>
  C21. A pass of the queue worker is one pointwise update. With distinct mail ids, the pass
  returns without an error, hands the server exactly the mails of the batch, once each and in
  the order of the batch, and rewrites exactly their rows: \<open>SENT\<close> with the message id the
  server gave, or \<open>FAILED\<close> with the error and the next attempt after the doubling delay (at
  most four hours), alerted when the attempts are used up. A paused queue hands out nothing.
\<close>
theorem process_queue_effect:
  assumes "distinct (map ml_id (mails s))" and "process_queue env send t s = (r, s')"
  shows "r = Inr () \<and> mails s' = map (after_pass env send t s) (mails s)
    \<and> smtp_log s' = smtp_log s
        @ (if queue_paused s then [] else map (\<lambda>m. ([ml_id m], ml_recipient m)) (queue_batch t s))"
  using pass_effect[OF assms(1), of env send t] assms(2) by auto

section \<open>The work left\<close>

definition attempts_left :: "mail \<Rightarrow> nat" where
  "attempts_left m = (if in_queue m then ml_max m - ml_attempts m else 0)"

definition pending_work :: "mail_db \<Rightarrow> nat" where
  "pending_work s = sum_list (map attempts_left (mails s))"

fun run_passes :: "mail_env \<Rightarrow> (smtp \<times> int) list \<Rightarrow> mail_db \<Rightarrow> mail_db" where
  "run_passes env [] s = s"
| "run_passes env ((send, t) # ps) s = run_passes env ps (snd (process_queue env send t s))"

lemma sum_list_drop:
  "(\<And>x. x \<in> set xs \<Longrightarrow> g x + (if P x then 1 else 0) \<le> f x) \<Longrightarrow>
     sum_list (map g xs) + length (filter P xs) \<le> (sum_list (map f xs) :: nat)"
proof (induction xs)
  case (Cons x xs)
  from Cons.IH Cons.prems have "sum_list (map g xs) + length (filter P xs) \<le> sum_list (map f xs)" by simp
  moreover have "g x + (if P x then 1 else 0) \<le> f x" using Cons.prems by simp
  ultimately show ?case by (simp split: if_splits)
qed simp

lemma batch_length:
  assumes "distinct (map ml_id (mails s))"
  shows "length (queue_batch t s) = length (filter (\<lambda>x. x \<in> set (queue_batch t s)) (mails s))"
proof -
  note b = queue_batch_props[OF assms, of t]
  have "distinct (queue_batch t s)" "distinct (mails s)" using b(1) assms by (simp_all add: distinct_map)
  moreover have "set (filter (\<lambda>x. x \<in> set (queue_batch t s)) (mails s)) = set (queue_batch t s)" using b(2) by auto
  ultimately show ?thesis by (metis distinct_card distinct_filter)
qed

lemma attempts_left_pass: "due t x \<Longrightarrow> attempts_left (pass_result env send t x) < attempts_left x"
  by (auto simp: attempts_left_def pass_result_def due_def in_queue_def split: sum.split)

lemma pass_work:
  assumes "distinct (map ml_id (mails s))" and "process_queue env send t s = (r, s')"
  shows "distinct (map ml_id (mails s')) \<and> pending_work s' + (length (smtp_log s') - length (smtp_log s)) \<le> pending_work s
    \<and> length (smtp_log s) \<le> length (smtp_log s')"
proof -
  note e = process_queue_effect[OF assms]
  have d: "distinct (map ml_id (mails s'))" using assms(1) e by (simp add: comp_def)
  let ?P = "\<lambda>x. \<not> queue_paused s \<and> x \<in> set (queue_batch t s)"
  have "attempts_left (after_pass env send t s x) + (if ?P x then 1 else 0) \<le> attempts_left x" if "x \<in> set (mails s)" for x
    using attempts_left_pass[of t x env send] queue_batch_props(2)[OF assms(1), of t] by (fastforce simp: after_pass_def)
  then have "sum_list (map (\<lambda>x. attempts_left (after_pass env send t s x)) (mails s)) + length (filter ?P (mails s)) \<le> pending_work s"
    unfolding pending_work_def by (rule sum_list_drop)
  moreover have "length (smtp_log s') - length (smtp_log s) = length (filter ?P (mails s))"
    using e batch_length[OF assms(1), of t] by simp
  ultimately show ?thesis using d e by (simp add: pending_work_def comp_def)
qed

text \<open>
  C22. The queue worker stops working on mail nobody requeues. However many passes run, at
  whatever times and whatever the SMTP server answers, the number of messages handed to the
  server is at most the number of attempts that were left, five for a new mail. A pass
  that finds something due uses up attempts, so a refused mail is not retried for ever.
\<close>
theorem queue_terminates:
  assumes "distinct (map ml_id (mails s))"
  shows "length (smtp_log (run_passes env ps s)) + pending_work (run_passes env ps s)
    \<le> length (smtp_log s) + pending_work s"
  using assms
proof (induction ps arbitrary: s)
  case (Cons p ps)
  obtain send t where p: "p = (send, t)" by (cases p)
  obtain r s1 where s1: "process_queue env send t s = (r, s1)" by (cases "process_queue env send t s")
  note w = pass_work[OF Cons.prems s1]
  have "length (smtp_log (run_passes env ps s1)) + pending_work (run_passes env ps s1) \<le> length (smtp_log s1) + pending_work s1"
    using Cons.IH w by blast
  moreover have "run_passes env (p # ps) s = run_passes env ps s1" by (simp add: p s1)
  moreover have "length (smtp_log s1) + pending_work s1 \<le> length (smtp_log s) + pending_work s"
    using w by (elim conjE) arith
  ultimately show ?case by simp
qed simp

section \<open>Everything is sent\<close>

definition accepting :: "smtp \<Rightarrow> bool" where
  "accepting send \<longleftrightarrow> (\<forall>m. \<exists>i. send m = Inr i)"

definition open_mail :: "mail \<Rightarrow> bool" where
  "open_mail m \<longleftrightarrow> in_queue m \<and> ml_attempts m < ml_max m"

lemma pass_sent: "accepting send \<Longrightarrow> ml_status (pass_result env send t x) = SENT"
proof -
  assume "accepting send"
  then obtain i where "send (message_of env x) = Inr i" by (auto simp: accepting_def)
  then show ?thesis by (simp add: pass_result_def)
qed

lemma pass_queue_ctl:
  "distinct (map ml_id (mails s)) \<Longrightarrow> process_queue env send t s = (r, s') \<Longrightarrow> queue_ctl s' = queue_ctl s"
  using pass_effect[of s env send t] by auto

lemma sent_stays:
  assumes "distinct (map ml_id (mails s))" "m \<in> set (mails s)" "ml_status m = SENT"
  shows "m \<in> set (mails (run_passes env ps s))"
  using assms
proof (induction ps arbitrary: s)
  case (Cons p ps)
  obtain send t where p: "p = (send, t)" by (cases p)
  obtain r s1 where s1: "process_queue env send t s = (r, s1)" by (cases "process_queue env send t s")
  have "m \<notin> set (queue_batch t s)"
    using queue_batch_props(2)[OF Cons.prems(1), of t] Cons.prems(3) by (auto simp: due_def)
  then have "after_pass env send t s m = m" by (simp add: after_pass_def)
  then have "m \<in> set (mails s1)"
    using process_queue_effect[OF Cons.prems(1) s1] imageI[OF Cons.prems(2), of "after_pass env send t s"] by simp
  with Cons.IH[of s1] pass_work[OF Cons.prems(1) s1] Cons.prems(3) s1 show ?case by (simp add: p)
qed simp

lemma filter_split:
  assumes "\<And>x. Q x \<Longrightarrow> P x"
  shows "length (filter (\<lambda>x. P x \<and> \<not> Q x) xs) + length (filter Q xs) = length (filter P xs)"
  using assms by (induction xs) auto

lemma open_after_pass:
  assumes "distinct (map ml_id (mails s))" "\<not> queue_paused s" "accepting send" "process_queue env send t s = (r, s')"
  shows "length (filter open_mail (mails s')) + length (queue_batch t s) = length (filter open_mail (mails s))"
proof -
  let ?b = "\<lambda>x. x \<in> set (queue_batch t s)"
  have o: "open_mail x" if "?b x" for x
    using queue_batch_props(2)[OF assms(1), of t] that by (auto simp: open_mail_def due_def in_queue_def)
  have "open_mail (after_pass env send t s x) \<longleftrightarrow> open_mail x \<and> \<not> ?b x" for x
    using pass_sent[OF assms(3), of env t x] assms(2) by (auto simp: after_pass_def open_mail_def in_queue_def)
  then have "filter open_mail (mails s') = map (after_pass env send t s) (filter (\<lambda>x. open_mail x \<and> \<not> ?b x) (mails s))"
    using process_queue_effect[OF assms(1,4)] by (simp add: filter_map comp_def)
  moreover have "length (filter (\<lambda>x. open_mail x \<and> \<not> ?b x) (mails s)) + length (filter ?b (mails s)) = length (filter open_mail (mails s))"
    by (rule filter_split) (rule o)
  ultimately show ?thesis using batch_length[OF assms(1), of t] by simp
qed

text \<open>
  C20. With a working server every waiting mail goes out. If the queue is not paused, the
  server accepts what it is given, and there are at least as many passes as 25 goes into the
  unsent mails with attempts left, then every mail that was due when the passes began has
  been sent after them, whatever the priorities of the others.
\<close>
theorem queue_drains:
  assumes "distinct (map ml_id (mails s))" and "\<not> queue_paused s" and "\<forall>p \<in> set ps. accepting (fst p) \<and> t0 \<le> snd p"
    and "length (filter open_mail (mails s)) \<le> 25 * length ps" and "m \<in> set (mails s)" and "due t0 m"
  shows "\<exists>m' \<in> set (mails (run_passes env ps s)). ml_id m' = ml_id m \<and> ml_status m' = SENT"
  using assms
proof (induction ps arbitrary: s)
  case Nil
  then have "open_mail m" by (auto simp: open_mail_def due_def in_queue_def)
  with Nil.prems(4,5) show ?case by (auto simp: filter_empty_conv)
next
  case (Cons p ps)
  obtain send t where p: "p = (send, t)" by (cases p)
  obtain r s1 where s1: "process_queue env send t s = (r, s1)" by (cases "process_queue env send t s")
  have run: "run_passes env (p # ps) s = run_passes env ps s1" by (simp add: p s1)
  have acc: "accepting send" "t0 \<le> t" using Cons.prems(3) by (simp_all add: p)
  note e = process_queue_effect[OF Cons.prems(1) s1]
  have d1: "distinct (map ml_id (mails s1))" using pass_work[OF Cons.prems(1) s1] by blast
  have m1: "after_pass env send t s m \<in> set (mails s1)" using e Cons.prems(5) by simp
  show ?case
  proof (cases "m \<in> set (queue_batch t s)")
    case True
    then have "ml_status (after_pass env send t s m) = SENT"
      using Cons.prems(2) pass_sent[OF acc(1)] by (simp add: after_pass_def)
    from sent_stays[OF d1 m1 this, of env ps] this show ?thesis
      unfolding run by (intro bexI[of _ "after_pass env send t s m"]) simp_all
  next
    case False
    have "due t m" using Cons.prems(6) acc(2) by (auto simp: due_def split: option.splits)
    have "length (queue_batch t s) = 25"
    proof (rule ccontr)
      assume "length (queue_batch t s) \<noteq> 25"
      then have "queue_batch t s = sort_key (\<lambda>m. - ml_priority m) (sort_key ml_createdAt (filter (due t) (mails s)))"
        by (simp add: queue_batch_def)
      then show False using False \<open>due t m\<close> Cons.prems(5) by simp
    qed
    with open_after_pass[OF Cons.prems(1,2) acc(1) s1] Cons.prems(4)
    have n: "length (filter open_mail (mails s1)) \<le> 25 * length ps" by simp
    have m2: "m \<in> set (mails s1)" using m1 False by (simp add: after_pass_def)
    have q: "\<not> queue_paused s1" using Cons.prems(2) pass_queue_ctl[OF Cons.prems(1) s1] by (simp add: queue_paused_def)
    have "\<forall>p \<in> set ps. accepting (fst p) \<and> t0 \<le> snd p" using Cons.prems(3) by simp
    from Cons.IH[OF d1 q this n m2 Cons.prems(6)] show ?thesis unfolding run .
  qed
qed

section \<open>A queue with one mail\<close>

definition w_mail :: mail where
  "w_mail = \<lparr>ml_id = ''m1'', ml_companyId = Some ''c1'', ml_ticketId = None, ml_userId = None, ml_recipient = ''a@b.co'',
     ml_name = None, ml_type = ''T'', ml_category = ''sla'', ml_subject = ''S'', ml_html = [], ml_text = None,
     ml_status = QUEUED, ml_priority = 50, ml_attempts = 0, ml_max = 5, ml_nextAt = Some 0, ml_sender = None,
     ml_replyTo = None, ml_suppression = None, ml_createdAt = 0, ml_providerId = None, ml_error = None,
     ml_sentAt = None, ml_deliveredAt = None, ml_openedAt = None, ml_openCount = 0, ml_clickedAt = None,
     ml_clickCount = 0, ml_bouncedAt = None, ml_complainedAt = None, ml_cancelledAt = None,
     ml_cancelledBy = None, ml_notifiedAt = None, ml_resentFrom = None\<rparr>"

definition w_db :: "mail list \<Rightarrow> mail_db" where
  "w_db ms = \<lparr>mails = ms, suppressions = [], mail_prefs = [], queue_ctl = None, escalations = [], mail_templates = [],
     brands = [], mail_users = [], sla_tickets = [], notices = [], trackings = [], smtp_log = []\<rparr>"

definition w_env :: mail_env where
  "w_env = \<lparr>me_frontend = [], me_api = [], me_replyTo = None, me_mac = (\<lambda>x. ''A'')\<rparr>"

definition w_accept :: smtp where "w_accept m = Inr (Some ''i'')"
definition w_refuse :: smtp where "w_refuse m = Inl ''no''"

lemma w_fields [simp]: "ml_id w_mail = ''m1''" "ml_status w_mail = QUEUED" "ml_attempts w_mail = 0" "ml_max w_mail = 5"
    "ml_nextAt w_mail = Some 0" "ml_companyId w_mail = Some ''c1''"
  by (simp_all add: w_mail_def)

lemma w_db_fields [simp]: "mails (w_db ms) = ms" "queue_paused (w_db ms) = False" "smtp_log (w_db ms) = []"
    "suppressions (w_db ms) = []" "mail_templates (w_db ms) = []" "escalations (w_db ms) = []" "mail_users (w_db ms) = []"
  by (simp_all add: w_db_def queue_paused_def)

theorem process_queue_effect_witness:
  "map ml_status (mails (snd (process_queue w_env w_refuse 10 (w_db [w_mail])))) = [FAILED]"
proof -
  have "distinct (map ml_id (mails (w_db [w_mail])))" by simp
  from process_queue_effect[OF this surjective_pairing, of w_env w_refuse 10]
  show ?thesis by (simp add: after_pass_def queue_batch_def due_def pass_result_def w_refuse_def)
qed

theorem queue_terminates_witness:
  "length (smtp_log (run_passes w_env (map (\<lambda>k. (w_refuse, 100000000 * int k)) [0..<40]) (w_db [w_mail]))) \<le> 5"
proof -
  have "distinct (map ml_id (mails (w_db [w_mail])))" by simp
  from queue_terminates[OF this, of w_env "map (\<lambda>k. (w_refuse, 100000000 * int k)) [0..<40]"]
  show ?thesis by (simp only: pending_work_def w_db_fields list.map list.size sum_list.Cons sum_list.Nil attempts_left_def)
      (simp add: in_queue_def)
qed

theorem queue_drains_witness:
  "\<exists>m' \<in> set (mails (run_passes w_env [(w_accept, 10)] (w_db [w_mail]))). ml_id m' = ''m1'' \<and> ml_status m' = SENT"
  using queue_drains[of "w_db [w_mail]" "[(w_accept, 10)]" 5 w_mail w_env]
  by (simp add: accepting_def w_accept_def due_def)

end
