(* ===== verification/Email_Claims.thy ===== *)
theory Email_Claims
  imports Email_Props
begin

text \<open>
  The mail queue under all its callers: the state machine of the service, what no call can
  undo, what an administrator can reach, and what the texts and links of a mail guarantee.
\<close>

section \<open>The machine\<close>

datatype mail_call =
    CEnqueue int string mail_input
  | CQueue smtp int
  | CDigests smtp int
  | CEscalations mail_ids int
  | CPause int principal "string option"
  | CResume principal
  | CRetryAll int principal
  | CRetry int string principal
  | CCancel int string principal
  | CResend int string string principal
  | CProvider int provider_event
  | COpen int string string
  | CClick int string string string
  | CUnsubscribe string
  | CPreferences int string pref_input
  | CResubscribe string string
  | CTemplate principal "string option" mail_template

text \<open>What the service takes from its libraries.\<close>

record mail_libs =
  lb_env :: mail_env
  lb_zones :: zones
  lb_protocol :: "string \<Rightarrow> string option"
  lb_ipHash :: "string \<Rightarrow> string"

fun mail_step :: "mail_libs \<Rightarrow> mail_call \<Rightarrow> mail_db \<Rightarrow> mail_db" where
  "mail_step lb (CEnqueue t i x) s = snd (enqueue t i x s)"
| "mail_step lb (CQueue send t) s = snd (process_queue (lb_env lb) send t s)"
| "mail_step lb (CDigests send t) s = snd (process_digests (lb_env lb) send (lb_zones lb) t s)"
| "mail_step lb (CEscalations ids t) s = snd (process_escalations (lb_env lb) ids t s)"
| "mail_step lb (CPause t u reason) s = snd (pause_queue t u reason s)"
| "mail_step lb (CResume u) s = snd (resume_queue u s)"
| "mail_step lb (CRetryAll t u) s = snd (retry_all t u s)"
| "mail_step lb (CRetry t i u) s = snd (retry_mail t i u s)"
| "mail_step lb (CCancel t i u) s = snd (cancel_mail t i u s)"
| "mail_step lb (CResend t j i u) s = snd (resend_mail t j i u s)"
| "mail_step lb (CProvider t e) s = snd (record_provider_event t e s)"
| "mail_step lb (COpen t i sig) s = snd (record_open (me_mac (lb_env lb)) (lb_ipHash lb) t i sig None None s)"
| "mail_step lb (CClick t i url sig) s =
     snd (record_click (me_mac (lb_env lb)) (lb_protocol lb) (lb_ipHash lb) t i url sig None None s)"
| "mail_step lb (CUnsubscribe token) s = snd (unsubscribe (me_mac (lb_env lb)) token s)"
| "mail_step lb (CPreferences t u p) s = snd (update_preferences (lb_zones lb) t u p s)"
| "mail_step lb (CResubscribe u email) s = snd (resubscribe u email s)"
| "mail_step lb (CTemplate u ty i) s = snd (upsert_template u ty i s)"

section \<open>Mail that is done with\<close>

definition settled :: "mail \<Rightarrow> bool" where
  "settled m \<longleftrightarrow> ml_status m \<in> {SENT, DELIVERED, BOUNCED, COMPLAINED, SUPPRESSED, CANCELLED}"

text \<open>The messages handed to the server for a mail.\<close>

definition smtp_calls :: "string \<Rightarrow> mail_db \<Rightarrow> nat" where
  "smtp_calls i s = length (filter (\<lambda>(ids, r). i \<in> set ids) (smtp_log s))"

definition final_inv :: "string \<Rightarrow> nat \<Rightarrow> nat \<Rightarrow> mail_db \<Rightarrow> bool" where
  "final_inv i n k s \<longleftrightarrow> distinct (map ml_id (mails s))
     \<and> (\<exists>m \<in> set (mails s). ml_id m = i \<and> settled m \<and> ml_attempts m = n) \<and> smtp_calls i s = k"

lemma keeps_forE_in: "(\<And>x. x \<in> set xs \<Longrightarrow> keeps I (f x)) \<Longrightarrow> keeps I (forE xs f)"
  by (induction xs) (auto intro: keeps_intros)

lemma keeps_after: "keeps I m \<Longrightarrow> I s \<Longrightarrow> I (snd (m s))"
  by (simp add: keeps_def)

lemma final_set:
  assumes "\<And>m. ml_id (f m) = ml_id m"
    and "\<And>m. settled m \<Longrightarrow> ml_id m = i \<Longrightarrow> P m \<Longrightarrow> settled (f m) \<and> ml_attempts (f m) = ml_attempts m"
  shows "keeps (final_inv i n k) (set_mails P f)"
  unfolding set_mails_def
proof (rule keeps_writes)
  fix s assume a: "final_inv i n k s"
  let ?g = "\<lambda>m. if P m then f m else m"
  from a obtain m where m: "m \<in> set (mails s)" "ml_id m = i" "settled m" "ml_attempts m = n"
    by (auto simp: final_inv_def)
  let ?s = "s\<lparr>mails := map ?g (mails s)\<rparr>"
  have "map ml_id (mails ?s) = map ml_id (mails s)" using assms(1) by simp
  with a have "distinct (map ml_id (mails ?s))" by (simp only: final_inv_def)
  moreover have "\<exists>x \<in> set (mails ?s). ml_id x = i \<and> settled x \<and> ml_attempts x = n"
    using m assms by (intro bexI[of _ "?g m"]) auto
  moreover have "smtp_calls i ?s = k" using a by (simp add: final_inv_def smtp_calls_def)
  ultimately show "final_inv i n k ?s" by (simp only: final_inv_def simp_thms)
qed

lemma final_update:
  assumes "\<And>m. ml_id (f m) = ml_id m"
    and "\<And>m. settled m \<Longrightarrow> ml_id m = i \<Longrightarrow> P m \<Longrightarrow> settled (f m) \<and> ml_attempts (f m) = ml_attempts m"
  shows "keeps (final_inv i n k) (update_mails P f)"
  unfolding update_mails_def using final_set[OF assms] by (intro keeps_intros)

lemma final_other:
  assumes "\<And>s. mails (f s) = mails s \<and> smtp_log (f s) = smtp_log s"
  shows "keeps (final_inv i n k) (writes f)"
  by (rule keeps_writes) (simp add: final_inv_def smtp_calls_def assms)

lemma final_insert: "keeps (final_inv i n k) (insert_mail m)"
  by (rule keepsI)
    (auto simp: insert_mail_def act_simps find_mail_def find_None_iff final_inv_def smtp_calls_def)

lemma final_prefs: "keeps (final_inv i n k) (set_prefs u f)"
  unfolding set_prefs_def by (rule final_other) simp

lemma final_suppression: "keeps (final_inv i n k) (upsert_suppression x)"
  unfolding upsert_suppression_def by (rule final_other) simp

lemma final_ensure: "keeps (final_inv i n k) (ensure_preferences u)"
  unfolding ensure_preferences_def by (intro keeps_intros final_other) simp

lemma final_enqueue: "keeps (final_inv i n k) (enqueue t j x)"
  unfolding enqueue_def by (intro keeps_intros final_ensure final_insert)

lemma final_role: "keeps I (operations_role u)"
  unfolding operations_role_def by (rule keeps_guard)

lemma final_scoped: "keeps I (scoped_delivery j u)"
  unfolding scoped_delivery_def by (intro keeps_intros)

lemma final_queue_state: "keeps I (queue_state u)"
  unfolding queue_state_def by (intro keeps_intros final_role)

lemma final_get_prefs: "keeps (final_inv i n k) (get_preferences u)"
  unfolding get_preferences_def by (intro keeps_intros final_ensure)

lemma final_template: "keeps I (get_template u ty)"
  unfolding get_template_def by (intro keeps_intros final_role)

lemmas final_parts = final_prefs final_suppression final_ensure final_enqueue final_role final_scoped
  final_queue_state final_get_prefs final_template final_insert

lemma final_escalations: "keeps (final_inv i n k) (process_escalations env ids t)"
  unfolding process_escalations_def queue_escalation_def escalate_to_def prepare_mail_def
  by (intro keeps_intros final_parts final_other) simp

lemma final_provider: "keeps (final_inv i n k) (record_provider_event t e)"
  unfolding record_provider_event_def Let_def
  by (intro keeps_intros final_parts final_set) (auto simp: settled_def)

lemma final_retry: "keeps (final_inv i n k) (retry_mail t j u)"
proof (rule keepsI)
  fix s assume a: "final_inv i n k s"
  show "final_inv i n k (snd (retry_mail t j u s))"
  proof (cases "find_mail j s")
    case None
    then show ?thesis using a by (simp add: retry_mail_def operations_role_def act_simps)
  next
    case (Some m)
    then have m: "m \<in> set (mails s)" "ml_id m = j" by (auto simp: find_mail_def dest: find_SomeD)
    show ?thesis
    proof (cases "ml_status m = FAILED \<and> j = i")
      case True
      from a obtain m' where "m' \<in> set (mails s)" "ml_id m' = i" "settled m'" by (auto simp: final_inv_def)
      with a m True same_id have "settled m" by (metis final_inv_def)
      with True show ?thesis by (simp add: settled_def)
    next
      case False
      have "keeps (final_inv i n k) (set_mails (\<lambda>x. ml_id x = j) (requeued t))" if "j \<noteq> i"
        by (rule final_set) (auto simp: requeued_def that)
      with a Some False show ?thesis
        by (auto simp: retry_mail_def operations_role_def act_simps keeps_def)
    qed
  qed
qed

lemma final_retry_all: "keeps (final_inv i n k) (retry_all t u)"
  unfolding retry_all_def by (intro keeps_intros final_parts final_update) (auto simp: requeued_def settled_def)

lemma final_cancel: "keeps (final_inv i n k) (cancel_mail t j u)"
  unfolding cancel_mail_def by (intro keeps_intros final_parts final_set) (auto simp: settled_def)

lemma final_resend: "keeps (final_inv i n k) (resend_mail t j' j u)"
  unfolding resend_mail_def by (intro keeps_intros final_parts)

lemma final_tracking: "keeps (final_inv i n k) (record_tracking h j event url ip agent)"
  unfolding record_tracking_def by (rule final_other) simp

lemma final_open: "keeps (final_inv i n k) (record_open mac h t j signature ip agent)"
  unfolding record_open_def by (intro keeps_intros final_tracking final_update) (auto simp: settled_def)

lemma final_click: "keeps (final_inv i n k) (record_click mac protocol h t j url signature ip agent)"
  unfolding record_click_def Let_def by (intro keeps_intros final_tracking final_update) (auto simp: settled_def)

lemma final_unsubscribe: "keeps (final_inv i n k) (unsubscribe mac token)"
  unfolding unsubscribe_def by (intro keeps_intros final_parts)

lemma final_update_prefs: "keeps (final_inv i n k) (update_preferences z t u p)"
  unfolding update_preferences_def by (intro keeps_intros final_parts)

lemma final_resubscribe: "keeps (final_inv i n k) (resubscribe u email)"
  unfolding resubscribe_def by (intro keeps_intros final_parts final_other) simp

lemma final_pause: "keeps (final_inv i n k) (pause_queue t u reason)"
  unfolding pause_queue_def by (intro keeps_intros final_parts final_other) simp

lemma final_resume: "keeps (final_inv i n k) (resume_queue u)"
  unfolding resume_queue_def by (intro keeps_intros final_parts final_other) simp

lemma final_upsert_template: "keeps (final_inv i n k) (upsert_template u ty x)"
  unfolding upsert_template_def Let_def by (intro keeps_intros final_parts final_other) simp

lemma final_queue: "keeps (final_inv i n k) (process_queue env send t)"
proof (rule keepsI)
  fix s assume a: "final_inv i n k s"
  then obtain m where d: "distinct (map ml_id (mails s))" and m: "m \<in> set (mails s)" "ml_id m = i" "settled m" "ml_attempts m = n"
    by (auto simp: final_inv_def)
  obtain r s' where s': "process_queue env send t s = (r, s')" by (cases "process_queue env send t s")
  note e = process_queue_effect[OF d s'] and b = queue_batch_props[OF d, of t]
  have out: "x \<in> set (queue_batch t s) \<Longrightarrow> ml_id x \<noteq> i" for x
  proof
    assume x: "x \<in> set (queue_batch t s)" "ml_id x = i"
    then have "x = m" using b(2) same_id[OF d m(1)] m(2) by auto
    with x(1) b(2) m(3) show False by (auto simp: settled_def due_def)
  qed
  then have none: "filter (\<lambda>(ids, r). i \<in> set ids) (map (\<lambda>m. ([ml_id m], ml_recipient m)) (queue_batch t s)) = []"
    by (auto simp: filter_empty_conv)
  have "m \<notin> set (queue_batch t s)" using out[of m] m(2) by blast
  then have "after_pass env send t s m = m" by (simp add: after_pass_def)
  with imageI[OF m(1), of "after_pass env send t s"] e have "m \<in> set (mails s')" by simp
  moreover have "distinct (map ml_id (mails s'))" using e d by (simp add: comp_def)
  moreover have "smtp_calls i s' = k" using a e none by (simp add: final_inv_def smtp_calls_def)
  ultimately show "final_inv i n k (snd (process_queue env send t s))" using m s' by (auto simp: final_inv_def)
qed

lemma final_deliver_digest:
  assumes "i \<notin> ml_id ` set ms"
  shows "keeps (final_inv i n k) (deliver_digest env send t ms)"
proof -
  have log: "keeps (final_inv i n k) (log_smtp (map ml_id ms) r)" for r
    unfolding log_smtp_def
    by (rule keeps_writes) (use assms in \<open>auto simp: final_inv_def smtp_calls_def\<close>)
  have set: "keeps (final_inv i n k) (set_mails (\<lambda>x. ml_id x \<in> set (map ml_id ms)) f)" if "\<And>m. ml_id (f m) = ml_id m" for f
    by (rule final_set) (use assms that in auto)
  have upd: "keeps (final_inv i n k) (update_mails (\<lambda>x. ml_id x \<in> set (map ml_id ms) \<and> ml_status x = DIGEST_PENDING) f)"
    if "\<And>m. ml_id (f m) = ml_id m" for f
    by (rule final_update) (use assms that in auto)
  show ?thesis
    unfolding deliver_digest_def Let_def
    by (cases ms; cases "send (digest_message env (hd ms) ms)")
      (use log set upd in \<open>auto intro!: keeps_intros split: sum.split simp del: list.map set_map\<close>)
qed

lemma add_group_mails: "(\<Union>g \<in> set (add_group key m gs). set (snd g)) = insert m (\<Union>g \<in> set gs. set (snd g))"
  by (induction gs rule: add_group.induct) auto

lemma digest_group_mails:
  assumes "(key, ms) \<in> set (digest_groups z t rows)"
  shows "set ms \<subseteq> fst ` set rows"
proof -
  have "(\<Union>g \<in> set (foldl (\<lambda>gs (m, p). if digest_hour z t p then add_group (digest_key m) m gs else gs) gs rows). set (snd g))
      \<subseteq> (\<Union>g \<in> set gs. set (snd g)) \<union> fst ` set rows" for gs
  proof (induction rows arbitrary: gs)
    case (Cons x rows)
    obtain m p where x: "x = (m, p)" by (cases x)
    let ?gs = "if digest_hour z t p then add_group (digest_key m) m gs else gs"
    have g: "(\<Union>g \<in> set ?gs. set (snd g)) \<subseteq> insert m (\<Union>g \<in> set gs. set (snd g))"
      by (simp add: add_group_mails subset_insertI)
    show ?case unfolding x foldl.simps prod.case
      by (rule subset_trans[OF Cons[of ?gs]]) (use g in \<open>simp only: list.set image_insert fst_conv, blast\<close>)
  qed simp
  from this[of "[]"] assms show ?thesis by (force simp: digest_groups_def)
qed

lemma final_digests: "keeps (final_inv i n k) (process_digests env send z t)"
proof (rule keepsI)
  fix s assume a: "final_inv i n k s"
  then obtain m where d: "distinct (map ml_id (mails s))" and m: "m \<in> set (mails s)" "ml_id m = i" "settled m"
    by (auto simp: final_inv_def)
  have rows: "x \<in> set (mails s) \<and> ml_status x = DIGEST_PENDING" if "x \<in> fst ` set (digest_rows t s)" for x
    using that by (auto simp: digest_rows_def dest!: in_set_takeD)
  have "i \<notin> ml_id ` set ms" if "(key, ms) \<in> set (digest_groups z t (digest_rows t s))" for key ms
  proof
    assume "i \<in> ml_id ` set ms"
    then obtain x where x: "x \<in> set ms" "ml_id x = i" by auto
    with digest_group_mails[OF that] rows have "x \<in> set (mails s)" "ml_status x = DIGEST_PENDING" by blast+
    with same_id[OF d m(1)] m x show False by (auto simp: settled_def)
  qed
  then have "keeps (final_inv i n k) (forE (digest_groups z t (digest_rows t s)) (\<lambda>(key, ms). deliver_digest env send t ms))"
    by (intro keeps_forE_in) (auto intro: final_deliver_digest)
  with a show "final_inv i n k (snd (process_digests env send z t s))"
    by (simp add: process_digests_def act_simps keeps_def)
qed

lemmas final_calls = final_enqueue final_queue final_digests final_escalations final_pause final_resume
  final_retry_all final_retry final_cancel final_resend final_provider final_open final_click
  final_unsubscribe final_update_prefs final_resubscribe final_upsert_template

interpretation mail_final: guarded_machine any_call "mail_step lb" "final_inv i n k" for lb i n k
proof
  fix c s assume a: "final_inv i n k s"
  show "final_inv i n k (mail_step lb c s)"
    by (cases c) (simp_all add: final_calls[THEN keeps_after, OF a])
qed

text \<open>
  C19. A mail that is sent, bounced, complained about, suppressed or cancelled is never sent
  again. Whatever calls follow, in any order and from anyone, its row stays in one of these
  states, its attempts do not change and nothing more is handed to the SMTP server for it: a
  retry asks for a failed mail, and resending makes a new row.
\<close>
theorem settled_mail_is_final:
  assumes "distinct (map ml_id (mails s))" and "find_mail i s = Some m" and "settled m"
    and "reachable_by any_call (mail_step lb) s s'"
  shows "\<exists>m'. find_mail i s' = Some m' \<and> settled m' \<and> ml_attempts m' = ml_attempts m
    \<and> smtp_calls i s' = smtp_calls i s"
proof -
  have m: "m \<in> set (mails s)" "ml_id m = i" using assms(2) by (auto simp: find_mail_def dest: find_SomeD)
  then have "final_inv i (ml_attempts m) (smtp_calls i s) s" using assms by (auto simp: final_inv_def)
  then have f: "final_inv i (ml_attempts m) (smtp_calls i s) s'" using mail_final.reachable_inv[OF assms(4)] by blast
  then obtain m' where m': "m' \<in> set (mails s')" "ml_id m' = i" "settled m'" "ml_attempts m' = ml_attempts m"
    and d: "distinct (map ml_id (mails s'))" and c: "smtp_calls i s' = smtp_calls i s" by (auto simp: final_inv_def)
  obtain x where "find_mail i s' = Some x" using m' by (cases "find_mail i s'") (auto simp: find_mail_def find_None_iff)
  moreover from this have "x = m'" using same_id[OF d m'(1)] m'(2) by (auto simp: find_mail_def dest: find_SomeD)
  ultimately show ?thesis using m' c by auto
qed

section \<open>What an administrator reaches\<close>

fun admin_call :: "principal \<Rightarrow> mail_call \<Rightarrow> bool" where
  "admin_call u (CRetryAll t v) = (v = u)"
| "admin_call u (CRetry t i v) = (v = u)"
| "admin_call u (CCancel t i v) = (v = u)"
| "admin_call u (CResend t j i v) = (v = u)"
| "admin_call u (CTemplate v ty i) = (v = u)"
| "admin_call u _ = False"

definition others_inv :: "string \<Rightarrow> mail list \<Rightarrow> mail_template list \<Rightarrow> mail_db \<Rightarrow> bool" where
  "others_inv c ms tes s \<longleftrightarrow> distinct (map ml_id (mails s))
     \<and> filter (\<lambda>m. ml_companyId m \<noteq> Some c) (mails s) = ms
     \<and> filter (\<lambda>te. te_companyId te \<noteq> c) (mail_templates s) = tes"

lemma filter_map_same:
  "(\<And>x. x \<in> set xs \<Longrightarrow> P x \<Longrightarrow> f x = x) \<Longrightarrow> (\<And>x. P (f x) = P x) \<Longrightarrow> filter P (map f xs) = filter P xs"
  by (induction xs) auto

lemma others_set:
  assumes "others_inv c ms tes s" "\<And>m. ml_id (f m) = ml_id m \<and> ml_companyId (f m) = ml_companyId m"
    and "\<And>m. m \<in> set (mails s) \<Longrightarrow> P m \<Longrightarrow> ml_companyId m = Some c"
  shows "others_inv c ms tes (s\<lparr>mails := map (\<lambda>m. if P m then f m else m) (mails s)\<rparr>)"
proof -
  have "map ml_id (map (\<lambda>m. if P m then f m else m) (mails s)) = map ml_id (mails s)" using assms(2) by simp
  moreover have "filter (\<lambda>m. ml_companyId m \<noteq> Some c) (map (\<lambda>m. if P m then f m else m) (mails s))
      = filter (\<lambda>m. ml_companyId m \<noteq> Some c) (mails s)"
    by (rule filter_map_same) (use assms in auto)
  moreover have "mails (s\<lparr>mails := ms'\<rparr>) = ms'" "mail_templates (s\<lparr>mails := ms'\<rparr>) = mail_templates s" for ms' by simp_all
  ultimately show ?thesis using assms(1) by (simp only: others_inv_def simp_thms)
qed

lemma mail_scope_ne: "mail_scope u = Some c \<Longrightarrow> c \<noteq> []"
  by (auto simp: mail_scope_def or_null_def or_opt_def truthy_def split: if_splits option.splits)

lemma others_step:
  assumes u: "mail_scope u = Some c" and i: "others_inv c ms tes s" and a: "admin_call u e"
  shows "others_inv c ms tes (mail_step lb e s)"
proof -
  have d: "distinct (map ml_id (mails s))" using i by (simp add: others_inv_def)
  have own: "ml_companyId x = Some c" if "find P (mails s) = Some m" "\<And>y. P y \<Longrightarrow> ml_id y = j"
    "ml_companyId m = Some c" "x \<in> set (mails s)" "ml_id x = j" for P m x j
  proof -
    have "m \<in> set (mails s)" "ml_id m = j" using find_SomeD[OF that(1)] that(2) by simp_all
    then have "x = m" using same_id[OF d _ that(4)] that(5) by simp
    with that(3) show ?thesis by simp
  qed
  show ?thesis
  proof (cases e)
    case (CRetryAll t v)
    with a u show ?thesis
      by (auto simp: retry_all_def operations_role_def act_simps update_count in_mail_scope_def requeued_def
          intro!: others_set[OF i] i)
  next
    case (CRetry t j v)
    with a have [simp]: "v = u" by simp
    show ?thesis
    proof (cases "find_mail j s")
      case None
      with i CRetry show ?thesis by (simp add: retry_mail_def operations_role_def act_simps)
    next
      case (Some m)
      have "others_inv c ms tes (s\<lparr>mails := map (\<lambda>x. if ml_id x = j then requeued t x else x) (mails s)\<rparr>)"
        if "ml_companyId m = Some c"
        by (rule others_set[OF i]) (use own[of "\<lambda>x. ml_id x = j" m j] Some that in \<open>auto simp: find_mail_def requeued_def\<close>)
      with Some i CRetry u show ?thesis
        by (simp add: retry_mail_def operations_role_def act_simps set_mails_def in_mail_scope_def)
    qed
  next
    case (CCancel t j v)
    with a have [simp]: "v = u" by simp
    let ?P = "\<lambda>m. ml_id m = j \<and> in_mail_scope (mail_scope u) m"
    show ?thesis
    proof (cases "find ?P (mails s)")
      case None
      with i CCancel show ?thesis by (simp add: cancel_mail_def scoped_delivery_def operations_role_def act_simps)
    next
      case (Some m)
      then have "ml_companyId m = Some c" using u by (auto simp: in_mail_scope_def dest: find_SomeD)
      then have "others_inv c ms tes (s\<lparr>mails := map (\<lambda>x. if ml_id x = j then x\<lparr>ml_status := CANCELLED,
          ml_cancelledAt := Some t, ml_cancelledBy := Some (p_id u)\<rparr> else x) (mails s)\<rparr>)"
        by (intro others_set[OF i]) (use own[OF Some, of j] in auto)
      with Some i CCancel show ?thesis
        by (simp add: cancel_mail_def scoped_delivery_def operations_role_def act_simps set_mails_def)
    qed
  next
    case (CResend t k j v)
    with a have [simp]: "v = u" by simp
    let ?P = "\<lambda>m. ml_id m = j \<and> in_mail_scope (mail_scope u) m"
    show ?thesis
    proof (cases "find ?P (mails s)")
      case None
      with i CResend show ?thesis by (simp add: resend_mail_def scoped_delivery_def operations_role_def act_simps)
    next
      case (Some m)
      then have "ml_companyId m = Some c" using u by (auto simp: in_mail_scope_def dest: find_SomeD)
      then have "ml_companyId (resent t k m) = Some c" using mail_scope_ne[OF u] by (simp add: resent_def or_null_def)
      moreover have "ml_id (resent t k m) = k" by (simp add: resent_def)
      ultimately have "others_inv c ms tes (snd (insert_mail (resent t k m) s))"
        using i by (auto simp: insert_mail_def act_simps others_inv_def find_mail_def find_None_iff)
      with Some i CResend show ?thesis
        by (simp add: resend_mail_def scoped_delivery_def operations_role_def act_simps)
    qed
  next
    case (CTemplate v ty x)
    with a have [simp]: "v = u" by simp
    have w: "snd (get_template p q t) = t" for p q t
      using readonlyD by (simp add: get_template_def operations_role_def act_simps split: sum.split)
    show ?thesis
    proof (cases "clean_event_type ty")
      case (Inl er)
      with i CTemplate u show ?thesis
        by (simp add: upsert_template_def required_mail_scope_def operations_role_def act_simps)
    next
      case (Inr k)
      have f: "filter (\<lambda>te. te_companyId te \<noteq> c) (map (\<lambda>te. if te_companyId te = c \<and> te_eventType te = k then row else te) tes')
          = filter (\<lambda>te. te_companyId te \<noteq> c) tes'" if "te_companyId row = c" for row tes'
        using that by (induction tes') auto
      from i CTemplate u Inr show ?thesis
        by (auto simp: upsert_template_def required_mail_scope_def operations_role_def act_simps Let_def w others_inv_def f)
    qed
  qed (use a in simp_all)
qed

interpretation mail_company: guarded_machine "\<lambda>e. mail_scope u = Some c \<and> admin_call u e" "mail_step lb" "others_inv c ms tes"
  for lb u c ms tes
  by unfold_locales (use others_step in blast)

text \<open>
  An administrator acting for a company reaches the mail and the templates of that company
  only. Whatever sequence of retries, cancellations, resends and template changes the
  administrator asks for, with any ids, the rows of other companies (and those of none) are
  neither changed nor added to.
\<close>
theorem operations_stay_in_company:
  assumes "distinct (map ml_id (mails s))"
    and "reachable_by (\<lambda>e. mail_scope u = Some c \<and> admin_call u e) (mail_step lb) s s'"
  shows "filter (\<lambda>m. ml_companyId m \<noteq> Some c) (mails s') = filter (\<lambda>m. ml_companyId m \<noteq> Some c) (mails s)
    \<and> filter (\<lambda>te. te_companyId te \<noteq> c) (mail_templates s') = filter (\<lambda>te. te_companyId te \<noteq> c) (mail_templates s)"
  using mail_company.reachable_inv[OF assms(2), of "filter (\<lambda>m. ml_companyId m \<noteq> Some c) (mails s)"
      "filter (\<lambda>te. te_companyId te \<noteq> c) (mail_templates s)"] assms(1)
  by (simp add: others_inv_def)

section \<open>Instances\<close>

definition w_libs :: mail_libs where
  "w_libs = \<lparr>lb_env = w_env, lb_zones = (\<lambda>z t. Some 0), lb_protocol = (\<lambda>u. Some ''https:''), lb_ipHash = (\<lambda>x. x)\<rparr>"

definition w_admin :: "string option \<Rightarrow> principal" where
  "w_admin c = \<lparr>p_id = ''u1'', p_email = ''u@c.co'', p_role = ''TENANT_ADMIN'', p_userType = ''BUSINESS'', p_companyId = c,
     p_effective = None, p_location = None, p_slugs = [], p_scopes = []\<rparr>"

theorem settled_mail_is_final_witness:
  "\<exists>m'. find_mail ''m1'' (mail_step w_libs (CRetryAll 7 (w_admin None)) (w_db [w_mail\<lparr>ml_status := SENT\<rparr>])) = Some m' \<and> settled m'"
proof -
  let ?s = "w_db [w_mail\<lparr>ml_status := SENT\<rparr>]"
  have "distinct (map ml_id (mails ?s))" "find_mail ''m1'' ?s = Some (w_mail\<lparr>ml_status := SENT\<rparr>)"
    "settled (w_mail\<lparr>ml_status := SENT\<rparr>)"
    by (simp_all add: find_mail_def settled_def)
  moreover have "reachable_by any_call (mail_step w_libs) ?s (mail_step w_libs (CRetryAll 7 (w_admin None)) ?s)"
    by (intro reach_step reach_start) simp
  ultimately show ?thesis using settled_mail_is_final by blast
qed

theorem operations_stay_in_company_witness:
  "filter (\<lambda>m. ml_companyId m \<noteq> Some ''c2'')
     (mails (mail_step w_libs (CRetryAll 7 (w_admin (Some ''c2''))) (w_db [w_mail\<lparr>ml_status := FAILED\<rparr>]))) = [w_mail\<lparr>ml_status := FAILED\<rparr>]"
proof -
  let ?s = "w_db [w_mail\<lparr>ml_status := FAILED\<rparr>]" and ?u = "w_admin (Some ''c2'')"
  have "mail_scope ?u = Some ''c2''" by (simp add: mail_scope_def w_admin_def or_null_def or_opt_def)
  then have "reachable_by (\<lambda>e. mail_scope ?u = Some ''c2'' \<and> admin_call ?u e) (mail_step w_libs) ?s
      (mail_step w_libs (CRetryAll 7 ?u) ?s)"
    by (intro reach_step reach_start) simp
  from operations_stay_in_company[OF _ this] show ?thesis by simp
qed

end
