(* ===== verification/Email_Links.thy ===== *)
theory Email_Links
  imports Email_Claims
begin

text \<open>What the texts and links of a mail guarantee: unsubscribing, escalations, markup, tracked links.\<close>

section \<open>Unsubscribing\<close>

text \<open>\<open>digest('base64url')\<close>.\<close>

definition mac_ok :: "mac \<Rightarrow> bool" where
  "mac_ok mac \<longleftrightarrow> (\<forall>x. mac x \<noteq> [] \<and> set (mac x) \<subseteq> set BASE64_ALPHABET)"

lemma ch_lower_idem: "ch_lower (ch_lower c) = ch_lower c"
proof (cases "65 \<le> (of_char c :: nat) \<and> (of_char c :: nat) \<le> 90")
  case True
  then have "of_char (char_of (of_char c + 32 :: nat)) = (of_char c + 32 :: nat)"
    by (simp add: take_bit_nat_eq_self)
  with True show ?thesis by (simp add: ch_lower_def Let_def)
qed (auto simp: ch_lower_def Let_def)

lemma trim_no_space: "\<not> list_ex ch_space s \<Longrightarrow> js_trim s = s"
proof -
  assume a: "\<not> list_ex ch_space s"
  have d: "dropWhile ch_space s = s" using a by (cases s) simp_all
  have "dropWhile ch_space (rev s) = rev s" using a by (cases "rev s") (auto simp: list_ex_iff rev_swap)
  with d show ?thesis by (simp add: js_trim_def)
qed

lemma email_shaped_no_space: "email_shaped s \<Longrightarrow> \<not> list_ex ch_space s"
  by (auto simp: email_shaped_def split: list.splits)

lemma normalize_idem: "normalize_email (normalize_email e) = normalize_email e"
proof (cases "email_shaped (js_lower (js_trim e))")
  case True
  then have n: "normalize_email e = js_lower (js_trim e)" by (simp add: normalize_email_def Let_def)
  with True email_shaped_no_space[OF True] show ?thesis
    by (simp add: normalize_email_def Let_def trim_no_space comp_def ch_lower_idem)
next
  case False
  then have "normalize_email e = []" by (simp add: normalize_email_def Let_def)
  then show ?thesis by (simp add: normalize_email_def Let_def js_trim_def email_shaped_def)
qed

lemma no_dot: "CHR ''.'' \<notin> set BASE64_ALPHABET" "CHR ''%'' \<notin> set BASE64_ALPHABET"
  by (simp_all add: BASE64_ALPHABET_def)

lemma base64_nonempty: "s \<noteq> [] \<Longrightarrow> to_base64url s \<noteq> []"
proof
  assume s: "s \<noteq> []" "to_base64url s = []"
  from s(2) have "from_base64url (to_base64url s) = from_base64url []" by simp
  then have "s = from_base64url []" by simp
  with s(1) show False by (simp add: from_base64url_def bytes_string_def decode_bits.simps)
qed

lemma verify_token:
  assumes "mac_ok mac" "normalize_email e \<noteq> []"
  shows "verify_unsubscribe_token mac (unsubscribe_token mac e) = Some (normalize_email e)"
proof -
  let ?p = "to_base64url (normalize_email e)"
  have "CHR ''.'' \<notin> set ?p" "CHR ''.'' \<notin> set (mac ?p)"
    using base64url_letters[of "normalize_email e"] assms(1) no_dot by (auto simp: mac_ok_def)
  then have "str_split (CHR ''.'') (unsubscribe_token mac e) = [?p, mac ?p]"
    by (simp add: unsubscribe_token_def Let_def str_split_at str_split_none)
  moreover have "?p \<noteq> []" "mac ?p \<noteq> []" using assms base64_nonempty by (auto simp: mac_ok_def)
  ultimately show ?thesis by (simp add: verify_unsubscribe_token_def normalize_idem)
qed

lemma find_suppressed:
  "find (\<lambda>y. su_email y = su_email x) (suppressions (snd (upsert_suppression x s))) = Some x"
proof -
  have "list_ex (\<lambda>y. su_email y = su_email x) ys \<Longrightarrow>
      find (\<lambda>y. su_email y = su_email x) (map (\<lambda>y. if su_email y = su_email x then x else y) ys) = Some x" for ys
    by (induction ys) auto
  moreover have "\<not> list_ex (\<lambda>y. su_email y = su_email x) ys \<Longrightarrow>
      find (\<lambda>y. su_email y = su_email x) (ys @ [x]) = Some x" for ys
    by (induction ys) auto
  ultimately show ?thesis by (simp add: upsert_suppression_def act_simps)
qed

lemma ensure_suppressions: "suppressions (snd (ensure_preferences u s)) = suppressions s"
  by (simp add: ensure_preferences_def act_simps split: option.split)

lemma unsubscribe_suppresses:
  assumes "mac_ok mac" "normalize_email e \<noteq> []"
  shows "find (\<lambda>y. su_email y = normalize_email e) (suppressions (snd (unsubscribe mac (unsubscribe_token mac e) s)))
    = Some \<lparr>su_email = normalize_email e, su_reason = ''UNSUBSCRIBED'', su_source = ''RECIPIENT'',
        su_details = ''Unsubscribed using email preference link''\<rparr>"
proof -
  let ?x = "\<lparr>su_email = normalize_email e, su_reason = ''UNSUBSCRIBED'', su_source = ''RECIPIENT'',
        su_details = ''Unsubscribed using email preference link''\<rparr>"
  obtain s0 where u: "upsert_suppression ?x s = (Inr (), s0)" by (simp add: upsert_suppression_def act_simps)
  have "suppressions (snd (unsubscribe mac (unsubscribe_token mac e) s)) = suppressions s0"
  proof (cases "find (\<lambda>u. map_option js_lower (mu_email u) = Some (normalize_email e)) (mail_users s0)")
    case None
    then show ?thesis
      by (simp add: unsubscribe_def verify_token[OF assms] or_null_def assms(2) bindE_eval u reads_eval ret_eval)
  next
    case (Some y)
    obtain p s' where p: "ensure_preferences (mu_id y) s0 = (Inr p, s')"
      by (cases "find (\<lambda>p. pf_userId p = mu_id y) (mail_prefs s0)") (simp_all add: ensure_preferences_def act_simps)
    then have "suppressions s' = suppressions s0" using ensure_suppressions[of "mu_id y" s0] by simp
    with Some p show ?thesis
      by (simp add: unsubscribe_def verify_token[OF assms] or_null_def assms(2) bindE_eval u reads_eval ret_eval
          set_prefs_def writes_eval)
  qed
  with find_suppressed[of ?x s] u show ?thesis by simp
qed

text \<open>
  An unsubscribe link stops optional mail to its recipient and nothing else. After the link
  written into a mail to an address has been used, mail queued to that address, in any
  spelling that normalises to it, is suppressed unless its category is critical; critical
  mail is queued. The link works for every well-formed address.
\<close>
theorem unsubscribe_stops_optional_mail:
  assumes "mac_ok mac" and "normalize_email e \<noteq> []"
    and "unsubscribe mac (unsubscribe_token mac e) s = (r, s1)"
    and "normalize_email (mi_recipient x) = normalize_email e" and "enqueue t i x s1 = (Inr st, s2)"
  shows "st = (if mi_category x \<in> CRITICAL_CATEGORIES then QUEUED else SUPPRESSED)"
proof -
  have "map_option su_reason (find (\<lambda>y. su_email y = normalize_email (mi_recipient x)) (suppressions s1)) = Some ''UNSUBSCRIBED''"
    using unsubscribe_suppresses[OF assms(1,2), of s] assms(3,4) by simp
  with assms(5) obtain p where "st = initial_status x (Some ''UNSUBSCRIBED'') p"
    by (auto simp: enqueue_def act_simps split: prod.splits sum.splits if_splits)
  then show ?thesis by (auto simp: initial_status_def blocked_by_def optional_disabled_def)
qed

section \<open>Escalations\<close>

text \<open>
  One malformed address loses an SLA escalation. If the first recipient of an escalation has
  an address that queueing rejects, the call fails before any mail is queued, with the
  escalation already recorded; every later call for this ticket and level then does nothing,
  so nobody is told of the escalation.
\<close>
theorem malformed_address_loses_escalation:
  assumes "sla_unique (sla_recipients x level s) = r # rs" and "normalize_email (fst (snd r)) = []"
    and "(sl_id x, level) \<notin> set (escalations s)" and "queue_escalation env ids t x level s = (res, s1)"
  shows "res = Inl (BadRequest ''A valid recipient email is required'') \<and> mails s1 = mails s
    \<and> queue_escalation env' ids' t' x level s1 = (Inr (), s1)"
proof -
  have e: "enqueue t' i (escalation_input x level r p) s' = (Inl (BadRequest ''A valid recipient email is required''), s')" for t' i p s'
    using assms(2) by (simp add: enqueue_def act_simps escalation_input_def)
  have "res = Inl (BadRequest ''A valid recipient email is required'')
      \<and> s1 = s\<lparr>escalations := escalations s @ [(sl_id x, level)]\<rparr>"
    using assms(4) unfolding queue_escalation_def bindE_eval reads_eval
    by (auto simp: act_simps assms(1,3) escalate_to_def prepare_mail_def e)
  then show ?thesis by (auto simp: queue_escalation_def act_simps)
qed

section \<open>Markup\<close>

lemma filter_styled: "filter markup (styled s) = QUOT # filter markup s @ [QUOT]"
  by (simp add: styled_def markup_def QUOT_def APOS_def)

lemma filter_nl: "filter markup (nl k) = []"
  by (simp add: nl_def markup_def NEWLINE_def QUOT_def APOS_def)

lemma hex_plain: "hex_digit c \<Longrightarrow> \<not> markup c"
proof
  assume h: "hex_digit c" "markup c"
  then have "c = CHR ''<'' \<or> c = CHR ''>'' \<or> c = QUOT \<or> c = APOS" by (simp add: markup_def)
  then have "\<not> hex_digit c"
    by (elim disjE) (simp_all add: hex_digit_def ch_digit_def ch_lower_def QUOT_def APOS_def Let_def)
  with h(1) show False by simp
qed

lemma safe_color_plain: "filter markup (safe_color v) = []"
proof -
  have "filter markup cs = []" if "list_all hex_digit cs" for cs
    using that hex_plain by (auto simp: filter_empty_conv list_all_iff)
  then show ?thesis
    by (auto simp: safe_color_def split: list.split) (simp_all add: markup_def QUOT_def APOS_def)
qed

lemma count_replace_char: "c \<noteq> d \<Longrightarrow> count_list new d = 0 \<Longrightarrow> count_list (replace_char c new s) d = count_list s d"
  by (induction s) (auto simp: replace_char_def)

lemma count_escape: "count_list (escape_html s) NEWLINE = count_list s NEWLINE"
  by (simp add: escape_html_def count_replace_char NEWLINE_def QUOT_def APOS_def)

lemma filter_breaks:
  "filter markup u = [] \<Longrightarrow> filter markup (replace_char NEWLINE ''<br>'' u) = concat (replicate (count_list u NEWLINE) ''<>'')"
  by (induction u) (auto simp: replace_char_def markup_def QUOT_def APOS_def split: if_splits)

text \<open>Two mails with the same parts: a detail or none, as many line breaks in it, an actor or none.\<close>

definition same_shape :: "ticket_mail \<Rightarrow> ticket_mail \<Rightarrow> bool" where
  "same_shape i j \<longleftrightarrow> (trimmed_detail i = [] \<longleftrightarrow> trimmed_detail j = [])
     \<and> count_list (trimmed_detail i) NEWLINE = count_list (trimmed_detail j) NEWLINE
     \<and> truthy (tm_actor i) = truthy (tm_actor j)"

lemma filter_content:
  assumes "filter markup accent = []" "filter markup accent' = []" "same_shape i j"
  shows "filter markup (mail_content i accent) = filter markup (mail_content j accent')"
proof -
  have d: "filter markup (replace_char NEWLINE ''<br>'' (escape_html u)) = concat (replicate (count_list u NEWLINE) ''<>'')" for u
    by (simp add: filter_breaks escape_html_plain count_escape)
  show ?thesis
    unfolding mail_content_def filter_append filter_styled filter_nl escape_html_plain d if_distrib[of "filter markup"]
    using assms by (simp only: same_shape_def assms(1,2) append_Nil2)
qed

text \<open>
  Ticket texts cannot add markup to a mail. Without a custom template, the markup characters
  (angle brackets and quotes) of the prepared page are the same, in the same order, for any
  two mails of the same shape: recipient, ticket number, title, action, detail, actor, link,
  branding, header, footer and colour only ever contribute plain text.
\<close>
theorem mail_markup_fixed:
  assumes "\<not> truthy (te_html te)" and "\<not> truthy (te_html te')" and "same_shape i j"
  shows "filter markup (pp_html (prepare_ticket_mail env b te i))
    = filter markup (pp_html (prepare_ticket_mail env' b' te' j))"
proof -
  have page: "filter markup (mail_page a n body f u) = filter markup (mail_page a' n' body' f' u')"
    if "filter markup a = []" "filter markup a' = []" "filter markup body = filter markup body'" for a n body f u a' n' body' f' u'
    unfolding mail_page_def filter_append filter_styled filter_nl escape_html_plain that by (simp only: append_Nil)
  show ?thesis
    unfolding prepare_ticket_mail_def Let_def prepared.select_convs
    using assms(1,2) by (simp only: if_False simp_thms) (intro page filter_content safe_color_plain assms(3))
qed

section \<open>Tracked links\<close>

lemma word_uri: "set s \<subseteq> set BASE64_ALPHABET \<Longrightarrow> uri_component s = s"
proof -
  have "\<forall>c \<in> set BASE64_ALPHABET. ch_word c \<or> c \<in> set ''-.!~*()'' \<or> c = APOS"
    by (simp add: BASE64_ALPHABET_def ch_word_def ch_lower_alnum_def ch_digit_def ch_lower_def Let_def char_of_eq_iff
        take_bit_nat_eq_self)
  then have "concat (map (\<lambda>c. if ch_word c \<or> c \<in> set ''-.!~*()'' \<or> c = APOS then [c] else f c) s) = s"
    if "set s \<subseteq> set BASE64_ALPHABET" for f :: "char \<Rightarrow> string"
    using that by (induction s) auto
  then show "set s \<subseteq> set BASE64_ALPHABET \<Longrightarrow> uri_component s = s" by (simp add: uri_component_def Let_def)
qed

lemma find_mail_count: "find_mail i s = Some m \<Longrightarrow> \<exists>n. length (filter (\<lambda>m. ml_id m = i) (mails s)) = Suc n"
  by (auto simp: find_mail_def dest!: find_SomeD intro: count_Suc)

lemma link_rewritten:
  assumes "starts_with url ''http://'' \<and> length url > 7 \<or> starts_with url ''https://'' \<and> length url > 8"
    and "QUOT \<notin> set url" "APOS \<notin> set url" "\<not> starts_with url (api @ ''/v1/notifications/email/track/'')"
  shows "link_match mac api i (''<a href='' @ [QUOT] @ url @ [QUOT] @ ''>'')
    = Some (''<a href='' @ [QUOT] @ click_url mac api i url @ [QUOT] @ ''>'', [])"
proof -
  let ?t = "url @ [QUOT] @ ''>''"
  have tw: "takeWhile (\<lambda>c. c \<notin> {QUOT, APOS}) ?t = url"
    using assms(2,3) by (subst takeWhile_append2) auto
  have low: "js_lower ''http://'' = ''http://''" "js_lower ''https://'' = ''https://''" "js_lower ''href='' = ''href=''"
      "js_lower ''<a'' = ''<a''"
    by (simp_all add: ch_lower_def Let_def)
  have ci: "ci_starts (p @ r) p" if "js_lower p = p" for p r using that by (simp add: ci_starts_def)
  have "ci_starts ?t ''http://'' \<and> length url > 7 \<or> ci_starts ?t ''https://'' \<and> length url > 8"
    using assms(1) ci[OF low(1)] ci[OF low(2)] by (auto simp: starts_with_iff)
  moreover have "ci_starts (''href='' @ QUOT # ?t) ''href=''" by (rule ci[OF low(3)])
  ultimately have "href_here (''href='' @ QUOT # ?t) = Some (QUOT, url, [], [])"
    using tw by (simp add: href_here_def Let_def QUOT_def)
  then have f: "find_href (''href='' @ QUOT # ?t) = Some ([], QUOT, url, [], [])" by simp
  have "ci_starts (''<a'' @ '' href='' @ QUOT # ?t) ''<a''" by (rule ci[OF low(4)])
  with f assms(4) show ?thesis
    by (simp add: link_match_def ch_space_def numeral_2_eq_2)
qed

text \<open>
  A rewritten link leads where the original led. For an absolute link in the body of a mail,
  the worker writes the tracking address with the encoded target and its signature; a request
  for that address with these parameters is answered with exactly the original target, and
  counted once, as long as the mail exists and the target parses as an http(s) URL.
\<close>
theorem tracked_link_round_trip:
  assumes "mac_ok mac" and "starts_with url ''http://'' \<and> length url > 7 \<or> starts_with url ''https://'' \<and> length url > 8"
    and "QUOT \<notin> set url" and "APOS \<notin> set url" and "\<not> starts_with url (api @ ''/v1/notifications/email/track/'')"
    and "find_mail i s = Some m" and "protocol url \<in> {Some ''http:'', Some ''https:''}"
    and "e = to_base64url url" and "signature = tracking_signature mac i ''CLICK'' e"
    and "record_click mac protocol ip_hash t i e signature ip agent s = (r, s')"
  shows "rewrite_all (link_match mac api i) (''<a href='' @ [QUOT] @ url @ [QUOT] @ ''>'')
      = ''<a href='' @ [QUOT] @ api @ ''/v1/notifications/email/track/click/'' @ i @ ''?url='' @ e @ ''&sig='' @ signature @ [QUOT] @ ''>''
    \<and> r = Inr (Some url) \<and> map ml_clickCount (filter (\<lambda>x. ml_id x = i) (mails s')) = map (\<lambda>x. Suc (ml_clickCount x)) (filter (\<lambda>x. ml_id x = i) (mails s))"
proof -
  have "set e \<subseteq> set BASE64_ALPHABET" "set signature \<subseteq> set BASE64_ALPHABET"
    using assms(1,8,9) base64url_letters by (auto simp: mac_ok_def tracking_signature_def)
  then have u: "uri_component e = e" "uri_component signature = signature" by (simp_all add: word_uri)
  have 1: "rewrite_all (link_match mac api i) (''<a href='' @ [QUOT] @ url @ [QUOT] @ ''>'')
      = ''<a href='' @ [QUOT] @ click_url mac api i url @ [QUOT] @ ''>''"
    using link_rewritten[OF assms(2-5), of mac i] by (simp add: rewrite_all.simps)
  obtain n where n: "length (filter (\<lambda>m. ml_id m = i) (mails s)) = Suc n" using find_mail_count[OF assms(6)] by blast
  have k: "record_click mac protocol ip_hash t i e signature ip agent s
      = (Inr (Some url), snd (record_tracking ip_hash i ''CLICK'' (Some url) ip agent
          (s\<lparr>mails := map (\<lambda>m. if ml_id m = i then m\<lparr>ml_clickCount := ml_clickCount m + 1,
             ml_clickedAt := (case ml_clickedAt m of None \<Rightarrow> Some t | Some d \<Rightarrow> Some d)\<rparr> else m) (mails s)\<rparr>)))"
    using assms(7) n by (auto simp: record_click_def verify_tracking_def assms(8,9) Let_def update_count bindE_eval ret_eval
        record_tracking_def writes_eval)
  have "map ml_clickCount (filter (\<lambda>x. ml_id x = i) (map (\<lambda>m. if ml_id m = i then m\<lparr>ml_clickCount := ml_clickCount m + 1,
             ml_clickedAt := (case ml_clickedAt m of None \<Rightarrow> Some t | Some d \<Rightarrow> Some d)\<rparr> else m) ms))
      = map (\<lambda>x. Suc (ml_clickCount x)) (filter (\<lambda>x. ml_id x = i) ms)" for ms :: "mail list"
    by (induction ms) auto
  with k assms(10) have "r = Inr (Some url) \<and> map ml_clickCount (filter (\<lambda>x. ml_id x = i) (mails s')) = map (\<lambda>x. Suc (ml_clickCount x)) (filter (\<lambda>x. ml_id x = i) (mails s))"
    by (auto simp: record_tracking_def writes_eval)
  with 1 u assms(8,9) show ?thesis by (simp add: click_url_def Let_def)
qed

section \<open>Sanitising once\<close>

text \<open>The sanitiser removes what it finds in one pass; the pieces around a removed element can form a new one.\<close>

lemma sanitize_leaves_script:
  "sanitize_template_html ''<scr<script></script>ipt>alert(1)</script>'' = ''<script>alert(1)</script>''"
  by (simp add: sanitize_template_html_def element_match_def ci_starts_def script_url_def bare_handler_def
      quoted_handler_def handler_start_def Let_def ch_space_def ch_lower_def char_of_eq_iff)

section \<open>Instances\<close>

definition w_input :: mail_input where
  "w_input = \<lparr>mi_companyId = None, mi_ticketId = None, mi_userId = None, mi_recipient = ''a@b.co'', mi_name = None,
     mi_type = ''T'', mi_category = ''dispatch'', mi_subject = ''S'', mi_html = [], mi_text = None, mi_priority = None,
     mi_sender = None, mi_replyTo = None\<rparr>"

lemma w_address: "normalize_email ''a@b.co'' = ''a@b.co''"
  by (simp add: normalize_email_def js_trim_def ch_space_def ch_lower_def Let_def email_shaped_def)

lemma w_mac: "mac_ok (me_mac w_env)"
  by (simp add: mac_ok_def w_env_def BASE64_ALPHABET_def)

theorem unsubscribe_stops_optional_mail_witness:
  "fst (enqueue 5 ''m2'' w_input (snd (unsubscribe (me_mac w_env) (unsubscribe_token (me_mac w_env) ''a@b.co'') (w_db [])))) = Inr SUPPRESSED"
proof -
  let ?s = "snd (unsubscribe (me_mac w_env) (unsubscribe_token (me_mac w_env) ''a@b.co'') (w_db []))"
  have n: "normalize_email ''a@b.co'' \<noteq> []" by (simp add: w_address)
  have "mails ?s = []"
    by (simp add: unsubscribe_def verify_token[OF w_mac n] or_null_def w_address act_simps upsert_suppression_def)
  then obtain st s2 where e: "enqueue 5 ''m2'' w_input ?s = (Inr st, s2)"
    by (simp add: enqueue_def act_simps w_input_def w_address insert_mail_def find_mail_def)
  have "normalize_email (mi_recipient w_input) = normalize_email ''a@b.co''" "mi_category w_input \<notin> CRITICAL_CATEGORIES"
    by (simp_all add: w_input_def CRITICAL_CATEGORIES_def)
  with unsubscribe_stops_optional_mail[OF w_mac n surjective_pairing _ e] e show ?thesis by simp
qed

definition w_ticket :: sla_ticket where
  "w_ticket = \<lparr>sl_id = ''t1'', sl_number = ''N'', sl_title = ''T'', sl_companyId = None, sl_createdAt = 0, sl_status = ''OPEN'',
     sl_deleted = False, sl_resolved = False, sl_resolutionMin = 1, sl_escalateMin = None, sl_assignedTo = Some ''u1'', sl_escalateTo = None\<rparr>"

definition w_user :: mail_user where
  "w_user = \<lparr>mu_id = ''u1'', mu_email = Some ''root@host'', mu_first = None, mu_last = None, mu_role = ''TECHNICIAN'',
     mu_companyId = None, mu_active = True, mu_deleted = False\<rparr>"

theorem malformed_address_loses_escalation_witness:
  "queue_escalation w_env (\<lambda>a b c. []) 9 w_ticket ''BREACHED''
     (snd (queue_escalation w_env (\<lambda>a b c. []) 5 w_ticket ''BREACHED'' (w_db []\<lparr>mail_users := [w_user]\<rparr>)))
   = (Inr (), snd (queue_escalation w_env (\<lambda>a b c. []) 5 w_ticket ''BREACHED'' (w_db []\<lparr>mail_users := [w_user]\<rparr>)))"
proof -
  let ?s = "w_db []\<lparr>mail_users := [w_user]\<rparr>"
  have b: "normalize_email ''root@host'' = []"
    by (simp add: normalize_email_def js_trim_def ch_space_def ch_lower_def Let_def email_shaped_def)
  have "sla_unique (sla_recipients w_ticket ''BREACHED'' ?s) = [(''u1'', ''root@host'', [])]"
    by (simp add: sla_recipients_def joined_user_def w_ticket_def w_user_def recipient_of_def sla_unique_def person_name_def or_str_def)
  from malformed_address_loses_escalation[OF this _ _ surjective_pairing] show ?thesis by (simp add: b)
qed

definition w_texts :: "string \<Rightarrow> ticket_mail" where
  "w_texts x = \<lparr>tm_recipient = ''a@b.co'', tm_name = None, tm_number = x, tm_title = x, tm_action = x, tm_detail = None,
     tm_actor = None, tm_url = x\<rparr>"

theorem mail_markup_fixed_witness:
  "filter markup (pp_html (prepare_ticket_mail w_env (brand_of None (w_db [])) no_template (w_texts ''<script>'')))
   = filter markup (pp_html (prepare_ticket_mail w_env (brand_of None (w_db [])) no_template (w_texts ''x'')))"
proof -
  have "\<not> truthy (te_html no_template)" by (simp add: no_template_def)
  moreover have "same_shape (w_texts ''<script>'') (w_texts ''x'')" by (simp add: same_shape_def w_texts_def trimmed_detail_def)
  ultimately show ?thesis by (intro mail_markup_fixed)
qed

theorem tracked_link_round_trip_witness:
  "fst (record_click (me_mac w_env) (\<lambda>u. Some ''https:'') (\<lambda>x. x) 5 ''m1'' (to_base64url ''https://a.b/c'')
     (tracking_signature (me_mac w_env) ''m1'' ''CLICK'' (to_base64url ''https://a.b/c'')) None None (w_db [w_mail])) = Inr (Some ''https://a.b/c'')"
proof -
  have "find_mail ''m1'' (w_db [w_mail]) = Some w_mail" by (simp add: find_mail_def)
  from tracked_link_round_trip[OF w_mac _ _ _ _ this _ refl refl surjective_pairing,
      of "''https://a.b/c''" "''http://h''" "\<lambda>u. Some ''https:''" "\<lambda>x. x" 5 None None]
  show ?thesis by (simp add: QUOT_def APOS_def)
qed

end
