(* ===== verification/Governance.thy ===== *)
theory Governance
  imports Guards
begin

text \<open>
  Access governance (\<open>admin/services/access-governance.service.ts\<close>): just-in-time elevation,
  two-person approval of sensitive actions, impersonation, authorization relationships,
  access requests, contextual policies, SCIM tokens and group mappings. The tables the
  guards read (roles, grants, scopes, policies) are those of \<open>Guards\<close>, the session and alert
  tables those of \<open>Auth\<close>. Delivery of events to external destinations, the dashboards,
  simulations and exports, which write nothing the guards read, and the best-effort \<open>catch\<close> of
  a failing alert are left out. A permission is its slug.
\<close>

section \<open>Tables\<close>

record elevation =
  el_id :: string
  el_companyId :: "string option"
  el_userId :: string
  el_slug :: string
  el_scopeType :: string
  el_scopeValue :: "string option"
  el_reason :: string
  el_minutes :: int
  el_status :: string
  el_requestedBy :: string
  el_reviewedBy :: "string option"
  el_grantId :: "string option"

record dual_approval =
  ap_id :: string
  ap_companyId :: "string option"
  ap_action :: string
  ap_resourceType :: string
  ap_resource :: "string option"
  ap_reason :: string
  ap_status :: string
  ap_requestedBy :: string
  ap_first :: "string option"
  ap_second :: "string option"
  ap_rejectedBy :: "string option"
  ap_expiresAt :: int
  ap_executedAt :: "int option"

record relation =
  rl_id :: string
  rl_companyId :: "string option"
  rl_subjectType :: string
  rl_subject :: string
  rl_name :: string
  rl_resourceType :: string
  rl_resource :: string
  rl_createdBy :: string
  rl_expiresAt :: "int option"

record imp_row = impersonation +
  im_companyId :: "string option"
  im_reason :: string
  im_approval :: string
  im_startedAt :: int

record access_request =
  ar_id :: string
  ar_companyId :: "string option"
  ar_requester :: string
  ar_type :: string
  ar_target :: string
  ar_slug :: "string option"
  ar_roleId :: "string option"
  ar_resourceType :: "string option"
  ar_resource :: "string option"
  ar_relation :: "string option"
  ar_minutes :: "int option"
  ar_reason :: string
  ar_status :: string
  ar_reviewedBy :: "string option"
  ar_result :: "string option"

record scim_token =
  sk_id :: string
  sk_companyId :: string
  sk_name :: string
  sk_hash :: string
  sk_expiresAt :: "int option"
  sk_isActive :: bool
  sk_revokedAt :: "int option"

record group_mapping =
  gm_id :: string
  gm_companyId :: string
  gm_group :: string
  gm_groupName :: "string option"
  gm_roleId :: "string option"
  gm_preset :: "string option"
  gm_priority :: int

record auth_test =
  at_id :: string
  at_companyId :: "string option"
  at_type :: string
  at_principal :: string
  at_slug :: string
  at_expected :: string
  at_active :: bool

record gov_db =
  gv_elevations :: "elevation list"
  gv_approvals :: "dual_approval list"
  gv_relations :: "relation list"
  gv_imps :: "imp_row list"
  gv_requests :: "access_request list"
  gv_tokens :: "scim_token list"
  gv_mappings :: "group_mapping list"
  gv_policies :: "(string \<times> policy) list"
  gv_tests :: "auth_test list"
  gv_permissions :: "string list"
  gv_role_company :: "(string \<times> string option) list"
  gv_authz :: authz
  gv_people :: "person list"
  gv_auth :: auth_db

type_synonym 'a gov = "(gov_db, 'a) act"

text \<open>What the guards see.\<close>

definition guard_tables :: "gov_db \<Rightarrow> authz" where
  "guard_tables s = (gv_authz s)\<lparr>az_policies := map snd (gv_policies s)\<rparr>"

definition guard_sessions :: "gov_db \<Rightarrow> impersonation list" where
  "guard_sessions s = map impersonation.truncate (gv_imps s)"

section \<open>Shared steps\<close>

definition SENSITIVE_ACTIONS :: "string list" where
  "SENSITIVE_ACTIONS = [''TENANT_DELETE'', ''AUDIT_EXPORT'', ''BILLING_OWNER_CHANGE'', ''BREAK_GLASS_ACTIVATE'', ''IMPERSONATE_USER'']"

text \<open>\<open>getScopedRow\<close>: the row, when it belongs to the actor's company or the actor is a super admin.\<close>

definition scoped_row :: "('r \<Rightarrow> string) \<Rightarrow> ('r \<Rightarrow> string option) \<Rightarrow> 'r list \<Rightarrow> string \<Rightarrow> principal \<Rightarrow> 'r res" where
  "scoped_row key company tab i actor =
     (case find (\<lambda>r. key r = i) tab of
        None \<Rightarrow> Inl (NotFound ''Governance record not found'')
      | Some r \<Rightarrow> if p_role actor \<noteq> ''SUPER_ADMIN'' \<and> company r \<noteq> p_companyId actor
                  then Inl (Forbidden ''Record is outside your tenant'') else Inr r)"

definition user_in_scope :: "string \<Rightarrow> principal \<Rightarrow> gov_db \<Rightarrow> person res" where
  "user_in_scope i actor s =
     (case find (\<lambda>u. u_id u = i \<and> u_deletedAt u = None) (gv_people s) of
        None \<Rightarrow> Inl (NotFound ''User not found'')
      | Some u \<Rightarrow> if p_role actor \<noteq> ''SUPER_ADMIN'' \<and> u_companyId u \<noteq> p_companyId actor
                  then Inl (Forbidden ''User is outside your tenant'') else Inr u)"

definition get :: "(gov_db \<Rightarrow> 'a res) \<Rightarrow> 'a gov" where
  "get f = bindE (reads f) of_res"

text \<open>The primary key of a table rejects a second row.\<close>

definition new_key :: "(gov_db \<Rightarrow> string list) \<Rightarrow> string \<Rightarrow> unit gov" where
  "new_key keys i = bindE (reads keys) (\<lambda>ks. guard (i \<notin> set ks) duplicate)"

definition revoke_user_sessions :: "int \<Rightarrow> string list \<Rightarrow> string \<Rightarrow> string \<Rightarrow> unit gov" where
  "revoke_user_sessions t ids actorId why =
     writes (\<lambda>s. s\<lparr>gv_auth := (gv_auth s)\<lparr>
       sessions := map (\<lambda>x. if se_revokedAt x = None \<and> se_userId x \<in> set ids
         then revoke t (Some actorId) why x else x) (sessions (gv_auth s)),
       accounts := map (\<lambda>a. if ac_id a \<in> set ids then a\<lparr>ac_authVersion := ac_authVersion a + 1\<rparr> else a)
         (accounts (gv_auth s))\<rparr>\<rparr>)"

definition security_alert :: "string option \<Rightarrow> string \<Rightarrow> string \<Rightarrow> string \<Rightarrow> string \<Rightarrow> unit gov" where
  "security_alert companyId kind severity subjectId summary =
     writes (\<lambda>s. s\<lparr>gv_auth := (gv_auth s)\<lparr>alerts := alerts (gv_auth s) @ [\<lparr>al_companyId = companyId,
       al_type = kind, al_severity = severity, al_subject = subjectId, al_summary = take 255 summary\<rparr>]\<rparr>\<rparr>)"

section \<open>Elevation\<close>

record elevation_dto =
  ed_userId :: "string option"
  ed_slug :: "string option"
  ed_scopeType :: "string option"
  ed_scopeValue :: "string option"
  ed_reason :: "string option"
  ed_minutes :: "int option"

definition request_elevation :: "world \<Rightarrow> elevation_dto \<Rightarrow> principal \<Rightarrow> string gov" where
  "request_elevation w dto actor =
     bindE (get (user_in_scope (or_str (ed_userId dto) (p_id actor)) actor)) (\<lambda>u.
     bindE (guard (js_trim (or_str (ed_slug dto) []) \<noteq> []) (BadRequest ''Permission is required'')) (\<lambda>_.
     bindE (guard (js_trim (or_str (ed_reason dto) []) \<noteq> []) (BadRequest ''Business reason is required'')) (\<lambda>_.
     bindE (new_key (\<lambda>s. map el_id (gv_elevations s)) (uuid w 0)) (\<lambda>_.
     bindE (writes (\<lambda>s. s\<lparr>gv_elevations := gv_elevations s @ [\<lparr>el_id = uuid w 0, el_companyId = u_companyId u,
       el_userId = u_id u, el_slug = or_str (ed_slug dto) [], el_scopeType = or_str (ed_scopeType dto) ''ALL'',
       el_scopeValue = or_null (ed_scopeValue dto), el_reason = or_str (ed_reason dto) [],
       el_minutes = min 480 (max 5 (or_int (ed_minutes dto) 60)), el_status = ''PENDING'',
       el_requestedBy = p_id actor, el_reviewedBy = None, el_grantId = None\<rparr>]\<rparr>)) (\<lambda>_.
     bindE (security_alert (u_companyId u) ''JIT_ELEVATION_REQUESTED'' ''warning'' (uuid w 0)
       (''JIT access requested for '' @ u_email u)) (\<lambda>_.
     ret (uuid w 0)))))))"

definition new_grant :: "int \<Rightarrow> elevation \<Rightarrow> temp_grant" where
  "new_grant t r = \<lparr>tg_userId = el_userId r, tg_slug = el_slug r, tg_revokedAt = None, tg_startsAt = t,
     tg_expiresAt = t + el_minutes r * 60000\<rparr>"

definition review_elevation :: "world \<Rightarrow> string \<Rightarrow> string \<Rightarrow> principal \<Rightarrow> string option gov" where
  "review_elevation w i decision actor =
     bindE (get (\<lambda>s. scoped_row el_id el_companyId (gv_elevations s) i actor)) (\<lambda>r.
     bindE (guard (el_status r = ''PENDING'') (BadRequest ''Elevation request is already resolved'')) (\<lambda>_.
     bindE (guard (el_requestedBy r \<noteq> p_id actor) (Forbidden ''Requesters cannot approve their own elevation'')) (\<lambda>_.
     bindE (if decision = ''APPROVED''
            then bindE (reads gv_permissions) (\<lambda>ps.
                 bindE (guard (el_slug r \<in> set ps) (BadRequest ''Permission no longer exists'')) (\<lambda>_.
                 bindE (writes (\<lambda>s. s\<lparr>gv_authz := (gv_authz s)\<lparr>az_grants := az_grants (gv_authz s) @ [new_grant (now w) r]\<rparr>\<rparr>)) (\<lambda>_.
                 bindE (revoke_user_sessions (now w) [el_userId r] (p_id actor) ''jit-elevation-approved'') (\<lambda>_.
                 ret (Some (uuid w 0))))))
            else ret None) (\<lambda>g.
     bindE (writes (\<lambda>s. s\<lparr>gv_elevations := map (\<lambda>x. if el_id x = i then x\<lparr>el_status := decision,
       el_reviewedBy := Some (p_id actor), el_grantId := g\<rparr> else x) (gv_elevations s)\<rparr>)) (\<lambda>_.
     bindE (security_alert (el_companyId r) (''JIT_ELEVATION_'' @ decision)
       (if decision = ''APPROVED'' then ''warning'' else ''info'') i (''JIT elevation '' @ js_lower decision)) (\<lambda>_.
     ret g))))))"

section \<open>Two-person approval\<close>

record approval_dto =
  ad_action :: "string option"
  ad_resourceType :: "string option"
  ad_resource :: "string option"
  ad_reason :: "string option"

definition request_dual_approval :: "world \<Rightarrow> approval_dto \<Rightarrow> principal \<Rightarrow> string gov" where
  "request_dual_approval w dto actor =
     (let action = js_upper (or_str (ad_action dto) []) in
      bindE (guard (action \<in> set SENSITIVE_ACTIONS) (BadRequest ''Unsupported sensitive action'')) (\<lambda>_.
      bindE (guard (js_trim (or_str (ad_reason dto) []) \<noteq> []) (BadRequest ''Reason is required'')) (\<lambda>_.
      bindE (new_key (\<lambda>s. map ap_id (gv_approvals s)) (uuid w 0)) (\<lambda>_.
      bindE (writes (\<lambda>s. s\<lparr>gv_approvals := gv_approvals s @ [\<lparr>ap_id = uuid w 0, ap_companyId = p_companyId actor,
        ap_action = action, ap_resourceType = js_upper (or_str (ad_resourceType dto) ''SYSTEM''),
        ap_resource = or_null (ad_resource dto), ap_reason = or_str (ad_reason dto) [], ap_status = ''PENDING'',
        ap_requestedBy = p_id actor, ap_first = None, ap_second = None, ap_rejectedBy = None,
        ap_expiresAt = now w + 86400000, ap_executedAt = None\<rparr>]\<rparr>)) (\<lambda>_.
      bindE (security_alert (p_companyId actor) ''DUAL_APPROVAL_REQUESTED'' ''critical'' (uuid w 0)
        (action @ '' requires two approvers'')) (\<lambda>_.
      ret (uuid w 0)))))))"

definition set_approval :: "string \<Rightarrow> (dual_approval \<Rightarrow> dual_approval) \<Rightarrow> unit gov" where
  "set_approval i f = writes (\<lambda>s. s\<lparr>gv_approvals := map (\<lambda>x. if ap_id x = i then f x else x) (gv_approvals s)\<rparr>)"

definition review_dual_approval :: "world \<Rightarrow> string \<Rightarrow> string \<Rightarrow> principal \<Rightarrow> string gov" where
  "review_dual_approval w i decision actor =
     bindE (get (\<lambda>s. scoped_row ap_id ap_companyId (gv_approvals s) i actor)) (\<lambda>r.
     bindE (guard (ap_status r \<in> {''PENDING'', ''FIRST_APPROVED''}) (BadRequest ''Approval request is already resolved'')) (\<lambda>_.
     bindE (guard (ap_expiresAt r > now w) (BadRequest ''Approval request expired'')) (\<lambda>_.
     bindE (guard (ap_requestedBy r \<noteq> p_id actor) (Forbidden ''Requester cannot approve this action'')) (\<lambda>_.
     if decision = ''REJECTED''
       then bindE (set_approval i (\<lambda>x. x\<lparr>ap_status := ''REJECTED'', ap_rejectedBy := Some (p_id actor)\<rparr>)) (\<lambda>_. ret ''REJECTED'')
     else if \<not> truthy (ap_first r)
       then bindE (set_approval i (\<lambda>x. x\<lparr>ap_status := ''FIRST_APPROVED'', ap_first := Some (p_id actor)\<rparr>)) (\<lambda>_. ret ''FIRST_APPROVED'')
     else
       bindE (guard (ap_first r \<noteq> Some (p_id actor))
         (Forbidden ''A different administrator must provide the second approval'')) (\<lambda>_.
       bindE (set_approval i (\<lambda>x. x\<lparr>ap_status := ''APPROVED'', ap_second := Some (p_id actor)\<rparr>)) (\<lambda>_.
       bindE (security_alert (ap_companyId r) ''DUAL_APPROVAL_COMPLETED'' ''critical'' i
         (ap_action r @ '' received two approvals'')) (\<lambda>_.
       ret ''APPROVED'')))))))"

definition require_approved_action :: "string option \<Rightarrow> string \<Rightarrow> string \<Rightarrow> principal \<Rightarrow> dual_approval gov" where
  "require_approved_action i action resource actor =
     bindE (guard (truthy i) (BadRequest ''An approved two-person request is required'')) (\<lambda>_.
     bindE (get (\<lambda>s. scoped_row ap_id ap_companyId (gv_approvals s) (or_str i []) actor)) (\<lambda>r.
     bindE (guard (ap_status r = ''APPROVED'' \<and> ap_action r = action \<and> or_str (ap_resource r) [] = resource)
       (BadRequest ''Approval does not authorize this action'')) (\<lambda>_.
     ret r)))"

section \<open>Impersonation\<close>

record impersonation_dto =
  id_target :: "string option"
  id_approval :: "string option"
  id_minutes :: "int option"
  id_reason :: "string option"

definition start_impersonation :: "world \<Rightarrow> impersonation_dto \<Rightarrow> principal \<Rightarrow> string gov" where
  "start_impersonation w dto actor =
     bindE (get (user_in_scope (or_str (id_target dto) []) actor)) (\<lambda>u.
     bindE (guard (u_id u \<noteq> p_id actor) (BadRequest ''You cannot impersonate yourself'')) (\<lambda>_.
     bindE (require_approved_action (id_approval dto) ''IMPERSONATE_USER'' (u_id u) actor) (\<lambda>a.
     bindE (new_key (\<lambda>s. map is_id (gv_imps s)) (uuid w 0)) (\<lambda>_.
     bindE (writes (\<lambda>s. s\<lparr>gv_imps := gv_imps s @ [\<lparr>is_id = uuid w 0, is_actorId = p_id actor, is_targetId = u_id u,
       is_endedAt = None, is_expiresAt = now w + min 30 (max 5 (or_int (id_minutes dto) 15)) * 60000,
       im_companyId = u_companyId u, im_reason = or_str (id_reason dto) (ap_reason a), im_approval = ap_id a,
       im_startedAt = now w\<rparr>]\<rparr>)) (\<lambda>_.
     bindE (set_approval (ap_id a) (\<lambda>x. x\<lparr>ap_executedAt := Some (now w), ap_status := ''EXECUTED''\<rparr>)) (\<lambda>_.
     bindE (security_alert (u_companyId u) ''IMPERSONATION_STARTED'' ''critical'' (uuid w 0)
       (p_email actor @ '' started impersonating '' @ u_email u)) (\<lambda>_.
     ret (uuid w 0))))))))"

definition end_impersonation :: "world \<Rightarrow> string \<Rightarrow> principal \<Rightarrow> unit gov" where
  "end_impersonation w i actor =
     bindE (get (\<lambda>s. case find (\<lambda>x. is_id x = i) (gv_imps s) of
         None \<Rightarrow> Inl (NotFound ''Impersonation session not found'') | Some x \<Rightarrow> Inr x)) (\<lambda>x.
     bindE (guard (p_role actor = ''SUPER_ADMIN'' \<or> is_actorId x = p_id actor) (Forbidden [])) (\<lambda>_.
     bindE (writes (\<lambda>s. s\<lparr>gv_imps := map (\<lambda>x. if is_id x = i \<and> is_endedAt x = None
       then x\<lparr>is_endedAt := Some (now w)\<rparr> else x) (gv_imps s)\<rparr>)) (\<lambda>_.
     security_alert (im_companyId x) ''IMPERSONATION_ENDED'' ''info'' i ''Impersonation session ended'')))"

section \<open>Relationships\<close>

record relation_dto =
  rd_companyId :: "string option"
  rd_subjectType :: "string option"
  rd_subject :: string
  rd_name :: "string option"
  rd_resourceType :: "string option"
  rd_resource :: string
  rd_expiresAt :: "int option"

definition same_tuple :: "relation \<Rightarrow> relation \<Rightarrow> bool" where
  "same_tuple x y \<longleftrightarrow> rl_subjectType x = rl_subjectType y \<and> rl_subject x = rl_subject y \<and> rl_name x = rl_name y
     \<and> rl_resourceType x = rl_resourceType y \<and> rl_resource x = rl_resource y"

definition add_relationship :: "world \<Rightarrow> nat \<Rightarrow> relation_dto \<Rightarrow> principal \<Rightarrow> string gov" where
  "add_relationship w k dto actor =
     (let subjectType = js_upper (or_str (rd_subjectType dto) ''USER'');
          row = \<lparr>rl_id = uuid w k,
            rl_companyId = (if p_role actor = ''SUPER_ADMIN'' then or_opt (rd_companyId dto) (p_companyId actor) else p_companyId actor),
            rl_subjectType = subjectType, rl_subject = rd_subject dto,
            rl_name = js_lower (or_str (rd_name dto) ''viewer''),
            rl_resourceType = js_upper (or_str (rd_resourceType dto) []), rl_resource = rd_resource dto,
            rl_createdBy = p_id actor, rl_expiresAt = rd_expiresAt dto\<rparr> in
      bindE (guard (subjectType \<in> {''USER'', ''SERVICE_ACCOUNT'', ''ROLE''}) (BadRequest ''Invalid subject type'')) (\<lambda>_.
      bindE (writes (\<lambda>s. s\<lparr>gv_relations :=
        (if list_ex (same_tuple row) (gv_relations s)
         then map (\<lambda>x. if same_tuple row x then x\<lparr>rl_expiresAt := rl_expiresAt row, rl_companyId := rl_companyId row\<rparr> else x)
                (gv_relations s)
         else gv_relations s @ [row])\<rparr>)) (\<lambda>_.
      ret (uuid w k))))"

definition remove_relationship :: "string \<Rightarrow> principal \<Rightarrow> unit gov" where
  "remove_relationship i actor =
     bindE (get (\<lambda>s. scoped_row rl_id rl_companyId (gv_relations s) i actor)) (\<lambda>r.
     writes (\<lambda>s. s\<lparr>gv_relations := filter (\<lambda>x. rl_id x \<noteq> i) (gv_relations s)\<rparr>))"

section \<open>Access requests\<close>

record access_dto =
  xd_type :: "string option"
  xd_target :: "string option"
  xd_slug :: "string option"
  xd_roleId :: "string option"
  xd_resourceType :: "string option"
  xd_resource :: "string option"
  xd_relation :: "string option"
  xd_minutes :: "int option"
  xd_reason :: "string option"

definition create_access_request :: "world \<Rightarrow> access_dto \<Rightarrow> principal \<Rightarrow> string gov" where
  "create_access_request w dto actor =
     (let kind = js_upper (or_str (xd_type dto) []) in
      bindE (guard (kind \<in> {''PERMISSION'', ''ROLE'', ''RELATIONSHIP''}) (BadRequest ''Unsupported access request type'')) (\<lambda>_.
      bindE (guard (js_trim (or_str (xd_reason dto) []) \<noteq> []) (BadRequest ''A business reason is required'')) (\<lambda>_.
      bindE (new_key (\<lambda>s. map ar_id (gv_requests s)) (uuid w 0)) (\<lambda>_.
      bindE (writes (\<lambda>s. s\<lparr>gv_requests := gv_requests s @ [\<lparr>ar_id = uuid w 0, ar_companyId = p_companyId actor,
        ar_requester = p_id actor, ar_type = kind, ar_target = or_str (xd_target dto) (p_id actor),
        ar_slug = or_null (xd_slug dto), ar_roleId = or_null (xd_roleId dto),
        ar_resourceType = or_null (xd_resourceType dto), ar_resource = or_null (xd_resource dto),
        ar_relation = or_null (xd_relation dto),
        ar_minutes = (case xd_minutes dto of None \<Rightarrow> None | Some n \<Rightarrow> if n = 0 then None else Some n),
        ar_reason = or_str (xd_reason dto) [], ar_status = ''PENDING'', ar_reviewedBy = None, ar_result = None\<rparr>]\<rparr>)) (\<lambda>_.
      ret (uuid w 0))))))"

text \<open>\<open>INSERT IGNORE INTO UserRole\<close>.\<close>

definition grant_role :: "string \<Rightarrow> string \<Rightarrow> unit gov" where
  "grant_role userId roleId =
     writes (\<lambda>s. s\<lparr>gv_authz := (gv_authz s)\<lparr>az_userRoles :=
       (if (userId, roleId) \<in> set (az_userRoles (gv_authz s)) then az_userRoles (gv_authz s)
        else az_userRoles (gv_authz s) @ [(userId, roleId)])\<rparr>\<rparr>)"

definition role_in_reach :: "string \<Rightarrow> principal \<Rightarrow> gov_db \<Rightarrow> bool" where
  "role_in_reach roleId actor s \<longleftrightarrow>
     (case find (\<lambda>r. ro_id r = roleId) (az_roles (gv_authz s)) of
        None \<Rightarrow> False
      | Some r \<Rightarrow> p_role actor = ''SUPER_ADMIN''
          \<or> Option.bind (map_of (gv_role_company s) roleId) id = p_companyId actor \<or> ro_isSystem r)"

definition review_access_request :: "world \<Rightarrow> string \<Rightarrow> string \<Rightarrow> principal \<Rightarrow> string option gov" where
  "review_access_request w i decision actor =
     bindE (get (\<lambda>s. scoped_row ar_id ar_companyId (gv_requests s) i actor)) (\<lambda>r.
     bindE (guard (ar_status r = ''PENDING'') (BadRequest ''Request already reviewed'')) (\<lambda>_.
     bindE (if decision = ''APPROVED'' \<and> ar_type r = ''PERMISSION''
            then bindE (request_elevation w \<lparr>ed_userId = Some (if ar_target r = [] then ar_requester r else ar_target r),
                   ed_slug = ar_slug r, ed_scopeType = None, ed_scopeValue = None, ed_reason = Some (ar_reason r),
                   ed_minutes = Some (or_int (ar_minutes r) 60)\<rparr> actor) (\<lambda>e. ret (Some e))
            else if decision = ''APPROVED'' \<and> ar_type r = ''RELATIONSHIP''
            then bindE (add_relationship w 0 \<lparr>rd_companyId = None, rd_subjectType = Some ''USER'',
                   rd_subject = ar_requester r, rd_name = ar_relation r, rd_resourceType = ar_resourceType r,
                   rd_resource = or_str (ar_resource r) [], rd_expiresAt = None\<rparr> actor) (\<lambda>e. ret (Some e))
            else if decision = ''APPROVED'' \<and> ar_type r = ''ROLE'' \<and> truthy (ar_roleId r)
            then bindE (reads (role_in_reach (or_str (ar_roleId r) []) actor)) (\<lambda>ok.
                 bindE (guard ok (Forbidden ''Requested role is outside your tenant'')) (\<lambda>_.
                 bindE (grant_role (ar_requester r) (or_str (ar_roleId r) [])) (\<lambda>_.
                 bindE (revoke_user_sessions (now w) [ar_requester r] (p_id actor) ''access-request-approved'') (\<lambda>_.
                 ret (ar_roleId r)))))
            else ret None) (\<lambda>res.
     bindE (writes (\<lambda>s. s\<lparr>gv_requests := map (\<lambda>x. if ar_id x = i then x\<lparr>ar_status := decision,
       ar_reviewedBy := Some (p_id actor), ar_result := res\<rparr> else x) (gv_requests s)\<rparr>)) (\<lambda>_.
     ret res))))"

section \<open>Contextual policies, SCIM tokens and group mappings\<close>

definition own_company :: "principal \<Rightarrow> string option \<Rightarrow> string option" where
  "own_company actor requested = (if p_role actor = ''SUPER_ADMIN'' then or_null requested else p_companyId actor)"

record policy_dto =
  yd_name :: string
  yd_targetType :: "string option"
  yd_target :: string
  yd_companyId :: "string option"
  yd_effect :: "string option"
  yd_conditions :: conditions

definition create_policy :: "world \<Rightarrow> nat \<Rightarrow> policy_dto \<Rightarrow> principal \<Rightarrow> string gov" where
  "create_policy w k dto actor =
     bindE (new_key (\<lambda>s. map fst (gv_policies s)) (uuid w k)) (\<lambda>_.
     bindE (writes (\<lambda>s. s\<lparr>gv_policies := gv_policies s @ [(uuid w k, \<lparr>po_name = yd_name dto, po_active = True,
       po_targetType = or_str (yd_targetType dto) ''PERMISSION'', po_target = yd_target dto,
       po_companyId = own_company actor (yd_companyId dto), po_effect = or_str (yd_effect dto) ''DENY'',
       po_conditions = yd_conditions dto\<rparr>)]\<rparr>)) (\<lambda>_.
     ret (uuid w k)))"

definition delete_policy :: "string \<Rightarrow> principal \<Rightarrow> unit gov" where
  "delete_policy i actor =
     bindE (get (\<lambda>s. scoped_row fst (\<lambda>x. po_companyId (snd x)) (gv_policies s) i actor)) (\<lambda>_.
     writes (\<lambda>s. s\<lparr>gv_policies := filter (\<lambda>x. fst x \<noteq> i) (gv_policies s)\<rparr>))"

definition create_scim_token :: "crypto \<Rightarrow> auth_world \<Rightarrow> string option \<Rightarrow> string option \<Rightarrow> int option \<Rightarrow> principal \<Rightarrow> string gov" where
  "create_scim_token cr w companyId name expiresAt actor =
     (let c = (if p_role actor = ''SUPER_ADMIN'' then companyId else p_companyId actor);
          token = ''fsit_scim_'' @ rnd w 0 in
      bindE (guard (truthy c) (BadRequest ''A company is required for SCIM'')) (\<lambda>_.
      bindE (new_key (\<lambda>s. map sk_id (gv_tokens s)) (uuid w 0)) (\<lambda>_.
      bindE (writes (\<lambda>s. s\<lparr>gv_tokens := gv_tokens s @ [\<lparr>sk_id = uuid w 0, sk_companyId = or_str c [],
        sk_name = or_str name ''SCIM provisioning'', sk_hash = sha256 cr token, sk_expiresAt = expiresAt,
        sk_isActive = True, sk_revokedAt = None\<rparr>]\<rparr>)) (\<lambda>_.
      ret token))))"

definition revoke_scim_token :: "world \<Rightarrow> string \<Rightarrow> principal \<Rightarrow> unit gov" where
  "revoke_scim_token w i actor =
     bindE (get (\<lambda>s. scoped_row sk_id (\<lambda>r. Some (sk_companyId r)) (gv_tokens s) i actor)) (\<lambda>_.
     writes (\<lambda>s. s\<lparr>gv_tokens := map (\<lambda>x. if sk_id x = i then x\<lparr>sk_isActive := False, sk_revokedAt := Some (now w)\<rparr> else x)
       (gv_tokens s)\<rparr>))"

record mapping_dto =
  md_companyId :: "string option"
  md_group :: string
  md_groupName :: "string option"
  md_roleId :: "string option"
  md_preset :: "string option"
  md_priority :: "int option"

definition create_mapping :: "world \<Rightarrow> nat \<Rightarrow> mapping_dto \<Rightarrow> principal \<Rightarrow> string gov" where
  "create_mapping w k dto actor =
     (let c = (if p_role actor = ''SUPER_ADMIN'' then md_companyId dto else p_companyId actor);
          row = \<lparr>gm_id = uuid w k, gm_companyId = or_str c [], gm_group = md_group dto,
            gm_groupName = or_null (md_groupName dto), gm_roleId = or_null (md_roleId dto),
            gm_preset = or_null (md_preset dto), gm_priority = or_int (md_priority dto) 100\<rparr>;
          same = (\<lambda>x. gm_companyId x = gm_companyId row \<and> gm_group x = gm_group row) in
      bindE (guard (truthy c) (BadRequest ''Company is required'')) (\<lambda>_.
      bindE (writes (\<lambda>s. s\<lparr>gv_mappings :=
        (if list_ex same (gv_mappings s)
         then map (\<lambda>x. if same x then row\<lparr>gm_id := gm_id x\<rparr> else x) (gv_mappings s)
         else gv_mappings s @ [row])\<rparr>)) (\<lambda>_.
      ret (uuid w k))))"

definition delete_mapping :: "string \<Rightarrow> principal \<Rightarrow> unit gov" where
  "delete_mapping i actor =
     bindE (get (\<lambda>s. scoped_row gm_id (\<lambda>r. Some (gm_companyId r)) (gv_mappings s) i actor)) (\<lambda>_.
     writes (\<lambda>s. s\<lparr>gv_mappings := filter (\<lambda>x. gm_id x \<noteq> i) (gv_mappings s)\<rparr>))"

section \<open>Authorization tests\<close>

record test_dto =
  td_companyId :: "string option"
  td_type :: "string option"
  td_principal :: string
  td_slug :: string
  td_expected :: "string option"

definition create_authorization_test :: "world \<Rightarrow> nat \<Rightarrow> test_dto \<Rightarrow> principal \<Rightarrow> string gov" where
  "create_authorization_test w k dto actor =
     bindE (new_key (\<lambda>s. map at_id (gv_tests s)) (uuid w k)) (\<lambda>_.
     bindE (writes (\<lambda>s. s\<lparr>gv_tests := gv_tests s @ [\<lparr>at_id = uuid w k,
       at_companyId = own_company actor (td_companyId dto), at_type = or_str (td_type dto) ''ROLE'',
       at_principal = td_principal dto, at_slug = td_slug dto, at_expected = or_str (td_expected dto) ''DENY'',
       at_active = True\<rparr>]\<rparr>)) (\<lambda>_.
     ret (uuid w k)))"

text \<open>A role's own permissions, or those of the roles assigned to a user.\<close>

definition test_decision :: "authz \<Rightarrow> auth_test \<Rightarrow> string" where
  "test_decision az t =
     (if at_type t = ''ROLE''
      then if list_ex (\<lambda>r. ro_id r = at_principal t \<and> at_slug t \<in> set (ro_permissions r)) (az_roles az) then ''ALLOW'' else ''DENY''
      else if at_type t = ''USER''
      then if at_slug t \<in> set (map snd (user_role_permissions az (at_principal t))) then ''ALLOW'' else ''DENY''
      else ''DENY'')"

definition run_authorization_tests :: "principal \<Rightarrow> gov_db \<Rightarrow> (auth_test \<times> string \<times> bool) list" where
  "run_authorization_tests actor s =
     map (\<lambda>t. (t, test_decision (gv_authz s) t, test_decision (gv_authz s) t = at_expected t))
       (filter (\<lambda>t. at_active t \<and> (p_role actor = ''SUPER_ADMIN'' \<or> p_companyId actor \<noteq> None \<and> at_companyId t = p_companyId actor))
         (gv_tests s))"

section \<open>Policy bundles\<close>

record scope_dto =
  cd_roleId :: "string option"
  cd_userId :: "string option"
  cd_scope :: perm_scope

record policy_bundle =
  bu_version :: int
  bu_companyId :: "string option"
  bu_roles :: "(string \<times> string list) list"
  bu_scopes :: "scope_dto list"
  bu_relations :: "relation_dto list"
  bu_policies :: "policy_dto list"
  bu_tests :: "test_dto list"
  bu_mappings :: "mapping_dto list"

text \<open>The role a bundle entry names: a system role or a role of the company (\<open>companyId <=> ?\<close>).\<close>

definition bundle_role :: "string option \<Rightarrow> string \<Rightarrow> gov_db \<Rightarrow> role option" where
  "bundle_role companyId slug s =
     find (\<lambda>r. ro_slug r = slug \<and> (ro_isSystem r \<or> Option.bind (map_of (gv_role_company s) (ro_id r)) id = companyId))
       (az_roles (gv_authz s))"

definition import_role :: "string option \<Rightarrow> principal \<Rightarrow> string \<times> string list \<Rightarrow> unit gov" where
  "import_role companyId actor entry =
     bindE (reads (bundle_role companyId (fst entry))) (\<lambda>target.
     case target of
       None \<Rightarrow> ret ()
     | Some r \<Rightarrow>
         if p_role actor \<noteq> ''SUPER_ADMIN'' \<and> ro_isSystem r then ret ()
         else writes (\<lambda>s. s\<lparr>gv_authz := (gv_authz s)\<lparr>az_roles := map (\<lambda>x. if ro_id x = ro_id r
             then x\<lparr>ro_permissions := remdups (filter (\<lambda>p. p \<in> set (gv_permissions s)) (snd entry))\<rparr> else x)
             (az_roles (gv_authz s))\<rparr>\<rparr>))"

definition import_scope :: "string option \<Rightarrow> scope_dto \<Rightarrow> unit gov" where
  "import_scope companyId dto =
     writes (\<lambda>s. s\<lparr>gv_authz := (gv_authz s)\<lparr>az_scopes := az_scopes (gv_authz s) @ [\<lparr>sr_scope = cd_scope dto,
       sr_userId = or_null (cd_userId dto), sr_roleId = or_null (cd_roleId dto), sr_companyId = companyId\<rparr>]\<rparr>\<rparr>)"

definition import_bundle :: "world \<Rightarrow> policy_bundle \<Rightarrow> principal \<Rightarrow> unit gov" where
  "import_bundle w b actor =
     (let companyId = own_company actor (bu_companyId b); n = length (bu_relations b); m = length (bu_policies b);
          l = length (bu_tests b) in
      bindE (guard (bu_version b = 1) (BadRequest ''Unsupported policy bundle version'')) (\<lambda>_.
      bindE (forE (bu_roles b) (import_role companyId actor)) (\<lambda>_.
      bindE (forE (bu_scopes b) (import_scope companyId)) (\<lambda>_.
      bindE (forE (zip [0..<n] (bu_relations b)) (\<lambda>(k, d). bindE (add_relationship w (1 + k) d actor) (\<lambda>_. ret ()))) (\<lambda>_.
      bindE (forE (zip [0..<m] (bu_policies b))
        (\<lambda>(k, d). bindE (create_policy w (1 + n + k) (d\<lparr>yd_companyId := companyId\<rparr>) actor) (\<lambda>_. ret ()))) (\<lambda>_.
      bindE (forE (zip [0..<l] (bu_tests b))
        (\<lambda>(k, d). bindE (create_authorization_test w (1 + n + m + k) (d\<lparr>td_companyId := companyId\<rparr>) actor) (\<lambda>_. ret ()))) (\<lambda>_.
      bindE (forE (zip [0..<length (bu_mappings b)] (bu_mappings b))
        (\<lambda>(k, d). bindE (create_mapping w (1 + n + m + l + k) (d\<lparr>md_companyId := companyId\<rparr>) actor) (\<lambda>_. ret ()))) (\<lambda>_.
      security_alert companyId ''POLICY_BUNDLE_IMPORTED'' ''warning'' (uuid w 0) ''Policy-as-code bundle imported''))))))))"

end
