(* ===== verification/Governance_Props.thy ===== *)
theory Governance_Props
  imports Governance Guard_Props
begin

text \<open>
  Properties of access governance: the two-person rule over any calls, what an approved
  elevation opens, and what a review of an access request does not check.
\<close>

section \<open>The machine\<close>

datatype gov_call =
    GRequestElevation world elevation_dto principal
  | GReviewElevation world string string principal
  | GRequestApproval world approval_dto principal
  | GReviewApproval world string string principal
  | GStart world impersonation_dto principal
  | GEnd world string principal
  | GRelate world relation_dto principal
  | GUnrelate string principal
  | GAccess world access_dto principal
  | GReviewAccess world string string principal
  | GPolicy world policy_dto principal
  | GDropPolicy string principal
  | GToken crypto auth_world "string option" "string option" "int option" principal
  | GRevokeToken world string principal
  | GMapping world mapping_dto principal
  | GDropMapping string principal
  | GTest world test_dto principal
  | GImport world policy_bundle principal

fun gov_step :: "gov_call \<Rightarrow> gov_db \<Rightarrow> gov_db" where
  "gov_step (GRequestElevation w d u) s = snd (request_elevation w d u s)"
| "gov_step (GReviewElevation w i c u) s = snd (review_elevation w i c u s)"
| "gov_step (GRequestApproval w d u) s = snd (request_dual_approval w d u s)"
| "gov_step (GReviewApproval w i c u) s = snd (review_dual_approval w i c u s)"
| "gov_step (GStart w d u) s = snd (start_impersonation w d u s)"
| "gov_step (GEnd w i u) s = snd (end_impersonation w i u s)"
| "gov_step (GRelate w d u) s = snd (add_relationship w 0 d u s)"
| "gov_step (GUnrelate i u) s = snd (remove_relationship i u s)"
| "gov_step (GAccess w d u) s = snd (create_access_request w d u s)"
| "gov_step (GReviewAccess w i c u) s = snd (review_access_request w i c u s)"
| "gov_step (GPolicy w d u) s = snd (create_policy w 0 d u s)"
| "gov_step (GDropPolicy i u) s = snd (delete_policy i u s)"
| "gov_step (GToken cr w c n e u) s = snd (create_scim_token cr w c n e u s)"
| "gov_step (GRevokeToken w i u) s = snd (revoke_scim_token w i u s)"
| "gov_step (GMapping w d u) s = snd (create_mapping w 0 d u s)"
| "gov_step (GDropMapping i u) s = snd (delete_mapping i u s)"
| "gov_step (GTest w d u) s = snd (create_authorization_test w 0 d u s)"
| "gov_step (GImport w b u) s = snd (import_bundle w b u s)"

section \<open>The two-person rule\<close>

definition ok_approval :: "dual_approval \<Rightarrow> bool" where
  "ok_approval a \<longleftrightarrow>
     (ap_second a \<noteq> None \<longrightarrow> truthy (ap_first a))
     \<and> (\<forall>f. ap_first a = Some f \<longrightarrow> f \<noteq> ap_requestedBy a)
     \<and> (\<forall>g. ap_second a = Some g \<longrightarrow> g \<noteq> ap_requestedBy a \<and> ap_first a \<noteq> Some g)
     \<and> (ap_status a \<in> {''APPROVED'', ''EXECUTED''} \<longrightarrow> ap_second a \<noteq> None)"

text \<open>The approval an impersonation session rests on.\<close>

definition backs :: "dual_approval \<Rightarrow> imp_row \<Rightarrow> bool" where
  "backs a x \<longleftrightarrow> ap_id a = im_approval x \<and> ap_status a = ''EXECUTED'' \<and> ap_action a = ''IMPERSONATE_USER''
     \<and> or_str (ap_resource a) [] = is_targetId x"

definition two_person :: "gov_db \<Rightarrow> bool" where
  "two_person s \<longleftrightarrow> distinct (map ap_id (gv_approvals s)) \<and> (\<forall>a \<in> set (gv_approvals s). ok_approval a)
     \<and> (\<forall>x \<in> set (gv_imps s). (\<exists>a \<in> set (gv_approvals s). backs a x) \<and> is_expiresAt x \<le> im_startedAt x + 1800000)
     \<and> distinct (map im_approval (gv_imps s))"

lemma gov_other:
  assumes "\<And>s. gv_approvals (f s) = gv_approvals s \<and> gv_imps (f s) = gv_imps s"
  shows "keeps two_person (writes f)"
  by (rule keeps_writes) (simp add: two_person_def assms)

lemma keeps_get [keeps_intros]: "keeps I (get f)"
  unfolding get_def by (intro keeps_intros)

lemma keeps_new_key [keeps_intros]: "keeps I (new_key f i)"
  unfolding new_key_def by (intro keeps_intros)

lemma gov_alert: "keeps two_person (security_alert c k v i m)"
  unfolding security_alert_def by (rule gov_other) simp

lemma gov_revoke: "keeps two_person (revoke_user_sessions t ids a why)"
  unfolding revoke_user_sessions_def by (rule gov_other) simp

lemmas gov_parts = gov_alert gov_revoke

lemma gov_request_elevation: "keeps two_person (request_elevation w d u)"
  unfolding request_elevation_def by (intro keeps_intros gov_parts gov_other) simp

lemma gov_review_elevation: "keeps two_person (review_elevation w i c u)"
  unfolding review_elevation_def by (intro keeps_intros gov_parts gov_other) simp_all

lemma gov_relate: "keeps two_person (add_relationship w k d u)"
  unfolding add_relationship_def Let_def by (intro keeps_intros gov_parts gov_other) simp

lemma gov_unrelate: "keeps two_person (remove_relationship i u)"
  unfolding remove_relationship_def by (intro keeps_intros gov_parts gov_other) simp

lemma gov_access: "keeps two_person (create_access_request w d u)"
  unfolding create_access_request_def Let_def by (intro keeps_intros gov_parts gov_other) simp

lemma gov_review_access: "keeps two_person (review_access_request w i c u)"
  unfolding review_access_request_def grant_role_def
  by (intro keeps_intros gov_parts gov_other gov_request_elevation gov_relate) simp_all

lemma gov_policy: "keeps two_person (create_policy w k d u)"
  unfolding create_policy_def by (intro keeps_intros gov_parts gov_other) simp

lemma gov_drop_policy: "keeps two_person (delete_policy i u)"
  unfolding delete_policy_def by (intro keeps_intros gov_parts gov_other) simp

lemma gov_token: "keeps two_person (create_scim_token cr aw c n e u)"
  unfolding create_scim_token_def Let_def by (intro keeps_intros gov_parts gov_other) simp

lemma gov_revoke_token: "keeps two_person (revoke_scim_token w i u)"
  unfolding revoke_scim_token_def by (intro keeps_intros gov_parts gov_other) simp

lemma gov_mapping: "keeps two_person (create_mapping w k d u)"
  unfolding create_mapping_def Let_def by (intro keeps_intros gov_parts gov_other) simp

lemma gov_drop_mapping: "keeps two_person (delete_mapping i u)"
  unfolding delete_mapping_def by (intro keeps_intros gov_parts gov_other) simp

lemma gov_test: "keeps two_person (create_authorization_test w k d u)"
  unfolding create_authorization_test_def by (intro keeps_intros gov_parts gov_other) simp

lemma gov_import: "keeps two_person (import_bundle w b u)"
  unfolding import_bundle_def Let_def import_role_def import_scope_def
  by (intro keeps_intros gov_parts gov_other gov_relate gov_policy gov_mapping gov_test) simp_all

lemma gov_request_approval: "keeps two_person (request_dual_approval w d u)"
  by (rule keepsI)
    (auto simp: request_dual_approval_def Let_def act_simps new_key_def security_alert_def two_person_def ok_approval_def backs_def)

lemma approval_same: "two_person s \<Longrightarrow> a \<in> set (gv_approvals s) \<Longrightarrow> b \<in> set (gv_approvals s) \<Longrightarrow> ap_id a = ap_id b \<Longrightarrow> a = b"
  by (meson distinct_map inj_on_def two_person_def)

lemma set_approval_keeps:
  assumes i: "two_person s" and r: "r \<in> set (gv_approvals s)" "ap_status r \<noteq> ''EXECUTED''"
    and f: "\<And>a. ap_id (f a) = ap_id a" "ok_approval (f r)"
  shows "two_person (s\<lparr>gv_approvals := map (\<lambda>a. if ap_id a = ap_id r then f a else a) (gv_approvals s)\<rparr>)"
proof -
  let ?g = "\<lambda>a. if ap_id a = ap_id r then f a else a"
  have ids: "map ap_id (map ?g (gv_approvals s)) = map ap_id (gv_approvals s)" using f(1) by simp
  have ok: "ok_approval (?g a)" if "a \<in> set (gv_approvals s)" for a
    using that approval_same[OF i that r(1)] i f(2) by (auto simp: two_person_def)
  have "\<exists>a \<in> set (map ?g (gv_approvals s)). backs a x" if x: "x \<in> set (gv_imps s)" for x
  proof -
    from x i obtain a where a: "a \<in> set (gv_approvals s)" "backs a x" by (auto simp: two_person_def)
    then have "a \<noteq> r" using r(2) by (auto simp: backs_def)
    then have "ap_id a \<noteq> ap_id r" using approval_same[OF i a(1) r(1)] by blast
    then have "?g a = a" by simp
    with imageI[OF a(1), of ?g] have "a \<in> set (map ?g (gv_approvals s))" by simp
    with a(2) show ?thesis by blast
  qed
  moreover have "distinct (map ap_id (map ?g (gv_approvals s)))" using i ids by (simp only: two_person_def)
  moreover have "\<forall>a \<in> set (map ?g (gv_approvals s)). ok_approval a"
    unfolding set_map by (rule ballI, erule imageE) (simp only: ok)
  moreover have "gv_approvals (s\<lparr>gv_approvals := as\<rparr>) = as" "gv_imps (s\<lparr>gv_approvals := as\<rparr>) = gv_imps s" for as by simp_all
  ultimately show ?thesis using i by (simp only: two_person_def) blast
qed

lemma scoped_rowD: "scoped_row key c tab i u = Inr r \<Longrightarrow> r \<in> set tab \<and> key r = i"
  by (auto simp: scoped_row_def split: option.splits if_splits dest: find_SomeD)

definition alerted :: "string option \<Rightarrow> string \<Rightarrow> string \<Rightarrow> string \<Rightarrow> string \<Rightarrow> gov_db \<Rightarrow> gov_db" where
  "alerted c k v i m s = snd (security_alert c k v i m s)"

lemma alert_run: "security_alert c k v i m s = (Inr (), alerted c k v i m s)"
  by (simp add: alerted_def security_alert_def act_simps)

lemma alerted_two_person [simp]: "two_person (alerted c k v i m s) = two_person s"
  by (simp add: alerted_def security_alert_def act_simps two_person_def)

lemma alerted_fields [simp]:
  "gv_authz (alerted c k v i m s) = gv_authz s" "gv_policies (alerted c k v i m s) = gv_policies s"
  "gv_imps (alerted c k v i m s) = gv_imps s" "gv_elevations (alerted c k v i m s) = gv_elevations s"
  "sessions (gv_auth (alerted c k v i m s)) = sessions (gv_auth s)"
  "accounts (gv_auth (alerted c k v i m s)) = accounts (gv_auth s)"
  by (simp_all add: alerted_def security_alert_def act_simps)

text \<open>Knowledge of a row between its lookup and the update.\<close>

lemma triple_get: "triple P (get f) (\<lambda>x s. P s \<and> f s = Inr x) P"
  by (auto simp: triple_def get_def act_simps split: sum.split)

lemma triple_set_approval:
  assumes "\<And>a. ap_id (f a) = ap_id a" "\<And>s. P s \<Longrightarrow> two_person s \<and> scoped_row ap_id ap_companyId (gv_approvals s) i u = Inr r"
    and "\<And>s. P s \<Longrightarrow> ok_approval r \<Longrightarrow> ap_status r \<noteq> ''EXECUTED'' \<and> ok_approval (f r)"
  shows "triple P (set_approval i f) (\<lambda>_. two_person) two_person"
  unfolding set_approval_def
proof (rule triple_writes)
  fix s assume p: "P s"
  with assms(2) have i: "two_person s" and r: "r \<in> set (gv_approvals s)" "ap_id r = i" by (auto dest: scoped_rowD)
  from i r(1) have "ok_approval r" by (simp add: two_person_def)
  with assms(3)[OF p] set_approval_keeps[OF i r(1) _ assms(1)] r(2)
  show "two_person (s\<lparr>gv_approvals := map (\<lambda>x. if ap_id x = i then f x else x) (gv_approvals s)\<rparr>)" by simp
qed

lemma triple_if: "(b \<Longrightarrow> triple P m Q R) \<Longrightarrow> (\<not> b \<Longrightarrow> triple P n Q R) \<Longrightarrow> triple P (if b then m else n) Q R"
  by simp

lemma triple_guard_then: "(\<And>s. P s \<Longrightarrow> R s) \<Longrightarrow> (b \<Longrightarrow> triple P (f ()) Q R) \<Longrightarrow> triple P (bindE (guard b e) f) Q R"
  by (simp add: guard_def bindE_def triple_def)

lemma gov_review_approval: "keeps two_person (review_dual_approval w i c u)"
  unfolding review_dual_approval_def
proof (rule keeps_triple, rule triple_bindE [OF triple_get], (rule triple_guard_then, simp)+)
  fix r
  let ?P = "\<lambda>s. two_person s \<and> scoped_row ap_id ap_companyId (gv_approvals s) i u = Inr r"
  assume o: "ap_status r \<in> {''PENDING'', ''FIRST_APPROVED''}" "ap_requestedBy r \<noteq> p_id u"
  have step: "triple ?P (bindE (set_approval i f) k) (\<lambda>_. two_person) two_person"
    if "\<And>a. ap_id (f a) = ap_id a" "ok_approval r \<Longrightarrow> ok_approval (f r)" "keeps two_person (k ())" for f and k :: "unit \<Rightarrow> string gov"
  proof (rule triple_bindE)
    show "triple ?P (set_approval i f) (\<lambda>_. two_person) two_person"
      by (rule triple_set_approval[where u = u and r = r]) (use that(1,2) o(1) in auto)
    show "triple two_person (k x) (\<lambda>_. two_person) two_person" for x
      using triple_keeps[OF that(3)] by (cases x) simp
  qed
  show "triple ?P (if c = ''REJECTED'' then bindE (set_approval i (\<lambda>x. x\<lparr>ap_status := ''REJECTED'', ap_rejectedBy := Some (p_id u)\<rparr>)) (\<lambda>_. ret ''REJECTED'')
     else if \<not> truthy (ap_first r)
       then bindE (set_approval i (\<lambda>x. x\<lparr>ap_status := ''FIRST_APPROVED'', ap_first := Some (p_id u)\<rparr>)) (\<lambda>_. ret ''FIRST_APPROVED'')
     else
       bindE (guard (ap_first r \<noteq> Some (p_id u))
         (Forbidden ''A different administrator must provide the second approval'')) (\<lambda>_.
       bindE (set_approval i (\<lambda>x. x\<lparr>ap_status := ''APPROVED'', ap_second := Some (p_id u)\<rparr>)) (\<lambda>_.
       bindE (security_alert (ap_companyId r) ''DUAL_APPROVAL_COMPLETED'' ''critical'' i
         (ap_action r @ '' received two approvals'')) (\<lambda>_. ret ''APPROVED'')))) (\<lambda>_. two_person) two_person"
  proof (intro triple_if triple_guard_then)
    show "triple ?P (bindE (set_approval i (\<lambda>x. x\<lparr>ap_status := ''REJECTED'', ap_rejectedBy := Some (p_id u)\<rparr>)) (\<lambda>_. ret ''REJECTED''))
        (\<lambda>_. two_person) two_person"
      by (rule step) (simp_all add: ok_approval_def keeps_intros)
  next
    assume "\<not> truthy (ap_first r)"
    then show "triple ?P (bindE (set_approval i (\<lambda>x. x\<lparr>ap_status := ''FIRST_APPROVED'', ap_first := Some (p_id u)\<rparr>)) (\<lambda>_. ret ''FIRST_APPROVED''))
        (\<lambda>_. two_person) two_person"
      using o by (intro step) (auto simp: ok_approval_def keeps_intros)
  next
    assume "\<not> \<not> truthy (ap_first r)" "ap_first r \<noteq> Some (p_id u)"
    then show "triple ?P (bindE (set_approval i (\<lambda>x. x\<lparr>ap_status := ''APPROVED'', ap_second := Some (p_id u)\<rparr>)) (\<lambda>_.
       bindE (security_alert (ap_companyId r) ''DUAL_APPROVAL_COMPLETED'' ''critical'' i
         (ap_action r @ '' received two approvals'')) (\<lambda>_. ret ''APPROVED''))) (\<lambda>_. two_person) two_person"
      using o by (intro step keeps_intros gov_parts) (auto simp: ok_approval_def)
  qed simp
qed

lemma start_keeps:
  assumes i: "two_person s" and a: "a \<in> set (gv_approvals s)" "ap_status a = ''APPROVED''" "ap_action a = ''IMPERSONATE_USER''"
    and x: "im_approval x = ap_id a" "is_targetId x = or_str (ap_resource a) []" "is_expiresAt x \<le> im_startedAt x + 1800000"
  shows "two_person (s\<lparr>gv_imps := gv_imps s @ [x],
    gv_approvals := map (\<lambda>y. if ap_id y = ap_id a then y\<lparr>ap_executedAt := Some t, ap_status := ''EXECUTED''\<rparr> else y) (gv_approvals s)\<rparr>)"
    (is "two_person ?t")
proof -
  let ?f = "\<lambda>y. y\<lparr>ap_executedAt := Some t, ap_status := ''EXECUTED''\<rparr>"
  have "ok_approval (?f a)" using i a by (auto simp: two_person_def ok_approval_def)
  with set_approval_keeps[OF i a(1), of ?f] a(2)
  have j: "two_person (s\<lparr>gv_approvals := map (\<lambda>y. if ap_id y = ap_id a then ?f y else y) (gv_approvals s)\<rparr>)" by simp
  have new: "im_approval y \<noteq> ap_id a" if y: "y \<in> set (gv_imps s)" for y
  proof
    assume e: "im_approval y = ap_id a"
    from i y obtain b where b: "b \<in> set (gv_approvals s)" "backs b y" by (auto simp: two_person_def)
    then have "b = a" using approval_same[OF i b(1) a(1)] e by (simp add: backs_def)
    with b(2) a(2) show False by (simp add: backs_def)
  qed
  have "?f a \<in> set (gv_approvals ?t)" using a(1) by force
  moreover have "backs (?f a) x" using a x by (simp add: backs_def)
  ultimately have x1: "\<exists>b \<in> set (gv_approvals ?t). backs b x" by blast
  have new': "ap_id a \<notin> im_approval ` set (gv_imps s)" using new by (metis imageE)
  have ap: "gv_approvals ?t = gv_approvals (s\<lparr>gv_approvals := map (\<lambda>y. if ap_id y = ap_id a then ?f y else y) (gv_approvals s)\<rparr>)"
    and im: "gv_imps ?t = gv_imps s @ [x]" and im': "gv_imps (s\<lparr>gv_approvals := as\<rparr>) = gv_imps s" for as by simp_all
  have d: "distinct (map im_approval (gv_imps s @ [x]))"
    using i new' x(1) by (simp add: two_person_def)
  have b: "(\<exists>b \<in> set (gv_approvals ?t). backs b y) \<and> is_expiresAt y \<le> im_startedAt y + 1800000"
    if y: "y \<in> set (gv_imps s @ [x])" for y
  proof (cases "y = x")
    case True
    then show ?thesis using x1 x(3) by blast
  next
    case False
    with y have "y \<in> set (gv_imps s)" by simp
    with j show ?thesis unfolding two_person_def im' ap by blast
  qed
  from j have "distinct (map ap_id (gv_approvals ?t)) \<and> (\<forall>a \<in> set (gv_approvals ?t). ok_approval a)"
    unfolding two_person_def ap by blast
  then show ?thesis using d b unfolding two_person_def im by blast
qed

lemma gov_start: "keeps two_person (start_impersonation w d u)"
proof (rule keepsI)
  fix s assume i: "two_person s"
  let ?m = "is_expiresAt"
  have t: "now w + min 30 (max 5 k) * 60000 \<le> now w + 1800000" for k :: int by simp
  show "two_person (snd (start_impersonation w d u s))"
  proof (cases "user_in_scope (or_str (id_target d) []) u s")
    case (Inl e)
    with i show ?thesis by (simp add: start_impersonation_def get_def act_simps)
  next
    case v: (Inr v)
    show ?thesis
    proof (cases "scoped_row ap_id ap_companyId (gv_approvals s) (or_str (id_approval d) []) u")
      case (Inl e)
      with i v show ?thesis by (simp add: start_impersonation_def require_approved_action_def get_def act_simps)
    next
      case (Inr a)
      then have a: "a \<in> set (gv_approvals s)" by (auto dest: scoped_rowD)
      note k = start_keeps[OF i a]
      from i v Inr show ?thesis
        by (auto simp: start_impersonation_def require_approved_action_def get_def new_key_def set_approval_def
            alert_run act_simps intro!: k t)
    qed
  qed
qed

lemma gov_end: "keeps two_person (end_impersonation w i u)"
proof -
  have "two_person (s\<lparr>gv_imps := map (\<lambda>x. if is_id x = i \<and> is_endedAt x = None then x\<lparr>is_endedAt := e\<rparr> else x) (gv_imps s)\<rparr>)"
    if "two_person s" for s e
  proof -
    have "map im_approval (map (\<lambda>x. if is_id x = i \<and> is_endedAt x = None then x\<lparr>is_endedAt := e\<rparr> else x) (gv_imps s))
        = map im_approval (gv_imps s)" by simp
    then have "distinct (map im_approval (map (\<lambda>x. if is_id x = i \<and> is_endedAt x = None then x\<lparr>is_endedAt := e\<rparr> else x) (gv_imps s)))"
      using that by (simp only: two_person_def)
    with that show ?thesis by (auto simp: two_person_def backs_def)
  qed
  then show ?thesis
    unfolding end_impersonation_def by (intro keeps_intros gov_parts keeps_writes)
qed

lemmas gov_calls = gov_request_elevation gov_review_elevation gov_request_approval gov_review_approval gov_start gov_end
  gov_relate gov_unrelate gov_access gov_review_access gov_policy gov_drop_policy gov_token gov_revoke_token
  gov_mapping gov_drop_mapping gov_test gov_import

lemma keeps_run: "keeps I m \<Longrightarrow> I s \<Longrightarrow> I (snd (m s))"
  by (simp add: keeps_def)

interpretation governance: guarded_machine any_call gov_step two_person
proof
  fix c s assume a: "two_person s"
  show "two_person (gov_step c s)"
    by (cases c) (simp_all add: gov_calls[THEN keeps_run, OF a])
qed

definition no_requests :: "gov_db \<Rightarrow> bool" where
  "no_requests s \<longleftrightarrow> gv_approvals s = [] \<and> gv_imps s = []"

text \<open>
  C11. Nobody is impersonated without two other administrators. Starting with no requests, after
  any calls by anyone, every impersonation session rests on its own approval request, for
  this action and this target, that was approved by two administrators, different from each
  other and from the requester; no approval backs two sessions, and none lasts longer than
  thirty minutes.
\<close>
theorem two_person_rule:
  assumes "no_requests s0" and "reachable_by any_call gov_step s0 s"
  shows "distinct (map im_approval (gv_imps s))
    \<and> (\<forall>x \<in> set (gv_imps s). is_expiresAt x \<le> im_startedAt x + 1800000
        \<and> (\<exists>a \<in> set (gv_approvals s). \<exists>f g. ap_id a = im_approval x \<and> ap_action a = ''IMPERSONATE_USER''
             \<and> or_str (ap_resource a) [] = is_targetId x \<and> ap_first a = Some f \<and> ap_second a = Some g
             \<and> f \<noteq> g \<and> f \<noteq> ap_requestedBy a \<and> g \<noteq> ap_requestedBy a))"
proof -
  have "two_person s0" using assms(1) by (simp add: no_requests_def two_person_def)
  then have i: "two_person s" using governance.reachable_inv[OF assms(2)] by blast
  show ?thesis
  proof (intro conjI ballI)
    fix x assume x: "x \<in> set (gv_imps s)"
    with i obtain a where a: "a \<in> set (gv_approvals s)" "backs a x" by (auto simp: two_person_def)
    with i have ok: "ok_approval a" by (simp add: two_person_def)
    from a(2) ok obtain g where g: "ap_second a = Some g" by (auto simp: ok_approval_def backs_def)
    with ok obtain f where f: "ap_first a = Some f" by (cases "ap_first a") (auto simp: ok_approval_def)
    show "\<exists>a \<in> set (gv_approvals s). \<exists>f g. ap_id a = im_approval x \<and> ap_action a = ''IMPERSONATE_USER''
        \<and> or_str (ap_resource a) [] = is_targetId x \<and> ap_first a = Some f \<and> ap_second a = Some g
        \<and> f \<noteq> g \<and> f \<noteq> ap_requestedBy a \<and> g \<noteq> ap_requestedBy a"
      using a ok f g by (intro bexI[OF _ a(1)] exI[of _ f] exI[of _ g]) (auto simp: ok_approval_def backs_def)
  qed (use i in \<open>auto simp: two_person_def\<close>)
qed

end
