(* ===== verification/Governance_Claims.thy ===== *)
theory Governance_Claims
  imports Governance_Props
begin

text \<open>
  What a review of an elevation or of an access request gives the user the guards then see,
  and the witnesses of the governance properties.
\<close>

section \<open>Elevations\<close>

lemma grants_after:
  "p \<in> set (user_slugs t (az\<lparr>az_grants := az_grants az @ [g]\<rparr>) u) \<longleftrightarrow>
     p \<in> set (user_slugs t az u)
     \<or> tg_userId g = p_id u \<and> tg_slug g = p \<and> tg_revokedAt g = None \<and> tg_startsAt g \<le> t \<and> t < tg_expiresAt g"
  by (auto simp: user_slugs_mem holds_permission_def)

lemma guard_tables_set [simp]:
  "guard_tables (s\<lparr>gv_elevations := x\<rparr>) = guard_tables s" "guard_tables (s\<lparr>gv_requests := y\<rparr>) = guard_tables s"
  "guard_tables (s\<lparr>gv_auth := z\<rparr>) = guard_tables s"
  "guard_tables (alerted c k v i m s) = guard_tables s"
  "guard_tables (s\<lparr>gv_authz := az\<rparr>) = az\<lparr>az_policies := az_policies (guard_tables s)\<rparr>"
  by (simp_all add: guard_tables_def)

lemma user_slugs_guard_tables: "p \<in> set (user_slugs t (guard_tables s) u) \<longleftrightarrow> p \<in> set (user_slugs t (gv_authz s) u)"
  by (simp add: user_slugs_mem holds_permission_def guard_tables_def)

text \<open>
  C35. An approved elevation opens one permission for its minutes. When a reviewer's approval
  succeeds, the request was pending, somebody else had made it and its permission exists;
  from then on the permission guard's tables give the user that permission exactly during
  the requested minutes, no permission of anybody changes otherwise, and every session of
  the user is revoked, so that the elevation takes a fresh login.
\<close>
theorem approved_elevation_opens_permission:
  assumes "review_elevation w i ''APPROVED'' actor s = (Inr g, s')"
  shows "\<exists>r \<in> set (gv_elevations s). el_id r = i \<and> el_status r = ''PENDING'' \<and> el_requestedBy r \<noteq> p_id actor
    \<and> el_slug r \<in> set (gv_permissions s)
    \<and> (\<forall>t u p. p \<in> set (user_slugs t (guard_tables s') u) \<longleftrightarrow>
         p \<in> set (user_slugs t (guard_tables s) u)
         \<or> p_id u = el_userId r \<and> p = el_slug r \<and> now w \<le> t \<and> t < now w + el_minutes r * 60000)
    \<and> (\<forall>x \<in> set (sessions (gv_auth s')). se_userId x = el_userId r \<longrightarrow> se_revokedAt x \<noteq> None)"
proof -
  from assms obtain r where r: "scoped_row el_id el_companyId (gv_elevations s) i actor = Inr r"
    by (auto simp: review_elevation_def get_def act_simps split: sum.splits)
  from assms r have c: "el_status r = ''PENDING''" "el_requestedBy r \<noteq> p_id actor" "el_slug r \<in> set (gv_permissions s)"
    by (auto simp: review_elevation_def get_def act_simps split: if_splits)
  from assms r c have a: "gv_authz s' = (gv_authz s)\<lparr>az_grants := az_grants (gv_authz s) @ [new_grant (now w) r]\<rparr>"
    and b: "sessions (gv_auth s') = map (\<lambda>x. if se_revokedAt x = None \<and> se_userId x \<in> set [el_userId r]
         then revoke (now w) (Some (p_id actor)) ''jit-elevation-approved'' x else x) (sessions (gv_auth s))"
    by (auto simp: review_elevation_def get_def revoke_user_sessions_def alert_run act_simps)
  show ?thesis
  proof (intro bexI[of _ r] conjI allI)
    show "p \<in> set (user_slugs t (guard_tables s') u) \<longleftrightarrow> p \<in> set (user_slugs t (guard_tables s) u)
         \<or> p_id u = el_userId r \<and> p = el_slug r \<and> now w \<le> t \<and> t < now w + el_minutes r * 60000" for t u p
      unfolding user_slugs_guard_tables a grants_after by (auto simp: new_grant_def)
    show "\<forall>x \<in> set (sessions (gv_auth s')). se_userId x = el_userId r \<longrightarrow> se_revokedAt x \<noteq> None"
      unfolding b by (auto simp: revoke_def)
  qed (use r c scoped_rowD[OF r] in auto)
qed

section \<open>Access requests\<close>

lemma role_grant_opens:
  assumes "r \<in> set (az_roles az)" "p \<in> set (ro_permissions r)" "(p_id u, ro_id r) \<in> set (az_userRoles az)"
  shows "p \<in> set (user_slugs t az u)"
  using assms by (auto simp: user_slugs_mem holds_permission_def)

lemma find_new: "key y = k \<Longrightarrow> k \<notin> key ` set xs \<Longrightarrow> find (\<lambda>x. key x = k) (xs @ [y]) = Some y"
  by (induction xs) auto

text \<open>
  A requester can approve his own role request, even for a system role. Whoever may call
  the review (it takes no super admin) creates a request for a system role and approves it
  himself: the review succeeds and every permission of that role is his.
\<close>
theorem own_role_request_approved:
  assumes c: "create_access_request w d u s = (Inr i, s1)"
    and d: "js_upper (or_str (xd_type d) []) = ''ROLE''" "xd_roleId d = Some rid" "rid \<noteq> []"
    and r: "find (\<lambda>r. ro_id r = rid) (az_roles (gv_authz s)) = Some role" "ro_isSystem role"
  shows "fst (review_access_request w' i ''APPROVED'' u s1) = Inr (Some rid)
    \<and> set (ro_permissions role) \<subseteq> set (user_slugs t (guard_tables (snd (review_access_request w' i ''APPROVED'' u s1))) u)"
proof -
  from c obtain row where row: "s1 = s\<lparr>gv_requests := gv_requests s @ [row]\<rparr>" "ar_id row = i"
      "ar_companyId row = p_companyId u" "ar_requester row = p_id u" "ar_type row = ''ROLE''"
      "ar_roleId row = Some rid" "ar_status row = ''PENDING''" and new: "i \<notin> ar_id ` set (gv_requests s)"
    by (auto simp: create_access_request_def new_key_def act_simps d or_null_def split: if_splits)
  have f: "scoped_row ar_id ar_companyId (gv_requests s1) i u = Inr row"
    by (simp add: scoped_row_def row find_new[OF row(2) new])
  have reach: "role_in_reach rid u s1" using r by (simp add: role_in_reach_def row)
  from r(1) have rin: "role \<in> set (az_roles (gv_authz s))" "ro_id role = rid" by (auto dest: find_SomeD)
  let ?s = "snd (review_access_request w' i ''APPROVED'' u s1)"
  have ok: "fst (review_access_request w' i ''APPROVED'' u s1) = Inr (Some rid)"
    using f row reach d(3)
    by (simp add: review_access_request_def get_def act_simps grant_role_def revoke_user_sessions_def truthy_def or_str_def)
  have az: "az_roles (gv_authz ?s) = az_roles (gv_authz s)" "(p_id u, rid) \<in> set (az_userRoles (gv_authz ?s))"
    using f row reach d(3)
    by (simp_all add: review_access_request_def get_def act_simps grant_role_def revoke_user_sessions_def truthy_def or_str_def)
  have "p \<in> set (user_slugs t (gv_authz ?s) u)" if "p \<in> set (ro_permissions role)" for p
    by (rule role_grant_opens[of role]) (use that rin az in simp_all)
  with ok show ?thesis by (simp add: subset_iff user_slugs_guard_tables)
qed

section \<open>Authorization tests\<close>

lemma user_test: "at_type t = ''USER'' \<Longrightarrow> test_decision az t = ''ALLOW'' \<longleftrightarrow>
    (\<exists>r \<in> set (az_roles az). at_slug t \<in> set (ro_permissions r) \<and> (at_principal t, ro_id r) \<in> set (az_userRoles az))"
  by (simp add: test_decision_def user_role_mem[symmetric])

lemma live_grant_mem: "p \<in> set (live_grants t az i) \<longleftrightarrow> (\<exists>g \<in> set (az_grants az). tg_userId g = i \<and> tg_slug g = p
    \<and> tg_revokedAt g = None \<and> tg_startsAt g \<le> t \<and> t < tg_expiresAt g)"
  by (auto simp: live_grants_def)

text \<open>
  An authorization test of a user sees assigned roles only. If it answers ALLOW, the
  permission guard's tables give the user the permission at any time; if it answers DENY, the
  user still holds it exactly when the tenant-admin defaults, a system role of his role name
  or a live temporary grant give it, sources the test does not read.
\<close>
theorem user_test_sees_assigned_roles:
  assumes "at_type t = ''USER''" "at_principal t = p_id u"
  shows "at_slug t \<in> set (user_slugs time (guard_tables s) u) \<longleftrightarrow>
    test_decision (gv_authz s) t = ''ALLOW''
    \<or> p_role u = ''TENANT_ADMIN'' \<and> at_slug t \<in> set tenant_admin_defaults
    \<or> at_slug t \<in> set (map snd (system_role_permissions (gv_authz s) (p_role u)))
    \<or> at_slug t \<in> set (live_grants time (gv_authz s) (p_id u))"
  unfolding user_slugs_guard_tables
  unfolding user_slugs_mem holds_permission_def
  by (auto simp: user_test[OF assms(1)] assms(2) system_role_mem live_grant_mem)

section \<open>Impersonation\<close>

text \<open>
  Ending an impersonation shuts it. Once \<open>endImpersonation\<close> has succeeded on a session,
  the tenant guard refuses every later request that presents it, at any time, by whomever
  and for whatever users exist; and it only succeeds for the administrator who started it
  or a super admin.
\<close>
theorem ended_impersonation_refused:
  assumes "end_impersonation w i actor s = (Inr v, s')" and "i \<noteq> []"
    and "p_role u \<in> {''SUPER_ADMIN'', ''TENANT_ADMIN''}" "rq_user r = Some u" "h_impersonation h = Some i"
  shows "tenant_guard t (guard_sessions s') users companies False h requested r
      = Inl (Forbidden ''Impersonation session is invalid or expired'')
    \<and> (p_role actor = ''SUPER_ADMIN'' \<or> (\<exists>x \<in> set (gv_imps s). is_id x = i \<and> is_actorId x = p_id actor))"
proof -
  from assms(1) obtain x where x: "find (\<lambda>x. is_id x = i) (gv_imps s) = Some x"
    by (auto simp: end_impersonation_def get_def act_simps split: option.splits)
  from assms(1) x have who: "p_role actor = ''SUPER_ADMIN'' \<or> is_actorId x = p_id actor"
    and s': "gv_imps s' = map (\<lambda>x. if is_id x = i \<and> is_endedAt x = None then x\<lparr>is_endedAt := Some (now w)\<rparr> else x) (gv_imps s)"
    by (auto simp: end_impersonation_def get_def act_simps alert_run split: if_splits)
  have "\<forall>y \<in> set (guard_sessions s'). is_id y = i \<longrightarrow> is_endedAt y \<noteq> None"
    unfolding guard_sessions_def s' by (auto simp: impersonation.defs)
  then have "impersonated t (guard_sessions s') users i a = None" for a
    by (cases "impersonated t (guard_sessions s') users i a") (auto dest!: impersonatedD)
  with assms(2-) find_SomeD[OF x] who show ?thesis
    by (auto simp: tenant_guard_def truthy_def or_str_def)
qed

section \<open>Witnesses\<close>

definition v_person :: "string \<Rightarrow> person" where
  "v_person i = \<lparr>u_id = i, u_email = i @ ''@x'', u_firstName = ''N'', u_lastName = ''L'', u_phone = None, u_location = None,
     u_role = ''TENANT_ADMIN'', u_userType = ''BUSINESS'', u_companyId = Some ''c1'', u_isActive = True, u_deletedAt = None\<rparr>"

definition v_world :: "string \<Rightarrow> world" where
  "v_world k = \<lparr>now = 1000, uuid = (\<lambda>_. k)\<rparr>"

definition v_db :: gov_db where
  "v_db = \<lparr>gv_elevations = [], gv_approvals = [], gv_relations = [], gv_imps = [], gv_requests = [], gv_tokens = [],
     gv_mappings = [], gv_policies = [], gv_tests = [], gv_permissions = [''audit.export''], gv_role_company = [],
     gv_authz = \<lparr>az_userRoles = [], az_roles = [\<lparr>ro_id = ''r1'', ro_name = ''AUDITOR'', ro_slug = ''auditor'',
       ro_isSystem = True, ro_permissions = [''audit.export'']\<rparr>], az_grants = [], az_scopes = [], az_policies = []\<rparr>,
     gv_people = [v_person ''a'', v_person ''b'', v_person ''c'', v_person ''t''],
     gv_auth = \<lparr>accounts = [], sessions = [], rotations = [], abuse = [], alerts = [], sec_policy = None, tenants = [],
       consents = [], resets = [], auth_mail = [], reviews = []\<rparr>\<rparr>"

abbreviation v_user :: "string \<Rightarrow> principal" where
  "v_user i \<equiv> person_principal (v_person i)"

definition v_calls :: "gov_call list" where
  "v_calls = [GRequestApproval (v_world ''q1'') \<lparr>ad_action = Some ''impersonate_user'', ad_resourceType = None,
       ad_resource = Some ''t'', ad_reason = Some ''ticket''\<rparr> (v_user ''a''),
     GReviewApproval (v_world []) ''q1'' ''APPROVED'' (v_user ''b''),
     GReviewApproval (v_world []) ''q1'' ''APPROVED'' (v_user ''c''),
     GStart (v_world ''i1'') \<lparr>id_target = Some ''t'', id_approval = Some ''q1'', id_minutes = None, id_reason = None\<rparr> (v_user ''a'')]"

lemma v_started: "map is_targetId (gv_imps (fold gov_step v_calls v_db)) = [''t'']"
  by code_simp

theorem two_person_rule_witness:
  "\<exists>a \<in> set (gv_approvals (fold gov_step v_calls v_db)). \<exists>f g. or_str (ap_resource a) [] = ''t''
     \<and> ap_first a = Some f \<and> ap_second a = Some g \<and> f \<noteq> g"
proof -
  let ?s = "fold gov_step v_calls v_db"
  have "no_requests v_db" by (simp add: no_requests_def v_db_def)
  moreover have "reachable_by any_call gov_step v_db ?s"
    by (rule governance.fold_reachable) (simp_all add: list_all_iff reach_start)
  ultimately have "\<forall>x \<in> set (gv_imps ?s). \<exists>a \<in> set (gv_approvals ?s). \<exists>f g. or_str (ap_resource a) [] = is_targetId x
     \<and> ap_first a = Some f \<and> ap_second a = Some g \<and> f \<noteq> g"
    using two_person_rule by meson
  moreover obtain x where "gv_imps ?s = [x]" "is_targetId x = ''t''" using v_started by auto
  ultimately show ?thesis by simp
qed

definition v_elevated :: gov_db where
  "v_elevated = v_db\<lparr>gv_elevations := [\<lparr>el_id = ''e1'', el_companyId = Some ''c1'', el_userId = ''t'',
     el_slug = ''audit.export'', el_scopeType = ''ALL'', el_scopeValue = None, el_reason = ''r'', el_minutes = 60,
     el_status = ''PENDING'', el_requestedBy = ''t'', el_reviewedBy = None, el_grantId = None\<rparr>]\<rparr>"

lemma v_review: "map_sum id (\<lambda>_. ()) (fst (review_elevation (v_world ''g1'') ''e1'' ''APPROVED'' (v_user ''a'') v_elevated)) = Inr ()"
  by code_simp

theorem approved_elevation_opens_permission_witness:
  "''audit.export'' \<in> set (user_slugs 2000
     (guard_tables (snd (review_elevation (v_world ''g1'') ''e1'' ''APPROVED'' (v_user ''a'') v_elevated))) (v_user ''t''))"
proof -
  obtain g s' where r: "review_elevation (v_world ''g1'') ''e1'' ''APPROVED'' (v_user ''a'') v_elevated = (Inr g, s')"
    using v_review by (cases "review_elevation (v_world ''g1'') ''e1'' ''APPROVED'' (v_user ''a'') v_elevated";
        cases "fst (review_elevation (v_world ''g1'') ''e1'' ''APPROVED'' (v_user ''a'') v_elevated)") auto
  from approved_elevation_opens_permission[OF r]
  have "''audit.export'' \<in> set (user_slugs 2000 (guard_tables s') (v_user ''t''))"
    by (simp add: v_elevated_def v_person_def person_principal_def v_world_def)
  with r show ?thesis by simp
qed

definition v_role_request :: access_dto where
  "v_role_request = \<lparr>xd_type = Some ''ROLE'', xd_target = None, xd_slug = None, xd_roleId = Some ''r1'',
     xd_resourceType = None, xd_resource = None, xd_relation = None, xd_minutes = None, xd_reason = Some ''r''\<rparr>"

theorem own_role_request_approved_witness:
  "''audit.export'' \<in> set (user_slugs 2000 (guard_tables (snd (review_access_request (v_world []) ''x1'' ''APPROVED'' (v_user ''t'')
     (snd (create_access_request (v_world ''x1'') v_role_request (v_user ''t'') v_db))))) (v_user ''t''))"
proof -
  have k: "ch_upper CHR ''R'' = CHR ''R''" "ch_upper CHR ''O'' = CHR ''O''" "ch_upper CHR ''L'' = CHR ''L''"
      "ch_upper CHR ''E'' = CHR ''E''" by code_simp+
  have n: "js_trim ''r'' \<noteq> []" by code_simp
  have c: "create_access_request (v_world ''x1'') v_role_request (v_user ''t'') v_db
      = (Inr ''x1'', snd (create_access_request (v_world ''x1'') v_role_request (v_user ''t'') v_db))"
    by (simp add: create_access_request_def v_role_request_def act_simps new_key_def k n v_db_def v_world_def or_str_def)
  have d: "js_upper (or_str (xd_type v_role_request) []) = ''ROLE''" "xd_roleId v_role_request = Some ''r1''"
    by (simp_all add: v_role_request_def k or_str_def)
  have r: "find (\<lambda>r. ro_id r = ''r1'') (az_roles (gv_authz v_db)) = Some (hd (az_roles (gv_authz v_db)))"
    "ro_isSystem (hd (az_roles (gv_authz v_db)))" "''audit.export'' \<in> set (ro_permissions (hd (az_roles (gv_authz v_db))))"
    by (simp_all add: v_db_def)
  show ?thesis
    using own_role_request_approved[OF c d _ r(1,2), of "v_world []" 2000] r(3) by blast
qed

definition v_session :: imp_row where
  "v_session = \<lparr>is_id = ''i1'', is_actorId = ''a'', is_targetId = ''t'', is_endedAt = None, is_expiresAt = 900000,
     im_companyId = None, im_reason = ''r'', im_approval = ''q1'', im_startedAt = 0\<rparr>"

theorem ended_impersonation_refused_witness:
  "tenant_guard 2000 (guard_sessions (snd (end_impersonation (v_world []) ''i1'' (v_user ''a'') (v_db\<lparr>gv_imps := [v_session]\<rparr>))))
     [v_person ''t''] [] False (g_headers\<lparr>h_impersonation := Some ''i1''\<rparr>) None (g_request\<lparr>rq_user := Some (v_user ''a'')\<rparr>)
   = Inl (Forbidden ''Impersonation session is invalid or expired'')"
proof -
  let ?m = "end_impersonation (v_world []) ''i1'' (v_user ''a'') (v_db\<lparr>gv_imps := [v_session]\<rparr>)"
  have "?m = (Inr (), snd ?m)"
    by (simp add: end_impersonation_def get_def act_simps alert_run v_db_def v_session_def person_principal_def v_person_def)
  from ended_impersonation_refused[OF this, of "v_user ''a''"]
  show ?thesis by (simp add: person_principal_def v_person_def)
qed

definition v_test :: auth_test where
  "v_test = \<lparr>at_id = ''z'', at_companyId = Some ''c1'', at_type = ''USER'', at_principal = ''t'', at_slug = ''settings.manage'',
     at_expected = ''DENY'', at_active = True\<rparr>"

theorem user_test_sees_assigned_roles_witness:
  "map snd (run_authorization_tests (v_user ''a'') (v_db\<lparr>gv_tests := [v_test]\<rparr>)) = [(''DENY'', True)]
   \<and> ''settings.manage'' \<in> set (user_slugs 0 (guard_tables v_db) (v_user ''t''))"
proof -
  have "''settings.manage'' \<in> set tenant_admin_defaults" by (simp add: tenant_admin_defaults_def)
  then have "''settings.manage'' \<in> set (user_slugs 0 (guard_tables v_db) (v_user ''t''))"
    using user_test_sees_assigned_roles[of v_test "v_user ''t''" 0 v_db]
    by (simp add: v_test_def person_principal_def v_person_def)
  moreover have "map snd (run_authorization_tests (v_user ''a'') (v_db\<lparr>gv_tests := [v_test]\<rparr>)) = [(''DENY'', True)]"
    by code_simp
  ultimately show ?thesis by blast
qed

end
