(* ===== verification/Network_Text.thy ===== *)
theory Network_Text
  imports Guard_Props
begin

text \<open>
  Text routines of the network module (\<open>cmdb/services/cmdb.service.ts\<close>): expansion of an IPv4
  range for the subnet scan, the comparison of two configuration backups and the parser of
  syslog datagrams.
\<close>

section \<open>Subnets\<close>

text \<open>The octets of a 32-bit value, as \<open>value >>> shift & 255\<close>.\<close>

definition octet :: "nat \<Rightarrow> 32 word \<Rightarrow> nat" where
  "octet shift v = unat (drop_bit shift v AND 255)"

definition host_text :: "32 word \<Rightarrow> string" where
  "host_text v = dec (octet 24 v) @ ''.'' @ dec (octet 16 v) @ ''.'' @ dec (octet 8 v) @ ''.'' @ dec (octet 0 v)"

text \<open>\<open>\d{1,n}\<close> as a whole text.\<close>

definition short_number :: "nat \<Rightarrow> string \<Rightarrow> bool" where
  "short_number n s \<longleftrightarrow> s \<noteq> [] \<and> length s \<le> n \<and> list_all is_digit s"

definition cidr_parts :: "string \<Rightarrow> (nat list \<times> nat) option" where
  "cidr_parts s =
     (case str_split (CHR ''/'') s of
        [address, len] \<Rightarrow>
          (let parts = str_split (CHR ''.'') address in
           if length parts = 4 \<and> list_all (short_number 3) parts \<and> short_number 2 len
           then Some (map js_digits parts, js_digits len) else None)
      | _ \<Rightarrow> None)"

definition expand_cidr :: "string \<Rightarrow> string list" where
  "expand_cidr s =
     (case cidr_parts s of
        None \<Rightarrow> []
      | Some (parts, len) \<Rightarrow>
          if list_ex (\<lambda>n. 255 < n) parts \<or> len < 24 \<or> 30 < len then []
          else
            (let base = foldl (\<lambda>acc n. push_bit 8 acc + word_of_nat n) (0 :: 32 word) parts;
                 mask = push_bit (32 - len) (- 1);
                 network = base AND mask;
                 size = 2 ^ (32 - len) in
             map (\<lambda>offset. host_text (network + word_of_nat offset)) [1..<size - 1]))"

section \<open>Configuration diff\<close>

text \<open>\<open>split(/\r?\n/)\<close>: every line but the last loses one carriage return at its end.\<close>

definition drop_cr :: "string \<Rightarrow> string" where
  "drop_cr s = (if s \<noteq> [] \<and> last s = char_of (13 :: nat) then butlast s else s)"

definition config_lines :: "string \<Rightarrow> string list" where
  "config_lines s =
     (let ls = str_split (char_of (10 :: nat)) s in map drop_cr (butlast ls) @ [last ls])"

datatype diff_kind = Same | Removed | Added

definition line_at :: "string list \<Rightarrow> nat \<Rightarrow> string option" where
  "line_at xs i = (if i < length xs then Some (xs ! i) else None)"

definition diff_at :: "string list \<Rightarrow> string list \<Rightarrow> nat \<Rightarrow> (diff_kind \<times> string) list" where
  "diff_at old new i =
     (if line_at old i = line_at new i then [(Same, or_str (line_at old i) [])]
      else (case line_at old i of None \<Rightarrow> [] | Some l \<Rightarrow> [(Removed, l)])
         @ (case line_at new i of None \<Rightarrow> [] | Some l \<Rightarrow> [(Added, l)]))"

definition line_diff :: "string \<Rightarrow> string \<Rightarrow> (diff_kind \<times> string) list" where
  "line_diff before after =
     (let old = config_lines before; new = config_lines after in
      concat (map (diff_at old new) [0..<max (length old) (length new)]))"

section \<open>Syslog\<close>

definition severity_names :: "string list" where
  "severity_names = [''EMERGENCY'', ''ALERT'', ''CRITICAL'', ''ERROR'', ''WARNING'', ''NOTICE'', ''INFO'', ''DEBUG'']"

definition facility_names :: "string list" where
  "facility_names = [''kernel'', ''user'', ''mail'', ''daemon'', ''auth'', ''syslog'', ''lpr'', ''news'', ''uucp'',
     ''clock'', ''authpriv'', ''ftp'', ''ntp'', ''audit'', ''alert'', ''clock2'', ''local0'', ''local1'', ''local2'',
     ''local3'', ''local4'', ''local5'', ''local6'', ''local7'']"

record syslog =
  sy_facility :: "string option"
  sy_severity :: string
  sy_message :: string

text \<open>The digits and the rest of a text that starts with \<open>^<(\d+)>\<close>. Priorities above 2^53,
  which JavaScript would round, are taken exactly.\<close>

definition syslog_priority :: "string \<Rightarrow> (string \<times> string) option" where
  "syslog_priority raw =
     (case raw of
        [] \<Rightarrow> None
      | c # t \<Rightarrow>
          (let ds = takeWhile is_digit t; rest = dropWhile is_digit t in
           if c = CHR ''<'' \<and> ds \<noteq> [] \<and> rest \<noteq> [] \<and> hd rest = CHR ''>'' then Some (ds, tl rest) else None))"

definition parse_syslog :: "string \<Rightarrow> syslog" where
  "parse_syslog raw =
     (case syslog_priority raw of
        None \<Rightarrow> \<lparr>sy_facility = None, sy_severity = ''INFO'', sy_message = js_trim raw\<rparr>
      | Some (ds, rest) \<Rightarrow>
          (let p = js_digits ds in
           \<lparr>sy_facility = (if p div 8 < length facility_names then Some (facility_names ! (p div 8)) else None),
            sy_severity = severity_names ! (p mod 8), sy_message = js_trim rest\<rparr>))"

section \<open>The hosts of a subnet\<close>

lemma octet_nat:
  assumes "z < 2 ^ 32"
  shows "octet k (word_of_nat z) = z div 2 ^ k mod 256"
proof -
  have m: "(v AND 255 :: 32 word) = take_bit 8 v" for v
    using take_bit_eq_mask[of 8 v] by (simp add: mask_numeral and.commute)
  have "octet k (word_of_nat z) = take_bit 8 (drop_bit k z)"
    unfolding octet_def m unsigned_take_bit_eq unat_drop_bit_eq unat_word[OF assms] ..
  then show ?thesis by (simp add: drop_bit_eq_div take_bit_eq_mod)
qed

lemma quad_octets:
  assumes "a < 256" "b < 256" "c < 256" "d < 256"
  shows "quad a b c d mod 256 = d" "quad a b c d div 256 mod 256 = c" "quad a b c d div 65536 mod 256 = b"
    "quad a b c d div 16777216 mod 256 = a"
proof -
  have m: "(x * 256 + y) mod 256 = y" and q: "(x * 256 + y) div 256 = x" if "y < 256" for x y :: nat
    using that by simp_all
  have e: "z div 65536 = z div 256 div 256" "z div 16777216 = z div 256 div 256 div 256" for z :: nat
    by (simp_all add: div_mult2_eq[symmetric])
  show "quad a b c d mod 256 = d" "quad a b c d div 256 mod 256 = c" "quad a b c d div 65536 mod 256 = b"
    "quad a b c d div 16777216 mod 256 = a"
    using assms unfolding quad_def e by (simp_all only: m q mod_less)
qed

lemma host_text_quad:
  assumes "a < 256" "b < 256" "c < 256" "d < 256"
  shows "host_text (word_of_nat (quad a b c d)) = dotted a b c d"
  using quad_octets[OF assms] octet_nat[OF quad_bound[OF assms]]
  by (simp add: host_text_def dotted_def)

lemma quad_cover:
  assumes "z < 2 ^ 32"
  obtains a b c d where "a < 256" "b < 256" "c < 256" "d < 256" "z = quad a b c d"
proof
  show "z div 256 div 256 div 256 < 256" "z div 256 div 256 mod 256 < 256" "z div 256 mod 256 < 256" "z mod 256 < 256"
    using assms by simp_all
  show "z = quad (z div 256 div 256 div 256) (z div 256 div 256 mod 256) (z div 256 mod 256) (z mod 256)"
    by (simp add: quad_def)
qed

lemma dec_short: "n < 10 ^ k \<Longrightarrow> 0 < k \<Longrightarrow> length (dec n) \<le> k"
proof (induction k arbitrary: n)
  case (Suc k)
  show ?case
  proof (cases "n < 10")
    case False
    with Suc.prems(1) have "0 < k" by (cases k) simp_all
    moreover have "n div 10 < 10 ^ k" using Suc.prems(1) by (simp add: div_less_iff_less_mult mult.commute)
    ultimately have "length (dec (n div 10)) \<le> k" using Suc.IH by blast
    with False show ?thesis by (subst dec.simps) simp
  qed (subst dec.simps, simp)
qed simp

lemma cidr_dotted:
  assumes "a < 256" "b < 256" "c < 256" "d < 256" "p < 100"
  shows "cidr_parts (dotted a b c d @ ''/'' @ dec p) = Some ([a, b, c, d], p)"
proof -
  have "CHR ''/'' \<notin> set (dotted a b c d)" by (simp add: dotted_def)
  then have split: "str_split (CHR ''/'') (dotted a b c d @ ''/'' @ dec p) = [dotted a b c d, dec p]"
    by (simp add: str_split_at str_split_none)
  have digits: "list_all is_digit (dec n)" for n unfolding list_all_iff by (blast dest: dec_digits)
  have "dec n \<noteq> []" for n by (subst dec.simps) simp
  moreover have "length (dec n) \<le> 3" if "n < 256" for n using that by (intro dec_short) simp_all
  moreover have "length (dec n) \<le> 2" if "n < 100" for n using that by (intro dec_short) simp_all
  ultimately show ?thesis
    using assms unfolding cidr_parts_def split by (simp add: dotted_split short_number_def digits js_digits_dec)
qed

lemma network_nat:
  assumes "q < 2 ^ 32" "24 \<le> p" "p \<le> 32"
  shows "(word_of_nat q AND push_bit (32 - p) (- 1) :: 32 word) = word_of_nat (q div 2 ^ (32 - p) * 2 ^ (32 - p))"
  unfolding mask_eq drop_word[OF assms(1)] by (simp add: push_bit_eq_mult)

lemma expand_dotted:
  assumes "a < 256" "b < 256" "c < 256" "d < 256" and "24 \<le> p" "p \<le> 30"
  shows "expand_cidr (dotted a b c d @ ''/'' @ dec p) =
    map (\<lambda>i. host_text (word_of_nat (quad a b c d div 2 ^ (32 - p) * 2 ^ (32 - p) + i))) [1..<2 ^ (32 - p) - 1]"
proof -
  have base: "foldl (\<lambda>acc n. push_bit 8 acc + word_of_nat n) (0 :: 32 word) [a, b, c, d] = word_of_nat (quad a b c d)"
    by (simp add: quad_def push_bit_eq_mult mult.commute)
  have "cidr_parts (dotted a b c d @ ''/'' @ dec p) = Some ([a, b, c, d], p)" using assms by (intro cidr_dotted) simp_all
  moreover have "\<not> list_ex (\<lambda>n. 255 < n) [a, b, c, d]" using assms by simp
  moreover have "\<not> (p < 24 \<or> 30 < p)" using assms by simp
  ultimately show ?thesis
    using network_nat[OF quad_bound[OF assms(1-4)] assms(5)] assms(6)
    by (simp only: expand_cidr_def option.case prod.case if_False simp_thms Let_def base of_nat_add)
qed

lemma ip_number_host: "v < 2 ^ 32 \<Longrightarrow> ip_number (host_text (word_of_nat v)) = word_of_nat v"
  by (elim quad_cover) (simp add: host_text_quad ip_number_dotted)

lemma block_bound:
  fixes q k :: nat
  assumes "q < 2 ^ 32" "k \<le> 32" "i < 2 ^ k"
  shows "q div 2 ^ k * 2 ^ k + i < 2 ^ 32"
proof -
  have e: "(2 ^ 32 :: nat) = 2 ^ (32 - k) * 2 ^ k" using assms(2) by (simp add: power_add[symmetric])
  have "q div 2 ^ k < 2 ^ (32 - k)" using assms(1) e by (simp add: div_less_iff_less_mult)
  then have "Suc (q div 2 ^ k) * 2 ^ k \<le> 2 ^ 32" unfolding e by (intro mult_right_mono) simp_all
  then show ?thesis using assms(3) by simp
qed

text \<open>
  The subnet scan visits exactly the hosts of the range. For an IPv4 range with a prefix
  of 24 to 30 bits the expansion lists, once each, the addresses the permission guard's
  address rule accepts for the same range, without the network and the broadcast address.
\<close>
theorem subnet_scan_hosts:
  assumes "list_all (\<lambda>n. n < 256) [a, b, c, d]" and "24 \<le> p" and "p \<le> 30"
  shows "distinct (expand_cidr (dotted a b c d @ ''/'' @ dec p))
    \<and> length (expand_cidr (dotted a b c d @ ''/'' @ dec p)) = 2 ^ (32 - p) - 2
    \<and> set (expand_cidr (dotted a b c d @ ''/'' @ dec p)) =
        {host. \<exists>w x y z. list_all (\<lambda>n. n < 256) [w, x, y, z] \<and> host = dotted w x y z
          \<and> ip_matches host (dotted a b c d @ ''/'' @ dec p)
          \<and> quad w x y z mod 2 ^ (32 - p) \<notin> {0, 2 ^ (32 - p) - 1}}"
proof -
  define k where "k = 32 - p"
  define N where "N = quad a b c d div 2 ^ k * 2 ^ k"
  have abcd: "a < 256" "b < 256" "c < 256" "d < 256" using assms(1) by simp_all
  have K: "2 \<le> k" "k \<le> 32" using assms by (simp_all add: k_def)
  have K4: "(4::nat) \<le> 2 ^ k" using power_increasing[OF K(1), of "2::nat"] by simp
  have in_range: "N + i < 2 ^ 32" if "i < 2 ^ k" for i
    unfolding N_def by (rule block_bound) (use quad_bound[OF abcd] K(2) that in simp_all)
  have e: "expand_cidr (dotted a b c d @ ''/'' @ dec p) = map (\<lambda>i. host_text (word_of_nat (N + i))) [1..<2 ^ k - 1]"
    unfolding N_def k_def by (rule expand_dotted[OF abcd assms(2,3)])
  have "inj_on (\<lambda>i. host_text (word_of_nat (N + i))) (set [1..<2 ^ k - 1])"
  proof (rule inj_onI)
    fix i j assume ij: "i \<in> set [1..<2 ^ k - 1]" "j \<in> set [1..<2 ^ k - 1]"
      and h: "host_text (word_of_nat (N + i)) = host_text (word_of_nat (N + j))"
    from ij have "i < 2 ^ k" "j < 2 ^ k" by auto
    then have b: "N + i < 2 ^ 32" "N + j < 2 ^ 32" by (blast intro: in_range)+
    from arg_cong[OF h, of ip_number] have "(word_of_nat (N + i) :: 32 word) = word_of_nat (N + j)"
      unfolding ip_number_host[OF b(1)] ip_number_host[OF b(2)] .
    then show "i = j" using unat_word[OF b(1)] unat_word[OF b(2)] by simp
  qed
  then have "distinct (expand_cidr (dotted a b c d @ ''/'' @ dec p))"
    unfolding e by (simp add: distinct_map)
  moreover have "length (expand_cidr (dotted a b c d @ ''/'' @ dec p)) = 2 ^ k - 2" unfolding e by simp
  moreover have match: "ip_matches (dotted w x y z) (dotted a b c d @ ''/'' @ dec p)
      \<longleftrightarrow> quad w x y z div 2 ^ k = quad a b c d div 2 ^ k" if "list_all (\<lambda>n. n < 256) [w, x, y, z]" for w x y z
    unfolding k_def by (rule range_rule_compares_prefix) (use that abcd assms in simp_all)
  have mem: "host \<in> set (expand_cidr (dotted a b c d @ ''/'' @ dec p)) \<longleftrightarrow>
     (\<exists>w x y z. list_all (\<lambda>n. n < 256) [w, x, y, z] \<and> host = dotted w x y z
        \<and> quad w x y z div 2 ^ k = quad a b c d div 2 ^ k \<and> quad w x y z mod 2 ^ k \<notin> {0, 2 ^ k - 1})" (is "_ \<longleftrightarrow> ?R") for host
  proof
    assume "host \<in> set (expand_cidr (dotted a b c d @ ''/'' @ dec p))"
    then obtain i where i: "1 \<le> i" "i < 2 ^ k - 1" "host = host_text (word_of_nat (N + i))" unfolding e by auto
    from i(2) have "i < 2 ^ k" by simp
    from in_range[OF this] obtain w x y z where q: "w < 256" "x < 256" "y < 256" "z < 256" "N + i = quad w x y z"
      by (rule quad_cover)
    have "(N + i) div 2 ^ k = quad a b c d div 2 ^ k" "(N + i) mod 2 ^ k = i"
      using i(2) by (simp_all add: N_def)
    with i q show ?R
      by (intro exI[of _ w] exI[of _ x] exI[of _ y] exI[of _ z]) (simp add: host_text_quad)
  next
    assume ?R
    then obtain w x y z where q: "w < 256" "x < 256" "y < 256" "z < 256" and h: "host = dotted w x y z"
      and m: "quad w x y z div 2 ^ k = quad a b c d div 2 ^ k" "quad w x y z mod 2 ^ k \<notin> {0, 2 ^ k - 1}" by auto
    let ?i = "quad w x y z mod 2 ^ k"
    have lt: "?i < 2 ^ k" by simp
    have "N + ?i = quad w x y z" unfolding N_def m(1)[symmetric] by (rule div_mult_mod_eq)
    with h host_text_quad[OF q] have "host = host_text (word_of_nat (N + ?i))" by simp
    moreover have "?i \<noteq> 0" "?i \<noteq> 2 ^ k - 1" using m(2) by simp_all
    then have "?i \<in> set [1..<2 ^ k - 1]" using lt unfolding set_upt atLeastLessThan_iff by linarith
    ultimately show "host \<in> set (expand_cidr (dotted a b c d @ ''/'' @ dec p))" unfolding e by simp
  qed
  have "set (expand_cidr (dotted a b c d @ ''/'' @ dec p)) =
        {host. \<exists>w x y z. list_all (\<lambda>n. n < 256) [w, x, y, z] \<and> host = dotted w x y z
          \<and> ip_matches host (dotted a b c d @ ''/'' @ dec p) \<and> quad w x y z mod 2 ^ k \<notin> {0, 2 ^ k - 1}}"
    unfolding set_eq_iff mem_Collect_eq mem by (intro allI iff_exI) (metis match)
  ultimately show ?thesis unfolding k_def by blast
qed

theorem subnet_scan_hosts_witness:
  "length (expand_cidr (dotted 192 168 1 77 @ ''/'' @ dec 24)) = 254
   \<and> dotted 192 168 1 254 \<in> set (expand_cidr (dotted 192 168 1 77 @ ''/'' @ dec 24))"
proof -
  have "ip_matches (dotted 192 168 1 254) (dotted 192 168 1 77 @ ''/'' @ dec 24)"
    using range_rule_compares_prefix[of 192 168 1 254 192 168 1 77 24] by (simp add: quad_def)
  moreover have "quad 192 168 1 254 mod 2 ^ 8 \<notin> {0, 2 ^ 8 - 1}" by (simp add: quad_def)
  ultimately have "dotted 192 168 1 254 \<in> {host. \<exists>w x y z. list_all (\<lambda>n. n < 256) [w, x, y, z] \<and> host = dotted w x y z
      \<and> ip_matches host (dotted 192 168 1 77 @ ''/'' @ dec 24) \<and> quad w x y z mod 2 ^ (32 - 24) \<notin> {0, 2 ^ (32 - 24) - 1}}"
    by (intro CollectI exI[of _ 192] exI[of _ 168] exI[of _ 1] exI[of _ 254]) simp
  moreover note subnet_scan_hosts[of 192 168 1 77 24]
  ultimately show ?thesis by simp
qed

section \<open>The lines of a diff\<close>

definition present :: "'a option \<Rightarrow> 'a list" where
  "present x = (case x of None \<Rightarrow> [] | Some y \<Rightarrow> [y])"

lemma lines_present: "concat (map (\<lambda>i. present (line_at xs i)) [0..<n]) = take n xs"
  by (induction n) (auto simp: line_at_def present_def take_Suc_conv_app_nth)

lemma diff_at_old: "map snd (filter (\<lambda>x. fst x \<noteq> Added) (diff_at old new i)) = present (line_at old i)"
  if "line_at old i \<noteq> None \<or> line_at new i \<noteq> None"
  using that by (auto simp: diff_at_def present_def or_str_def split: option.splits)

lemma diff_at_new: "map snd (filter (\<lambda>x. fst x \<noteq> Removed) (diff_at old new i)) = present (line_at new i)"
  if "line_at old i \<noteq> None \<or> line_at new i \<noteq> None"
  using that by (auto simp: diff_at_def present_def or_str_def split: option.splits)

lemma within: "i \<in> set [0..<max (length old) (length new)] \<Longrightarrow> line_at old i \<noteq> None \<or> line_at new i \<noteq> None"
  by (auto simp: line_at_def)

text \<open>
  C37. A configuration diff loses nothing. Whatever the two backups are, the unchanged and
  removed lines of the diff are, in order, the lines of the older backup and the unchanged
  and added lines those of the newer one, and nothing is reported as changed exactly when
  the two have the same lines.
\<close>
theorem line_diff_recovers:
  "map snd (filter (\<lambda>x. fst x \<noteq> Added) (line_diff before after)) = config_lines before
   \<and> map snd (filter (\<lambda>x. fst x \<noteq> Removed) (line_diff before after)) = config_lines after
   \<and> (list_all (\<lambda>x. fst x = Same) (line_diff before after) \<longleftrightarrow> config_lines before = config_lines after)"
proof -
  let ?old = "config_lines before" and ?new = "config_lines after"
  let ?ix = "[0..<max (length ?old) (length ?new)]"
  have parts: "map snd (filter P (line_diff before after)) = concat (map (\<lambda>i. map snd (filter P (diff_at ?old ?new i))) ?ix)" for P
    unfolding line_diff_def Let_def by (simp add: filter_concat map_concat comp_def)
  have old: "map snd (filter (\<lambda>x. fst x \<noteq> Added) (line_diff before after)) = ?old"
  proof -
    have "map (\<lambda>i. map snd (filter (\<lambda>x. fst x \<noteq> Added) (diff_at ?old ?new i))) ?ix = map (\<lambda>i. present (line_at ?old i)) ?ix"
      by (rule map_cong[OF refl], rule diff_at_old[OF within])
    from arg_cong[OF this, of concat] show ?thesis
      unfolding parts lines_present[of ?old "max (length ?old) (length ?new)"] by simp
  qed
  have new: "map snd (filter (\<lambda>x. fst x \<noteq> Removed) (line_diff before after)) = ?new"
  proof -
    have "map (\<lambda>i. map snd (filter (\<lambda>x. fst x \<noteq> Removed) (diff_at ?old ?new i))) ?ix = map (\<lambda>i. present (line_at ?new i)) ?ix"
      by (rule map_cong[OF refl], rule diff_at_new[OF within])
    from arg_cong[OF this, of concat] show ?thesis
      unfolding parts lines_present[of ?new "max (length ?old) (length ?new)"] by simp
  qed
  have "list_all (\<lambda>x. fst x = Same) (line_diff before after) \<longleftrightarrow> ?old = ?new"
  proof
    assume s: "list_all (\<lambda>x. fst x = Same) (line_diff before after)"
    then have "filter (\<lambda>x. fst x \<noteq> k) (line_diff before after) = line_diff before after" if "k \<noteq> Same" for k
      using that by (auto simp: list_all_iff intro!: filter_True)
    with old new show "?old = ?new" by (metis diff_kind.distinct(1,3))
  next
    assume "?old = ?new"
    then show "list_all (\<lambda>x. fst x = Same) (line_diff before after)"
      by (auto simp: line_diff_def diff_at_def list_all_iff Let_def)
  qed
  with old new show ?thesis by blast
qed

section \<open>The parts of a syslog datagram\<close>

lemma digits_until: "list_all is_digit s \<Longrightarrow> \<not> is_digit c \<Longrightarrow> takeWhile is_digit (s @ c # t) = s \<and> dropWhile is_digit (s @ c # t) = c # t"
  by (induction s) auto

lemma syslog_round_trip:
  assumes "f < length facility_names" "s < 8"
  shows "parse_syslog (''<'' @ dec (8 * f + s) @ ''>'' @ m) =
    \<lparr>sy_facility = Some (facility_names ! f), sy_severity = severity_names ! s, sy_message = js_trim m\<rparr>"
proof -
  have d: "list_all is_digit (dec n)" for n unfolding list_all_iff by (blast dest: dec_digits)
  have "dec n \<noteq> []" for n by (subst dec.simps) simp
  then have "syslog_priority (''<'' @ dec (8 * f + s) @ ''>'' @ m) = Some (dec (8 * f + s), m)"
    using digits_until[OF d, of "CHR ''>''" "8 * f + s" m] by (simp add: syslog_priority_def is_digit_def)
  then show ?thesis using assms by (simp add: parse_syslog_def js_digits_dec)
qed

end
