(* ===== verification/Monitoring.thy ===== *)
theory Monitoring
  imports Network_Text
begin

text \<open>
  Device monitoring (\<open>cmdb/services/cmdb.service.ts\<close>): ping checks, health snapshots, alert
  rules and events, maintenance windows, tickets opened by alerts, the scheduled run,
  retention, syslog and the monitoring settings. Rows of a table stand in the order they
  were created. The outcome of a ping is an argument; SNMP polls and vendor
  synchronisations, which only talk to devices and store what they answer, are left out,
  as are the listings, the audit log, the mail markup, the participants' mail and the settings
  nothing here reads. \<open>FLOAT\<close> columns keep exact values.
\<close>

section \<open>Tables\<close>

record device =
  dv_id :: string
  dv_companyId :: string
  dv_name :: string
  dv_ip :: "string option"
  dv_category :: "string option"
  dv_location :: "string option"
  dv_deletedAt :: "int option"
  dv_compliance :: "string option"
  dv_reasons :: "string option"
  dv_checkIn :: "int option"
  dv_enrollment :: "string option"
  dv_mdmId :: "string option"
  dv_tokenHash :: "string option"
  dv_lost :: bool
  dv_policy :: "string option"

record alert_rule =
  ru_id :: string
  ru_companyId :: string
  ru_assetId :: "string option"
  ru_name :: string
  ru_metric :: string
  ru_operator :: "string option"
  ru_threshold :: "string option"
  ru_durationSec :: int
  ru_severity :: string
  ru_enabled :: bool
  ru_notifyEmail :: "string option"
  ru_createdAt :: int

record snapshot =
  sn_id :: string
  sn_companyId :: string
  sn_assetId :: string
  sn_status :: string
  sn_latency :: "rat option"
  sn_loss :: "rat option"
  sn_cpu :: "rat option"
  sn_memory :: "rat option"
  sn_source :: string
  sn_message :: "string option"
  sn_createdAt :: int

record alert_event =
  ev_id :: string
  ev_companyId :: string
  ev_assetId :: string
  ev_ruleId :: string
  ev_snapshotId :: "string option"
  ev_ticketId :: "string option"
  ev_status :: string
  ev_title :: string
  ev_details :: string
  ev_triggeredAt :: int
  ev_resolvedAt :: "int option"

record maintenance =
  mw_id :: string
  mw_companyId :: string
  mw_assetId :: "string option"
  mw_name :: string
  mw_startsAt :: int
  mw_endsAt :: int
  mw_suppress :: bool

record monitor_config =
  mc_id :: string
  mc_companyId :: string
  mc_assetId :: string
  mc_ping :: bool
  mc_interval :: int
  mc_snmp :: bool
  mc_community :: "string option"
  mc_syslogPort :: int
  mc_vendor :: "string option"
  mc_apiKey :: "string option"

record syslog_row =
  lg_companyId :: string
  lg_assetId :: string
  lg_host :: string
  lg_entry :: syslog
  lg_receivedAt :: int

record net_notice =
  nn_userId :: string
  nn_companyId :: string
  nn_title :: string
  nn_body :: string
  nn_link :: string

record net_db =
  nd_devices :: "device list"
  nd_rules :: "alert_rule list"
  nd_snapshots :: "snapshot list"
  nd_events :: "alert_event list"
  nd_windows :: "maintenance list"
  nd_configs :: "monitor_config list"
  nd_syslog :: "syslog_row list"
  nd_tickets :: "ticket list"
  nd_people :: "person list"
  nd_notices :: "net_notice list"
  nd_mails :: "(string \<times> string \<times> string) list"
  nd_retention :: "(string \<times> int \<times> int) list"

type_synonym 'a net = "(net_db, 'a) act"

definition fail_res :: "(net_db \<Rightarrow> 'a res) \<Rightarrow> 'a net" where
  "fail_res f = bindE (reads f) of_res"

section \<open>Devices and rules\<close>

definition find_device :: "string \<Rightarrow> string \<Rightarrow> net_db \<Rightarrow> device res" where
  "find_device i companyId s =
     (case find (\<lambda>d. dv_id d = i \<and> dv_companyId d = companyId \<and> dv_deletedAt d = None) (nd_devices s) of
        None \<Rightarrow> Inl (NotFound ''Asset not found'') | Some d \<Rightarrow> Inr d)"

text \<open>\<open>Number(text)\<close> on decimal texts; exponents and other radices count as NaN.\<close>

definition js_decimal :: "string \<Rightarrow> rat option" where
  "js_decimal s =
     (let t = js_trim s;
          neg = (t \<noteq> [] \<and> hd t = CHR ''-'');
          body = (if t \<noteq> [] \<and> hd t \<in> {CHR ''-'', CHR ''+''} then tl t else t);
          sign = (if neg then -1 else 1) in
      if t = [] then Some 0
      else case str_split (CHR ''.'') body of
        [i] \<Rightarrow> if i \<noteq> [] \<and> list_all is_digit i then Some (sign * of_nat (js_digits i)) else None
      | [i, f] \<Rightarrow> if i @ f \<noteq> [] \<and> list_all is_digit (i @ f)
                 then Some (sign * (of_nat (js_digits i) + of_nat (js_digits f) / 10 ^ length f)) else None
      | _ \<Rightarrow> None)"

text \<open>\<open>Number(null)\<close> is 0.\<close>

definition compare_number :: "rat option \<Rightarrow> string option \<Rightarrow> rat option \<Rightarrow> bool" where
  "compare_number v op threshold =
     (let current = (case v of None \<Rightarrow> 0 | Some x \<Rightarrow> x) in
      case threshold of
        None \<Rightarrow> False
      | Some t \<Rightarrow> if op = Some ''LT'' then current < t else if op = Some ''EQ'' then current = t else current > t)"

definition rule_threshold :: "alert_rule \<Rightarrow> rat option" where
  "rule_threshold r = (case ru_threshold r of None \<Rightarrow> Some 0 | Some t \<Rightarrow> js_decimal t)"

definition rule_matches :: "snapshot \<Rightarrow> alert_rule \<Rightarrow> bool" where
  "rule_matches x r =
     (if \<not> ru_enabled r then False
      else if ru_metric r = ''offline'' then sn_status x = ''OFFLINE''
      else if ru_metric r = ''latency_ms'' then compare_number (sn_latency x) (ru_operator r) (rule_threshold r)
      else if ru_metric r = ''packet_loss_pct'' then compare_number (sn_loss x) (ru_operator r) (rule_threshold r)
      else if ru_metric r = ''cpu_pct'' then compare_number (sn_cpu x) (ru_operator r) (rule_threshold r)
      else if ru_metric r = ''memory_pct'' then compare_number (sn_memory x) (ru_operator r) (rule_threshold r)
      else False)"

definition asset_rules :: "string \<Rightarrow> string \<Rightarrow> net_db \<Rightarrow> alert_rule list" where
  "asset_rules assetId companyId s =
     sort_key (\<lambda>r. - ru_createdAt r)
       (filter (\<lambda>r. ru_companyId r = companyId \<and> (ru_assetId r = Some assetId \<or> ru_assetId r = None)) (nd_rules s))"

definition in_window :: "int \<Rightarrow> string \<Rightarrow> string \<Rightarrow> net_db \<Rightarrow> bool" where
  "in_window t assetId companyId s \<longleftrightarrow>
     list_ex (\<lambda>m. mw_companyId m = companyId \<and> mw_suppress m \<and> mw_startsAt m \<le> t \<and> t \<le> mw_endsAt m
                 \<and> (mw_assetId m = Some assetId \<or> mw_assetId m = None)) (nd_windows s)"

definition open_event :: "alert_event \<Rightarrow> bool" where
  "open_event e \<longleftrightarrow> ev_status e \<in> {''ACTIVE'', ''ACKNOWLEDGED''}"

section \<open>Alerts\<close>

definition alert_staff :: "string \<Rightarrow> net_db \<Rightarrow> person list" where
  "alert_staff companyId s =
     take 50 (filter (\<lambda>u. u_companyId u = Some companyId \<and> u_deletedAt u = None \<and> u_isActive u
                         \<and> u_role u \<in> {''SUPER_ADMIN'', ''TENANT_ADMIN'', ''TECHNICIAN''}) (nd_people s))"

definition send_alert :: "string \<Rightarrow> string \<Rightarrow> string \<Rightarrow> string option \<Rightarrow> string option \<Rightarrow> unit net" where
  "send_alert companyId title details ticketId email =
     writes (\<lambda>s. s\<lparr>
       nd_notices := nd_notices s @ map (\<lambda>u. \<lparr>nn_userId = u_id u, nn_companyId = companyId, nn_title = title,
         nn_body = details, nn_link = (if truthy ticketId then ''/tickets/'' @ or_str ticketId [] else ''/network'')\<rparr>)
         (alert_staff companyId s),
       nd_mails := nd_mails s @ (if truthy email then [(or_str email [], title, details)] else [])\<rparr>)"

text \<open>\<open>FIELD(role, ...)\<close>: 0 for any other role.\<close>

definition role_position :: "string \<Rightarrow> nat" where
  "role_position r =
     (if r = ''TENANT_ADMIN'' then 1 else if r = ''SUPER_ADMIN'' then 2 else if r = ''TECHNICIAN'' then 3
      else if r = ''CLIENT'' then 4 else 0)"

definition alert_creator :: "string \<Rightarrow> net_db \<Rightarrow> person option" where
  "alert_creator companyId s =
     (case sort_key (\<lambda>u. role_position (u_role u))
            (filter (\<lambda>u. u_companyId u = Some companyId \<and> u_deletedAt u = None \<and> u_isActive u) (nd_people s)) of
        [] \<Rightarrow> None | u # _ \<Rightarrow> Some u)"

definition alert_ticket :: "device \<Rightarrow> alert_rule \<Rightarrow> net_db \<Rightarrow> ticket option" where
  "alert_ticket d r s =
     (case sort_key (\<lambda>t. - t_createdAt t)
            (filter (\<lambda>t. t_companyId t = Some (dv_companyId d) \<and> t_assetId t = Some (dv_id d)
               \<and> (case t_status t of None \<Rightarrow> False | Some st \<Rightarrow> st \<notin> {''RESOLVED'', ''CLOSED''})
               \<and> t_category t = Some ''Network Monitoring'' \<and> t_subcategory t = Some (ru_metric r)) (nd_tickets s)) of
        [] \<Rightarrow> None | t # _ \<Rightarrow> Some t)"

definition alert_number :: "string \<Rightarrow> net_db \<Rightarrow> string" where
  "alert_number companyId s =
     ''TKT-'' @ js_upper (take 4 companyId) @ ''-''
       @ pad_start 5 (CHR ''0'') (dec (Suc (length (filter (\<lambda>t. t_companyId t = Some companyId) (nd_tickets s)))))"

definition new_alert_ticket :: "world \<Rightarrow> nat \<Rightarrow> device \<Rightarrow> alert_rule \<Rightarrow> string \<Rightarrow> person \<Rightarrow> net_db \<Rightarrow> ticket" where
  "new_alert_ticket w k d r details u s =
     \<lparr>t_id = uuid w (k + 1), t_number = alert_number (dv_companyId d) s, t_title = dv_name d @ '': '' @ ru_name r,
      t_description = Some details,
      t_contactName = Some (or_str (Some (js_trim (u_firstName u @ '' '' @ u_lastName u))) ''Network Monitor''),
      t_contactEmail = Some (or_str (Some (u_email u)) ''monitoring@fieldserviceit.local''),
      t_contactPhone = Some (or_str (u_phone u) ''N/A''), t_category = Some ''Network Monitoring'',
      t_subcategory = Some (ru_metric r), t_location = or_null (dv_location d), t_status = Some ''OPEN'',
      t_priority = Some (if ru_severity r = ''CRITICAL'' then ''CRITICAL'' else ''HIGH''), t_type = ''INCIDENT'',
      t_companyId = Some (dv_companyId d), t_createdById = u_id u, t_assignedToId = None, t_assetId = Some (dv_id d),
      t_slaId = None, t_contractId = None, t_trackingToken = Some (uuid w (k + 2)), t_onHoldReason = None,
      t_resolution = None, t_resolvedAt = None, t_resolvedById = None, t_createdAt = now w, t_deletedAt = None\<rparr>"

definition create_alert_ticket :: "world \<Rightarrow> nat \<Rightarrow> device \<Rightarrow> alert_rule \<Rightarrow> string \<Rightarrow> string option net" where
  "create_alert_ticket w k d r details =
     bindE (reads (alert_ticket d r)) (\<lambda>old.
     case old of
       Some t \<Rightarrow> ret (Some (t_id t))
     | None \<Rightarrow>
         bindE (reads (alert_creator (dv_companyId d))) (\<lambda>creator.
         case creator of
           None \<Rightarrow> ret None
         | Some u \<Rightarrow>
             bindE (reads (\<lambda>s. list_ex (\<lambda>t. t_number t = alert_number (dv_companyId d) s \<or> t_id t = uuid w (k + 1))
                                (nd_tickets s))) (\<lambda>taken.
             bindE (guard (\<not> taken) duplicate) (\<lambda>_.
             bindE (writes (\<lambda>s. s\<lparr>nd_tickets := nd_tickets s @ [new_alert_ticket w k d r details u s]\<rparr>)) (\<lambda>_.
             ret (Some (uuid w (k + 1))))))))"

text \<open>The details text; \<open>num\<close> is JavaScript's number to text.\<close>

definition alert_details :: "(rat \<Rightarrow> string) \<Rightarrow> alert_rule \<Rightarrow> snapshot \<Rightarrow> string" where
  "alert_details num r x =
     str_join [char_of (10 :: nat)] (filter (\<lambda>l. l \<noteq> [])
       [''Metric: '' @ ru_metric r,
        ''Threshold: '' @ or_str (ru_operator r) ''GT'' @ '' '' @ or_str (ru_threshold r) [],
        ''Status: '' @ sn_status x,
        (case sn_latency x of None \<Rightarrow> [] | Some v \<Rightarrow> ''Latency: '' @ num v @ '' ms''),
        (case sn_loss x of None \<Rightarrow> [] | Some v \<Rightarrow> ''Packet loss: '' @ num v @ ''%''),
        or_str (sn_message x) []])"

definition create_alert_event :: "(rat \<Rightarrow> string) \<Rightarrow> world \<Rightarrow> nat \<Rightarrow> string \<Rightarrow> string \<Rightarrow> alert_rule \<Rightarrow> snapshot \<Rightarrow> alert_event net" where
  "create_alert_event num w k assetId companyId r x =
     bindE (fail_res (find_device assetId companyId)) (\<lambda>d.
     (let title = dv_name d @ '': '' @ ru_name r; details = alert_details num r x in
     bindE (create_alert_ticket w k d r details) (\<lambda>ticketId.
     (let e = \<lparr>ev_id = uuid w k, ev_companyId = companyId, ev_assetId = assetId, ev_ruleId = ru_id r,
        ev_snapshotId = or_null (Some (sn_id x)), ev_ticketId = ticketId, ev_status = ''ACTIVE'', ev_title = title,
        ev_details = details, ev_triggeredAt = now w, ev_resolvedAt = None\<rparr> in
     bindE (reads (\<lambda>s. map ev_id (nd_events s))) (\<lambda>ids.
     bindE (guard (ev_id e \<notin> set ids) duplicate) (\<lambda>_.
     bindE (writes (\<lambda>s. s\<lparr>nd_events := nd_events s @ [e]\<rparr>)) (\<lambda>_.
     bindE (send_alert companyId title details ticketId (ru_notifyEmail r)) (\<lambda>_.
     ret e))))))))"

definition resolve_inactive :: "int \<Rightarrow> string \<Rightarrow> string \<Rightarrow> unit net" where
  "resolve_inactive t assetId companyId =
     bindE (reads (\<lambda>s. filter (\<lambda>e. ev_assetId e = assetId \<and> ev_companyId e = companyId \<and> open_event e) (nd_events s))) (\<lambda>active.
     bindE (writes (\<lambda>s. s\<lparr>nd_events := map (\<lambda>e. if ev_assetId e = assetId \<and> ev_companyId e = companyId \<and> open_event e
       then e\<lparr>ev_status := ''RESOLVED'', ev_resolvedAt := Some t\<rparr> else e) (nd_events s)\<rparr>)) (\<lambda>_.
     forE active (\<lambda>e. send_alert companyId (''Recovered: '' @ ev_title e)
       ''The monitored device is back online and the alert has been resolved.'' (ev_ticketId e) None)))"

definition open_for :: "string \<Rightarrow> string \<Rightarrow> string \<Rightarrow> net_db \<Rightarrow> alert_event option" where
  "open_for assetId companyId ruleId s =
     find (\<lambda>e. ev_assetId e = assetId \<and> ev_companyId e = companyId \<and> ev_ruleId e = ruleId \<and> open_event e) (nd_events s)"

definition raise_alert :: "(rat \<Rightarrow> string) \<Rightarrow> world \<Rightarrow> string \<Rightarrow> string \<Rightarrow> snapshot \<Rightarrow> nat \<times> alert_rule \<Rightarrow> unit net" where
  "raise_alert num w assetId companyId x kr =
     bindE (reads (open_for assetId companyId (ru_id (snd kr)))) (\<lambda>old.
     case old of
       Some e \<Rightarrow> ret ()
     | None \<Rightarrow> bindE (create_alert_event num w (3 * fst kr + 1) assetId companyId (snd kr) x) (\<lambda>_. ret ()))"

definition evaluate_rules :: "(rat \<Rightarrow> string) \<Rightarrow> world \<Rightarrow> string \<Rightarrow> string \<Rightarrow> snapshot \<Rightarrow> unit net" where
  "evaluate_rules num w assetId companyId x =
     bindE (fail_res (find_device assetId companyId)) (\<lambda>_.
     bindE (reads (\<lambda>s. filter (rule_matches x) (asset_rules assetId companyId s))) (\<lambda>matching.
     bindE (if sn_status x = ''ONLINE'' then resolve_inactive (now w) assetId companyId else ret ()) (\<lambda>_.
     bindE (reads (in_window (now w) assetId companyId)) (\<lambda>quiet.
     if matching = [] \<or> quiet then ret ()
     else forE (enumerate 0 matching) (raise_alert num w assetId companyId x)))))"

section \<open>Ping checks\<close>

text \<open>An answer (parsed latency and loss, elapsed milliseconds) or the error message.\<close>

datatype ping = Reply "rat option" "rat option" rat | Silent "string option"

definition ping_snapshot :: "world \<Rightarrow> string \<Rightarrow> string \<Rightarrow> ping \<Rightarrow> snapshot" where
  "ping_snapshot w assetId companyId p =
     (case p of
        Reply latency loss elapsed \<Rightarrow>
          \<lparr>sn_id = uuid w 0, sn_companyId = companyId, sn_assetId = assetId, sn_status = ''ONLINE'',
           sn_latency = Some (case latency of None \<Rightarrow> elapsed | Some x \<Rightarrow> x),
           sn_loss = Some (case loss of None \<Rightarrow> 0 | Some x \<Rightarrow> x), sn_cpu = None, sn_memory = None,
           sn_source = ''PING'', sn_message = Some ''Ping check succeeded'', sn_createdAt = now w\<rparr>
      | Silent message \<Rightarrow>
          \<lparr>sn_id = uuid w 0, sn_companyId = companyId, sn_assetId = assetId, sn_status = ''OFFLINE'',
           sn_latency = None, sn_loss = Some 100, sn_cpu = None, sn_memory = None, sn_source = ''PING'',
           sn_message = Some (or_str message ''Ping check failed''), sn_createdAt = now w\<rparr>)"

definition ping_compliance :: "int \<Rightarrow> snapshot \<Rightarrow> device \<Rightarrow> device" where
  "ping_compliance t x d = d\<lparr>dv_checkIn := Some t,
     dv_compliance := Some (if sn_status x = ''ONLINE'' then ''COMPLIANT'' else ''NON_COMPLIANT''),
     dv_reasons := (if sn_status x = ''ONLINE'' then None else Some (''Ping failed for '' @ or_str (dv_ip d) []))\<rparr>"

definition run_ping_check :: "(rat \<Rightarrow> string) \<Rightarrow> world \<Rightarrow> string \<Rightarrow> string \<Rightarrow> ping \<Rightarrow> snapshot net" where
  "run_ping_check num w assetId companyId p =
     bindE (fail_res (find_device assetId companyId)) (\<lambda>d.
     bindE (guard (truthy (dv_ip d))
       (BadRequest ''Device needs a management IP address before ping monitoring can run'')) (\<lambda>_.
     (let x = ping_snapshot w assetId companyId p in
     bindE (reads (\<lambda>s. map sn_id (nd_snapshots s))) (\<lambda>ids.
     bindE (guard (sn_id x \<notin> set ids) duplicate) (\<lambda>_.
     bindE (writes (\<lambda>s. s\<lparr>nd_snapshots := nd_snapshots s @ [x]\<rparr>)) (\<lambda>_.
     bindE (writes (\<lambda>s. s\<lparr>nd_devices := map (\<lambda>y. if dv_id y = assetId then ping_compliance (now w) x y else y) (nd_devices s)\<rparr>)) (\<lambda>_.
     bindE (evaluate_rules num w assetId companyId x) (\<lambda>_.
     ret x))))))))"

text \<open>One run of the scheduler: the outcome and the identifiers of each check are its arguments.\<close>

definition due_configs :: "net_db \<Rightarrow> (monitor_config \<times> int option) list" where
  "due_configs s =
     take 100 (map (\<lambda>c. (c, (case map sn_createdAt (filter (\<lambda>x. sn_assetId x = mc_assetId c) (nd_snapshots s)) of
                             [] \<Rightarrow> None | y # ys \<Rightarrow> Some (foldl max y ys))))
       (filter (\<lambda>c. mc_ping c \<and> list_ex (\<lambda>d. dv_id d = mc_assetId c \<and> dv_deletedAt d = None
                \<and> dv_category d = Some ''NETWORK_DEVICE'' \<and> dv_ip d \<noteq> None) (nd_devices s)) (nd_configs s)))"

definition scheduled_check :: "(rat \<Rightarrow> string) \<Rightarrow> (string \<Rightarrow> world \<times> ping) \<Rightarrow> int \<Rightarrow> monitor_config \<times> int option \<Rightarrow> unit net" where
  "scheduled_check num outcome t row =
     (let c = fst row; interval = max 15 (if mc_interval c = 0 then 60 else mc_interval c) * 1000 in
      case snd row of
        Some l \<Rightarrow>
          if l \<noteq> 0 \<and> t - l < interval then ret ()
          else bindE (reads (in_window t (mc_assetId c) (mc_companyId c))) (\<lambda>quiet.
               if quiet then ret ()
               else catchE (bindE (run_ping_check num (fst (outcome (mc_assetId c))) (mc_assetId c) (mc_companyId c)
                              (snd (outcome (mc_assetId c)))) (\<lambda>_. ret ())) (\<lambda>_. ret ()))
      | None \<Rightarrow>
          bindE (reads (in_window t (mc_assetId c) (mc_companyId c))) (\<lambda>quiet.
          if quiet then ret ()
          else catchE (bindE (run_ping_check num (fst (outcome (mc_assetId c))) (mc_assetId c) (mc_companyId c)
                         (snd (outcome (mc_assetId c)))) (\<lambda>_. ret ())) (\<lambda>_. ret ())))"

definition run_scheduled :: "(rat \<Rightarrow> string) \<Rightarrow> (string \<Rightarrow> world \<times> ping) \<Rightarrow> int \<Rightarrow> unit net" where
  "run_scheduled num outcome t =
     bindE (reads due_configs) (\<lambda>cs. forE cs (scheduled_check num outcome t))"

section \<open>Escalation and retention\<close>

definition run_escalations :: "int \<Rightarrow> unit net" where
  "run_escalations t =
     bindE (reads (\<lambda>s. take 100 (filter (\<lambda>e. ev_status e = ''ACTIVE'' \<and> ev_triggeredAt e < t - 15 * 60000) (nd_events s)))) (\<lambda>es.
     forE es (\<lambda>e. send_alert (ev_companyId e) (''Escalation: '' @ ev_title e)
       (or_str (Some (ev_details e)) ''Network alert remains active'') (ev_ticketId e) None))"

definition day :: int where "day = 24 * 60 * 60 * 1000"

definition run_retention :: "int \<Rightarrow> unit net" where
  "run_retention t =
     bindE (reads nd_retention) (\<lambda>ps.
     forE ps (\<lambda>(companyId, snapshotDays, syslogDays).
       writes (\<lambda>s. s\<lparr>
         nd_snapshots := filter (\<lambda>x. \<not> (sn_companyId x = companyId
           \<and> sn_createdAt x < t - (if snapshotDays = 0 then 30 else snapshotDays) * day)) (nd_snapshots s),
         nd_syslog := filter (\<lambda>x. \<not> (lg_companyId x = companyId
           \<and> lg_receivedAt x < t - (if syslogDays = 0 then 30 else syslogDays) * day)) (nd_syslog s)\<rparr>)))"

definition ingest_datagram :: "int \<Rightarrow> string \<Rightarrow> string \<Rightarrow> unit net" where
  "ingest_datagram t host raw =
     bindE (reads (\<lambda>s. find (\<lambda>d. dv_ip d = Some host \<and> dv_deletedAt d = None) (nd_devices s))) (\<lambda>d.
     case d of
       None \<Rightarrow> ret ()
     | Some v \<Rightarrow> writes (\<lambda>s. s\<lparr>nd_syslog := nd_syslog s @ [\<lparr>lg_companyId = dv_companyId v, lg_assetId = dv_id v,
         lg_host = host, lg_entry = parse_syslog raw, lg_receivedAt = t\<rparr>]\<rparr>))"

section \<open>Rules, events, windows and settings\<close>

record rule_dto =
  ld_assetId :: "string option"
  ld_name :: "string option"
  ld_metric :: "string option"
  ld_operator :: "string option"
  ld_threshold :: "string option"
  ld_durationSec :: "int option"
  ld_severity :: "string option"
  ld_enabled :: "bool option"
  ld_notifyEmail :: "string option"

definition normal_rule :: "world \<Rightarrow> string \<Rightarrow> string option \<Rightarrow> rule_dto \<Rightarrow> alert_rule" where
  "normal_rule w companyId assetId d =
     \<lparr>ru_id = uuid w 0, ru_companyId = companyId, ru_assetId = assetId, ru_name = or_str (ld_name d) ''Network alert'',
      ru_metric = or_str (ld_metric d) ''offline'', ru_operator = Some (or_str (ld_operator d) ''GT''),
      ru_threshold = Some (case ld_threshold d of None \<Rightarrow> ''0'' | Some x \<Rightarrow> x),
      ru_durationSec = (case ld_durationSec d of None \<Rightarrow> 300 | Some n \<Rightarrow> max 0 n),
      ru_severity = or_str (ld_severity d) ''WARNING'', ru_enabled = (ld_enabled d \<noteq> Some False),
      ru_notifyEmail = or_null (ld_notifyEmail d), ru_createdAt = now w\<rparr>"

definition create_network_rule :: "world \<Rightarrow> string \<Rightarrow> rule_dto \<Rightarrow> unit net" where
  "create_network_rule w companyId d =
     bindE (if truthy (ld_assetId d)
            then bindE (fail_res (find_device (or_str (ld_assetId d) []) companyId)) (\<lambda>_. ret ()) else ret ()) (\<lambda>_.
     writes (\<lambda>s. s\<lparr>nd_rules := nd_rules s @ [normal_rule w companyId (or_null (ld_assetId d)) d]\<rparr>))"

definition create_asset_rule :: "world \<Rightarrow> string \<Rightarrow> string \<Rightarrow> rule_dto \<Rightarrow> unit net" where
  "create_asset_rule w assetId companyId d =
     bindE (fail_res (find_device assetId companyId)) (\<lambda>_.
     writes (\<lambda>s. s\<lparr>nd_rules := nd_rules s @ [normal_rule w companyId (Some assetId) d]\<rparr>))"

text \<open>A partial update; the address is always written, so the field list is never empty.\<close>

definition patch_rule :: "rule_dto \<Rightarrow> alert_rule \<Rightarrow> alert_rule" where
  "patch_rule d r = r\<lparr>
     ru_name := or_str (ld_name d) (ru_name r), ru_metric := or_str (ld_metric d) (ru_metric r),
     ru_operator := or_opt (ld_operator d) (ru_operator r),
     ru_threshold := (case ld_threshold d of None \<Rightarrow> ru_threshold r | Some x \<Rightarrow> Some x),
     ru_durationSec := (case ld_durationSec d of None \<Rightarrow> ru_durationSec r | Some n \<Rightarrow> max 0 n),
     ru_severity := or_str (ld_severity d) (ru_severity r),
     ru_enabled := (case ld_enabled d of None \<Rightarrow> ru_enabled r | Some b \<Rightarrow> b),
     ru_notifyEmail := or_null (ld_notifyEmail d)\<rparr>"

definition update_rule :: "string \<Rightarrow> string \<Rightarrow> string \<Rightarrow> rule_dto \<Rightarrow> unit net" where
  "update_rule assetId ruleId companyId d =
     bindE (fail_res (find_device assetId companyId)) (\<lambda>_.
     bindE (writes (\<lambda>s. s\<lparr>nd_rules := map (\<lambda>r. if ru_id r = ruleId \<and> ru_companyId r = companyId
         \<and> (ru_assetId r = Some assetId \<or> ru_assetId r = None) then patch_rule d r else r) (nd_rules s)\<rparr>)) (\<lambda>_.
     bindE (reads (\<lambda>s. list_ex (\<lambda>r. ru_id r = ruleId \<and> ru_companyId r = companyId) (nd_rules s))) (\<lambda>found.
     guard found (NotFound ''Alert rule not found''))))"

definition update_event :: "int \<Rightarrow> string \<Rightarrow> string \<Rightarrow> string \<Rightarrow> unit net" where
  "update_event t companyId eventId status =
     (let st = js_upper status in
      bindE (guard (st \<in> {''ACTIVE'', ''ACKNOWLEDGED'', ''RESOLVED''}) (BadRequest ''Invalid alert status'')) (\<lambda>_.
      bindE (writes (\<lambda>s. s\<lparr>nd_events := map (\<lambda>e. if ev_id e = eventId \<and> ev_companyId e = companyId
          then e\<lparr>ev_status := st, ev_resolvedAt := (if st = ''RESOLVED'' then Some t else None)\<rparr> else e) (nd_events s)\<rparr>)) (\<lambda>_.
      bindE (reads (\<lambda>s. list_ex (\<lambda>e. ev_id e = eventId \<and> ev_companyId e = companyId) (nd_events s))) (\<lambda>found.
      guard found (NotFound ''Alert event not found'')))))"

record window_dto =
  wd_assetId :: "string option"
  wd_name :: "string option"
  wd_startsAt :: "int option"
  wd_endsAt :: "int option"
  wd_suppress :: "bool option"

definition create_window :: "world \<Rightarrow> string \<Rightarrow> window_dto \<Rightarrow> unit net" where
  "create_window w companyId d =
     (let startsAt = (case wd_startsAt d of None \<Rightarrow> now w | Some t \<Rightarrow> t);
          endsAt = (case wd_endsAt d of None \<Rightarrow> startsAt + 60 * 60 * 1000 | Some t \<Rightarrow> t) in
      bindE (guard (startsAt < endsAt) (BadRequest ''Maintenance end time must be after start time'')) (\<lambda>_.
      writes (\<lambda>s. s\<lparr>nd_windows := nd_windows s @ [\<lparr>mw_id = uuid w 0, mw_companyId = companyId,
        mw_assetId = or_null (wd_assetId d), mw_name = or_str (wd_name d) ''Maintenance window'', mw_startsAt = startsAt,
        mw_endsAt = endsAt, mw_suppress = (wd_suppress d \<noteq> Some False)\<rparr>]\<rparr>)))"

text \<open>Settings; eight stars stand for the stored secret, \<open>enc\<close> is the encryption.\<close>

record config_dto =
  kd_ping :: "bool option"
  kd_interval :: "int option"
  kd_snmp :: bool
  kd_community :: "string option"
  kd_port :: "int option"
  kd_vendor :: "string option"
  kd_apiKey :: "string option"

definition stars :: string where "stars = ''********''"

definition new_secret :: "(string \<Rightarrow> string) \<Rightarrow> string option \<Rightarrow> string option \<Rightarrow> string option" where
  "new_secret enc given stored =
     (if truthy given \<and> given \<noteq> Some stars then Some (enc (or_str given []))
      else if given = Some stars then or_null stored else None)"

definition update_monitoring :: "(string \<Rightarrow> string) \<Rightarrow> world \<Rightarrow> string \<Rightarrow> string \<Rightarrow> config_dto \<Rightarrow> unit net" where
  "update_monitoring enc w assetId companyId d =
     bindE (fail_res (find_device assetId companyId)) (\<lambda>_.
     bindE (reads (\<lambda>s. find (\<lambda>c. mc_assetId c = assetId \<and> mc_companyId c = companyId) (nd_configs s))) (\<lambda>old.
     (let row = \<lparr>mc_id = (case old of None \<Rightarrow> uuid w 0 | Some c \<Rightarrow> mc_id c), mc_companyId = companyId, mc_assetId = assetId,
        mc_ping = (kd_ping d \<noteq> Some False), mc_interval = max 15 (min 3600 (or_int (kd_interval d) 60)),
        mc_snmp = kd_snmp d,
        mc_community = new_secret enc (kd_community d) (case old of None \<Rightarrow> None | Some c \<Rightarrow> mc_community c),
        mc_syslogPort = max 1 (min 65535 (or_int (kd_port d) 514)), mc_vendor = or_null (kd_vendor d),
        mc_apiKey = new_secret enc (kd_apiKey d) (case old of None \<Rightarrow> None | Some c \<Rightarrow> mc_apiKey c)\<rparr> in
      case old of
        Some c \<Rightarrow> writes (\<lambda>s. s\<lparr>nd_configs := map (\<lambda>x. if mc_id x = mc_id c \<and> mc_companyId x = companyId then row else x) (nd_configs s)\<rparr>)
      | None \<Rightarrow>
          bindE (reads (\<lambda>s. list_ex (\<lambda>x. mc_assetId x = assetId) (nd_configs s))) (\<lambda>taken.
          bindE (guard (\<not> taken) duplicate) (\<lambda>_.
          writes (\<lambda>s. s\<lparr>nd_configs := nd_configs s @ [row]\<rparr>))))))"

end
