(* ===== verification/Devices.thy ===== *)
theory Devices
  imports Monitoring
begin

text \<open>
  Remote control of devices: actions on network devices with four-eyes approval
  (\<open>cmdb/services/cmdb.service.ts\<close>, \<open>platform-security/platform-security.service.ts\<close>) and the
  management of enrolled devices by token (\<open>cmdb.service.ts\<close>,
  \<open>cmdb/controllers/mdm-enrollment.controller.ts\<close>). A vendor's \<open>executeAction\<close> is an argument.
  Payloads, notes, the audit log and descriptive columns of a device are left out.
\<close>

section \<open>Tables\<close>

record net_action =
  na_id :: string
  na_companyId :: string
  na_assetId :: string
  na_action :: string
  na_status :: string
  na_approval :: string
  na_requestedBy :: "string option"
  na_approvedBy :: "string option"
  na_rejectedBy :: "string option"
  na_note :: "string option"
  na_result :: "string option"
  na_completedAt :: "int option"

record enrol_token =
  et_id :: string
  et_companyId :: string
  et_token :: string
  et_category :: string
  et_ownership :: string
  et_policy :: "string option"
  et_expiresAt :: int
  et_usedAt :: "int option"
  et_assetId :: "string option"

record mdm_command =
  cm_id :: string
  cm_companyId :: string
  cm_assetId :: string
  cm_action :: string
  cm_status :: string
  cm_requestedBy :: "string option"
  cm_result :: "string option"
  cm_completedAt :: "int option"
  cm_createdAt :: int

record fleet =
  fl_devices :: "device list"
  fl_actions :: "net_action list"
  fl_tokens :: "enrol_token list"
  fl_commands :: "mdm_command list"
  fl_approval :: bool

type_synonym 'a flt = "(fleet, 'a) act"

definition fleet_device :: "string \<Rightarrow> string \<Rightarrow> fleet \<Rightarrow> device res" where
  "fleet_device i companyId s =
     (case find (\<lambda>d. dv_id d = i \<and> dv_companyId d = companyId \<and> dv_deletedAt d = None) (fl_devices s) of
        None \<Rightarrow> Inl (NotFound ''Asset not found'') | Some d \<Rightarrow> Inr d)"

definition of_fleet :: "(fleet \<Rightarrow> 'a res) \<Rightarrow> 'a flt" where
  "of_fleet f = bindE (reads f) of_res"

section \<open>Network actions\<close>

definition NETWORK_ACTIONS :: "string list" where
  "NETWORK_ACTIONS = [''RESTART'', ''DISABLE_PORT'', ''ENABLE_PORT'', ''BOUNCE_POE'', ''BACKUP_CONFIG'', ''SYNC_CONTROLLER'']"

definition DISRUPTIVE_ACTIONS :: "string list" where
  "DISRUPTIVE_ACTIONS = [''RESTART'', ''DISABLE_PORT'', ''BOUNCE_POE'']"

definition queue_action :: "world \<Rightarrow> string \<Rightarrow> string \<Rightarrow> string option \<Rightarrow> string option \<Rightarrow> string flt" where
  "queue_action w assetId companyId requested requestedBy =
     bindE (of_fleet (fleet_device assetId companyId)) (\<lambda>_.
     (let action = js_upper (or_str requested []) in
      bindE (guard (action \<in> set NETWORK_ACTIONS) (BadRequest ''Device action is not supported'')) (\<lambda>_.
      bindE (reads (\<lambda>s. fl_approval s \<and> action \<in> set DISRUPTIVE_ACTIONS)) (\<lambda>approve.
      bindE (reads (\<lambda>s. map na_id (fl_actions s))) (\<lambda>ids.
      bindE (guard (uuid w 0 \<notin> set ids) duplicate) (\<lambda>_.
      bindE (writes (\<lambda>s. s\<lparr>fl_actions := fl_actions s @ [\<lparr>na_id = uuid w 0, na_companyId = companyId, na_assetId = assetId,
        na_action = action, na_status = (if approve then ''PENDING_APPROVAL'' else ''QUEUED''),
        na_approval = (if approve then ''PENDING'' else ''NOT_REQUIRED''), na_requestedBy = or_null requestedBy,
        na_approvedBy = None, na_rejectedBy = None, na_note = None, na_result = None, na_completedAt = None\<rparr>]\<rparr>)) (\<lambda>_.
      ret (uuid w 0))))))))"

definition set_action :: "(net_action \<Rightarrow> bool) \<Rightarrow> (net_action \<Rightarrow> net_action) \<Rightarrow> unit flt" where
  "set_action hit f = writes (\<lambda>s. s\<lparr>fl_actions := map (\<lambda>a. if hit a then f a else a) (fl_actions s)\<rparr>)"

definition execute_action :: "(net_action \<Rightarrow> string + string) option \<Rightarrow> int \<Rightarrow> string \<Rightarrow> string \<Rightarrow> string \<Rightarrow> unit flt" where
  "execute_action vendor t assetId actionId companyId =
     bindE (of_fleet (\<lambda>s. case find (\<lambda>a. na_id a = actionId \<and> na_assetId a = assetId \<and> na_companyId a = companyId) (fl_actions s) of
         None \<Rightarrow> Inl (NotFound ''Device action not found'') | Some a \<Rightarrow> Inr a)) (\<lambda>a.
     bindE (guard (\<not> (na_approval a = ''PENDING'' \<or> na_status a = ''PENDING_APPROVAL''))
       (BadRequest ''This disruptive action requires approval from another administrator'')) (\<lambda>_.
     bindE (guard (\<not> (na_approval a = ''REJECTED'' \<or> na_status a = ''REJECTED'')) (BadRequest ''This action was rejected'')) (\<lambda>_.
     bindE (guard (na_status a = ''QUEUED'') (BadRequest ''Only queued actions can be executed'')) (\<lambda>_.
     bindE (reads (\<lambda>s. case vendor of
         None \<Rightarrow> Inr ''Action recorded; no executable vendor mapping for this action''
       | Some run \<Rightarrow> (case fleet_device assetId companyId s of Inl e \<Rightarrow> Inl ''Asset not found'' | Inr d \<Rightarrow> run a))) (\<lambda>outcome.
     set_action (\<lambda>x. na_id x = actionId \<and> na_companyId x = companyId) (\<lambda>x. x\<lparr>
       na_status := (case outcome of Inl e \<Rightarrow> ''FAILED'' | Inr r \<Rightarrow> ''COMPLETED''),
       na_result := Some (case outcome of Inl e \<Rightarrow> e | Inr r \<Rightarrow> r), na_completedAt := Some t\<rparr>))))))"

text \<open>\<open>scopeCompany\<close>.\<close>

definition acting_company :: "principal \<Rightarrow> string option" where
  "acting_company u = or_null (or_opt (p_effective u) (p_companyId u))"

definition decide_action :: "principal \<Rightarrow> string \<Rightarrow> bool \<Rightarrow> string option \<Rightarrow> unit flt" where
  "decide_action u i approve note =
     bindE (guard (p_role u \<in> {''SUPER_ADMIN'', ''TENANT_ADMIN''}) (Forbidden ''Administrator approval is required'')) (\<lambda>_.
     bindE (of_fleet (\<lambda>s. case find (\<lambda>a. na_id a = i) (fl_actions s) of
         None \<Rightarrow> Inl (NotFound ''Network action not found'') | Some a \<Rightarrow> Inr a)) (\<lambda>a.
     bindE (guard (\<not> (truthy (acting_company u) \<and> Some (na_companyId a) \<noteq> acting_company u))
       (Forbidden ''Cross-tenant approval denied'')) (\<lambda>_.
     bindE (guard (na_requestedBy a \<noteq> Some (p_id u))
       (Forbidden ''The requester cannot approve their own disruptive action'')) (\<lambda>_.
     bindE (guard (na_approval a = ''PENDING'') (BadRequest ''This action is not awaiting approval'')) (\<lambda>_.
     set_action (\<lambda>x. na_id x = i \<and> na_companyId x = na_companyId a)
       (\<lambda>x. if approve
            then x\<lparr>na_approval := ''APPROVED'', na_approvedBy := Some (p_id u), na_note := or_null (Some (take 500 (or_str note []))),
                   na_status := ''QUEUED''\<rparr>
            else x\<lparr>na_approval := ''REJECTED'', na_rejectedBy := Some (p_id u), na_note := or_null (Some (take 500 (or_str note []))),
                   na_status := ''REJECTED''\<rparr>))))))"

section \<open>Enrolment\<close>

definition MANAGED_TYPES :: "string list" where
  "MANAGED_TYPES = [''DESKTOP'', ''LAPTOP'', ''MOBILE'', ''TABLET'', ''SERVER'', ''IOT'', ''CHROMEBOOK'', ''RUGGED'',
     ''WEARABLE'', ''KIOSK'', ''NETWORK_DEVICE'', ''PRINTER'']"

text \<open>\<open>normalizeDevicePayload\<close> on the category: given, or derived from the asset type.\<close>

definition normal_category :: "string option \<Rightarrow> string option \<Rightarrow> string option" where
  "normal_category category assetType =
     (if truthy category then Some (js_upper (or_str category []))
      else if truthy assetType
      then (let t = js_upper (or_str assetType []) in Some (if t \<in> set MANAGED_TYPES then t else ''OTHER''))
      else category)"

record token_dto =
  kt_ttlHours :: "int option"
  kt_category :: "string option"
  kt_ownership :: "string option"
  kt_policy :: "string option"

definition create_enrol_token :: "crypto \<Rightarrow> auth_world \<Rightarrow> string \<Rightarrow> token_dto \<Rightarrow> string flt" where
  "create_enrol_token cr w companyId d =
     (let ttl = max 1 (min 168 (or_int (kt_ttlHours d) 24)); token = ''mdm_'' @ rnd w 0 in
      bindE (reads (\<lambda>s. list_ex (\<lambda>x. et_id x = uuid w 0 \<or> et_token x = hash_credential cr token) (fl_tokens s))) (\<lambda>taken.
      bindE (guard (\<not> taken) duplicate) (\<lambda>_.
      bindE (writes (\<lambda>s. s\<lparr>fl_tokens := fl_tokens s @ [\<lparr>et_id = uuid w 0, et_companyId = companyId,
        et_token = hash_credential cr token, et_category = js_upper (or_str (kt_category d) ''LAPTOP''),
        et_ownership = js_upper (or_str (kt_ownership d) ''COMPANY''), et_policy = or_null (kt_policy d),
        et_expiresAt = now w + ttl * 60 * 60 * 1000, et_usedAt = None, et_assetId = None\<rparr>]\<rparr>)) (\<lambda>_.
      ret token))))"

record enrol_dto =
  ne_token :: "string option"
  ne_name :: "string option"
  ne_hostname :: "string option"
  ne_assetType :: "string option"
  ne_category :: "string option"
  ne_ip :: "string option"
  ne_compliance :: "string option"
  ne_policy :: "string option"

definition enrolled_device :: "crypto \<Rightarrow> world \<Rightarrow> enrol_dto \<Rightarrow> enrol_token \<Rightarrow> device" where
  "enrolled_device cr w d e =
     \<lparr>dv_id = uuid w 0, dv_companyId = et_companyId e, dv_name = or_str (ne_name d) (or_str (ne_hostname d) ''Managed device''),
      dv_ip = ne_ip d,
      dv_category = normal_category (Some (or_str (ne_category d) (or_str (Some (et_category e)) ''LAPTOP'')))
        (Some (or_str (ne_assetType d) (or_str (Some (et_category e)) ''LAPTOP''))),
      dv_location = None, dv_deletedAt = None, dv_compliance = Some (js_upper (or_str (ne_compliance d) ''UNKNOWN'')),
      dv_reasons = None, dv_checkIn = Some (now w), dv_enrollment = Some ''ENROLLED'', dv_mdmId = Some (uuid w 2),
      dv_tokenHash = Some (hash_credential cr (uuid w 1)), dv_lost = False, dv_policy = or_opt (ne_policy d) (et_policy e)\<rparr>"

text \<open>The returned device token is \<open>uuid w 1\<close>.\<close>

definition enrol :: "crypto \<Rightarrow> world \<Rightarrow> enrol_dto \<Rightarrow> (string \<times> string) flt" where
  "enrol cr w d =
     (let token = js_trim (or_str (ne_token d) []) in
      bindE (guard (token \<noteq> []) (BadRequest ''Enrollment token is required'')) (\<lambda>_.
      bindE (of_fleet (\<lambda>s. case find (\<lambda>e. et_token e \<in> set (lookup_values cr token) \<and> et_usedAt e = None
                                       \<and> et_expiresAt e > now w) (fl_tokens s) of
          None \<Rightarrow> Inl (Unauthorized ''Enrollment token is invalid or expired'') | Some e \<Rightarrow> Inr e)) (\<lambda>e.
      bindE (reads (\<lambda>s. list_ex (\<lambda>x. dv_id x = uuid w 0) (fl_devices s))) (\<lambda>taken.
      bindE (guard (\<not> taken) duplicate) (\<lambda>_.
      bindE (writes (\<lambda>s. s\<lparr>fl_devices := fl_devices s @ [enrolled_device cr w d e]\<rparr>)) (\<lambda>_.
      bindE (writes (\<lambda>s. s\<lparr>fl_tokens := map (\<lambda>x. if et_id x = et_id e then x\<lparr>et_usedAt := Some (now w), et_assetId := Some (uuid w 0)\<rparr>
        else x) (fl_tokens s)\<rparr>)) (\<lambda>_.
      ret (uuid w 0, uuid w 1))))))))"

text \<open>\<open>findByDeviceCredential\<close>: the hash, or the legacy device id when no hash is stored.\<close>

definition device_by_credential :: "crypto \<Rightarrow> string \<Rightarrow> string \<Rightarrow> fleet \<Rightarrow> device res" where
  "device_by_credential cr i token s =
     (case find (\<lambda>d. dv_id d = i \<and> (dv_tokenHash d = Some (hash_credential cr token)
                     \<or> dv_tokenHash d = None \<and> token \<noteq> hash_credential cr token \<and> dv_mdmId d = Some token)
                   \<and> dv_deletedAt d = None) (fl_devices s) of
        None \<Rightarrow> Inl (Unauthorized ''Device credential is invalid'') | Some d \<Rightarrow> Inr d)"

text \<open>The columns a check-in body names; they are written as they come.\<close>

record checkin_dto =
  ci_companyId :: "string option"
  ci_name :: "string option"
  ci_ip :: "string option"
  ci_category :: "string option"
  ci_assetType :: "string option"
  ci_location :: "string option"
  ci_compliance :: "string option"
  ci_reasons :: "string option"
  ci_tokenHash :: "string option"
  ci_lost :: "bool option"
  ci_policy :: "string option"

definition checked_in :: "int \<Rightarrow> checkin_dto \<Rightarrow> device \<Rightarrow> device" where
  "checked_in t d v = v\<lparr>
     dv_companyId := (case ci_companyId d of None \<Rightarrow> dv_companyId v | Some c \<Rightarrow> c),
     dv_name := (case ci_name d of None \<Rightarrow> dv_name v | Some x \<Rightarrow> x),
     dv_ip := (case ci_ip d of None \<Rightarrow> dv_ip v | Some x \<Rightarrow> Some x),
     dv_category := (case normal_category (ci_category d) (ci_assetType d) of None \<Rightarrow> dv_category v | Some x \<Rightarrow> Some x),
     dv_location := (case ci_location d of None \<Rightarrow> dv_location v | Some x \<Rightarrow> Some x),
     dv_compliance := (case ci_compliance d of None \<Rightarrow> dv_compliance v | Some x \<Rightarrow> Some (js_upper x)),
     dv_reasons := (case ci_reasons d of None \<Rightarrow> dv_reasons v | Some x \<Rightarrow> Some x),
     dv_tokenHash := (case ci_tokenHash d of None \<Rightarrow> dv_tokenHash v | Some x \<Rightarrow> Some x),
     dv_lost := (case ci_lost d of None \<Rightarrow> dv_lost v | Some x \<Rightarrow> x),
     dv_policy := (case ci_policy d of None \<Rightarrow> dv_policy v | Some x \<Rightarrow> Some x),
     dv_enrollment := Some ''ENROLLED'', dv_checkIn := Some t\<rparr>"

definition device_commands :: "string \<Rightarrow> string \<Rightarrow> string option \<Rightarrow> fleet \<Rightarrow> mdm_command list" where
  "device_commands assetId companyId status s =
     take 50 (sort_key (\<lambda>c. - cm_createdAt c)
       (filter (\<lambda>c. cm_assetId c = assetId \<and> cm_companyId c = companyId
                   \<and> (truthy status \<longrightarrow> Some (cm_status c) = status)) (fl_commands s)))"

definition check_in :: "crypto \<Rightarrow> int \<Rightarrow> string \<Rightarrow> string \<Rightarrow> checkin_dto \<Rightarrow> mdm_command list flt" where
  "check_in cr t assetId token d =
     bindE (of_fleet (device_by_credential cr assetId token)) (\<lambda>v.
     bindE (writes (\<lambda>s. s\<lparr>fl_devices := map (\<lambda>x. if dv_id x = dv_id v then checked_in t d x else x) (fl_devices s)\<rparr>)) (\<lambda>_.
     reads (device_commands (dv_id v) (dv_companyId v) (Some ''PENDING''))))"

definition commands_by_token :: "crypto \<Rightarrow> string \<Rightarrow> string \<Rightarrow> mdm_command list flt" where
  "commands_by_token cr assetId token =
     bindE (of_fleet (device_by_credential cr assetId token)) (\<lambda>v.
     reads (device_commands (dv_id v) (dv_companyId v) (Some ''PENDING'')))"

section \<open>Commands\<close>

definition MDM_ACTIONS :: "string list" where
  "MDM_ACTIONS = [''LOCK'', ''WIPE'', ''RESTART'', ''LOST_MODE'', ''CLEAR_LOST_MODE'', ''SYNC'', ''PUSH_POLICY'', ''INSTALL_PATCHES'']"

definition run_device_action :: "world \<Rightarrow> string \<Rightarrow> string option \<Rightarrow> string option \<Rightarrow> string \<Rightarrow> string option \<Rightarrow> string flt" where
  "run_device_action w i action policy companyId requestedBy =
     bindE (of_fleet (fleet_device i companyId)) (\<lambda>_.
     (let a = js_upper (or_str action []) in
      bindE (guard (a \<in> set MDM_ACTIONS) (NotFound ''Device action not supported'')) (\<lambda>_.
      bindE (reads (\<lambda>s. map cm_id (fl_commands s))) (\<lambda>ids.
      bindE (guard (uuid w 0 \<notin> set ids) duplicate) (\<lambda>_.
      bindE (writes (\<lambda>s. s\<lparr>fl_commands := fl_commands s @ [\<lparr>cm_id = uuid w 0, cm_companyId = companyId, cm_assetId = i,
        cm_action = a, cm_status = ''PENDING'', cm_requestedBy = or_null requestedBy, cm_result = None, cm_completedAt = None,
        cm_createdAt = now w\<rparr>]\<rparr>)) (\<lambda>_.
      bindE (writes (\<lambda>s. s\<lparr>fl_devices := map (\<lambda>v. if dv_id v = i then v\<lparr>
          dv_lost := (if a = ''LOST_MODE'' then True else if a = ''CLEAR_LOST_MODE'' then False else dv_lost v),
          dv_policy := (if a = ''PUSH_POLICY'' \<and> truthy policy then policy else dv_policy v)\<rparr> else v) (fl_devices s)\<rparr>)) (\<lambda>_.
      ret (uuid w 0))))))))"

definition complete_command :: "crypto \<Rightarrow> int \<Rightarrow> string \<Rightarrow> string \<Rightarrow> bool \<Rightarrow> string \<Rightarrow> unit flt" where
  "complete_command cr t i token isFailed result =
     bindE (reads (\<lambda>s. Option.bind (find (\<lambda>c. cm_id c = i) (fl_commands s))
         (\<lambda>c. find (\<lambda>v. dv_id v = cm_assetId c) (fl_devices s)))) (\<lambda>dev.
     bindE (guard (case dev of None \<Rightarrow> False | Some v \<Rightarrow> credential_matches cr token (or_opt (dv_tokenHash v) (dv_mdmId v)))
       (Unauthorized ''Device command credential is invalid'')) (\<lambda>_.
     writes (\<lambda>s. s\<lparr>fl_commands := map (\<lambda>c. if cm_id c = i
       then c\<lparr>cm_status := (if isFailed then ''FAILED'' else ''COMPLETED''), cm_result := Some result, cm_completedAt := Some t\<rparr>
       else c) (fl_commands s)\<rparr>)))"

end
