(* ===== verification/Monitoring_Props.thy ===== *)
theory Monitoring_Props
  imports Monitoring
begin

text \<open>
  Properties of device monitoring: at most one open alert for a device and a rule, what an
  outage and a recovery do, and where alerting falls short.
\<close>

section \<open>What an alert changes\<close>

lemma enumerate_mem: "(k, r) \<in> set (enumerate n rs) \<Longrightarrow> r \<in> set rs"
  by (metis enumerate_eq_zip in_set_zipE)

text \<open>The events after a call: unchanged, or one more for the device and rule.\<close>

definition event_added :: "string \<Rightarrow> string \<Rightarrow> string \<Rightarrow> alert_event list \<Rightarrow> alert_event list \<Rightarrow> bool" where
  "event_added a c r es fs \<longleftrightarrow> fs = es \<or> (\<exists>e. fs = es @ [e] \<and> ev_id e \<notin> ev_id ` set es \<and> open_event e
     \<and> ev_assetId e = a \<and> ev_companyId e = c \<and> ev_ruleId e = r)"

lemma ticket_events: "nd_events (snd (create_alert_ticket w k d r details s)) = nd_events s"
  by (simp add: create_alert_ticket_def act_simps split: option.splits)

lemma create_event_added:
  "event_added a c (ru_id r) (nd_events s) (nd_events (snd (create_alert_event num w k a c r x s)))"
proof (cases "find_device a c s")
  case (Inl e)
  then show ?thesis by (simp add: create_alert_event_def fail_res_def act_simps event_added_def)
next
  case (Inr d)
  let ?m = "create_alert_ticket w k d r (alert_details num r x) s"
  show ?thesis
  proof (cases ?m)
    case m: (Pair q t)
    have e: "nd_events t = nd_events s" using ticket_events[of w k d r "alert_details num r x" s] m by simp
    show ?thesis
    proof (cases q)
      case (Inl e')
      with Inr m e show ?thesis
        unfolding create_alert_event_def Let_def by (simp add: fail_res_def act_simps event_added_def)
    next
      case q: (Inr i)
      show ?thesis
        using Inr m e q unfolding create_alert_event_def Let_def
        by (auto simp: fail_res_def act_simps event_added_def send_alert_def open_event_def)
    qed
  qed
qed

lemma raise_alert_added:
  "event_added a c (ru_id (snd kr)) (nd_events s) (nd_events (snd (raise_alert num w a c x kr s)))"
proof (cases "open_for a c (ru_id (snd kr)) s")
  case None
  have "snd (raise_alert num w a c x kr s) = snd (create_alert_event num w (3 * fst kr + 1) a c (snd kr) x s)"
    using None by (simp add: raise_alert_def act_simps split: prod.splits sum.splits)
  then show ?thesis by (simp add: create_event_added)
next
  case (Some e)
  then show ?thesis by (simp add: raise_alert_def act_simps event_added_def)
qed

lemma raise_alert_open: "open_for a c (ru_id (snd kr)) s \<noteq> None \<Longrightarrow> raise_alert num w a c x kr s = (Inr (), s)"
  by (auto simp: raise_alert_def act_simps)

section \<open>One open alert\<close>

definition event_key :: "alert_event \<Rightarrow> string \<times> string \<times> string" where
  "event_key e = (ev_assetId e, ev_companyId e, ev_ruleId e)"

definition one_open :: "net_db \<Rightarrow> bool" where
  "one_open s \<longleftrightarrow> distinct (map ev_id (nd_events s)) \<and> distinct (map event_key (filter open_event (nd_events s)))"

lemma one_open_other: "(\<And>s. nd_events (f s) = nd_events s) \<Longrightarrow> keeps one_open (writes f)"
  by (rule keeps_writes) (simp add: one_open_def)

lemma open_for_None: "open_for a c r s = None \<longleftrightarrow> (a, c, r) \<notin> event_key ` set (filter open_event (nd_events s))"
  by (auto simp: open_for_def find_None_iff event_key_def)

lemma one_open_raise: "keeps one_open (raise_alert num w a c x kr)"
proof (rule keepsI)
  fix s assume i: "one_open s"
  show "one_open (snd (raise_alert num w a c x kr s))"
  proof (cases "open_for a c (ru_id (snd kr)) s")
    case None
    then show ?thesis
      using i raise_alert_added[of a c kr s num w x] unfolding open_for_None
      by (auto simp: event_added_def one_open_def event_key_def)
  next
    case (Some e)
    then show ?thesis using i raise_alert_open[of a c kr s num w x] by simp
  qed
qed

lemma one_open_send: "keeps one_open (send_alert c t d i e)"
  unfolding send_alert_def by (rule one_open_other) simp

lemma distinct_key_map:
  assumes "distinct (map g (filter P xs))" "\<And>x. x \<in> set xs \<Longrightarrow> g (f x) = g x" "\<And>x. x \<in> set xs \<Longrightarrow> P (f x) \<Longrightarrow> P x"
  shows "distinct (map g (filter P (map f xs)))"
proof -
  have "map g (filter P (map f xs)) = map g (filter (\<lambda>x. P (f x)) (filter P xs))"
    using assms(2,3) by (induction xs) auto
  with distinct_map_filter[OF assms(1)] show ?thesis by simp
qed

lemma one_open_map:
  assumes "one_open s" "\<And>e. ev_id (f e) = ev_id e" "\<And>e. event_key (f e) = event_key e"
    "\<And>e. e \<in> set (nd_events s) \<Longrightarrow> open_event (f e) \<Longrightarrow> open_event e"
  shows "one_open (s\<lparr>nd_events := map f (nd_events s)\<rparr>)"
  using assms(1) distinct_key_map[of event_key open_event "nd_events s" f] assms(2-)
  by (simp add: one_open_def comp_def)

lemma one_open_resolve: "keeps one_open (resolve_inactive t a c)"
  unfolding resolve_inactive_def
proof (intro keeps_intros one_open_send keeps_writes)
  fix s assume i: "one_open s"
  show "one_open (s\<lparr>nd_events := map (\<lambda>e. if ev_assetId e = a \<and> ev_companyId e = c \<and> open_event e
       then e\<lparr>ev_status := ''RESOLVED'', ev_resolvedAt := Some t\<rparr> else e) (nd_events s)\<rparr>)"
    by (rule one_open_map[OF i]) (auto simp: event_key_def open_event_def split: if_splits)
qed

lemma keeps_fail_res [keeps_intros]: "keeps I (fail_res f)"
  unfolding fail_res_def by (intro keeps_intros)

lemma one_open_evaluate: "keeps one_open (evaluate_rules num w a c x)"
  unfolding evaluate_rules_def by (intro keeps_intros one_open_resolve one_open_raise)

lemma one_open_ping: "keeps one_open (run_ping_check num w a c p)"
  unfolding run_ping_check_def Let_def by (intro keeps_intros one_open_other one_open_evaluate) simp_all

lemma one_open_scheduled: "keeps one_open (run_scheduled num outcome t)"
  unfolding run_scheduled_def scheduled_check_def Let_def by (intro keeps_intros one_open_ping)

lemma one_open_escalate: "keeps one_open (run_escalations t)"
  unfolding run_escalations_def by (intro keeps_intros one_open_send)

text \<open>
  The calls on the monitored devices. An operator may set any event to any status; a call
  reopens an event when it is closed before and open after.
\<close>

definition reopens :: "net_db \<Rightarrow> net_db \<Rightarrow> bool" where
  "reopens s t \<longleftrightarrow> list_ex (\<lambda>e. \<not> open_event e \<and> list_ex (\<lambda>x. ev_id x = ev_id e \<and> open_event x) (nd_events t)) (nd_events s)"

definition set_status :: "int \<Rightarrow> string \<Rightarrow> string \<Rightarrow> string \<Rightarrow> alert_event \<Rightarrow> alert_event" where
  "set_status t c i st e = (if ev_id e = i \<and> ev_companyId e = c
     then e\<lparr>ev_status := st, ev_resolvedAt := (if st = ''RESOLVED'' then Some t else None)\<rparr> else e)"

lemma set_status_keeps [simp]: "ev_id (set_status t c i st e) = ev_id e" "event_key (set_status t c i st e) = event_key e"
  by (simp_all add: set_status_def event_key_def)

lemma update_event_rows:
  "snd (update_event t c i status s) = (if js_upper status \<in> {''ACTIVE'', ''ACKNOWLEDGED'', ''RESOLVED''}
     then s\<lparr>nd_events := map (set_status t c i (js_upper status)) (nd_events s)\<rparr> else s)"
  by (simp add: update_event_def Let_def act_simps set_status_def[abs_def])

lemma one_open_update:
  assumes "one_open s" and "\<not> reopens s (snd (update_event t c i status s))"
  shows "one_open (snd (update_event t c i status s))"
proof (cases "js_upper status \<in> {''ACTIVE'', ''ACKNOWLEDGED'', ''RESOLVED''}")
  case True
  have "one_open (s\<lparr>nd_events := map (set_status t c i (js_upper status)) (nd_events s)\<rparr>)"
  proof (rule one_open_map[OF assms(1)])
    fix e assume e: "e \<in> set (nd_events s)" "open_event (set_status t c i (js_upper status) e)"
    then show "open_event e"
      using assms(2) True by (force simp: update_event_rows reopens_def list_ex_iff)
  qed simp_all
  with True show ?thesis by (simp add: update_event_rows)
qed (simp add: update_event_rows assms(1))

inductive monitor_step :: "net_db \<Rightarrow> net_db \<Rightarrow> bool" where
  step_ping: "monitor_step s (snd (run_ping_check num w a c p s))"
| step_scheduled: "monitor_step s (snd (run_scheduled num outcome t s))"
| step_escalate: "monitor_step s (snd (run_escalations t s))"
| step_update_event: "monitor_step s (snd (update_event t c i status s))"
| step_network_rule: "monitor_step s (snd (create_network_rule w c d s))"
| step_asset_rule: "monitor_step s (snd (create_asset_rule w a c d s))"
| step_update_rule: "monitor_step s (snd (update_rule a r c d s))"
| step_window: "monitor_step s (snd (create_window w c y s))"
| step_settings: "monitor_step s (snd (update_monitoring enc w a c k s))"
| step_retention: "monitor_step s (snd (run_retention t s))"
| step_datagram: "monitor_step s (snd (ingest_datagram t host raw s))"

lemma one_open_step: "monitor_step s t \<Longrightarrow> \<not> reopens s t \<Longrightarrow> one_open s \<Longrightarrow> one_open t"
proof (induction rule: monitor_step.induct)
  case (step_ping s num w a c p)
  then show ?case by (metis keeps_def one_open_ping)
next
  case (step_scheduled s num outcome t)
  then show ?case by (metis keeps_def one_open_scheduled)
next
  case (step_escalate s t)
  then show ?case by (metis keeps_def one_open_escalate)
next
  case (step_update_event s t c i status)
  then show ?case by (intro one_open_update)
next
  case (step_network_rule s w c d)
  then show ?case
    by (auto simp: create_network_rule_def fail_res_def act_simps one_open_def split: sum.splits)
next
  case (step_asset_rule s w a c d)
  then show ?case
    by (auto simp: create_asset_rule_def fail_res_def act_simps one_open_def split: sum.splits)
next
  case (step_update_rule s a r c d)
  then show ?case
    by (auto simp: update_rule_def fail_res_def act_simps one_open_def split: sum.splits)
next
  case (step_window s w c y)
  then show ?case by (simp add: create_window_def Let_def act_simps one_open_def)
next
  case (step_settings s enc w a c k)
  have "keeps one_open (update_monitoring enc w a c k)"
    unfolding update_monitoring_def Let_def by (intro keeps_intros one_open_other) simp_all
  with step_settings show ?case by (simp add: keeps_def)
next
  case (step_retention s t)
  have "keeps one_open (run_retention t)"
    unfolding run_retention_def by (intro keeps_intros one_open_other) simp
  with step_retention show ?case by (simp add: keeps_def)
next
  case (step_datagram s t host raw)
  have "keeps one_open (ingest_datagram t host raw)"
    unfolding ingest_datagram_def by (intro keeps_intros one_open_other) simp
  with step_datagram show ?case by (simp add: keeps_def)
qed

text \<open>
  C23. A device has at most one open alert per rule as long as no closed alert is reopened.
  Starting without alert events, whatever pings, scheduled runs, escalations, changes of rules,
  windows and settings and status changes of events by an operator follow in whatever order,
  except status changes that make a resolved event active or acknowledged again, no device has
  two open events for the same rule. (Nothing stops those changes: see
  \<open>reopened_alert_duplicates\<close>.)
\<close>
theorem one_open_alert:
  assumes "(\<lambda>s t. monitor_step s t \<and> \<not> reopens s t)\<^sup>*\<^sup>* s0 s" and "nd_events s0 = []"
  shows "length (filter (\<lambda>e. open_event e \<and> ev_assetId e = a \<and> ev_companyId e = c \<and> ev_ruleId e = r) (nd_events s)) \<le> 1"
proof -
  from assms have "one_open s"
    by (induction rule: rtranclp_induct) (auto simp: one_open_def[of s0] intro: one_open_step)
  then have d: "distinct (map event_key (filter open_event (nd_events s)))" by (simp add: one_open_def)
  have "length (filter (\<lambda>e. event_key e = k) xs) \<le> 1" if "distinct (map event_key xs)" for k xs
    using that by (induction xs) (auto simp: filter_empty_conv image_iff)
  from this[OF d, of "(a, c, r)"] show ?thesis by (simp add: event_key_def filter_filter conj_commute)
qed

lemma update_event_found:
  assumes "e \<in> set (nd_events s)" and v: "js_upper status \<in> {''ACTIVE'', ''ACKNOWLEDGED'', ''RESOLVED''}"
  shows "fst (update_event t (ev_companyId e) (ev_id e) status s) = Inr ()"
proof -
  let ?f = "\<lambda>st x. if ev_id x = ev_id e \<and> ev_companyId x = ev_companyId e
          then x\<lparr>ev_status := st, ev_resolvedAt := (if st = ''RESOLVED'' then Some t else None)\<rparr> else x"
  have k: "ev_id (?f st e) = ev_id e \<and> ev_companyId (?f st e) = ev_companyId e" for st by simp
  have m: "\<exists>x \<in> set (map (?f st) (nd_events s)). ev_id x = ev_id e \<and> ev_companyId x = ev_companyId e" for st
    using k[of st] imageI[OF assms(1), of "?f st"] unfolding set_map by (intro bexI[of _ "?f st e"]) simp_all
  have sel: "nd_events (x\<lparr>nd_events := y\<rparr>) = y" for x :: net_db and y by simp
  show ?thesis
    using v m[of "js_upper status"] unfolding update_event_def Let_def list_ex_iff
    by (simp only: guard_eval bindE_eval writes_eval reads_eval if_True prod.case sum.case fst_conv snd_conv sel)
qed

text \<open>
  Reopening a resolved alert makes a second one. When the device and the rule of a resolved
  event have an open event again, setting the resolved one to active or acknowledged, which the
  service accepts for any event, gives two open alerts for that device and rule.
\<close>
theorem reopened_alert_duplicates:
  assumes "e \<in> set (nd_events s)" "e' \<in> set (nd_events s)" "ev_id e \<noteq> ev_id e'"
    and "open_event e'" "event_key e = event_key e'" and "js_upper status \<in> {''ACTIVE'', ''ACKNOWLEDGED''}"
  shows "fst (update_event t (ev_companyId e) (ev_id e) status s) = Inr ()
    \<and> 2 \<le> length (filter (\<lambda>x. open_event x \<and> event_key x = event_key e) (nd_events (snd (update_event t (ev_companyId e) (ev_id e) status s))))"
proof
  let ?f = "set_status t (ev_companyId e) (ev_id e) (js_upper status)"
  let ?xs = "filter (\<lambda>x. open_event x \<and> event_key x = event_key e) (map ?f (nd_events s))"
  have o: "open_event (?f e)" "?f e' = e'" using assms(3,6) by (auto simp: set_status_def open_event_def)
  have "?f e \<in> set ?xs" using o(1) assms(1) by simp
  moreover have "e' \<in> set ?xs" using assms(4,5) image_eqI[of e' ?f, OF o(2)[symmetric] assms(2)] by simp
  ultimately have sub: "{?f e, e'} \<subseteq> set ?xs" by blast
  have "ev_id (?f e) = ev_id e" by (rule set_status_keeps(1))
  with assms(3) have "?f e \<noteq> e'" by (elim contrapos_nn) simp
  with card_mono[OF finite_set sub] have two: "2 \<le> card (set ?xs)" by simp
  have valid: "js_upper status \<in> {''ACTIVE'', ''ACKNOWLEDGED'', ''RESOLVED''}" using assms(6) by blast
  have "nd_events (snd (update_event t (ev_companyId e) (ev_id e) status s)) = map ?f (nd_events s)"
    unfolding update_event_rows if_P[OF valid] by simp
  then show "2 \<le> length (filter (\<lambda>x. open_event x \<and> event_key x = event_key e) (nd_events (snd (update_event t (ev_companyId e) (ev_id e) status s))))"
    using le_trans[OF two card_length[of ?xs]] by (simp only:)
  show "fst (update_event t (ev_companyId e) (ev_id e) status s) = Inr ()"
    by (rule update_event_found[OF assms(1) valid])
qed

section \<open>Outage, recovery and maintenance\<close>

lemma raise_opens:
  assumes "raise_alert num w a c x kr s = (Inr u, t)"
  shows "open_for a c (ru_id (snd kr)) t \<noteq> None"
proof (cases "open_for a c (ru_id (snd kr)) s")
  case None
  with assms obtain e where m: "create_alert_event num w (3 * fst kr + 1) a c (snd kr) x s = (Inr e, t)"
    by (auto simp: raise_alert_def act_simps split: prod.splits sum.splits)
  have "e \<in> set (nd_events t) \<and> open_event e \<and> event_key e = (a, c, ru_id (snd kr))"
    using m unfolding create_alert_event_def Let_def
    by (auto simp: fail_res_def act_simps send_alert_def open_event_def event_key_def split: sum.splits prod.splits if_splits)
  then show ?thesis unfolding open_for_None by (auto intro!: rev_image_eqI)
next
  case (Some e)
  with assms raise_alert_open[of a c kr s num w x] show ?thesis by auto
qed

definition grown :: "string \<Rightarrow> string \<Rightarrow> alert_rule list \<Rightarrow> alert_event list \<Rightarrow> alert_event list \<Rightarrow> bool" where
  "grown a c rs es fs \<longleftrightarrow> (\<exists>ns. fs = es @ ns \<and> (\<forall>e \<in> set ns. ev_id e \<notin> ev_id ` set es \<and> open_event e \<and> ev_assetId e = a
     \<and> ev_companyId e = c \<and> (\<exists>r \<in> set rs. ev_ruleId e = ru_id r)))"

lemma grown_open: "grown a c rs (nd_events s) (nd_events t) \<Longrightarrow> open_for i j k s \<noteq> None \<Longrightarrow> open_for i j k t \<noteq> None"
  unfolding open_for_None grown_def by auto

lemma grown_step: "event_added a c (ru_id r) es fs \<Longrightarrow> grown a c rs fs gs \<Longrightarrow> grown a c (r # rs) es gs"
  unfolding event_added_def grown_def by fastforce

lemma loop_grown: "grown a c rs (nd_events s) (nd_events (snd (forE (enumerate k rs) (raise_alert num w a c x) s)))"
proof (induction rs arbitrary: k s)
  case Nil
  show ?case by (simp add: act_simps grown_def)
next
  case (Cons r rs)
  have one: "event_added a c (ru_id r) (nd_events s) (nd_events (snd (raise_alert num w a c x (k, r) s)))"
    using raise_alert_added[of a c "(k, r)" s num w x] by simp
  have stop: "grown a c rs es es" for es by (simp add: grown_def)
  show ?case
    using grown_step[OF one Cons.IH] grown_step[OF one stop]
    by (cases "raise_alert num w a c x (k, r) s") (auto simp: act_simps split: sum.splits)
qed

lemma loop_opens:
  assumes "forE (enumerate k rs) (raise_alert num w a c x) s = (Inr u, t)" and "r \<in> set rs"
  shows "open_for a c (ru_id r) t \<noteq> None"
  using assms
proof (induction rs arbitrary: k s)
  case (Cons q rs)
  from Cons.prems(1) obtain v s' where one: "raise_alert num w a c x (k, q) s = (Inr v, s')"
    and rest: "forE (enumerate (Suc k) rs) (raise_alert num w a c x) s' = (Inr u, t)"
    by (auto simp: act_simps split: prod.splits sum.splits)
  show ?case
  proof (cases "r \<in> set rs")
    case True
    then show ?thesis using Cons.IH[OF rest] by blast
  next
    case False
    with Cons.prems(2) have "r = q" by simp
    with raise_opens[OF one] have "open_for a c (ru_id r) s' \<noteq> None" by simp
    moreover have "grown a c rs (nd_events s') (nd_events t)" using loop_grown[of a c rs s' "Suc k" num w x] rest by simp
    ultimately show ?thesis by (blast dest: grown_open)
  qed
qed simp

text \<open>The state in which the rules of a check are evaluated.\<close>

definition after_check :: "world \<Rightarrow> string \<Rightarrow> snapshot \<Rightarrow> net_db \<Rightarrow> net_db" where
  "after_check w a x s = s\<lparr>nd_snapshots := nd_snapshots s @ [x],
     nd_devices := map (\<lambda>y. if dv_id y = a then ping_compliance (now w) x y else y) (nd_devices s)\<rparr>"

lemma after_check_fields [simp]:
  "nd_events (after_check w a x s) = nd_events s" "nd_tickets (after_check w a x s) = nd_tickets s"
  "nd_people (after_check w a x s) = nd_people s"
  "asset_rules i c (after_check w a x s) = asset_rules i c s" "in_window t i c (after_check w a x s) = in_window t i c s"
  "open_for i c r (after_check w a x s) = open_for i c r s"
  by (simp_all add: after_check_def asset_rules_def in_window_def open_for_def)

lemma ping_compliance_keys [simp]: "dv_id (ping_compliance t x d) = dv_id d"
  "dv_companyId (ping_compliance t x d) = dv_companyId d" "dv_deletedAt (ping_compliance t x d) = dv_deletedAt d"
  by (simp_all add: ping_compliance_def)

lemma after_check_device:
  assumes "find_device a c s = Inr d"
  shows "find_device a c (after_check w a x s) = Inr (ping_compliance (now w) x d)"
proof -
  let ?P = "\<lambda>d. dv_id d = a \<and> dv_companyId d = c \<and> dv_deletedAt d = None"
  let ?f = "\<lambda>y. if dv_id y = a then ping_compliance (now w) x y else y"
  have p: "find ?P (map ?f ds) = map_option ?f (find ?P ds)" for ds
    by (induction ds) auto
  from assms have d: "find ?P (nd_devices s) = Some d" by (simp add: find_device_def split: option.splits)
  then have "dv_id d = a" by (auto dest: find_SomeD)
  with d show ?thesis by (simp add: find_device_def after_check_def p)
qed

lemma ping_runE:
  assumes "run_ping_check num w a c p s = (Inr x, s')"
  obtains d where "find_device a c s = Inr d" "x = ping_snapshot w a c p"
    "evaluate_rules num w a c x (after_check w a x s) = (Inr (), s')"
  using assms unfolding run_ping_check_def Let_def
  by (auto simp: fail_res_def act_simps after_check_def split: sum.splits prod.splits if_splits)

definition resolved :: "int \<Rightarrow> string \<Rightarrow> string \<Rightarrow> net_db \<Rightarrow> alert_event list" where
  "resolved t a c s = map (\<lambda>e. if ev_assetId e = a \<and> ev_companyId e = c \<and> open_event e
     then e\<lparr>ev_status := ''RESOLVED'', ev_resolvedAt := Some t\<rparr> else e) (nd_events s)"

lemma send_fields [simp]: "nd_events (snd (send_alert c t d i e s)) = nd_events s"
  "nd_tickets (snd (send_alert c t d i e s)) = nd_tickets s" "fst (send_alert c t d i e s) = Inr ()"
  by (simp_all add: send_alert_def act_simps)

lemma send_loop: "fst (forE es (\<lambda>e. send_alert c (t e) d (i e) None) s) = Inr ()
    \<and> nd_events (snd (forE es (\<lambda>e. send_alert c (t e) d (i e) None) s)) = nd_events s
    \<and> nd_tickets (snd (forE es (\<lambda>e. send_alert c (t e) d (i e) None) s)) = nd_tickets s"
  by (induction es arbitrary: s) (simp_all add: act_simps send_alert_def)

lemma send_loop_window: "in_window m j k (snd (forE es (\<lambda>e. send_alert c (t e) d (i e) None) s)) = in_window m j k s"
  by (induction es arbitrary: s) (simp_all add: act_simps send_alert_def in_window_def)

lemma resolve_run:
  obtains t where "resolve_inactive n a c s = (Inr (), t)" "nd_events t = resolved n a c s" "nd_tickets t = nd_tickets s"
    "\<And>m. in_window m a c t = in_window m a c s"
proof
  let ?es = "filter (\<lambda>e. ev_assetId e = a \<and> ev_companyId e = c \<and> open_event e) (nd_events s)"
  let ?m = "forE ?es (\<lambda>e. send_alert c (''Recovered: '' @ ev_title e)
    ''The monitored device is back online and the alert has been resolved.'' (ev_ticketId e) None) (s\<lparr>nd_events := resolved n a c s\<rparr>)"
  have m: "resolve_inactive n a c s = ?m" unfolding resolve_inactive_def resolved_def by (simp add: act_simps)
  show "resolve_inactive n a c s = (Inr (), snd ?m)" 
    unfolding m by (rule prod_eqI) (simp_all only: fst_conv snd_conv send_loop)
  show "nd_events (snd ?m) = resolved n a c s" "nd_tickets (snd ?m) = nd_tickets s"
    by (simp_all only: send_loop) simp_all
  show "\<And>m. in_window m a c (snd ?m) = in_window m a c s" by (simp only: send_loop_window) (simp add: in_window_def)
qed

lemma evaluate_runE:
  assumes "evaluate_rules num w a c x s = (Inr (), t)"
  obtains s1 where "nd_events s1 = (if sn_status x = ''ONLINE'' then resolved (now w) a c s else nd_events s)"
    "nd_tickets s1 = nd_tickets s"
    "(if filter (rule_matches x) (asset_rules a c s) = [] \<or> in_window (now w) a c s then (Inr (), s1)
      else forE (enumerate 0 (filter (rule_matches x) (asset_rules a c s))) (raise_alert num w a c x) s1) = (Inr (), t)"
proof (cases "sn_status x = ''ONLINE''")
  case True
  obtain s1 where s1: "resolve_inactive (now w) a c s = (Inr (), s1)" "nd_events s1 = resolved (now w) a c s"
    "nd_tickets s1 = nd_tickets s" "\<And>m. in_window m a c s1 = in_window m a c s" by (rule resolve_run) blast
  show ?thesis
    by (rule that[of s1]) (use assms True s1 in \<open>auto simp: evaluate_rules_def fail_res_def act_simps split: sum.splits if_splits\<close>)
next
  case False
  show ?thesis
    by (rule that[of s]) (use assms False in \<open>auto simp: evaluate_rules_def fail_res_def act_simps split: sum.splits if_splits\<close>)
qed

lemma not_open_resolved [simp]: "\<not> open_event (e\<lparr>ev_status := ''RESOLVED'', ev_resolvedAt := z\<rparr>)"
  by (simp add: open_event_def)

lemma resolved_closed: "e \<in> set (resolved t a c s) \<Longrightarrow> open_event e \<Longrightarrow> \<not> (ev_assetId e = a \<and> ev_companyId e = c)"
proof
  assume e: "e \<in> set (resolved t a c s)" "open_event e" "ev_assetId e = a \<and> ev_companyId e = c"
  from e(1) obtain x where "e = (if ev_assetId x = a \<and> ev_companyId x = c \<and> open_event x
     then x\<lparr>ev_status := ''RESOLVED'', ev_resolvedAt := Some t\<rparr> else x)"
    unfolding resolved_def set_map by blast
  then have "e = x\<lparr>ev_status := ''RESOLVED'', ev_resolvedAt := Some t\<rparr> \<or> e = x \<and> \<not> (ev_assetId x = a \<and> ev_companyId x = c \<and> open_event x)"
    by presburger
  with e(2,3) show False by (elim disjE) simp_all
qed

lemma resolved_ids: "map ev_id (resolved t a c s) = map ev_id (nd_events s)"
  by (simp add: resolved_def)

lemma open_for_Some: "open_for a c r s \<noteq> None \<longleftrightarrow>
    (\<exists>e \<in> set (nd_events s). open_event e \<and> ev_assetId e = a \<and> ev_companyId e = c \<and> ev_ruleId e = r)"
  unfolding open_for_None by (auto simp: event_key_def)

lemma ping_evaluatesE:
  assumes "run_ping_check num w a c p s = (Inr x, s')"
  obtains s1 where "nd_events s1 = (if sn_status x = ''ONLINE'' then resolved (now w) a c (after_check w a x s) else nd_events s)"
    "map ev_id (nd_events s1) = map ev_id (nd_events s)"
    "grown a c (filter (rule_matches x) (asset_rules a c s)) (nd_events s1) (nd_events s')"
    "(if filter (rule_matches x) (asset_rules a c s) = [] \<or> in_window (now w) a c s then (Inr (), s1)
      else forE (enumerate 0 (filter (rule_matches x) (asset_rules a c s))) (raise_alert num w a c x) s1) = (Inr (), s')"
proof -
  let ?s = "after_check w a x s" and ?m = "filter (rule_matches x) (asset_rules a c s)"
  from assms have "evaluate_rules num w a c x ?s = (Inr (), s')" by (rule ping_runE)
  then obtain s1 where s1: "nd_events s1 = (if sn_status x = ''ONLINE'' then resolved (now w) a c ?s else nd_events ?s)"
    and run': "(if filter (rule_matches x) (asset_rules a c ?s) = [] \<or> in_window (now w) a c ?s then (Inr (), s1)
      else forE (enumerate 0 (filter (rule_matches x) (asset_rules a c ?s))) (raise_alert num w a c x) s1) = (Inr (), s')"
    by (rule evaluate_runE)
  from run' have run: "(if ?m = [] \<or> in_window (now w) a c s then (Inr (), s1)
      else forE (enumerate 0 ?m) (raise_alert num w a c x) s1) = (Inr (), s')"
    unfolding after_check_fields .
  have grow: "grown a c ?m (nd_events s1) (nd_events s')"
  proof (cases "?m = [] \<or> in_window (now w) a c s")
    case True
    with run have "s' = s1" by simp
    then show ?thesis by (simp add: grown_def)
  next
    case False
    with run have "forE (enumerate 0 ?m) (raise_alert num w a c x) s1 = (Inr (), s')" by simp
    with loop_grown[of a c ?m s1 0 num w x] show ?thesis by simp
  qed
  show ?thesis
    by (rule that[OF _ _ grow run]) (use s1 resolved_ids[of "now w" a c ?s] in simp_all)
qed

lemma ping_opens:
  assumes "run_ping_check num w a c p s = (Inr x, s')"
    and r: "\<not> in_window (now w) a c s" "r \<in> set (asset_rules a c s)" "rule_matches x r"
  shows "\<exists>e \<in> set (nd_events s'). open_event e \<and> ev_assetId e = a \<and> ev_companyId e = c \<and> ev_ruleId e = ru_id r"
proof -
  let ?m = "filter (rule_matches x) (asset_rules a c s)"
  from assms(1) obtain s1 where s1: "nd_events s1 = (if sn_status x = ''ONLINE'' then resolved (now w) a c (after_check w a x s) else nd_events s)"
    and ids: "map ev_id (nd_events s1) = map ev_id (nd_events s)"
    and grow: "grown a c (filter (rule_matches x) (asset_rules a c s)) (nd_events s1) (nd_events s')"
    and run: "(if filter (rule_matches x) (asset_rules a c s) = [] \<or> in_window (now w) a c s then (Inr (), s1)
      else forE (enumerate 0 (filter (rule_matches x) (asset_rules a c s))) (raise_alert num w a c x) s1) = (Inr (), s')"
    by (rule ping_evaluatesE)
  from r have m: "r \<in> set ?m" by simp
  then have "?m \<noteq> []" by (metis empty_iff list.set(1))
  with run r(1) have "forE (enumerate 0 ?m) (raise_alert num w a c x) s1 = (Inr (), s')" by simp
  from loop_opens[OF this m] show ?thesis unfolding open_for_Some .
qed

lemma ping_recovers:
  assumes "run_ping_check num w a c p s = (Inr x, s')" and on: "sn_status x = ''ONLINE''"
    and e: "e \<in> set (nd_events s')" "open_event e" "ev_assetId e = a" "ev_companyId e = c"
  shows "ev_id e \<notin> ev_id ` set (nd_events s) \<and> (\<exists>r \<in> set (asset_rules a c s). ev_ruleId e = ru_id r \<and> rule_matches x r)"
proof -
  let ?m = "filter (rule_matches x) (asset_rules a c s)"
  from assms(1) obtain s1 where s1: "nd_events s1 = (if sn_status x = ''ONLINE'' then resolved (now w) a c (after_check w a x s) else nd_events s)"
    and ids: "map ev_id (nd_events s1) = map ev_id (nd_events s)"
    and grow: "grown a c (filter (rule_matches x) (asset_rules a c s)) (nd_events s1) (nd_events s')"
    and run: "(if filter (rule_matches x) (asset_rules a c s) = [] \<or> in_window (now w) a c s then (Inr (), s1)
      else forE (enumerate 0 (filter (rule_matches x) (asset_rules a c s))) (raise_alert num w a c x) s1) = (Inr (), s')"
    by (rule ping_evaluatesE)
  from grow obtain ns where ns: "nd_events s' = nd_events s1 @ ns"
    "\<forall>e \<in> set ns. ev_id e \<notin> ev_id ` set (nd_events s1) \<and> (\<exists>r \<in> set ?m. ev_ruleId e = ru_id r)"
    unfolding grown_def by blast
  have "e \<notin> set (nd_events s1)" using resolved_closed e(2-4) on s1 by simp blast
  with e(1) ns(1) have "e \<in> set ns" by simp
  moreover have "ev_id ` set (nd_events s1) = ev_id ` set (nd_events s)" using arg_cong[OF ids, of set] by simp
  ultimately show ?thesis using ns(2) by auto
qed

lemma ping_quiet:
  assumes "run_ping_check num w a c p s = (Inr x, s')" and "in_window (now w) a c s"
  shows "map ev_id (nd_events s') = map ev_id (nd_events s)"
proof -
  from assms(1) obtain s1 where s1: "nd_events s1 = (if sn_status x = ''ONLINE'' then resolved (now w) a c (after_check w a x s) else nd_events s)"
    and ids: "map ev_id (nd_events s1) = map ev_id (nd_events s)"
    and grow: "grown a c (filter (rule_matches x) (asset_rules a c s)) (nd_events s1) (nd_events s')"
    and run: "(if filter (rule_matches x) (asset_rules a c s) = [] \<or> in_window (now w) a c s then (Inr (), s1)
      else forE (enumerate 0 (filter (rule_matches x) (asset_rules a c s))) (raise_alert num w a c x) s1) = (Inr (), s')"
    by (rule ping_evaluatesE)
  from run assms(2) ids show ?thesis by simp
qed

lemma ping_resolves:
  assumes "run_ping_check num w a c p s = (Inr x, s')" and "sn_status x = ''ONLINE''"
    and e: "e \<in> set (nd_events s)" "open_event e" "ev_assetId e = a" "ev_companyId e = c"
  shows "e\<lparr>ev_status := ''RESOLVED'', ev_resolvedAt := Some (now w)\<rparr> \<in> set (nd_events s')"
proof -
  from assms(1) obtain s1 where s1: "nd_events s1 = (if sn_status x = ''ONLINE'' then resolved (now w) a c (after_check w a x s) else nd_events s)"
    and ids: "map ev_id (nd_events s1) = map ev_id (nd_events s)"
    and grow: "grown a c (filter (rule_matches x) (asset_rules a c s)) (nd_events s1) (nd_events s')"
    and run: "(if filter (rule_matches x) (asset_rules a c s) = [] \<or> in_window (now w) a c s then (Inr (), s1)
      else forE (enumerate 0 (filter (rule_matches x) (asset_rules a c s))) (raise_alert num w a c x) s1) = (Inr (), s')"
    by (rule ping_evaluatesE)
  from s1 assms(2) have "nd_events s1 = resolved (now w) a c (after_check w a x s)" by simp
  moreover have "e\<lparr>ev_status := ''RESOLVED'', ev_resolvedAt := Some (now w)\<rparr> \<in> set (resolved (now w) a c (after_check w a x s))"
    unfolding resolved_def set_map using e by (intro image_eqI[of _ _ e]) simp_all
  ultimately show ?thesis using grow by (auto simp: grown_def)
qed

text \<open>
  Outage, recovery and maintenance. After a ping check that returns, outside a maintenance
  window every rule of the device that matches the measurement has an open event; after an
  answered ping the device's only open events are new ones of rules that match the answer;
  and inside a maintenance window no event is created.
\<close>
theorem outage_and_recovery:
  assumes "run_ping_check num w a c p s = (Inr x, s')"
  shows "(\<not> in_window (now w) a c s \<longrightarrow> (\<forall>r \<in> set (asset_rules a c s). rule_matches x r \<longrightarrow>
            (\<exists>e \<in> set (nd_events s'). open_event e \<and> ev_assetId e = a \<and> ev_companyId e = c \<and> ev_ruleId e = ru_id r)))
    \<and> (sn_status x = ''ONLINE'' \<longrightarrow> (\<forall>e \<in> set (nd_events s'). open_event e \<and> ev_assetId e = a \<and> ev_companyId e = c \<longrightarrow>
            ev_id e \<notin> ev_id ` set (nd_events s)
            \<and> (\<exists>r \<in> set (asset_rules a c s). ev_ruleId e = ru_id r \<and> rule_matches x r)))
    \<and> (in_window (now w) a c s \<longrightarrow> map ev_id (nd_events s') = map ev_id (nd_events s))"
  using ping_opens[OF assms] ping_recovers[OF assms] ping_quiet[OF assms] by blast

section \<open>Shortcomings\<close>

text \<open>
  A threshold rule on a device that answers raises a fresh alert at every check. When the
  device answers but a rule (say on latency) matches and its event is already open, the
  check resolves that event and opens another for the same rule, with its notifications.
\<close>
theorem answered_check_reopens_alert:
  assumes "run_ping_check num w a c p s = (Inr x, s')" and "sn_status x = ''ONLINE''"
    and "r \<in> set (asset_rules a c s)" "rule_matches x r" "\<not> in_window (now w) a c s"
    and "e \<in> set (nd_events s)" "open_event e" "ev_assetId e = a" "ev_companyId e = c" "ev_ruleId e = ru_id r"
  shows "(\<exists>e' \<in> set (nd_events s'). ev_id e' = ev_id e \<and> ev_status e' = ''RESOLVED'')
    \<and> (\<exists>e' \<in> set (nd_events s'). ev_id e' \<notin> ev_id ` set (nd_events s) \<and> open_event e'
         \<and> ev_assetId e' = a \<and> ev_companyId e' = c \<and> ev_ruleId e' = ru_id r)"
proof -
  from ping_opens[OF assms(1,5,3,4)] obtain e' where e': "e' \<in> set (nd_events s')" "open_event e'" "ev_assetId e' = a"
    "ev_companyId e' = c" "ev_ruleId e' = ru_id r" by blast
  from ping_recovers[OF assms(1,2) e'(1-4)] have "ev_id e' \<notin> ev_id ` set (nd_events s)" by blast
  moreover have "\<exists>e' \<in> set (nd_events s'). ev_id e' = ev_id e \<and> ev_status e' = ''RESOLVED''"
    by (rule bexI[OF _ ping_resolves[OF assms(1,2,6-9)]]) simp
  ultimately show ?thesis using e' by blast
qed

text \<open>
  Rules on processor or memory load do not look at the device. Every snapshot that is
  evaluated comes from a ping, which measures neither, and the missing value counts as 0: such
  a rule matches the same, always or never, whatever device, time and outcome.
\<close>
theorem load_rules_ignore_device:
  assumes "ru_metric r \<in> {''cpu_pct'', ''memory_pct''}"
  shows "rule_matches (ping_snapshot w a c p) r \<longleftrightarrow> ru_enabled r \<and> compare_number (Some 0) (ru_operator r) (rule_threshold r)"
  using assms by (auto simp: rule_matches_def ping_snapshot_def compare_number_def split: ping.splits)

text \<open>
  A taken ticket number silences the alert. The number of an alert's ticket is the
  company's ticket count plus one behind the first four letters of the company's id, tried
  once. When another ticket, of whatever company, has it, the check fails with the database's
  duplicate error: the measurement is stored, but no event is, and nobody is told.
\<close>
theorem taken_number_silences_alert:
  assumes d: "find_device a c s = Inr d" "truthy (dv_ip d)" "uuid w 0 \<notin> sn_id ` set (nd_snapshots s)"
    and r: "filter (rule_matches (ping_snapshot w a c (Silent m))) (asset_rules a c s) = [r]" "\<not> in_window (now w) a c s"
      "open_for a c (ru_id r) s = None"
    and t: "alert_ticket d r s = None" "alert_creator c s = Some u" "alert_number c s \<in> t_number ` set (nd_tickets s)"
  shows "run_ping_check num w a c (Silent m) s = (Inl duplicate, after_check w a (ping_snapshot w a c (Silent m)) s)"
proof -
  let ?x = "ping_snapshot w a c (Silent m)"
  let ?s = "after_check w a ?x s" and ?d = "ping_compliance (now w) ?x d"
  have x: "sn_status ?x = ''OFFLINE''" "sn_id ?x = uuid w 0" by (simp_all add: ping_snapshot_def)
  have dc: "dv_companyId d = c" using d(1) by (auto simp: find_device_def split: option.splits dest: find_SomeD)
  note dev = after_check_device[OF d(1), of w ?x]
  have old: "alert_ticket ?d r ?s = None" using t(1) by (simp add: alert_ticket_def)
  have creator: "alert_creator c ?s = Some u" using t(2) by (simp add: alert_creator_def)
  have number: "alert_number c ?s = alert_number c s" by (simp add: alert_number_def)
  have taken: "list_ex (\<lambda>t. t_number t = alert_number c ?s \<or> t_id t = i) (nd_tickets ?s)" for i
    using t(3) by (auto simp: number list_ex_iff)
  have "create_alert_ticket w k ?d r details ?s = (Inl duplicate, ?s)" for k details
    using old creator taken by (simp add: create_alert_ticket_def act_simps dc)
  then have "create_alert_event num w k a c r ?x ?s = (Inl duplicate, ?s)" for k
    unfolding create_alert_event_def Let_def by (simp add: fail_res_def act_simps dev)
  then have "raise_alert num w a c ?x (k, r) ?s = (Inl duplicate, ?s)" for k
    using r(3) by (simp add: raise_alert_def act_simps)
  then have "evaluate_rules num w a c ?x ?s = (Inl duplicate, ?s)"
    using r(1,2) x(1) by (simp add: evaluate_rules_def fail_res_def act_simps dev)
  then show ?thesis
    using d x(2) unfolding run_ping_check_def Let_def
    by (simp add: fail_res_def act_simps) (simp add: after_check_def)
qed

section \<open>Witnesses\<close>

definition n_world :: "string \<Rightarrow> int \<Rightarrow> world" where
  "n_world k t = \<lparr>now = t, uuid = (\<lambda>i. k @ replicate i (CHR ''i''))\<rparr>"

definition n_device :: device where
  "n_device = \<lparr>dv_id = ''d1'', dv_companyId = ''abcd1'', dv_name = ''Switch'', dv_ip = Some ''10.0.0.1'',
     dv_category = Some ''NETWORK_DEVICE'', dv_location = None, dv_deletedAt = None, dv_compliance = None, dv_reasons = None,
     dv_checkIn = None, dv_enrollment = None, dv_mdmId = None, dv_tokenHash = None, dv_lost = False, dv_policy = None\<rparr>"

definition n_rule :: "string \<Rightarrow> alert_rule" where
  "n_rule metric = \<lparr>ru_id = ''r1'', ru_companyId = ''abcd1'', ru_assetId = None, ru_name = ''Rule'', ru_metric = metric,
     ru_operator = Some ''GT'', ru_threshold = Some ''5'', ru_durationSec = 300, ru_severity = ''WARNING'', ru_enabled = True,
     ru_notifyEmail = None, ru_createdAt = 0\<rparr>"

definition n_event :: alert_event where
  "n_event = \<lparr>ev_id = ''e0'', ev_companyId = ''abcd1'', ev_assetId = ''d1'', ev_ruleId = ''r1'', ev_snapshotId = None,
     ev_ticketId = None, ev_status = ''ACTIVE'', ev_title = ''t'', ev_details = ''d'', ev_triggeredAt = 0, ev_resolvedAt = None\<rparr>"

definition n_person :: person where
  "n_person = \<lparr>u_id = ''u1'', u_email = ''u@x'', u_firstName = ''N'', u_lastName = ''L'', u_phone = None, u_location = None,
     u_role = ''TENANT_ADMIN'', u_userType = ''BUSINESS'', u_companyId = Some ''abcd1'', u_isActive = True, u_deletedAt = None\<rparr>"

definition n_db :: "string \<Rightarrow> net_db" where
  "n_db metric = \<lparr>nd_devices = [n_device], nd_rules = [n_rule metric], nd_snapshots = [], nd_events = [], nd_windows = [],
     nd_configs = [], nd_syslog = [], nd_tickets = [], nd_people = [n_person], nd_notices = [], nd_mails = [], nd_retention = []\<rparr>"

definition n_slow :: ping where "n_slow = Reply (Some 9) None 10"

lemma n_outage: "fst (run_ping_check (\<lambda>_. []) (n_world ''k'' 7) ''d1'' ''abcd1'' (Silent None) (n_db ''offline''))
   = Inr (ping_snapshot (n_world ''k'' 7) ''d1'' ''abcd1'' (Silent None))"
  by code_simp

lemma n_matches:
  "rule_matches (ping_snapshot (n_world ''k'' 7) ''d1'' ''abcd1'' (Silent None)) (n_rule ''offline'')"
  "rule_matches (ping_snapshot (n_world ''k'' 7) ''d1'' ''abcd1'' n_slow) (n_rule ''latency_ms'')"
  by code_simp+

lemma n_rules: "asset_rules ''d1'' ''abcd1'' (n_db m) = [n_rule m]" "asset_rules ''d1'' ''abcd1'' ((n_db m)\<lparr>nd_events := es\<rparr>) = [n_rule m]"
  "asset_rules ''d1'' ''abcd1'' ((n_db m)\<lparr>nd_tickets := ts\<rparr>) = [n_rule m]"
  by (simp_all add: asset_rules_def n_db_def n_rule_def)

lemma n_open: "\<not> in_window t ''d1'' ''abcd1'' (n_db m)" "\<not> in_window t ''d1'' ''abcd1'' ((n_db m)\<lparr>nd_events := es\<rparr>)"
  "\<not> in_window t ''d1'' ''abcd1'' ((n_db m)\<lparr>nd_tickets := ts\<rparr>)"
  by (simp_all add: in_window_def n_db_def)

theorem outage_and_recovery_witness:
  "\<exists>e \<in> set (nd_events (snd (run_ping_check (\<lambda>_. []) (n_world ''k'' 7) ''d1'' ''abcd1'' (Silent None) (n_db ''offline'')))).
     open_event e \<and> ev_ruleId e = ''r1''"
proof -
  let ?m = "run_ping_check (\<lambda>_. []) (n_world ''k'' 7) ''d1'' ''abcd1'' (Silent None) (n_db ''offline'')"
  have "?m = (Inr (ping_snapshot (n_world ''k'' 7) ''d1'' ''abcd1'' (Silent None)), snd ?m)"
    by (rule prod_eqI) (simp_all only: n_outage fst_conv snd_conv)
  from outage_and_recovery[OF this] n_matches(1) n_open(1) n_rules(1)[of "''offline''"]
  show ?thesis by (auto simp: n_rule_def)
qed

lemma n_answer: "fst (run_ping_check (\<lambda>_. []) (n_world ''k'' 7) ''d1'' ''abcd1'' n_slow ((n_db ''latency_ms'')\<lparr>nd_events := [n_event]\<rparr>))
   = Inr (ping_snapshot (n_world ''k'' 7) ''d1'' ''abcd1'' n_slow)"
  by code_simp

theorem answered_check_reopens_alert_witness:
  "\<exists>e \<in> set (nd_events (snd (run_ping_check (\<lambda>_. []) (n_world ''k'' 7) ''d1'' ''abcd1'' n_slow
     ((n_db ''latency_ms'')\<lparr>nd_events := [n_event]\<rparr>)))). ev_id e \<noteq> ''e0'' \<and> open_event e \<and> ev_ruleId e = ''r1''"
proof -
  let ?s = "(n_db ''latency_ms'')\<lparr>nd_events := [n_event]\<rparr>"
  let ?m = "run_ping_check (\<lambda>_. []) (n_world ''k'' 7) ''d1'' ''abcd1'' n_slow ?s"
  have m: "?m = (Inr (ping_snapshot (n_world ''k'' 7) ''d1'' ''abcd1'' n_slow), snd ?m)"
    by (rule prod_eqI) (simp_all only: n_answer fst_conv snd_conv)
  have on: "sn_status (ping_snapshot (n_world ''k'' 7) ''d1'' ''abcd1'' n_slow) = ''ONLINE''"
    by (simp add: ping_snapshot_def n_slow_def)
  have "n_rule ''latency_ms'' \<in> set (asset_rules ''d1'' ''abcd1'' ?s)" by (simp add: n_rules)
  moreover have "n_event \<in> set (nd_events ?s)" "open_event n_event" "ev_assetId n_event = ''d1''" "ev_companyId n_event = ''abcd1''"
    "ev_ruleId n_event = ru_id (n_rule ''latency_ms'')"
    by (simp_all add: n_event_def open_event_def n_rule_def)
  moreover note n_matches(2) n_open(2)
  ultimately show ?thesis
    using answered_check_reopens_alert[OF m on] by (force simp: n_event_def n_rule_def)
qed

definition n_taken :: net_db where
  "n_taken = (n_db ''offline'')\<lparr>nd_tickets := [(new_alert_ticket (n_world ''k'' 7) 0 n_device (n_rule ''offline'') [] n_person
     (n_db ''offline''))\<lparr>t_companyId := Some ''other''\<rparr>]\<rparr>"

theorem taken_number_silences_alert_witness:
  "fst (run_ping_check (\<lambda>_. []) (n_world ''z'' 9) ''d1'' ''abcd1'' (Silent None) n_taken) = Inl duplicate"
proof -
  have d: "find_device ''d1'' ''abcd1'' n_taken = Inr n_device" by (simp add: find_device_def n_taken_def n_db_def n_device_def)
  have r: "filter (rule_matches (ping_snapshot (n_world ''z'' 9) ''d1'' ''abcd1'' (Silent None))) (asset_rules ''d1'' ''abcd1'' n_taken)
      = [n_rule ''offline'']"
    unfolding n_taken_def n_rules by (simp add: rule_matches_def n_rule_def ping_snapshot_def)
  have w: "\<not> in_window (now (n_world ''z'' 9)) ''d1'' ''abcd1'' n_taken" unfolding n_taken_def by (rule n_open)
  have o: "open_for ''d1'' ''abcd1'' (ru_id (n_rule ''offline'')) n_taken = None"
    by (simp add: open_for_def n_taken_def n_db_def)
  have t: "alert_ticket n_device (n_rule ''offline'') n_taken = None" "alert_creator ''abcd1'' n_taken = Some n_person"
    by (simp_all add: alert_ticket_def alert_creator_def n_taken_def n_db_def n_device_def n_person_def)
  have n: "alert_number ''abcd1'' n_taken \<in> t_number ` set (nd_tickets n_taken)"
    by (simp add: n_taken_def new_alert_ticket_def alert_number_def n_db_def n_device_def)
  have "truthy (dv_ip n_device)" "uuid (n_world ''z'' 9) 0 \<notin> sn_id ` set (nd_snapshots n_taken)"
    by (simp_all add: n_device_def n_taken_def n_db_def)
  from taken_number_silences_alert[OF d this r w o t n] show ?thesis by simp
qed

theorem load_rules_ignore_device_witness:
  "\<not> rule_matches (ping_snapshot (n_world ''k'' 7) ''d1'' ''abcd1'' n_slow) (n_rule ''cpu_pct'')"
proof -
  have "\<not> compare_number (Some 0) (ru_operator (n_rule ''cpu_pct'')) (rule_threshold (n_rule ''cpu_pct''))" by code_simp
  moreover have "ru_metric (n_rule ''cpu_pct'') \<in> {''cpu_pct'', ''memory_pct''}" by (simp add: n_rule_def)
  ultimately show ?thesis using load_rules_ignore_device by blast
qed

theorem reopened_alert_duplicates_witness:
  "2 \<le> length (filter (\<lambda>x. open_event x \<and> event_key x = event_key n_event) (nd_events (snd (update_event 9 ''abcd1'' ''e0'' ''active''
     ((n_db ''offline'')\<lparr>nd_events := [n_event\<lparr>ev_status := ''RESOLVED'', ev_resolvedAt := Some 5\<rparr>, n_event\<lparr>ev_id := ''e1''\<rparr>]\<rparr>)))))"
proof -
  let ?e = "n_event\<lparr>ev_status := ''RESOLVED'', ev_resolvedAt := Some 5\<rparr>" and ?e' = "n_event\<lparr>ev_id := ''e1''\<rparr>"
  have "js_upper ''active'' \<in> {''ACTIVE'', ''ACKNOWLEDGED''}" by code_simp
  from reopened_alert_duplicates[of ?e "(n_db ''offline'')\<lparr>nd_events := [?e, ?e']\<rparr>" ?e', OF _ _ _ _ _ this]
  show ?thesis by (simp add: n_event_def open_event_def event_key_def)
qed

theorem one_open_alert_witness:
  "length (filter (\<lambda>e. open_event e \<and> ev_assetId e = ''d1'' \<and> ev_companyId e = ''abcd1'' \<and> ev_ruleId e = ''r1'')
     (nd_events (snd (run_ping_check (\<lambda>_. []) (n_world ''k'' 7) ''d1'' ''abcd1'' (Silent None) (n_db ''offline''))))) \<le> 1"
proof (rule one_open_alert)
  show "(\<lambda>s t. monitor_step s t \<and> \<not> reopens s t)\<^sup>*\<^sup>* (n_db ''offline'') (snd (run_ping_check (\<lambda>_. []) (n_world ''k'' 7) ''d1'' ''abcd1'' (Silent None) (n_db ''offline'')))"
    by (rule r_into_rtranclp) (simp add: step_ping reopens_def n_db_def)
qed (simp add: n_db_def)

end
