(* ===== verification/Devices_Props.thy ===== *)
theory Devices_Props
  imports Devices Monitoring_Props
begin

text \<open>
  Properties of remote control: disruptive actions take a second administrator, an enrolment
  token is used once and its device authenticates, and what a check-in can overwrite.
\<close>

section \<open>The machine\<close>

datatype fleet_call =
    FQueue world string string "string option" "string option"
  | FDecide principal string bool "string option"
  | FExecute "(net_action \<Rightarrow> string + string) option" int string string string
  | FToken crypto auth_world string token_dto
  | FEnrol crypto world enrol_dto
  | FCheckIn crypto int string string checkin_dto
  | FCommand world string "string option" "string option" string "string option"
  | FComplete crypto int string string bool string

fun fleet_step :: "fleet_call \<Rightarrow> fleet \<Rightarrow> fleet" where
  "fleet_step (FQueue w a c x r) s = snd (queue_action w a c x r s)"
| "fleet_step (FDecide u i b n) s = snd (decide_action u i b n s)"
| "fleet_step (FExecute v t a i c) s = snd (execute_action v t a i c s)"
| "fleet_step (FToken cr w c d) s = snd (create_enrol_token cr w c d s)"
| "fleet_step (FEnrol cr w d) s = snd (enrol cr w d s)"
| "fleet_step (FCheckIn cr t a k d) s = snd (check_in cr t a k d s)"
| "fleet_step (FCommand w i x p c r) s = snd (run_device_action w i x p c r s)"
| "fleet_step (FComplete cr t i k b x) s = snd (complete_command cr t i k b x s)"

section \<open>Four eyes\<close>

definition ok_action :: "net_action \<Rightarrow> bool" where
  "ok_action a \<longleftrightarrow>
     na_approval a \<in> {''PENDING'', ''APPROVED'', ''REJECTED'', ''NOT_REQUIRED''}
     \<and> (na_action a \<in> set DISRUPTIVE_ACTIONS \<longrightarrow> na_approval a \<noteq> ''NOT_REQUIRED'')
     \<and> (na_approval a = ''APPROVED'' \<longrightarrow> na_approvedBy a \<noteq> None \<and> na_approvedBy a \<noteq> na_requestedBy a)
     \<and> (na_approval a = ''PENDING'' \<longleftrightarrow> na_status a = ''PENDING_APPROVAL'')
     \<and> (na_approval a = ''REJECTED'' \<longleftrightarrow> na_status a = ''REJECTED'')"

definition four_eyes :: "fleet \<Rightarrow> bool" where
  "four_eyes s \<longleftrightarrow> fl_approval s \<and> distinct (map na_id (fl_actions s)) \<and> (\<forall>a \<in> set (fl_actions s). ok_action a)"

lemma four_eyes_other: "(\<And>s. fl_actions (f s) = fl_actions s \<and> fl_approval (f s) = fl_approval s) \<Longrightarrow> keeps four_eyes (writes f)"
  by (rule keeps_writes) (simp add: four_eyes_def)

lemma keeps_of_fleet [keeps_intros]: "keeps I (of_fleet f)"
  unfolding of_fleet_def by (intro keeps_intros)

lemma four_eyes_queue: "keeps four_eyes (queue_action w a c x r)"
proof (rule keepsI)
  fix s assume i: "four_eyes s"
  have n: "\<not> [] \<in> set DISRUPTIVE_ACTIONS" by (simp add: DISRUPTIVE_ACTIONS_def)
  show "four_eyes (snd (queue_action w a c x r s))"
  proof (cases "fleet_device a c s")
    case (Inl e)
    with i show ?thesis unfolding queue_action_def Let_def by (simp add: of_fleet_def act_simps)
  next
    case (Inr d)
    with i show ?thesis unfolding queue_action_def Let_def
      by (auto simp: of_fleet_def act_simps four_eyes_def ok_action_def)
  qed
qed

lemma set_action_four_eyes:
  assumes i: "four_eyes s" and a: "a \<in> set (fl_actions s)" "\<And>x. hit x \<Longrightarrow> na_id x = na_id a"
    and f: "\<And>x. na_id (f x) = na_id x" "hit a \<Longrightarrow> ok_action a \<Longrightarrow> ok_action (f a)"
  shows "four_eyes (snd (set_action hit f s))"
proof -
  have same: "x = a" if "x \<in> set (fl_actions s)" "hit x" for x
    using i a that by (auto simp: four_eyes_def distinct_map inj_on_def)
  have "ok_action (if hit x then f x else x)" if x: "x \<in> set (fl_actions s)" for x
    using i x same[OF x] f(2) by (auto simp: four_eyes_def)
  moreover have "map na_id (map (\<lambda>x. if hit x then f x else x) (fl_actions s)) = map na_id (fl_actions s)"
    using f(1) by simp
  moreover have "fl_actions (s\<lparr>fl_actions := as\<rparr>) = as" "fl_approval (s\<lparr>fl_actions := as\<rparr>) = fl_approval s" for as
    by simp_all
  ultimately show ?thesis
    using i unfolding set_action_def writes_eval snd_conv four_eyes_def by (simp only: set_map ball_simps) blast
qed

lemma four_eyes_decide: "keeps four_eyes (decide_action u i b n)"
proof (rule keepsI)
  fix s assume inv: "four_eyes s"
  show "four_eyes (snd (decide_action u i b n s))"
  proof (cases "find (\<lambda>a. na_id a = i) (fl_actions s)")
    case None
    with inv show ?thesis by (simp add: decide_action_def of_fleet_def act_simps)
  next
    case (Some a)
    then have a: "a \<in> set (fl_actions s)" "na_id a = i" by (auto dest: find_SomeD)
    have "four_eyes (snd (set_action (\<lambda>x. na_id x = i \<and> na_companyId x = na_companyId a) f s))"
      if "\<And>x. na_id (f x) = na_id x" "ok_action a \<Longrightarrow> ok_action (f a)" for f
      by (rule set_action_four_eyes[OF inv a(1)]) (use a that in auto)
    note step = this
    show ?thesis
      using inv Some
      by (auto simp: decide_action_def of_fleet_def act_simps intro!: step) (auto simp: ok_action_def)
  qed
qed

lemma four_eyes_execute: "keeps four_eyes (execute_action v t a i c)"
proof (rule keepsI)
  fix s assume inv: "four_eyes s"
  show "four_eyes (snd (execute_action v t a i c s))"
  proof (cases "find (\<lambda>x. na_id x = i \<and> na_assetId x = a \<and> na_companyId x = c) (fl_actions s)")
    case None
    with inv show ?thesis by (simp add: execute_action_def of_fleet_def act_simps)
  next
    case (Some x)
    then have x: "x \<in> set (fl_actions s)" "na_id x = i" by (auto dest: find_SomeD)
    show ?thesis
    proof (cases "na_status x = ''QUEUED''")
      case False
      with inv Some show ?thesis by (auto simp: execute_action_def of_fleet_def act_simps)
    next
      case True
      have "four_eyes (snd (set_action (\<lambda>y. na_id y = i \<and> na_companyId y = c) f s))"
        if "\<And>y. na_id (f y) = na_id y" "ok_action x \<Longrightarrow> ok_action (f x)" for f
        by (rule set_action_four_eyes[OF inv x(1)]) (use x that in auto)
      note step = this
      show ?thesis
        using inv Some True
        by (auto simp: execute_action_def of_fleet_def act_simps intro!: step split: sum.split) (auto simp: ok_action_def)
    qed
  qed
qed

lemma four_eyes_others:
  "keeps four_eyes (create_enrol_token cr aw c d)" "keeps four_eyes (enrol cr w e)"
  "keeps four_eyes (check_in cr t a k ci)" "keeps four_eyes (run_device_action w i x p c r)"
  "keeps four_eyes (complete_command cr t i k b y)"
  unfolding create_enrol_token_def enrol_def check_in_def run_device_action_def complete_command_def Let_def
  by (intro keeps_intros four_eyes_other; simp)+

lemmas four_eyes_calls = four_eyes_queue four_eyes_decide four_eyes_execute four_eyes_others

interpretation remote_control: guarded_machine any_call fleet_step four_eyes
proof
  fix c s assume "four_eyes s"
  then show "four_eyes (fleet_step c s)"
    by (cases c) (simp_all add: four_eyes_calls[unfolded keeps_def])
qed

text \<open>
  C12. A disruptive action takes two people. Under the approval policy and starting without
  actions, after any calls by anyone a restart, a disabled port or a power cycle that was
  executed, or waits to be executed, was approved by a user other than the one who asked for
  it, and a rejected one is not among them.
\<close>
theorem disruptive_action_takes_two:
  assumes "reachable_by any_call fleet_step s0 s" and "fl_approval s0" "fl_actions s0 = []"
    and "a \<in> set (fl_actions s)" "na_action a \<in> set DISRUPTIVE_ACTIONS" "na_status a \<notin> {''PENDING_APPROVAL'', ''REJECTED''}"
  shows "na_approval a = ''APPROVED'' \<and> (\<exists>b. na_approvedBy a = Some b \<and> na_requestedBy a \<noteq> Some b)"
proof -
  have "four_eyes s0" using assms(2,3) by (simp add: four_eyes_def)
  then have "four_eyes s" using remote_control.reachable_inv[OF assms(1)] by blast
  with assms(4) have "ok_action a" by (simp add: four_eyes_def)
  with assms(5,6) show ?thesis by (auto simp: ok_action_def)
qed

section \<open>Enrolment\<close>

lemma find_append_None: "find P xs = None \<Longrightarrow> find P (xs @ [y]) = (if P y then Some y else None)"
  by (induction xs) auto

lemma find_append_skip: "(\<And>x. x \<in> set xs \<Longrightarrow> \<not> P x) \<Longrightarrow> P y \<Longrightarrow> find P (xs @ [y]) = Some y"
  by (induction xs) auto

text \<open>
  An enrolment works once and its device authenticates. When an enrolment succeeds, the
  token was unused and unexpired; the new device belongs to the token's company and presents
  itself with the returned credential, of which only a hash is stored; and a second enrolment
  with the same token, at any time, is refused, if no other stored token answers to it.
\<close>
theorem enrolment_once:
  assumes e: "enrol cr w d s = (Inr (i, k), s')"
    and one: "\<forall>x \<in> set (fl_tokens s). \<forall>y \<in> set (fl_tokens s).
        et_token x \<in> set (lookup_values cr (js_trim (or_str (ne_token d) []))) \<longrightarrow>
        et_token y \<in> set (lookup_values cr (js_trim (or_str (ne_token d) []))) \<longrightarrow> et_id x = et_id y"
  shows "(\<exists>v e. device_by_credential cr i k s' = Inr v \<and> e \<in> set (fl_tokens s) \<and> et_usedAt e = None \<and> now w < et_expiresAt e
        \<and> dv_companyId v = et_companyId e \<and> dv_tokenHash v = Some (hash_credential cr k))
    \<and> (ne_token d' = ne_token d \<longrightarrow>
        enrol cr w' d' s' = (Inl (Unauthorized ''Enrollment token is invalid or expired''), s'))"
proof -
  let ?token = "js_trim (or_str (ne_token d) [])"
  let ?hit = "\<lambda>t x. et_token x \<in> set (lookup_values cr ?token) \<and> et_usedAt x = None \<and> et_expiresAt x > t"
  from e obtain x where x: "find (?hit (now w)) (fl_tokens s) = Some x"
    by (auto simp: enrol_def Let_def of_fleet_def act_simps split: option.splits if_splits)
  from e x have nonempty: "?token \<noteq> []" and fresh: "\<not> list_ex (\<lambda>x. dv_id x = uuid w 0) (fl_devices s)"
    and ik: "i = uuid w 0" "k = uuid w 1"
    and devs: "fl_devices s' = fl_devices s @ [enrolled_device cr w d x]"
    and toks: "fl_tokens s' = map (\<lambda>y. if et_id y = et_id x then y\<lparr>et_usedAt := Some (now w), et_assetId := Some (uuid w 0)\<rparr>
        else y) (fl_tokens s)"
    by (auto simp: enrol_def Let_def of_fleet_def act_simps split: if_splits)
  from x have xin: "x \<in> set (fl_tokens s)" "?hit (now w) x" by (auto dest: find_SomeD)
  have cred: "device_by_credential cr i k s' = Inr (enrolled_device cr w d x)"
  proof -
    let ?P = "\<lambda>v. dv_id v = i \<and> (dv_tokenHash v = Some (hash_credential cr k)
         \<or> dv_tokenHash v = None \<and> k \<noteq> hash_credential cr k \<and> dv_mdmId v = Some k) \<and> dv_deletedAt v = None"
    have "find ?P (fl_devices s @ [enrolled_device cr w d x]) = Some (enrolled_device cr w d x)"
      by (rule find_append_skip) (use fresh ik in \<open>auto simp: enrolled_device_def list_ex_iff\<close>)
    then show ?thesis by (simp add: device_by_credential_def devs)
  qed
  have none: "find (?hit t) (fl_tokens s') = None" for t
  proof -
    have "\<not> ?hit t y" if "y \<in> set (fl_tokens s')" for y
    proof
      assume h: "?hit t y"
      from that obtain z where z: "z \<in> set (fl_tokens s)"
        "y = (if et_id z = et_id x then z\<lparr>et_usedAt := Some (now w), et_assetId := Some (uuid w 0)\<rparr> else z)"
        unfolding toks set_map by blast
      have "et_token z \<in> set (lookup_values cr ?token)" using h z(2) by (auto split: if_splits)
      with one z(1) xin have "et_id z = et_id x" by blast
      with z(2) h show False by simp
    qed
    then show ?thesis by (auto simp: find_None_iff)
  qed
  have again: "enrol cr w' d' s' = (Inl (Unauthorized ''Enrollment token is invalid or expired''), s')" if "ne_token d' = ne_token d"
    using nonempty none[of "now w'"] unfolding enrol_def Let_def that by (simp add: of_fleet_def act_simps)
  have "dv_companyId (enrolled_device cr w d x) = et_companyId x"
    "dv_tokenHash (enrolled_device cr w d x) = Some (hash_credential cr k)"
    by (simp_all add: enrolled_device_def ik)
  with cred xin again show ?thesis by blast
qed

section \<open>Shortcomings\<close>

text \<open>
  A device can move itself to another company. The body of a check-in is written to the
  device row column by column, so a device that names a company in it belongs to that company
  afterwards and is found there by the company's users.
\<close>
theorem check_in_moves_device:
  assumes "device_by_credential cr i k s = Inr v" and "ci_companyId d = Some c"
  shows "\<exists>v'. fleet_device i c (snd (check_in cr t i k d s)) = Inr v' \<and> dv_id v' = i
    \<and> fst (check_in cr t i k d s) = Inr (device_commands i (dv_companyId v) (Some ''PENDING'') s)"
proof -
  from assms(1) have v: "v \<in> set (fl_devices s)" "dv_id v = i" "dv_deletedAt v = None"
    by (auto simp: device_by_credential_def split: option.splits dest!: find_SomeD)
  let ?s = "s\<lparr>fl_devices := map (\<lambda>x. if dv_id x = i then checked_in t d x else x) (fl_devices s)\<rparr>"
  have run: "check_in cr t i k d s = (Inr (device_commands i (dv_companyId v) (Some ''PENDING'') s), ?s)"
    using assms(1) v(2) by (simp add: check_in_def of_fleet_def act_simps device_commands_def)
  let ?P = "\<lambda>x. dv_id x = i \<and> dv_companyId x = c \<and> dv_deletedAt x = None"
  have "?P (checked_in t d v)" using v assms(2) by (simp add: checked_in_def)
  moreover have "checked_in t d v \<in> set (fl_devices ?s)"
    using imageI[OF v(1), of "\<lambda>x. if dv_id x = i then checked_in t d x else x"] v(2) by simp
  ultimately have "find ?P (fl_devices ?s) \<noteq> None" unfolding find_None_iff by blast
  then obtain v' where v': "find ?P (fl_devices ?s) = Some v'" by blast
  then have "dv_id v' = i" by (auto dest: find_SomeD)
  with v' run show ?thesis by (simp add: fleet_device_def)
qed

section \<open>Witnesses\<close>

definition x_world :: "string \<Rightarrow> world" where
  "x_world k = \<lparr>now = 1000, uuid = (\<lambda>i. k @ replicate i (CHR ''x''))\<rparr>"

definition x_fleet :: fleet where
  "x_fleet = \<lparr>fl_devices = [n_device], fl_actions = [], fl_tokens = [\<lparr>et_id = ''t1'', et_companyId = ''abcd1'',
     et_token = ''mdm_1'', et_category = ''LAPTOP'', et_ownership = ''COMPANY'', et_policy = None, et_expiresAt = 5000,
     et_usedAt = None, et_assetId = None\<rparr>], fl_commands = [], fl_approval = True\<rparr>"

definition x_admin :: principal where
  "x_admin = person_principal n_person"

definition x_calls :: "fleet_call list" where
  "x_calls = [FQueue (x_world ''a'') ''d1'' ''abcd1'' (Some ''restart'') (Some ''u2''), FDecide x_admin ''a'' True None,
     FExecute None 2000 ''d1'' ''a'' ''abcd1'']"

lemma x_run: "map na_status (fl_actions (fold fleet_step x_calls x_fleet)) = [''COMPLETED'']"
  "map na_action (fl_actions (fold fleet_step x_calls x_fleet)) = [''RESTART'']"
  by code_simp+

theorem disruptive_action_takes_two_witness:
  "map na_approval (fl_actions (fold fleet_step x_calls x_fleet)) = [''APPROVED'']"
proof -
  let ?s = "fold fleet_step x_calls x_fleet"
  have r: "reachable_by any_call fleet_step x_fleet ?s"
    by (rule remote_control.fold_reachable) (simp_all add: list_all_iff reach_start)
  from x_run obtain a where a: "fl_actions ?s = [a]" "na_status a = ''COMPLETED''" "na_action a = ''RESTART''" by auto
  have "na_approval a = ''APPROVED''"
    using disruptive_action_takes_two[OF r, of a] a by (simp add: x_fleet_def DISRUPTIVE_ACTIONS_def)
  with a(1) show ?thesis by simp
qed

definition x_enrol :: enrol_dto where
  "x_enrol = \<lparr>ne_token = Some ''mdm_1'', ne_name = None, ne_hostname = None, ne_assetType = None, ne_category = None,
     ne_ip = None, ne_compliance = None, ne_policy = None\<rparr>"

lemma x_enrolled: "fst (enrol toy_crypto (x_world ''n'') x_enrol x_fleet) = Inr (''n'', ''nx'')"
  by code_simp

theorem enrolment_once_witness:
  "fst (enrol toy_crypto (x_world ''m'') x_enrol (snd (enrol toy_crypto (x_world ''n'') x_enrol x_fleet)))
     = Inl (Unauthorized ''Enrollment token is invalid or expired'')"
proof -
  let ?m = "enrol toy_crypto (x_world ''n'') x_enrol x_fleet"
  have m: "?m = (Inr (''n'', ''nx''), snd ?m)"
    by (rule prod_eqI) (simp_all only: x_enrolled fst_conv snd_conv)
  show ?thesis using enrolment_once[OF m, of x_enrol "x_world ''m''"] by (simp add: x_fleet_def)
qed

definition x_owned :: fleet where
  "x_owned = x_fleet\<lparr>fl_devices := [n_device\<lparr>dv_mdmId := Some ''k''\<rparr>]\<rparr>"

definition x_body :: checkin_dto where
  "x_body = \<lparr>ci_companyId = Some ''other'', ci_name = None, ci_ip = None, ci_category = None, ci_assetType = None,
     ci_location = None, ci_compliance = None, ci_reasons = None, ci_tokenHash = None, ci_lost = None, ci_policy = None\<rparr>"

theorem check_in_moves_device_witness:
  "\<exists>v. fleet_device ''d1'' ''other'' (snd (check_in toy_crypto 7 ''d1'' ''k'' x_body x_owned)) = Inr v"
proof -
  have "device_by_credential toy_crypto ''d1'' ''k'' x_owned = Inr (n_device\<lparr>dv_mdmId := Some ''k''\<rparr>)"
    by (simp add: device_by_credential_def x_owned_def n_device_def toy_crypto_def hash_credential_def)
  from check_in_moves_device[OF this, of x_body "''other''" 7] show ?thesis
    by (auto simp: x_body_def x_owned_def)
qed

end
