(* ===== verification/Privacy.thy ===== *)
theory Privacy
  imports Guards Email_Text
begin

text \<open>
  Privacy requests (\<open>privacy-requests/privacy-requests.service.ts\<close>): submission, verification by
  a mailed link, the administrator's updates with legal hold and approved deletion, the
  one-time export and the deadline notice. The export document is an argument, as is
  MySQL's date one month later; events keep their type, and mails their receiver and subject.
\<close>

section \<open>Tables\<close>

record privacy_request =
  pq_id :: string
  pq_companyId :: "string option"
  pq_userId :: "string option"
  pq_email :: string
  pq_type :: string
  pq_jurisdiction :: "string option"
  pq_details :: "string option"
  pq_status :: string
  pq_tokenHash :: "string option"
  pq_tokenExpiresAt :: int
  pq_dueAt :: int
  pq_verifiedAt :: "int option"
  pq_identityAt :: "int option"
  pq_assignedTo :: "string option"
  pq_notes :: "string option"
  pq_holdAt :: "int option"
  pq_holdReason :: "string option"
  pq_deletionAt :: "int option"
  pq_deletionBy :: "string option"
  pq_completedAt :: "int option"
  pq_escalatedAt :: "int option"

record privacy_job =
  pj_id :: string
  pj_requestId :: string
  pj_type :: string
  pj_status :: string
  pj_approvedBy :: string

record export_artifact =
  pa_id :: string
  pa_requestId :: string
  pa_hash :: string
  pa_content :: string
  pa_expiresAt :: int
  pa_downloadedAt :: "int option"

record privacy_db =
  pv_requests :: "privacy_request list"
  pv_jobs :: "privacy_job list"
  pv_artifacts :: "export_artifact list"
  pv_events :: "(string \<times> string option \<times> string) list"
  pv_audits :: "(string option \<times> string \<times> string) list"
  pv_people :: "person list"
  pv_mails :: "(string \<times> string) list"

type_synonym 'a pv = "(privacy_db, 'a) act"

definition pv_get :: "(privacy_db \<Rightarrow> 'a res) \<Rightarrow> 'a pv" where
  "pv_get f = bindE (reads f) of_res"

definition pv_event :: "string \<Rightarrow> string option \<Rightarrow> string \<Rightarrow> unit pv" where
  "pv_event requestId actorId kind = writes (\<lambda>s. s\<lparr>pv_events := pv_events s @ [(requestId, actorId, kind)]\<rparr>)"

definition pv_mail :: "string \<Rightarrow> string \<Rightarrow> unit pv" where
  "pv_mail receiver subject = writes (\<lambda>s. s\<lparr>pv_mails := pv_mails s @ [(receiver, subject)]\<rparr>)"

definition set_request :: "string \<Rightarrow> (privacy_request \<Rightarrow> privacy_request) \<Rightarrow> unit pv" where
  "set_request i f = writes (\<lambda>s. s\<lparr>pv_requests := map (\<lambda>r. if pq_id r = i then f r else r) (pv_requests s)\<rparr>)"

section \<open>Submission and verification\<close>

text \<open>\<open>/\b(CCPA|CPRA|CALIFORNIA|CA)\b/i\<close>: one of the words is a maximal run of word characters.\<close>

fun word_runs :: "string \<Rightarrow> string list" where
  "word_runs [] = [[]]"
| "word_runs (c # s) = (if ch_word c then (case word_runs s of [] \<Rightarrow> [[c]] | w # ws \<Rightarrow> (c # w) # ws) else [] # word_runs s)"

definition californian :: "string \<Rightarrow> bool" where
  "californian s \<longleftrightarrow> list_ex (\<lambda>w. js_upper w \<in> {''CCPA'', ''CPRA'', ''CALIFORNIA'', ''CA''}) (word_runs s)"

record privacy_dto =
  py_email :: string
  py_type :: string
  py_jurisdiction :: "string option"
  py_details :: "string option"

definition hour_ms :: int where "hour_ms = 60 * 60 * 1000"

definition submit_request :: "crypto \<Rightarrow> (int \<Rightarrow> int) \<Rightarrow> auth_world \<Rightarrow> privacy_dto \<Rightarrow> principal option \<Rightarrow> string pv" where
  "submit_request cr plus_month w dto user =
     (let email = js_lower (js_trim (case user of None \<Rightarrow> py_email dto
                                                | Some u \<Rightarrow> or_str (Some (p_email u)) (py_email dto)));
          token = rnd w 0;
          jurisdiction = trim_or_null (py_jurisdiction dto) in
      bindE (reads (\<lambda>s. case user of
          Some u \<Rightarrow> (Some (p_id u), p_companyId u)
        | None \<Rightarrow> (case find (\<lambda>p. u_email p = email \<and> u_deletedAt p = None) (pv_people s) of
             None \<Rightarrow> (None, None) | Some p \<Rightarrow> (Some (u_id p), u_companyId p)))) (\<lambda>(userId, companyId).
      bindE (reads (\<lambda>s. map pq_id (pv_requests s))) (\<lambda>ids.
      bindE (guard (uuid w 0 \<notin> set ids) duplicate) (\<lambda>_.
      bindE (writes (\<lambda>s. s\<lparr>pv_requests := pv_requests s @ [\<lparr>pq_id = uuid w 0, pq_companyId = or_null companyId,
        pq_userId = or_null userId, pq_email = email, pq_type = py_type dto, pq_jurisdiction = jurisdiction,
        pq_details = trim_or_null (py_details dto), pq_status = ''VERIFYING'',
        pq_tokenHash = Some (hash_credential cr token), pq_tokenExpiresAt = now w + 24 * hour_ms,
        pq_dueAt = (if californian (or_str jurisdiction []) then now w + 45 * 24 * hour_ms else plus_month (now w)),
        pq_verifiedAt = None, pq_identityAt = None, pq_assignedTo = None, pq_notes = None, pq_holdAt = None,
        pq_holdReason = None, pq_deletionAt = None, pq_deletionBy = None, pq_completedAt = None,
        pq_escalatedAt = None\<rparr>]\<rparr>)) (\<lambda>_.
      bindE (pv_event (uuid w 0) None ''REQUEST_SUBMITTED'') (\<lambda>_.
      bindE (pv_mail email ''Verify your FieldserviceIT privacy request'') (\<lambda>_.
      ret (uuid w 0))))))))"

definition link_invalid :: http_error where "link_invalid = BadRequest ''Verification link is invalid or expired''"

definition verify_request :: "crypto \<Rightarrow> int \<Rightarrow> string \<Rightarrow> unit pv" where
  "verify_request cr t token =
     bindE (pv_get (\<lambda>s. case find (\<lambda>r. credential_matches cr token (pq_tokenHash r))
           (filter (\<lambda>r. pq_status r = ''VERIFYING'' \<and> pq_tokenExpiresAt r > t \<and> pq_verifiedAt r = None) (pv_requests s)) of
         None \<Rightarrow> Inl link_invalid | Some r \<Rightarrow> Inr r)) (\<lambda>r.
     bindE (reads (\<lambda>s. list_ex (\<lambda>x. pq_id x = pq_id r \<and> pq_verifiedAt x = None) (pv_requests s))) (\<lambda>hit.
     bindE (writes (\<lambda>s. s\<lparr>pv_requests := map (\<lambda>x. if pq_id x = pq_id r \<and> pq_verifiedAt x = None
         then x\<lparr>pq_status := ''RECEIVED'', pq_verifiedAt := Some t, pq_identityAt := Some t, pq_tokenHash := None\<rparr> else x)
         (pv_requests s)\<rparr>)) (\<lambda>_.
     bindE (guard hit link_invalid) (\<lambda>_.
     pv_event (pq_id r) None ''EMAIL_VERIFIED''))))"

section \<open>Administration\<close>

record privacy_update =
  pu_status :: string
  pu_identity :: bool
  pu_notes :: "string option"
  pu_assignedTo :: "string option"
  pu_hold :: "bool option"
  pu_holdReason :: "string option"
  pu_deletion :: bool

definition scoped_request :: "string \<Rightarrow> principal \<Rightarrow> privacy_db \<Rightarrow> privacy_request res" where
  "scoped_request i u s =
     (let companyId = or_opt (p_effective u) (p_companyId u);
          hit = (\<lambda>r. pq_id r = i \<and> (p_role u = ''SUPER_ADMIN'' \<and> \<not> truthy companyId
                                    \<or> companyId \<noteq> None \<and> pq_companyId r = companyId)) in
      case find hit (pv_requests s) of None \<Rightarrow> Inl (NotFound ''Privacy request not found'') | Some r \<Rightarrow> Inr r)"

definition final_status :: "string \<Rightarrow> bool" where
  "final_status st \<longleftrightarrow> st \<in> {''COMPLETED'', ''DENIED'', ''CANCELED''}"

definition updated_request :: "int \<Rightarrow> string \<Rightarrow> privacy_update \<Rightarrow> privacy_request \<Rightarrow> privacy_request \<Rightarrow> privacy_request" where
  "updated_request t actorId d old r = r\<lparr>
     pq_status := pu_status d,
     pq_identityAt := (if pu_identity d then (case pq_identityAt r of None \<Rightarrow> Some t | Some x \<Rightarrow> Some x) else pq_identityAt r),
     pq_assignedTo := (case or_null (pu_assignedTo d) of
        Some a \<Rightarrow> Some a | None \<Rightarrow> (case pq_assignedTo r of Some a \<Rightarrow> Some a | None \<Rightarrow> Some actorId)),
     pq_notes := or_null (or_opt (trim_or_null (pu_notes d)) (pq_notes old)),
     pq_holdAt := (case pu_hold d of
        Some True \<Rightarrow> (case pq_holdAt r of None \<Rightarrow> Some t | Some x \<Rightarrow> Some x) | Some False \<Rightarrow> None | None \<Rightarrow> pq_holdAt r),
     pq_holdReason := (case pu_hold d of
        Some True \<Rightarrow> trim_or_null (pu_holdReason d) | Some False \<Rightarrow> None | None \<Rightarrow> pq_holdReason r),
     pq_deletionAt := (if pu_deletion d then (case pq_deletionAt r of None \<Rightarrow> Some t | Some x \<Rightarrow> Some x) else pq_deletionAt r),
     pq_deletionBy := (if pu_deletion d then Some actorId else pq_deletionBy r),
     pq_completedAt := (if final_status (pu_status d) then Some t else None)\<rparr>"

text \<open>\<open>document\<close> is the JSON of the export.\<close>

definition export_artifact_for :: "crypto \<Rightarrow> (privacy_request \<Rightarrow> string) \<Rightarrow> auth_world \<Rightarrow> privacy_request \<Rightarrow> string \<Rightarrow> unit pv" where
  "export_artifact_for cr document w r actorId =
     bindE (reads (\<lambda>s. list_ex (\<lambda>a. pa_id a = uuid w 2 \<or> pa_hash a = hash_credential cr (rnd w 0)) (pv_artifacts s))) (\<lambda>taken.
     bindE (guard (\<not> taken) duplicate) (\<lambda>_.
     bindE (writes (\<lambda>s. s\<lparr>pv_artifacts := pv_artifacts s @ [\<lparr>pa_id = uuid w 2, pa_requestId = pq_id r,
       pa_hash = hash_credential cr (rnd w 0), pa_content = encrypt cr (document r), pa_expiresAt = now w + 24 * hour_ms,
       pa_downloadedAt = None\<rparr>]\<rparr>)) (\<lambda>_.
     bindE (pv_mail (pq_email r) ''Your FieldserviceIT privacy export is ready'') (\<lambda>_.
     pv_event (pq_id r) (Some actorId) ''EXPORT_CREATED''))))"

definition update_request :: "crypto \<Rightarrow> (privacy_request \<Rightarrow> string) \<Rightarrow> auth_world \<Rightarrow> string \<Rightarrow> privacy_update \<Rightarrow> principal \<Rightarrow> unit pv" where
  "update_request cr document w i d u =
     bindE (pv_get (scoped_request i u)) (\<lambda>r.
     bindE (guard (\<not> (pu_status d = ''COMPLETED'' \<and> pq_identityAt r = None \<and> \<not> pu_identity d))
       (BadRequest ''Identity must be verified before completing a privacy request'')) (\<lambda>_.
     bindE (guard (\<not> (pu_status d = ''DENIED'' \<and> trim_or_null (pu_notes d) = None \<and> \<not> truthy (pq_notes r)))
       (BadRequest ''A reason is required when denying a privacy request'')) (\<lambda>_.
     bindE (guard (\<not> (pu_hold d = Some True \<and> trim_or_null (pu_holdReason d) = None))
       (BadRequest ''A legal hold reason is required'')) (\<lambda>_.
     bindE (guard (\<not> (pu_status d = ''COMPLETED'' \<and> pq_type r = ''DELETION'' \<and> (pq_holdAt r \<noteq> None \<or> pu_hold d = Some True)))
       (BadRequest ''A request under legal hold cannot be deleted'')) (\<lambda>_.
     bindE (guard (\<not> (pu_status d = ''COMPLETED'' \<and> pq_type r = ''DELETION'' \<and> pq_deletionAt r = None \<and> \<not> pu_deletion d))
       (BadRequest ''Deletion must be explicitly approved'')) (\<lambda>_.
     bindE (set_request i (updated_request (now w) (p_id u) d r)) (\<lambda>_.
     bindE (writes (\<lambda>s. s\<lparr>pv_audits := pv_audits s @ [(or_null (pq_companyId r), p_id u, i)]\<rparr>)) (\<lambda>_.
     bindE (pv_event i (Some (p_id u)) ''REQUEST_UPDATED'') (\<lambda>_.
     bindE (if pu_status d = ''COMPLETED'' \<and> pq_status r \<noteq> ''COMPLETED'' \<and> pq_type r \<in> {''ACCESS'', ''EXPORT''}
            then export_artifact_for cr document w r (p_id u) else ret ()) (\<lambda>_.
     if pu_status d = ''COMPLETED'' \<and> pq_status r \<noteq> ''COMPLETED'' \<and> pq_type r = ''DELETION''
     then bindE (writes (\<lambda>s. s\<lparr>pv_jobs := pv_jobs s @ [\<lparr>pj_id = uuid w 3, pj_requestId = i, pj_type = ''DELETION'',
            pj_status = ''APPROVED'', pj_approvedBy = p_id u\<rparr>]\<rparr>)) (\<lambda>_.
          pv_event i (Some (p_id u)) ''DELETION_APPROVED'')
     else ret ()))))))))))"

section \<open>Export and deadlines\<close>

definition export_invalid :: http_error where
  "export_invalid = BadRequest ''Export link is invalid, expired, or already used''"

definition download_export :: "crypto \<Rightarrow> int \<Rightarrow> string \<Rightarrow> string pv" where
  "download_export cr t token =
     bindE (pv_get (\<lambda>s. case find (\<lambda>a. credential_matches cr token (Some (pa_hash a)))
           (filter (\<lambda>a. pa_downloadedAt a = None \<and> pa_expiresAt a > t) (pv_artifacts s)) of
         None \<Rightarrow> Inl export_invalid | Some a \<Rightarrow> Inr a)) (\<lambda>a.
     bindE (writes (\<lambda>s. s\<lparr>pv_artifacts := map (\<lambda>x. if pa_id x = pa_id a \<and> pa_downloadedAt x = None
         then x\<lparr>pa_downloadedAt := Some t\<rparr> else x) (pv_artifacts s)\<rparr>)) (\<lambda>_.
     bindE (pv_event (pa_requestId a) None ''EXPORT_DOWNLOADED'') (\<lambda>_.
     of_res (case decrypt cr (pa_content a) of None \<Rightarrow> Inl (ServerError ''decrypt'') | Some x \<Rightarrow> Inr x))))"

definition my_requests :: "principal \<Rightarrow> privacy_db \<Rightarrow> privacy_request list" where
  "my_requests u s = take 100 (rev (filter (\<lambda>r. pq_userId r = Some (p_id u)
     \<or> pq_userId r = None \<and> pq_email r = js_lower (p_email u)) (pv_requests s)))"

text \<open>MySQL's \<open>FIELD\<close>; an unlisted status sorts first.\<close>

definition status_field :: "string \<Rightarrow> nat" where
  "status_field st = (case index_of st [''RECEIVED'', ''VERIFYING'', ''IN_REVIEW'', ''COMPLETED'', ''DENIED'', ''CANCELED''] of
     None \<Rightarrow> 0 | Some n \<Rightarrow> n + 1)"

definition admin_requests :: "principal \<Rightarrow> privacy_db \<Rightarrow> privacy_request list" where
  "admin_requests u s =
     (let companyId = or_opt (p_effective u) (p_companyId u) in
      take 500 (sort_key (\<lambda>r. status_field (pq_status r)) (sort_key pq_dueAt
        (filter (\<lambda>r. p_role u = ''SUPER_ADMIN'' \<and> \<not> truthy companyId \<or> companyId \<noteq> None \<and> pq_companyId r = companyId)
          (pv_requests s)))))"

definition request_evidence :: "string \<Rightarrow> principal \<Rightarrow> privacy_db
    \<Rightarrow> (privacy_request \<times> (string \<times> string option \<times> string) list \<times> privacy_job list) res" where
  "request_evidence i u s = (case scoped_request i u s of Inl e \<Rightarrow> Inl e
     | Inr r \<Rightarrow> Inr (r, filter (\<lambda>e. fst e = i) (pv_events s), filter (\<lambda>j. pj_requestId j = i) (pv_jobs s)))"

definition notify_deadlines :: "int \<Rightarrow> unit pv" where
  "notify_deadlines t =
     bindE (reads (\<lambda>s. take 100 (filter (\<lambda>r. pq_status r \<in> {''RECEIVED'', ''IN_REVIEW''} \<and> pq_dueAt r \<le> t + 5 * 24 * hour_ms
                                     \<and> pq_escalatedAt r = None) (pv_requests s)))) (\<lambda>rs.
     forE rs (\<lambda>r.
       bindE (reads (\<lambda>s. map u_email (filter (\<lambda>p. u_isActive p \<and> u_deletedAt p = None
           \<and> (u_role p = ''SUPER_ADMIN'' \<or> u_role p = ''TENANT_ADMIN'' \<and> pq_companyId r \<noteq> None \<and> u_companyId p = pq_companyId r))
           (pv_people s)))) (\<lambda>admins.
       bindE (forE admins (\<lambda>e. pv_mail e ''Privacy request deadline approaching'')) (\<lambda>_.
       bindE (writes (\<lambda>s. s\<lparr>pv_requests := map (\<lambda>x. if pq_id x = pq_id r \<and> pq_escalatedAt x = None
           then x\<lparr>pq_escalatedAt := Some t\<rparr> else x) (pv_requests s)\<rparr>)) (\<lambda>_.
       pv_event (pq_id r) None ''DEADLINE_ESCALATED'')))))"

end
