(* ===== verification/Privacy_Props.thy ===== *)
theory Privacy_Props
  imports Privacy Auth_Claims
begin

text \<open>
  Properties of privacy requests: what a completed, denied or deleted request went through
  after any calls, the one-time export, and what reopening a completed request repeats.
\<close>

section \<open>The machine\<close>

datatype privacy_call =
    PSubmit crypto "int \<Rightarrow> int" auth_world privacy_dto "principal option"
  | PVerify crypto int string
  | PUpdate crypto "privacy_request \<Rightarrow> string" auth_world string privacy_update principal
  | PDownload crypto int string
  | PNotify int

fun privacy_step :: "privacy_call \<Rightarrow> privacy_db \<Rightarrow> privacy_db" where
  "privacy_step (PSubmit cr m w d u) s = snd (submit_request cr m w d u s)"
| "privacy_step (PVerify cr t k) s = snd (verify_request cr t k s)"
| "privacy_step (PUpdate cr doc w i d u) s = snd (update_request cr doc w i d u s)"
| "privacy_step (PDownload cr t k) s = snd (download_export cr t k s)"
| "privacy_step (PNotify t) s = snd (notify_deadlines t s)"

section \<open>Due process\<close>

definition request_ok :: "privacy_request \<Rightarrow> bool" where
  "request_ok r \<longleftrightarrow>
     (pq_status r = ''COMPLETED'' \<longrightarrow> pq_identityAt r \<noteq> None)
     \<and> (pq_status r = ''COMPLETED'' \<and> pq_type r = ''DELETION'' \<longrightarrow> pq_deletionAt r \<noteq> None \<and> pq_holdAt r = None)
     \<and> (pq_completedAt r \<noteq> None \<longleftrightarrow> final_status (pq_status r))
     \<and> (pq_status r = ''DENIED'' \<longrightarrow> truthy (pq_notes r))"

definition backs_job :: "string \<Rightarrow> privacy_request \<Rightarrow> bool" where
  "backs_job i r \<longleftrightarrow> pq_id r = i \<and> pq_type r = ''DELETION'' \<and> pq_deletionAt r \<noteq> None \<and> pq_identityAt r \<noteq> None"

definition backs_export :: "string \<Rightarrow> privacy_request \<Rightarrow> bool" where
  "backs_export i r \<longleftrightarrow> pq_id r = i \<and> pq_type r \<in> {''ACCESS'', ''EXPORT''} \<and> pq_identityAt r \<noteq> None"

definition backed :: "(string \<Rightarrow> privacy_request \<Rightarrow> bool) \<Rightarrow> string list \<Rightarrow> privacy_request list \<Rightarrow> bool" where
  "backed B is rs \<longleftrightarrow> (\<forall>i \<in> set is. \<exists>r \<in> set rs. B i r)"

definition due_process :: "privacy_db \<Rightarrow> bool" where
  "due_process s \<longleftrightarrow> distinct (map pq_id (pv_requests s)) \<and> (\<forall>r \<in> set (pv_requests s). request_ok r)
     \<and> backed backs_job (map pj_requestId (pv_jobs s)) (pv_requests s)
     \<and> backed backs_export (map pa_requestId (pv_artifacts s)) (pv_requests s)"

lemma backed_map: "backed B is rs \<Longrightarrow> (\<And>i r. r \<in> set rs \<Longrightarrow> B i r \<Longrightarrow> B i (f r)) \<Longrightarrow> backed B is (map f rs)"
  unfolding backed_def by fastforce

lemma backed_snoc: "backed B is rs \<Longrightarrow> r \<in> set rs \<Longrightarrow> B i r \<Longrightarrow> backed B (is @ [i]) rs"
  unfolding backed_def by auto

lemma backed_more: "backed B is rs \<Longrightarrow> backed B is (rs @ [r])"
  unfolding backed_def by auto

text \<open>A change of the requests that loses no backing.\<close>

lemma due_process_requests:
  assumes s: "due_process s"
    and same: "\<And>r. r \<in> set (pv_requests s) \<Longrightarrow> request_ok r \<Longrightarrow> pq_id (f r) = pq_id r \<and> pq_type (f r) = pq_type r
        \<and> request_ok (f r) \<and> (pq_deletionAt r \<noteq> None \<longrightarrow> pq_deletionAt (f r) \<noteq> None)
        \<and> (pq_identityAt r \<noteq> None \<longrightarrow> pq_identityAt (f r) \<noteq> None)"
  shows "due_process (s\<lparr>pv_requests := map f (pv_requests s)\<rparr>)"
proof -
  have m: "pq_id (f r) = pq_id r \<and> request_ok (f r) \<and> (backs_job i r \<longrightarrow> backs_job i (f r)) \<and> (backs_export i r \<longrightarrow> backs_export i (f r))"
    if "r \<in> set (pv_requests s)" for i r
    using s same[OF that] that by (simp add: due_process_def backs_job_def backs_export_def)
  have e: "map pq_id (map f (pv_requests s)) = map pq_id (pv_requests s)" using m by simp
  have "\<forall>r \<in> set (map f (pv_requests s)). request_ok r" using m by auto
  then show ?thesis using s m unfolding due_process_def by (simp add: backed_map e del: map_map)
qed

lemma due_process_other:
  "(\<And>s. pv_requests (f s) = pv_requests s \<and> pv_jobs (f s) = pv_jobs s \<and> map pa_requestId (pv_artifacts (f s)) = map pa_requestId (pv_artifacts s))
     \<Longrightarrow> keeps due_process (writes f)"
  by (rule keeps_writes) (simp add: due_process_def)

lemma keeps_pv_get [keeps_intros]: "keeps I (pv_get f)"
  unfolding pv_get_def by (intro keeps_intros)

lemma due_process_event [keeps_intros]: "keeps due_process (pv_event i a k)"
  unfolding pv_event_def by (rule due_process_other) simp

lemma due_process_mail [keeps_intros]: "keeps due_process (pv_mail e k)"
  unfolding pv_mail_def by (rule due_process_other) simp

lemmas pv_acts = pv_get_def pv_event_def pv_mail_def set_request_def act_simps

text \<open>Every call keeps it.\<close>

lemma due_process_submit: "keeps due_process (submit_request cr m w d u)"
proof (rule keepsI)
  fix s assume s: "due_process s"
  show "due_process (snd (submit_request cr m w d u s))"
    using s unfolding submit_request_def Let_def
    by (auto simp: pv_acts due_process_def request_ok_def final_status_def backed_more split: option.splits)
qed

lemma due_process_verify: "keeps due_process (verify_request cr t k)"
proof -
  have "due_process (s\<lparr>pv_requests := map (\<lambda>x. if pq_id x = i \<and> pq_verifiedAt x = None
         then x\<lparr>pq_status := ''RECEIVED'', pq_verifiedAt := Some t, pq_identityAt := Some t, pq_tokenHash := None\<rparr> else x)
         (pv_requests s)\<rparr>)" if "due_process s" "\<forall>x \<in> set (pv_requests s). pq_id x = i \<longrightarrow> pq_status x = ''VERIFYING''" for s i
    by (rule due_process_requests[OF that(1)]) (use that(2) in \<open>auto simp: request_ok_def final_status_def\<close>)
  note upd = this
  show ?thesis
  proof (rule keepsI)
    fix s assume s: "due_process s"
    let ?f = "find (\<lambda>r. credential_matches cr k (pq_tokenHash r))
           (filter (\<lambda>r. pq_status r = ''VERIFYING'' \<and> pq_tokenExpiresAt r > t \<and> pq_verifiedAt r = None) (pv_requests s))"
    show "due_process (snd (verify_request cr t k s))"
    proof (cases ?f)
      case None
      with s show ?thesis by (simp add: verify_request_def pv_acts)
    next
      case (Some r)
      then have r: "r \<in> set (pv_requests s)" "pq_status r = ''VERIFYING''" "pq_verifiedAt r = None" by (auto dest: find_SomeD)
      with s have "\<forall>x \<in> set (pv_requests s). pq_id x = pq_id r \<longrightarrow> x = r"
        by (auto simp: due_process_def distinct_map inj_on_def)
      with r have "\<forall>x \<in> set (pv_requests s). pq_id x = pq_id r \<longrightarrow> pq_status x = ''VERIFYING''" by blast
      note u = upd[OF s this]
      show ?thesis using due_process_event[THEN keepsD, OF u, of _ _ _ "Inr ()"] Some u
        by (auto simp: verify_request_def pv_acts due_process_def)
    qed
  qed
qed


definition with_request :: "privacy_request \<Rightarrow> privacy_db \<Rightarrow> bool" where
  "with_request x s \<longleftrightarrow> due_process s \<and> x \<in> set (pv_requests s)"

lemma with_request_other:
  "(\<And>s. pv_requests (f s) = pv_requests s \<and> pv_jobs (f s) = pv_jobs s \<and> pv_artifacts (f s) = pv_artifacts s)
     \<Longrightarrow> keeps (with_request x) (writes f)"
  by (rule keeps_writes) (simp add: due_process_def with_request_def)

lemma with_request_event [keeps_intros]: "keeps (with_request x) (pv_event i a k)"
  unfolding pv_event_def by (rule with_request_other) simp

lemma with_request_mail [keeps_intros]: "keeps (with_request x) (pv_mail e k)"
  unfolding pv_mail_def by (rule with_request_other) simp

lemma with_request_artifact:
  "backs_export (pa_requestId a) x \<Longrightarrow> keeps (with_request x) (writes (\<lambda>s. s\<lparr>pv_artifacts := pv_artifacts s @ [a]\<rparr>))"
  by (rule keeps_writes) (auto simp: due_process_def with_request_def intro: backed_snoc)

lemma with_request_job:
  "backs_job (pj_requestId j) x \<Longrightarrow> keeps (with_request x) (writes (\<lambda>s. s\<lparr>pv_jobs := pv_jobs s @ [j]\<rparr>))"
  by (rule keeps_writes) (auto simp: due_process_def with_request_def intro: backed_snoc)

lemma with_request_export: "backs_export (pq_id r) x \<Longrightarrow> keeps (with_request x) (export_artifact_for cr doc w r a)"
  unfolding export_artifact_for_def by (intro keeps_intros with_request_artifact) simp_all

definition update_allowed :: "privacy_update \<Rightarrow> privacy_request \<Rightarrow> bool" where
  "update_allowed d r \<longleftrightarrow>
     (pu_status d = ''COMPLETED'' \<longrightarrow> pq_identityAt r \<noteq> None \<or> pu_identity d)
     \<and> (pu_status d = ''DENIED'' \<longrightarrow> trim_or_null (pu_notes d) \<noteq> None \<or> truthy (pq_notes r))
     \<and> (pu_hold d = Some True \<longrightarrow> trim_or_null (pu_holdReason d) \<noteq> None)
     \<and> (pu_status d = ''COMPLETED'' \<and> pq_type r = ''DELETION'' \<longrightarrow>
          pq_holdAt r = None \<and> pu_hold d \<noteq> Some True \<and> (pq_deletionAt r \<noteq> None \<or> pu_deletion d))"

lemma truthy_notes: "trim_or_null n \<noteq> None \<or> truthy old \<Longrightarrow> truthy (or_null (or_opt (trim_or_null n) old))"
  by (cases "trim_or_null n"; cases old) (auto simp: trim_or_null_def Let_def or_null_def or_opt_def truthy_def split: if_splits option.splits)

lemma updated_request_sel:
  "pq_id (updated_request t a d r x) = pq_id x" "pq_type (updated_request t a d r x) = pq_type x"
  "pq_status (updated_request t a d r x) = pu_status d"
  "pq_notes (updated_request t a d r x) = or_null (or_opt (trim_or_null (pu_notes d)) (pq_notes r))"
  "pq_identityAt (updated_request t a d r x) = None \<longleftrightarrow> pq_identityAt x = None \<and> \<not> pu_identity d"
  "pq_deletionAt (updated_request t a d r x) = None \<longleftrightarrow> pq_deletionAt x = None \<and> \<not> pu_deletion d"
  "pq_holdAt x = None \<Longrightarrow> pu_hold d \<noteq> Some True \<Longrightarrow> pq_holdAt (updated_request t a d r x) = None"
  "pq_completedAt (updated_request t a d r x) = None \<longleftrightarrow> \<not> final_status (pu_status d)"
  by (simp_all add: updated_request_def split: option.split bool.split)

lemma updated_request_ok:
  assumes a: "update_allowed d r"
  shows "request_ok (updated_request t a d r r)"
  using a truthy_notes[of "pu_notes d" "pq_notes r"]
  unfolding request_ok_def updated_request_sel update_allowed_def
  by (intro conjI impI; blast intro: updated_request_sel(7))

lemma set_updated:
  assumes "due_process s" "r \<in> set (pv_requests s)" "update_allowed d r"
  shows "with_request (updated_request t a d r r) (snd (set_request (pq_id r) (updated_request t a d r) s))"
proof -
  have one: "\<forall>x \<in> set (pv_requests s). pq_id x = pq_id r \<longrightarrow> x = r"
    using assms(1,2) by (auto simp: due_process_def distinct_map inj_on_def)
  have "due_process (s\<lparr>pv_requests := map (\<lambda>x. if pq_id x = pq_id r then updated_request t a d r x else x) (pv_requests s)\<rparr>)"
    by (rule due_process_requests[OF assms(1)]) (use one updated_request_ok[OF assms(3)] in \<open>auto simp: updated_request_sel simp del: not_None_eq\<close>)
  then show ?thesis using assms(2) by (auto simp: with_request_def pv_acts image_iff)
qed

lemma bind_pv_get: "bindE (pv_get f) g s = (case f s of Inl e \<Rightarrow> (Inl e, s) | Inr x \<Rightarrow> g x s)"
  by (simp add: pv_get_def act_simps)

lemma bind_guard: "b \<Longrightarrow> bindE (guard b e) g s = g () s"
  by (simp add: act_simps)

lemma bind_set: "bindE (set_request i f) g s = g () (snd (set_request i f s))"
  by (simp add: pv_acts)

lemma five_guards:
  "\<not> (b1 \<and> b2 \<and> b3 \<and> b4 \<and> b5) \<Longrightarrow> snd (bindE (guard b1 e1) (\<lambda>_. bindE (guard b2 e2) (\<lambda>_. bindE (guard b3 e3) (\<lambda>_.
     bindE (guard b4 e4) (\<lambda>_. bindE (guard b5 e5) (\<lambda>_. T))))) s) = s"
  by (auto simp: bindE_eval guard_eval)

lemma keeps_when: "(b \<Longrightarrow> keeps I m) \<Longrightarrow> (\<not> b \<Longrightarrow> keeps I n) \<Longrightarrow> keeps I (if b then m else n)"
  by simp

lemma due_process_update: "keeps due_process (update_request cr doc w i d u)"
proof (rule keepsI)
  fix s assume s: "due_process s"
  show "due_process (snd (update_request cr doc w i d u s))"
  proof (cases "scoped_request i u s")
    case (Inl e)
    with s show ?thesis by (simp add: update_request_def pv_acts)
  next
    case (Inr r)
    then have r: "r \<in> set (pv_requests s)" "pq_id r = i"
      by (auto simp: scoped_request_def Let_def dest: find_SomeD split: option.splits)
    show ?thesis
    proof (cases "update_allowed d r")
      case False
      have "snd (update_request cr doc w i d u s) = s"
        unfolding update_request_def bind_pv_get Inr sum.case by (rule five_guards) (use False in \<open>auto simp: update_allowed_def\<close>)
      with s show ?thesis by simp
    next
      case True
      let ?x = "updated_request (now w) (p_id u) d r r"
      let ?rest = "bindE (writes (\<lambda>s. s\<lparr>pv_audits := pv_audits s @ [(or_null (pq_companyId r), p_id u, i)]\<rparr>)) (\<lambda>_.
         bindE (pv_event i (Some (p_id u)) ''REQUEST_UPDATED'') (\<lambda>_.
         bindE (if pu_status d = ''COMPLETED'' \<and> pq_status r \<noteq> ''COMPLETED'' \<and> pq_type r \<in> {''ACCESS'', ''EXPORT''}
                then export_artifact_for cr doc w r (p_id u) else ret ()) (\<lambda>_.
         if pu_status d = ''COMPLETED'' \<and> pq_status r \<noteq> ''COMPLETED'' \<and> pq_type r = ''DELETION''
         then bindE (writes (\<lambda>s. s\<lparr>pv_jobs := pv_jobs s @ [\<lparr>pj_id = uuid w 3, pj_requestId = i, pj_type = ''DELETION'',
                pj_status = ''APPROVED'', pj_approvedBy = p_id u\<rparr>]\<rparr>)) (\<lambda>_.
              pv_event i (Some (p_id u)) ''DELETION_APPROVED'')
         else ret ())))"
      have e: "update_request cr doc w i d u s = ?rest (snd (set_request i (updated_request (now w) (p_id u) d r) s))"
        using Inr True unfolding update_request_def bind_pv_get
        by (simp add: update_allowed_def bind_guard bind_set del: bindE_eval)
      have x: "pu_status d = ''COMPLETED'' \<Longrightarrow> pq_type r \<in> {''ACCESS'', ''EXPORT''} \<Longrightarrow> backs_export (pq_id r) ?x"
        "pu_status d = ''COMPLETED'' \<Longrightarrow> pq_type r = ''DELETION'' \<Longrightarrow> backs_job i ?x"
        using True r(2) unfolding backs_export_def backs_job_def updated_request_sel update_allowed_def by blast+
      have "keeps (with_request ?x) ?rest"
        by (intro keeps_bindE keeps_when keeps_ret with_request_event with_request_export with_request_job with_request_other) (simp_all add: x)
      then show ?thesis using set_updated[OF s r(1) True] unfolding e keeps_def r(2) with_request_def by blast
    qed
  qed
qed

lemma due_process_escalate: "keeps due_process (writes (\<lambda>s. s\<lparr>pv_requests := map (\<lambda>x. if pq_id x = i \<and> pq_escalatedAt x = None
           then x\<lparr>pq_escalatedAt := Some t\<rparr> else x) (pv_requests s)\<rparr>))"
  by (rule keeps_writes, rule due_process_requests) (auto simp: request_ok_def)

lemma due_process_rest: "keeps due_process (download_export cr t k)" "keeps due_process (notify_deadlines t)"
  unfolding download_export_def notify_deadlines_def
  by (intro keeps_intros due_process_other due_process_escalate; simp add: comp_def)+

lemmas privacy_calls = due_process_submit due_process_verify due_process_update due_process_rest

interpretation privacy: guarded_machine any_call privacy_step due_process
proof
  fix c s assume "due_process s"
  then show "due_process (privacy_step c s)" by (cases c) (simp_all add: privacy_calls[unfolded keeps_def])
qed

section \<open>What a request went through\<close>

text \<open>
  C13. Due process. Starting without requests, after any calls by anyone a deletion job belongs
  to a deletion request whose requester was identified and whose deletion was approved, an
  export to an access or export request whose requester was identified; a completed deletion
  is under no legal hold, a denied request states a reason, and exactly the completed, denied
  and cancelled requests carry a completion time.
\<close>
theorem privacy_due_process:
  assumes "reachable_by any_call privacy_step s0 s" and "pv_requests s0 = []" "pv_jobs s0 = []" "pv_artifacts s0 = []"
  shows "(\<forall>j \<in> set (pv_jobs s). \<exists>r \<in> set (pv_requests s). pq_id r = pj_requestId j \<and> pq_type r = ''DELETION''
        \<and> pq_identityAt r \<noteq> None \<and> pq_deletionAt r \<noteq> None)
    \<and> (\<forall>a \<in> set (pv_artifacts s). \<exists>r \<in> set (pv_requests s). pq_id r = pa_requestId a
        \<and> pq_type r \<in> {''ACCESS'', ''EXPORT''} \<and> pq_identityAt r \<noteq> None)
    \<and> (\<forall>r \<in> set (pv_requests s). request_ok r)"
proof -
  have "due_process s0" using assms(2-4) by (simp add: due_process_def backed_def)
  then have "due_process s" using privacy.reachable_inv[OF assms(1)] by blast
  then show ?thesis by (auto simp: due_process_def backed_def backs_job_def backs_export_def) blast+
qed

section \<open>Export\<close>

text \<open>
  An export is read once. A successful download returns the decrypted document of a stored
  artifact the token answers to, that had not been downloaded nor expired; afterwards the
  same token is refused at any time, when no other artifact answers to it.
\<close>
theorem export_read_once:
  assumes d: "download_export cr t k s = (Inr x, s')"
    and one: "\<forall>a \<in> set (pv_artifacts s). \<forall>b \<in> set (pv_artifacts s). credential_matches cr k (Some (pa_hash a)) \<longrightarrow>
        credential_matches cr k (Some (pa_hash b)) \<longrightarrow> pa_id a = pa_id b"
  shows "(\<exists>a \<in> set (pv_artifacts s). credential_matches cr k (Some (pa_hash a)) \<and> pa_downloadedAt a = None \<and> t < pa_expiresAt a
        \<and> decrypt cr (pa_content a) = Some x)
    \<and> download_export cr t' k s' = (Inl export_invalid, s')"
proof -
  let ?hit = "\<lambda>t a. credential_matches cr k (Some (pa_hash a)) \<and> pa_downloadedAt a = None \<and> pa_expiresAt a > t"
  let ?find = "\<lambda>t as. find (\<lambda>a. credential_matches cr k (Some (pa_hash a))) (filter (\<lambda>a. pa_downloadedAt a = None \<and> pa_expiresAt a > t) as)"
  from d obtain a where a: "?find t (pv_artifacts s) = Some a"
    by (auto simp: download_export_def pv_acts split: option.splits)
  with d have x: "decrypt cr (pa_content a) = Some x" and
    arts: "pv_artifacts s' = map (\<lambda>x. if pa_id x = pa_id a \<and> pa_downloadedAt x = None
         then x\<lparr>pa_downloadedAt := Some t\<rparr> else x) (pv_artifacts s)"
    by (auto simp: download_export_def pv_acts split: option.splits)
  from a have ain: "a \<in> set (pv_artifacts s)" "?hit t a" by (auto dest: find_SomeD)
  have "\<not> ?hit t' b" if "b \<in> set (pv_artifacts s')" for b
  proof
    assume h: "?hit t' b"
    from that obtain z where z: "z \<in> set (pv_artifacts s)"
      "b = (if pa_id z = pa_id a \<and> pa_downloadedAt z = None then z\<lparr>pa_downloadedAt := Some t\<rparr> else z)"
      unfolding arts set_map by blast
    have "credential_matches cr k (Some (pa_hash z))" using h z(2) by (auto split: if_splits)
    with one z(1) ain have "pa_id z = pa_id a" by blast
    with z(2) h show False by (auto split: if_splits)
  qed
  then have "?find t' (pv_artifacts s') = None" by (auto simp: find_None_iff)
  then have "download_export cr t' k s' = (Inl export_invalid, s')" by (simp add: download_export_def bind_pv_get)
  with ain x show ?thesis by blast
qed

section \<open>Shortcomings\<close>

text \<open>
  A legal hold comes too late for an approved deletion: reopening a deletion request under a
  legal hold succeeds and leaves its approved deletion job as it is.
\<close>
theorem hold_leaves_deletion_job:
  assumes "scoped_request i u s = Inr r" and "pu_status d = ''IN_REVIEW''" "pu_hold d = Some True" "trim_or_null (pu_holdReason d) \<noteq> None"
  shows "fst (update_request cr doc w i d u s) = Inr () \<and> pv_jobs (snd (update_request cr doc w i d u s)) = pv_jobs s"
  using assms by (auto simp: update_request_def bind_pv_get pv_acts)

section \<open>Witnesses\<close>

definition y_admin :: principal where
  "y_admin = person_principal \<lparr>u_id = ''adm'', u_email = ''adm@x'', u_firstName = ''N'', u_lastName = ''L'', u_phone = None,
     u_location = None, u_role = ''SUPER_ADMIN'', u_userType = ''BUSINESS'', u_companyId = None, u_isActive = True, u_deletedAt = None\<rparr>"

definition y_db :: privacy_db where
  "y_db = \<lparr>pv_requests = [], pv_jobs = [], pv_artifacts = [], pv_events = [], pv_audits = [], pv_people = [], pv_mails = []\<rparr>"

definition y_submit :: "string \<Rightarrow> string \<Rightarrow> privacy_call" where
  "y_submit k t = PSubmit toy_crypto (\<lambda>d. d + 1) (toy_world 1000 k)
     \<lparr>py_email = ''a@b.c'', py_type = t, py_jurisdiction = Some ''us-ca'', py_details = None\<rparr> None"

definition y_complete :: "string \<Rightarrow> string \<Rightarrow> privacy_call" where
  "y_complete k i = PUpdate toy_crypto (\<lambda>r. ''doc'') (toy_world 3000 k) i \<lparr>pu_status = ''COMPLETED'', pu_identity = False,
     pu_notes = None, pu_assignedTo = None, pu_hold = None, pu_holdReason = None, pu_deletion = True\<rparr> y_admin"

definition y_calls :: "privacy_call list" where
  "y_calls = [y_submit ''d'' ''DELETION'', PVerify toy_crypto 2000 ''d'', y_complete ''q'' ''d'',
     y_submit ''e'' ''EXPORT'', PVerify toy_crypto 2000 ''e'', y_complete ''p'' ''e'']"

definition y_state :: privacy_db where "y_state = fold privacy_step y_calls y_db"

lemma y_run: "map pj_requestId (pv_jobs y_state) = [''d'']" "map pa_requestId (pv_artifacts y_state) = [''e'']"
  "map pa_id (pv_artifacts y_state) = [''puu'']" "map pq_id (pv_requests y_state) = [''d'', ''e'']"
  "map pq_type (pv_requests y_state) = [''DELETION'', ''EXPORT'']"
  by code_simp+

theorem privacy_due_process_witness:
  "(\<exists>r \<in> set (pv_requests y_state). pq_id r = ''d'' \<and> pq_identityAt r \<noteq> None \<and> pq_deletionAt r \<noteq> None)
   \<and> (\<exists>r \<in> set (pv_requests y_state). pq_id r = ''e'' \<and> pq_identityAt r \<noteq> None)"
proof -
  have r: "reachable_by any_call privacy_step y_db y_state"
    unfolding y_state_def by (rule privacy.fold_reachable) (simp_all add: list_all_iff reach_start)
  have "\<exists>j \<in> set (pv_jobs y_state). pj_requestId j = ''d''" "\<exists>a \<in> set (pv_artifacts y_state). pa_requestId a = ''e''"
    using y_run(1,2) by (auto simp: map_eq_Cons_conv)
  with privacy_due_process[OF r] show ?thesis by (simp add: y_db_def) metis
qed

lemma y_download: "fst (download_export toy_crypto 4000 ''p'' y_state) = Inr ''doc''"
  by code_simp

theorem export_read_once_witness:
  "fst (download_export toy_crypto 5000 ''p'' (snd (download_export toy_crypto 4000 ''p'' y_state))) = Inl export_invalid"
proof -
  let ?m = "download_export toy_crypto 4000 ''p'' y_state"
  have m: "?m = (Inr ''doc'', snd ?m)"
    by (rule prod_eqI) (simp_all only: y_download fst_conv snd_conv)
  have "\<forall>a \<in> set (pv_artifacts y_state). pa_id a = ''puu''" using y_run(3) by (auto simp: map_eq_Cons_conv)
  then show ?thesis using export_read_once[OF m, of 5000] by simp
qed

end
