(* ===== verification/Scim.thy ===== *)
theory Scim
  imports Governance "HOL-Library.Char_ord" "HOL-Library.List_Lexorder"
begin

text \<open>
  SCIM provisioning (\<open>admin/services/scim.service.ts\<close>, \<open>common/guards/scim-token.guard.ts\<close>): an
  identity provider manages the users and groups of the company its bearer token was issued
  for; groups grant roles through the mappings of \<open>Governance\<close>. Request bodies are JavaScript
  values. Of a value bound to a statement its text is stored; arrays and objects are rejected.
\<close>

section \<open>Tables\<close>

record scim_user =
  xu_id :: string
  xu_email :: string
  xu_firstName :: string
  xu_lastName :: string
  xu_role :: string
  xu_companyId :: "string option"
  xu_isActive :: bool
  xu_externalId :: "string option"
  xu_managed :: bool
  xu_authVersion :: int
  xu_deletedAt :: "int option"

record scim_group =
  xg_id :: string
  xg_companyId :: string
  xg_externalId :: "string option"
  xg_displayName :: string

record scim_db =
  xs_users :: "scim_user list"
  xs_groups :: "scim_group list"
  xs_members :: "(string \<times> string) list"
  xs_mappings :: "group_mapping list"
  xs_user_roles :: "(string \<times> string) list"
  xs_sessions :: "session list"
  xs_tokens :: "scim_token list"

type_synonym 'a scim = "(scim_db, 'a) act"

definition xs_get :: "(scim_db \<Rightarrow> 'a res) \<Rightarrow> 'a scim" where
  "xs_get f = bindE (reads f) of_res"

section \<open>The token\<close>

definition scim_token_guard :: "(string \<Rightarrow> string) \<Rightarrow> int \<Rightarrow> string option \<Rightarrow> scim_token list \<Rightarrow> scim_token res" where
  "scim_token_guard sha t header tokens =
     (let h = or_str header [];
          token = (if starts_with h ''Bearer '' then js_trim (drop 7 h) else []) in
      if \<not> starts_with token ''fsit_scim_'' then Inl (Unauthorized ''Invalid SCIM token'')
      else (case find (\<lambda>k. sk_hash k = sha token \<and> sk_isActive k \<and> sk_revokedAt k = None
                         \<and> (case sk_expiresAt k of None \<Rightarrow> True | Some e \<Rightarrow> e > t)) tokens of
              None \<Rightarrow> Inl (Unauthorized ''Invalid or expired SCIM token'')
            | Some k \<Rightarrow> Inr k))"

section \<open>Values\<close>

fun js_get :: "jsv \<Rightarrow> string \<Rightarrow> jsv" where
  "js_get (JObj es) k = field es k"
| "js_get v k = JUndef"

fun js_index :: "jsv \<Rightarrow> jsv" where
  "js_index (JArr (x # xs)) = x"
| "js_index v = JUndef"

definition js_or :: "jsv \<Rightarrow> jsv \<Rightarrow> jsv" where
  "js_or v w = (if obj_truthy v then v else w)"

definition type_error :: http_error where "type_error = ServerError ''TypeError''"

fun bound_text :: "jsv \<Rightarrow> string option res" where
  "bound_text (JArr xs) = Inl (ServerError ''SQL'')"
| "bound_text (JObj es) = Inl (ServerError ''SQL'')"
| "bound_text JUndef = Inr None"
| "bound_text JNull = Inr None"
| "bound_text (JBool b) = Inr (Some (if b then ''1'' else ''0''))"
| "bound_text v = Inr (Some (js_text v))"

definition bound_name :: "jsv \<Rightarrow> string res" where
  "bound_name v = (case bound_text v of Inl e \<Rightarrow> Inl e | Inr None \<Rightarrow> Inl (ServerError ''SQL'') | Inr (Some x) \<Rightarrow> Inr x)"

text \<open>\<open>/[\s-]+/g\<close> replaced by an underscore.\<close>

fun dash_runs :: "bool \<Rightarrow> string \<Rightarrow> string" where
  "dash_runs b [] = []"
| "dash_runs b (c # s) = (if ch_space c \<or> c = CHR ''-'' then (if b then dash_runs True s else CHR ''_'' # dash_runs True s)
                      else c # dash_runs False s)"

definition SCIM_ROLES :: "string list" where
  "SCIM_ROLES = [''TENANT_ADMIN'', ''TECHNICIAN'', ''CLIENT'', ''READ_ONLY'']"

definition map_role :: "jsv \<Rightarrow> string" where
  "map_role roles =
     (let v = (case roles of JArr xs \<Rightarrow> js_or (js_get (js_index roles) ''value'') (js_index roles)
                           | _ \<Rightarrow> js_or roles (JStr ''CLIENT''));
          requested = dash_runs False (js_upper (js_text v)) in
      if requested \<in> set SCIM_ROLES then requested else ''CLIENT'')"

definition scim_email :: "jsv \<Rightarrow> string" where
  "scim_email body = js_lower (js_trim (js_text (js_or (js_or (js_get body ''userName'')
     (js_get (js_index (js_get body ''emails'')) ''value'')) (JStr []))))"

definition scim_given :: "jsv \<Rightarrow> string \<Rightarrow> jsv" where
  "scim_given body email = js_or (js_or (js_get (js_get body ''name'') ''givenName'') (js_get body ''displayName''))
     (JStr (takeWhile (\<lambda>c. c \<noteq> CHR ''@'') email))"

definition scim_family :: "jsv \<Rightarrow> jsv" where
  "scim_family body = js_or (js_get (js_get body ''name'') ''familyName'') (JStr ''User'')"

definition is_active :: "jsv \<Rightarrow> bool" where
  "is_active body \<longleftrightarrow> js_get body ''active'' \<noteq> JBool False"

section \<open>Users\<close>

definition scim_user_of :: "string \<Rightarrow> string \<Rightarrow> scim_db \<Rightarrow> scim_user res" where
  "scim_user_of c i s = (case find (\<lambda>u. xu_id u = i \<and> xu_companyId u = Some c \<and> xu_deletedAt u = None) (xs_users s) of
     None \<Rightarrow> Inl (NotFound ''SCIM user not found'') | Some u \<Rightarrow> Inr u)"

record scim_view =
  xw_id :: string
  xw_externalId :: "string option"
  xw_userName :: string
  xw_active :: bool
  xw_displayName :: string
  xw_role :: string

definition to_scim :: "scim_user \<Rightarrow> scim_view" where
  "to_scim u = \<lparr>xw_id = xu_id u, xw_externalId = or_null (xu_externalId u), xw_userName = xu_email u, xw_active = xu_isActive u,
     xw_displayName = js_trim (xu_firstName u @ '' '' @ xu_lastName u), xw_role = xu_role u\<rparr>"

definition get_user :: "string \<Rightarrow> string \<Rightarrow> scim_view scim" where
  "get_user c i = bindE (xs_get (scim_user_of c i)) (\<lambda>u. ret (to_scim u))"

text \<open>The unique keys of the user table: the e-mail, and the external id within a company.\<close>

definition user_key_taken :: "scim_user \<Rightarrow> scim_user \<Rightarrow> bool" where
  "user_key_taken u x \<longleftrightarrow> xu_email x = xu_email u
     \<or> xu_companyId u \<noteq> None \<and> xu_companyId x = xu_companyId u \<and> xu_externalId u \<noteq> None \<and> xu_externalId x = xu_externalId u"

definition new_scim_user :: "world \<Rightarrow> string \<Rightarrow> jsv \<Rightarrow> string \<Rightarrow> string option \<Rightarrow> scim_user" where
  "new_scim_user w c body email externalId = \<lparr>xu_id = uuid w 0, xu_email = email,
     xu_firstName = take 100 (js_text (scim_given body email)), xu_lastName = take 100 (js_text (scim_family body)),
     xu_role = map_role (js_get body ''roles''), xu_companyId = Some c, xu_isActive = is_active body,
     xu_externalId = externalId, xu_managed = True, xu_authVersion = 0, xu_deletedAt = None\<rparr>"

definition create_user :: "world \<Rightarrow> string \<Rightarrow> jsv \<Rightarrow> scim_view scim" where
  "create_user w c body =
     (let email = scim_email body in
      bindE (guard (email \<noteq> []) (BadRequest ''userName is required'')) (\<lambda>_.
      bindE (reads xs_users) (\<lambda>us.
      bindE (guard (\<not> list_ex (\<lambda>u. xu_email u = email) us) (BadRequest ''User already exists'')) (\<lambda>_.
      bindE (of_res (bound_text (js_or (js_get body ''externalId'') JNull))) (\<lambda>externalId.
      let u = new_scim_user w c body email externalId in
      bindE (guard (\<not> list_ex (\<lambda>x. xu_id x = xu_id u \<or> user_key_taken u x) us) duplicate) (\<lambda>_.
      bindE (writes (\<lambda>s. s\<lparr>xs_users := xs_users s @ [u]\<rparr>)) (\<lambda>_.
      get_user c (uuid w 0))))))))"

definition revoke_scim_sessions :: "int \<Rightarrow> string \<Rightarrow> unit scim" where
  "revoke_scim_sessions t i = writes (\<lambda>s. s\<lparr>xs_sessions := map (\<lambda>x. if se_userId x = i \<and> se_revokedAt x = None
     then x\<lparr>se_revokedAt := Some t, se_reason := Some ''scim-user-change''\<rparr> else x) (xs_sessions s)\<rparr>)"

definition set_user :: "(scim_user \<Rightarrow> bool) \<Rightarrow> (scim_user \<Rightarrow> scim_user) \<Rightarrow> unit scim" where
  "set_user hit f = writes (\<lambda>s. s\<lparr>xs_users := map (\<lambda>u. if hit u then f u else u) (xs_users s)\<rparr>)"

definition replaced_user :: "string \<Rightarrow> string \<Rightarrow> string \<Rightarrow> string option \<Rightarrow> jsv \<Rightarrow> scim_user \<Rightarrow> scim_user" where
  "replaced_user email given family externalId body u = u\<lparr>xu_email := email, xu_firstName := given, xu_lastName := family,
     xu_role := map_role (js_get body ''roles''), xu_isActive := is_active body, xu_externalId := externalId,
     xu_managed := True, xu_authVersion := xu_authVersion u + 1\<rparr>"

definition replace_user :: "int \<Rightarrow> string \<Rightarrow> string \<Rightarrow> jsv \<Rightarrow> scim_view scim" where
  "replace_user t c i body =
     bindE (xs_get (scim_user_of c i)) (\<lambda>_.
     let email = scim_email body in
     bindE (guard (email \<noteq> []) (BadRequest ''userName is required'')) (\<lambda>_.
     bindE (of_res (bound_name (scim_given body email))) (\<lambda>given.
     bindE (of_res (bound_name (scim_family body))) (\<lambda>family.
     bindE (of_res (bound_text (js_or (js_get body ''externalId'') JNull))) (\<lambda>externalId.
     let hit = (\<lambda>u. xu_id u = i \<and> xu_companyId u = Some c);
         f = replaced_user email given family externalId body in
     bindE (reads xs_users) (\<lambda>us.
     bindE (guard (\<forall>u \<in> set us. hit u \<longrightarrow> \<not> list_ex (\<lambda>x. xu_id x \<noteq> i \<and> user_key_taken (f u) x) us) duplicate) (\<lambda>_.
     bindE (set_user hit f) (\<lambda>_.
     bindE (revoke_scim_sessions t i) (\<lambda>_.
     get_user c i)))))))))"

text \<open>One operation of a PATCH on the record the update is built from.\<close>

definition set_name :: "jsobj \<Rightarrow> string \<Rightarrow> jsv \<Rightarrow> jsobj res" where
  "set_name next k v = (case field next ''name'' of
     JObj es \<Rightarrow> Inr (obj_set next ''name'' (JObj (obj_set es k v)))
   | JArr xs \<Rightarrow> Inr next
   | _ \<Rightarrow> Inl type_error)"

definition patch_user_op :: "jsv \<Rightarrow> jsobj \<Rightarrow> jsobj res" where
  "patch_user_op op next =
     (let path = js_lower (js_text (js_or (js_get op ''path'') (JStr []))); v = js_get op ''value'' in
      if op = JNull \<or> op = JUndef then Inl type_error
      else if js_lower (js_text (js_get op ''op'')) = ''remove'' then
        Inr (if js_lower (js_text (js_get op ''path'')) = ''externalid'' then obj_set next ''externalId'' JNull else next)
      else if path = [] \<and> (case v of JObj es \<Rightarrow> True | _ \<Rightarrow> False) then
        (case v of JObj es \<Rightarrow> Inr (foldl (\<lambda>n (k, x). obj_set n k x) next es) | _ \<Rightarrow> Inr next)
      else if path = ''active'' then Inr (obj_set next ''active'' (JBool (obj_truthy v)))
      else if path = ''username'' then Inr (obj_set next ''userName'' v)
      else if path = ''externalid'' then Inr (obj_set next ''externalId'' v)
      else if path = ''name.givenname'' then set_name next ''givenName'' v
      else if path = ''name.familyname'' then set_name next ''familyName'' v
      else if path = ''roles'' then Inr (obj_set next ''roles'' v)
      else Inr next)"

fun patch_user_ops :: "jsv list \<Rightarrow> jsobj \<Rightarrow> jsobj res" where
  "patch_user_ops [] next = Inr next"
| "patch_user_ops (op # ops) next = (case patch_user_op op next of Inl e \<Rightarrow> Inl e | Inr n \<Rightarrow> patch_user_ops ops n)"

text \<open>\<open>body.Operations || body.operations || []\<close>; a string yields its characters, which do nothing.\<close>

definition operations :: "jsv \<Rightarrow> jsv list res" where
  "operations body = (case js_or (js_or (js_get body ''Operations'') (js_get body ''operations'')) (JArr []) of
     JArr xs \<Rightarrow> Inr xs | JStr s \<Rightarrow> Inr (map (\<lambda>c. JStr [c]) s) | _ \<Rightarrow> Inl type_error)"

definition patch_start :: "scim_user \<Rightarrow> jsobj" where
  "patch_start u = [(''userName'', JStr (xu_email u)), (''active'', JBool (xu_isActive u)), (''externalId'', js_opt (xu_externalId u)),
     (''name'', JObj [(''givenName'', JStr (xu_firstName u)), (''familyName'', JStr (xu_lastName u))]),
     (''roles'', JArr [JObj [(''value'', JStr (xu_role u))]])]"

definition patch_user :: "int \<Rightarrow> string \<Rightarrow> string \<Rightarrow> jsv \<Rightarrow> scim_view scim" where
  "patch_user t c i body =
     bindE (xs_get (scim_user_of c i)) (\<lambda>u.
     bindE (of_res (operations body)) (\<lambda>ops.
     bindE (of_res (patch_user_ops ops (patch_start u))) (\<lambda>next.
     replace_user t c i (JObj next))))"

definition delete_user :: "int \<Rightarrow> string \<Rightarrow> string \<Rightarrow> unit scim" where
  "delete_user t c i =
     bindE (xs_get (scim_user_of c i)) (\<lambda>_.
     bindE (set_user (\<lambda>u. xu_id u = i \<and> xu_companyId u = Some c)
       (\<lambda>u. u\<lparr>xu_isActive := False, xu_deletedAt := Some t, xu_authVersion := xu_authVersion u + 1\<rparr>)) (\<lambda>_.
     revoke_scim_sessions t i))"

section \<open>Lists\<close>

text \<open>\<open>/^(userName|externalId)\s+eq\s+"([^"]+)"$/i\<close>: which column, and the value.\<close>

definition skip_spaces :: "string \<Rightarrow> string option" where
  "skip_spaces s = (if s \<noteq> [] \<and> ch_space (hd s) then Some (dropWhile ch_space s) else None)"

definition scim_filter :: "string \<Rightarrow> (string \<times> string) option" where
  "scim_filter s =
     (let key = (if js_lower (take 8 s) = ''username'' then Some (''email'', drop 8 s)
                 else if js_lower (take 10 s) = ''externalid'' then Some (''scimExternalId'', drop 10 s) else None) in
      case key of None \<Rightarrow> None | Some (col, r) \<Rightarrow>
      (case skip_spaces r of None \<Rightarrow> None | Some r \<Rightarrow>
       if js_lower (take 2 r) \<noteq> ''eq'' then None
       else (case skip_spaces (drop 2 r) of None \<Rightarrow> None | Some r \<Rightarrow>
         let q = CHR 0x22; v = butlast (drop 1 r) in
         if 3 \<le> length r \<and> hd r = q \<and> last r = q \<and> q \<notin> set v then Some (col, v) else None)))"

record scim_query =
  xq_startIndex :: "int option"
  xq_count :: "int option"
  xq_filter :: "string option"

definition scim_start :: "scim_query \<Rightarrow> int" where
  "scim_start q = max 1 (case xq_startIndex q of None \<Rightarrow> 1 | Some n \<Rightarrow> if n = 0 then 1 else n)"

definition scim_count :: "scim_query \<Rightarrow> int" where
  "scim_count q = min 200 (max 1 (case xq_count q of None \<Rightarrow> 100 | Some n \<Rightarrow> if n = 0 then 100 else n))"

definition scim_page :: "scim_query \<Rightarrow> 'a list \<Rightarrow> 'a list" where
  "scim_page q xs = take (nat (scim_count q)) (drop (nat (scim_start q - 1)) xs)"

text \<open>The total and the page of a list response.\<close>

definition list_users :: "string \<Rightarrow> scim_query \<Rightarrow> scim_db \<Rightarrow> nat \<times> scim_view list" where
  "list_users c q s =
     (let hit = (case scim_filter (or_str (xq_filter q) []) of None \<Rightarrow> (\<lambda>u. True)
                 | Some (col, v) \<Rightarrow> if col = ''email'' then (\<lambda>u. xu_email u = v) else (\<lambda>u. xu_externalId u = Some v));
          us = filter (\<lambda>u. xu_companyId u = Some c \<and> xu_deletedAt u = None \<and> hit u) (xs_users s) in
      (length us, map to_scim (scim_page q us)))"

section \<open>Groups\<close>

definition find_group :: "string \<Rightarrow> string \<Rightarrow> scim_db \<Rightarrow> scim_group res" where
  "find_group c i s = (case find (\<lambda>g. xg_id g = i \<and> xg_companyId g = c) (xs_groups s) of
     None \<Rightarrow> Inl (NotFound ''SCIM group not found'') | Some g \<Rightarrow> Inr g)"

definition to_scim_group :: "string \<Rightarrow> scim_group \<Rightarrow> scim_db \<Rightarrow> scim_group \<times> (string \<times> string) list" where
  "to_scim_group c g s = (g, concat (map (\<lambda>(k, i).
     if k = xg_id g then map (\<lambda>u. (xu_id u, xu_email u)) (filter (\<lambda>u. xu_id u = i \<and> xu_companyId u = Some c) (xs_users s)) else [])
     (xs_members s)))"

definition get_group :: "string \<Rightarrow> string \<Rightarrow> (scim_group \<times> (string \<times> string) list) scim" where
  "get_group c i = bindE (xs_get (find_group c i)) (\<lambda>g. reads (to_scim_group c g))"

definition list_groups :: "string \<Rightarrow> scim_query \<Rightarrow> scim_db \<Rightarrow> nat \<times> (scim_group \<times> (string \<times> string) list) list" where
  "list_groups c q s =
     (let gs = filter (\<lambda>g. xg_companyId g = c) (xs_groups s) in
      (length gs, map (\<lambda>g. to_scim_group c g s) (scim_page q (sort_key xg_displayName gs))))"

text \<open>The ids a list of members names: the last segment of \<open>value\<close> or \<open>$ref\<close>, each once.\<close>

fun first_seen :: "'a list \<Rightarrow> 'a list \<Rightarrow> 'a list" where
  "first_seen seen [] = []"
| "first_seen seen (x # xs) = (if x \<in> set seen then first_seen seen xs else x # first_seen (x # seen) xs)"

definition member_id :: "jsv \<Rightarrow> string" where
  "member_id m = last (str_split (CHR ''/'') (js_text (js_or (js_or (js_get m ''value'') (js_get m ''$ref'')) (JStr []))))"

definition member_ids :: "jsv \<Rightarrow> string list res" where
  "member_ids members = (case js_or members (JArr []) of
     JArr ms \<Rightarrow> if \<exists>m \<in> set ms. m = JNull \<or> m = JUndef then Inl type_error
               else Inr (filter (\<lambda>i. i \<noteq> []) (first_seen [] (map member_id ms)))
   | _ \<Rightarrow> Inl type_error)"

definition group_roles :: "string \<Rightarrow> string \<Rightarrow> scim_db \<Rightarrow> string list" where
  "group_roles c i s =
     (let ext = map_option xg_externalId (find (\<lambda>g. xg_id g = i) (xs_groups s)) in
      concat (map (\<lambda>m. case gm_roleId m of None \<Rightarrow> [] | Some r \<Rightarrow> [r])
        (sort_key gm_priority (filter (\<lambda>m. gm_companyId m = c \<and> (gm_group m = i \<or> ext = Some (Some (gm_group m)))) (xs_mappings s)))))"

definition insert_ignore :: "'a \<Rightarrow> 'a list \<Rightarrow> 'a list" where
  "insert_ignore x xs = (if x \<in> set xs then xs else xs @ [x])"

definition apply_mappings :: "int \<Rightarrow> string \<Rightarrow> string \<Rightarrow> string list \<Rightarrow> unit scim" where
  "apply_mappings t c i userIds =
     bindE (reads (group_roles c i)) (\<lambda>rs.
     forE userIds (\<lambda>u.
       bindE (writes (\<lambda>s. s\<lparr>xs_user_roles := foldl (\<lambda>acc r. insert_ignore (u, r) acc) (xs_user_roles s) rs\<rparr>)) (\<lambda>_.
       if rs = [] then ret ()
       else bindE (set_user (\<lambda>x. xu_id x = u) (\<lambda>x. x\<lparr>xu_authVersion := xu_authVersion x + 1\<rparr>)) (\<lambda>_.
            revoke_scim_sessions t u))))"

definition replace_members :: "int \<Rightarrow> string \<Rightarrow> string \<Rightarrow> jsv \<Rightarrow> unit scim" where
  "replace_members t c i members =
     bindE (writes (\<lambda>s. s\<lparr>xs_members := filter (\<lambda>(g, u). g \<noteq> i) (xs_members s)\<rparr>)) (\<lambda>_.
     bindE (of_res (member_ids members)) (\<lambda>userIds.
     bindE (forE userIds (\<lambda>u. writes (\<lambda>s.
       if list_ex (\<lambda>x. xu_id x = u \<and> xu_companyId x = Some c \<and> xu_deletedAt x = None) (xs_users s)
       then s\<lparr>xs_members := insert_ignore (i, u) (xs_members s)\<rparr> else s))) (\<lambda>_.
     apply_mappings t c i userIds)))"

text \<open>The unique key of groups: the external id within a company.\<close>

definition group_key_taken :: "string \<Rightarrow> string \<Rightarrow> string option \<Rightarrow> scim_group list \<Rightarrow> bool" where
  "group_key_taken i c e gs \<longleftrightarrow> e \<noteq> None \<and> list_ex (\<lambda>g. xg_id g \<noteq> i \<and> xg_companyId g = c \<and> xg_externalId g = e) gs"

definition group_name :: "jsv \<Rightarrow> string" where
  "group_name body = js_trim (js_text (js_or (js_get body ''displayName'') (JStr [])))"

definition create_group :: "world \<Rightarrow> string \<Rightarrow> jsv \<Rightarrow> (scim_group \<times> (string \<times> string) list) scim" where
  "create_group w c body =
     (let i = uuid w 0; displayName = group_name body in
      bindE (guard (displayName \<noteq> []) (BadRequest ''displayName is required'')) (\<lambda>_.
      bindE (of_res (bound_text (js_or (js_get body ''externalId'') (JStr i)))) (\<lambda>externalId.
      bindE (reads xs_groups) (\<lambda>gs.
      bindE (guard (\<not> list_ex (\<lambda>g. xg_id g = i) gs \<and> \<not> group_key_taken i c externalId gs) duplicate) (\<lambda>_.
      bindE (writes (\<lambda>s. s\<lparr>xs_groups := xs_groups s @ [\<lparr>xg_id = i, xg_companyId = c, xg_externalId = externalId,
        xg_displayName = displayName\<rparr>]\<rparr>)) (\<lambda>_.
      bindE (replace_members (now w) c i (js_or (js_get body ''members'') (JArr []))) (\<lambda>_.
      get_group c i)))))))"

definition set_group :: "string \<Rightarrow> string \<Rightarrow> (scim_group \<Rightarrow> scim_group) \<Rightarrow> unit scim" where
  "set_group c i f = writes (\<lambda>s. s\<lparr>xs_groups := map (\<lambda>g. if xg_id g = i \<and> xg_companyId g = c then f g else g) (xs_groups s)\<rparr>)"

definition replace_group :: "int \<Rightarrow> string \<Rightarrow> string \<Rightarrow> jsv \<Rightarrow> (scim_group \<times> (string \<times> string) list) scim" where
  "replace_group t c i body =
     bindE (xs_get (find_group c i)) (\<lambda>_.
     let displayName = group_name body in
     bindE (guard (displayName \<noteq> []) (BadRequest ''displayName is required'')) (\<lambda>_.
     bindE (of_res (bound_text (js_or (js_get body ''externalId'') (JStr i)))) (\<lambda>externalId.
     bindE (reads xs_groups) (\<lambda>gs.
     bindE (guard (\<not> group_key_taken i c externalId gs) duplicate) (\<lambda>_.
     bindE (set_group c i (\<lambda>g. g\<lparr>xg_externalId := externalId, xg_displayName := displayName\<rparr>)) (\<lambda>_.
     bindE (replace_members t c i (js_or (js_get body ''members'') (JArr []))) (\<lambda>_.
     get_group c i)))))))"

definition member_refs :: "string \<Rightarrow> scim_db \<Rightarrow> jsv list" where
  "member_refs i s = map (\<lambda>(g, u). JObj [(''value'', JStr u)]) (filter (\<lambda>(g, u). g = i) (xs_members s))"

text \<open>The operations of a group PATCH, given the present members; the accumulator is the new name and members.\<close>

definition arr :: "jsv \<Rightarrow> jsv list" where
  "arr v = (case v of JArr xs \<Rightarrow> xs | _ \<Rightarrow> [])"

definition patch_group_op :: "jsv list \<Rightarrow> jsv \<Rightarrow> string \<times> jsv list option \<Rightarrow> string \<times> jsv list option" where
  "patch_group_op present operation acc =
     (let op = js_lower (js_text (js_or (js_get operation ''op'') (JStr [])));
          path = js_lower (js_text (js_or (js_get operation ''path'') (JStr [])));
          v = js_get operation ''value'';
          (displayName, members) = acc;
          displayName = (if op = ''replace'' \<and> path = ''displayname'' then js_trim (js_text (js_or v (JStr []))) else displayName);
          members = (if op = ''replace'' \<and> (path = [] \<or> path = ''members'') then Some (arr v) else members);
          members = (if op = ''add'' \<and> (path = [] \<or> path = ''members'') then Some (present @ arr v) else members);
          members = (if op = ''remove'' \<and> starts_with path ''members'' then Some [] else members) in
      (displayName, members))"

definition patch_group :: "int \<Rightarrow> string \<Rightarrow> string \<Rightarrow> jsv \<Rightarrow> (scim_group \<times> (string \<times> string) list) scim" where
  "patch_group t c i body =
     bindE (xs_get (find_group c i)) (\<lambda>g.
     bindE (of_res (operations body)) (\<lambda>ops.
     bindE (guard (JNull \<notin> set ops \<and> JUndef \<notin> set ops) type_error) (\<lambda>_.
     bindE (reads (member_refs i)) (\<lambda>present.
     let (displayName, members) = foldl (\<lambda>acc op. patch_group_op present op acc) (xg_displayName g, None) ops in
     bindE (set_group c i (\<lambda>g. g\<lparr>xg_displayName := displayName\<rparr>)) (\<lambda>_.
     bindE (case members of None \<Rightarrow> ret () | Some ms \<Rightarrow> replace_members t c i (JArr ms)) (\<lambda>_.
     get_group c i))))))"

definition delete_group :: "string \<Rightarrow> string \<Rightarrow> unit scim" where
  "delete_group c i =
     bindE (xs_get (find_group c i)) (\<lambda>_.
     bindE (writes (\<lambda>s. s\<lparr>xs_members := filter (\<lambda>(g, u). g \<noteq> i) (xs_members s)\<rparr>)) (\<lambda>_.
     writes (\<lambda>s. s\<lparr>xs_groups := filter (\<lambda>g. \<not> (xg_id g = i \<and> xg_companyId g = c)) (xs_groups s)\<rparr>)))"

end
