(* ===== verification/Scim_Props.thy ===== *)
theory Scim_Props
  imports Scim Auth_Claims
begin

text \<open>
  Properties of provisioning: what calls with one company's token can change, what deactivating
  a user does, and where group mappings reach beyond the company.
\<close>

section \<open>The machine\<close>

datatype scim_call =
    SCreate world jsv
  | SReplace int string jsv
  | SPatch int string jsv
  | SDelete int string
  | SGroup world jsv
  | SReplaceGroup int string jsv
  | SPatchGroup int string jsv
  | SDeleteGroup string

fun scim_step :: "string \<Rightarrow> scim_call \<Rightarrow> scim_db \<Rightarrow> scim_db" where
  "scim_step c (SCreate w b) s = snd (create_user w c b s)"
| "scim_step c (SReplace t i b) s = snd (replace_user t c i b s)"
| "scim_step c (SPatch t i b) s = snd (patch_user t c i b s)"
| "scim_step c (SDelete t i) s = snd (delete_user t c i s)"
| "scim_step c (SGroup w b) s = snd (create_group w c b s)"
| "scim_step c (SReplaceGroup t i b) s = snd (replace_group t c i b s)"
| "scim_step c (SPatchGroup t i b) s = snd (patch_group t c i b s)"
| "scim_step c (SDeleteGroup i) s = snd (delete_group c i s)"

section \<open>One company's token\<close>

definition outsiders :: "string \<Rightarrow> scim_db \<Rightarrow> scim_user list" where
  "outsiders c s = map (\<lambda>u. u\<lparr>xu_authVersion := 0\<rparr>) (filter (\<lambda>u. xu_companyId u \<noteq> Some c) (xs_users s))"

definition mapped_role :: "string \<Rightarrow> scim_db \<Rightarrow> string \<Rightarrow> bool" where
  "mapped_role c s r \<longleftrightarrow> (\<exists>m \<in> set (xs_mappings s). gm_companyId m = c \<and> gm_roleId m = Some r)"

definition confined :: "string \<Rightarrow> scim_db \<Rightarrow> scim_db \<Rightarrow> bool" where
  "confined c s0 s \<longleftrightarrow> outsiders c s = outsiders c s0
     \<and> (\<forall>u \<in> set (xs_users s). xu_role u \<in> set SCIM_ROLES \<or> (\<exists>v \<in> set (xs_users s0). xu_id v = xu_id u \<and> xu_role v = xu_role u))
     \<and> filter (\<lambda>g. xg_companyId g \<noteq> c) (xs_groups s) = filter (\<lambda>g. xg_companyId g \<noteq> c) (xs_groups s0)
     \<and> xs_mappings s = xs_mappings s0
     \<and> (\<forall>(u, r) \<in> set (xs_user_roles s). (u, r) \<in> set (xs_user_roles s0) \<or> mapped_role c s0 r)"

lemma map_role_known: "map_role v \<in> set SCIM_ROLES"
  by (simp add: map_role_def Let_def SCIM_ROLES_def)

lemma keeps_xs_get [keeps_intros]: "keeps I (xs_get f)"
  unfolding xs_get_def by (intro keeps_intros)

lemma confined_other:
  "(\<And>s. xs_users (f s) = xs_users s \<and> xs_groups (f s) = xs_groups s \<and> xs_mappings (f s) = xs_mappings s
      \<and> xs_user_roles (f s) = xs_user_roles s) \<Longrightarrow> keeps (confined c s0) (writes f)"
  by (rule keeps_writes) (simp add: confined_def outsiders_def)

lemma outsiders_map:
  assumes "\<And>u. u \<in> set us \<Longrightarrow> hit u \<Longrightarrow> xu_companyId (f u) = xu_companyId u \<and> (xu_companyId u \<noteq> Some c \<longrightarrow> f u = u\<lparr>xu_authVersion := xu_authVersion (f u)\<rparr>)"
  shows "map (\<lambda>u. u\<lparr>xu_authVersion := 0\<rparr>) (filter (\<lambda>u. xu_companyId u \<noteq> Some c) (map (\<lambda>u. if hit u then f u else u) us))
       = map (\<lambda>u. u\<lparr>xu_authVersion := 0\<rparr>) (filter (\<lambda>u. xu_companyId u \<noteq> Some c) us)"
  using assms
proof (induction us)
  case (Cons u us)
  have "hit u \<Longrightarrow> xu_companyId u \<noteq> Some c \<Longrightarrow> (f u)\<lparr>xu_authVersion := 0\<rparr> = u\<lparr>xu_authVersion := 0\<rparr>"
    using Cons.prems[of u] by (cases u; cases "f u") auto
  with Cons show ?case by auto
qed simp

lemma confined_set_user:
  assumes f: "\<And>u. hit u \<Longrightarrow> xu_companyId (f u) = xu_companyId u \<and> xu_id (f u) = xu_id u
      \<and> (xu_role (f u) \<in> set SCIM_ROLES \<or> xu_role (f u) = xu_role u)
      \<and> (xu_companyId u \<noteq> Some c \<longrightarrow> f u = u\<lparr>xu_authVersion := xu_authVersion (f u)\<rparr>)"
  shows "keeps (confined c s0) (set_user hit f)"
  unfolding set_user_def
proof (rule keeps_writes)
  fix s assume s: "confined c s0 s"
  let ?us = "map (\<lambda>u. if hit u then f u else u) (xs_users s)"
  have "outsiders c (s\<lparr>xs_users := ?us\<rparr>) = outsiders c s"
  proof -
    have e: "xs_users (s\<lparr>xs_users := ?us\<rparr>) = ?us" by simp
    show ?thesis unfolding outsiders_def e by (rule outsiders_map) (use f in blast)
  qed
  moreover have "xu_role u \<in> set SCIM_ROLES \<or> (\<exists>v \<in> set (xs_users s0). xu_id v = xu_id u \<and> xu_role v = xu_role u)"
    if "u \<in> set ?us" for u
  proof -
    from that obtain x where x: "x \<in> set (xs_users s)" "u = (if hit x then f x else x)" by auto
    with s have "xu_role x \<in> set SCIM_ROLES \<or> (\<exists>v \<in> set (xs_users s0). xu_id v = xu_id x \<and> xu_role v = xu_role x)"
      by (simp add: confined_def)
    with x(2) f[of x] show ?thesis by (cases "hit x") auto
  qed
  ultimately show "confined c s0 (s\<lparr>xs_users := ?us\<rparr>)" using s unfolding confined_def by simp
qed

lemma confined_sessions [keeps_intros]: "keeps (confined c s0) (revoke_scim_sessions t i)"
  unfolding revoke_scim_sessions_def by (rule confined_other) simp

lemma confined_set_group [keeps_intros]:
  assumes "\<And>g. xg_companyId (f g) = xg_companyId g"
  shows "keeps (confined c s0) (set_group c i f)"
proof -
  have e: "filter (\<lambda>g. xg_companyId g \<noteq> c) (map (\<lambda>g. if xg_id g = i \<and> xg_companyId g = c then f g else g) gs)
     = filter (\<lambda>g. xg_companyId g \<noteq> c) gs" for gs
    using assms by (induction gs) auto
  show ?thesis
    unfolding set_group_def by (rule keeps_writes) (simp add: confined_def outsiders_def e)
qed

lemma confined_get [keeps_intros]: "keeps (confined c s0) (get_user c' i)" "keeps (confined c s0) (get_group c' i)"
  unfolding get_user_def get_group_def by (intro keeps_intros)+

lemma confined_create: "keeps (confined c s0) (create_user w c b)"
proof -
  have "keeps (confined c s0) (writes (\<lambda>s. s\<lparr>xs_users := xs_users s @ [new_scim_user w c b e x]\<rparr>))" for e x
    by (rule keeps_writes) (auto simp: confined_def outsiders_def new_scim_user_def map_role_known)
  note add = this
  show ?thesis unfolding create_user_def Let_def by (intro keeps_intros add)
qed

lemma confined_replace: "keeps (confined c s0) (replace_user t c i b)"
  unfolding replace_user_def Let_def
  by (intro keeps_intros confined_set_user) (simp add: replaced_user_def map_role_known)

lemma confined_patch: "keeps (confined c s0) (patch_user t c i b)"
  unfolding patch_user_def by (intro keeps_intros confined_replace)

lemma confined_delete: "keeps (confined c s0) (delete_user t c i)"
  unfolding delete_user_def by (intro keeps_intros confined_set_user) simp

lemma foldl_insert_ignore: "set (foldl (\<lambda>acc r. insert_ignore (u, r) acc) xs rs) = set xs \<union> Pair u ` set rs"
  by (induction rs arbitrary: xs) (auto simp: insert_ignore_def)

lemma group_roles_mapped: "r \<in> set (group_roles c i s) \<Longrightarrow> mapped_role c s r"
  by (auto simp: group_roles_def Let_def mapped_role_def split: option.splits)

lemma confined_apply: "keeps (confined c s0) (apply_mappings t c i us)"
proof (rule keepsI)
  fix s assume s: "confined c s0 s"
  let ?rs = "group_roles c i s"
  have m: "r \<in> set ?rs \<Longrightarrow> mapped_role c s0 r" for r
    using group_roles_mapped[of r c i s] s by (simp add: mapped_role_def confined_def)
  have w: "keeps (confined c s0) (writes (\<lambda>s. s\<lparr>xs_user_roles := foldl (\<lambda>acc r. insert_ignore (u, r) acc) (xs_user_roles s) ?rs\<rparr>))" for u
  proof (rule keeps_writes)
    fix x assume "confined c s0 x"
    with m show "confined c s0 (x\<lparr>xs_user_roles := foldl (\<lambda>acc r. insert_ignore (u, r) acc) (xs_user_roles x) ?rs\<rparr>)"
      by (auto simp: confined_def outsiders_def foldl_insert_ignore)
  qed
  have "keeps (confined c s0) (forE us (\<lambda>u.
       bindE (writes (\<lambda>s. s\<lparr>xs_user_roles := foldl (\<lambda>acc r. insert_ignore (u, r) acc) (xs_user_roles s) ?rs\<rparr>)) (\<lambda>_.
       if ?rs = [] then ret ()
       else bindE (set_user (\<lambda>x. xu_id x = u) (\<lambda>x. x\<lparr>xu_authVersion := xu_authVersion x + 1\<rparr>)) (\<lambda>_.
            revoke_scim_sessions t u))))"
    by (intro keeps_intros w confined_set_user) simp
  with s show "confined c s0 (snd (apply_mappings t c i us s))"
    unfolding apply_mappings_def by (simp add: bindE_eval reads_eval keeps_def)
qed

lemma confined_members: "keeps (confined c s0) (replace_members t c i ms)"
  unfolding replace_members_def by (intro keeps_intros confined_other confined_apply) auto

lemma confined_groups: "keeps (confined c s0) (create_group w c b)" "keeps (confined c s0) (replace_group t c i b)"
  "keeps (confined c s0) (patch_group t c i b)" "keeps (confined c s0) (delete_group c i)"
proof -
  have "keeps (confined c s0) (writes (\<lambda>s. s\<lparr>xs_groups := xs_groups s @ [\<lparr>xg_id = i, xg_companyId = c, xg_externalId = e, xg_displayName = n\<rparr>]\<rparr>))" for i e n
    by (rule keeps_writes) (simp add: confined_def outsiders_def)
  note add = this
  have "keeps (confined c s0) (writes (\<lambda>s. s\<lparr>xs_groups := filter (\<lambda>g. \<not> (xg_id g = i \<and> xg_companyId g = c)) (xs_groups s)\<rparr>))"
  proof (rule keeps_writes)
    fix s assume s: "confined c s0 s"
    have "filter (\<lambda>g. xg_companyId g \<noteq> c) (filter (\<lambda>g. \<not> (xg_id g = i \<and> xg_companyId g = c)) gs)
       = filter (\<lambda>g. xg_companyId g \<noteq> c) gs" for gs by (induction gs) auto
    note e = this
    show "confined c s0 (s\<lparr>xs_groups := filter (\<lambda>g. \<not> (xg_id g = i \<and> xg_companyId g = c)) (xs_groups s)\<rparr>)"
      using s e[of "xs_groups s"] unfolding confined_def outsiders_def by (simp del: filter_filter)
  qed
  note del = this
  show "keeps (confined c s0) (create_group w c b)" "keeps (confined c s0) (replace_group t c i b)"
    "keeps (confined c s0) (patch_group t c i b)" "keeps (confined c s0) (delete_group c i)"
    unfolding create_group_def replace_group_def patch_group_def delete_group_def Let_def
    by (intro keeps_intros add del confined_members confined_other; simp)+
qed

lemmas scim_calls = confined_create confined_replace confined_patch confined_delete confined_groups

interpretation provisioning: guarded_machine any_call "scim_step c" "confined c s0" for c s0
proof
  fix e s assume "confined c s0 s"
  then show "confined c s0 (scim_step c e s)" by (cases e) (simp_all add: scim_calls[unfolded keeps_def])
qed

text \<open>
  C25. An identity provider stays within its company. After any calls with the token of a
  company, the users of all others are as before but for the version of their credentials,
  and so are the others' groups; nobody holds a role outside the four it may assign who did
  not hold it before, and every added role is one the company's mappings name.
\<close>
theorem provisioning_confined:
  assumes "reachable_by any_call (scim_step c) s0 s"
  shows "outsiders c s = outsiders c s0
    \<and> filter (\<lambda>g. xg_companyId g \<noteq> c) (xs_groups s) = filter (\<lambda>g. xg_companyId g \<noteq> c) (xs_groups s0)
    \<and> (\<forall>u \<in> set (xs_users s). xu_role u \<in> {''TENANT_ADMIN'', ''TECHNICIAN'', ''CLIENT'', ''READ_ONLY''}
          \<or> (\<exists>v \<in> set (xs_users s0). xu_id v = xu_id u \<and> xu_role v = xu_role u))
    \<and> (\<forall>(u, r) \<in> set (xs_user_roles s). (u, r) \<in> set (xs_user_roles s0)
          \<or> (\<exists>m \<in> set (xs_mappings s0). gm_companyId m = c \<and> gm_roleId m = Some r))"
proof -
  have "confined c s0 s0" by (auto simp: confined_def)
  then have "confined c s0 s" using provisioning.reachable_inv[OF assms] by blast
  then show ?thesis by (simp add: confined_def mapped_role_def SCIM_ROLES_def)
qed

section \<open>Deactivation\<close>

definition deactivation :: jsv where
  "deactivation = JObj [(''Operations'', JArr [JObj [(''op'', JStr ''replace''), (''path'', JStr ''active''), (''value'', JBool False)]])]"

definition canonical_user :: "scim_user \<Rightarrow> bool" where
  "canonical_user u \<longleftrightarrow> xu_email u \<noteq> [] \<and> js_lower (js_trim (xu_email u)) = xu_email u \<and> xu_firstName u \<noteq> [] \<and> xu_lastName u \<noteq> []
     \<and> xu_role u \<in> set SCIM_ROLES"

lemma map_role_same: "r \<in> set SCIM_ROLES \<Longrightarrow> map_role (JArr [JObj [(''value'', JStr r)]]) = r"
proof -
  have "list_all (\<lambda>r. map_role (JArr [JObj [(''value'', JStr r)]]) = r) SCIM_ROLES" by code_simp
  then show "r \<in> set SCIM_ROLES \<Longrightarrow> map_role (JArr [JObj [(''value'', JStr r)]]) = r" by (simp add: list_all_iff)
qed

lemma patched_off: "patch_user_ops (arr (js_get deactivation ''Operations'')) (patch_start u) = Inr (obj_set (patch_start u) ''active'' (JBool False))"
  by (simp add: deactivation_def arr_def field_def patch_user_op_def js_or_def obj_truthy_def Let_def ch_lower_def)

lemma operations_off: "operations deactivation = Inr (arr (js_get deactivation ''Operations''))"
  by (simp add: operations_def deactivation_def js_or_def obj_truthy_def field_def arr_def)

definition off_body :: "scim_user \<Rightarrow> jsv" where
  "off_body u = JObj (obj_set (patch_start u) ''active'' (JBool False))"

lemma off_fields:
  assumes "canonical_user u"
  shows "scim_email (off_body u) = xu_email u" "bound_name (scim_given (off_body u) e) = Inr (xu_firstName u)"
    "bound_name (scim_family (off_body u)) = Inr (xu_lastName u)" "is_active (off_body u) = False"
    "bound_text (js_or (js_get (off_body u) ''externalId'') JNull) = Inr (or_null (xu_externalId u))"
    "map_role (js_get (off_body u) ''roles'') = xu_role u"
  using assms
  by (cases "xu_externalId u"; simp add: canonical_user_def off_body_def patch_start_def scim_email_def scim_given_def scim_family_def
      is_active_def bound_name_def field_def js_or_def obj_truthy_def map_role_same or_null_def)+

lemma find_only:
  assumes "x \<in> set xs" "P x" "\<And>y. y \<in> set xs \<Longrightarrow> P y \<Longrightarrow> y = x"
  shows "find P xs = Some x"
proof -
  from assms(1,2) obtain z where z: "find P xs = Some z" by (cases "find P xs") (auto simp: find_None_iff)
  with assms(3)[of z] find_SomeD[OF z] show ?thesis by simp
qed

lemma bind_xs_get: "bindE (xs_get f) g s = (case f s of Inl e \<Rightarrow> (Inl e, s) | Inr x \<Rightarrow> g x s)"
  by (simp add: xs_get_def act_simps)

definition off_user :: "scim_user \<Rightarrow> scim_user" where
  "off_user u = u\<lparr>xu_isActive := False, xu_externalId := or_null (xu_externalId u), xu_managed := True,
     xu_authVersion := xu_authVersion u + 1\<rparr>"

lemma replaced_off: "canonical_user u \<Longrightarrow>
  replaced_user (xu_email u) (xu_firstName u) (xu_lastName u) (or_null (xu_externalId u)) (off_body u) u = off_user u"
  by (simp add: replaced_user_def off_user_def off_fields)

text \<open>
  C33. Deactivating a user ends every session. When an identity provider patches a live user
  of its company, holding one of the four roles, to inactive, exactly that user's row and
  sessions change: the user is inactive, marked as managed and has a new version of the
  credentials, and every session is revoked.
\<close>
theorem deactivation_ends_access:
  assumes u: "u \<in> set (xs_users s)" "xu_companyId u = Some c" "xu_deletedAt u = None" "canonical_user u"
    and keys: "distinct (map xu_id (xs_users s))" "\<forall>x \<in> set (xs_users s). x \<noteq> u \<longrightarrow> \<not> user_key_taken (off_user u) x"
  shows "\<exists>s'. patch_user t c (xu_id u) deactivation s = (Inr (to_scim (off_user u)), s')
    \<and> xs_users s' = map (\<lambda>x. if x = u then off_user u else x) (xs_users s)
    \<and> (\<forall>e \<in> set (xs_sessions s'). se_userId e = xu_id u \<longrightarrow> se_revokedAt e \<noteq> None)
    \<and> filter (\<lambda>e. se_userId e \<noteq> xu_id u) (xs_sessions s') = filter (\<lambda>e. se_userId e \<noteq> xu_id u) (xs_sessions s)"
proof -
  let ?i = "xu_id u"
  have one: "xu_id x = ?i \<longleftrightarrow> x = u" if "x \<in> set (xs_users s)" for x
    using keys(1) u(1) that by (auto simp: distinct_map inj_on_def)
  let ?hit = "\<lambda>x. xu_id x = ?i \<and> xu_companyId x = Some c"
  let ?f = "replaced_user (xu_email u) (xu_firstName u) (xu_lastName u) (or_null (xu_externalId u)) (off_body u)"
  have upd: "map (\<lambda>x. if ?hit x then ?f x else x) (xs_users s) = map (\<lambda>x. if x = u then off_user u else x) (xs_users s)"
    using one u(2) replaced_off[OF u(4)] by auto
  have free: "\<forall>x \<in> set (xs_users s). ?hit x \<longrightarrow> \<not> list_ex (\<lambda>y. xu_id y \<noteq> ?i \<and> user_key_taken (?f x) y) (xs_users s)"
    using one keys(2) replaced_off[OF u(4)] by (auto simp: list_ex_iff)
  have found: "scim_user_of c ?i s = Inr u"
    using find_only[OF u(1), of "\<lambda>x. xu_id x = ?i \<and> xu_companyId x = Some c \<and> xu_deletedAt x = None"] one u(2,3)
    by (simp add: scim_user_of_def)
  let ?us = "map (\<lambda>x. if x = u then off_user u else x) (xs_users s)"
  define ss where "ss = map (\<lambda>x. if se_userId x = ?i \<and> se_revokedAt x = None
     then x\<lparr>se_revokedAt := Some t, se_reason := Some ''scim-user-change''\<rparr> else x) (xs_sessions s)"
  let ?s = "s\<lparr>xs_users := ?us, xs_sessions := ss\<rparr>"
  have new: "off_user u \<in> set ?us" using imageI[OF u(1), of "\<lambda>x. if x = u then off_user u else x"] by simp
  have only: "y = off_user u" if "y \<in> set ?us" "xu_id y = ?i" for y
    using that one by (auto split: if_splits)
  have "find (\<lambda>x. xu_id x = ?i \<and> xu_companyId x = Some c \<and> xu_deletedAt x = None) ?us = Some (off_user u)"
    by (rule find_only[OF new _ only]) (use u(2,3) in \<open>simp_all add: off_user_def\<close>)
  then have found': "scim_user_of c ?i ?s = Inr (off_user u)"
    by (simp add: scim_user_of_def)
  have set: "set_user ?hit ?f s = (Inr (), s\<lparr>xs_users := ?us\<rparr>)" by (simp only: set_user_def writes_eval upd)
  have rev: "revoke_scim_sessions t ?i (s\<lparr>xs_users := ?us\<rparr>) = (Inr (), ?s)" by (simp add: revoke_scim_sessions_def writes_eval ss_def)
  have "replace_user t c ?i (off_body u) s = (Inr (to_scim (off_user u)), ?s)"
    unfolding replace_user_def Let_def bind_xs_get found sum.case
    using u(4) free by (simp add: bindE_eval guard_eval of_res_eval reads_eval off_fields canonical_user_def set rev
        get_user_def xs_get_def found' ret_eval)
  then have "patch_user t c ?i deactivation s = (Inr (to_scim (off_user u)), ?s)"
    unfolding patch_user_def bind_xs_get found sum.case by (simp add: bindE_eval of_res_eval operations_off patched_off off_body_def)
  moreover have "filter (\<lambda>e. se_userId e \<noteq> ?i) (map (\<lambda>x. if se_userId x = ?i \<and> se_revokedAt x = None
     then x\<lparr>se_revokedAt := Some t, se_reason := Some ''scim-user-change''\<rparr> else x) es) = filter (\<lambda>e. se_userId e \<noteq> ?i) es" for es
    by (induction es) auto
  then have "filter (\<lambda>e. se_userId e \<noteq> ?i) ss = filter (\<lambda>e. se_userId e \<noteq> ?i) (xs_sessions s)"
    unfolding ss_def by blast
  moreover have "\<forall>e \<in> set ss. se_userId e = ?i \<longrightarrow> se_revokedAt e \<noteq> None" by (auto simp: ss_def)
  ultimately show ?thesis by (intro exI[of _ ?s]) simp
qed

section \<open>Shortcomings\<close>

definition group_body :: "string \<Rightarrow> string \<Rightarrow> string \<Rightarrow> jsv" where
  "group_body name e i = JObj [(''displayName'', JStr name), (''externalId'', JStr e), (''members'', JArr [JObj [(''value'', JStr i)]])]"

lemma str_split_alone: "d \<notin> set s \<Longrightarrow> str_split d s = [s]"
  by (induction d s rule: str_split.induct) auto

lemma one_member: "i \<noteq> [] \<Longrightarrow> CHR ''/'' \<notin> set i \<Longrightarrow> member_ids (js_or (js_get (group_body n e i) ''members'') (JArr [])) = Inr [i]"
  by (simp add: member_ids_def group_body_def field_def js_or_def obj_truthy_def member_id_def str_split_alone)

lemma apply_one:
  assumes "group_roles c i s \<noteq> []"
  shows "apply_mappings t c i [u] s = (Inr (), s\<lparr>xs_user_roles := foldl (\<lambda>acc r. insert_ignore (u, r) acc) (xs_user_roles s) (group_roles c i s),
    xs_users := map (\<lambda>x. if xu_id x = u then x\<lparr>xu_authVersion := xu_authVersion x + 1\<rparr> else x) (xs_users s),
    xs_sessions := map (\<lambda>x. if se_userId x = u \<and> se_revokedAt x = None
      then x\<lparr>se_revokedAt := Some t, se_reason := Some ''scim-user-change''\<rparr> else x) (xs_sessions s)\<rparr>)"
  using assms by (simp add: apply_mappings_def act_simps set_user_def revoke_scim_sessions_def)

lemma group_roles_mem:
  assumes "find (\<lambda>g. xg_id g = i) (xs_groups s) = Some g" "xg_externalId g = Some e"
    and "m \<in> set (xs_mappings s)" "gm_companyId m = c" "gm_group m = e" "gm_roleId m = Some r"
  shows "r \<in> set (group_roles c i s)"
  using assms by (force simp: group_roles_def Let_def split: option.splits)

text \<open>
  A group reaches users of other companies. A group created with a member of another company
  does not list the member, but the roles mapped to the group are given to that user, the
  user's credentials are renewed and all the user's sessions are revoked.
\<close>
theorem group_reaches_other_company:
  assumes v: "v \<in> set (xs_users s)" "xu_companyId v \<noteq> Some c" "xu_id v \<noteq> []" "CHR ''/'' \<notin> set (xu_id v)" "distinct (map xu_id (xs_users s))"
    and m: "m \<in> set (xs_mappings s)" "gm_companyId m = c" "gm_group m = e" "gm_roleId m = Some r"
    and g: "js_trim name \<noteq> []" "e \<noteq> []" "\<forall>x \<in> set (xs_groups s). xg_id x \<noteq> uuid w 0 \<and> \<not> (xg_companyId x = c \<and> xg_externalId x = Some e)"
  shows "\<exists>s' x. create_group w c (group_body name e (xu_id v)) s = (Inr (x, []), s')
    \<and> (xu_id v, r) \<in> set (xs_user_roles s') \<and> v\<lparr>xu_authVersion := xu_authVersion v + 1\<rparr> \<in> set (xs_users s')
    \<and> (\<forall>e \<in> set (xs_sessions s'). se_userId e = xu_id v \<longrightarrow> se_revokedAt e \<noteq> None)"
proof -
  let ?g = "\<lparr>xg_id = uuid w 0, xg_companyId = c, xg_externalId = Some e, xg_displayName = js_trim name\<rparr>"
  let ?s = "s\<lparr>xs_groups := xs_groups s @ [?g], xs_members := filter (\<lambda>(g, u). g \<noteq> uuid w 0) (xs_members s)\<rparr>"
  have none: "find (\<lambda>g. xg_id g = uuid w 0) (xs_groups s) = None" using g(3) by (auto simp: find_None_iff)
  have r: "r \<in> set (group_roles c (uuid w 0) ?s)"
    by (rule group_roles_mem[of _ _ ?g e m]) (use m in \<open>simp_all add: find_append_new none\<close>)
  then have ne: "group_roles c (uuid w 0) ?s \<noteq> []" by auto
  have out: "\<not> list_ex (\<lambda>x. xu_id x = xu_id v \<and> xu_companyId x = Some c \<and> xu_deletedAt x = None) (xs_users s)"
    using v(1,2,5) by (auto simp: list_ex_iff distinct_map inj_on_def)
  note app = apply_one[OF ne, of "now w" "xu_id v"]
  let ?t = "snd (apply_mappings (now w) c (uuid w 0) [xu_id v] ?s)"
  have mem: "replace_members (now w) c (uuid w 0) (js_or (js_get (group_body name e (xu_id v)) ''members'') (JArr []))
     (s\<lparr>xs_groups := xs_groups s @ [?g]\<rparr>) = (Inr (), ?t)"
    unfolding replace_members_def one_member[OF v(3,4)] using out by (simp add: act_simps app)
  have body: "group_name (group_body name e (xu_id v)) = js_trim name"
    "bound_text (js_or (js_get (group_body name e (xu_id v)) ''externalId'') (JStr (uuid w 0))) = Inr (Some e)"
    using g(1,2) by (simp_all add: group_name_def group_body_def field_def js_or_def obj_truthy_def)
  have fields: "xs_groups ?t = xs_groups s @ [?g]" "xs_members ?t = filter (\<lambda>(g, u). g \<noteq> uuid w 0) (xs_members s)" by (simp_all add: app)
  have "create_group w c (group_body name e (xu_id v)) s = (Inr (?g, []), ?t)"
  proof -
    have free: "\<not> list_ex (\<lambda>g. xg_id g = uuid w 0) (xs_groups s) \<and> \<not> group_key_taken (uuid w 0) c (Some e) (xs_groups s)"
      using g(3) by (auto simp: list_ex_iff group_key_taken_def)
    have "find (\<lambda>g. xg_id g = uuid w 0 \<and> xg_companyId g = c) (xs_groups s) = None" using g(3) by (auto simp: find_None_iff)
    then have found: "find_group c (uuid w 0) ?t = Inr ?g" unfolding find_group_def fields by (simp add: find_append_new)
    have "concat (map (\<lambda>(k, i). if k = uuid w 0 then h i else []) (filter (\<lambda>(g, u). g \<noteq> uuid w 0) ms)) = []" for h :: "string \<Rightarrow> (string \<times> string) list" and ms
      by (induction ms) auto
    then have "to_scim_group c ?g ?t = (?g, [])" unfolding to_scim_group_def fields by simp
    with found have get: "get_group c (uuid w 0) ?t = (Inr (?g, []), ?t)" by (simp add: get_group_def xs_get_def act_simps)
    show ?thesis
      unfolding create_group_def Let_def body using g(1) free by (simp add: act_simps mem get del: list_ex_iff)
  qed
  moreover have "(xu_id v, r) \<in> set (xs_user_roles ?t)" using r by (simp add: app foldl_insert_ignore)
  moreover have "v\<lparr>xu_authVersion := xu_authVersion v + 1\<rparr> \<in> set (xs_users ?t)"
    using imageI[OF v(1), of "\<lambda>x. if xu_id x = xu_id v then x\<lparr>xu_authVersion := xu_authVersion x + 1\<rparr> else x"] by (simp add: app)
  moreover have "\<forall>e \<in> set (xs_sessions ?t). se_userId e = xu_id v \<longrightarrow> se_revokedAt e \<noteq> None" by (auto simp: app)
  ultimately show ?thesis by blast
qed

section \<open>Witnesses\<close>

definition z_user :: "string \<Rightarrow> string \<Rightarrow> string \<Rightarrow> scim_user" where
  "z_user i e c = \<lparr>xu_id = i, xu_email = e, xu_firstName = ''A'', xu_lastName = ''B'', xu_role = ''TECHNICIAN'',
     xu_companyId = Some c, xu_isActive = True, xu_externalId = None, xu_managed = False, xu_authVersion = 3, xu_deletedAt = None\<rparr>"

definition z_session :: "string \<Rightarrow> session" where
  "z_session i = \<lparr>se_id = ''s'' @ i, se_userId = i, se_refresh = i, se_device = [], se_agent = None, se_ip = None, se_createdAt = 1,
     se_lastSeenAt = None, se_mfaAt = None, se_expiresAt = 99, se_revokedAt = None, se_revokedById = None, se_reason = None\<rparr>"

definition z_mapping :: group_mapping where
  "z_mapping = \<lparr>gm_id = ''m1'', gm_companyId = ''c1'', gm_group = ''ext'', gm_groupName = None, gm_roleId = Some ''r1'',
     gm_preset = None, gm_priority = 100\<rparr>"

definition z_db :: scim_db where
  "z_db = \<lparr>xs_users = [z_user ''u1'' ''a@x.io'' ''c1'', z_user ''u2'' ''b@x.io'' ''c2''], xs_groups = [], xs_members = [],
     xs_mappings = [z_mapping], xs_user_roles = [], xs_sessions = [z_session ''u1'', z_session ''u2''], xs_tokens = []\<rparr>"

definition z_world :: world where "z_world = \<lparr>now = 50, uuid = (\<lambda>k. ''g'' @ replicate k (CHR ''x''))\<rparr>"

definition z_calls :: "scim_call list" where
  "z_calls = [SCreate z_world (JObj [(''userName'', JStr ''New@x.io''), (''roles'', JStr ''super-admin'')]),
     SGroup (z_world\<lparr>uuid := (\<lambda>k. ''h'')\<rparr>) (group_body ''Ops'' ''ext'' ''u2''), SPatch 60 ''u1'' deactivation]"

definition z_state :: scim_db where "z_state = fold (scim_step ''c1'') z_calls z_db"

lemma z_run: "map xu_role (xs_users z_state) = [''TECHNICIAN'', ''TECHNICIAN'', ''CLIENT'']" "xs_user_roles z_state = [(''u2'', ''r1'')]"
  by code_simp+

theorem provisioning_confined_witness:
  "outsiders ''c1'' z_state = [(z_user ''u2'' ''b@x.io'' ''c2'')\<lparr>xu_authVersion := 0\<rparr>] \<and> xs_user_roles z_state = [(''u2'', ''r1'')]"
proof -
  have r: "reachable_by any_call (scim_step ''c1'') z_db z_state"
    unfolding z_state_def by (rule provisioning.fold_reachable) (simp_all add: list_all_iff reach_start)
  have "outsiders ''c1'' z_db = [(z_user ''u2'' ''b@x.io'' ''c2'')\<lparr>xu_authVersion := 0\<rparr>]"
    by (simp add: outsiders_def z_db_def z_user_def)
  then show ?thesis using provisioning_confined[OF r] z_run(2) by simp
qed

lemma z_canonical: "canonical_user (z_user ''u1'' ''a@x.io'' ''c1'')"
  by code_simp

theorem deactivation_ends_access_witness:
  "fst (patch_user 60 ''c1'' ''u1'' deactivation z_db) = Inr (to_scim (off_user (z_user ''u1'' ''a@x.io'' ''c1'')))"
proof -
  have u: "z_user ''u1'' ''a@x.io'' ''c1'' \<in> set (xs_users z_db)" "xu_companyId (z_user ''u1'' ''a@x.io'' ''c1'') = Some ''c1''"
    "xu_deletedAt (z_user ''u1'' ''a@x.io'' ''c1'') = None" by (simp_all add: z_db_def z_user_def)
  have d: "distinct (map xu_id (xs_users z_db))" by (simp add: z_db_def z_user_def)
  have k: "\<forall>x \<in> set (xs_users z_db). x \<noteq> z_user ''u1'' ''a@x.io'' ''c1'' \<longrightarrow> \<not> user_key_taken (off_user (z_user ''u1'' ''a@x.io'' ''c1'')) x"
    by (simp add: z_db_def z_user_def user_key_taken_def off_user_def or_null_def)
  show ?thesis using deactivation_ends_access[OF u z_canonical d k, of 60] by (auto simp: z_user_def)
qed

theorem group_reaches_other_company_witness:
  "(''u2'', ''r1'') \<in> set (xs_user_roles (snd (create_group z_world ''c1'' (group_body ''Ops'' ''ext'' ''u2'') z_db)))"
proof -
  have t: "js_trim ''Ops'' \<noteq> []" by code_simp
  have "z_user ''u2'' ''b@x.io'' ''c2'' \<in> set (xs_users z_db)" by (simp add: z_db_def)
  from group_reaches_other_company[OF this, of "''c1''" z_mapping "''ext''" "''r1''" "''Ops''" z_world] t
  show ?thesis by (auto simp: z_db_def z_user_def z_mapping_def)
qed

end
