(* ===== verification/Users.thy ===== *)
theory Users
  imports Guards Auth_Accounts "HOL-Library.Char_ord" "HOL-Library.List_Lexorder"
begin

text \<open>
  User accounts (\<open>users/services/users.service.ts\<close>) and invitations into a company
  (\<open>admin/services/tenant-invitations.service.ts\<close>) over the account table of \<open>Auth\<close>. A row
  with a \<open>deletedAt\<close> is an account whose id \<open>ud_deleted\<close> lists. JSON columns appear parsed;
  the feature names of the generated product catalog are the parameter \<open>known\<close>. Invitation
  mails keep their receiver; the delivery itself does not fail.
\<close>

section \<open>Tables\<close>

record invitation =
  iv_id :: string
  iv_companyId :: string
  iv_email :: string
  iv_role :: string
  iv_hash :: string
  iv_invitedBy :: string
  iv_expiresAt :: int
  iv_acceptedAt :: "int option"
  iv_revokedAt :: "int option"

record favorite =
  fv_userId :: string
  fv_label :: string
  fv_path :: string

record users_db =
  ud_auth :: auth_db
  ud_deleted :: "(string \<times> int) list"
  ud_invitations :: "invitation list"
  ud_favorites :: "favorite list"
  ud_authz :: authz
  ud_overrides :: "(string \<times> jsv) list"
  ud_settings :: "(string \<times> jsv) list"
  ud_plans :: "(string \<times> string \<times> jsv) list"
  ud_audits :: "(string \<times> string \<times> string \<times> string) list"
  ud_mails :: "string list"

type_synonym 'a ud = "(users_db, 'a) act"

definition in_auth :: "'a auth \<Rightarrow> 'a ud" where
  "in_auth m s = (let (r, a) = m (ud_auth s) in (r, s\<lparr>ud_auth := a\<rparr>))"

definition ud_get :: "(users_db \<Rightarrow> 'a res) \<Rightarrow> 'a ud" where
  "ud_get f = bindE (reads f) of_res"

definition alive :: "users_db \<Rightarrow> account \<Rightarrow> bool" where
  "alive s a \<longleftrightarrow> map_of (ud_deleted s) (ac_id a) = None"

definition live_accounts :: "users_db \<Rightarrow> account list" where
  "live_accounts s = filter (alive s) (accounts (ud_auth s))"

definition no_user :: http_error where "no_user = NotFound ''User not found''"

section \<open>Accounts\<close>

record new_user_dto =
  nu_email :: string
  nu_password :: string
  nu_firstName :: string
  nu_lastName :: string
  nu_role :: "string option"

definition fresh_account :: "string \<Rightarrow> string \<Rightarrow> string \<Rightarrow> string \<Rightarrow> string \<Rightarrow> string \<Rightarrow> string \<Rightarrow> bool \<Rightarrow> account" where
  "fresh_account i email first lastname role company hash verified =
     \<lparr>ac_id = i, ac_email = email, ac_firstName = first, ac_lastName = lastname, ac_phone = None, ac_jobTitle = None,
      ac_department = None, ac_location = None, ac_contact = None, ac_timezone = None, ac_role = role, ac_userType = ''BUSINESS'',
      ac_companyId = Some company, ac_emailVerified = verified, ac_passwordHash = Some hash, ac_isActive = True,
      ac_breakGlass = False, ac_authVersion = 0, ac_lastLoginAt = None, ac_mfaEnabled = False, ac_mfaSecret = None,
      ac_mfaPending = None, ac_recovery = [], ac_mfaAt = None, ac_verifyToken = None, ac_verifyExpires = None,
      ac_resetToken = None, ac_resetExpires = None\<rparr>"

definition create_account :: "crypto \<Rightarrow> auth_world \<Rightarrow> new_user_dto \<Rightarrow> string \<Rightarrow> account ud" where
  "create_account cr w d companyId =
     bindE (of_res (assert_password_policy (Some (nu_password d)) [nu_email d, nu_firstName d, nu_lastName d])) (\<lambda>_.
     let a = fresh_account (uuid w 0) (nu_email d) (nu_firstName d) (nu_lastName d)
               (case nu_role d of None \<Rightarrow> ''CLIENT'' | Some r \<Rightarrow> r) companyId (bcrypt_hash cr (nu_password d)) False in
     bindE (in_auth (insert_account a)) (\<lambda>_. ret a))"

text \<open>\<open>users.controller.ts\<close>: the request names the role, the company is the caller's.\<close>

definition post_user :: "crypto \<Rightarrow> auth_world \<Rightarrow> new_user_dto \<Rightarrow> principal \<Rightarrow> account ud" where
  "post_user cr w d u =
     (let companyId = or_opt (p_effective u) (p_companyId u) in
      bindE (guard (truthy companyId) (Forbidden ''Select a company context to create users'')) (\<lambda>_.
      create_account cr w d (or_str companyId [])))"

definition list_accounts :: "string option \<Rightarrow> int option \<Rightarrow> int option \<Rightarrow> string option \<Rightarrow> users_db \<Rightarrow> account list \<times> nat" where
  "list_accounts companyId pageNo perPage role s =
     (let page = (case pageNo of None \<Rightarrow> 1 | Some n \<Rightarrow> if n = 0 then 1 else n);
          limit = (case perPage of None \<Rightarrow> 25 | Some n \<Rightarrow> if n = 0 then 25 else n);
          us = rev (filter (\<lambda>a. if role = Some ''GLOBAL_TECH'' then ac_role a = ''GLOBAL_TECH'' else ac_companyId a = companyId)
                 (live_accounts s)) in
      (take (nat limit) (drop (nat ((page - 1) * limit)) us), length us))"

definition OPTION_ROLES :: "string list" where
  "OPTION_ROLES = [''TENANT_ADMIN'', ''TECHNICIAN'', ''CLIENT'', ''READ_ONLY'']"

definition list_options :: "string \<Rightarrow> string option \<Rightarrow> users_db \<Rightarrow> account list" where
  "list_options companyId roles s =
     (let requested = filter (\<lambda>r. r \<in> set OPTION_ROLES) (map (\<lambda>r. js_upper (js_trim r)) (str_split (CHR '','') (or_str roles []))) in
      sort_key ac_firstName (sort_key ac_lastName (sort_key ac_email
        (filter (\<lambda>a. ac_companyId a = Some companyId \<and> ac_isActive a \<and> (requested = [] \<or> ac_role a \<in> set requested))
          (live_accounts s)))))"

definition company_account :: "string \<Rightarrow> string option \<Rightarrow> users_db \<Rightarrow> account res" where
  "company_account i companyId s =
     (case find (\<lambda>a. ac_id a = i \<and> ac_companyId a = companyId) (live_accounts s) of None \<Rightarrow> Inl no_user | Some a \<Rightarrow> Inr a)"

definition live_account :: "string \<Rightarrow> users_db \<Rightarrow> account res" where
  "live_account i s = (case find (\<lambda>a. ac_id a = i) (live_accounts s) of None \<Rightarrow> Inl no_user | Some a \<Rightarrow> Inr a)"

record profile_patch =
  pp_firstName :: patch
  pp_lastName :: patch
  pp_phone :: patch

text \<open>The name columns are \<open>NOT NULL\<close>.\<close>

definition write_profile :: "string \<Rightarrow> profile_patch \<Rightarrow> unit ud" where
  "write_profile i d =
     bindE (guard (pp_firstName d \<noteq> Nulled \<and> pp_lastName d \<noteq> Nulled) (ServerError ''Column cannot be null'')) (\<lambda>_.
     in_auth (set_account i (\<lambda>a. a\<lparr>ac_firstName := patched_str (pp_firstName d) (ac_firstName a),
       ac_lastName := patched_str (pp_lastName d) (ac_lastName a), ac_phone := patched (pp_phone d) (ac_phone a)\<rparr>)))"

definition update_account :: "string \<Rightarrow> profile_patch \<Rightarrow> string option \<Rightarrow> unit ud" where
  "update_account i d companyId = bindE (ud_get (company_account i companyId)) (\<lambda>_. write_profile i d)"

definition update_me :: "string \<Rightarrow> profile_patch \<Rightarrow> unit ud" where
  "update_me i d = bindE (ud_get (live_account i)) (\<lambda>_. write_profile i d)"

definition change_password :: "crypto \<Rightarrow> string \<Rightarrow> string \<Rightarrow> string \<Rightarrow> unit ud" where
  "change_password cr i old new =
     bindE (ud_get (live_account i)) (\<lambda>a.
     bindE (guard (truthy (ac_passwordHash a)) (BadRequest ''Password not set'')) (\<lambda>_.
     bindE (guard (bcrypt_ok cr old (or_str (ac_passwordHash a) [])) (BadRequest ''Current password is incorrect'')) (\<lambda>_.
     bindE (of_res (assert_password_policy (Some new) [ac_email a, ac_firstName a, ac_lastName a])) (\<lambda>_.
     bindE (in_auth (set_account i (\<lambda>a. a\<lparr>ac_passwordHash := Some (bcrypt_hash cr new)\<rparr>))) (\<lambda>_.
     in_auth (writes (\<lambda>s. s\<lparr>sessions := filter (\<lambda>x. se_userId x \<noteq> i) (sessions s)\<rparr>)))))))"

definition remove_account :: "int \<Rightarrow> string \<Rightarrow> string option \<Rightarrow> unit ud" where
  "remove_account t i companyId =
     bindE (ud_get (company_account i companyId)) (\<lambda>_.
     bindE (writes (\<lambda>s. s\<lparr>ud_deleted := (i, t) # ud_deleted s\<rparr>)) (\<lambda>_.
     in_auth (set_account i (\<lambda>a. a\<lparr>ac_isActive := False\<rparr>))))"

section \<open>Effective permissions and features\<close>

definition effective_permissions :: "int \<Rightarrow> authz \<Rightarrow> string \<Rightarrow> string \<Rightarrow> string list" where
  "effective_permissions t az userId role =
     (if role = ''SUPER_ADMIN'' then [''*'']
      else sort (remdups ((if role = ''TENANT_ADMIN'' then tenant_admin_defaults else [])
        @ map snd (user_role_permissions az userId) @ map snd (system_role_permissions az role) @ live_grants t az userId)))"

definition own_profile :: "int \<Rightarrow> string \<Rightarrow> users_db \<Rightarrow> (account \<times> string list) res" where
  "own_profile t i s = (case live_account i s of Inl e \<Rightarrow> Inl e
     | Inr a \<Rightarrow> Inr (a, effective_permissions t (ud_authz s) (ac_id a) (ac_role a)))"

definition resolve_feature_map :: "jsv \<Rightarrow> jsv \<Rightarrow> jsv \<Rightarrow> string list \<Rightarrow> feature_map" where
  "resolve_feature_map planFeatures companyOverrides userOverrides knownFeatures =
     (let plan = parse_feature_map planFeatures; company = parse_feature_map companyOverrides; user = parse_feature_map userOverrides in
      map (\<lambda>f. (f, f = ''billing'' \<or> map_of plan f = Some True \<and> map_of company f \<noteq> Some False \<and> map_of user f \<noteq> Some False))
        (remdups (knownFeatures @ map fst plan @ map fst company @ map fst user)))"

definition json_object :: "jsv \<Rightarrow> jsobj" where
  "json_object v = (case v of JObj es \<Rightarrow> es | _ \<Rightarrow> [])"

definition company_overrides :: "string option \<Rightarrow> users_db \<Rightarrow> jsv" where
  "company_overrides c s = (if truthy c
     then (case map_of (ud_settings s) (or_str c []) of None \<Rightarrow> JUndef | Some v \<Rightarrow> field (json_object v) ''featureOverrides'') else JUndef)"

text \<open>The features shown; of two entries for a name the first counts, as in a spread object the last.\<close>

definition effective_features :: "string list \<Rightarrow> string \<Rightarrow> users_db \<Rightarrow> feature_map res" where
  "effective_features known i s =
     (case live_account i s of Inl e \<Rightarrow> Inl e | Inr a \<Rightarrow>
       let company = company_overrides (ac_companyId a) s;
           user = (case map_of (ud_overrides s) i of None \<Rightarrow> JUndef | Some v \<Rightarrow> v) in
       case (if truthy (ac_companyId a) then map_of (ud_plans s) (or_str (ac_companyId a) []) else None) of
         Some (name, features) \<Rightarrow> Inr (resolve_feature_map features company user known)
       | None \<Rightarrow> Inr (parse_feature_map user @ parse_feature_map company))"

section \<open>Favorites\<close>

definition user_favorites :: "string \<Rightarrow> users_db \<Rightarrow> favorite list" where
  "user_favorites i s = rev (filter (\<lambda>f. fv_userId f = i) (ud_favorites s))"

definition add_favorite :: "string \<Rightarrow> string option \<Rightarrow> string option \<Rightarrow> favorite ud" where
  "add_favorite i label pth =
     (let p = js_trim (or_str pth []); f = \<lparr>fv_userId = i, fv_label = take 120 (js_trim (or_str label p)), fv_path = p\<rparr> in
      bindE (guard (starts_with p ''/'') (BadRequest ''Favorite path must start with /'')) (\<lambda>_.
      bindE (reads (\<lambda>s. find (\<lambda>f. fv_userId f = i \<and> fv_path f = p) (ud_favorites s))) (\<lambda>existing.
      case existing of Some g \<Rightarrow> ret g
      | None \<Rightarrow> bindE (writes (\<lambda>s. s\<lparr>ud_favorites := ud_favorites s @ [f]\<rparr>)) (\<lambda>_. ret f))))"

definition remove_favorite :: "string \<Rightarrow> string \<Rightarrow> unit ud" where
  "remove_favorite i p = writes (\<lambda>s. s\<lparr>ud_favorites := filter (\<lambda>f. \<not> (fv_userId f = i \<and> fv_path f = p)) (ud_favorites s)\<rparr>)"

section \<open>Invitations\<close>

definition INVITATION_ROLES :: "string list" where
  "INVITATION_ROLES = [''CLIENT'', ''TECHNICIAN'', ''READ_ONLY'']"

definition invitation_invalid :: http_error where
  "invitation_invalid = BadRequest ''Invitation is invalid, expired, or already used''"

definition email_taken :: http_error where
  "email_taken = Conflict ''A user with this email already exists''"

definition ud_audit :: "string \<Rightarrow> string \<Rightarrow> string \<Rightarrow> string \<Rightarrow> unit ud" where
  "ud_audit companyId actorId action resourceId =
     writes (\<lambda>s. s\<lparr>ud_audits := ud_audits s @ [(companyId, actorId, action, resourceId)]\<rparr>)"

definition pending :: "invitation \<Rightarrow> bool" where
  "pending v \<longleftrightarrow> iv_acceptedAt v = None \<and> iv_revokedAt v = None"

text \<open>The two writes run in one transaction, which a duplicate key undoes.\<close>

definition create_invitation :: "crypto \<Rightarrow> auth_world \<Rightarrow> string \<Rightarrow> principal \<Rightarrow> string \<Rightarrow> string option \<Rightarrow> string ud" where
  "create_invitation cr w companyId actor address roleName =
     (let email = js_lower (js_trim address); role = or_str roleName ''CLIENT''; i = uuid w 0;
          hash = hash_credential cr (rnd w 0) in
      bindE (guard (role \<in> set INVITATION_ROLES) (BadRequest ''Invalid invitation role'')) (\<lambda>_.
      bindE (reads (\<lambda>s. list_ex (\<lambda>a. ac_email a = email) (live_accounts s))) (\<lambda>taken.
      bindE (guard (\<not> taken) email_taken) (\<lambda>_.
      bindE (reads (\<lambda>s. list_ex (\<lambda>c. tn_id c = companyId \<and> tn_isActive c) (tenants (ud_auth s)))) (\<lambda>known.
      bindE (guard known (NotFound ''Company not found'')) (\<lambda>_.
      bindE (reads (\<lambda>s. list_ex (\<lambda>v. iv_id v = i \<or> iv_hash v = hash) (ud_invitations s))) (\<lambda>dup.
      bindE (guard (\<not> dup) duplicate) (\<lambda>_.
      bindE (writes (\<lambda>s. s\<lparr>ud_invitations :=
        map (\<lambda>v. if iv_companyId v = companyId \<and> iv_email v = email \<and> pending v then v\<lparr>iv_revokedAt := Some (now w)\<rparr> else v) (ud_invitations s)
        @ [\<lparr>iv_id = i, iv_companyId = companyId, iv_email = email, iv_role = role, iv_hash = hash, iv_invitedBy = p_id actor,
            iv_expiresAt = now w + 7 * 24 * 60 * 60 * 1000, iv_acceptedAt = None, iv_revokedAt = None\<rparr>]\<rparr>)) (\<lambda>_.
      bindE (writes (\<lambda>s. s\<lparr>ud_mails := ud_mails s @ [email]\<rparr>)) (\<lambda>_.
      bindE (ud_audit companyId (p_id actor) ''TENANT_USER_INVITED'' i) (\<lambda>_.
      ret i)))))))))))"

definition list_invitations :: "string \<Rightarrow> users_db \<Rightarrow> invitation list" where
  "list_invitations companyId s = take 100 (rev (filter (\<lambda>v. iv_companyId v = companyId \<and> iv_revokedAt v = None) (ud_invitations s)))"

definition set_invitations :: "(invitation \<Rightarrow> bool) \<Rightarrow> (invitation \<Rightarrow> invitation) \<Rightarrow> unit ud" where
  "set_invitations hit f = writes (\<lambda>s. s\<lparr>ud_invitations := map (\<lambda>v. if hit v then f v else v) (ud_invitations s)\<rparr>)"

definition revoke_invitation :: "int \<Rightarrow> string \<Rightarrow> principal \<Rightarrow> string \<Rightarrow> unit ud" where
  "revoke_invitation t companyId actor i =
     (let hit = (\<lambda>v. iv_id v = i \<and> iv_companyId v = companyId \<and> pending v) in
      bindE (reads (\<lambda>s. list_ex hit (ud_invitations s))) (\<lambda>found.
      bindE (set_invitations hit (\<lambda>v. v\<lparr>iv_revokedAt := Some t\<rparr>)) (\<lambda>_.
      bindE (guard found (NotFound ''Pending invitation not found'')) (\<lambda>_.
      ud_audit companyId (p_id actor) ''TENANT_USER_INVITATION_REVOKED'' i))))"

definition active_invitation :: "crypto \<Rightarrow> int \<Rightarrow> string \<Rightarrow> users_db \<Rightarrow> invitation res" where
  "active_invitation cr t token s =
     (case find (\<lambda>v. iv_hash v = hash_credential cr token \<and> pending v \<and> iv_expiresAt v > t
                   \<and> list_ex (\<lambda>c. tn_id c = iv_companyId v \<and> tn_isActive c) (tenants (ud_auth s))) (ud_invitations s) of
        None \<Rightarrow> Inl invitation_invalid | Some v \<Rightarrow> Inr v)"

record accept_dto =
  ad_firstName :: string
  ad_lastName :: string
  ad_password :: string
  ad_termsAccepted :: bool
  ad_termsVersion :: string
  ad_privacyVersion :: string

definition accept_invitation :: "crypto \<Rightarrow> auth_world \<Rightarrow> string \<Rightarrow> accept_dto \<Rightarrow> string ud" where
  "accept_invitation cr w token d =
     bindE (ud_get (active_invitation cr (now w) token)) (\<lambda>v.
     bindE (of_res (assert_password_policy (Some (ad_password d)) [iv_email v, ad_firstName d, ad_lastName d])) (\<lambda>_.
     bindE (guard (ad_termsAccepted d \<and> ad_termsVersion d = TERMS_VERSION \<and> ad_privacyVersion d = PRIVACY_VERSION)
       (BadRequest ''Review and accept the current Terms of Service and Privacy Policy'')) (\<lambda>_.
     bindE (reads (\<lambda>s. list_ex (\<lambda>x. iv_id x = iv_id v \<and> iv_hash x = hash_credential cr token \<and> pending x \<and> iv_expiresAt x > now w)
       (ud_invitations s))) (\<lambda>locked.
     bindE (guard locked invitation_invalid) (\<lambda>_.
     bindE (reads (\<lambda>s. list_ex (\<lambda>a. ac_email a = iv_email v) (live_accounts s))) (\<lambda>taken.
     bindE (guard (\<not> taken) email_taken) (\<lambda>_.
     bindE (in_auth (insert_account (fresh_account (uuid w 0) (iv_email v) (js_trim (ad_firstName d)) (js_trim (ad_lastName d))
       (iv_role v) (iv_companyId v) (bcrypt_hash cr (ad_password d)) True))) (\<lambda>_.
     bindE (in_auth (writes (\<lambda>s. s\<lparr>consents := consents s @ [(uuid w 0, TERMS_VERSION, PRIVACY_VERSION, now w)]\<rparr>))) (\<lambda>_.
     bindE (set_invitations (\<lambda>x. iv_id x = iv_id v) (\<lambda>x. x\<lparr>iv_acceptedAt := Some (now w)\<rparr>)) (\<lambda>_.
     bindE (ud_audit (iv_companyId v) (uuid w 0) ''TENANT_USER_INVITATION_ACCEPTED'' (iv_id v)) (\<lambda>_.
     ret (iv_email v))))))))))))"

end
