(* ===== verification/Users_Props.thy ===== *)
theory Users_Props
  imports Users Auth_Claims Guard_Props
begin

text \<open>
  Properties of user accounts: an invitation opens one account once, the permissions and
  features a profile shows against those the guards enforce, and the role a created user gets.
\<close>

section \<open>The machine\<close>

datatype users_call =
    UPost crypto auth_world new_user_dto principal
  | UUpdate string profile_patch "string option"
  | UMe string profile_patch
  | UPassword crypto string string string
  | URemove int string "string option"
  | UFavorite string "string option" "string option"
  | UUnfavorite string string
  | UInvite crypto auth_world string principal string "string option"
  | URevoke int string principal string
  | UAccept crypto auth_world string accept_dto

fun users_step :: "users_call \<Rightarrow> users_db \<Rightarrow> users_db" where
  "users_step (UPost cr w d u) s = snd (post_user cr w d u s)"
| "users_step (UUpdate i d c) s = snd (update_account i d c s)"
| "users_step (UMe i d) s = snd (update_me i d s)"
| "users_step (UPassword cr i x y) s = snd (change_password cr i x y s)"
| "users_step (URemove t i c) s = snd (remove_account t i c s)"
| "users_step (UFavorite i l p) s = snd (add_favorite i l p s)"
| "users_step (UUnfavorite i p) s = snd (remove_favorite i p s)"
| "users_step (UInvite cr w c u a r) s = snd (create_invitation cr w c u a r s)"
| "users_step (URevoke t c u i) s = snd (revoke_invitation t c u i s)"
| "users_step (UAccept cr w k d) s = snd (accept_invitation cr w k d s)"

section \<open>Predicates of the invitations\<close>

text \<open>\<open>J\<close> is a predicate of the invitation table that the three writes to it keep.\<close>

locale invitation_law =
  fixes J :: "invitation list \<Rightarrow> bool"
  assumes add: "J vs \<Longrightarrow> iv_id v \<notin> iv_id ` set vs \<Longrightarrow> iv_hash v \<notin> iv_hash ` set vs \<Longrightarrow> pending v \<Longrightarrow> iv_role v \<in> set INVITATION_ROLES
      \<Longrightarrow> J (map (\<lambda>x. if iv_companyId x = iv_companyId v \<and> iv_email x = iv_email v \<and> pending x then x\<lparr>iv_revokedAt := Some t\<rparr> else x) vs @ [v])"
    and close: "J vs \<Longrightarrow> J (map (\<lambda>x. if hit x \<and> pending x then x\<lparr>iv_revokedAt := Some t\<rparr> else x) vs)"
    and accept: "J vs \<Longrightarrow> J (map (\<lambda>x. if hit x then x\<lparr>iv_acceptedAt := Some t\<rparr> else x) vs)"
begin

lemma other: "(\<And>s. ud_invitations (f s) = ud_invitations s) \<Longrightarrow> keeps (\<lambda>s. J (ud_invitations s)) (writes f)"
  by (rule keeps_writes) simp

lemma auth: "keeps (\<lambda>s. J (ud_invitations s)) (in_auth m)"
  by (rule keepsI) (simp add: in_auth_def split: prod.splits)

lemma get: "keeps (\<lambda>s. J (ud_invitations s)) (ud_get f)"
  unfolding ud_get_def by (intro keeps_intros)

lemma audit: "keeps (\<lambda>s. J (ud_invitations s)) (ud_audit c a x i)"
  unfolding ud_audit_def by (rule other) simp

lemma accepting: "keeps (\<lambda>s. J (ud_invitations s)) (set_invitations hit (\<lambda>x. x\<lparr>iv_acceptedAt := Some t\<rparr>))"
  unfolding set_invitations_def by (rule keeps_writes) (simp add: accept)

lemma revoking: "keeps (\<lambda>s. J (ud_invitations s)) (set_invitations (\<lambda>x. iv_id x = i \<and> iv_companyId x = c \<and> pending x) (\<lambda>x. x\<lparr>iv_revokedAt := Some t\<rparr>))"
  unfolding set_invitations_def using close[where hit = "\<lambda>x. iv_id x = i \<and> iv_companyId x = c"]
  by (intro keeps_writes) (simp add: conj_assoc)

lemmas parts = auth get audit accepting revoking

lemma invite: "keeps (\<lambda>s. J (ud_invitations s)) (create_invitation cr w c u a r)"
proof (rule keepsI)
  fix s :: users_db assume s: "J (ud_invitations s)"
  let ?v = "\<lparr>iv_id = uuid w 0, iv_companyId = c, iv_email = js_lower (js_trim a), iv_role = or_str r ''CLIENT'',
    iv_hash = hash_credential cr (rnd w 0), iv_invitedBy = p_id u, iv_expiresAt = now w + 7 * 24 * 60 * 60 * 1000,
    iv_acceptedAt = None, iv_revokedAt = None\<rparr>"
  show "J (ud_invitations (snd (create_invitation cr w c u a r s)))"
  proof (cases "list_ex (\<lambda>v. iv_id v = uuid w 0 \<or> iv_hash v = hash_credential cr (rnd w 0)) (ud_invitations s) \<or> or_str r ''CLIENT'' \<notin> set INVITATION_ROLES")
    case True
    with s show ?thesis unfolding create_invitation_def Let_def by (auto simp: act_simps)
  next
    case False
    have "J (map (\<lambda>x. if iv_companyId x = iv_companyId ?v \<and> iv_email x = iv_email ?v \<and> pending x then x\<lparr>iv_revokedAt := Some (now w)\<rparr> else x)
        (ud_invitations s) @ [?v])"
      by (rule add[OF s]) (use False in \<open>auto simp: list_ex_iff pending_def\<close>)
    with s False show ?thesis unfolding create_invitation_def Let_def by (simp add: act_simps ud_audit_def del: list_ex_iff)
  qed
qed

lemma all_calls: "J (ud_invitations s) \<Longrightarrow> J (ud_invitations (users_step e s))"
proof -
  assume s: "J (ud_invitations s)"
  have "keeps (\<lambda>s. J (ud_invitations s)) (post_user cr w d u)" "keeps (\<lambda>s. J (ud_invitations s)) (update_account i pd c)"
    "keeps (\<lambda>s. J (ud_invitations s)) (update_me i pd)" "keeps (\<lambda>s. J (ud_invitations s)) (change_password cr i x y)"
    "keeps (\<lambda>s. J (ud_invitations s)) (remove_account t i c)" "keeps (\<lambda>s. J (ud_invitations s)) (add_favorite i l p)"
    "keeps (\<lambda>s. J (ud_invitations s)) (remove_favorite i k)" "keeps (\<lambda>s. J (ud_invitations s)) (revoke_invitation t cc u i)"
    "keeps (\<lambda>s. J (ud_invitations s)) (accept_invitation cr w k ad)"
    for cr w d u i pd c x y t l p k cc ad
    unfolding post_user_def create_account_def update_account_def update_me_def write_profile_def change_password_def
      remove_account_def add_favorite_def remove_favorite_def revoke_invitation_def accept_invitation_def Let_def
    by (intro keeps_intros parts other; simp)+
  note calls = this invite
  show ?thesis by (cases e) (simp_all add: calls[unfolded keeps_def] s)
qed

end

definition open_doors :: "invitation list \<Rightarrow> bool" where
  "open_doors vs \<longleftrightarrow> distinct (map (\<lambda>v. (iv_companyId v, iv_email v)) (filter pending vs)) \<and> (\<forall>v \<in> set vs. iv_role v \<in> set INVITATION_ROLES)
     \<and> distinct (map iv_id vs) \<and> distinct (map iv_hash vs)"

definition spent :: "string \<Rightarrow> invitation list \<Rightarrow> bool" where
  "spent h vs \<longleftrightarrow> h \<in> set (map iv_hash vs) \<and> (\<forall>v \<in> set vs. iv_hash v = h \<longrightarrow> \<not> pending v)"

lemma filter_closed:
  "filter pending (map (\<lambda>x. if hit x \<and> pending x then x\<lparr>iv_revokedAt := Some t\<rparr> else x) vs) = filter (\<lambda>x. pending x \<and> \<not> hit x) vs"
  by (induction vs) (auto simp: pending_def)

lemma filter_accepted:
  "filter pending (map (\<lambda>x. if hit x then x\<lparr>iv_acceptedAt := Some t\<rparr> else x) vs) = filter (\<lambda>x. pending x \<and> \<not> hit x) vs"
  by (induction vs) (auto simp: pending_def)

lemma distinct_map_sub: "distinct (map f (filter P xs)) \<Longrightarrow> distinct (map f (filter (\<lambda>x. P x \<and> Q x) xs))"
  by (induction xs) (auto split: if_splits)

interpretation doors: invitation_law open_doors
proof
  fix vs :: "invitation list" and v :: invitation and t assume vs: "open_doors vs" and v: "iv_id v \<notin> iv_id ` set vs" "iv_hash v \<notin> iv_hash ` set vs" "pending v" "iv_role v \<in> set INVITATION_ROLES"
  let ?hit = "\<lambda>x. iv_companyId x = iv_companyId v \<and> iv_email x = iv_email v"
  let ?vs = "map (\<lambda>x. if iv_companyId x = iv_companyId v \<and> iv_email x = iv_email v \<and> pending x then x\<lparr>iv_revokedAt := Some t\<rparr> else x) vs"
  have e: "?vs = map (\<lambda>x. if ?hit x \<and> pending x then x\<lparr>iv_revokedAt := Some t\<rparr> else x) vs" by (simp add: conj_assoc)
  have f: "filter pending ?vs = filter (\<lambda>x. pending x \<and> \<not> ?hit x) vs" unfolding e by (rule filter_closed)
  have m: "map iv_id ?vs = map iv_id vs" "map iv_hash ?vs = map iv_hash vs" "map iv_role ?vs = map iv_role vs" by simp_all
  have d: "distinct (map (\<lambda>v. (iv_companyId v, iv_email v)) (filter (\<lambda>x. pending x \<and> \<not> ?hit x) vs))"
    using vs by (simp add: open_doors_def distinct_map_sub)
  have r: "\<forall>x \<in> set ?vs. iv_role x \<in> set INVITATION_ROLES" using vs by (auto simp: open_doors_def)
  show "open_doors (?vs @ [v])"
    unfolding open_doors_def
  proof (intro conjI)
    show "distinct (map (\<lambda>v. (iv_companyId v, iv_email v)) (filter pending (?vs @ [v])))"
      unfolding filter_append f using d v(3) by auto
    show "\<forall>x \<in> set (?vs @ [v]). iv_role x \<in> set INVITATION_ROLES" using r v(4) by simp
    show "distinct (map iv_id (?vs @ [v]))" "distinct (map iv_hash (?vs @ [v]))"
      unfolding map_append m using vs v(1,2) by (simp_all add: open_doors_def)
  qed
next
  fix vs :: "invitation list" and hit t assume "open_doors vs"
  then show "open_doors (map (\<lambda>x. if hit x \<and> pending x then x\<lparr>iv_revokedAt := Some t\<rparr> else x) vs)"
    unfolding open_doors_def filter_closed by (auto simp: distinct_map_sub comp_def if_distrib cong: if_cong)
next
  fix vs :: "invitation list" and hit t assume "open_doors vs"
  then show "open_doors (map (\<lambda>x. if hit x then x\<lparr>iv_acceptedAt := Some t\<rparr> else x) vs)"
    unfolding open_doors_def filter_accepted by (auto simp: distinct_map_sub comp_def if_distrib cong: if_cong)
qed

lemma spent_map:
  assumes "spent h vs" "\<And>x. iv_hash (f x) = iv_hash x" "\<And>x. pending (f x) \<Longrightarrow> pending x"
  shows "spent h (map f vs)"
proof -
  have "map iv_hash (map f vs) = map iv_hash vs" using assms(2) by simp
  then show ?thesis using assms unfolding spent_def by auto
qed

lemma spent_snoc: "spent h vs \<Longrightarrow> iv_hash v \<noteq> h \<Longrightarrow> spent h (vs @ [v])"
  by (auto simp: spent_def)

interpretation spent_token: invitation_law "spent h" for h
proof
  fix vs :: "invitation list" and v :: invitation and t assume s: "spent h vs" and v: "iv_hash v \<notin> iv_hash ` set vs"
  have "spent h (map (\<lambda>x. if iv_companyId x = iv_companyId v \<and> iv_email x = iv_email v \<and> pending x then x\<lparr>iv_revokedAt := Some t\<rparr> else x) vs)"
    by (rule spent_map[OF s]) (auto simp: pending_def split: if_splits)
  moreover have "iv_hash v \<noteq> h" using s v by (auto simp: spent_def)
  ultimately show "spent h (map (\<lambda>x. if iv_companyId x = iv_companyId v \<and> iv_email x = iv_email v \<and> pending x then x\<lparr>iv_revokedAt := Some t\<rparr> else x) vs @ [v])"
    by (rule spent_snoc)
next
  fix vs :: "invitation list" and hit t assume "spent h vs"
  then show "spent h (map (\<lambda>x. if hit x \<and> pending x then x\<lparr>iv_revokedAt := Some t\<rparr> else x) vs)"
    by (rule spent_map) (auto simp: pending_def split: if_splits)
next
  fix vs :: "invitation list" and hit t assume "spent h vs"
  then show "spent h (map (\<lambda>x. if hit x then x\<lparr>iv_acceptedAt := Some t\<rparr> else x) vs)"
    by (rule spent_map) (auto simp: pending_def split: if_splits)
qed

interpretation doorsm: guarded_machine any_call users_step "\<lambda>s. open_doors (ud_invitations s)"
  by unfold_locales (rule doors.all_calls)

interpretation spentm: guarded_machine any_call users_step "\<lambda>s. spent h (ud_invitations s)" for h
  by unfold_locales (rule spent_token.all_calls)

section \<open>Invitations\<close>

text \<open>
  One open door per address. Starting without invitations, after any calls at most one
  invitation of a company to an address is pending, and each names one of the three roles
  that can be given this way.
\<close>
theorem one_pending_invitation:
  assumes "reachable_by any_call users_step s0 s" and "ud_invitations s0 = []"
  shows "distinct (map (\<lambda>v. (iv_companyId v, iv_email v)) (filter pending (ud_invitations s)))
    \<and> (\<forall>v \<in> set (ud_invitations s). iv_role v \<in> {''CLIENT'', ''TECHNICIAN'', ''READ_ONLY''})"
proof -
  have "open_doors (ud_invitations s0)" using assms(2) by (simp add: open_doors_def)
  then have "open_doors (ud_invitations s)" using doorsm.reachable_inv[OF assms(1)] by blast
  then show ?thesis by (simp add: open_doors_def INVITATION_ROLES_def)
qed

lemma bind_ud_get: "bindE (ud_get f) g s = (case f s of Inl e \<Rightarrow> (Inl e, s) | Inr x \<Rightarrow> g x s)"
  by (simp add: ud_get_def act_simps)

lemma active_invitationD:
  "active_invitation cr t k s = Inr v \<Longrightarrow> v \<in> set (ud_invitations s) \<and> iv_hash v = hash_credential cr k \<and> pending v \<and> t < iv_expiresAt v"
  by (auto simp: active_invitation_def split: option.splits dest!: find_SomeD)

lemma spent_refused: "spent (hash_credential cr k) (ud_invitations s) \<Longrightarrow> accept_invitation cr w k d s = (Inl invitation_invalid, s)"
proof -
  assume "spent (hash_credential cr k) (ud_invitations s)"
  then have "active_invitation cr (now w) k s = Inl invitation_invalid"
    unfolding active_invitation_def by (subst find_None_iff[THEN iffD2]) (auto simp: spent_def)
  then show ?thesis by (simp add: accept_invitation_def bind_ud_get)
qed

lemma accept_effect:
  assumes "accept_invitation cr w k d s = (Inr e, s1)"
  obtains v where "active_invitation cr (now w) k s = Inr v" "iv_email v = e"
    "ud_invitations s1 = map (\<lambda>x. if iv_id x = iv_id v then x\<lparr>iv_acceptedAt := Some (now w)\<rparr> else x) (ud_invitations s)"
    "accounts (ud_auth s1) = accounts (ud_auth s) @ [fresh_account (uuid w 0) (iv_email v) (js_trim (ad_firstName d)) (js_trim (ad_lastName d))
       (iv_role v) (iv_companyId v) (bcrypt_hash cr (ad_password d)) True]"
    "\<forall>a \<in> set (accounts (ud_auth s)). ac_email a \<noteq> iv_email v"
proof (cases "active_invitation cr (now w) k s")
  case (Inl x)
  with assms show ?thesis by (simp add: accept_invitation_def bind_ud_get)
next
  case (Inr v)
  let ?a = "fresh_account (uuid w 0) (iv_email v) (js_trim (ad_firstName d)) (js_trim (ad_lastName d)) (iv_role v) (iv_companyId v)
     (bcrypt_hash cr (ad_password d)) True"
  note run = assms[unfolded accept_invitation_def bind_ud_get Inr sum.case]
  have p: "assert_password_policy (Some (ad_password d)) [iv_email v, ad_firstName d, ad_lastName d] = Inr ()"
    using run by (cases "assert_password_policy (Some (ad_password d)) [iv_email v, ad_firstName d, ad_lastName d]") (simp_all add: act_simps)
  note run' = run[unfolded p]
  have q: "\<not> list_ex (\<lambda>b. ac_id b = ac_id ?a \<or> ac_email b = ac_email ?a) (accounts (ud_auth s))"
    using run' by (auto simp: act_simps in_auth_def insert_account_def split: if_splits)
  have "s1 = s\<lparr>ud_auth := (ud_auth s)\<lparr>accounts := accounts (ud_auth s) @ [?a], consents := consents (ud_auth s) @ [(uuid w 0, TERMS_VERSION, PRIVACY_VERSION, now w)]\<rparr>,
      ud_invitations := map (\<lambda>x. if iv_id x = iv_id v then x\<lparr>iv_acceptedAt := Some (now w)\<rparr> else x) (ud_invitations s),
      ud_audits := ud_audits s @ [(iv_companyId v, uuid w 0, ''TENANT_USER_INVITATION_ACCEPTED'', iv_id v)]\<rparr> \<and> e = iv_email v"
    using run' q by (auto simp: act_simps in_auth_def insert_account_def set_invitations_def ud_audit_def split: if_splits)
  with q Inr show ?thesis by (intro that[of v]) (simp_all add: list_ex_iff fresh_account_def)
qed

text \<open>
  C32. An invitation opens one account, once. When an invitation is accepted in a state reached
  without invitations, it was pending and unexpired and its token the presented one; the new
  account has the invited e-mail, role and company and the chosen password; and after any
  further calls by anyone the same token is refused.
\<close>
theorem invitation_works_once:
  assumes r: "reachable_by any_call users_step s0 s" "ud_invitations s0 = []"
    and a: "accept_invitation cr w k d s = (Inr e, s1)" and later: "reachable_by any_call users_step s1 s2"
  shows "(\<exists>v \<in> set (ud_invitations s). \<exists>a \<in> set (accounts (ud_auth s1)). pending v \<and> now w < iv_expiresAt v
        \<and> iv_hash v = hash_credential cr k \<and> account_by_email e (ud_auth s1) = Some a \<and> iv_email v = e
        \<and> ac_role a = iv_role v \<and> ac_companyId a = Some (iv_companyId v) \<and> ac_isActive a
        \<and> ac_passwordHash a = Some (bcrypt_hash cr (ad_password d)))
    \<and> accept_invitation cr w' k d' s2 = (Inl invitation_invalid, s2)"
proof -
  have "open_doors (ud_invitations s0)" using r(2) by (simp add: open_doors_def)
  then have doors: "open_doors (ud_invitations s)" using doorsm.reachable_inv[OF r(1)] by blast
  from a obtain v where v: "active_invitation cr (now w) k s = Inr v" "iv_email v = e"
    and inv: "ud_invitations s1 = map (\<lambda>x. if iv_id x = iv_id v then x\<lparr>iv_acceptedAt := Some (now w)\<rparr> else x) (ud_invitations s)"
    and acc: "accounts (ud_auth s1) = accounts (ud_auth s) @ [fresh_account (uuid w 0) (iv_email v) (js_trim (ad_firstName d)) (js_trim (ad_lastName d))
       (iv_role v) (iv_companyId v) (bcrypt_hash cr (ad_password d)) True]"
    and new: "\<forall>a \<in> set (accounts (ud_auth s)). ac_email a \<noteq> iv_email v"
    by (rule accept_effect)
  note vp = active_invitationD[OF v(1)]
  let ?a = "fresh_account (uuid w 0) (iv_email v) (js_trim (ad_firstName d)) (js_trim (ad_lastName d))
       (iv_role v) (iv_companyId v) (bcrypt_hash cr (ad_password d)) True"
  have found: "account_by_email e (ud_auth s1) = Some ?a"
    unfolding account_by_email_def acc using new v(2)
    by (subst find_append_new) (auto simp: find_None_iff fresh_account_def)
  have "spent (hash_credential cr k) (ud_invitations s1)"
  proof -
    have "x = v" if "x \<in> set (ud_invitations s)" "iv_hash x = hash_credential cr k" for x
      using doors that vp by (auto simp: open_doors_def distinct_map inj_on_def)
    note only = this
    let ?f = "\<lambda>x. if iv_id x = iv_id v then x\<lparr>iv_acceptedAt := Some (now w)\<rparr> else x"
    have "map iv_hash (map ?f (ud_invitations s)) = map iv_hash (ud_invitations s)" by simp
    moreover have "\<not> pending (?f x)" if "x \<in> set (ud_invitations s)" "iv_hash (?f x) = hash_credential cr k" for x
      using only[OF that(1)] that(2) by (simp add: pending_def split: if_splits)
    moreover have "hash_credential cr k \<in> iv_hash ` set (ud_invitations s)" using vp by (intro image_eqI[of _ iv_hash v]) simp_all
    ultimately show ?thesis unfolding spent_def inv by (simp only: set_map ball_simps) simp
  qed
  then have "spent (hash_credential cr k) (ud_invitations s2)" using spentm.reachable_inv[OF later] by blast
  then have refused: "accept_invitation cr w' k d' s2 = (Inl invitation_invalid, s2)" by (rule spent_refused)
  have "?a \<in> set (accounts (ud_auth s1))" "ac_role ?a = iv_role v" "ac_companyId ?a = Some (iv_companyId v)" "ac_isActive ?a"
    "ac_passwordHash ?a = Some (bcrypt_hash cr (ad_password d))"
    using acc by (simp_all add: fresh_account_def)
  with found obtain a where "account_by_email e (ud_auth s1) = Some a" "a \<in> set (accounts (ud_auth s1))" "ac_role a = iv_role v"
    "ac_companyId a = Some (iv_companyId v)" "ac_isActive a" "ac_passwordHash a = Some (bcrypt_hash cr (ad_password d))"
    by (intro that[of ?a])
  with vp v(2) have "\<exists>a \<in> set (accounts (ud_auth s1)). pending v \<and> now w < iv_expiresAt v
        \<and> iv_hash v = hash_credential cr k \<and> account_by_email e (ud_auth s1) = Some a \<and> iv_email v = e
        \<and> ac_role a = iv_role v \<and> ac_companyId a = Some (iv_companyId v) \<and> ac_isActive a
        \<and> ac_passwordHash a = Some (bcrypt_hash cr (ad_password d))"
    by (intro bexI[of _ a]) simp_all
  with vp refused show ?thesis by blast
qed

section \<open>What a profile shows\<close>

text \<open>
  C31. A profile shows the permissions the guard grants. The list is sorted and without
  repetitions, and the wildcard for a super admin. A super admin passes the guard of every
  permission; for everyone else the guard lets the user through a route that requires a
  permission exactly when the profile shows it and no contextual policy that applies to it
  denies the context of the request.
\<close>
theorem profile_shows_guard_permissions:
  assumes "rq_user r = Some u"
  shows "sorted (effective_permissions t az (p_id u) (p_role u)) \<and> distinct (effective_permissions t az (p_id u) (p_role u))
    \<and> (if p_role u = ''SUPER_ADMIN'' then effective_permissions t az (p_id u) (p_role u) = [''*'']
          \<and> (\<exists>r'. permissions_guard t az x (Some [p]) False r = Inr r')
        else (\<exists>r'. permissions_guard t az x (Some [p]) False r = Inr r') \<longleftrightarrow>
          p \<in> set (effective_permissions t az (p_id u) (p_role u))
          \<and> (\<forall>pol \<in> set (az_policies az). applicable u [p] pol \<longrightarrow> \<not> policy_denies pol u x))"
proof -
  have shown: "\<not> p_role u = ''SUPER_ADMIN'' \<Longrightarrow> set (effective_permissions t az (p_id u) (p_role u)) = set (user_slugs t az u)"
    by (auto simp: effective_permissions_def user_slugs_def)
  have "\<not> p_role u = ''SUPER_ADMIN'' \<Longrightarrow> (\<exists>r'. permissions_guard t az x (Some [p]) False r = Inr r') \<longleftrightarrow>
      p \<in> set (user_slugs t az u) \<and> (\<exists>v. enforce_policies az (u\<lparr>p_slugs := user_slugs t az u, p_scopes := user_scopes az u\<rparr>) [p] x = Inr v)"
    using assms by (auto simp: permissions_guard_def Let_def split: sum.splits)
  with shown policies_allow[where az = az and u = u and sl = "user_slugs t az u" and sc = "user_scopes az u" and req = "[p]" and x = x] show ?thesis
    using assms by (auto simp: effective_permissions_def permissions_guard_def)
qed

text \<open>
  A profile shows the features the guard enforces. For a user of a company with a plan that
  is paid for, a feature of the product catalog is shown as available exactly when the guard
  lets the user through a route of that feature.
\<close>
theorem profile_shows_guard_features:
  assumes "live_account i s = Inr a" and "ac_companyId a = Some c" "c \<noteq> []" "map_of (ud_plans s) c = Some (name, plan)"
    and "rq_user r = Some u" "p_companyId u = Some c" and "f \<in> set known" "f \<noteq> []" and "entitled_status t (cp_status p) (cp_graceEndsAt p)" "cp_features p = Some plan"
  shows "(\<exists>m. effective_features known i s = Inr m \<and> (map_of m f = Some True \<longleftrightarrow>
      (\<exists>r'. feature_guard t (Some f) (company_overrides (Some c) s) (case map_of (ud_overrides s) i of None \<Rightarrow> JUndef | Some v \<Rightarrow> v) (Some p) r = Inr r')))"
proof -
  let ?co = "company_overrides (Some c) s" and ?us = "case map_of (ud_overrides s) i of None \<Rightarrow> JUndef | Some v \<Rightarrow> v"
  have e: "effective_features known i s = Inr (resolve_feature_map plan ?co ?us known)"
    using assms(1-4) by (simp add: effective_features_def Let_def or_str_def truthy_def)
  have "map_of (resolve_feature_map plan ?co ?us known) f = Some (is_feature_enabled f plan ?co ?us)"
    using assms(7) by (simp add: resolve_feature_map_def Let_def map_of_map_restrict is_feature_enabled_def)
  moreover have "(\<exists>r'. feature_guard t (Some f) ?co ?us (Some p) r = Inr r') \<longleftrightarrow> is_feature_enabled f plan ?co ?us"
    using assms(3,5,6,8-10) by (simp add: feature_guard_def truthy_def)
  ultimately show ?thesis using e by simp
qed

section \<open>Shortcomings\<close>

text \<open>
  Who may create users may create super administrators. A request to create a user with the
  role of a super administrator is served for any caller with a company; the new account is
  active and carries the chosen password, and every permission guard lets such a user through.
\<close>
theorem created_user_may_be_super_admin:
  assumes "or_opt (p_effective u) (p_companyId u) = Some c" "c \<noteq> []" and "nu_role d = Some ''SUPER_ADMIN''"
    and "assert_password_policy (Some (nu_password d)) [nu_email d, nu_firstName d, nu_lastName d] = Inr ()"
    and "\<forall>a \<in> set (accounts (ud_auth s)). ac_id a \<noteq> uuid w 0 \<and> ac_email a \<noteq> nu_email d"
  shows "\<exists>a s'. post_user cr w d u s = (Inr a, s') \<and> account_by_email (nu_email d) (ud_auth s') = Some a \<and> ac_isActive a
    \<and> ac_passwordHash a = Some (bcrypt_hash cr (nu_password d)) \<and> ac_companyId a = Some c
    \<and> (\<forall>v r. rq_user r = Some v \<and> p_role v = ac_role a \<longrightarrow> (\<exists>r'. permissions_guard t az x (Some req) service r = Inr r'))"
proof -
  let ?a = "fresh_account (uuid w 0) (nu_email d) (nu_firstName d) (nu_lastName d) ''SUPER_ADMIN'' c (bcrypt_hash cr (nu_password d)) False"
  let ?s = "s\<lparr>ud_auth := (ud_auth s)\<lparr>accounts := accounts (ud_auth s) @ [?a]\<rparr>\<rparr>"
  have "post_user cr w d u s = (Inr ?a, ?s)"
    using assms unfolding post_user_def create_account_def Let_def
    by (simp add: act_simps in_auth_def insert_account_def list_ex_iff truthy_def or_str_def) (auto simp: fresh_account_def)
  moreover have "account_by_email (nu_email d) (ud_auth ?s) = Some ?a"
    using assms(5) by (simp add: account_by_email_def) (subst find_append_new, auto simp: find_None_iff fresh_account_def)
  moreover have "permissions_guard t az x (Some req) service r \<in> range Inr" if "rq_user r = Some v" "p_role v = ''SUPER_ADMIN''" for v r
    using that by (simp add: permissions_guard_def)
  ultimately show ?thesis by (intro exI[of _ ?a] exI[of _ ?s]) (auto simp: fresh_account_def)
qed

text \<open>
  Without a plan a profile can show a feature the guard refuses: the user's own override wins in
  the profile, while the company's negative override blocks the route.
\<close>
theorem profile_overrides_disagree:
  assumes "live_account i s = Inr a" and "ac_companyId a = Some c" "c \<noteq> []" "map_of (ud_plans s) c = None"
    and "map_of (ud_overrides s) i = Some (JObj [(f, JBool True)])" "company_overrides (Some c) s = JObj [(f, JBool False)]"
    and "rq_user r = Some u" "p_companyId u = Some c" "f \<noteq> []"
  shows "\<exists>m e. effective_features known i s = Inr m \<and> map_of m f = Some True
    \<and> feature_guard t (Some f) (company_overrides (Some c) s) (JObj [(f, JBool True)]) None r = Inl e"
  using assms by (simp add: effective_features_def Let_def parse_feature_map_def feature_guard_def override_off_def field_def truthy_def or_str_def)

section \<open>Witnesses\<close>

definition j_admin :: principal where
  "j_admin = \<lparr>p_id = ''u1'', p_email = ''a@x.io'', p_role = ''TENANT_ADMIN'', p_userType = ''BUSINESS'', p_companyId = Some ''c1'',
     p_effective = None, p_location = None, p_slugs = [], p_scopes = []\<rparr>"

definition j_db :: users_db where
  "j_db = \<lparr>ud_auth = toy_db\<lparr>tenants := [\<lparr>tn_id = ''c1'', tn_name = ''C'', tn_slug = ''c'', tn_invite = None, tn_inviteExpires = None,
       tn_domain = None, tn_isActive = True\<rparr>]\<rparr>, ud_deleted = [], ud_invitations = [], ud_favorites = [], ud_authz = g_authz\<lparr>az_policies := []\<rparr>,
     ud_overrides = [(''u1'', JObj [(''crm'', JBool False)])], ud_settings = [], ud_plans = [(''c1'', ''Pro'', JObj [(''crm'', JBool True), (''cmdb'', JBool True)])],
     ud_audits = [], ud_mails = []\<rparr>"

definition j_accept :: accept_dto where
  "j_accept = \<lparr>ad_firstName = ''New'', ad_lastName = ''Tech'', ad_password = ''Correct-Horse-42x'', ad_termsAccepted = True,
     ad_termsVersion = TERMS_VERSION, ad_privacyVersion = PRIVACY_VERSION\<rparr>"

definition j_calls :: "users_call list" where
  "j_calls = [UInvite toy_crypto (toy_world 10 ''k'') ''c1'' j_admin '' New@X.io'' (Some ''TECHNICIAN''),
     UInvite toy_crypto (toy_world 20 ''l'') ''c1'' j_admin ''new@x.io'' (Some ''CLIENT'')]"

definition j_state :: users_db where "j_state = fold users_step j_calls j_db"

lemma j_reach: "reachable_by any_call users_step j_db j_state"
  unfolding j_state_def by (rule doorsm.fold_reachable) (simp_all add: list_all_iff reach_start)

lemma j_run: "map iv_id (filter pending (ud_invitations j_state)) = [''l'']" "ud_invitations j_db = []"
  "fst (accept_invitation toy_crypto (toy_world 30 ''n'') ''l'' j_accept j_state) = Inr ''new@x.io''"
  by code_simp+

theorem one_pending_invitation_witness:
  "distinct (map (\<lambda>v. (iv_companyId v, iv_email v)) (filter pending (ud_invitations j_state)))
   \<and> map iv_id (filter pending (ud_invitations j_state)) = [''l'']"
  using one_pending_invitation[OF j_reach j_run(2)] j_run(1) by simp

theorem invitation_works_once_witness:
  "accept_invitation toy_crypto (toy_world 40 ''m'') ''l'' j_accept (snd (accept_invitation toy_crypto (toy_world 30 ''n'') ''l'' j_accept j_state))
   = (Inl invitation_invalid, snd (accept_invitation toy_crypto (toy_world 30 ''n'') ''l'' j_accept j_state))"
proof -
  let ?m = "accept_invitation toy_crypto (toy_world 30 ''n'') ''l'' j_accept j_state"
  have m: "?m = (Inr ''new@x.io'', snd ?m)"
    by (rule prod_eqI) (simp_all only: j_run fst_conv snd_conv)
  show ?thesis using invitation_works_once[OF j_reach j_run(2) m reach_start] by blast
qed

theorem profile_shows_guard_permissions_witness:
  "(\<exists>r'. permissions_guard 0 g_authz g_ctx (Some [''tickets.edit'']) False g_request = Inr r')
   \<and> \<not> (\<exists>r'. permissions_guard 0 g_authz g_ctx (Some [''platform.root'']) False g_request = Inr r')"
proof -
  have u: "rq_user g_request = Some g_user" "p_role g_user \<noteq> ''SUPER_ADMIN''" by (simp_all add: g_request_def g_user_def)
  have d: "''tickets.edit'' \<in> set tenant_admin_defaults \<and> ''platform.root'' \<notin> set tenant_admin_defaults" by code_simp
  then have "''tickets.edit'' \<in> set (effective_permissions 0 g_authz (p_id g_user) (p_role g_user))"
      "''platform.root'' \<notin> set (effective_permissions 0 g_authz (p_id g_user) (p_role g_user))"
    by (simp_all add: effective_permissions_def g_user_def g_authz_def user_role_permissions_def
        system_role_permissions_def live_grants_def)
  moreover have "\<forall>pol \<in> set (az_policies g_authz). \<not> applicable g_user [''tickets.edit''] pol"
    by (simp add: g_authz_def applicable_def)
  ultimately show ?thesis
    using profile_shows_guard_permissions[OF u(1), of 0 g_authz g_ctx "''tickets.edit''"]
      profile_shows_guard_permissions[OF u(1), of 0 g_authz g_ctx "''platform.root''"] u(2) by simp
qed

definition j_user :: principal where "j_user = person_principal \<lparr>u_id = ''u1'', u_email = [], u_firstName = [], u_lastName = [], u_phone = None,
  u_location = None, u_role = ''TECHNICIAN'', u_userType = ''BUSINESS'', u_companyId = Some ''c1'', u_isActive = True, u_deletedAt = None\<rparr>"

definition j_request :: request where "j_request = g_request\<lparr>rq_user := Some j_user\<rparr>"

definition j_plan :: company_plan where
  "j_plan = \<lparr>cp_status = None, cp_graceEndsAt = None, cp_features = Some (JObj [(''crm'', JBool True), (''cmdb'', JBool True)])\<rparr>"

theorem profile_shows_guard_features_witness:
  "\<exists>m. effective_features [''crm''] ''u1'' j_db = Inr m \<and> map_of m ''crm'' \<noteq> Some True"
proof -
  have a: "live_account ''u1'' j_db = Inr toy_account"
    by (simp add: live_account_def live_accounts_def alive_def j_db_def toy_db_def no_auth_def toy_account_def)
  have "entitled_status 0 (cp_status j_plan) (cp_graceEndsAt j_plan)" by code_simp
  moreover have "\<not> (\<exists>r'. feature_guard 0 (Some ''crm'') (company_overrides (Some ''c1'') j_db) (JObj [(''crm'', JBool False)]) (Some j_plan) j_request = Inr r')"
    by (simp add: feature_guard_def j_request_def j_user_def person_principal_def j_plan_def is_feature_enabled_def parse_feature_map_def
        entitled_status_def or_str_def Let_def ch_upper_def)
  ultimately show ?thesis
    using profile_shows_guard_features[OF a, of "''c1''" "''Pro''" "JObj [(''crm'', JBool True), (''cmdb'', JBool True)]" j_request j_user "''crm''" "[''crm'']" 0 j_plan]
    by (auto simp: toy_account_def j_db_def j_request_def j_user_def person_principal_def j_plan_def)
qed

definition j_dto :: new_user_dto where
  "j_dto = \<lparr>nu_email = ''evil@x.io'', nu_password = ''Correct-Horse-42x'', nu_firstName = ''E'', nu_lastName = ''V'', nu_role = Some ''SUPER_ADMIN''\<rparr>"

lemma j_policy: "assert_password_policy (Some (nu_password j_dto)) [nu_email j_dto, nu_firstName j_dto, nu_lastName j_dto] = Inr ()"
  by code_simp

theorem created_user_may_be_super_admin_witness:
  "\<exists>a s'. post_user toy_crypto (toy_world 5 ''new'') j_dto j_admin j_db = (Inr a, s') \<and> ac_companyId a = Some ''c1''"
proof -
  have c: "or_opt (p_effective j_admin) (p_companyId j_admin) = Some ''c1''" "nu_role j_dto = Some ''SUPER_ADMIN''"
    by (simp_all add: j_admin_def j_dto_def or_opt_def)
  have "\<forall>a \<in> set (accounts (ud_auth j_db)). ac_id a \<noteq> uuid (toy_world 5 ''new'') 0 \<and> ac_email a \<noteq> nu_email j_dto"
    by (simp add: j_db_def toy_db_def no_auth_def toy_account_def toy_world_def j_dto_def)
  from created_user_may_be_super_admin[OF c(1) _ c(2) j_policy this, where cr = toy_crypto and t = 0 and az = g_authz and x = g_ctx and req = "[]" and service = False]
  obtain a s' where "post_user toy_crypto (toy_world 5 ''new'') j_dto j_admin j_db = (Inr a, s')" "ac_companyId a = Some ''c1''" by auto
  then show ?thesis by (intro exI conjI)
qed

end
