(* ===== verification/Admin.thy ===== *)
theory Admin
  imports Governance Users
begin

text \<open>
  Administration of roles and access (\<open>admin/services/admin.service.ts\<close>): roles and their
  permissions with history and rollback, assignments, permission approvals, temporary grants,
  scopes, service accounts, break-glass accounts and access reviews. A role carries the slugs
  of its permissions; \<open>admin_authz\<close> is what the guards of \<open>Guards\<close> see of these tables. An
  audit entry of a role keeps its action and, for a change of permissions, the slugs before
  and after. Read-only workspace and dashboard views are left out.
\<close>

section \<open>Tables\<close>

record role_row = role +
  rw_companyId :: "string option"
  rw_description :: "string option"

record grant_row = temp_grant +
  gw_id :: string
  gw_companyId :: "string option"

record scope_entry = scope_row +
  sw_id :: string

record perm_approval =
  pp_id :: string
  pp_companyId :: "string option"
  pp_roleId :: string
  pp_requestedBy :: string
  pp_status :: string
  pp_slugs :: "string list"
  pp_approvedBy :: "string option"

record review_campaign =
  vc_id :: string
  vc_companyId :: "string option"
  vc_status :: string

record review_item =
  vi_id :: string
  vi_campaignId :: string
  vi_userId :: string
  vi_decision :: string
  vi_reviewer :: "string option"

record role_audit =
  ra_id :: string
  ra_companyId :: string
  ra_actorId :: string
  ra_action :: string
  ra_resourceId :: string
  ra_before :: "string list option"
  ra_after :: "string list"

record admin_db =
  am_auth :: auth_db
  am_deleted :: "(string \<times> int) list"
  am_closed :: "(string \<times> int) list"
  am_roles :: "role_row list"
  am_user_roles :: "(string \<times> string) list"
  am_permissions :: "string list"
  am_grants :: "grant_row list"
  am_scopes :: "scope_entry list"
  am_approvals :: "perm_approval list"
  am_services :: "service_account list"
  am_reviews :: "review_campaign list"
  am_items :: "review_item list"
  am_history :: "role_audit list"
  am_dual :: "dual_approval list"
  am_moves :: "(string \<times> string option \<times> string option \<times> string) list"

type_synonym 'a am = "(admin_db, 'a) act"

definition admin_authz :: "admin_db \<Rightarrow> authz" where
  "admin_authz s = \<lparr>az_userRoles = am_user_roles s, az_roles = map role.truncate (am_roles s),
     az_grants = map temp_grant.truncate (am_grants s), az_scopes = map scope_row.truncate (am_scopes s), az_policies = []\<rparr>"

definition am_get :: "(admin_db \<Rightarrow> 'a res) \<Rightarrow> 'a am" where
  "am_get f = bindE (reads f) of_res"

definition am_in_auth :: "'a auth \<Rightarrow> 'a am" where
  "am_in_auth m s = (let (r, a) = m (am_auth s) in (r, s\<lparr>am_auth := a\<rparr>))"

section \<open>Shared steps\<close>

definition user_row :: "string \<Rightarrow> admin_db \<Rightarrow> account option" where
  "user_row i s = find_account i (am_auth s)"

definition role_row_of :: "string \<Rightarrow> admin_db \<Rightarrow> role_row option" where
  "role_row_of i s = find (\<lambda>r. ro_id r = i) (am_roles s)"

definition assert_user_scope :: "string \<Rightarrow> principal \<Rightarrow> admin_db \<Rightarrow> account res" where
  "assert_user_scope i actor s =
     (case user_row i s of None \<Rightarrow> Inl (NotFound ''User not found'')
      | Some a \<Rightarrow> if map_of (am_deleted s) i \<noteq> None then Inl (NotFound ''User not found'')
                  else if p_role actor \<noteq> ''SUPER_ADMIN'' \<and> ac_companyId a \<noteq> p_companyId actor
                  then Inl (Forbidden ''User is outside your tenant'') else Inr a)"

definition assert_role_scope :: "string \<Rightarrow> principal \<Rightarrow> bool \<Rightarrow> admin_db \<Rightarrow> role_row res" where
  "assert_role_scope i actor editable s =
     (case role_row_of i s of None \<Rightarrow> Inl (NotFound ''Role not found'')
      | Some r \<Rightarrow>
          if p_role actor = ''SUPER_ADMIN'' then Inr r
          else if editable \<and> ro_isSystem r then Inl (Forbidden ''System roles can only be changed by a super admin'')
          else if truthy (rw_companyId r) \<and> rw_companyId r \<noteq> p_companyId actor then Inl (Forbidden ''Role is outside your tenant'')
          else if editable \<and> rw_companyId r \<noteq> p_companyId actor then Inl (Forbidden ''Only tenant-owned roles can be changed'')
          else Inr r)"

text \<open>The known permissions among the slugs, once each; unknown ones are an error.\<close>

definition permissions_by_slugs :: "string list \<Rightarrow> admin_db \<Rightarrow> string list res" where
  "permissions_by_slugs slugs s =
     (let wanted = remdups (filter (\<lambda>x. x \<noteq> []) slugs); missing = filter (\<lambda>x. x \<notin> set (am_permissions s)) wanted in
      if missing \<noteq> [] then Inl (BadRequest (''Unknown permission(s): '' @ str_join '', '' missing))
      else Inr (filter (\<lambda>p. p \<in> set wanted) (am_permissions s)))"

definition am_revoke :: "int \<Rightarrow> string list \<Rightarrow> string \<Rightarrow> string \<Rightarrow> unit am" where
  "am_revoke t ids actorId why =
     am_in_auth (writes (\<lambda>a. a\<lparr>
       sessions := map (\<lambda>x. if se_revokedAt x = None \<and> se_userId x \<in> set ids \<and> se_userId x \<noteq> []
         then revoke t (Some actorId) why x else x) (sessions a),
       accounts := map (\<lambda>x. if ac_id x \<in> set ids \<and> ac_id x \<noteq> [] then x\<lparr>ac_authVersion := ac_authVersion x + 1\<rparr> else x) (accounts a)\<rparr>))"

definition am_alert :: "string option \<Rightarrow> string \<Rightarrow> string \<Rightarrow> string \<Rightarrow> string \<Rightarrow> unit am" where
  "am_alert companyId kind severity subjectId summary =
     am_in_auth (writes (\<lambda>a. a\<lparr>alerts := alerts a @ [\<lparr>al_companyId = companyId, al_type = kind, al_severity = severity,
       al_subject = subjectId, al_summary = take 255 summary\<rparr>]\<rparr>))"

definition role_audit_entry :: "string \<Rightarrow> principal \<Rightarrow> string \<Rightarrow> string \<Rightarrow> string list option \<Rightarrow> string list \<Rightarrow> string option \<Rightarrow> unit am" where
  "role_audit_entry i actor roleId action before after companyId =
     writes (\<lambda>s. s\<lparr>am_history := am_history s @ [\<lparr>ra_id = i,
       ra_companyId = or_str companyId (or_str (p_companyId actor) ''platform''), ra_actorId = p_id actor, ra_action = action,
       ra_resourceId = roleId, ra_before = before, ra_after = after\<rparr>]\<rparr>)"

definition set_role :: "string \<Rightarrow> (role_row \<Rightarrow> role_row) \<Rightarrow> unit am" where
  "set_role i f = writes (\<lambda>s. s\<lparr>am_roles := map (\<lambda>r. if ro_id r = i then f r else r) (am_roles s)\<rparr>)"

section \<open>Roles\<close>

definition CRITICAL_PERMISSION_SLUGS :: "string list" where
  "CRITICAL_PERMISSION_SLUGS = [''users.manage'', ''roles.manage'', ''billing.manage'', ''platform-security.manage'',
     ''audit-logs.view'', ''backups.manage'']"

record role_dto =
  rd_name :: string
  rd_slug :: string
  rd_description :: "string option"
  rd_companyId :: "string option"
  rd_slugs :: "string list"

text \<open>The role is inserted before its permissions are looked up.\<close>

definition create_role :: "string \<Rightarrow> role_dto \<Rightarrow> role_row am" where
  "create_role i d =
     bindE (reads (\<lambda>s. list_ex (\<lambda>r. ro_slug r = rd_slug d \<and> rw_companyId r = or_null (rd_companyId d)) (am_roles s))) (\<lambda>existing.
     bindE (guard (\<not> existing) (BadRequest ''Role slug already exists for this company'')) (\<lambda>_.
     bindE (reads (\<lambda>s. role_row_of i s \<noteq> None)) (\<lambda>dup.
     bindE (guard (\<not> dup) duplicate) (\<lambda>_.
     bindE (writes (\<lambda>s. s\<lparr>am_roles := am_roles s @ [\<lparr>ro_id = i, ro_name = rd_name d, ro_slug = rd_slug d, ro_isSystem = False,
       ro_permissions = [], rw_companyId = or_null (rd_companyId d), rw_description = rd_description d\<rparr>]\<rparr>)) (\<lambda>_.
     bindE (if rd_slugs d = [] then ret ()
            else bindE (am_get (permissions_by_slugs (rd_slugs d))) (\<lambda>ps. set_role i (\<lambda>r. r\<lparr>ro_permissions := ps\<rparr>))) (\<lambda>_.
     am_get (\<lambda>s. case role_row_of i s of None \<Rightarrow> Inl (NotFound ''Role not found'') | Some r \<Rightarrow> Inr r)))))))"

definition clone_role :: "auth_world \<Rightarrow> string \<Rightarrow> string \<Rightarrow> string \<Rightarrow> string option \<Rightarrow> principal \<Rightarrow> role_row am" where
  "clone_role w roleId name slug description actor =
     bindE (am_get (assert_role_scope roleId actor False)) (\<lambda>source.
     let target = (if p_role actor = ''SUPER_ADMIN'' then or_opt (rw_companyId source) (p_companyId actor) else p_companyId actor) in
     bindE (create_role (uuid w 0) \<lparr>rd_name = name, rd_slug = slug, rd_description = description, rd_companyId = target,
       rd_slugs = ro_permissions source\<rparr>) (\<lambda>r.
     bindE (role_audit_entry (uuid w 1) actor (ro_id r) ''ROLE_CLONED'' (Some []) (ro_permissions r) target) (\<lambda>_.
     ret r)))"

definition role_users :: "string \<Rightarrow> admin_db \<Rightarrow> string list" where
  "role_users i s = map fst (filter (\<lambda>x. snd x = i) (am_user_roles s))"

text \<open>Whether the change takes critical permissions from active users.\<close>

definition needs_acknowledgement :: "string \<Rightarrow> string list \<Rightarrow> string list \<Rightarrow> admin_db \<Rightarrow> bool" where
  "needs_acknowledgement roleId before after s \<longleftrightarrow>
     list_ex (\<lambda>p. p \<notin> set after \<and> p \<in> set CRITICAL_PERMISSION_SLUGS) before
     \<and> list_ex (\<lambda>i. case user_row i s of None \<Rightarrow> False | Some a \<Rightarrow> ac_isActive a \<and> map_of (am_deleted s) i = None) (role_users roleId s)"

record role_patch =
  rp_name :: "string option"
  rp_description :: "string option"
  rp_slugs :: "string list option"
  rp_acknowledge :: bool

definition update_role :: "auth_world \<Rightarrow> string \<Rightarrow> role_patch \<Rightarrow> principal \<Rightarrow> unit am" where
  "update_role w roleId d actor =
     bindE (am_get (assert_role_scope roleId actor True)) (\<lambda>r.
     bindE (case rp_slugs d of None \<Rightarrow> ret ()
       | Some slugs \<Rightarrow> bindE (reads (needs_acknowledgement roleId (ro_permissions r) slugs)) (\<lambda>need.
           guard (\<not> (need \<and> \<not> rp_acknowledge d))
             (BadRequest ''Removing critical permissions from a role with active users requires acknowledgement''))) (\<lambda>_.
     bindE (case rp_slugs d of None \<Rightarrow> ret ()
       | Some slugs \<Rightarrow>
           bindE (set_role roleId (\<lambda>r. r\<lparr>ro_permissions := []\<rparr>)) (\<lambda>_.
           if slugs = [] then ret ()
           else bindE (am_get (permissions_by_slugs slugs)) (\<lambda>ps. set_role roleId (\<lambda>r. r\<lparr>ro_permissions := ps\<rparr>)))) (\<lambda>_.
     bindE (set_role roleId (\<lambda>r. r\<lparr>ro_name := or_str (rp_name d) (ro_name r),
       rw_description := (case rp_description d of None \<Rightarrow> rw_description r | Some x \<Rightarrow> Some x)\<rparr>)) (\<lambda>_.
     case rp_slugs d of None \<Rightarrow> ret ()
     | Some slugs \<Rightarrow>
         bindE (role_audit_entry (uuid w 1) actor roleId ''ROLE_PERMISSIONS_UPDATED'' (Some (ro_permissions r)) slugs (rw_companyId r)) (\<lambda>_.
         bindE (reads (role_users roleId)) (\<lambda>ids.
         am_revoke (now w) ids (p_id actor) ''role-permissions-changed''))))))"

definition rollback_role :: "auth_world \<Rightarrow> string \<Rightarrow> string \<Rightarrow> principal \<Rightarrow> unit am" where
  "rollback_role w roleId historyId actor =
     bindE (am_get (assert_role_scope roleId actor True)) (\<lambda>_.
     bindE (am_get (\<lambda>s. case find (\<lambda>e. ra_id e = historyId \<and> ra_resourceId e = roleId) (am_history s) of
        None \<Rightarrow> Inl (NotFound ''Permission history version not found'') | Some e \<Rightarrow> Inr e)) (\<lambda>e.
     bindE (guard (p_role actor = ''SUPER_ADMIN'' \<or> Some (ra_companyId e) = p_companyId actor)
       (Forbidden ''Permission history version is outside your tenant'')) (\<lambda>_.
     case ra_before e of
       None \<Rightarrow> raise (BadRequest ''Permission history version cannot be restored'')
     | Some before \<Rightarrow> update_role w roleId \<lparr>rp_name = None, rp_description = None, rp_slugs = Some before, rp_acknowledge = True\<rparr> actor)))"

text \<open>The super-admin route passes no actor.\<close>

definition delete_role :: "string \<Rightarrow> principal option \<Rightarrow> unit am" where
  "delete_role roleId actor =
     bindE (am_get (\<lambda>s. case actor of Some u \<Rightarrow> assert_role_scope roleId u True s
       | None \<Rightarrow> (case role_row_of roleId s of None \<Rightarrow> Inl (NotFound ''Role not found'') | Some r \<Rightarrow> Inr r))) (\<lambda>r.
     bindE (guard (\<not> ro_isSystem r) (BadRequest ''Cannot delete system roles'')) (\<lambda>_.
     writes (\<lambda>s. s\<lparr>am_user_roles := filter (\<lambda>x. snd x \<noteq> roleId) (am_user_roles s),
       am_roles := filter (\<lambda>r. ro_id r \<noteq> roleId) (am_roles s)\<rparr>)))"

section \<open>Assignments\<close>

definition assign_user_role :: "int \<Rightarrow> string \<Rightarrow> string \<Rightarrow> principal \<Rightarrow> unit am" where
  "assign_user_role t userId roleId actor =
     bindE (am_get (\<lambda>s. case user_row userId s of None \<Rightarrow> Inl (NotFound ''User not found'') | Some a \<Rightarrow> Inr a)) (\<lambda>a.
     bindE (guard (p_role actor = ''SUPER_ADMIN'' \<or> ac_companyId a = p_companyId actor) (Forbidden ''User is outside your tenant'')) (\<lambda>_.
     bindE (am_get (assert_role_scope roleId actor False)) (\<lambda>r.
     bindE (guard (\<not> (truthy (rw_companyId r) \<and> rw_companyId r \<noteq> ac_companyId a)) (BadRequest ''Role does not belong to the user's company'')) (\<lambda>_.
     bindE (writes (\<lambda>s. s\<lparr>am_user_roles := (if (userId, roleId) \<in> set (am_user_roles s) then am_user_roles s
       else am_user_roles s @ [(userId, roleId)])\<rparr>)) (\<lambda>_.
     am_revoke t [userId] (p_id actor) ''role-assigned'')))))"

definition other_super_admins :: "string \<Rightarrow> admin_db \<Rightarrow> account list" where
  "other_super_admins i s = filter (\<lambda>a. ac_role a = ''SUPER_ADMIN'' \<and> ac_isActive a \<and> map_of (am_deleted s) (ac_id a) = None \<and> ac_id a \<noteq> i)
     (accounts (am_auth s))"

definition assert_not_last_super_admin :: "string \<Rightarrow> unit am" where
  "assert_not_last_super_admin i =
     bindE (reads (\<lambda>s. case user_row i s of None \<Rightarrow> True | Some a \<Rightarrow> ac_role a \<noteq> ''SUPER_ADMIN'' \<or> other_super_admins i s \<noteq> [])) (\<lambda>ok.
     guard ok (BadRequest ''Cannot remove access from the final active super admin''))"

definition remove_user_role :: "int \<Rightarrow> string \<Rightarrow> string \<Rightarrow> principal \<Rightarrow> unit am" where
  "remove_user_role t userId roleId actor =
     bindE (if p_role actor = ''SUPER_ADMIN'' then ret ()
       else bindE (reads (user_row userId)) (\<lambda>u.
         bindE (guard (case u of None \<Rightarrow> False | Some a \<Rightarrow> ac_companyId a = p_companyId actor) (Forbidden ''User is outside your tenant'')) (\<lambda>_.
         bindE (am_get (assert_role_scope roleId actor False)) (\<lambda>_. ret ())))) (\<lambda>_.
     bindE (reads (\<lambda>s. (userId, roleId) \<in> set (am_user_roles s))) (\<lambda>existing.
     bindE (guard existing (NotFound ''User-role assignment not found'')) (\<lambda>_.
     bindE (reads (\<lambda>s. (user_row userId s, role_row_of roleId s))) (\<lambda>(u, r).
     bindE (if (case u of None \<Rightarrow> False | Some a \<Rightarrow> ac_role a = ''SUPER_ADMIN'')
               \<and> (case r of None \<Rightarrow> False | Some x \<Rightarrow> ro_slug x = ''super-admin'' \<or> ro_name x = ''SUPER_ADMIN'')
            then assert_not_last_super_admin userId else ret ()) (\<lambda>_.
     bindE (writes (\<lambda>s. s\<lparr>am_user_roles := filter (\<lambda>x. x \<noteq> (userId, roleId)) (am_user_roles s)\<rparr>)) (\<lambda>_.
     am_revoke t [userId] (p_id actor) ''role-removed''))))))"

definition get_user_roles :: "string \<Rightarrow> principal option \<Rightarrow> admin_db \<Rightarrow> role_row list res" where
  "get_user_roles userId actor s =
     (let allowed = (case actor of Some u \<Rightarrow> p_role u = ''SUPER_ADMIN'' | None \<Rightarrow> False);
          same = (case user_row userId s of None \<Rightarrow> False
            | Some a \<Rightarrow> ac_companyId a = (case actor of None \<Rightarrow> None | Some u \<Rightarrow> p_companyId u)) in
      if \<not> allowed \<and> \<not> same then Inl (Forbidden ''User is outside your tenant'')
      else Inr (concat (map (\<lambda>(u, r). if u = userId then filter (\<lambda>x. ro_id x = r) (am_roles s) else []) (am_user_roles s))))"

end
