(* ===== verification/Admin_Ops.thy ===== *)
theory Admin_Ops
  imports Admin
begin

text \<open>
  The rest of \<open>admin.service.ts\<close>: permission approvals, temporary grants and scopes, service
  accounts, break-glass accounts, access reviews, and the accounts and companies the platform
  and tenant administrators keep (\<open>tenant-role-governance.ts\<close>).
\<close>

section \<open>Permission approvals\<close>

definition request_permission_approval :: "auth_world \<Rightarrow> string \<Rightarrow> string list \<Rightarrow> principal \<Rightarrow> string am" where
  "request_permission_approval w roleId slugs actor =
     bindE (am_get (assert_role_scope roleId actor True)) (\<lambda>r.
     bindE (am_get (permissions_by_slugs slugs)) (\<lambda>_.
     bindE (writes (\<lambda>s. s\<lparr>am_approvals := am_approvals s @ [\<lparr>pp_id = uuid w 0,
       pp_companyId = or_opt (rw_companyId r) (or_null (p_companyId actor)), pp_roleId = roleId, pp_requestedBy = p_id actor,
       pp_status = ''PENDING'', pp_slugs = remdups slugs, pp_approvedBy = None\<rparr>]\<rparr>)) (\<lambda>_.
     bindE (role_audit_entry (uuid w 1) actor roleId ''ROLE_PERMISSION_APPROVAL_REQUESTED'' None slugs (rw_companyId r)) (\<lambda>_.
     ret (uuid w 0)))))"

definition review_permission_approval :: "auth_world \<Rightarrow> string \<Rightarrow> string \<Rightarrow> principal \<Rightarrow> string am" where
  "review_permission_approval w i decision actor =
     bindE (am_get (\<lambda>s. case find (\<lambda>a. pp_id a = i) (am_approvals s) of
        None \<Rightarrow> Inl (NotFound ''Approval request not found'') | Some a \<Rightarrow> Inr a)) (\<lambda>a.
     bindE (guard (pp_status a = ''PENDING'') (BadRequest ''Approval request has already been reviewed'')) (\<lambda>_.
     bindE (guard (p_role actor = ''SUPER_ADMIN'' \<or> pp_companyId a = p_companyId actor) (Forbidden ''Approval is outside your tenant'')) (\<lambda>_.
     bindE (guard (p_role actor = ''SUPER_ADMIN'' \<or> pp_requestedBy a \<noteq> p_id actor)
       (BadRequest ''A second administrator must review this request'')) (\<lambda>_.
     bindE (if decision = ''APPROVED'' then update_role w (pp_roleId a)
              \<lparr>rp_name = None, rp_description = None, rp_slugs = Some (pp_slugs a), rp_acknowledge = True\<rparr> actor else ret ()) (\<lambda>_.
     bindE (writes (\<lambda>s. s\<lparr>am_approvals := map (\<lambda>x. if pp_id x = i then x\<lparr>pp_status := decision, pp_approvedBy := Some (p_id actor)\<rparr>
       else x) (am_approvals s)\<rparr>)) (\<lambda>_.
     bindE (role_audit_entry (uuid w 2) actor (pp_roleId a) (''ROLE_PERMISSION_APPROVAL_'' @ decision) None [] (pp_companyId a)) (\<lambda>_.
     ret decision)))))))"

section \<open>Temporary grants and scopes\<close>

record grant_dto =
  gd_userId :: string
  gd_slug :: string
  gd_startsAt :: "int option"
  gd_expiresAt :: "int option"

text \<open>An expiry that is no date is \<open>None\<close>.\<close>

definition grant_permission :: "auth_world \<Rightarrow> grant_dto \<Rightarrow> principal \<Rightarrow> string am" where
  "grant_permission w d actor =
     bindE (am_get (assert_user_scope (gd_userId d) actor)) (\<lambda>u.
     bindE (am_get (permissions_by_slugs [gd_slug d])) (\<lambda>ps.
     bindE (guard (case gd_expiresAt d of None \<Rightarrow> False | Some e \<Rightarrow> e > now w) (BadRequest ''Expiration must be in the future'')) (\<lambda>_.
     bindE (guard (ps \<noteq> []) (ServerError ''Cannot read properties of undefined'')) (\<lambda>_.
     bindE (writes (\<lambda>s. s\<lparr>am_grants := am_grants s @ [\<lparr>tg_userId = ac_id u, tg_slug = hd ps, tg_revokedAt = None,
       tg_startsAt = (case gd_startsAt d of None \<Rightarrow> now w | Some t \<Rightarrow> t),
       tg_expiresAt = (case gd_expiresAt d of None \<Rightarrow> 0 | Some e \<Rightarrow> e),
       gw_id = uuid w 0, gw_companyId = or_opt (ac_companyId u) (or_null (p_companyId actor))\<rparr>]\<rparr>)) (\<lambda>_.
     bindE (role_audit_entry (uuid w 1) actor (ac_id u) ''TEMPORARY_PERMISSION_GRANTED'' None [gd_slug d] (ac_companyId u)) (\<lambda>_.
     bindE (am_revoke (now w) [ac_id u] (p_id actor) ''temporary-permission-granted'') (\<lambda>_.
     ret (uuid w 0))))))))"

definition revoke_grant :: "auth_world \<Rightarrow> string \<Rightarrow> principal \<Rightarrow> unit am" where
  "revoke_grant w i actor =
     bindE (am_get (\<lambda>s. case find (\<lambda>g. gw_id g = i) (am_grants s) of
        None \<Rightarrow> Inl (NotFound ''Temporary grant not found'') | Some g \<Rightarrow> Inr g)) (\<lambda>g.
     bindE (guard (p_role actor = ''SUPER_ADMIN'' \<or> gw_companyId g = p_companyId actor) (Forbidden ''Grant is outside your tenant'')) (\<lambda>_.
     bindE (writes (\<lambda>s. s\<lparr>am_grants := map (\<lambda>x. if gw_id x = i then x\<lparr>tg_revokedAt := Some (now w)\<rparr> else x) (am_grants s)\<rparr>)) (\<lambda>_.
     bindE (role_audit_entry (uuid w 1) actor (tg_userId g) ''TEMPORARY_PERMISSION_REVOKED'' None [] (gw_companyId g)) (\<lambda>_.
     am_revoke (now w) [tg_userId g] (p_id actor) ''temporary-permission-revoked''))))"

definition PERMISSION_SCOPE_TYPES :: "string list" where
  "PERMISSION_SCOPE_TYPES = [''ALL'', ''ASSIGNED'', ''DEPARTMENT'', ''LOCATION'', ''CUSTOMERS'', ''RELATIONSHIP'']"

record permission_scope_dto =
  sd_roleId :: "string option"
  sd_userId :: "string option"
  sd_slug :: string
  sd_type :: string
  sd_values :: "string list option"

definition scoped_users :: "string option \<Rightarrow> string option \<Rightarrow> admin_db \<Rightarrow> string list" where
  "scoped_users userId roleId s = (if truthy userId then [or_str userId []] else role_users (or_str roleId []) s)"

definition create_scope :: "auth_world \<Rightarrow> permission_scope_dto \<Rightarrow> principal \<Rightarrow> string am" where
  "create_scope w d actor =
     bindE (guard (truthy (sd_roleId d) \<or> truthy (sd_userId d)) (BadRequest ''A role or user is required'')) (\<lambda>_.
     bindE (if truthy (sd_roleId d) then bindE (am_get (assert_role_scope (or_str (sd_roleId d) []) actor False)) (\<lambda>r. ret (rw_companyId r))
            else ret None) (\<lambda>rc.
     bindE (if truthy (sd_userId d) then bindE (am_get (assert_user_scope (or_str (sd_userId d) []) actor)) (\<lambda>u. ret (ac_companyId u))
            else ret None) (\<lambda>uc.
     bindE (am_get (permissions_by_slugs [sd_slug d])) (\<lambda>_.
     bindE (guard (sd_type d \<in> set PERMISSION_SCOPE_TYPES) (BadRequest ''Invalid permission scope'')) (\<lambda>_.
     let companyId = or_opt rc (or_opt uc (or_null (p_companyId actor))) in
     bindE (writes (\<lambda>s. s\<lparr>am_scopes := am_scopes s @ [\<lparr>sr_scope = \<lparr>scope_slug = sd_slug d, scope_type = sd_type d,
         scope_values = Some (case sd_values d of None \<Rightarrow> [] | Some v \<Rightarrow> v)\<rparr>,
       sr_userId = or_null (sd_userId d), sr_roleId = or_null (sd_roleId d), sr_companyId = companyId, sw_id = uuid w 0\<rparr>]\<rparr>)) (\<lambda>_.
     bindE (role_audit_entry (uuid w 1) actor (or_str (sd_roleId d) (or_str (sd_userId d) [])) ''PERMISSION_SCOPE_CREATED'' None [] companyId) (\<lambda>_.
     bindE (reads (scoped_users (sd_userId d) (sd_roleId d))) (\<lambda>ids.
     bindE (am_revoke (now w) ids (p_id actor) ''permission-scope-changed'') (\<lambda>_.
     ret (uuid w 0))))))))))"

definition delete_scope :: "auth_world \<Rightarrow> string \<Rightarrow> principal \<Rightarrow> unit am" where
  "delete_scope w i actor =
     bindE (am_get (\<lambda>s. case find (\<lambda>x. sw_id x = i) (am_scopes s) of
        None \<Rightarrow> Inl (NotFound ''Permission scope not found'') | Some x \<Rightarrow> Inr x)) (\<lambda>x.
     bindE (guard (p_role actor = ''SUPER_ADMIN'' \<or> sr_companyId x = p_companyId actor) (Forbidden ''Scope is outside your tenant'')) (\<lambda>_.
     bindE (writes (\<lambda>s. s\<lparr>am_scopes := filter (\<lambda>y. sw_id y \<noteq> i) (am_scopes s)\<rparr>)) (\<lambda>_.
     bindE (role_audit_entry (uuid w 1) actor (or_str (sr_roleId x) (or_str (sr_userId x) [])) ''PERMISSION_SCOPE_DELETED'' None [] (sr_companyId x)) (\<lambda>_.
     bindE (reads (scoped_users (sr_userId x) (sr_roleId x))) (\<lambda>ids.
     am_revoke (now w) ids (p_id actor) ''permission-scope-changed'')))))"

section \<open>Service and break-glass accounts\<close>

record machine_dto =
  mn_name :: "string option"
  mn_slugs :: "string list option"
  mn_companyId :: "string option"
  mn_scopeType :: "string option"
  mn_scopeValues :: "string list option"
  mn_expiresAt :: "int option"

text \<open>\<open>sha\<close> is the hash of tokens; the token itself is returned once.\<close>

definition create_service_account :: "(string \<Rightarrow> string) \<Rightarrow> auth_world \<Rightarrow> machine_dto \<Rightarrow> principal \<Rightarrow> (string \<times> string) am" where
  "create_service_account sha w d actor =
     bindE (am_get (permissions_by_slugs (case mn_slugs d of None \<Rightarrow> [] | Some v \<Rightarrow> v))) (\<lambda>ps.
     bindE (guard (js_trim (or_str (mn_name d) []) \<noteq> []) (BadRequest ''Service account name is required'')) (\<lambda>_.
     let companyId = (if p_role actor = ''SUPER_ADMIN'' then or_null (mn_companyId d) else p_companyId actor);
         token = ''fsit_sa_'' @ rnd w 0 in
     bindE (writes (\<lambda>s. s\<lparr>am_services := am_services s @ [\<lparr>sa_id = uuid w 0, sa_name = js_trim (or_str (mn_name d) []),
       sa_companyId = companyId, sa_tokenHash = sha token, sa_isActive = True, sa_revokedAt = None, sa_expiresAt = mn_expiresAt d,
       sa_slugs = ps, sa_scopeType = or_str (mn_scopeType d) ''ALL'',
       sa_scopeValues = (case mn_scopeValues d of None \<Rightarrow> [] | Some v \<Rightarrow> v)\<rparr>]\<rparr>)) (\<lambda>_.
     bindE (am_alert companyId ''SERVICE_ACCOUNT_CREATED'' ''warning'' (uuid w 0)
       (''Service account '' @ or_str (mn_name d) [] @ '' created'')) (\<lambda>_.
     ret (uuid w 0, token)))))"

definition revoke_service_account :: "int \<Rightarrow> string \<Rightarrow> principal \<Rightarrow> unit am" where
  "revoke_service_account t i actor =
     bindE (am_get (\<lambda>s. case find (\<lambda>a. sa_id a = i) (am_services s) of
        None \<Rightarrow> Inl (NotFound ''Service account not found'') | Some a \<Rightarrow> Inr a)) (\<lambda>a.
     bindE (guard (p_role actor = ''SUPER_ADMIN'' \<or> sa_companyId a = p_companyId actor) (Forbidden ''Forbidden'')) (\<lambda>_.
     bindE (writes (\<lambda>s. s\<lparr>am_services := map (\<lambda>x. if sa_id x = i then x\<lparr>sa_isActive := False, sa_revokedAt := Some t\<rparr> else x) (am_services s)\<rparr>)) (\<lambda>_.
     am_alert (sa_companyId a) ''SERVICE_ACCOUNT_REVOKED'' ''warning'' i (''Service account '' @ sa_name a @ '' revoked''))))"

definition approved_action :: "string option \<Rightarrow> string \<Rightarrow> string \<Rightarrow> principal \<Rightarrow> admin_db \<Rightarrow> dual_approval res" where
  "approved_action i action resource actor s =
     (if \<not> truthy i then Inl (BadRequest ''An approved two-person request is required'')
      else case scoped_row ap_id ap_companyId (am_dual s) (or_str i []) actor of
        Inl e \<Rightarrow> Inl e
      | Inr r \<Rightarrow> if ap_status r = ''APPROVED'' \<and> ap_action r = action \<and> or_str (ap_resource r) [] = resource then Inr r
                 else Inl (BadRequest ''Approval does not authorize this action''))"

definition other_break_glass :: "string \<Rightarrow> admin_db \<Rightarrow> account list" where
  "other_break_glass i s = filter ac_breakGlass (other_super_admins i s)"

definition set_break_glass :: "int \<Rightarrow> string \<Rightarrow> bool \<Rightarrow> string option \<Rightarrow> principal \<Rightarrow> unit am" where
  "set_break_glass t userId enabled approval actor =
     bindE (guard (p_role actor = ''SUPER_ADMIN'') (Forbidden ''Forbidden'')) (\<lambda>_.
     bindE (if enabled then bindE (am_get (approved_action approval ''BREAK_GLASS_ACTIVATE'' userId actor)) (\<lambda>_. ret ()) else ret ()) (\<lambda>_.
     bindE (am_get (assert_user_scope userId actor)) (\<lambda>u.
     bindE (guard (ac_role u = ''SUPER_ADMIN'') (BadRequest ''Only super admins can be break-glass accounts'')) (\<lambda>_.
     bindE (guard (\<not> enabled \<or> ac_mfaEnabled u) (BadRequest ''Break-glass accounts must have MFA enabled'')) (\<lambda>_.
     bindE (reads (other_break_glass userId)) (\<lambda>others.
     bindE (guard (enabled \<or> \<not> ac_breakGlass u \<or> others \<noteq> []) (BadRequest ''At least one active break-glass super admin must remain'')) (\<lambda>_.
     bindE (am_in_auth (set_account userId (\<lambda>a. a\<lparr>ac_breakGlass := enabled, ac_authVersion := ac_authVersion a + 1\<rparr>))) (\<lambda>_.
     bindE (am_revoke t [userId] (p_id actor) ''break-glass-status-changed'') (\<lambda>_.
     am_alert (ac_companyId u) ''BREAK_GLASS_CHANGED'' ''critical'' userId (ac_email u @ '' break-glass status changed''))))))))))"

section \<open>Access reviews\<close>

text \<open>\<open>INSERT IGNORE\<close>, with the unique key on campaign and user.\<close>

definition insert_item :: "review_item \<Rightarrow> review_item list \<Rightarrow> review_item list" where
  "insert_item v vs = (if list_ex (\<lambda>x. vi_id x = vi_id v \<or> (vi_campaignId x = vi_campaignId v \<and> vi_userId x = vi_userId v)) vs
     then vs else vs @ [v])"

definition create_access_review :: "auth_world \<Rightarrow> principal \<Rightarrow> string am" where
  "create_access_review w actor =
     (let companyId = (if p_role actor = ''SUPER_ADMIN'' then None else p_companyId actor) in
      bindE (writes (\<lambda>s. s\<lparr>am_reviews := am_reviews s @ [\<lparr>vc_id = uuid w 0, vc_companyId = companyId, vc_status = ''OPEN''\<rparr>]\<rparr>)) (\<lambda>_.
      bindE (reads (\<lambda>s. filter (\<lambda>a. map_of (am_deleted s) (ac_id a) = None \<and> ac_isActive a \<and> (truthy companyId \<longrightarrow> ac_companyId a = companyId))
        (accounts (am_auth s)))) (\<lambda>us.
      bindE (writes (\<lambda>s. s\<lparr>am_items := fold insert_item
        (map (\<lambda>(k, a). \<lparr>vi_id = uuid w k, vi_campaignId = uuid w 0, vi_userId = ac_id a, vi_decision = ''PENDING'', vi_reviewer = None\<rparr>)
          (enumerate 1 us)) (am_items s)\<rparr>)) (\<lambda>_.
      ret (uuid w 0)))))"

definition get_access_review :: "string \<Rightarrow> principal \<Rightarrow> admin_db \<Rightarrow> (review_campaign \<times> review_item list) res" where
  "get_access_review i actor s =
     (case find (\<lambda>c. vc_id c = i) (am_reviews s) of None \<Rightarrow> Inl (NotFound ''Access review not found'')
      | Some c \<Rightarrow> if p_role actor \<noteq> ''SUPER_ADMIN'' \<and> vc_companyId c \<noteq> p_companyId actor then Inl (Forbidden ''Review is outside your tenant'')
          else Inr (c, filter (\<lambda>v. vi_campaignId v = i \<and> user_row (vi_userId v) s \<noteq> None) (am_items s)))"

text \<open>The item whose user loses the roles is looked up by its id alone.\<close>

definition decide_review_item :: "string \<Rightarrow> string \<Rightarrow> string \<Rightarrow> principal \<Rightarrow> unit am" where
  "decide_review_item reviewId itemId decision actor =
     bindE (am_get (get_access_review reviewId actor)) (\<lambda>_.
     bindE (writes (\<lambda>s. s\<lparr>am_items := map (\<lambda>v. if vi_id v = itemId \<and> vi_campaignId v = reviewId
       then v\<lparr>vi_decision := decision, vi_reviewer := Some (p_id actor)\<rparr> else v) (am_items s)\<rparr>)) (\<lambda>_.
     bindE (if decision = ''REVOKE'' then
              bindE (reads (\<lambda>s. find (\<lambda>v. vi_id v = itemId) (am_items s))) (\<lambda>found.
                case found of None \<Rightarrow> raise (ServerError ''Bind parameters must not contain undefined'')
                | Some v \<Rightarrow> bindE (assert_not_last_super_admin (vi_userId v)) (\<lambda>_.
                    writes (\<lambda>s. s\<lparr>am_user_roles := filter (\<lambda>x. fst x \<noteq> vi_userId v) (am_user_roles s)\<rparr>)))
            else ret ()) (\<lambda>_.
     bindE (reads (\<lambda>s. list_ex (\<lambda>v. vi_campaignId v = reviewId \<and> vi_decision v = ''PENDING'') (am_items s))) (\<lambda>open_items.
     if open_items then ret () else writes (\<lambda>s. s\<lparr>am_reviews := map (\<lambda>c. if vc_id c = reviewId then c\<lparr>vc_status := ''COMPLETED''\<rparr> else c) (am_reviews s)\<rparr>)))))"

end
