(* ===== verification/Admin_Users.thy ===== *)
theory Admin_Users
  imports Admin_Ops Sql_Where
begin

text \<open>
  The accounts and companies the platform and tenant administrators keep
  (\<open>admin.service.ts\<close>, \<open>tenant-role-governance.ts\<close>). Companies are the rows \<open>tenants\<close> of the
  sign-in tables, \<open>am_closed\<close> their \<open>deletedAt\<close>.
\<close>

section \<open>Accounts of the platform\<close>

definition VALID_ROLES :: "string list" where
  "VALID_ROLES = [''SUPER_ADMIN'', ''GLOBAL_TECH'', ''TENANT_ADMIN'', ''TECHNICIAN'', ''CLIENT'', ''READ_ONLY'']"

definition GLOBAL_ROLES :: "string list" where
  "GLOBAL_ROLES = [''SUPER_ADMIN'', ''GLOBAL_TECH'']"

definition any_user :: "string \<Rightarrow> account am" where
  "any_user i = am_get (\<lambda>s. case user_row i s of None \<Rightarrow> Inl (NotFound ''User not found'') | Some a \<Rightarrow> Inr a)"

definition change_user :: "string \<Rightarrow> (account \<Rightarrow> account) \<Rightarrow> unit am" where
  "change_user i f = am_in_auth (set_account i f)"

definition email_free :: "string \<Rightarrow> unit am" where
  "email_free e = bindE (reads (\<lambda>s. account_by_email e (am_auth s) = None)) (\<lambda>free. guard free (BadRequest ''Email already in use''))"

definition company_row :: "string \<Rightarrow> admin_db \<Rightarrow> tenant_row option" where
  "company_row i s = find (\<lambda>c. tn_id c = i) (tenants (am_auth s))"

text \<open>\<open>contains\<close>, under a collation that ignores the case.\<close>

definition search_hits :: "string option \<Rightarrow> string \<Rightarrow> bool" where
  "search_hits q x = like_match (js_lower (''%'' @ or_str q [] @ ''%'')) (js_lower x)"

definition list_platform_users :: "int option \<Rightarrow> int option \<Rightarrow> string option \<Rightarrow> string option \<Rightarrow> string option \<Rightarrow> string option \<Rightarrow> admin_db \<Rightarrow> account list \<times> nat" where
  "list_platform_users pageNo perPage search role kind companyId s =
     (let page = or_int pageNo 1; limit = or_int perPage 25;
          matches = (\<lambda>f q. if truthy q then q = Some f else True);
          hits = (\<lambda>a. if truthy search then search_hits search (ac_email a)
             \<or> search_hits search (ac_firstName a) \<or> search_hits search (ac_lastName a) else True);
          us = rev (filter (\<lambda>a. map_of (am_deleted s) (ac_id a) = None \<and> hits a \<and> matches (ac_role a) role \<and> matches (ac_userType a) kind
             \<and> (if truthy companyId then ac_companyId a = companyId else True)) (accounts (am_auth s))) in
      (take (nat limit) (drop (nat ((page - 1) * limit)) us), length us))"

record platform_user_dto =
  pu_email :: string
  pu_password :: string
  pu_firstName :: string
  pu_lastName :: string
  pu_role :: "string option"
  pu_companyId :: "string option"

definition create_platform_user :: "crypto \<Rightarrow> string \<Rightarrow> platform_user_dto \<Rightarrow> account am" where
  "create_platform_user cr i d =
     bindE (of_res (assert_password_policy (Some (pu_password d)) [pu_email d, pu_firstName d, pu_lastName d])) (\<lambda>_.
     bindE (email_free (pu_email d)) (\<lambda>_.
     let role = (case pu_role d of None \<Rightarrow> ''CLIENT'' | Some r \<Rightarrow> if r \<in> set VALID_ROLES then r else ''CLIENT'');
         unpinned = role \<in> set GLOBAL_ROLES in
     bindE (if unpinned then ret ()
            else bindE (guard (truthy (pu_companyId d)) (BadRequest ''Company is required for tenant users'')) (\<lambda>_.
                 bindE (reads (company_row (or_str (pu_companyId d) []))) (\<lambda>c. guard (c \<noteq> None) (BadRequest ''Company not found'')))) (\<lambda>_.
     let a = (fresh_account i (pu_email d) (pu_firstName d) (pu_lastName d) role [] (bcrypt_hash cr (pu_password d)) False)
               \<lparr>ac_companyId := (if unpinned then None else pu_companyId d)\<rparr> in
     bindE (am_in_auth (insert_account a)) (\<lambda>_. ret a))))"

definition update_user_role :: "int \<Rightarrow> string \<Rightarrow> string \<Rightarrow> principal \<Rightarrow> unit am" where
  "update_user_role t userId role actor =
     bindE (guard (role \<in> set VALID_ROLES) (BadRequest ''Invalid role'')) (\<lambda>_.
     bindE (any_user userId) (\<lambda>u.
     bindE (if ac_role u = ''SUPER_ADMIN'' \<and> role \<noteq> ''SUPER_ADMIN'' then assert_not_last_super_admin userId else ret ()) (\<lambda>_.
     bindE (change_user userId (\<lambda>a. a\<lparr>ac_role := role, ac_companyId := (if role \<in> set GLOBAL_ROLES then None else ac_companyId a)\<rparr>)) (\<lambda>_.
     am_revoke t [userId] (p_id actor) ''primary-role-changed''))))"

text \<open>A company that is absent, \<open>null\<close> or named.\<close>

record user_patch =
  up_firstName :: "string option"
  up_lastName :: "string option"
  up_role :: "string option"
  up_userType :: "string option"
  up_isActive :: "bool option"
  up_companyId :: "string option option"

definition valid_in :: "string list \<Rightarrow> string option \<Rightarrow> bool" where
  "valid_in vs x = (case x of None \<Rightarrow> False | Some r \<Rightarrow> r \<in> set vs)"

definition apply_user_patch :: "user_patch \<Rightarrow> account \<Rightarrow> account" where
  "apply_user_patch d a = a\<lparr>
     ac_firstName := or_str (up_firstName d) (ac_firstName a),
     ac_lastName := or_str (up_lastName d) (ac_lastName a),
     ac_role := (if valid_in VALID_ROLES (up_role d) then or_str (up_role d) [] else ac_role a),
     ac_userType := (if valid_in [''PUBLIC'', ''BUSINESS''] (up_userType d) then or_str (up_userType d) [] else ac_userType a),
     ac_isActive := (case up_isActive d of None \<Rightarrow> ac_isActive a | Some b \<Rightarrow> b),
     ac_companyId := (case up_companyId d of Some None \<Rightarrow> None
       | Some (Some c) \<Rightarrow> if c \<noteq> [] then Some c else if valid_in GLOBAL_ROLES (up_role d) then None else ac_companyId a
       | None \<Rightarrow> if valid_in GLOBAL_ROLES (up_role d) then None else ac_companyId a)\<rparr>"

definition touches :: "user_patch \<Rightarrow> bool" where
  "touches d \<longleftrightarrow> truthy (up_firstName d) \<or> truthy (up_lastName d) \<or> valid_in VALID_ROLES (up_role d)
     \<or> valid_in [''PUBLIC'', ''BUSINESS''] (up_userType d) \<or> up_isActive d \<noteq> None
     \<or> (case up_companyId d of None \<Rightarrow> False | Some None \<Rightarrow> True | Some (Some c) \<Rightarrow> c \<noteq> [])"

text \<open>A patch that changes nothing makes an \<open>UPDATE\<close> without a \<open>SET\<close> list.\<close>

definition update_user :: "int \<Rightarrow> string \<Rightarrow> user_patch \<Rightarrow> principal \<Rightarrow> unit am" where
  "update_user t i d actor =
     bindE (any_user i) (\<lambda>u.
     bindE (if ac_role u = ''SUPER_ADMIN'' \<and> ((truthy (up_role d) \<and> up_role d \<noteq> Some ''SUPER_ADMIN'') \<or> up_isActive d = Some False)
            then assert_not_last_super_admin i else ret ()) (\<lambda>_.
     bindE (case up_companyId d of Some (Some c) \<Rightarrow> if c = [] then ret ()
              else bindE (reads (company_row c)) (\<lambda>x. guard (x \<noteq> None) (BadRequest ''Company not found''))
            | _ \<Rightarrow> ret ()) (\<lambda>_.
     bindE (guard (touches d) (ServerError ''SQL syntax'')) (\<lambda>_.
     bindE (change_user i (apply_user_patch d)) (\<lambda>_.
     if up_role d \<noteq> None \<or> up_userType d \<noteq> None \<or> up_isActive d \<noteq> None \<or> up_companyId d \<noteq> None
     then am_revoke t [i] (p_id actor) ''user-access-changed'' else ret ())))))"

text \<open>
  The version is written as the object \<open>{ increment: 1 }\<close>, which the query layer binds as it is;
  \<open>cell\<close> is what the database makes of the bound text in an integer column.
\<close>

definition assign_user_company :: "(string \<Rightarrow> int res) \<Rightarrow> int \<Rightarrow> string \<Rightarrow> string option \<Rightarrow> string \<Rightarrow> principal \<Rightarrow> unit am" where
  "assign_user_company cell t i companyId reason actor =
     bindE (any_user i) (\<lambda>u.
     bindE (guard (\<not> (ac_role u \<in> set GLOBAL_ROLES \<and> truthy companyId))
       (BadRequest ''Global users use company context and cannot be pinned to one company'')) (\<lambda>_.
     bindE (if truthy companyId then bindE (reads (\<lambda>s. company_row (or_str companyId []) s \<noteq> None \<and> map_of (am_closed s) (or_str companyId []) = None))
              (\<lambda>ok. guard ok (BadRequest ''Company not found'')) else ret ()) (\<lambda>_.
     bindE (writes (\<lambda>s. s\<lparr>am_moves := am_moves s @ [(i, ac_companyId u, companyId,
       if reason = [] then ''Administrative company assignment'' else reason)]\<rparr>)) (\<lambda>_.
     bindE (of_res (cell ''{\"increment\":1}'')) (\<lambda>v.
     bindE (change_user i (\<lambda>a. a\<lparr>ac_companyId := companyId, ac_authVersion := v\<rparr>)) (\<lambda>_.
     am_revoke t [i] (p_id actor) ''company-assignment-changed''))))))"

definition delete_user_row :: "int \<Rightarrow> string \<Rightarrow> unit am" where
  "delete_user_row t i =
     bindE (change_user i (\<lambda>a. a\<lparr>ac_isActive := False\<rparr>)) (\<lambda>_.
     writes (\<lambda>s. s\<lparr>am_deleted := (i, t) # am_deleted s\<rparr>))"

definition remove_user :: "int \<Rightarrow> string \<Rightarrow> principal \<Rightarrow> unit am" where
  "remove_user t i actor =
     bindE (any_user i) (\<lambda>_.
     bindE (assert_not_last_super_admin i) (\<lambda>_.
     bindE (delete_user_row t i) (\<lambda>_.
     am_revoke t [i] (p_id actor) ''user-removed'')))"

section \<open>Companies\<close>

definition list_companies :: "int option \<Rightarrow> int option \<Rightarrow> string option \<Rightarrow> admin_db \<Rightarrow> tenant_row list \<times> nat" where
  "list_companies pageNo perPage search s =
     (let page = or_int pageNo 1; limit = or_int perPage 25;
          cs = rev (filter (\<lambda>c. map_of (am_closed s) (tn_id c) = None \<and> (if truthy search
             then search_hits search (tn_name c) \<or> search_hits search (tn_slug c) else True))
             (tenants (am_auth s))) in
      (take (nat limit) (drop (nat ((page - 1) * limit)) cs), length cs))"

definition create_company :: "string \<Rightarrow> string \<Rightarrow> string \<Rightarrow> string option \<Rightarrow> unit am" where
  "create_company i name slug domain =
     bindE (reads (\<lambda>s. list_ex (\<lambda>c. tn_slug c = slug) (tenants (am_auth s)))) (\<lambda>taken.
     bindE (guard (\<not> taken) (BadRequest ''Company slug already exists'')) (\<lambda>_.
     am_in_auth (writes (\<lambda>a. a\<lparr>tenants := tenants a @ [\<lparr>tn_id = i, tn_name = name, tn_slug = slug, tn_invite = None,
       tn_inviteExpires = None, tn_domain = domain, tn_isActive = True\<rparr>]\<rparr>))))"

definition set_company :: "string \<Rightarrow> (tenant_row \<Rightarrow> tenant_row) \<Rightarrow> unit am" where
  "set_company i f =
     bindE (reads (company_row i)) (\<lambda>c.
     bindE (guard (c \<noteq> None) (NotFound ''Company not found'')) (\<lambda>_.
     am_in_auth (writes (\<lambda>a. a\<lparr>tenants := map (\<lambda>x. if tn_id x = i then f x else x) (tenants a)\<rparr>))))"

definition remove_company :: "int \<Rightarrow> string \<Rightarrow> string option \<Rightarrow> principal \<Rightarrow> unit am" where
  "remove_company t i approval actor =
     bindE (am_get (approved_action approval ''TENANT_DELETE'' i actor)) (\<lambda>_.
     bindE (reads (company_row i)) (\<lambda>c.
     bindE (guard (c \<noteq> None) (NotFound ''Company not found'')) (\<lambda>_.
     bindE (writes (\<lambda>s. s\<lparr>am_deleted := map (\<lambda>a. (ac_id a, t)) (filter (\<lambda>a. ac_companyId a = Some i) (accounts (am_auth s))) @ am_deleted s,
       am_auth := (am_auth s)\<lparr>accounts := map (\<lambda>a. if ac_companyId a = Some i then a\<lparr>ac_isActive := False\<rparr> else a) (accounts (am_auth s))\<rparr>\<rparr>)) (\<lambda>_.
     bindE (set_company i (\<lambda>c. c\<lparr>tn_isActive := False\<rparr>)) (\<lambda>_.
     writes (\<lambda>s. s\<lparr>am_closed := (i, t) # am_closed s\<rparr>))))))"

definition generate_invite_code :: "auth_world \<Rightarrow> string \<Rightarrow> int \<Rightarrow> string am" where
  "generate_invite_code w companyId days =
     (let code = js_upper (rnd w 0) in
      bindE (set_company companyId (\<lambda>c. c\<lparr>tn_invite := Some code, tn_inviteExpires := Some (now w + days * 24 * 60 * 60 * 1000)\<rparr>)) (\<lambda>_.
      ret code))"

section \<open>Accounts of a company\<close>

definition assert_tenant_role_change :: "string \<Rightarrow> string \<Rightarrow> string \<Rightarrow> principal \<Rightarrow> unit res" where
  "assert_tenant_role_change i role next_role actor =
     (let super_admin = p_role actor = ''SUPER_ADMIN'';
          assignable = (if super_admin then [''TENANT_ADMIN'', ''TECHNICIAN'', ''CLIENT'', ''READ_ONLY'']
                        else [''TECHNICIAN'', ''CLIENT'', ''READ_ONLY'']) in
      if next_role \<notin> set assignable then Inl (BadRequest ''Invalid role for tenant admin'')
      else if \<not> super_admin \<and> p_id actor = i then Inl (Forbidden ''Tenant admins cannot change their own role'')
      else if \<not> super_admin \<and> role = ''TENANT_ADMIN'' then Inl (Forbidden ''Only a super admin can change another tenant admin'')
      else Inr ())"

definition tenant_assignable_roles :: "principal \<Rightarrow> string list" where
  "tenant_assignable_roles actor = (if p_role actor = ''SUPER_ADMIN'' then [''CLIENT'', ''TECHNICIAN'', ''TENANT_ADMIN'', ''READ_ONLY'']
     else [''CLIENT'', ''TECHNICIAN'', ''READ_ONLY''])"

definition company_user :: "string \<Rightarrow> string \<Rightarrow> account am" where
  "company_user i companyId = am_get (\<lambda>s. case find (\<lambda>a. ac_id a = i \<and> ac_companyId a = Some companyId) (accounts (am_auth s)) of
     None \<Rightarrow> Inl (NotFound ''User not found in your company'') | Some a \<Rightarrow> Inr a)"

definition list_company_users :: "string \<Rightarrow> int option \<Rightarrow> int option \<Rightarrow> string option \<Rightarrow> admin_db \<Rightarrow> account list \<times> nat" where
  "list_company_users companyId pageNo perPage search s =
     (let page = or_int pageNo 1; limit = or_int perPage 25;
          us = rev (filter (\<lambda>a. ac_companyId a = Some companyId \<and> map_of (am_deleted s) (ac_id a) = None \<and> (if truthy search
             then search_hits search (ac_email a) \<or> search_hits search (ac_firstName a)
               \<or> search_hits search (ac_lastName a) else True)) (accounts (am_auth s))) in
      (take (nat limit) (drop (nat ((page - 1) * limit)) us), length us))"

definition update_company_user_role :: "int \<Rightarrow> string \<Rightarrow> string \<Rightarrow> string \<Rightarrow> principal \<Rightarrow> unit am" where
  "update_company_user_role t i role companyId actor =
     bindE (company_user i companyId) (\<lambda>u.
     bindE (of_res (assert_tenant_role_change (ac_id u) (ac_role u) role actor)) (\<lambda>_.
     bindE (change_user i (\<lambda>a. a\<lparr>ac_role := role\<rparr>)) (\<lambda>_.
     am_revoke t [i] (p_id actor) ''primary-role-changed'')))"

definition create_company_user :: "crypto \<Rightarrow> string \<Rightarrow> platform_user_dto \<Rightarrow> string \<Rightarrow> principal \<Rightarrow> account am" where
  "create_company_user cr i d companyId actor =
     bindE (of_res (assert_password_policy (Some (pu_password d)) [pu_email d, pu_firstName d, pu_lastName d])) (\<lambda>_.
     bindE (email_free (pu_email d)) (\<lambda>_.
     bindE (guard (\<not> (truthy (pu_role d) \<and> or_str (pu_role d) [] \<notin> set (tenant_assignable_roles actor)))
       (Forbidden ''Only a super admin can create a tenant admin'')) (\<lambda>_.
     let a = fresh_account i (pu_email d) (pu_firstName d) (pu_lastName d) (or_str (pu_role d) ''CLIENT'') companyId
               (bcrypt_hash cr (pu_password d)) False in
     bindE (am_in_auth (insert_account a)) (\<lambda>_. ret a))))"

definition remove_company_user :: "int \<Rightarrow> string \<Rightarrow> string \<Rightarrow> principal \<Rightarrow> unit am" where
  "remove_company_user t i companyId actor =
     bindE (company_user i companyId) (\<lambda>_.
     bindE (delete_user_row t i) (\<lambda>_.
     am_revoke t [i] (p_id actor) ''user-removed''))"

end
