(* ===== verification/Admin_Props.thy ===== *)
theory Admin_Props
  imports Admin_Users
begin

text \<open>
  Properties of the administration of access: a last super admin remains, what a tenant
  administrator can change, rollback of a role, the life of grants and service tokens, and the
  ways around the checks that the code leaves open.
\<close>

section \<open>The machine\<close>

datatype console_call =
    ACreateRole string role_dto
  | ACloneRole auth_world string string string "string option" principal
  | AUpdateRole auth_world string role_patch principal
  | ARollback auth_world string string principal
  | ADeleteRole string "principal option"
  | AAssign int string string principal
  | AUnassign int string string principal
  | ARequestApproval auth_world string "string list" principal
  | AReviewApproval auth_world string string principal
  | AGrant auth_world grant_dto principal
  | ARevokeGrant auth_world string principal
  | AScope auth_world permission_scope_dto principal
  | AUnscope auth_world string principal
  | AMachine "string \<Rightarrow> string" auth_world machine_dto principal
  | ARevokeMachine int string principal
  | ABreakGlass int string bool "string option" principal
  | AReview auth_world principal
  | ADecide string string string principal
  | ACreateUser crypto string platform_user_dto
  | AUserRole int string string principal
  | AUpdateUser int string user_patch principal
  | AMoveUser "string \<Rightarrow> int res" int string "string option" string principal
  | ARemoveUser int string principal
  | ACreateCompany string string string "string option"
  | ASetCompany string "tenant_row \<Rightarrow> tenant_row"
  | ARemoveCompany int string "string option" principal
  | AInviteCode auth_world string int
  | ACompanyRole int string string string principal
  | ACompanyUser crypto string platform_user_dto string principal
  | ACompanyRemove int string string principal

fun admin_step :: "console_call \<Rightarrow> admin_db \<Rightarrow> admin_db" where
  "admin_step (ACreateRole i d) s = snd (create_role i d s)"
| "admin_step (ACloneRole w i n g d u) s = snd (clone_role w i n g d u s)"
| "admin_step (AUpdateRole w i d u) s = snd (update_role w i d u s)"
| "admin_step (ARollback w i h u) s = snd (rollback_role w i h u s)"
| "admin_step (ADeleteRole i u) s = snd (delete_role i u s)"
| "admin_step (AAssign t i r u) s = snd (assign_user_role t i r u s)"
| "admin_step (AUnassign t i r u) s = snd (remove_user_role t i r u s)"
| "admin_step (ARequestApproval w i ps u) s = snd (request_permission_approval w i ps u s)"
| "admin_step (AReviewApproval w i d u) s = snd (review_permission_approval w i d u s)"
| "admin_step (AGrant w d u) s = snd (grant_permission w d u s)"
| "admin_step (ARevokeGrant w i u) s = snd (revoke_grant w i u s)"
| "admin_step (AScope w d u) s = snd (create_scope w d u s)"
| "admin_step (AUnscope w i u) s = snd (delete_scope w i u s)"
| "admin_step (AMachine sha w d u) s = snd (create_service_account sha w d u s)"
| "admin_step (ARevokeMachine t i u) s = snd (revoke_service_account t i u s)"
| "admin_step (ABreakGlass t i b a u) s = snd (set_break_glass t i b a u s)"
| "admin_step (AReview w u) s = snd (create_access_review w u s)"
| "admin_step (ADecide c i d u) s = snd (decide_review_item c i d u s)"
| "admin_step (ACreateUser cr i d) s = snd (create_platform_user cr i d s)"
| "admin_step (AUserRole t i r u) s = snd (update_user_role t i r u s)"
| "admin_step (AUpdateUser t i d u) s = snd (update_user t i d u s)"
| "admin_step (AMoveUser f t i c x u) s = snd (assign_user_company f t i c x u s)"
| "admin_step (ARemoveUser t i u) s = snd (remove_user t i u s)"
| "admin_step (ACreateCompany i n g d) s = snd (create_company i n g d s)"
| "admin_step (ASetCompany i f) s = snd (set_company i f s)"
| "admin_step (ARemoveCompany t i a u) s = snd (remove_company t i a u s)"
| "admin_step (AInviteCode w i n) s = snd (generate_invite_code w i n s)"
| "admin_step (ACompanyRole t i r c u) s = snd (update_company_user_role t i r c u s)"
| "admin_step (ACompanyUser cr i d c u) s = snd (create_company_user cr i d c u s)"
| "admin_step (ACompanyRemove t i c u) s = snd (remove_company_user t i c u s)"

text \<open>The three calls that never look at how many super admins are left.\<close>

fun counts_admins :: "console_call \<Rightarrow> bool" where
  "counts_admins (ARemoveCompany t i a u) = False"
| "counts_admins (ACompanyRole t i r c u) = False"
| "counts_admins (ACompanyRemove t i c u) = False"
| "counts_admins e = True"

lemma bind_am_get: "bindE (am_get f) g s = (case f s of Inl e \<Rightarrow> (Inl e, s) | Inr x \<Rightarrow> g x s)"
  by (simp add: am_get_def act_simps)

section \<open>Predicates of the account table\<close>

definition super_admins :: "admin_db \<Rightarrow> account list" where
  "super_admins s = filter (\<lambda>a. ac_role a = ''SUPER_ADMIN'' \<and> ac_isActive a \<and> map_of (am_deleted s) (ac_id a) = None) (accounts (am_auth s))"

definition staffed :: "admin_db \<Rightarrow> bool" where
  "staffed s \<longleftrightarrow> distinct (map ac_id (accounts (am_auth s))) \<and> super_admins s \<noteq> []"

definition no_weaker :: "account \<Rightarrow> account \<Rightarrow> bool" where
  "no_weaker b a \<longleftrightarrow> ac_id b = ac_id a \<and> (ac_role a = ''SUPER_ADMIN'' \<and> ac_isActive a \<longrightarrow> ac_role b = ''SUPER_ADMIN'' \<and> ac_isActive b)"

lemma other_super_admins_eq: "other_super_admins i s = filter (\<lambda>a. ac_id a \<noteq> i) (super_admins s)"
  by (simp add: other_super_admins_def super_admins_def conj_assoc)

lemma staffed_same:
  assumes "staffed s" "am_deleted t = am_deleted s" "accounts (am_auth t) = map f (accounts (am_auth s))" "\<And>a. no_weaker (f a) a"
  shows "staffed t"
proof -
  have "map ac_id (accounts (am_auth t)) = map ac_id (accounts (am_auth s))" using assms(3,4) by (simp add: no_weaker_def)
  moreover obtain a where a: "a \<in> set (super_admins s)" using assms(1) by (cases "super_admins s") (auto simp: staffed_def)
  then have "f a \<in> set (super_admins t)" using assms(2,3,4) by (auto simp: super_admins_def no_weaker_def)
  ultimately show ?thesis using assms(1) by (auto simp: staffed_def)
qed

lemma staffed_grow:
  assumes "staffed s" "am_deleted t = am_deleted s" "accounts (am_auth t) = accounts (am_auth s) @ [a]" "ac_id a \<notin> ac_id ` set (accounts (am_auth s))"
  shows "staffed t"
  using assms by (auto simp: staffed_def super_admins_def)

text \<open>A change of one account keeps the company staffed when another super admin stays.\<close>

lemma staffed_other:
  assumes "staffed s" "other_super_admins i s \<noteq> []" "\<And>x. x \<noteq> i \<Longrightarrow> map_of (am_deleted t) x = map_of (am_deleted s) x"
    and "accounts (am_auth t) = map (\<lambda>a. if ac_id a = i then f a else a) (accounts (am_auth s))" "\<And>a. ac_id (f a) = ac_id a"
  shows "staffed t"
proof -
  have "map ac_id (accounts (am_auth t)) = map ac_id (accounts (am_auth s))" using assms(4,5) by simp
  moreover obtain a where a: "a \<in> set (super_admins s)" "ac_id a \<noteq> i"
    using assms(2) by (auto simp: other_super_admins_eq filter_empty_conv)
  then have "a \<in> set (super_admins t)" using assms(3,4) by (auto simp: super_admins_def)
  ultimately show ?thesis using assms(1) by (auto simp: staffed_def)
qed

text \<open>When the account changed is no super admin, another one is there.\<close>

lemma staffed_other_exists:
  assumes "staffed s" "user_row i s = Some a" "ac_role a \<noteq> ''SUPER_ADMIN''"
  shows "other_super_admins i s \<noteq> []"
proof -
  obtain b where b: "b \<in> set (super_admins s)" using assms(1) by (cases "super_admins s") (auto simp: staffed_def)
  have a: "a \<in> set (accounts (am_auth s))" "ac_id a = i" using assms(2) by (auto simp: user_row_def find_account_def dest: find_SomeD)
  have "ac_id b \<noteq> i"
  proof
    assume "ac_id b = i"
    with a b assms(1) have "b = a" by (auto simp: staffed_def super_admins_def distinct_map inj_on_def)
    with b assms(3) show False by (simp add: super_admins_def)
  qed
  with b show ?thesis by (auto simp: other_super_admins_eq filter_empty_conv)
qed


section \<open>A last super admin\<close>

lemma no_weaker_refl [simp]: "no_weaker a a" by (simp add: no_weaker_def)

text \<open>Steps that leave what \<open>staffed\<close> reads alone.\<close>

definition sleepy :: "(admin_db \<Rightarrow> admin_db) \<Rightarrow> bool" where
  "sleepy f \<longleftrightarrow> (\<forall>s. am_deleted (f s) = am_deleted s \<and> accounts (am_auth (f s)) = accounts (am_auth s))"

lemma staffed_sleepy: "sleepy f \<Longrightarrow> keeps staffed (writes f)"
  by (rule keeps_writes) (simp add: sleepy_def staffed_def super_admins_def)

lemma staffed_get: "keeps staffed (am_get f)"
  unfolding am_get_def by (intro keeps_intros)

lemma staffed_revoke: "keeps staffed (am_revoke t ids u why)"
proof (rule keepsI)
  fix s assume s: "staffed s"
  show "staffed (snd (am_revoke t ids u why s))"
    by (rule staffed_same[OF s, where f = "\<lambda>x. if ac_id x \<in> set ids \<and> ac_id x \<noteq> [] then x\<lparr>ac_authVersion := ac_authVersion x + 1\<rparr> else x"])
      (simp_all add: am_revoke_def am_in_auth_def act_simps no_weaker_def)
qed

lemma staffed_change: "(\<And>a. no_weaker (f a) a) \<Longrightarrow> keeps staffed (change_user i f)"
proof (rule keepsI)
  fix s assume f: "\<And>a. no_weaker (f a) a" and s: "staffed s"
  show "staffed (snd (change_user i f s))"
    by (rule staffed_same[OF s, where f = "\<lambda>a. if ac_id a = i then f a else a"])
      (simp_all add: change_user_def am_in_auth_def set_account_def act_simps f)
qed

lemma staffed_insert: "keeps staffed (am_in_auth (insert_account a))"
proof (rule keepsI)
  fix s assume s: "staffed s"
  show "staffed (snd (am_in_auth (insert_account a) s))"
  proof (cases "list_ex (\<lambda>b. ac_id b = ac_id a \<or> ac_email b = ac_email a) (accounts (am_auth s))")
    case True
    with s show ?thesis by (simp add: am_in_auth_def insert_account_def act_simps)
  next
    case False
    show ?thesis by (rule staffed_grow[OF s, of _ a])
      (use False in \<open>auto simp: am_in_auth_def insert_account_def act_simps list_ex_iff\<close>)
  qed
qed

lemma staffed_quiet: "(\<And>a. accounts (f a) = accounts a) \<Longrightarrow> keeps staffed (am_in_auth (writes f))"
  by (rule keepsI) (simp add: am_in_auth_def act_simps staffed_def super_admins_def)

lemma staffed_alert: "keeps staffed (am_alert c k v i x)"
  unfolding am_alert_def by (rule staffed_quiet) simp

lemma staffed_audit: "keeps staffed (role_audit_entry i u r a x y c)"
  unfolding role_audit_entry_def by (rule staffed_sleepy) (simp add: sleepy_def)

lemma staffed_set_role: "keeps staffed (set_role i f)"
  unfolding set_role_def by (rule staffed_sleepy) (simp add: sleepy_def)

lemma staffed_last: "keeps staffed (assert_not_last_super_admin i)"
  unfolding assert_not_last_super_admin_def by (intro keeps_intros)

lemma staffed_company: "keeps staffed (set_company i f)"
  unfolding set_company_def by (intro keeps_intros staffed_quiet) simp

lemma staffed_any: "keeps staffed (any_user i)"
  unfolding any_user_def by (rule staffed_get)

lemmas staffed_parts = staffed_get staffed_revoke staffed_insert staffed_alert staffed_audit staffed_set_role staffed_last
  staffed_company staffed_any

lemma staffed_update_role: "keeps staffed (update_role w i d u)"
  unfolding update_role_def Let_def by (intro keeps_intros staffed_parts)

lemma staffed_create_role: "keeps staffed (create_role i d)"
  unfolding create_role_def Let_def by (intro keeps_intros staffed_parts staffed_sleepy) (simp add: sleepy_def)

lemma staffed_roles:
  "keeps staffed (clone_role w i n g dd u)" "keeps staffed (rollback_role w i h u)" "keeps staffed (delete_role i du)"
  "keeps staffed (assign_user_role t i r u)" "keeps staffed (remove_user_role t i r u)"
  "keeps staffed (request_permission_approval w i ps u)" "keeps staffed (review_permission_approval w i d u)"
  unfolding clone_role_def rollback_role_def delete_role_def assign_user_role_def remove_user_role_def
    request_permission_approval_def review_permission_approval_def Let_def
  by (intro keeps_intros staffed_parts staffed_update_role staffed_create_role staffed_sleepy; simp add: sleepy_def)+

lemma staffed_grants:
  "keeps staffed (grant_permission w gd u)" "keeps staffed (revoke_grant w i u)" "keeps staffed (create_scope w sd u)"
  "keeps staffed (delete_scope w i u)" "keeps staffed (create_service_account sha w md u)" "keeps staffed (revoke_service_account t i u)"
  "keeps staffed (create_access_review w u)" "keeps staffed (decide_review_item c i d u)"
  unfolding grant_permission_def revoke_grant_def create_scope_def delete_scope_def create_service_account_def
    revoke_service_account_def create_access_review_def decide_review_item_def Let_def
  by (intro keeps_intros staffed_parts staffed_sleepy; simp add: sleepy_def)+

lemma staffed_break_glass: "keeps staffed (set_break_glass t i b a u)"
  unfolding set_break_glass_def change_user_def[symmetric]
  by (intro keeps_intros staffed_parts staffed_change) (simp add: no_weaker_def)

lemma last_checked:
  assumes "staffed s" "user_row i s = Some a" "assert_not_last_super_admin i s = (Inr u, s')"
  shows "s' = s \<and> other_super_admins i s \<noteq> []"
  using assms(3) staffed_other_exists[OF assms(1,2)] assms(2)
  by (auto simp: assert_not_last_super_admin_def act_simps split: if_splits)

lemma staffed_replaced:
  assumes "staffed s" "other_super_admins i s \<noteq> []" "\<And>a. ac_id (f a) = ac_id a"
  shows "staffed (snd (change_user i f s))"
  by (rule staffed_other[OF assms(1,2), where f = f])
    (simp_all add: change_user_def am_in_auth_def set_account_def act_simps assms(3))

lemma staffed_gone:
  assumes "staffed s" "other_super_admins i s \<noteq> []"
  shows "staffed (snd (delete_user_row t i s))"
  by (rule staffed_other[OF assms, where f = "\<lambda>a. a\<lparr>ac_isActive := False\<rparr>"])
    (simp_all add: delete_user_row_def change_user_def am_in_auth_def set_account_def act_simps)

text \<open>A step that keeps the predicate from the states its caller has checked.\<close>

lemma staffed_bind: "staffed (snd (m s)) \<Longrightarrow> (\<And>x. keeps staffed (g x)) \<Longrightarrow> staffed (snd (bindE m g s))"
  by (cases "m s"; cases "fst (m s)") (auto simp: bindE_def keeps_def)

lemma bind_any_user: "bindE (any_user i) g s = (case user_row i s of None \<Rightarrow> (Inl (NotFound ''User not found''), s) | Some a \<Rightarrow> g a s)"
  by (simp add: any_user_def bind_am_get split: option.splits)

lemma guard_then: "bindE (guard b e) g s = (if b then g () s else (Inl e, s))"
  by (simp add: act_simps)

lemma bind_check:
  "bindE (if b then assert_not_last_super_admin i else ret ()) g s
   = (if b \<and> \<not> (case user_row i s of None \<Rightarrow> True | Some a \<Rightarrow> ac_role a \<noteq> ''SUPER_ADMIN'' \<or> other_super_admins i s \<noteq> [])
      then (Inl (BadRequest ''Cannot remove access from the final active super admin''), s) else g () s)"
  by (simp add: assert_not_last_super_admin_def act_simps)

lemma staffed_user_role: "keeps staffed (update_user_role t i r u)"
proof (rule keepsI)
  fix s assume s: "staffed s"
  show "staffed (snd (update_user_role t i r u s))"
  proof (cases "user_row i s")
    case None
    with s show ?thesis unfolding update_user_role_def bind_any_user guard_then by simp
  next
    case (Some a)
    let ?f = "\<lambda>a. a\<lparr>ac_role := r, ac_companyId := (if r \<in> set GLOBAL_ROLES then None else ac_companyId a)\<rparr>"
    have "staffed (snd (change_user i ?f s))" if "r = ''SUPER_ADMIN'' \<or> other_super_admins i s \<noteq> []"
    proof (cases "other_super_admins i s \<noteq> []")
      case True
      then show ?thesis by (intro staffed_replaced[OF s]) simp_all
    next
      case False
      with that have "r = ''SUPER_ADMIN''" by simp
      then show ?thesis using staffed_change[of ?f i] s by (simp add: keeps_def no_weaker_def)
    qed
    with s Some staffed_other_exists[OF s Some] staffed_revoke show ?thesis
      unfolding update_user_role_def bind_any_user guard_then bind_check by (auto intro!: staffed_bind)
  qed
qed

lemma patch_no_weaker:
  assumes "\<not> (truthy (up_role d) \<and> up_role d \<noteq> Some ''SUPER_ADMIN'')" "up_isActive d \<noteq> Some False"
  shows "no_weaker (apply_user_patch d a) a"
  using assms by (cases "up_role d"; cases "up_isActive d") (auto simp: no_weaker_def apply_user_patch_def valid_in_def VALID_ROLES_def or_str_def)

lemma staffed_update_user: "keeps staffed (update_user t i d u)"
proof (rule keepsI)
  fix s assume s: "staffed s"
  show "staffed (snd (update_user t i d u s))"
  proof (cases "user_row i s")
    case None
    with s show ?thesis unfolding update_user_def bind_any_user by simp
  next
    case (Some a)
    let ?bad = "(truthy (up_role d) \<and> up_role d \<noteq> Some ''SUPER_ADMIN'') \<or> up_isActive d = Some False"
    have c: "staffed (snd (change_user i (apply_user_patch d) s))" if "\<not> ?bad \<or> other_super_admins i s \<noteq> []"
    proof (cases "other_super_admins i s \<noteq> []")
      case True
      then show ?thesis by (intro staffed_replaced[OF s]) (simp_all add: apply_user_patch_def)
    next
      case False
      with that have "\<And>a. no_weaker (apply_user_patch d a) a" by (intro patch_no_weaker) auto
      then show ?thesis using staffed_change s by (simp add: keeps_def)
    qed
    define rest where "rest = (\<lambda>_::unit. bindE (change_user i (apply_user_patch d)) (\<lambda>_.
      if up_role d \<noteq> None \<or> up_userType d \<noteq> None \<or> up_isActive d \<noteq> None \<or> up_companyId d \<noteq> None
      then am_revoke t [i] (p_id u) ''user-access-changed'' else ret ()))"
    have r: "staffed (snd (rest () s))" if "\<not> ?bad \<or> other_super_admins i s \<noteq> []"
      unfolding rest_def by (intro staffed_bind c that keeps_intros staffed_revoke)
    show ?thesis
      unfolding update_user_def bind_any_user bind_check rest_def[symmetric]
      using s Some staffed_other_exists[OF s Some] r
      by (auto simp: act_simps split: option.splits)
  qed
qed

lemma staffed_remove_user: "keeps staffed (remove_user t i u)"
proof (rule keepsI)
  fix s assume s: "staffed s"
  show "staffed (snd (remove_user t i u s))"
  proof (cases "user_row i s")
    case None
    with s show ?thesis unfolding remove_user_def bind_any_user by simp
  next
    case (Some a)
    show ?thesis
      unfolding remove_user_def bind_any_user bind_check[where b = True, simplified]
      using s Some staffed_other_exists[OF s Some] by (auto intro!: staffed_bind staffed_gone staffed_revoke)
  qed
qed

lemma staffed_accounts:
  "keeps staffed (create_platform_user cr i d)" "keeps staffed (assign_user_company f t i c x u)" "keeps staffed (create_company i n g dm)"
  "keeps staffed (generate_invite_code w i k)" "keeps staffed (create_company_user cr i d cc u)"
  unfolding create_platform_user_def email_free_def assign_user_company_def create_company_def generate_invite_code_def create_company_user_def Let_def
  by (intro keeps_intros staffed_parts staffed_change staffed_quiet staffed_sleepy; simp add: sleepy_def no_weaker_def)+

lemma staffed_calls: "counts_admins e \<Longrightarrow> staffed s \<Longrightarrow> staffed (admin_step e s)"
  using staffed_update_role staffed_create_role staffed_roles staffed_grants staffed_break_glass staffed_user_role staffed_update_user
    staffed_remove_user staffed_accounts staffed_company
  by (cases e) (simp_all add: keeps_def)

interpretation staffedm: guarded_machine counts_admins admin_step staffed
  by unfold_locales (rule staffed_calls)


end
