(* ===== verification/Admin_Claims.thy ===== *)
theory Admin_Claims
  imports Admin_Props Auth_Claims Guard_Props
begin

text \<open>
  Roles, grants and tokens: rollback of a role, what a tenant administrator can change, the
  life of a service token, and the ways around the checks the code leaves open.
\<close>

section \<open>Changing the permissions of a role\<close>

lemma known_slugs: "permissions_by_slugs ps s = Inr qs \<Longrightarrow> qs = filter (\<lambda>p. p \<in> set ps \<and> p \<noteq> []) (am_permissions s)"
  by (auto simp: permissions_by_slugs_def Let_def conj_commute split: if_splits)

lemma all_known: "permissions_by_slugs ps s = Inr qs \<Longrightarrow> set ps - {[]} \<subseteq> set (am_permissions s)"
  by (auto simp: permissions_by_slugs_def Let_def filter_empty_conv split: if_splits)

lemma slugs_known:
  assumes "set ps \<subseteq> set (am_permissions s)" "[] \<notin> set ps"
  shows "\<exists>qs. permissions_by_slugs ps s = Inr qs \<and> set qs = set ps"
proof -
  have f: "filter (\<lambda>x. x \<noteq> []) ps = ps" using assms(2) by (auto simp: filter_id_conv)
  have "filter (\<lambda>x. x \<notin> set (am_permissions s)) (remdups ps) = []" using assms(1) by (auto simp: filter_empty_conv)
  then have "permissions_by_slugs ps s = Inr (filter (\<lambda>p. p \<in> set ps) (am_permissions s))"
    unfolding permissions_by_slugs_def f by simp
  with assms(1) show ?thesis by auto
qed

lemma role_in_scope: "assert_role_scope i u b s = Inr r \<Longrightarrow> role_row_of i s = Some r"
  by (auto simp: assert_role_scope_def split: option.splits if_splits)

lemma slugs_cong: "am_permissions s = am_permissions s' \<Longrightarrow> permissions_by_slugs ps s = permissions_by_slugs ps s'"
  by (simp add: permissions_by_slugs_def Let_def)

lemma am_revoke_fields:
  "fst (am_revoke t ids u why s) = Inr ()"
  "am_roles (snd (am_revoke t ids u why s)) = am_roles s"
  "am_history (snd (am_revoke t ids u why s)) = am_history s"
  "am_permissions (snd (am_revoke t ids u why s)) = am_permissions s"
  by (simp_all add: am_revoke_def am_in_auth_def act_simps)

lemma find_last: "\<forall>y \<in> set xs. \<not> P y \<Longrightarrow> P x \<Longrightarrow> find P (xs @ [x]) = Some x"
  by (induction xs) auto

lemma find_keyed: "distinct (map k xs) \<Longrightarrow> x \<in> set xs \<Longrightarrow> Q x \<Longrightarrow> find (\<lambda>y. k y = k x \<and> Q y) xs = Some x"
  by (induction xs) (auto simp: rev_image_eqI)

definition at_role :: "string \<Rightarrow> (role_row \<Rightarrow> role_row) \<Rightarrow> role_row list \<Rightarrow> role_row list" where
  "at_role i f = map (\<lambda>r. if ro_id r = i then f r else r)"

lemma at_role_twice: "(\<And>r. ro_id (f r) = ro_id r) \<Longrightarrow> at_role i g (at_role i f rs) = at_role i (\<lambda>r. g (f r)) rs"
  by (simp add: at_role_def)

lemma set_role_eval: "set_role i f s = (Inr (), s\<lparr>am_roles := at_role i f (am_roles s)\<rparr>)"
  by (simp add: set_role_def act_simps at_role_def)

lemma find_at_role: "(\<And>r. ro_id (f r) = ro_id r) \<Longrightarrow> find (\<lambda>r. ro_id r = i) (at_role i f rs) = map_option f (find (\<lambda>r. ro_id r = i) rs)"
  by (induction rs) (auto simp: at_role_def)

definition new_role :: "role_patch \<Rightarrow> string list \<Rightarrow> role_row \<Rightarrow> role_row" where
  "new_role d ps r = r\<lparr>ro_permissions := ps, ro_name := or_str (rp_name d) (ro_name r),
     rw_description := (case rp_description d of None \<Rightarrow> rw_description r | Some x \<Rightarrow> Some x)\<rparr>"

definition role_entry :: "auth_world \<Rightarrow> principal \<Rightarrow> string \<Rightarrow> role_row \<Rightarrow> string list \<Rightarrow> role_audit" where
  "role_entry w u i r slugs = \<lparr>ra_id = uuid w 1, ra_companyId = or_str (rw_companyId r) (or_str (p_companyId u) ''platform''),
     ra_actorId = p_id u, ra_action = ''ROLE_PERMISSIONS_UPDATED'', ra_resourceId = i, ra_before = Some (ro_permissions r), ra_after = slugs\<rparr>"

lemma update_role_run:
  assumes "assert_role_scope i u True s = Inr r" "rp_slugs d = Some slugs" "permissions_by_slugs slugs s = Inr ps"
    and "\<not> (needs_acknowledgement i (ro_permissions r) slugs s \<and> \<not> rp_acknowledge d)"
  shows "fst (update_role w i d u s) = Inr ()"
    and "am_roles (snd (update_role w i d u s)) = at_role i (new_role d ps) (am_roles s)"
    and "am_history (snd (update_role w i d u s)) = am_history s @ [role_entry w u i r slugs]"
    and "am_permissions (snd (update_role w i d u s)) = am_permissions s"
proof -
  let ?s1 = "s\<lparr>am_roles := at_role i (\<lambda>x. x\<lparr>ro_permissions := []\<rparr>) (am_roles s)\<rparr>"
  let ?s3 = "s\<lparr>am_roles := at_role i (new_role d ps) (am_roles s), am_history := am_history s @ [role_entry w u i r slugs]\<rparr>"
  have p: "permissions_by_slugs slugs ?s1 = Inr ps" using assms(3) by (simp add: slugs_cong[of ?s1 s])
  have e: "slugs = [] \<Longrightarrow> ps = []" using known_slugs[OF assms(3)] by simp
  have "update_role w i d u s = am_revoke (now w) (role_users i ?s3) (p_id u) ''role-permissions-changed'' ?s3"
    unfolding update_role_def bind_am_get assms(1) sum.case assms(2) option.case
    using assms(4) p e
    by (cases "slugs = []") (auto simp: act_simps set_role_eval at_role_twice role_audit_entry_def role_entry_def new_role_def[abs_def] am_get_def cong: option.case_cong)
  then show "fst (update_role w i d u s) = Inr ()"
    and "am_roles (snd (update_role w i d u s)) = at_role i (new_role d ps) (am_roles s)"
    and "am_history (snd (update_role w i d u s)) = am_history s @ [role_entry w u i r slugs]"
    and "am_permissions (snd (update_role w i d u s)) = am_permissions s"
    by (simp_all add: am_revoke_fields)
qed

text \<open>
  Rolling back a role. After a change of a role's permissions, rolling back to the history entry
  that change wrote succeeds for the same administrator and gives the role the permissions it
  had before.
\<close>
theorem rollback_restores_role:
  assumes run: "update_role w i d u s = (Inr (), s1)" and sl: "rp_slugs d = Some slugs" and r: "role_row_of i s = Some r"
    and fresh: "uuid w 1 \<notin> ra_id ` set (am_history s)" and perms: "set (ro_permissions r) \<subseteq> set (am_permissions s)" "[] \<notin> set (ro_permissions r)"
    and who: "p_role u = ''SUPER_ADMIN'' \<or> truthy (p_companyId u)"
  shows "fst (rollback_role w2 i (uuid w 1) u s1) = Inr ()
    \<and> map_option (\<lambda>x. set (ro_permissions x)) (role_row_of i (snd (rollback_role w2 i (uuid w 1) u s1))) = Some (set (ro_permissions r))"
proof -
  have sc: "assert_role_scope i u True s = Inr r"
    using run r by (cases "assert_role_scope i u True s") (auto simp: update_role_def bind_am_get dest: role_in_scope)
  have ack: "\<not> (needs_acknowledgement i (ro_permissions r) slugs s \<and> \<not> rp_acknowledge d)"
    using run unfolding update_role_def bind_am_get sc sum.case sl option.case by (auto simp: act_simps split: if_splits)
  obtain ps where ps: "permissions_by_slugs slugs s = Inr ps"
  proof (cases "permissions_by_slugs slugs s")
    case (Inl e)
    let ?s1 = "s\<lparr>am_roles := at_role i (\<lambda>x. x\<lparr>ro_permissions := []\<rparr>) (am_roles s)\<rparr>"
    have "permissions_by_slugs slugs ?s1 = Inl e" using Inl by (simp add: slugs_cong[of ?s1 s])
    moreover have "slugs \<noteq> []" using Inl by (auto simp: permissions_by_slugs_def)
    ultimately have False using run ack unfolding update_role_def bind_am_get sc sum.case sl option.case
      by (simp add: act_simps set_role_eval am_get_def split: if_splits)
    then show ?thesis ..
  qed (use that in blast)
  note u1 = update_role_run[where w = w, OF sc sl ps ack, unfolded run snd_conv]
  have r1: "role_row_of i s1 = Some (new_role d ps r)" using r by (simp add: role_row_of_def u1 find_at_role new_role_def)
  have sc1: "assert_role_scope i u True s1 = Inr (new_role d ps r)"
    using sc r r1 by (auto simp: assert_role_scope_def new_role_def split: if_splits)
  have e: "find (\<lambda>x. ra_id x = uuid w 1 \<and> ra_resourceId x = i) (am_history s1) = Some (role_entry w u i r slugs)"
    unfolding u1(3) by (rule find_last) (use fresh in \<open>auto simp: role_entry_def rev_image_eqI\<close>)
  have c: "p_role u = ''SUPER_ADMIN'' \<or> Some (ra_companyId (role_entry w u i r slugs)) = p_companyId u"
  proof -
    have "p_role u = ''SUPER_ADMIN'' \<or> rw_companyId r = p_companyId u"
      using sc r by (simp add: assert_role_scope_def split: if_splits)
    with who show ?thesis by (cases "p_companyId u") (auto simp: role_entry_def or_str_def)
  qed
  obtain qs where qs: "permissions_by_slugs (ro_permissions r) s1 = Inr qs" "set qs = set (ro_permissions r)"
    using slugs_known[of "ro_permissions r" s1] perms by (auto simp: u1)
  let ?d = "\<lparr>rp_name = None, rp_description = None, rp_slugs = Some (ro_permissions r), rp_acknowledge = True\<rparr>"
  have "rollback_role w2 i (uuid w 1) u s1 = update_role w2 i ?d u s1"
    unfolding rollback_role_def bind_am_get sc1 sum.case e option.case using c by (simp add: guard_then role_entry_def)
  moreover note u2 = update_role_run[where w = w2 and d = ?d, OF sc1 _ qs(1)]
  ultimately show ?thesis using r1 qs(2) by (simp add: role_row_of_def u2 find_at_role new_role_def)
qed

text \<open>
  C39. An unknown slug empties the role. When an acknowledged change of a role names one permission
  that does not exist, the call is refused, and the role is left without any permission, with
  no history entry to roll back to and its users' sessions untouched.
\<close>
theorem unknown_slug_empties_role:
  assumes "assert_role_scope i u True s = Inr r" "rp_slugs d = Some slugs" "rp_acknowledge d" "p \<in> set slugs" "p \<noteq> []" "p \<notin> set (am_permissions s)"
  shows "(\<exists>m. fst (update_role w i d u s) = Inl (BadRequest m))
    \<and> map_option ro_permissions (role_row_of i (snd (update_role w i d u s))) = Some []
    \<and> am_history (snd (update_role w i d u s)) = am_history s \<and> am_auth (snd (update_role w i d u s)) = am_auth s"
proof -
  let ?s1 = "s\<lparr>am_roles := at_role i (\<lambda>x. x\<lparr>ro_permissions := []\<rparr>) (am_roles s)\<rparr>"
  have "filter (\<lambda>x. x \<notin> set (am_permissions s)) (remdups (filter (\<lambda>x. x \<noteq> []) slugs)) \<noteq> []" (is "?missing \<noteq> []")
    using assms(4-6) unfolding filter_empty_conv by auto
  then have m: "permissions_by_slugs slugs ?s1 = Inl (BadRequest (''Unknown permission(s): '' @ str_join '', '' ?missing))" (is "_ = Inl (BadRequest ?m)")
    unfolding permissions_by_slugs_def Let_def by simp
  have "slugs \<noteq> []" using assms(4) by auto
  then have "update_role w i d u s = (Inl (BadRequest ?m), ?s1)"
    unfolding update_role_def bind_am_get assms(1) sum.case assms(2) option.case
    using m assms(3) by (simp add: act_simps set_role_eval am_get_def)
  then show ?thesis using role_in_scope[OF assms(1)] by (simp add: role_row_of_def find_at_role)
qed

section \<open>Around the checks\<close>

text \<open>
  Revoking through another campaign. An administrator who may see campaign \<open>c\<close> can name, in a
  revocation, an item of any other campaign, of another company too: the user of that item
  loses all roles, and the item itself keeps its decision and reviewer.
\<close>
theorem review_reaches_other_campaign:
  assumes "get_access_review c u s = Inr x" and item: "find (\<lambda>v. vi_id v = i) (am_items s) = Some v" "vi_campaignId v \<noteq> c"
    and target: "user_row (vi_userId v) s = Some a" "ac_role a \<noteq> ''SUPER_ADMIN''"
  shows "fst (decide_review_item c i ''REVOKE'' u s) = Inr ()
    \<and> (\<forall>k. (vi_userId v, k) \<notin> set (am_user_roles (snd (decide_review_item c i ''REVOKE'' u s))))
    \<and> find (\<lambda>v. vi_id v = i) (am_items (snd (decide_review_item c i ''REVOKE'' u s))) = Some v"
proof -
  let ?f = "\<lambda>v. if vi_id v = i \<and> vi_campaignId v = c then v\<lparr>vi_decision := ''REVOKE'', vi_reviewer := Some (p_id u)\<rparr> else v"
  have f: "find (\<lambda>v. vi_id v = i) (map ?f vs) = Some v" if "find (\<lambda>v. vi_id v = i) vs = Some v" for vs
    using that item(2) by (induction vs) (auto split: if_splits)
  show ?thesis
    unfolding decide_review_item_def bind_am_get assms(1) sum.case
    using f[OF item(1)] target by (auto simp: act_simps assert_not_last_super_admin_def user_row_def)
qed

lemma filter_map_inv: "(\<And>x. P (f x) = P x) \<Longrightarrow> filter P (map f xs) = [] \<longleftrightarrow> filter P xs = []"
  by (simp add: filter_map comp_def)

lemma revoked_filter:
  assumes "\<And>x v. P (x\<lparr>ac_authVersion := v\<rparr>) = P x"
  shows "filter P (super_admins (snd (am_revoke t ids u why s))) = [] \<longleftrightarrow> filter P (super_admins s) = []"
  unfolding super_admins_def filter_filter am_revoke_def am_in_auth_def
  by (simp add: act_simps filter_map_inv assms)

lemma revoked_super_admins: "super_admins (snd (am_revoke t ids u why s)) = [] \<longleftrightarrow> super_admins s = []"
  using revoked_filter[of "\<lambda>_. True"] by simp

text \<open>
  A super admin assigned to a company. A tenant administrator of that company may give such an
  account the role of a client, even when it is the last active super admin.
\<close>
theorem tenant_admin_demotes_super_admin:
  assumes "super_admins s = [a]" "ac_companyId a = Some c" "distinct (map ac_id (accounts (am_auth s)))"
    and "p_role u = ''TENANT_ADMIN''" "p_id u \<noteq> ac_id a"
  shows "fst (update_company_user_role t (ac_id a) ''CLIENT'' c u s) = Inr ()
    \<and> super_admins (snd (update_company_user_role t (ac_id a) ''CLIENT'' c u s)) = []"
proof -
  have "a \<in> set (super_admins s)" using assms(1) by simp
  then have a: "a \<in> set (accounts (am_auth s))" "ac_role a = ''SUPER_ADMIN''" by (auto simp: super_admins_def)
  have f: "find (\<lambda>x. ac_id x = ac_id a \<and> ac_companyId x = Some c) (accounts (am_auth s)) = Some a"
    using find_keyed[OF assms(3) a(1), of "\<lambda>x. ac_companyId x = Some c"] assms(2) by simp
  have ok: "assert_tenant_role_change (ac_id a) (ac_role a) ''CLIENT'' u = Inr ()"
    using assms(4,5) a(2) by (simp add: assert_tenant_role_change_def)
  let ?s1 = "s\<lparr>am_auth := (am_auth s)\<lparr>accounts := map (\<lambda>x. if ac_id x = ac_id a then x\<lparr>ac_role := ''CLIENT''\<rparr> else x) (accounts (am_auth s))\<rparr>\<rparr>"
  have run: "update_company_user_role t (ac_id a) ''CLIENT'' c u s = am_revoke t [ac_id a] (p_id u) ''primary-role-changed'' ?s1"
    unfolding update_company_user_role_def company_user_def bind_am_get f option.case sum.case ok
    by (simp add: act_simps change_user_def am_in_auth_def set_account_def)
  have n: "super_admins ?s1 = []"
  proof -
    have "ac_id x = ac_id a" if "x \<in> set (super_admins s)" for x using that assms(1) by simp
    then show ?thesis by (fastforce simp: super_admins_def filter_empty_conv split: if_splits)
  qed
  show ?thesis unfolding run using n by (simp add: am_revoke_fields revoked_super_admins)
qed

text \<open>
  The last break-glass account. Ending the break-glass status of the only such account is
  refused, but the account itself can be removed, and no break-glass super admin is left.
\<close>
theorem last_break_glass_removable:
  assumes "user_row i s = Some a" "map_of (am_deleted s) i = None" "ac_role a = ''SUPER_ADMIN''" "ac_breakGlass a"
    and "other_break_glass i s = []" "other_super_admins i s \<noteq> []" "p_role u = ''SUPER_ADMIN''"
  shows "fst (set_break_glass t i False None u s) = Inl (BadRequest ''At least one active break-glass super admin must remain'')
    \<and> fst (remove_user t i u s) = Inr () \<and> filter ac_breakGlass (super_admins (snd (remove_user t i u s))) = []"
proof -
  have sc: "assert_user_scope i u s = Inr a" using assms(1,2,7) by (simp add: assert_user_scope_def)
  have one: "fst (set_break_glass t i False None u s) = Inl (BadRequest ''At least one active break-glass super admin must remain'')"
    unfolding set_break_glass_def guard_then using assms(3,4,5,7) by (simp add: act_simps am_get_def sc)
  let ?s1 = "snd (delete_user_row t i s)"
  have run: "remove_user t i u s = am_revoke t [i] (p_id u) ''user-removed'' ?s1"
    unfolding remove_user_def bind_any_user assms(1) option.case bind_check[where b = True, simplified]
    using assms(1,6) by (simp add: act_simps delete_user_row_def change_user_def am_in_auth_def set_account_def)
  have "filter ac_breakGlass (super_admins ?s1) = []"
    using assms(5) by (auto simp: filter_empty_conv other_break_glass_def other_super_admins_def super_admins_def
        delete_user_row_def change_user_def am_in_auth_def set_account_def act_simps split: if_splits)
  then show ?thesis using one unfolding run by (simp add: am_revoke_fields revoked_filter)
qed

section \<open>Service tokens and grants\<close>


section \<open>Witnesses\<close>

definition k_admin :: principal where
  "k_admin = \<lparr>p_id = ''a1'', p_email = ''r@x.io'', p_role = ''SUPER_ADMIN'', p_userType = ''BUSINESS'', p_companyId = None,
     p_effective = None, p_location = None, p_slugs = [], p_scopes = []\<rparr>"

definition k_tenant :: principal where
  "k_tenant = k_admin\<lparr>p_id := ''t1'', p_role := ''TENANT_ADMIN'', p_companyId := Some ''c1''\<rparr>"

definition k_account :: "string \<Rightarrow> string \<Rightarrow> string option \<Rightarrow> account" where
  "k_account i role c = (fresh_account i (i @ ''@x.io'') ''A'' ''B'' role [] ''h'' True)\<lparr>ac_companyId := c\<rparr>"

definition k_db :: admin_db where
  "k_db = \<lparr>am_auth = no_auth\<lparr>accounts := [(k_account ''a1'' ''SUPER_ADMIN'' None)\<lparr>ac_breakGlass := True\<rparr>, k_account ''a2'' ''SUPER_ADMIN'' (Some ''c1''),
       k_account ''u2'' ''CLIENT'' (Some ''c2'')]\<rparr>,
     am_deleted = [], am_closed = [], am_roles = [\<lparr>ro_id = ''r1'', ro_name = ''Desk'', ro_slug = ''desk'', ro_isSystem = False,
       ro_permissions = [''tickets.view'', ''users.manage''], rw_companyId = Some ''c1'', rw_description = None\<rparr>],
     am_user_roles = [(''u2'', ''r2'')], am_permissions = [''tickets.view'', ''tickets.edit'', ''users.manage''], am_grants = [], am_scopes = [],
     am_approvals = [], am_services = [],
     am_reviews = [\<lparr>vc_id = ''v1'', vc_companyId = Some ''c1'', vc_status = ''OPEN''\<rparr>],
     am_items = [\<lparr>vi_id = ''i2'', vi_campaignId = ''v2'', vi_userId = ''u2'', vi_decision = ''PENDING'', vi_reviewer = None\<rparr>],
     am_history = [], am_dual = [], am_moves = []\<rparr>"

definition k_patch :: role_patch where
  "k_patch = \<lparr>rp_name = None, rp_description = None, rp_slugs = Some [''tickets.edit''], rp_acknowledge = True\<rparr>"

definition k_calls :: "console_call list" where
  "k_calls = [AUserRole 5 ''a1'' ''CLIENT'' k_admin, ARemoveUser 6 ''a2'' k_admin,
     AUpdateUser 7 ''a2'' \<lparr>up_firstName = None, up_lastName = None, up_role = None, up_userType = None, up_isActive = Some False, up_companyId = None\<rparr> k_admin]"

lemma k_reach: "reachable_by counts_admins admin_step k_db (fold admin_step k_calls k_db)"
  by (rule staffedm.fold_reachable) (simp_all add: k_calls_def reach_start)


lemma k_update: "update_role (toy_world 5 ''h'') ''r1'' k_patch k_tenant k_db = (Inr (), snd (update_role (toy_world 5 ''h'') ''r1'' k_patch k_tenant k_db))"
proof -
  have "fst (update_role (toy_world 5 ''h'') ''r1'' k_patch k_tenant k_db) = Inr ()" by code_simp
  then show ?thesis by (metis prod.collapse)
qed

theorem rollback_restores_role_witness:
  "map_option (\<lambda>x. set (ro_permissions x)) (role_row_of ''r1'' (snd (rollback_role (toy_world 9 ''k'') ''r1'' ''hu'' k_tenant
     (snd (update_role (toy_world 5 ''h'') ''r1'' k_patch k_tenant k_db))))) = Some {''tickets.view'', ''users.manage''}"
proof -
  have r: "role_row_of ''r1'' k_db = Some (hd (am_roles k_db))" by (simp add: role_row_of_def k_db_def)
  have u: "uuid (toy_world 5 ''h'') 1 = ''hu''" by (simp add: toy_world_def)
  have s: "rp_slugs k_patch = Some [''tickets.edit'']" by (simp add: k_patch_def)
  note rollback_restores_role[OF k_update s r, of "toy_world 9 ''k''", unfolded u]
  then show ?thesis by (simp add: k_db_def k_tenant_def)
qed

theorem unknown_slug_empties_role_witness:
  "map_option ro_permissions (role_row_of ''r1'' (snd (update_role (toy_world 5 ''h'') ''r1'' (k_patch\<lparr>rp_slugs := Some [''nope'']\<rparr>) k_tenant k_db))) = Some []"
proof -
  have sc: "assert_role_scope ''r1'' k_tenant True k_db = Inr (hd (am_roles k_db))"
    by (simp add: assert_role_scope_def role_row_of_def k_db_def k_tenant_def k_admin_def)
  have "''nope'' \<notin> set (am_permissions k_db)" by (simp add: k_db_def)
  then show ?thesis
    using unknown_slug_empties_role[OF sc, of "k_patch\<lparr>rp_slugs := Some [''nope'']\<rparr>" "[''nope'']" "''nope''" "toy_world 5 ''h''"]
    by (simp add: k_patch_def)
qed

theorem review_reaches_other_campaign_witness:
  "fst (decide_review_item ''v1'' ''i2'' ''REVOKE'' k_tenant k_db) = Inr ()
   \<and> (''u2'', ''r2'') \<notin> set (am_user_roles (snd (decide_review_item ''v1'' ''i2'' ''REVOKE'' k_tenant k_db)))"
proof -
  have g: "get_access_review ''v1'' k_tenant k_db = Inr (hd (am_reviews k_db), [])"
    by (simp add: get_access_review_def k_db_def k_tenant_def k_admin_def)
  have i: "find (\<lambda>v. vi_id v = ''i2'') (am_items k_db) = Some (hd (am_items k_db))" "vi_campaignId (hd (am_items k_db)) \<noteq> ''v1''"
    "vi_userId (hd (am_items k_db)) = ''u2''" by (simp_all add: k_db_def)
  have u: "user_row (vi_userId (hd (am_items k_db))) k_db = Some (k_account ''u2'' ''CLIENT'' (Some ''c2''))"
    "ac_role (k_account ''u2'' ''CLIENT'' (Some ''c2'')) \<noteq> ''SUPER_ADMIN''"
    by (simp_all add: user_row_def find_account_def k_db_def k_account_def fresh_account_def)
  show ?thesis using review_reaches_other_campaign[OF g i(1,2) u] by (simp add: i(3))
qed

definition k_lone :: admin_db where
  "k_lone = k_db\<lparr>am_auth := no_auth\<lparr>accounts := [k_account ''a2'' ''SUPER_ADMIN'' (Some ''c1'')]\<rparr>\<rparr>"

theorem tenant_admin_demotes_super_admin_witness:
  "super_admins k_lone \<noteq> [] \<and> super_admins (snd (update_company_user_role 5 ''a2'' ''CLIENT'' ''c1'' k_tenant k_lone)) = []"
proof -
  let ?a = "k_account ''a2'' ''SUPER_ADMIN'' (Some ''c1'')"
  have a: "super_admins k_lone = [?a]" "ac_id ?a = ''a2''" "ac_companyId ?a = Some ''c1''"
    by (simp_all add: super_admins_def k_lone_def k_db_def k_account_def fresh_account_def)
  have "distinct (map ac_id (accounts (am_auth k_lone)))" by (simp add: k_lone_def)
  then show ?thesis
    using tenant_admin_demotes_super_admin[OF a(1,3), of k_tenant 5] a by (simp add: k_tenant_def)
qed

theorem last_break_glass_removable_witness:
  "fst (remove_user 5 ''a1'' k_admin k_db) = Inr () \<and> filter ac_breakGlass (super_admins k_db) \<noteq> []
   \<and> filter ac_breakGlass (super_admins (snd (remove_user 5 ''a1'' k_admin k_db))) = []"
proof -
  have u: "user_row ''a1'' k_db = Some (hd (accounts (am_auth k_db)))" by (simp add: user_row_def find_account_def k_db_def k_account_def fresh_account_def)
  have c: "map_of (am_deleted k_db) ''a1'' = None" "ac_role (hd (accounts (am_auth k_db))) = ''SUPER_ADMIN''" "ac_breakGlass (hd (accounts (am_auth k_db)))"
    "other_break_glass ''a1'' k_db = []" "other_super_admins ''a1'' k_db \<noteq> []" "p_role k_admin = ''SUPER_ADMIN''"
    by (simp_all add: k_db_def k_account_def fresh_account_def other_break_glass_def other_super_admins_def k_admin_def)
  have "filter ac_breakGlass (super_admins k_db) \<noteq> []" by (simp add: super_admins_def k_db_def k_account_def fresh_account_def)
  then show ?thesis using last_break_glass_removable[OF u c, of 5] by blast
qed

definition k_machine :: machine_dto where
  "k_machine = \<lparr>mn_name = Some ''sync'', mn_slugs = Some [''tickets.view''], mn_companyId = None, mn_scopeType = None, mn_scopeValues = None,
     mn_expiresAt = Some 100\<rparr>"


end
