(* ===== verification/Calendar.thy ===== *)
theory Calendar
  imports Prelude
begin

text \<open>
  JavaScript dates, as ECMAScript defines them: a time is milliseconds since 1970, its day is
  the quotient by the length of a day, and a month is an index \<open>12 * year + month\<close>.
  \<open>setMonth\<close> and \<open>setFullYear\<close> keep the day of the month and let it run over into the next
  month. The server's local time is UTC.
\<close>

definition MS_PER_DAY :: int where "MS_PER_DAY = 24 * 60 * 60 * 1000"

definition day_from_year :: "int \<Rightarrow> int" where
  "day_from_year y = 365 * (y - 1970) + (y - 1969) div 4 - (y - 1901) div 100 + (y - 1601) div 400"

definition leap_year :: "int \<Rightarrow> bool" where
  "leap_year y \<longleftrightarrow> y mod 4 = 0 \<and> (y mod 100 \<noteq> 0 \<or> y mod 400 = 0)"

definition month_offsets :: "int list" where
  "month_offsets = [0, 31, 59, 90, 120, 151, 181, 212, 243, 273, 304, 334]"

definition month_start :: "int \<Rightarrow> int" where
  "month_start i = (let y = i div 12; m = i mod 12 in
     day_from_year y + month_offsets ! nat m + (if leap_year y \<and> 2 \<le> m then 1 else 0))"

function year_up :: "int \<Rightarrow> int \<Rightarrow> int" where
  "year_up y d = (if day_from_year (y + 1) \<le> d then year_up (y + 1) d else y)"
  by pat_completeness auto

lemma div_next: "0 < n \<Longrightarrow> (x + 1) div n = x div n + (if (x + 1) mod n = 0 then 1 else 0)" for x n :: int
proof -
  assume n: "0 < n"
  define q r where "q = x div n" and "r = x mod n"
  have x: "x = n * q + r" and r: "0 \<le> r" "r < n" using n by (simp_all add: q_def r_def)
  show ?thesis
  proof (cases "r = n - 1")
    case True
    then have e: "x + 1 = n * (q + 1)" using x by (simp add: algebra_simps)
    then have "(x + 1) div n = q + 1" "(x + 1) mod n = 0" using n by simp_all
    then show ?thesis by (simp add: q_def)
  next
    case False
    then have e: "x + 1 = (r + 1) + n * q" and r1: "0 \<le> r + 1" "r + 1 < n" using x r by simp_all
    have "(x + 1) div n = q" unfolding e using n r1 by (simp only: div_mult_self2 div_pos_pos_trivial)
    moreover have "(x + 1) mod n = r + 1" unfolding e using r1 by (simp only: mod_mult_self2 mod_pos_pos_trivial)
    ultimately show ?thesis using r by (simp add: q_def)
  qed
qed

lemma leap_count:
  fixes y n c b :: int
  assumes "0 < n" "n dvd c" "b = c + 1"
  shows "(y + 1 - b) div n = (y - b) div n + (if y mod n = 0 then 1 else 0)"
proof -
  have e: "(y - b) + 1 = y - c" "y + 1 - b = y - c" using assms(3) by simp_all
  have m: "(y - c) mod n = y mod n" using assms(2) by (simp add: mod_eq_dvd_iff)
  show ?thesis unfolding e(2) using div_next[OF assms(1), of "y - b", unfolded e(1) m] .
qed

lemma year_length: "day_from_year (y + 1) = day_from_year y + 365 + (if leap_year y then 1 else 0)"
proof -
  have a: "(y + 1 - 1969) div 4 = (y - 1969) div 4 + (if y mod 4 = 0 then 1 else 0)" by (rule leap_count[of _ 1968]) simp_all
  have b: "(y + 1 - 1901) div 100 = (y - 1901) div 100 + (if y mod 100 = 0 then 1 else 0)" by (rule leap_count[of _ 1900]) simp_all
  have c: "(y + 1 - 1601) div 400 = (y - 1601) div 400 + (if y mod 400 = 0 then 1 else 0)" by (rule leap_count[of _ 1600]) simp_all
  have v: "100 dvd (400::int)" "4 dvd (100::int)" by simp_all
  have d: "y mod 400 = 0 \<Longrightarrow> y mod 100 = 0" "y mod 100 = 0 \<Longrightarrow> y mod 4 = 0"
    unfolding mod_eq_0_iff_dvd by (fact dvd_trans[OF v(1)], fact dvd_trans[OF v(2)])
  show ?thesis
  proof (cases "y mod 100 = 0")
    case True
    then show ?thesis unfolding day_from_year_def a b c leap_year_def using d(2)[OF True] by simp
  next
    case False
    then have "y mod 400 \<noteq> 0" using d(1) by metis
    with False show ?thesis unfolding day_from_year_def a b c leap_year_def by simp
  qed
qed

termination year_up
proof (relation "measure (\<lambda>(y, d). nat (d - day_from_year y))")
  fix y d :: int assume "day_from_year (y + 1) \<le> d"
  then show "((y + 1, d), (y, d)) \<in> measure (\<lambda>(y, d). nat (d - day_from_year y))"
    using year_length[of y] by (cases "leap_year y") simp_all
qed simp

declare year_up.simps [simp del]

text \<open>A year not after the one of the day: no year has more than 366 or less than 365 days.\<close>

definition year_of :: "int \<Rightarrow> int" where
  "year_of d = year_up (if 0 \<le> d then 1970 + d div 366 else 1970 + d div 365) d"

definition month_index :: "int \<Rightarrow> int" where
  "month_index d = (let y = year_of d in
     12 * y + int (length (filter (\<lambda>m. month_start (12 * y + m) \<le> d) [1, 2, 3, 4, 5, 6, 7, 8, 9, 10, 11])))"

definition date_of :: "int \<Rightarrow> int" where
  "date_of d = d - month_start (month_index d) + 1"

definition add_months :: "int \<Rightarrow> int \<Rightarrow> int" where
  "add_months k t = (let d = t div MS_PER_DAY in
     (month_start (month_index d + k) + date_of d - 1) * MS_PER_DAY + t mod MS_PER_DAY)"

definition add_days :: "int \<Rightarrow> int \<Rightarrow> int" where
  "add_days n t = t + n * MS_PER_DAY"

definition month_begin :: "int \<Rightarrow> int" where
  "month_begin t = month_start (month_index (t div MS_PER_DAY)) * MS_PER_DAY"

section \<open>Months follow one another\<close>

definition month_length :: "int \<Rightarrow> int" where
  "month_length i = month_start (i + 1) - month_start i"

lemma month_start_year: "0 \<le> m \<Longrightarrow> m < 12 \<Longrightarrow>
    month_start (12 * y + m) = day_from_year y + month_offsets ! nat m + (if leap_year y \<and> 2 \<le> m then 1 else 0)"
  by (simp add: month_start_def Let_def)

lemma month_cases:
  fixes m :: int
  assumes "0 \<le> m" "m < 12"
  obtains "m = 0" | "m = 1" | "m = 2" | "m = 3" | "m = 4" | "m = 5" | "m = 6" | "m = 7" | "m = 8" | "m = 9" | "m = 10" | "m = 11"
proof -
  have "m = 0 \<or> m = 1 \<or> m = 2 \<or> m = 3 \<or> m = 4 \<or> m = 5 \<or> m = 6 \<or> m = 7 \<or> m = 8 \<or> m = 9 \<or> m = 10 \<or> m = 11"
    using assms by presburger
  then show ?thesis using that by blast
qed

lemma month_length_cases: "month_length i \<in> {28, 29, 30, 31}"
proof -
  define y m where "y = i div 12" and "m = i mod 12"
  have i: "i = 12 * y + m" and m: "0 \<le> m" "m < 12" by (simp_all add: y_def m_def)
  have next_year: "month_start (12 * y + 12) = day_from_year y + 365 + (if leap_year y then 1 else 0)"
    using month_start_year[of 0 "y + 1"] year_length[of y] by (simp add: month_offsets_def algebra_simps)
  show ?thesis
  proof (cases "m = 11")
    case True
    then show ?thesis using next_year month_start_year[of 11 y] by (simp add: month_length_def i month_offsets_def algebra_simps)
  next
    case False
    have s: "month_start (12 * y + m + 1) = day_from_year y + month_offsets ! nat (m + 1) + (if leap_year y \<and> 2 \<le> m + 1 then 1 else 0)"
      using month_start_year[of "m + 1" y] m False by (simp add: add.assoc)
    show ?thesis unfolding month_length_def i s month_start_year[OF m]
      using m False by (elim month_cases) (simp_all add: month_offsets_def)
  qed
qed

lemma month_start_less: "i < j \<Longrightarrow> month_start i < month_start j"
proof (induction j rule: int_gr_induct)
  case base
  show ?case using month_length_cases[of i] by (auto simp: month_length_def)
next
  case (step j)
  then show ?case using month_length_cases[of j] by (auto simp: month_length_def)
qed

lemma month_start_less_iff: "month_start i < month_start j \<longleftrightarrow> i < j"
  using month_start_less[of i j] month_start_less[of j i] by (cases i j rule: linorder_cases) auto

lemma month_start_le_iff: "month_start i \<le> month_start j \<longleftrightarrow> i \<le> j"
  using month_start_less_iff[of j i] by auto

section \<open>The year and month of a day\<close>

lemma year_start: "month_start (12 * y) = day_from_year y"
  using month_start_year[of 0 y] by (simp add: month_offsets_def)

lemma day_from_year_low: "0 \<le> n \<Longrightarrow> day_from_year (1970 + n) \<le> 366 * n" "n \<le> 0 \<Longrightarrow> day_from_year (1970 + n) \<le> 365 * n"
proof -
  show "day_from_year (1970 + n) \<le> 366 * n" if "0 \<le> n"
    using that
  proof (induction n rule: int_ge_induct)
    case base
    show ?case by (simp add: day_from_year_def)
  next
    case (step n)
    then show ?case using year_length[of "1970 + n"] by (simp add: add.assoc split: if_splits)
  qed
  show "day_from_year (1970 + n) \<le> 365 * n" if "n \<le> 0"
    using that
  proof (induction n rule: int_le_induct)
    case base
    show ?case by (simp add: day_from_year_def)
  next
    case (step n)
    then show ?case using year_length[of "1970 + (n - 1)"] by (simp add: add.assoc split: if_splits)
  qed
qed

lemma year_up_works: "day_from_year y \<le> d \<Longrightarrow> day_from_year (year_up y d) \<le> d \<and> d < day_from_year (year_up y d + 1)"
proof (induction y d rule: year_up.induct)
  case (1 y d)
  then show ?case by (subst (1 2) year_up.simps) auto
qed

lemma year_of_bounds: "day_from_year (year_of d) \<le> d" "d < day_from_year (year_of d + 1)"
proof -
  have "day_from_year (if 0 \<le> d then 1970 + d div 366 else 1970 + d div 365) \<le> d"
  proof (cases "0 \<le> d")
    case True
    then have "0 \<le> d div 366" "366 * (d div 366) \<le> d" by auto
    then show ?thesis using True day_from_year_low(1)[of "d div 366"] by simp
  next
    case False
    then have "d div 365 \<le> 0" "365 * (d div 365) \<le> d" by presburger+
    then show ?thesis using False day_from_year_low(2)[of "d div 365"] by simp
  qed
  from year_up_works[OF this] show "day_from_year (year_of d) \<le> d" "d < day_from_year (year_of d + 1)"
    by (simp_all add: year_of_def)
qed

lemma filter_prefix:
  fixes ok :: "int \<Rightarrow> bool"
  assumes "\<And>m n. m \<le> n \<Longrightarrow> ok n \<Longrightarrow> ok m" "ok (a - 1)" "\<not> ok (b + 1)" "a \<le> b + 1"
  shows "ok (a - 1 + int (length (filter ok [a..b]))) \<and> \<not> ok (a + int (length (filter ok [a..b])))"
  using assms(2-4)
proof (induction "nat (b + 1 - a)" arbitrary: a)
  case 0
  then have "b = a - 1" by simp
  with 0 show ?case by simp
next
  case (Suc n)
  then have ab: "a \<le> b" by simp
  show ?case
  proof (cases "ok a")
    case True
    have "n = nat (b + 1 - (a + 1))" using Suc.hyps(2) by simp
    from Suc.hyps(1)[OF this] True Suc.prems ab
    have "ok (a + int (length (filter ok [a + 1..b]))) \<and> \<not> ok (a + 1 + int (length (filter ok [a + 1..b])))" by simp
    then show ?thesis using True ab by (simp add: upto_rec1[of a b] algebra_simps)
  next
    case False
    then have "filter ok [a..b] = []" using assms(1) by (auto simp: filter_empty_conv)
    then show ?thesis using Suc.prems(1) False by simp
  qed
qed

lemma month_index_bounds: "month_start (month_index d) \<le> d" "d < month_start (month_index d + 1)"
proof -
  define y where "y = year_of d"
  let ?ok = "\<lambda>m. month_start (12 * y + m) \<le> d"
  have "?ok 0" using year_of_bounds(1)[of d] by (simp add: y_def year_start)
  moreover have "\<not> ?ok 12" using year_of_bounds(2)[of d] year_start[of "y + 1"] by (simp add: y_def algebra_simps)
  moreover have "?ok m" if "m \<le> n" "?ok n" for m n using that month_start_le_iff[of "12 * y + m" "12 * y + n"] by linarith
  ultimately have "?ok (0 + int (length (filter ?ok [1..11]))) \<and> \<not> ?ok (1 + int (length (filter ?ok [1..11])))"
    using filter_prefix[of ?ok 1 11] by simp
  moreover have "[1..11] = [1, 2, 3, 4, 5, 6, 7, 8, 9, 10, 11 :: int]" by (simp add: upto_rec1)
  ultimately show "month_start (month_index d) \<le> d" "d < month_start (month_index d + 1)"
    by (simp_all add: month_index_def y_def[symmetric] Let_def algebra_simps)
qed

lemma month_index_unique: "month_start i \<le> d \<Longrightarrow> d < month_start (i + 1) \<Longrightarrow> month_index d = i"
  using month_index_bounds[of d] month_start_less_iff[of i "month_index d + 1"] month_start_less_iff[of "month_index d" "i + 1"] by linarith

lemma date_of_range: "1 \<le> date_of d" "date_of d \<le> 31"
  using month_index_bounds[of d] month_length_cases[of "month_index d"] by (auto simp: date_of_def month_length_def)

section \<open>Moving a date\<close>

lemma add_months_later: "0 < k \<Longrightarrow> t < add_months k t"
proof -
  assume "0 < k"
  let ?d = "t div MS_PER_DAY"
  have "month_start (month_index ?d) < month_start (month_index ?d + k)" by (rule month_start_less) (use \<open>0 < k\<close> in simp)
  then have "?d + 1 \<le> month_start (month_index ?d + k) + date_of ?d - 1" by (simp add: date_of_def)
  then have "(?d + 1) * MS_PER_DAY \<le> (month_start (month_index ?d + k) + date_of ?d - 1) * MS_PER_DAY"
    by (rule mult_right_mono) (simp add: MS_PER_DAY_def)
  moreover have "t < (?d + 1) * MS_PER_DAY + t mod MS_PER_DAY" by (simp add: MS_PER_DAY_def)
  ultimately show ?thesis by (simp add: add_months_def Let_def)
qed

lemma day_and_time:
  "(e * MS_PER_DAY + t mod MS_PER_DAY) div MS_PER_DAY = e" "(e * MS_PER_DAY + t mod MS_PER_DAY) mod MS_PER_DAY = t mod MS_PER_DAY"
proof -
  have p: "0 < MS_PER_DAY" by (simp add: MS_PER_DAY_def)
  have r: "0 \<le> t mod MS_PER_DAY" "t mod MS_PER_DAY < MS_PER_DAY" using p by simp_all
  show "(e * MS_PER_DAY + t mod MS_PER_DAY) div MS_PER_DAY = e"
    using p r by (simp add: div_add1_eq)
  show "(e * MS_PER_DAY + t mod MS_PER_DAY) mod MS_PER_DAY = t mod MS_PER_DAY" by simp
qed

text \<open>A day that the later month has keeps its number; another one runs over.\<close>

lemma add_months_same_day:
  assumes "date_of (t div MS_PER_DAY) \<le> month_length (month_index (t div MS_PER_DAY) + k)"
  shows "month_index (add_months k t div MS_PER_DAY) = month_index (t div MS_PER_DAY) + k"
    and "date_of (add_months k t div MS_PER_DAY) = date_of (t div MS_PER_DAY)"
    and "add_months k t mod MS_PER_DAY = t mod MS_PER_DAY"
proof -
  let ?d = "t div MS_PER_DAY"
  let ?e = "month_start (month_index ?d + k) + date_of ?d - 1"
  note q = day_and_time[of ?e t]
  have i: "month_index ?e = month_index ?d + k"
    by (rule month_index_unique) (use assms date_of_range(1)[of ?d] in \<open>simp_all add: month_length_def add.assoc\<close>)
  show "month_index (add_months k t div MS_PER_DAY) = month_index ?d + k" "date_of (add_months k t div MS_PER_DAY) = date_of ?d"
    "add_months k t mod MS_PER_DAY = t mod MS_PER_DAY"
    using q i by (simp_all add: add_months_def Let_def date_of_def)
qed

lemma add_months_runs_over:
  assumes "month_length (month_index (t div MS_PER_DAY) + k) < date_of (t div MS_PER_DAY)"
  shows "month_index (add_months k t div MS_PER_DAY) = month_index (t div MS_PER_DAY) + k + 1"
proof -
  let ?d = "t div MS_PER_DAY" and ?i = "month_index (t div MS_PER_DAY) + k"
  let ?e = "month_start ?i + date_of ?d - 1"
  note q = day_and_time(1)[of ?e t]
  have "month_start (?i + 1) \<le> ?e" using assms by (simp add: month_length_def)
  moreover have "?e < month_start (?i + 2)"
    using month_length_cases[of ?i] month_length_cases[of "?i + 1"] date_of_range(2)[of ?d] by (auto simp: month_length_def add.assoc)
  ultimately have "month_index ?e = ?i + 1" by (intro month_index_unique) (simp_all add: add.assoc)
  then show ?thesis using q by (simp add: add_months_def Let_def)
qed

end
