(* ===== verification/Maintenance.thy ===== *)
theory Maintenance
  imports Calendar Ticket_Ops Tenant_Table Sql_Where
begin

text \<open>
  Recurring maintenance (\<open>maintenance/maintenance.service.ts\<close>): plans of a company, the tickets
  generated from them and the runs that complete them. Tickets are those of \<open>Tickets\<close>, created
  by \<open>create_ticket\<close>. A checklist is the list its JSON column holds. Dates of a request are
  times; an \<open>Invalid Date\<close> is \<open>None\<close> where the code checks for it.
\<close>

section \<open>Tables\<close>

record maint_plan =
  mp_id :: string
  mp_companyId :: string
  mp_name :: string
  mp_description :: "string option"
  mp_assetId :: "string option"
  mp_location :: "string option"
  mp_frequency :: string
  mp_intervalDays :: int
  mp_nextDueAt :: int
  mp_lastCompletedAt :: "int option"
  mp_checklist :: "string list"
  mp_title :: "string option"
  mp_text :: "string option"
  mp_assignedToId :: "string option"
  mp_status :: string
  mp_createdById :: string
  mp_updatedAt :: int

record maint_run =
  mr_id :: string
  mr_companyId :: string
  mr_planId :: string
  mr_ticketId :: "string option"
  mr_status :: string
  mr_dueAt :: int
  mr_completedAt :: "int option"
  mr_completedById :: "string option"
  mr_notes :: "string option"

record maint_asset =
  mx_id :: string
  mx_companyId :: string
  mx_name :: string
  mx_live :: bool

record maint_db =
  mt_core :: tstate
  mt_assets :: "maint_asset list"
  mt_plans :: "maint_plan list"
  mt_runs :: "maint_run list"

type_synonym 'a mt = "(maint_db, 'a) act"

definition in_tickets :: "(tstate, 'a) act \<Rightarrow> 'a mt" where
  "in_tickets m s = (let (r, t) = m (mt_core s) in (r, s\<lparr>mt_core := t\<rparr>))"

definition FREQUENCIES :: "string list" where
  "FREQUENCIES = [''WEEKLY'', ''MONTHLY'', ''QUARTERLY'', ''SEMI_ANNUAL'', ''ANNUAL'', ''CUSTOM'']"

definition PLAN_STATUSES :: "string list" where
  "PLAN_STATUSES = [''ACTIVE'', ''PAUSED'', ''ARCHIVED'']"

section \<open>Helpers\<close>

definition next_due_date :: "int \<Rightarrow> string \<Rightarrow> int \<Rightarrow> int" where
  "next_due_date base freq days =
     (if freq = ''WEEKLY'' then add_days 7 base
      else if freq = ''MONTHLY'' then add_months 1 base
      else if freq = ''QUARTERLY'' then add_months 3 base
      else if freq = ''SEMI_ANNUAL'' then add_months 6 base
      else if freq = ''ANNUAL'' then add_months 12 base
      else add_days (max 1 (if days = 0 then 30 else days)) base)"

datatype checklist_input = Items "string list" | Lines string | NoList

fun normalize_checklist :: "checklist_input \<Rightarrow> string list" where
  "normalize_checklist (Items xs) = take 50 (filter (\<lambda>x. x \<noteq> []) (map js_trim xs))"
| "normalize_checklist (Lines x) = take 50 (filter (\<lambda>x. x \<noteq> []) (map js_trim (str_split (CHR 0x0A) x)))"
| "normalize_checklist NoList = []"

definition maint_scope :: "principal \<Rightarrow> string option res" where
  "maint_scope u = scope_for ''recurring maintenance'' u"

definition maint_company :: "principal \<Rightarrow> string option \<Rightarrow> string res" where
  "maint_company u requested =
     (if truthy (p_companyId u) then Inr (or_str (p_companyId u) [])
      else if p_role u = ''SUPER_ADMIN'' \<and> truthy (or_opt (p_effective u) requested)
        then Inr (or_str (or_opt (p_effective u) requested) [])
      else Inl (Forbidden ''Select a company context before changing recurring maintenance''))"

definition assert_asset :: "string \<Rightarrow> string \<Rightarrow> maint_db \<Rightarrow> unit res" where
  "assert_asset c i s = (if list_ex (\<lambda>a. mx_id a = i \<and> mx_companyId a = c \<and> mx_live a) (mt_assets s) then Inr ()
     else Inl (BadRequest ''Asset is not available for this company''))"

definition assert_user :: "string \<Rightarrow> string \<Rightarrow> maint_db \<Rightarrow> unit res" where
  "assert_user c i s = (if list_ex (\<lambda>u. u_id u = i \<and> u_companyId u = Some c \<and> u_deletedAt u = None) (people (mt_core s)) then Inr ()
     else Inl (BadRequest ''Assigned user is not available for this company''))"

definition assert_run :: "string \<Rightarrow> string \<Rightarrow> string \<Rightarrow> maint_db \<Rightarrow> unit res" where
  "assert_run c planId i s = (if list_ex (\<lambda>r. mr_id r = i \<and> mr_planId r = planId \<and> mr_companyId r = c) (mt_runs s) then Inr ()
     else Inl (NotFound ''Maintenance run not found''))"

definition get_plan :: "principal \<Rightarrow> string \<Rightarrow> maint_plan mt" where
  "get_plan u i =
     bindE (of_res (maint_scope u)) (\<lambda>scope.
     bindE (reads (\<lambda>s. scoped_find mp_id mp_companyId scope i (mt_plans s))) (\<lambda>found.
     case found of None \<Rightarrow> raise (NotFound ''Maintenance plan not found'') | Some p \<Rightarrow> ret p))"

definition user_contact :: "string \<Rightarrow> tstate \<Rightarrow> string \<times> string \<times> string" where
  "user_contact i s =
     (let u = find (\<lambda>u. u_id u = i) (people s);
          email = (case u of None \<Rightarrow> ''maintenance@fieldserviceit.local'' | Some x \<Rightarrow> or_str (Some (u_email x)) ''maintenance@fieldserviceit.local'') in
      (or_str (Some (case u of None \<Rightarrow> [] | Some x \<Rightarrow> full_name x)) email, email,
       case u of None \<Rightarrow> ''N/A'' | Some x \<Rightarrow> or_str (u_phone x) ''N/A''))"

definition asset_name :: "string option \<Rightarrow> maint_db \<Rightarrow> string" where
  "asset_name i s = (case find (\<lambda>a. Some (mx_id a) = i) (mt_assets s) of None \<Rightarrow> [] | Some a \<Rightarrow> mx_name a)"

definition ticket_description :: "maint_plan \<Rightarrow> string \<Rightarrow> string" where
  "ticket_description p asset =
     str_join [CHR 0x0A, CHR 0x0A] (filter (\<lambda>x. x \<noteq> [])
       [or_str (mp_text p) (or_str (mp_description p) (''Recurring maintenance generated for '' @ mp_name p @ ''.'')),
        if asset = [] then [] else ''Asset: '' @ asset,
        if truthy (mp_location p) then ''Location: '' @ or_str (mp_location p) [] else [],
        if mp_checklist p = [] then [] else ''Checklist:'' @ [CHR 0x0A] @ str_join [CHR 0x0A] (map (\<lambda>x. ''- '' @ x) (mp_checklist p))])"

section \<open>Plans\<close>

record plan_dto =
  qd_companyId :: "string option"
  qd_name :: patch
  qd_description :: patch
  qd_assetId :: patch
  qd_location :: patch
  qd_frequency :: patch
  qd_intervalDays :: "int option"
  qd_nextDueAt :: "int option option"
  qd_checklist :: "checklist_input option"
  qd_title :: patch
  qd_text :: patch
  qd_assignedToId :: patch
  qd_status :: patch

text \<open>What \<open>normalizePlan\<close> returns; \<open>None\<close> and \<open>Absent\<close> are \<open>undefined\<close>.\<close>

record plan_data =
  nd_name :: "string option"
  nd_description :: patch
  nd_assetId :: patch
  nd_location :: patch
  nd_frequency :: "string option"
  nd_intervalDays :: "int option"
  nd_nextDueAt :: "int option"
  nd_checklist :: "string list option"
  nd_title :: patch
  nd_text :: patch
  nd_assignedToId :: patch
  nd_status :: "string option"

definition given :: "patch \<Rightarrow> string" where
  "given p = or_str (patch_opt p) []"

fun null_patch :: "patch \<Rightarrow> patch" where
  "null_patch (Given x) = (if x = [] then Nulled else Given x)"
| "null_patch p = p"

definition option_of :: "patch \<Rightarrow> string \<Rightarrow> string list \<Rightarrow> string \<Rightarrow> bool \<Rightarrow> string option res" where
  "option_of p standard allowed label required =
     (if p = Absent then Inr (if required then Some standard else None)
      else case normalize_option (or_str (patch_opt p) standard) allowed label of Inl e \<Rightarrow> Inl e | Inr x \<Rightarrow> Inr (Some x))"

definition plan_interval :: "string option \<Rightarrow> plan_dto \<Rightarrow> bool \<Rightarrow> int option" where
  "plan_interval freq d required =
     (if freq = Some ''CUSTOM'' then Some (max 1 (case qd_intervalDays d of None \<Rightarrow> 30 | Some n \<Rightarrow> if n = 0 then 30 else n))
      else case qd_intervalDays d of Some n \<Rightarrow> Some (max 0 n) | None \<Rightarrow> if required then Some 0 else None)"

definition plan_due :: "world \<Rightarrow> string option \<Rightarrow> int option \<Rightarrow> plan_dto \<Rightarrow> bool \<Rightarrow> int option res" where
  "plan_due w freq interval d required =
     (case qd_nextDueAt d of
        Some (Some t) \<Rightarrow> Inr (Some t)
      | Some None \<Rightarrow> Inl (BadRequest ''Next due date is required'')
      | None \<Rightarrow> Inr (if required then Some (next_due_date (now w) (or_str freq ''MONTHLY'') (case interval of None \<Rightarrow> 0 | Some n \<Rightarrow> n)) else None))"

definition plan_checklist :: "plan_dto \<Rightarrow> bool \<Rightarrow> string list option" where
  "plan_checklist d required = (case qd_checklist d of Some x \<Rightarrow> Some (normalize_checklist x) | None \<Rightarrow> if required then Some [] else None)"

definition normalize_plan :: "world \<Rightarrow> string \<Rightarrow> plan_dto \<Rightarrow> bool \<Rightarrow> plan_data mt" where
  "normalize_plan w c d required =
     (let name = js_trim (given (qd_name d)) in
      bindE (guard (\<not> (required \<and> name = [])) (BadRequest ''Plan name is required'')) (\<lambda>_.
      bindE (of_res (option_of (qd_frequency d) ''MONTHLY'' FREQUENCIES ''frequency'' required)) (\<lambda>freq.
      let interval = plan_interval freq d required in
      bindE (of_res (plan_due w freq interval d required)) (\<lambda>due.
      let asset = null_patch (qd_assetId d); assignee = null_patch (qd_assignedToId d) in
      bindE (if patch_truthy asset then bindE (reads (assert_asset c (given asset))) of_res else ret ()) (\<lambda>_.
      bindE (if patch_truthy assignee then bindE (reads (assert_user c (given assignee))) of_res else ret ()) (\<lambda>_.
      bindE (of_res (option_of (qd_status d) ''ACTIVE'' PLAN_STATUSES ''status'' required)) (\<lambda>status.
      ret \<lparr>nd_name = (if name = [] then None else Some name), nd_description = trim_patch (qd_description d), nd_assetId = asset,
        nd_location = trim_patch (qd_location d), nd_frequency = freq, nd_intervalDays = interval, nd_nextDueAt = due,
        nd_checklist = plan_checklist d required,
        nd_title = trim_patch (qd_title d), nd_text = trim_patch (qd_text d), nd_assignedToId = assignee, nd_status = status\<rparr>)))))))"

definition plan_row :: "world \<Rightarrow> string \<Rightarrow> string \<Rightarrow> string \<Rightarrow> plan_data \<Rightarrow> maint_plan" where
  "plan_row w i c userId d =
     \<lparr>mp_id = i, mp_companyId = c, mp_name = or_str (nd_name d) [], mp_description = patch_opt (nd_description d),
      mp_assetId = patch_opt (nd_assetId d), mp_location = patch_opt (nd_location d), mp_frequency = or_str (nd_frequency d) ''MONTHLY'',
      mp_intervalDays = (case nd_intervalDays d of None \<Rightarrow> 0 | Some n \<Rightarrow> n), mp_nextDueAt = (case nd_nextDueAt d of None \<Rightarrow> now w | Some t \<Rightarrow> t),
      mp_lastCompletedAt = None, mp_checklist = (case nd_checklist d of None \<Rightarrow> [] | Some xs \<Rightarrow> xs), mp_title = patch_opt (nd_title d),
      mp_text = patch_opt (nd_text d), mp_assignedToId = patch_opt (nd_assignedToId d), mp_status = or_str (nd_status d) ''ACTIVE'',
      mp_createdById = userId, mp_updatedAt = now w\<rparr>"

definition create_plan :: "world \<Rightarrow> principal \<Rightarrow> plan_dto \<Rightarrow> maint_plan mt" where
  "create_plan w u d =
     bindE (of_res (maint_company u (qd_companyId d))) (\<lambda>c.
     bindE (normalize_plan w c d True) (\<lambda>x.
     bindE (in_tickets (draw w)) (\<lambda>i.
     bindE (reads (\<lambda>s. i \<in> mp_id ` set (mt_plans s))) (\<lambda>taken.
     bindE (guard (\<not> taken) (ServerError ''duplicate entry'')) (\<lambda>_.
     bindE (writes (\<lambda>s. s\<lparr>mt_plans := mt_plans s @ [plan_row w i c (p_id u) x]\<rparr>)) (\<lambda>_.
     get_plan u i))))))"

definition patched_plan :: "int \<Rightarrow> plan_data \<Rightarrow> maint_plan \<Rightarrow> maint_plan" where
  "patched_plan t d p = p\<lparr>
     mp_name := (case nd_name d of None \<Rightarrow> mp_name p | Some x \<Rightarrow> x),
     mp_description := patched (nd_description d) (mp_description p),
     mp_assetId := patched (nd_assetId d) (mp_assetId p),
     mp_location := patched (nd_location d) (mp_location p),
     mp_frequency := (case nd_frequency d of None \<Rightarrow> mp_frequency p | Some x \<Rightarrow> x),
     mp_intervalDays := (case nd_intervalDays d of None \<Rightarrow> mp_intervalDays p | Some x \<Rightarrow> x),
     mp_nextDueAt := (case nd_nextDueAt d of None \<Rightarrow> mp_nextDueAt p | Some x \<Rightarrow> x),
     mp_checklist := (case nd_checklist d of None \<Rightarrow> mp_checklist p | Some x \<Rightarrow> x),
     mp_title := patched (nd_title d) (mp_title p),
     mp_text := patched (nd_text d) (mp_text p),
     mp_assignedToId := patched (nd_assignedToId d) (mp_assignedToId p),
     mp_status := (case nd_status d of None \<Rightarrow> mp_status p | Some x \<Rightarrow> x),
     mp_updatedAt := t\<rparr>"

definition write_plan :: "string \<Rightarrow> string \<Rightarrow> (maint_plan \<Rightarrow> maint_plan) \<Rightarrow> unit mt" where
  "write_plan i c f = writes (\<lambda>s. s\<lparr>mt_plans := scoped_write mp_id mp_companyId i c f (mt_plans s)\<rparr>)"

definition update_plan :: "world \<Rightarrow> principal \<Rightarrow> string \<Rightarrow> plan_dto \<Rightarrow> maint_plan mt" where
  "update_plan w u i d =
     bindE (get_plan u i) (\<lambda>p.
     bindE (of_res (maint_company u (Some (mp_companyId p)))) (\<lambda>c.
     bindE (normalize_plan w c d False) (\<lambda>x.
     bindE (write_plan i c (patched_plan (now w) x)) (\<lambda>_.
     get_plan u i))))"

section \<open>Tickets and runs\<close>

record ticket_request =
  tq_title :: "string option"
  tq_description :: "string option"
  tq_priority :: "string option"
  tq_dueAt :: "int option"
  tq_notes :: "string option"

definition plan_ticket :: "maint_plan \<Rightarrow> string \<times> string \<times> string \<Rightarrow> string \<Rightarrow> ticket_request \<Rightarrow> create_dto" where
  "plan_ticket p contact asset d = (case contact of (name, email, phone) \<Rightarrow>
     \<lparr>c_title = or_str (trim_or_null (tq_title d)) (or_str (mp_title p) (''Maintenance: '' @ mp_name p)),
      c_description = Some (or_str (trim_or_null (tq_description d)) (ticket_description p asset)),
      c_contactName = name, c_contactEmail = email, c_contactPhone = phone, c_category = Some ''Maintenance'',
      c_subcategory = Some (mp_frequency p), c_location = or_null (mp_location p),
      c_priority = Some (or_str (tq_priority d) ''MEDIUM''), c_type = Some ''CHANGE'', c_assetId = or_null (mp_assetId p), c_slaId = None\<rparr>)"

definition insert_run :: "maint_run \<Rightarrow> unit mt" where
  "insert_run r =
     bindE (reads (\<lambda>s. mr_id r \<in> mr_id ` set (mt_runs s))) (\<lambda>taken.
     bindE (guard (\<not> taken) (ServerError ''duplicate entry'')) (\<lambda>_.
     writes (\<lambda>s. s\<lparr>mt_runs := mt_runs s @ [r]\<rparr>)))"

definition assign_from_plan :: "world \<Rightarrow> maint_plan \<Rightarrow> string \<Rightarrow> string \<Rightarrow> string \<Rightarrow> unit mt" where
  "assign_from_plan w p c ticketId userId =
     in_tickets (
       bindE (writes (\<lambda>s. s\<lparr>tickets := map (\<lambda>t. if t_id t = ticketId \<and> t_companyId t = Some c
         then t\<lparr>t_assignedToId := mp_assignedToId p, t_status := Some ''ASSIGNED''\<rparr> else t) (tickets s)\<rparr>)) (\<lambda>_.
       bindE (add_entry w ticketId userId ''ASSIGNED'' (Text (''Assigned from recurring maintenance plan '' @ mp_name p)) None None True) (\<lambda>_.
       participant_notify ticketId ''Ticket assigned from maintenance plan'' (Some (''Maintenance plan: '' @ mp_name p)) (Some userId) None [])))"

text \<open>\<open>token\<close> is the tracking token of the new ticket.\<close>

definition generate_ticket :: "world \<Rightarrow> string \<Rightarrow> principal \<Rightarrow> string \<Rightarrow> ticket_request \<Rightarrow> (ticket \<times> string) mt" where
  "generate_ticket w token u i d =
     bindE (get_plan u i) (\<lambda>p.
     bindE (of_res (maint_company u (Some (mp_companyId p)))) (\<lambda>c.
     bindE (guard (mp_status p = ''ACTIVE'') (BadRequest ''Only active maintenance plans can generate tickets'')) (\<lambda>_.
     bindE (reads (\<lambda>s. plan_ticket p (user_contact (p_id u) (mt_core s)) (asset_name (mp_assetId p) s) d)) (\<lambda>payload.
     bindE (in_tickets (create_ticket w token payload (Some c) (p_id u) (p_userType u))) (\<lambda>t.
     bindE (if truthy (mp_assignedToId p) then assign_from_plan w p c (t_id t) (p_id u) else ret ()) (\<lambda>_.
     bindE (in_tickets (draw w)) (\<lambda>r.
     bindE (insert_run \<lparr>mr_id = r, mr_companyId = c, mr_planId = mp_id p, mr_ticketId = Some (t_id t), mr_status = ''SCHEDULED'',
       mr_dueAt = (case tq_dueAt d of Some x \<Rightarrow> x | None \<Rightarrow> mp_nextDueAt p), mr_completedAt = None, mr_completedById = None,
       mr_notes = trim_or_null (tq_notes d)\<rparr>) (\<lambda>_.
     ret (t, r)))))))))"

record completion =
  cm_completedAt :: "int option"
  cm_nextDueAt :: "int option"
  cm_runId :: "string option"
  cm_ticketId :: "string option"
  cm_notes :: "string option"

definition close_run :: "string \<Rightarrow> string \<Rightarrow> int \<Rightarrow> string \<Rightarrow> string option \<Rightarrow> unit mt" where
  "close_run i c t userId notes = writes (\<lambda>s. s\<lparr>mt_runs := scoped_write mr_id mr_companyId i c
     (\<lambda>r. r\<lparr>mr_status := ''COMPLETED'', mr_completedAt := Some t, mr_completedById := Some userId, mr_notes := notes\<rparr>) (mt_runs s)\<rparr>)"

definition pending_run :: "string \<Rightarrow> string \<Rightarrow> maint_db \<Rightarrow> maint_run option" where
  "pending_run c planId s =
     (case sort_key mr_dueAt (filter (\<lambda>r. mr_companyId r = c \<and> mr_planId r = planId \<and> mr_status r \<in> {''DUE'', ''SCHEDULED''}) (mt_runs s)) of
        [] \<Rightarrow> None | r # _ \<Rightarrow> Some r)"

text \<open>The run named in the request, else the pending one that is due first, else a new one.\<close>

definition settle_run :: "world \<Rightarrow> maint_plan \<Rightarrow> string \<Rightarrow> int \<Rightarrow> string \<Rightarrow> completion \<Rightarrow> string mt" where
  "settle_run w p c t userId d =
     (let notes = trim_or_null (cm_notes d) in
      if truthy (cm_runId d) then
        bindE (bindE (reads (assert_run c (mp_id p) (or_str (cm_runId d) []))) of_res) (\<lambda>_.
        bindE (close_run (or_str (cm_runId d) []) c t userId notes) (\<lambda>_. ret (or_str (cm_runId d) [])))
      else bindE (reads (pending_run c (mp_id p))) (\<lambda>pending.
        case pending of
          Some r \<Rightarrow> bindE (close_run (mr_id r) c t userId notes) (\<lambda>_. ret (mr_id r))
        | None \<Rightarrow> bindE (in_tickets (draw w)) (\<lambda>r.
            bindE (insert_run \<lparr>mr_id = r, mr_companyId = c, mr_planId = mp_id p, mr_ticketId = or_null (cm_ticketId d), mr_status = ''COMPLETED'',
              mr_dueAt = mp_nextDueAt p, mr_completedAt = Some t, mr_completedById = Some userId, mr_notes = notes\<rparr>) (\<lambda>_. ret r))))"

definition complete_plan :: "world \<Rightarrow> principal \<Rightarrow> string \<Rightarrow> completion \<Rightarrow> (maint_plan \<times> string) mt" where
  "complete_plan w u i d =
     bindE (get_plan u i) (\<lambda>p.
     bindE (of_res (maint_company u (Some (mp_companyId p)))) (\<lambda>c.
     let t = (case cm_completedAt d of Some x \<Rightarrow> x | None \<Rightarrow> now w);
         due = (case cm_nextDueAt d of Some x \<Rightarrow> x | None \<Rightarrow> next_due_date t (mp_frequency p) (mp_intervalDays p)) in
     bindE (settle_run w p c t (p_id u) d) (\<lambda>r.
     bindE (write_plan (mp_id p) c (\<lambda>x. x\<lparr>mp_lastCompletedAt := Some t, mp_nextDueAt := due, mp_updatedAt := now w\<rparr>)) (\<lambda>_.
     bindE (get_plan u (mp_id p)) (\<lambda>x. ret (x, r))))))"

section \<open>Views\<close>

definition plan_in_scope :: "string option \<Rightarrow> string \<Rightarrow> bool" where
  "plan_in_scope scope c \<longleftrightarrow> (case scope of None \<Rightarrow> True | Some x \<Rightarrow> c = x)"

record maint_summary =
  sy_active :: nat
  sy_paused :: nat
  sy_overdue :: nat
  sy_dueSoon :: nat
  sy_completedThisMonth :: nat
  sy_openTickets :: nat

definition maint_summary_of :: "int \<Rightarrow> principal \<Rightarrow> maint_db \<Rightarrow> maint_summary res" where
  "maint_summary_of t u s =
     (case maint_scope u of Inl e \<Rightarrow> Inl e
      | Inr scope \<Rightarrow>
        (let ps = filter (\<lambda>p. plan_in_scope scope (mp_companyId p)) (mt_plans s);
             rs = filter (\<lambda>r. plan_in_scope scope (mr_companyId r)) (mt_runs s);
             count = (\<lambda>f. length (filter f ps)) in
         Inr \<lparr>sy_active = count (\<lambda>p. mp_status p = ''ACTIVE''), sy_paused = count (\<lambda>p. mp_status p = ''PAUSED''),
           sy_overdue = count (\<lambda>p. mp_status p = ''ACTIVE'' \<and> mp_nextDueAt p < t),
           sy_dueSoon = count (\<lambda>p. mp_status p = ''ACTIVE'' \<and> t \<le> mp_nextDueAt p \<and> mp_nextDueAt p \<le> add_days 14 t),
           sy_completedThisMonth = length (filter (\<lambda>r. mr_status r = ''COMPLETED''
             \<and> (case mr_completedAt r of None \<Rightarrow> False | Some x \<Rightarrow> x \<ge> month_begin t)) rs),
           sy_openTickets = length (filter (\<lambda>r. mr_ticketId r \<noteq> None
             \<and> list_ex (\<lambda>x. Some (t_id x) = mr_ticketId r \<and> t_status x \<noteq> None \<and> t_status x \<noteq> Some ''RESOLVED'' \<and> t_status x \<noteq> Some ''CLOSED'')
                 (tickets (mt_core s))) rs)\<rparr>))"

definition like_hit :: "string \<Rightarrow> string option \<Rightarrow> bool" where
  "like_hit q x = (case x of None \<Rightarrow> False | Some v \<Rightarrow> like_match (js_lower (''%'' @ js_trim q @ ''%'')) (js_lower v))"

text \<open>\<open>perPage\<close> is \<open>Number(limit) || 100\<close>; overdue active plans come first.\<close>

definition list_plans :: "int \<Rightarrow> principal \<Rightarrow> string option \<Rightarrow> string option \<Rightarrow> int \<Rightarrow> maint_db \<Rightarrow> maint_plan list res" where
  "list_plans t u status search perPage s =
     (case maint_scope u of Inl e \<Rightarrow> Inl e
      | Inr scope \<Rightarrow>
        (case (if truthy status \<and> status \<noteq> Some ''ALL'' then normalize_option (or_str status []) PLAN_STATUSES ''status'' else Inr []) of Inl e \<Rightarrow> Inl e
         | Inr st \<Rightarrow>
           (let hits = (\<lambda>p. if truthy search then like_hit (or_str search []) (Some (mp_name p)) \<or> like_hit (or_str search []) (mp_description p)
                  \<or> like_hit (or_str search []) (mp_location p) \<or> like_hit (or_str search []) (Some (asset_name (mp_assetId p) s)) else True);
                ps = filter (\<lambda>p. plan_in_scope scope (mp_companyId p) \<and> (st = [] \<or> mp_status p = st) \<and> hits p) (mt_plans s);
                ordered = sort_key (\<lambda>p. if mp_status p = ''ACTIVE'' \<and> mp_nextDueAt p < t then 0 else 1 :: nat)
                  (sort_key mp_nextDueAt (sort_key (\<lambda>p. - mp_updatedAt p) ps)) in
            Inr (take (nat (min (max perPage 1) 200)) ordered))))"

record suggestion =
  sg_name :: string
  sg_assetId :: "string option"
  sg_category :: string
  sg_count :: nat
  sg_frequency :: string
  sg_confidence :: nat

definition suggestion_groups :: "ticket list \<Rightarrow> (string option \<times> string) list" where
  "suggestion_groups ts = remdups (map (\<lambda>t. (t_assetId t, or_str (t_category t) ''General'')) ts)"

definition resolved_time :: "ticket \<Rightarrow> int" where
  "resolved_time t = (case t_resolvedAt t of None \<Rightarrow> 0 | Some x \<Rightarrow> x)"

definition suggest_plans :: "int \<Rightarrow> principal \<Rightarrow> maint_db \<Rightarrow> suggestion list res" where
  "suggest_plans t u s =
     (case maint_scope u of Inl e \<Rightarrow> Inl e
      | Inr scope \<Rightarrow>
        (let ts = filter (\<lambda>x. (case scope of None \<Rightarrow> True | Some c \<Rightarrow> t_companyId x = Some c) \<and> t_deletedAt x = None
               \<and> t_status x \<in> {Some ''RESOLVED'', Some ''CLOSED''} \<and> (case t_resolvedAt x of None \<Rightarrow> False | Some r \<Rightarrow> add_days (- 180) t \<le> r)) (tickets (mt_core s));
             of_group = (\<lambda>g. filter (\<lambda>x. (t_assetId x, or_str (t_category x) ''General'') = g) ts);
             latest = (\<lambda>g. Max (set (map resolved_time (of_group g))));
             gs = filter (\<lambda>g. 2 \<le> length (of_group g)) (suggestion_groups ts);
             ordered = take 25 (sort_key (\<lambda>g. - int (length (of_group g))) (sort_key (\<lambda>g. - latest g) gs)) in
         Inr (map (\<lambda>g. let n = length (of_group g) in
           \<lparr>sg_name = or_str (Some (asset_name (fst g) s)) (snd g) @ '' preventive maintenance'', sg_assetId = fst g, sg_category = snd g,
            sg_count = n, sg_frequency = (if 4 \<le> n then ''MONTHLY'' else ''QUARTERLY''), sg_confidence = min 95 (45 + n * 12)\<rparr>) ordered)))"

end
