(* ===== verification/Maintenance_Props.thy ===== *)
theory Maintenance_Props
  imports Maintenance
begin

text \<open>
  Properties of recurring maintenance: the tables stay well formed, the next due date lies
  ahead and keeps the day of the month where the month has it, completing settles the run that
  is due first, and a company's callers leave the plans and runs of others alone.
\<close>

section \<open>The machine\<close>

datatype maint_call =
    MCreate world principal plan_dto
  | MUpdate world principal string plan_dto
  | MGenerate world string principal string ticket_request
  | MComplete world principal string completion

fun maint_step :: "maint_call \<Rightarrow> maint_db \<Rightarrow> maint_db" where
  "maint_step (MCreate w u d) s = snd (create_plan w u d s)"
| "maint_step (MUpdate w u i d) s = snd (update_plan w u i d s)"
| "maint_step (MGenerate w k u i d) s = snd (generate_ticket w k u i d s)"
| "maint_step (MComplete w u i d) s = snd (complete_plan w u i d s)"

fun maint_actor :: "maint_call \<Rightarrow> principal" where
  "maint_actor (MCreate w u d) = u"
| "maint_actor (MUpdate w u i d) = u"
| "maint_actor (MGenerate w k u i d) = u"
| "maint_actor (MComplete w u i d) = u"

section \<open>The plan a call works on\<close>

lemma company_agrees:
  assumes "maint_scope u = Inr scope" "scoped_find mp_id mp_companyId scope i (mt_plans s) = Some p"
    and "maint_company u (Some (mp_companyId p)) = Inr c"
  shows "c = mp_companyId p"
  using assms scoped_findD[OF assms(2)]
  by (auto simp: maint_scope_def scope_for_def maint_company_def or_opt_def or_str_def truthy_def split: if_splits option.splits)

lemma reach_plan:
  assumes "J s" and "\<And>p c. p \<in> set (mt_plans s) \<Longrightarrow> mp_id p = i \<Longrightarrow> mp_companyId p = c \<Longrightarrow> maint_company u (Some c) = Inr c \<Longrightarrow> J (snd (g p c s))"
  shows "J (snd (bindE (get_plan u i) (\<lambda>p. bindE (of_res (maint_company u (Some (mp_companyId p)))) (g p)) s))"
proof (cases "maint_scope u")
  case (Inl e)
  then show ?thesis using assms(1) by (simp add: get_plan_def act_simps)
next
  case (Inr scope)
  show ?thesis
  proof (cases "scoped_find mp_id mp_companyId scope i (mt_plans s)")
    case None
    with Inr show ?thesis using assms(1) by (simp add: get_plan_def act_simps)
  next
    case (Some p)
    show ?thesis
    proof (cases "maint_company u (Some (mp_companyId p))")
      case (Inl e)
      with Inr Some show ?thesis using assms(1) by (simp add: get_plan_def act_simps)
    next
      case c: (Inr c)
      have "c = mp_companyId p" by (rule company_agrees[OF Inr Some c])
      with assms(2)[of p c] scoped_findD[OF Some] c Inr Some show ?thesis by (simp add: get_plan_def act_simps)
    qed
  qed
qed

lemma readonly_get_plan: "keeps J (get_plan u i)"
  unfolding get_plan_def by (intro keeps_intros)

section \<open>Well-formed tables\<close>

definition plan_ok :: "maint_plan \<Rightarrow> bool" where
  "plan_ok p \<longleftrightarrow> mp_name p \<noteq> [] \<and> mp_frequency p \<in> set FREQUENCIES \<and> mp_status p \<in> set PLAN_STATUSES \<and> 0 \<le> mp_intervalDays p
     \<and> length (mp_checklist p) \<le> 50 \<and> [] \<notin> set (mp_checklist p)"

definition home :: "string \<Rightarrow> string \<Rightarrow> maint_plan list \<Rightarrow> bool" where
  "home i c ps \<longleftrightarrow> list_ex (\<lambda>p. mp_id p = i \<and> mp_companyId p = c) ps"

definition run_ok :: "maint_plan list \<Rightarrow> maint_run \<Rightarrow> bool" where
  "run_ok ps r \<longleftrightarrow> mr_status r \<in> {''SCHEDULED'', ''COMPLETED''} \<and> (mr_completedAt r \<noteq> None \<longleftrightarrow> mr_status r = ''COMPLETED'')
     \<and> home (mr_planId r) (mr_companyId r) ps"

definition schedule_ok :: "maint_db \<Rightarrow> bool" where
  "schedule_ok s \<longleftrightarrow> distinct (map mp_id (mt_plans s)) \<and> distinct (map mr_id (mt_runs s))
     \<and> (\<forall>p \<in> set (mt_plans s). plan_ok p) \<and> (\<forall>r \<in> set (mt_runs s). run_ok (mt_plans s) r)"

definition data_ok :: "bool \<Rightarrow> plan_data \<Rightarrow> bool" where
  "data_ok required d \<longleftrightarrow> nd_name d \<noteq> Some [] \<and> (required \<longrightarrow> nd_name d \<noteq> None)
     \<and> (nd_frequency d = None \<or> the (nd_frequency d) \<in> set FREQUENCIES) \<and> (nd_status d = None \<or> the (nd_status d) \<in> set PLAN_STATUSES)
     \<and> (nd_intervalDays d = None \<or> 0 \<le> the (nd_intervalDays d))
     \<and> (nd_checklist d = None \<or> length (the (nd_checklist d)) \<le> 50 \<and> [] \<notin> set (the (nd_checklist d)))"

lemma checklist_ok: "length (normalize_checklist x) \<le> 50 \<and> [] \<notin> set (normalize_checklist x)"
  by (cases x) (auto dest: in_set_takeD)

lemma option_ok: "option_of p y allowed l b = Inr (Some x) \<Longrightarrow> y \<in> set allowed \<Longrightarrow> x \<in> set allowed"
  by (auto simp: option_of_def normalize_option_def split: if_splits sum.splits)

lemma normalize_runs:
  assumes "normalize_plan w c d b s = (Inr x, s')"
  shows "s' = s \<and> data_ok b x"
proof -
  obtain f where f: "option_of (qd_frequency d) ''MONTHLY'' FREQUENCIES ''frequency'' b = Inr f"
    using assms unfolding normalize_plan_def Let_def
    by (cases "option_of (qd_frequency d) ''MONTHLY'' FREQUENCIES ''frequency'' b") (auto simp: act_simps split: if_splits)
  obtain st where st: "option_of (qd_status d) ''ACTIVE'' PLAN_STATUSES ''status'' b = Inr st"
    using assms unfolding normalize_plan_def Let_def
    by (cases "option_of (qd_status d) ''ACTIVE'' PLAN_STATUSES ''status'' b") (auto simp: act_simps f split: if_splits sum.splits)
  have fields: "s' = s \<and> nd_name x \<noteq> Some [] \<and> (b \<longrightarrow> nd_name x \<noteq> None) \<and> nd_frequency x = f \<and> nd_status x = st
      \<and> nd_intervalDays x = plan_interval f d b \<and> nd_checklist x = plan_checklist d b"
    using assms unfolding normalize_plan_def Let_def
    apply (elim bindE_InrE)
    apply (simp only: f st of_res_eval ret_eval guard_eval)
    apply (auto simp: reads_eval ret_eval of_res_eval split: if_split_asm elim!: bindE_InrE)
    done
  moreover have "f = None \<or> the f \<in> set FREQUENCIES"
  proof (cases f)
    case (Some y)
    have "''MONTHLY'' \<in> set FREQUENCIES" by (simp add: FREQUENCIES_def)
    from option_ok[OF f[unfolded Some] this] Some show ?thesis by simp
  qed simp
  moreover have "st = None \<or> the st \<in> set PLAN_STATUSES"
  proof (cases st)
    case (Some y)
    have "''ACTIVE'' \<in> set PLAN_STATUSES" by (simp add: PLAN_STATUSES_def)
    from option_ok[OF st[unfolded Some] this] Some show ?thesis by simp
  qed simp
  moreover have "plan_interval f d b = None \<or> 0 \<le> the (plan_interval f d b)"
    by (auto simp: plan_interval_def split: option.splits)
  moreover have "plan_checklist d b = None \<or> length (the (plan_checklist d b)) \<le> 50 \<and> [] \<notin> set (the (plan_checklist d b))"
    using checklist_ok by (auto simp: plan_checklist_def split: option.splits)
  ultimately show ?thesis
    unfolding data_ok_def by (elim conjE) (simp only: simp_thms)
qed

definition plan_settled :: "string \<Rightarrow> string \<Rightarrow> maint_db \<Rightarrow> bool" where
  "plan_settled i c s \<longleftrightarrow> schedule_ok s \<and> home i c (mt_plans s)"

lemma in_tickets_keeps: "(\<And>s t. J (s\<lparr>mt_core := t\<rparr>) = J s) \<Longrightarrow> keeps J (in_tickets m)"
  by (rule keepsI) (simp add: in_tickets_def split: prod.splits)

lemma settled_tickets: "keeps (plan_settled i c) (in_tickets m)"
  by (rule in_tickets_keeps) (simp add: plan_settled_def schedule_ok_def)

lemma ok_tickets: "keeps schedule_ok (in_tickets m)"
  by (rule in_tickets_keeps) (simp add: schedule_ok_def)

lemma home_write:
  assumes "\<And>p. mp_id (f p) = mp_id p" "\<And>p. mp_companyId (f p) = mp_companyId p"
  shows "home i c (scoped_write mp_id mp_companyId j k f ps) = home i c ps"
  using assms by (induction ps) (auto simp: home_def scoped_write_def)

lemma ok_write_plan:
  assumes "\<And>p. mp_id (f p) = mp_id p" "\<And>p. mp_companyId (f p) = mp_companyId p" "\<And>p. plan_ok p \<Longrightarrow> plan_ok (f p)"
  shows "keeps schedule_ok (write_plan j k f)"
proof (rule keepsI)
  fix s :: maint_db assume s: "schedule_ok s"
  let ?ps = "scoped_write mp_id mp_companyId j k f (mt_plans s)"
  have "map mp_id ?ps = map mp_id (mt_plans s)" using assms(1) by (simp add: scoped_write_def)
  moreover have "\<forall>p \<in> set ?ps. plan_ok p" using s assms(3) by (auto simp: scoped_write_def schedule_ok_def)
  moreover have "run_ok ?ps r = run_ok (mt_plans s) r" for r by (simp add: run_ok_def home_write[OF assms(1,2)])
  ultimately show "schedule_ok (snd (write_plan j k f s))" using s by (simp add: schedule_ok_def write_plan_def act_simps)
qed

lemma ok_close_run: "keeps schedule_ok (close_run j k t u n)"
proof (rule keepsI)
  fix s :: maint_db assume s: "schedule_ok s"
  let ?rs = "scoped_write mr_id mr_companyId j k (\<lambda>r. r\<lparr>mr_status := ''COMPLETED'', mr_completedAt := Some t, mr_completedById := Some u, mr_notes := n\<rparr>) (mt_runs s)"
  have "map mr_id ?rs = map mr_id (mt_runs s)" by (simp add: scoped_write_def)
  moreover have "\<forall>r \<in> set ?rs. run_ok (mt_plans s) r" using s by (auto simp: schedule_ok_def scoped_write_def run_ok_def)
  ultimately show "schedule_ok (snd (close_run j k t u n s))" using s by (simp add: schedule_ok_def close_run_def act_simps)
qed

lemma settled_close_run: "keeps (plan_settled i c) (close_run j k t u n)"
proof (rule keepsI)
  fix s :: maint_db assume "plan_settled i c s"
  then show "plan_settled i c (snd (close_run j k t u n s))"
    using ok_close_run by (auto simp: plan_settled_def keeps_def) (simp add: close_run_def act_simps)
qed

lemma settled_insert_run:
  assumes "mr_planId r = i" "mr_companyId r = c" "mr_status r \<in> {''SCHEDULED'', ''COMPLETED''}"
    "mr_completedAt r \<noteq> None \<longleftrightarrow> mr_status r = ''COMPLETED''"
  shows "keeps (plan_settled i c) (insert_run r)"
  using assms by (intro keepsI) (auto simp: plan_settled_def schedule_ok_def insert_run_def act_simps run_ok_def)

lemma ok_patched: "data_ok False x \<Longrightarrow> plan_ok p \<Longrightarrow> plan_ok (patched_plan t x p)"
  by (cases "nd_name x"; cases "nd_frequency x"; cases "nd_status x"; cases "nd_intervalDays x"; cases "nd_checklist x")
    (simp_all add: data_ok_def plan_ok_def patched_plan_def)

lemma ok_row: "data_ok True x \<Longrightarrow> plan_ok (plan_row w i c u x)"
proof -
  assume x: "data_ok True x"
  have s: "or_str a y \<in> A" if "a = None \<or> the a \<in> A" "y \<in> A" for a y A using that by (cases a) (auto simp: or_str_def)
  have "or_str (nd_frequency x) ''MONTHLY'' \<in> set FREQUENCIES" by (rule s) (use x in \<open>simp_all add: data_ok_def FREQUENCIES_def\<close>)
  moreover have "or_str (nd_status x) ''ACTIVE'' \<in> set PLAN_STATUSES" by (rule s) (use x in \<open>simp_all add: data_ok_def PLAN_STATUSES_def\<close>)
  moreover have "or_str (nd_name x) [] \<noteq> []" using x by (cases "nd_name x") (auto simp: data_ok_def or_str_def)
  ultimately show ?thesis using x
    by (cases "nd_intervalDays x"; cases "nd_checklist x") (simp_all add: data_ok_def plan_ok_def plan_row_def)
qed

text \<open>After the normalisation of a request the rest runs from the same state.\<close>

lemma after_normalize:
  assumes "J s" and "\<And>x. data_ok b x \<Longrightarrow> J (snd (g x s))"
  shows "J (snd (bindE (normalize_plan w c d b) g s))"
proof (cases "normalize_plan w c d b s")
  case (Pair r s')
  show ?thesis
  proof (cases r)
    case (Inl e)
    have "keeps (\<lambda>t. t = s) (normalize_plan w c d b)" unfolding normalize_plan_def Let_def by (intro keeps_intros)
    then have "s' = s" using Pair by (auto simp: keeps_def)
    with Inl Pair assms(1) show ?thesis by (simp add: act_simps)
  next
    case (Inr x)
    with normalize_runs[of w c d b s x s'] Pair assms(2) show ?thesis by (simp add: act_simps)
  qed
qed

lemma ok_create: "schedule_ok s \<Longrightarrow> schedule_ok (snd (create_plan w u d s))"
proof -
  assume s: "schedule_ok s"
  have add: "schedule_ok (t\<lparr>mt_plans := mt_plans t @ [p]\<rparr>)" if "schedule_ok t" "plan_ok p" "mp_id p \<notin> mp_id ` set (mt_plans t)" for t :: maint_db and p
  proof -
    have "run_ok (mt_plans t @ [p]) r" if "run_ok (mt_plans t) r" for r using that by (auto simp: run_ok_def home_def)
    with that show ?thesis by (auto simp: schedule_ok_def)
  qed
  have row: "schedule_ok (snd (bindE (in_tickets (draw w)) (\<lambda>i. bindE (reads (\<lambda>s. i \<in> mp_id ` set (mt_plans s))) (\<lambda>taken.
     bindE (guard (\<not> taken) (ServerError ''duplicate entry'')) (\<lambda>_. bindE (writes (\<lambda>s. s\<lparr>mt_plans := mt_plans s @ [plan_row w i c (p_id u) x]\<rparr>)) (\<lambda>_.
     get_plan u i)))) s))" if "data_ok True x" for c x
  proof -
    have t: "schedule_ok (s\<lparr>mt_core := k\<rparr>)" for k using s by (simp add: schedule_ok_def)
    have g: "snd (get_plan u i t) = t" for i t
      by (cases "maint_scope u") (simp_all add: get_plan_def act_simps split: option.splits)
    have ident: "mp_id (plan_row w i c (p_id u) x) = i" for i by (simp add: plan_row_def)
    show ?thesis using t add[OF t ok_row[OF that]] by (auto simp: act_simps in_tickets_def draw_def g ident)
  qed
  show ?thesis
  proof (cases "maint_company u (qd_companyId d)")
    case (Inl e)
    with s show ?thesis by (simp add: create_plan_def act_simps)
  next
    case (Inr c)
    have e: "create_plan w u d s = bindE (normalize_plan w c d True) (\<lambda>x. bindE (in_tickets (draw w)) (\<lambda>i. bindE (reads (\<lambda>s. i \<in> mp_id ` set (mt_plans s))) (\<lambda>taken.
     bindE (guard (\<not> taken) (ServerError ''duplicate entry'')) (\<lambda>_. bindE (writes (\<lambda>s. s\<lparr>mt_plans := mt_plans s @ [plan_row w i c (p_id u) x]\<rparr>)) (\<lambda>_.
     get_plan u i))))) s"
      unfolding create_plan_def Inr by (subst bindE_eval) (simp add: of_res_eval)
    show ?thesis unfolding e by (rule after_normalize[where J = schedule_ok, OF s]) (erule row)
  qed
qed

lemma ok_update: "schedule_ok s \<Longrightarrow> schedule_ok (snd (update_plan w u i d s))"
  unfolding update_plan_def
  by (rule reach_plan, assumption, rule after_normalize, assumption)
    (rule keeps_bindE[OF ok_write_plan readonly_get_plan, unfolded keeps_def, rule_format],
      simp_all add: patched_plan_def ok_patched[unfolded patched_plan_def])

lemma homeI: "p \<in> set ps \<Longrightarrow> home (mp_id p) (mp_companyId p) ps"
  by (auto simp: home_def list_ex_iff)

lemma ok_generate: "schedule_ok s \<Longrightarrow> schedule_ok (snd (generate_ticket w k u i d s))"
  unfolding generate_ticket_def
proof (rule reach_plan, assumption)
  fix p c assume s: "schedule_ok s" and p: "p \<in> set (mt_plans s)" "mp_id p = i" "mp_companyId p = c"
  let ?m = "bindE (guard (mp_status p = ''ACTIVE'') (BadRequest ''Only active maintenance plans can generate tickets'')) (\<lambda>_.
     bindE (reads (\<lambda>s. plan_ticket p (user_contact (p_id u) (mt_core s)) (asset_name (mp_assetId p) s) d)) (\<lambda>payload.
     bindE (in_tickets (create_ticket w k payload (Some c) (p_id u) (p_userType u))) (\<lambda>t.
     bindE (if truthy (mp_assignedToId p) then assign_from_plan w p c (t_id t) (p_id u) else ret ()) (\<lambda>_.
     bindE (in_tickets (draw w)) (\<lambda>r.
     bindE (insert_run \<lparr>mr_id = r, mr_companyId = c, mr_planId = mp_id p, mr_ticketId = Some (t_id t), mr_status = ''SCHEDULED'',
       mr_dueAt = (case tq_dueAt d of Some x \<Rightarrow> x | None \<Rightarrow> mp_nextDueAt p), mr_completedAt = None, mr_completedById = None,
       mr_notes = trim_or_null (tq_notes d)\<rparr>) (\<lambda>_.
     ret (t, r)))))))"
  have "keeps (plan_settled i c) ?m"
    unfolding assign_from_plan_def by (intro keeps_intros settled_tickets settled_insert_run) (simp_all add: p)
  moreover have "plan_settled i c s" using s homeI[OF p(1)] p by (simp add: plan_settled_def)
  ultimately show "schedule_ok (snd (?m s))" by (simp add: keeps_def plan_settled_def)
qed

lemma settled_settle: "mp_id p = i \<Longrightarrow> keeps (plan_settled i c) (settle_run w p c t u d)"
  unfolding settle_run_def Let_def
  by (intro keeps_intros settled_tickets settled_insert_run settled_close_run) simp_all

lemma ok_complete: "schedule_ok s \<Longrightarrow> schedule_ok (snd (complete_plan w u i d s))"
  unfolding complete_plan_def
proof (rule reach_plan, assumption)
  fix p c assume s: "schedule_ok s" and p: "p \<in> set (mt_plans s)" "mp_id p = i" "mp_companyId p = c"
  have rest: "keeps schedule_ok (bindE (write_plan (mp_id p) c (\<lambda>x. x\<lparr>mp_lastCompletedAt := Some t, mp_nextDueAt := due, mp_updatedAt := now w\<rparr>)) (\<lambda>_.
     bindE (get_plan u (mp_id p)) (\<lambda>x. ret (x, r))))" for t due r
    by (intro keeps_bindE ok_write_plan readonly_get_plan keeps_ret) (simp_all add: plan_ok_def)
  have step: "schedule_ok (snd (bindE (settle_run w p c t (p_id u) d) g s))" if "\<And>r. keeps schedule_ok (g r)" for t and g :: "string \<Rightarrow> (maint_plan \<times> string) mt"
  proof -
    have "plan_settled i c (snd (settle_run w p c t (p_id u) d s))"
      using settled_settle[OF p(2), of c w t "p_id u" d] s homeI[OF p(1)] p by (simp add: keeps_def plan_settled_def)
    then show ?thesis using that
      by (cases "settle_run w p c t (p_id u) d s"; cases "fst (settle_run w p c t (p_id u) d s)") (auto simp: bindE_def keeps_def plan_settled_def)
  qed
  show "schedule_ok (snd ((let t = (case cm_completedAt d of Some x \<Rightarrow> x | None \<Rightarrow> now w);
         due = (case cm_nextDueAt d of Some x \<Rightarrow> x | None \<Rightarrow> next_due_date t (mp_frequency p) (mp_intervalDays p)) in
     bindE (settle_run w p c t (p_id u) d) (\<lambda>r.
     bindE (write_plan (mp_id p) c (\<lambda>x. x\<lparr>mp_lastCompletedAt := Some t, mp_nextDueAt := due, mp_updatedAt := now w\<rparr>)) (\<lambda>_.
     bindE (get_plan u (mp_id p)) (\<lambda>x. ret (x, r))))) s))"
    unfolding Let_def by (rule step[OF rest])
qed

lemma schedule_calls: "schedule_ok s \<Longrightarrow> schedule_ok (maint_step e s)"
  by (cases e) (simp_all add: ok_create ok_update ok_generate ok_complete)

interpretation schedule: guarded_machine any_call maint_step schedule_ok
  by unfold_locales (rule schedule_calls)

text \<open>
  C27. The tables stay well formed. Starting without plans, after any calls, failing ones included,
  every plan has a name, a known frequency and status, an interval that is not negative and a
  checklist of at most fifty non-empty lines; every run is scheduled or completed, has a
  completion time exactly when it is completed, and belongs to a plan of its own company.
\<close>
theorem maintenance_well_formed:
  assumes "reachable_by any_call maint_step s0 s" and "mt_plans s0 = []" "mt_runs s0 = []"
  shows "(\<forall>p \<in> set (mt_plans s). mp_name p \<noteq> [] \<and> mp_frequency p \<in> set FREQUENCIES \<and> mp_status p \<in> set PLAN_STATUSES
      \<and> 0 \<le> mp_intervalDays p \<and> length (mp_checklist p) \<le> 50 \<and> [] \<notin> set (mp_checklist p))
    \<and> (\<forall>r \<in> set (mt_runs s). mr_status r \<in> {''SCHEDULED'', ''COMPLETED''} \<and> (mr_completedAt r \<noteq> None \<longleftrightarrow> mr_status r = ''COMPLETED'')
      \<and> (\<exists>p \<in> set (mt_plans s). mp_id p = mr_planId r \<and> mp_companyId p = mr_companyId r))"
proof -
  have "schedule_ok s0" using assms(2,3) by (simp add: schedule_ok_def)
  then have "schedule_ok s" using schedule.reachable_inv[OF assms(1)] by simp
  then show ?thesis unfolding schedule_ok_def plan_ok_def run_ok_def home_def list_ex_iff by blast
qed

section \<open>Due dates\<close>

text \<open>
  C28. The next due date lies ahead. Whatever the frequency and the interval, the date computed from
  a completion is later than it.
\<close>
theorem next_due_date_later: "base < next_due_date base freq days"
  by (simp add: next_due_date_def add_months_later add_days_def MS_PER_DAY_def)

text \<open>
  A monthly plan keeps its day of the month and time of day when the next month has that day.
  When it has not, JavaScript's \<open>setMonth\<close> runs over and the plan is due in the month after.
\<close>
theorem monthly_plan_day:
  "(date_of (base div MS_PER_DAY) \<le> month_length (month_index (base div MS_PER_DAY) + 1) \<longrightarrow>
      month_index (next_due_date base ''MONTHLY'' n div MS_PER_DAY) = month_index (base div MS_PER_DAY) + 1
      \<and> date_of (next_due_date base ''MONTHLY'' n div MS_PER_DAY) = date_of (base div MS_PER_DAY)
      \<and> next_due_date base ''MONTHLY'' n mod MS_PER_DAY = base mod MS_PER_DAY)
   \<and> (month_length (month_index (base div MS_PER_DAY) + 1) < date_of (base div MS_PER_DAY) \<longrightarrow>
      month_index (next_due_date base ''MONTHLY'' n div MS_PER_DAY) = month_index (base div MS_PER_DAY) + 2)"
  using add_months_same_day[of base 1] add_months_runs_over[of base 1] by (simp add: next_due_date_def add.assoc)

section \<open>Completing a plan\<close>

lemma find_written:
  assumes "\<And>r. key (f r) = key r" "\<And>r. co (f r) = co r"
  shows "scoped_find key co scope i (scoped_write key co i c f xs) = map_option (\<lambda>r. if co r = c then f r else r) (scoped_find key co scope i xs)"
proof (induction xs)
  case (Cons x xs)
  then show ?case using assms by (cases scope) (auto simp: scoped_find_def scoped_write_def)
qed (simp add: scoped_find_def scoped_write_def)

lemma settle_keeps_plans: "keeps (\<lambda>s. mt_plans s = ps) (settle_run w p c t u d)"
  unfolding settle_run_def Let_def
  by (intro keeps_intros in_tickets_keeps; (simp add: close_run_def insert_run_def)?)
    (intro keeps_intros keeps_writes; simp)+

lemma complete_run:
  assumes "complete_plan w u i d s = (Inr (p', r), s')"
  obtains p c t s1 where "p \<in> set (mt_plans s)" "mp_id p = i" "mp_companyId p = c" "t = (case cm_completedAt d of Some x \<Rightarrow> x | None \<Rightarrow> now w)"
    "settle_run w p c t (p_id u) d s = (Inr r, s1)" "mt_runs s' = mt_runs s1" "mp_companyId p' = c" "mp_id p' = i"
    "mp_lastCompletedAt p' = Some t" "mp_nextDueAt p' = (case cm_nextDueAt d of Some x \<Rightarrow> x | None \<Rightarrow> next_due_date t (mp_frequency p) (mp_intervalDays p))"
proof -
  obtain scope where sc: "maint_scope u = Inr scope"
    using assms by (cases "maint_scope u") (simp_all add: complete_plan_def get_plan_def act_simps)
  obtain p where p: "scoped_find mp_id mp_companyId scope i (mt_plans s) = Some p"
    using assms by (cases "scoped_find mp_id mp_companyId scope i (mt_plans s)") (simp_all add: complete_plan_def get_plan_def act_simps sc)
  obtain c where c: "maint_company u (Some (mp_companyId p)) = Inr c"
    using assms by (cases "maint_company u (Some (mp_companyId p))") (simp_all add: complete_plan_def get_plan_def act_simps sc p)
  have pc: "p \<in> set (mt_plans s)" "mp_id p = i" "mp_companyId p = c" using scoped_findD[OF p] company_agrees[OF sc p c] by auto
  define t where "t = (case cm_completedAt d of Some x \<Rightarrow> x | None \<Rightarrow> now w)"
  define due where "due = (case cm_nextDueAt d of Some x \<Rightarrow> x | None \<Rightarrow> next_due_date t (mp_frequency p) (mp_intervalDays p))"
  let ?f = "\<lambda>x. x\<lparr>mp_lastCompletedAt := Some t, mp_nextDueAt := due, mp_updatedAt := now w\<rparr>"
  have run: "complete_plan w u i d s = bindE (settle_run w p c t (p_id u) d) (\<lambda>r.
     bindE (write_plan i c ?f) (\<lambda>_. bindE (get_plan u i) (\<lambda>x. ret (x, r)))) s"
    unfolding complete_plan_def Let_def t_def[symmetric] due_def[symmetric]
    using c pc by (simp add: bindE_def get_plan_def sc p act_simps due_def)
  obtain r1 s1 where s1: "settle_run w p c t (p_id u) d s = (r1, s1)" by (cases "settle_run w p c t (p_id u) d s")
  have ps: "mt_plans s1 = mt_plans s" using settle_keeps_plans[of "mt_plans s" w p c t "p_id u" d] s1 by (auto simp: keeps_def)
  obtain r2 where r2: "r1 = Inr r2" using assms s1 unfolding run by (cases r1) (simp_all add: act_simps)
  have fw: "scoped_find mp_id mp_companyId scope i (scoped_write mp_id mp_companyId i c ?f (mt_plans s)) = Some (?f p)"
    using find_written[of mp_id ?f mp_companyId scope i c "mt_plans s"] p pc by simp
  have "p' = ?f p \<and> r2 = r \<and> mt_runs s' = mt_runs s1"
    using assms unfolding run by (auto simp: act_simps s1 r2 get_plan_def sc write_plan_def ps fw)
  then show ?thesis using that[of p c t s1] pc s1 r2 by (simp add: t_def due_def)
qed

lemma pending_none:
  assumes "pending_run c i s = None"
  shows "filter (\<lambda>r. mr_companyId r = c \<and> mr_planId r = i \<and> mr_status r \<in> {''DUE'', ''SCHEDULED''}) (mt_runs s) = []" (is "?rs = []")
proof -
  have "sort_key mr_dueAt ?rs = []" using assms unfolding pending_run_def by (cases "sort_key mr_dueAt ?rs") simp_all
  then have "set ?rs = {}" using set_sort[of mr_dueAt ?rs] by simp
  then show ?thesis by (simp only: set_empty)
qed

lemma pending_first:
  assumes "pending_run c i s = Some x"
  shows "x \<in> set (mt_runs s)" "mr_companyId x = c" "mr_planId x = i" "mr_status x \<in> {''DUE'', ''SCHEDULED''}"
    and "\<forall>y \<in> set (mt_runs s). mr_companyId y = c \<and> mr_planId y = i \<and> mr_status y \<in> {''DUE'', ''SCHEDULED''} \<longrightarrow> mr_dueAt x \<le> mr_dueAt y"
proof -
  let ?P = "\<lambda>r. mr_companyId r = c \<and> mr_planId r = i \<and> mr_status r \<in> {''DUE'', ''SCHEDULED''}"
  obtain xs where xs: "sort_key mr_dueAt (filter ?P (mt_runs s)) = x # xs"
    using assms unfolding pending_run_def by (cases "sort_key mr_dueAt (filter ?P (mt_runs s))") simp_all
  have "set (x # xs) = {r \<in> set (mt_runs s). ?P r}" unfolding xs[symmetric] by simp
  moreover have "sorted (map mr_dueAt (x # xs))" unfolding xs[symmetric] by (rule sorted_sort_key)
  ultimately show "x \<in> set (mt_runs s)" "mr_companyId x = c" "mr_planId x = i" "mr_status x \<in> {''DUE'', ''SCHEDULED''}"
    "\<forall>y \<in> set (mt_runs s). ?P y \<longrightarrow> mr_dueAt x \<le> mr_dueAt y" by auto
qed

text \<open>
  Completing a plan. A completion that names no run settles the pending run of the plan that is
  due first, or a new one if none is pending; the other pending runs stay as they were. The
  plan records the completion and, unless the request says otherwise, is due after it.
\<close>
theorem completion_settles_first_due:
  assumes run: "complete_plan w u i d s = (Inr (p', r), s')" and "\<not> truthy (cm_runId d)" "distinct (map mr_id (mt_runs s))"
  shows "\<exists>x \<in> set (mt_runs s'). mr_id x = r \<and> mr_planId x = i \<and> mr_status x = ''COMPLETED'' \<and> mr_completedAt x = mp_lastCompletedAt p'
      \<and> (\<forall>y \<in> set (mt_runs s). mr_planId y = i \<and> mr_companyId y = mp_companyId p' \<and> mr_status y = ''SCHEDULED'' \<and> mr_id y \<noteq> r \<longrightarrow>
           y \<in> set (mt_runs s') \<and> mr_dueAt x \<le> mr_dueAt y)
      \<and> (cm_nextDueAt d = None \<longrightarrow> the (mp_lastCompletedAt p') < mp_nextDueAt p')"
proof -
  obtain p c t s1 where p: "p \<in> set (mt_plans s)" "mp_id p = i" "mp_companyId p = c" and st: "settle_run w p c t (p_id u) d s = (Inr r, s1)"
    and res: "mt_runs s' = mt_runs s1" "mp_companyId p' = c" "mp_lastCompletedAt p' = Some t"
    "mp_nextDueAt p' = (case cm_nextDueAt d of Some x \<Rightarrow> x | None \<Rightarrow> next_due_date t (mp_frequency p) (mp_intervalDays p))"
    using complete_run[OF run] by metis
  have due: "cm_nextDueAt d = None \<longrightarrow> the (mp_lastCompletedAt p') < mp_nextDueAt p'"
    using res by (simp add: next_due_date_def add_months_later add_days_def MS_PER_DAY_def)
  show ?thesis
  proof (cases "pending_run c i s")
    case None
    have e: "r \<notin> mr_id ` set (mt_runs s)" "mt_runs s1 = mt_runs s @ [\<lparr>mr_id = r, mr_companyId = c, mr_planId = i, mr_ticketId = or_null (cm_ticketId d),
        mr_status = ''COMPLETED'', mr_dueAt = mp_nextDueAt p, mr_completedAt = Some t, mr_completedById = Some (p_id u), mr_notes = trim_or_null (cm_notes d)\<rparr>]"
      using st assms(2) None p(2) unfolding settle_run_def Let_def
      by (auto simp: act_simps in_tickets_def draw_def insert_run_def split: if_splits)
    have n: "\<not> (\<exists>y \<in> set (mt_runs s). mr_planId y = i \<and> mr_companyId y = c \<and> mr_status y = ''SCHEDULED'')"
      using pending_none[OF None] by (auto simp: filter_empty_conv)
    show ?thesis using due n res by (auto simp: e(2))
  next
    case (Some x)
    let ?f = "\<lambda>r. r\<lparr>mr_status := ''COMPLETED'', mr_completedAt := Some t, mr_completedById := Some (p_id u), mr_notes := trim_or_null (cm_notes d)\<rparr>"
    note x = pending_first[OF Some]
    have e: "r = mr_id x" "mt_runs s1 = scoped_write mr_id mr_companyId (mr_id x) c ?f (mt_runs s)"
      using st assms(2) Some p(2) unfolding settle_run_def Let_def by (auto simp: act_simps close_run_def)
    have "?f x \<in> set (mt_runs s1)" unfolding e(2) scoped_write_def using x(1,2) by (auto simp: image_iff intro!: bexI[of _ x])
    moreover have "y \<in> set (mt_runs s1)" if "y \<in> set (mt_runs s)" "mr_id y \<noteq> r" for y
      unfolding e(2) scoped_write_def using that e(1) by (auto simp: image_iff intro!: bexI[of _ y])
    moreover have "mr_dueAt x \<le> mr_dueAt y" if "y \<in> set (mt_runs s)" "mr_planId y = i" "mr_companyId y = c" "mr_status y = ''SCHEDULED''" for y
      using x(5) that by auto
    ultimately show ?thesis using due res x(3) e(1) by (intro bexI[of _ "?f x"]) auto
  qed
qed

section \<open>Companies\<close>

definition beyond_company :: "string \<Rightarrow> maint_db \<Rightarrow> maint_plan list \<times> maint_run list" where
  "beyond_company c s = (filter (\<lambda>p. mp_companyId p \<noteq> c) (mt_plans s), filter (\<lambda>r. mr_companyId r \<noteq> c) (mt_runs s))"

interpretation plan_table: tenant_table mp_id mp_companyId "patched_plan t"
  by unfold_locales (simp_all add: patched_plan_def)

interpretation due_table: tenant_table mp_id mp_companyId "\<lambda>(t, due, now) x. x\<lparr>mp_lastCompletedAt := Some t, mp_nextDueAt := due, mp_updatedAt := now\<rparr>"
  by unfold_locales (auto split: prod.splits)

interpretation run_table: tenant_table mr_id mr_companyId
    "\<lambda>(t, u, n) r. r\<lparr>mr_status := ''COMPLETED'', mr_completedAt := Some t, mr_completedById := Some u, mr_notes := n\<rparr>"
  by unfold_locales (auto split: prod.splits)

lemma due_others: "filter (\<lambda>p. mp_companyId p \<noteq> c) (scoped_write mp_id mp_companyId i c
    (\<lambda>x. x\<lparr>mp_lastCompletedAt := Some t, mp_nextDueAt := due, mp_updatedAt := n\<rparr>) ps) = filter (\<lambda>p. mp_companyId p \<noteq> c) ps"
  using due_table.write_others[of c i "(t, due, n)" ps] by simp

lemma run_others: "filter (\<lambda>r. mr_companyId r \<noteq> c) (scoped_write mr_id mr_companyId i c
    (\<lambda>r. r\<lparr>mr_status := ''COMPLETED'', mr_completedAt := Some t, mr_completedById := Some u, mr_notes := n\<rparr>) rs) = filter (\<lambda>r. mr_companyId r \<noteq> c) rs"
  using run_table.write_others[of c i "(t, u, n)" rs] by simp

lemma beyond_tickets: "keeps (\<lambda>s. beyond_company c s = V) (in_tickets m)"
  by (rule in_tickets_keeps) (simp add: beyond_company_def)

lemma beyond_write_plan: "keeps (\<lambda>s. beyond_company c s = V) (write_plan i c (patched_plan t x))"
  unfolding write_plan_def by (rule keeps_writes) (simp add: beyond_company_def plan_table.write_others)

lemma beyond_write_due:
  "keeps (\<lambda>s. beyond_company c s = V) (write_plan i c (\<lambda>x. x\<lparr>mp_lastCompletedAt := Some t, mp_nextDueAt := due, mp_updatedAt := n\<rparr>))"
  unfolding write_plan_def by (rule keeps_writes) (simp add: beyond_company_def due_others)

lemma beyond_close_run: "keeps (\<lambda>s. beyond_company c s = V) (close_run i c t u n)"
  unfolding close_run_def by (rule keeps_writes) (simp add: beyond_company_def run_others)

lemma beyond_insert_run: "mr_companyId r = c \<Longrightarrow> keeps (\<lambda>s. beyond_company c s = V) (insert_run r)"
  unfolding insert_run_def by (intro keeps_intros keeps_writes) (simp add: beyond_company_def)

lemma beyond_normalize: "keeps (\<lambda>s. beyond_company c s = V) (normalize_plan w k d b)"
  unfolding normalize_plan_def Let_def by (intro keeps_intros)

lemmas beyond_parts = beyond_tickets beyond_write_plan beyond_write_due beyond_close_run beyond_insert_run beyond_normalize readonly_get_plan

lemma bind_of_Inr: "bindE (of_res (Inr x)) g = g x"
  by (rule ext) (simp add: act_simps)

lemma own_company: "p_companyId u = Some c \<Longrightarrow> c \<noteq> [] \<Longrightarrow> maint_company u r = Inr c"
  by (simp add: maint_company_def or_str_def)

lemma beyond_calls:
  assumes "p_companyId u = Some c" "c \<noteq> []"
  shows "keeps (\<lambda>s. beyond_company c s = V) (create_plan w u pd)" "keeps (\<lambda>s. beyond_company c s = V) (update_plan w u i pd)"
    "keeps (\<lambda>s. beyond_company c s = V) (generate_ticket w k u i tr)" "keeps (\<lambda>s. beyond_company c s = V) (complete_plan w u i cd)"
  unfolding create_plan_def update_plan_def generate_ticket_def complete_plan_def settle_run_def assign_from_plan_def Let_def
    own_company[OF assms] bind_of_Inr
  by (intro keeps_intros beyond_parts keeps_writes; simp add: beyond_company_def plan_row_def)+

text \<open>
  Maintenance stays inside a company. Whatever a caller with a company does, the plans and runs
  of every other company are left as they were.
\<close>
theorem maintenance_stays_in_company:
  assumes "p_companyId (maint_actor e) = Some c" "c \<noteq> []"
  shows "filter (\<lambda>p. mp_companyId p \<noteq> c) (mt_plans (maint_step e s)) = filter (\<lambda>p. mp_companyId p \<noteq> c) (mt_plans s)
    \<and> filter (\<lambda>r. mr_companyId r \<noteq> c) (mt_runs (maint_step e s)) = filter (\<lambda>r. mr_companyId r \<noteq> c) (mt_runs s)"
proof -
  have "beyond_company c (maint_step e s) = beyond_company c s"
    using assms(1) beyond_calls[OF _ assms(2), of "maint_actor e" "beyond_company c s"] by (cases e) (simp_all add: keeps_def)
  then show ?thesis by (simp add: beyond_company_def)
qed

section \<open>Witnesses\<close>

definition mw_user :: principal where
  "mw_user = \<lparr>p_id = ''u1'', p_email = ''a@x.io'', p_role = ''TENANT_ADMIN'', p_userType = ''BUSINESS'', p_companyId = Some ''c1'',
     p_effective = None, p_location = None, p_slugs = [], p_scopes = []\<rparr>"

definition mw_world :: "int \<Rightarrow> world" where
  "mw_world t = \<lparr>now = t, uuid = (\<lambda>k. ''i'' @ dec k)\<rparr>"

definition mw_dto :: plan_dto where
  "mw_dto = \<lparr>qd_companyId = None, qd_name = Given '' Filters '', qd_description = Absent, qd_assetId = Absent, qd_location = Absent,
     qd_frequency = Given ''monthly'', qd_intervalDays = None, qd_nextDueAt = Some (Some 1000), qd_checklist = Some (Lines ''a''),
     qd_title = Absent, qd_text = Absent, qd_assignedToId = Absent, qd_status = Absent\<rparr>"

definition mw_db :: maint_db where
  "mw_db = \<lparr>mt_core = \<lparr>tickets = [], people = [], timeline = [], relationships = [], slas = [], in_apps = [], outbox = [], emitted = [],
     usage_calls = [], drawn = 0\<rparr>, mt_assets = [], mt_plans = [], mt_runs = []\<rparr>"

text \<open>31 January 2026, noon.\<close>

definition mw_noon :: int where "mw_noon = 1769860800000"

definition mw_done :: completion where
  "mw_done = \<lparr>cm_completedAt = Some mw_noon, cm_nextDueAt = None, cm_runId = None, cm_ticketId = None, cm_notes = None\<rparr>"

definition mw_calls :: "maint_call list" where
  "mw_calls = [MCreate (mw_world 5) mw_user mw_dto, MGenerate (mw_world 6) ''k'' mw_user ''i0''
     \<lparr>tq_title = None, tq_description = None, tq_priority = None, tq_dueAt = None, tq_notes = None\<rparr>]"

definition mw_state :: maint_db where "mw_state = fold maint_step mw_calls mw_db"

lemma mw_reach: "reachable_by any_call maint_step mw_db mw_state"
  unfolding mw_state_def by (rule schedule.fold_reachable) (simp_all add: list_all_iff reach_start)

lemma mw_run: "map (\<lambda>p. (mp_id p, mp_name p, mp_frequency p)) (mt_plans mw_state) = [(''i0'', ''Filters'', ''MONTHLY'')]"
  "map (\<lambda>r. (mr_id r, mr_status r)) (mt_runs mw_state) = [(''i3'', ''SCHEDULED'')]"
  by code_simp+

theorem maintenance_well_formed_witness:
  "map mp_name (mt_plans mw_state) = [''Filters''] \<and> list_all (\<lambda>p. mp_frequency p \<in> set FREQUENCIES \<and> mp_status p \<in> set PLAN_STATUSES
     \<and> length (mp_checklist p) \<le> 50) (mt_plans mw_state)
   \<and> list_all (\<lambda>r. (mr_completedAt r \<noteq> None) = (mr_status r = ''COMPLETED'')) (mt_runs mw_state)"
proof (intro conjI)
  have "mt_plans mw_db = []" "mt_runs mw_db = []" by (simp_all add: mw_db_def)
  note ok = maintenance_well_formed[OF mw_reach this]
  show "map mp_name (mt_plans mw_state) = [''Filters'']" by code_simp
  show "list_all (\<lambda>p. mp_frequency p \<in> set FREQUENCIES \<and> mp_status p \<in> set PLAN_STATUSES \<and> length (mp_checklist p) \<le> 50) (mt_plans mw_state)"
    using ok by (simp only: list_all_iff) blast
  show "list_all (\<lambda>r. (mr_completedAt r \<noteq> None) = (mr_status r = ''COMPLETED'')) (mt_runs mw_state)"
    using ok by (simp only: list_all_iff) blast
qed

text \<open>A monthly plan completed on 31 January 2026 is next due on 3 March.\<close>

theorem monthly_plan_day_witness:
  "month_index (next_due_date mw_noon ''MONTHLY'' 0 div MS_PER_DAY) = month_index (mw_noon div MS_PER_DAY) + 2
   \<and> date_of (next_due_date mw_noon ''MONTHLY'' 0 div MS_PER_DAY) = 3"
proof
  have "month_length (month_index (mw_noon div MS_PER_DAY) + 1) < date_of (mw_noon div MS_PER_DAY)" by code_simp
  then show "month_index (next_due_date mw_noon ''MONTHLY'' 0 div MS_PER_DAY) = month_index (mw_noon div MS_PER_DAY) + 2"
    using monthly_plan_day[of mw_noon 0] by blast
  show "date_of (next_due_date mw_noon ''MONTHLY'' 0 div MS_PER_DAY) = 3" by code_simp
qed

definition mw_complete :: "(http_error + maint_plan \<times> string) \<times> maint_db" where
  "mw_complete = complete_plan (mw_world 9) mw_user ''i0'' mw_done mw_state"

definition mw_plan :: maint_plan where "mw_plan = fst (projr (fst mw_complete))"

lemma mw_completes: "complete_plan (mw_world 9) mw_user ''i0'' mw_done mw_state = (Inr (mw_plan, ''i3''), snd mw_complete)"
proof -
  have "map_sum (\<lambda>_. ()) snd (fst mw_complete) = Inr ''i3''" by code_simp
  then have "fst mw_complete = Inr (mw_plan, ''i3'')" by (cases "fst mw_complete") (auto simp: mw_plan_def)
  then show ?thesis unfolding mw_complete_def by (metis prod.collapse)
qed

theorem completion_settles_first_due_witness:
  "map mr_status (mt_runs (snd mw_complete)) = [''COMPLETED'']
   \<and> list_ex (\<lambda>x. mr_id x = ''i3'' \<and> mr_completedAt x = Some mw_noon) (mt_runs (snd mw_complete))"
proof -
  have d: "distinct (map mr_id (mt_runs mw_state))" by code_simp
  have n: "\<not> truthy (cm_runId mw_done)" by (simp add: mw_done_def)
  have t: "mp_lastCompletedAt mw_plan = Some mw_noon" by code_simp
  have "list_ex (\<lambda>x. mr_id x = ''i3'' \<and> mr_completedAt x = Some mw_noon) (mt_runs (snd mw_complete))"
    using completion_settles_first_due[OF mw_completes n d] unfolding list_ex_iff t by blast
  moreover have "map mr_status (mt_runs (snd mw_complete)) = [''COMPLETED'']" by code_simp
  ultimately show ?thesis by blast
qed

theorem maintenance_stays_in_company_witness:
  "mt_plans (maint_step (MCreate (mw_world 5) mw_user mw_dto) (mw_db\<lparr>mt_plans := [(hd (mt_plans mw_state))\<lparr>mp_companyId := ''c2''\<rparr>]\<rparr>)) \<noteq> []
   \<and> filter (\<lambda>p. mp_companyId p \<noteq> ''c1'') (mt_plans (maint_step (MCreate (mw_world 5) mw_user mw_dto)
        (mw_db\<lparr>mt_plans := [(hd (mt_plans mw_state))\<lparr>mp_companyId := ''c2''\<rparr>]\<rparr>)))
      = [(hd (mt_plans mw_state))\<lparr>mp_companyId := ''c2''\<rparr>]"
proof -
  let ?s = "mw_db\<lparr>mt_plans := [(hd (mt_plans mw_state))\<lparr>mp_companyId := ''c2''\<rparr>]\<rparr>"
  have "p_companyId (maint_actor (MCreate (mw_world 5) mw_user mw_dto)) = Some ''c1''" by (simp add: mw_user_def)
  then have "filter (\<lambda>p. mp_companyId p \<noteq> ''c1'') (mt_plans (maint_step (MCreate (mw_world 5) mw_user mw_dto) ?s))
      = filter (\<lambda>p. mp_companyId p \<noteq> ''c1'') (mt_plans ?s)"
    using maintenance_stays_in_company[of "MCreate (mw_world 5) mw_user mw_dto" "''c1''" ?s] by simp
  then show ?thesis by auto
qed

end
