(* ===== verification/Sso.thy ===== *)
theory Sso
  imports Auth_Ops Network_Text "HOL-Library.List_Lexorder" "HOL-Library.Char_ord"
begin

text \<open>
  Single sign-on and passkeys: \<open>auth/services/oidc-auth.service.ts\<close>,
  \<open>auth/services/passkey.service.ts\<close> and the routes of \<open>auth.controller.ts\<close> that turn their
  answers into sessions. The URL parser, the resolver, the HTTP exchanges with the identity
  provider, the JSON and signature libraries and the WebAuthn library are fields of the
  parameter \<open>sso_env\<close>. The three endpoint checks of a discovery, which the code starts
  together, run in the order they are listed. Every table exists and queries do not fail.
\<close>

section \<open>Checks that only return or throw\<close>

definition bindR :: "'a res \<Rightarrow> ('a \<Rightarrow> 'b res) \<Rightarrow> 'b res" where
  "bindR m f = (case m of Inl e \<Rightarrow> Inl e | Inr x \<Rightarrow> f x)"

definition need :: "bool \<Rightarrow> http_error \<Rightarrow> unit res" where
  "need b e = (if b then Inr () else Inl e)"

lemma bindR_Inr [simp]: "bindR m f = Inr y \<longleftrightarrow> (\<exists>x. m = Inr x \<and> f x = Inr y)"
  by (cases m) (simp_all add: bindR_def)

lemma need_Inr [simp]: "need b e = Inr u \<longleftrightarrow> b"
  by (simp add: need_def)

section \<open>Networks an issuer may not resolve to\<close>

text \<open>\<open>net.isIPv4\<close>: four decimal octets without leading zeros.\<close>

definition octet_digit :: "char \<Rightarrow> nat" where
  "octet_digit c = of_char c - 48"

definition octet_of :: "string \<Rightarrow> nat option" where
  "octet_of s =
     (if s \<noteq> [] \<and> length s \<le> 3 \<and> list_all ch_digit s \<and> (length s = 1 \<or> hd s \<noteq> CHR ''0'')
      then (let n = foldl (\<lambda>n c. 10 * n + octet_digit c) 0 s in if n \<le> 255 then Some n else None) else None)"

fun ipv4_of :: "string list \<Rightarrow> (nat \<times> nat) option" where
  "ipv4_of [a, b, c, d] =
     (case (octet_of a, octet_of b, octet_of c, octet_of d) of
        (Some x, Some y, Some _, Some _) \<Rightarrow> Some (x, y) | _ \<Rightarrow> None)"
| "ipv4_of _ = None"

definition private_pair :: "nat \<Rightarrow> nat \<Rightarrow> bool" where
  "private_pair a b \<longleftrightarrow> a = 0 \<or> a = 10 \<or> a = 127 \<or> a \<ge> 224 \<or> (a = 169 \<and> b = 254)
     \<or> (a = 172 \<and> 16 \<le> b \<and> b \<le> 31) \<or> (a = 192 \<and> b = 168) \<or> (a = 100 \<and> 64 \<le> b \<and> b \<le> 127)"

definition is_private_address :: "string \<Rightarrow> bool" where
  "is_private_address address =
     (let x = js_lower address in
      if x = ''::1'' \<or> x = ''::'' \<or> starts_with x ''fc'' \<or> starts_with x ''fd'' \<or> starts_with x ''fe80:'' then True
      else case ipv4_of (str_split (CHR ''.'') (if starts_with x ''::ffff:'' then drop 7 x else x)) of
             None \<Rightarrow> False | Some (a, b) \<Rightarrow> private_pair a b)"

section \<open>What lies outside\<close>

record url_parts =
  ur_protocol :: string
  ur_host :: string
  ur_origin :: string
  ur_bare :: bool

record discovery =
  ds_issuer :: "string option"
  ds_authorization :: "string option"
  ds_token :: "string option"
  ds_jwks :: "string option"
  ds_secretPost :: bool

record id_header =
  hd_alg :: string
  hd_kid :: "string option"

record id_claims =
  cl_iss :: "string option"
  cl_aud :: "string list"
  cl_azp :: "string option"
  cl_exp :: "int option"
  cl_nonce :: "string option"
  cl_email :: "string option"
  cl_emailVerified :: "bool option"
  cl_given :: "string option"
  cl_family :: "string option"
  cl_name :: "string option"
  cl_amr :: "string list"

record jwk =
  jk_kid :: "string option"
  jk_alg :: "string option"
  jk_use :: "string option"
  jk_key :: string

record token_request =
  tk_endpoint :: string
  tk_code :: string
  tk_redirect :: string
  tk_clientId :: string
  tk_verifier :: string
  tk_secretPost :: "string option"
  tk_secretBasic :: "string option"

record passkey_response =
  pr_id :: string
  pr_data :: string

record passkey_info =
  pi_id :: string
  pi_key :: string
  pi_counter :: int
  pi_device :: string
  pi_backedUp :: bool

text \<open>\<open>None\<close> is a call that throws; the numbers are HTTP statuses. \<open>ur_bare\<close>: no user name,
  password, query or fragment.\<close>

record sso_env =
  url_of :: "string \<Rightarrow> url_parts option"
  addresses_of :: "string \<Rightarrow> string list option"
  is_ip6 :: "string \<Rightarrow> bool"
  production :: bool
  allow_private :: bool
  api_base :: string
  discover :: "string \<Rightarrow> (nat \<times> discovery) option"
  keys_at :: "string \<Rightarrow> (nat \<times> jwk list) option"
  post_token :: "token_request \<Rightarrow> (nat \<times> string option) option"
  header_of :: "string \<Rightarrow> id_header option"
  claims_of :: "string \<Rightarrow> id_claims option"
  signature_ok :: "string \<times> bool \<Rightarrow> string \<Rightarrow> string \<Rightarrow> string \<Rightarrow> bool"
  rp_name :: "string option"
  rp_origins :: "string option"
  frontend :: string
  attested :: "passkey_response \<Rightarrow> string \<Rightarrow> string list \<Rightarrow> string \<Rightarrow> passkey_info option"
  asserted :: "passkey_response \<Rightarrow> string \<Rightarrow> string list \<Rightarrow> string \<Rightarrow> string \<Rightarrow> int \<Rightarrow> int option"

definition http_ok :: "nat \<Rightarrow> bool" where
  "http_ok n \<longleftrightarrow> 200 \<le> n \<and> n < 300"

definition strip_slashes :: "string \<Rightarrow> string" where
  "strip_slashes s = rev (dropWhile (\<lambda>c. c = CHR ''/'') (rev s))"

section \<open>Tables\<close>

record sso_provider =
  pv_id :: string
  pv_companyId :: "string option"
  pv_name :: string
  pv_issuer :: string
  pv_clientId :: string
  pv_secret :: "string option"
  pv_domains :: "string list"
  pv_autoProvision :: bool
  pv_role :: string
  pv_enabled :: bool
  pv_testStatus :: "string option"

record sso_state =
  ss_id :: string
  ss_providerId :: string
  ss_hash :: string
  ss_nonce :: string
  ss_verifier :: string
  ss_redirect :: string
  ss_expiresAt :: int

record login_code =
  lc_id :: string
  lc_hash :: string
  lc_userId :: string
  lc_expiresAt :: int
  lc_usedAt :: "int option"

record passkey =
  pk_id :: string
  pk_userId :: string
  pk_credential :: string
  pk_key :: string
  pk_counter :: int
  pk_name :: string
  pk_createdAt :: int
  pk_lastUsedAt :: "int option"

record pk_challenge =
  pc_id :: string
  pc_userId :: "string option"
  pc_purpose :: string
  pc_challenge :: string
  pc_expiresAt :: int
  pc_usedAt :: "int option"

text \<open>\<open>so_deleted\<close> are the users with a \<open>deletedAt\<close>; \<open>so_phishing\<close> is the policy column the
  password sign-in does not read.\<close>

record sso_db =
  so_auth :: auth_db
  so_deleted :: "string list"
  so_phishing :: bool
  so_providers :: "sso_provider list"
  so_states :: "sso_state list"
  so_codes :: "login_code list"
  so_passkeys :: "passkey list"
  so_challenges :: "pk_challenge list"
  so_audit :: "(string \<times> string \<times> string) list"

type_synonym ('r, 'a) sso = "('r sso_db_scheme, 'a) act"

definition so_in_auth :: "'a auth \<Rightarrow> ('r, 'a) sso" where
  "so_in_auth m s = (let (r, a) = m (so_auth s) in (r, s\<lparr>so_auth := a\<rparr>))"

section \<open>Discovery\<close>

definition local_development :: "sso_env \<Rightarrow> url_parts \<Rightarrow> bool" where
  "local_development v u \<longleftrightarrow> \<not> production v \<and> ur_host u \<in> {''localhost'', ''127.0.0.1''}"

definition assert_public_network :: "sso_env \<Rightarrow> url_parts \<Rightarrow> unit res" where
  "assert_public_network v u =
     (if allow_private v \<or> local_development v u then Inr ()
      else case (if ipv4_of (str_split (CHR ''.'') (ur_host u)) \<noteq> None \<or> is_ip6 v (ur_host u)
                 then Some [ur_host u] else addresses_of v (ur_host u)) of
        None \<Rightarrow> Inl (ServerError ''getaddrinfo'')
      | Some hosts \<Rightarrow> need (hosts \<noteq> [] \<and> \<not> list_ex is_private_address hosts)
          (BadRequest ''OIDC issuer resolves to a private or reserved address''))"

definition assert_endpoint :: "sso_env \<Rightarrow> string \<Rightarrow> unit res" where
  "assert_endpoint v x =
     (case url_of v x of
        None \<Rightarrow> Inl (BadRequest ''OIDC discovery returned an invalid endpoint URL'')
      | Some u \<Rightarrow> bindR (need (ur_protocol u = ''https:'' \<or> local_development v u) (BadRequest ''OIDC endpoints must use HTTPS''))
          (\<lambda>_. assert_public_network v u))"

definition discovery_fields :: "discovery \<Rightarrow> (string \<times> string option) list" where
  "discovery_fields d = [(''issuer'', ds_issuer d), (''authorization_endpoint'', ds_authorization d),
     (''token_endpoint'', ds_token d), (''jwks_uri'', ds_jwks d)]"

definition discovery_of :: "sso_env \<Rightarrow> string \<Rightarrow> discovery res" where
  "discovery_of v issuer =
     (case url_of v issuer of
        None \<Rightarrow> Inl (ServerError ''Invalid URL'')
      | Some u \<Rightarrow>
         bindR (need (ur_protocol u = ''https:'' \<or> local_development v u) (BadRequest ''OIDC issuer must use HTTPS'')) (\<lambda>_.
         bindR (assert_public_network v u) (\<lambda>_.
         case discover v (strip_slashes issuer @ ''/.well-known/openid-configuration'') of
           None \<Rightarrow> Inl (ServerError ''fetch failed'')
         | Some (status, d) \<Rightarrow>
            bindR (need (http_ok status) (BadRequest (''OIDC discovery returned HTTP '' @ dec status))) (\<lambda>_.
            bindR (case find (\<lambda>f. \<not> truthy (snd f)) (discovery_fields d) of None \<Rightarrow> Inr ()
              | Some f \<Rightarrow> Inl (BadRequest (''OIDC discovery is missing '' @ fst f))) (\<lambda>_.
            bindR (need (strip_slashes (or_str (ds_issuer d) []) = strip_slashes issuer) (BadRequest ''OIDC discovery issuer mismatch'')) (\<lambda>_.
            bindR (assert_endpoint v (or_str (ds_authorization d) [])) (\<lambda>_.
            bindR (assert_endpoint v (or_str (ds_token d) [])) (\<lambda>_.
            bindR (assert_endpoint v (or_str (ds_jwks d) [])) (\<lambda>_. Inr d))))))))) "

section \<open>The identity token\<close>

definition SIGNING_ALGORITHMS :: "(string \<times> string \<times> bool) list" where
  "SIGNING_ALGORITHMS = [(''RS256'', ''sha256'', False), (''RS384'', ''sha384'', False), (''RS512'', ''sha512'', False),
     (''ES256'', ''sha256'', True), (''ES384'', ''sha384'', True)]"

definition key_fits :: "id_header \<Rightarrow> jwk \<Rightarrow> bool" where
  "key_fits h k \<longleftrightarrow> jk_kid k = hd_kid h \<and> (\<not> truthy (jk_alg k) \<or> jk_alg k = Some (hd_alg h))
     \<and> (\<not> truthy (jk_use k) \<or> jk_use k = Some ''sig'')"

text \<open>The checks of the claims, after the signature.\<close>

definition check_claims :: "int \<Rightarrow> sso_provider \<Rightarrow> string \<Rightarrow> id_claims \<Rightarrow> id_claims res" where
  "check_claims t pv nonce c =
     bindR (need (strip_slashes (or_str (cl_iss c) []) = strip_slashes (pv_issuer pv)) (Unauthorized ''ID token issuer is invalid'')) (\<lambda>_.
     bindR (need (pv_clientId pv \<in> set (cl_aud c)) (Unauthorized ''ID token audience is invalid'')) (\<lambda>_.
     bindR (need (\<not> (length (cl_aud c) > 1 \<and> cl_azp c \<noteq> Some (pv_clientId pv))) (Unauthorized ''ID token authorized party is invalid'')) (\<lambda>_.
     bindR (need (case cl_exp c of None \<Rightarrow> False | Some x \<Rightarrow> x \<noteq> 0 \<and> x * 1000 > t) (Unauthorized ''ID token is expired'')) (\<lambda>_.
     bindR (need (cl_nonce c = Some nonce) (Unauthorized ''ID token nonce is invalid'')) (\<lambda>_.
     bindR (need (truthy (cl_email c) \<and> cl_emailVerified c \<noteq> Some False) (Unauthorized ''A verified email address is required'')) (\<lambda>_.
     Inr c))))))"

definition verify_id_token :: "sso_env \<Rightarrow> int \<Rightarrow> string \<Rightarrow> sso_provider \<Rightarrow> discovery \<Rightarrow> string \<Rightarrow> id_claims res" where
  "verify_id_token v t token pv d nonce =
     (case str_split (CHR ''.'') token of
        [h, c, sig] \<Rightarrow>
          (case (header_of v h, claims_of v c) of
             (Some hdr, Some cl) \<Rightarrow>
               (case map_of SIGNING_ALGORITHMS (hd_alg hdr) of
                  None \<Rightarrow> Inl (Unauthorized ''ID token signing algorithm is not supported'')
                | Some alg \<Rightarrow>
                   bindR (need (truthy (hd_kid hdr)) (Unauthorized ''ID token signing algorithm is not supported'')) (\<lambda>_.
                   case keys_at v (or_str (ds_jwks d) []) of
                     None \<Rightarrow> Inl (ServerError ''fetch failed'')
                   | Some (status, keys) \<Rightarrow>
                      bindR (need (http_ok status) (Unauthorized ''Identity provider signing keys are unavailable'')) (\<lambda>_.
                      case find (key_fits hdr) keys of
                        None \<Rightarrow> Inl (Unauthorized ''ID token signing key was not found'')
                      | Some k \<Rightarrow>
                         bindR (need (signature_ok v alg (jk_key k) (h @ ''.'' @ c) sig) (Unauthorized ''ID token signature is invalid''))
                           (\<lambda>_. check_claims t pv nonce cl))))
           | _ \<Rightarrow> Inl (ServerError ''SyntaxError''))
      | _ \<Rightarrow> Inl (Unauthorized ''ID token is invalid''))"

section \<open>Starting\<close>

definition callback_url :: "sso_env \<Rightarrow> string \<Rightarrow> string" where
  "callback_url v i = strip_slashes (api_base v) @ ''/v1/auth/sso/'' @ i @ ''/callback''"

definition safe_redirect_path :: "string option \<Rightarrow> string" where
  "safe_redirect_path x =
     (let p = js_trim (or_str x []) in if starts_with p ''/'' \<and> \<not> starts_with p ''//'' then take 500 p else [])"

text \<open>The address the browser is sent to, before its parameters are written into a query string.\<close>

record auth_request =
  aq_endpoint :: string
  aq_clientId :: string
  aq_redirect :: string
  aq_state :: string
  aq_nonce :: string
  aq_challenge :: string

definition find_provider :: "string \<Rightarrow> ('r, sso_provider) sso" where
  "find_provider i =
     bindE (reads (\<lambda>s. find (\<lambda>p. pv_id p = i \<and> pv_enabled p) (so_providers s))) (\<lambda>p.
     case p of None \<Rightarrow> raise (BadRequest ''SSO provider is not available'') | Some x \<Rightarrow> ret x)"

definition minutes :: "int \<Rightarrow> int" where "minutes n = n * 60 * 1000"

text \<open>The random texts of one request are \<open>rnd w 0\<close> (state), \<open>rnd w 1\<close> (nonce) and \<open>rnd w 2\<close>
  (code verifier); \<open>stateHash\<close> is unique.\<close>

definition start_sso :: "sso_env \<Rightarrow> crypto \<Rightarrow> auth_world \<Rightarrow> string \<Rightarrow> string option \<Rightarrow> ('r, auth_request) sso" where
  "start_sso v cr w i redirect =
     bindE (find_provider i) (\<lambda>p.
     bindE (of_res (discovery_of v (pv_issuer p))) (\<lambda>d.
     bindE (reads (\<lambda>s. list_ex (\<lambda>x. ss_id x = uuid w 0 \<or> ss_hash x = sha256 cr (rnd w 0)) (so_states s))) (\<lambda>taken.
     bindE (guard (\<not> taken) duplicate) (\<lambda>_.
     bindE (writes (\<lambda>s. s\<lparr>so_states := so_states s @ [\<lparr>ss_id = uuid w 0, ss_providerId = pv_id p, ss_hash = sha256 cr (rnd w 0),
       ss_nonce = rnd w 1, ss_verifier = encrypt cr (rnd w 2), ss_redirect = safe_redirect_path redirect,
       ss_expiresAt = now w + minutes 10\<rparr>]\<rparr>)) (\<lambda>_.
     ret \<lparr>aq_endpoint = or_str (ds_authorization d) [], aq_clientId = pv_clientId p, aq_redirect = callback_url v (pv_id p),
       aq_state = rnd w 0, aq_nonce = rnd w 1, aq_challenge = sha256 cr (rnd w 2)\<rparr>)))))"

text \<open>The providers shown at the sign-in page for an e-mail address.\<close>

definition sso_domain :: "string \<Rightarrow> string" where
  "sso_domain e = (case str_split (CHR ''@'') e of _ # d # _ \<Rightarrow> d | _ \<Rightarrow> [])"

definition offered_providers :: "string option \<Rightarrow> ('r sso_db_scheme) \<Rightarrow> (string \<times> string \<times> string) list" where
  "offered_providers email s =
     (let domain = sso_domain (js_lower (js_trim (or_str email []))) in
      map (\<lambda>p. (pv_id p, pv_name p, pv_issuer p))
        (filter (\<lambda>p. if domain \<noteq> [] then pv_domains p = [] \<or> domain \<in> set (pv_domains p) else pv_domains p = [])
          (sort_key pv_name (filter pv_enabled (so_providers s)))))"

section \<open>The callback\<close>

text \<open>\<open>exchangeCode\<close>; a body that is not JSON is one without a token.\<close>

definition exchange_request :: "sso_env \<Rightarrow> crypto \<Rightarrow> sso_provider \<Rightarrow> discovery \<Rightarrow> string \<Rightarrow> string \<Rightarrow> token_request res" where
  "exchange_request v cr p d code verifier =
     (let plain = \<lparr>tk_endpoint = or_str (ds_token d) [], tk_code = code, tk_redirect = callback_url v (pv_id p),
            tk_clientId = pv_clientId p, tk_verifier = verifier, tk_secretPost = None, tk_secretBasic = None\<rparr> in
      if \<not> truthy (pv_secret p) then Inr plain
      else case decrypt cr (or_str (pv_secret p) []) of
        None \<Rightarrow> Inl (ServerError ''Encrypted value is invalid'')
      | Some secret \<Rightarrow> Inr (if ds_secretPost d then plain\<lparr>tk_secretPost := Some secret\<rparr> else plain\<lparr>tk_secretBasic := Some secret\<rparr>))"

definition exchange_code :: "sso_env \<Rightarrow> crypto \<Rightarrow> sso_provider \<Rightarrow> discovery \<Rightarrow> string \<Rightarrow> string \<Rightarrow> string res" where
  "exchange_code v cr p d code verifier =
     bindR (exchange_request v cr p d code verifier) (\<lambda>q.
     case post_token v q of
       None \<Rightarrow> Inl (ServerError ''fetch failed'')
     | Some (status, token) \<Rightarrow>
        bindR (need (http_ok status) (Unauthorized (''OIDC token exchange failed: '' @ dec status))) (\<lambda>_.
        bindR (need (truthy token) (Unauthorized ''Identity provider did not return an ID token'')) (\<lambda>_.
        Inr (or_str token []))))"

definition sso_account :: "string \<Rightarrow> string \<Rightarrow> sso_provider \<Rightarrow> string \<Rightarrow> id_claims \<Rightarrow> account" where
  "sso_account i email p c cl =
     \<lparr>ac_id = i, ac_email = email,
      ac_firstName = take 191 (or_str (cl_given cl) (or_str (cl_name cl) (hd (str_split (CHR ''@'') email)))),
      ac_lastName = take 191 (or_str (cl_family cl) ''User''), ac_phone = None, ac_jobTitle = None, ac_department = None,
      ac_location = None, ac_contact = None, ac_timezone = None, ac_role = js_upper (or_str (Some (pv_role p)) ''CLIENT''),
      ac_userType = ''BUSINESS'', ac_companyId = Some c, ac_emailVerified = True, ac_passwordHash = None, ac_isActive = True,
      ac_breakGlass = False, ac_authVersion = 0, ac_lastLoginAt = None, ac_mfaEnabled = False, ac_mfaSecret = None,
      ac_mfaPending = None, ac_recovery = [], ac_mfaAt = None, ac_verifyToken = None, ac_verifyExpires = None,
      ac_resetToken = None, ac_resetExpires = None\<rparr>"

definition resolve_user :: "auth_world \<Rightarrow> sso_provider \<Rightarrow> id_claims \<Rightarrow> ('r, account) sso" where
  "resolve_user w p cl =
     (let email = js_lower (js_trim (or_str (cl_email cl) [])) in
      bindE (guard (pv_domains p = [] \<or> sso_domain email \<in> set (pv_domains p)) (Unauthorized ''Email domain is not allowed for this provider'')) (\<lambda>_.
      bindE (reads (\<lambda>s. find (\<lambda>a. ac_email a = email \<and> ac_id a \<notin> set (so_deleted s)) (accounts (so_auth s)))) (\<lambda>u.
      case u of
        Some a \<Rightarrow>
          bindE (guard (ac_isActive a) (Unauthorized ''Account is inactive'')) (\<lambda>_.
          bindE (guard (\<not> (truthy (pv_companyId p) \<and> ac_companyId a \<noteq> pv_companyId p)) (Unauthorized ''Account belongs to another company'')) (\<lambda>_.
          ret a))
      | None \<Rightarrow>
          bindE (guard (pv_autoProvision p) (Unauthorized ''No account exists for this email address'')) (\<lambda>_.
          bindE (guard (truthy (pv_companyId p)) (Unauthorized ''Automatic provisioning requires a company-scoped provider'')) (\<lambda>_.
          let a = sso_account (uuid w 0) email p (or_str (pv_companyId p) []) cl in
          bindE (reads (\<lambda>s. list_ex (\<lambda>b. ac_id b = ac_id a \<or> ac_email b = ac_email a) (accounts (so_auth s)))) (\<lambda>taken.
          bindE (guard (\<not> taken) duplicate) (\<lambda>_.
          bindE (so_in_auth (writes (\<lambda>z. z\<lparr>accounts := accounts z @ [a]\<rparr>))) (\<lambda>_. ret a))))))))"

definition hardware_methods :: "string list" where
  "hardware_methods = [''fido'', ''webauthn'', ''hwk'']"

definition assert_required_mfa :: "string \<Rightarrow> id_claims \<Rightarrow> ('r, unit) sso" where
  "assert_required_mfa role cl =
     bindE (reads (\<lambda>s. (mfa_required role (so_auth s), sec_policy (so_auth s) \<noteq> None \<and> so_phishing s))) (\<lambda>(required, strict).
     let methods = map js_lower (cl_amr cl) in
     if \<not> required then ret ()
     else if role = ''SUPER_ADMIN'' \<and> strict then
       guard (list_ex (\<lambda>x. x \<in> set hardware_methods) methods) (Unauthorized ''Phishing-resistant MFA is required for super administrators'')
     else guard (list_ex (\<lambda>x. x \<in> set ([''mfa'', ''otp'', ''totp''] @ hardware_methods)) methods)
       (Unauthorized ''The identity provider did not confirm multi-factor authentication''))"

text \<open>The login code is \<open>rnd w 0\<close>; the result is the code and the path of the redirect.\<close>

definition sso_callback :: "sso_env \<Rightarrow> crypto \<Rightarrow> auth_world \<Rightarrow> string \<Rightarrow> string \<Rightarrow> string \<Rightarrow> ('r, string \<times> string) sso" where
  "sso_callback v cr w i code state =
     bindE (guard (code \<noteq> [] \<and> state \<noteq> []) (BadRequest ''OIDC callback is incomplete'')) (\<lambda>_.
     bindE (reads (\<lambda>s. find (\<lambda>x. ss_providerId x = i \<and> ss_hash x = sha256 cr state \<and> ss_expiresAt x > now w) (so_states s))) (\<lambda>st.
     case st of
       None \<Rightarrow> raise (Unauthorized ''OIDC state is invalid or expired'')
     | Some st \<Rightarrow>
        bindE (find_provider i) (\<lambda>p.
        bindE (of_res (discovery_of v (pv_issuer p))) (\<lambda>d.
        bindE (of_res (case decrypt cr (ss_verifier st) of None \<Rightarrow> Inl (ServerError ''Encrypted value is invalid'')
          | Some verifier \<Rightarrow> exchange_code v cr p d code verifier)) (\<lambda>token.
        bindE (of_res (verify_id_token v (now w) token p d (ss_nonce st))) (\<lambda>cl.
        bindE (resolve_user w p cl) (\<lambda>a.
        bindE (assert_required_mfa (ac_role a) cl) (\<lambda>_.
        bindE (reads (\<lambda>s. list_ex (\<lambda>x. lc_id x = uuid w 1 \<or> lc_hash x = sha256 cr (rnd w 0)) (so_codes s))) (\<lambda>taken.
        bindE (guard (\<not> taken) duplicate) (\<lambda>_.
        bindE (writes (\<lambda>s. s\<lparr>so_codes := so_codes s @ [\<lparr>lc_id = uuid w 1, lc_hash = sha256 cr (rnd w 0), lc_userId = ac_id a,
          lc_expiresAt = now w + minutes 2, lc_usedAt = None\<rparr>]\<rparr>)) (\<lambda>_.
        bindE (writes (\<lambda>s. s\<lparr>so_states := filter (\<lambda>x. ss_id x \<noteq> ss_id st) (so_states s)\<rparr>)) (\<lambda>_.
        ret (rnd w 0, or_str (Some (safe_redirect_path (Some (ss_redirect st)))) ''/dashboard'')))))))))))))"

definition consume_login_code :: "crypto \<Rightarrow> int \<Rightarrow> string \<Rightarrow> ('r, string) sso" where
  "consume_login_code cr t code =
     bindE (reads (\<lambda>s. case find (\<lambda>x. lc_hash x = sha256 cr code \<and> lc_usedAt x = None \<and> lc_expiresAt x > t
                 \<and> find_account (lc_userId x) (so_auth s) \<noteq> None) (so_codes s) of
            None \<Rightarrow> None
          | Some x \<Rightarrow> (case find_account (lc_userId x) (so_auth s) of
              None \<Rightarrow> None | Some a \<Rightarrow> if ac_isActive a then Some x else None))) (\<lambda>hit.
     case hit of
       None \<Rightarrow> raise (Unauthorized ''SSO login code is invalid or expired'')
     | Some x \<Rightarrow>
        bindE (reads (\<lambda>s. list_ex (\<lambda>y. lc_id y = lc_id x \<and> lc_usedAt y = None) (so_codes s))) (\<lambda>free.
        bindE (writes (\<lambda>s. s\<lparr>so_codes := map (\<lambda>y. if lc_id y = lc_id x \<and> lc_usedAt y = None then y\<lparr>lc_usedAt := Some t\<rparr> else y) (so_codes s)\<rparr>)) (\<lambda>_.
        bindE (guard free (Unauthorized ''SSO login code was already used'')) (\<lambda>_.
        ret (lc_userId x)))))"

text \<open>The route \<open>sso/exchange\<close>.\<close>

definition exchange_sso :: "crypto \<Rightarrow> auth_world \<Rightarrow> string \<Rightarrow> session_ctx \<Rightarrow> ('r, sign_in) sso" where
  "exchange_sso cr w code x =
     bindE (consume_login_code cr (now w) code) (\<lambda>userId. so_in_auth (complete_sso cr w userId x True))"

section \<open>Passkeys\<close>

definition rp_id :: "sso_env \<Rightarrow> string" where
  "rp_id v = (if truthy (rp_name v) then or_str (rp_name v) []
     else case url_of v (frontend v) of None \<Rightarrow> [] | Some u \<Rightarrow> ur_host u)"

definition passkey_origins :: "sso_env \<Rightarrow> string list" where
  "passkey_origins v = filter (\<lambda>x. x \<noteq> []) (map js_trim (str_split (CHR '','') (or_str (rp_origins v) (frontend v))))"

definition save_challenge :: "auth_world \<Rightarrow> string option \<Rightarrow> string \<Rightarrow> ('r, string \<times> string) sso" where
  "save_challenge w userId purpose =
     bindE (reads (\<lambda>s. list_ex (\<lambda>c. pc_id c = uuid w 0) (so_challenges s))) (\<lambda>taken.
     bindE (guard (\<not> taken) duplicate) (\<lambda>_.
     bindE (writes (\<lambda>s. s\<lparr>so_challenges := so_challenges s @ [\<lparr>pc_id = uuid w 0, pc_userId = userId, pc_purpose = purpose,
       pc_challenge = rnd w 0, pc_expiresAt = now w + minutes 5, pc_usedAt = None\<rparr>]\<rparr>)) (\<lambda>_.
     ret (uuid w 0, rnd w 0))))"

definition open_challenge :: "int \<Rightarrow> pk_challenge \<Rightarrow> bool" where
  "open_challenge t c \<longleftrightarrow> pc_usedAt c = None \<and> pc_expiresAt c > t"

definition get_challenge :: "int \<Rightarrow> string \<Rightarrow> string \<Rightarrow> string option \<Rightarrow> ('r, pk_challenge) sso" where
  "get_challenge t i purpose userId =
     bindE (reads (\<lambda>s. find (\<lambda>c. pc_id c = i \<and> pc_purpose c = purpose \<and> open_challenge t c \<and> (\<not> truthy userId \<or> pc_userId c = userId))
       (so_challenges s))) (\<lambda>c.
     case c of None \<Rightarrow> raise (BadRequest ''Passkey challenge is invalid or expired'') | Some x \<Rightarrow> ret x)"

definition consume_challenge :: "int \<Rightarrow> string \<Rightarrow> ('r, unit) sso" where
  "consume_challenge t i =
     bindE (reads (\<lambda>s. list_ex (\<lambda>c. pc_id c = i \<and> open_challenge t c) (so_challenges s))) (\<lambda>hit.
     bindE (writes (\<lambda>s. s\<lparr>so_challenges := map (\<lambda>c. if pc_id c = i \<and> open_challenge t c then c\<lparr>pc_usedAt := Some t\<rparr> else c) (so_challenges s)\<rparr>)) (\<lambda>_.
     guard hit (BadRequest ''Passkey challenge has already been used'')))"

definition passkey_audit :: "string \<Rightarrow> string \<Rightarrow> string \<Rightarrow> ('r, unit) sso" where
  "passkey_audit userId action i = writes (\<lambda>s. if find_account userId (so_auth s) = None then s
     else s\<lparr>so_audit := so_audit s @ [(userId, action, i)]\<rparr>)"

definition registration_options :: "auth_world \<Rightarrow> string \<Rightarrow> ('r, string list \<times> string \<times> string) sso" where
  "registration_options w userId =
     bindE (reads (\<lambda>s. map pk_credential (sort_key (\<lambda>k. - pk_createdAt k) (filter (\<lambda>k. pk_userId k = userId) (so_passkeys s))))) (\<lambda>known.
     bindE (save_challenge w (Some userId) ''REGISTER'') (\<lambda>c. ret (known, c)))"

definition verify_registration :: "sso_env \<Rightarrow> auth_world \<Rightarrow> string \<Rightarrow> string \<Rightarrow> passkey_response \<Rightarrow> string option \<Rightarrow> ('r, string) sso" where
  "verify_registration v w userId challengeId response name =
     bindE (get_challenge (now w) challengeId ''REGISTER'' (Some userId)) (\<lambda>c.
     case attested v response (pc_challenge c) (passkey_origins v) (rp_id v) of
       None \<Rightarrow> raise (BadRequest ''Passkey registration could not be verified'')
     | Some info \<Rightarrow>
        bindE (consume_challenge (now w) challengeId) (\<lambda>_.
        bindE (reads (\<lambda>s. list_ex (\<lambda>k. pk_id k = uuid w 0 \<or> pk_credential k = pi_id info) (so_passkeys s))) (\<lambda>taken.
        bindE (guard (\<not> taken) (BadRequest ''This passkey is already registered'')) (\<lambda>_.
        bindE (writes (\<lambda>s. s\<lparr>so_passkeys := so_passkeys s @ [\<lparr>pk_id = uuid w 0, pk_userId = userId, pk_credential = pi_id info,
          pk_key = pi_key info, pk_counter = pi_counter info, pk_name = or_str (trim_or_null name) ''Passkey'',
          pk_createdAt = now w, pk_lastUsedAt = None\<rparr>]\<rparr>)) (\<lambda>_.
        bindE (passkey_audit userId ''PASSKEY_REGISTERED'' (uuid w 0)) (\<lambda>_.
        ret (uuid w 0)))))))"

definition authentication_options :: "auth_world \<Rightarrow> ('r, string \<times> string) sso" where
  "authentication_options w = save_challenge w None ''AUTHENTICATE''"

definition verify_authentication :: "sso_env \<Rightarrow> int \<Rightarrow> string \<Rightarrow> passkey_response \<Rightarrow> ('r, string) sso" where
  "verify_authentication v t challengeId response =
     bindE (get_challenge t challengeId ''AUTHENTICATE'' None) (\<lambda>c.
     bindE (reads (\<lambda>s. case find (\<lambda>k. pk_credential k = pr_id response \<and> find_account (pk_userId k) (so_auth s) \<noteq> None) (so_passkeys s) of
            None \<Rightarrow> None
          | Some k \<Rightarrow> (case find_account (pk_userId k) (so_auth s) of None \<Rightarrow> None | Some a \<Rightarrow> if ac_isActive a then Some k else None))) (\<lambda>hit.
     case hit of
       None \<Rightarrow> raise (Unauthorized ''Passkey authentication failed'')
     | Some k \<Rightarrow>
        (case asserted v response (pc_challenge c) (passkey_origins v) (rp_id v) (pk_key k) (pk_counter k) of
           None \<Rightarrow> raise (Unauthorized ''Passkey authentication failed'')
         | Some counter \<Rightarrow>
            bindE (consume_challenge t challengeId) (\<lambda>_.
            bindE (writes (\<lambda>s. s\<lparr>so_passkeys := map (\<lambda>x. if pk_id x = pk_id k then x\<lparr>pk_counter := counter, pk_lastUsedAt := Some t\<rparr> else x)
              (so_passkeys s)\<rparr>)) (\<lambda>_.
            bindE (passkey_audit (pk_userId k) ''PASSKEY_AUTHENTICATED'' (pk_id k)) (\<lambda>_.
            ret (pk_userId k)))))))"

text \<open>The route \<open>passkeys/authenticate\<close>.\<close>

definition authenticate_passkey :: "sso_env \<Rightarrow> crypto \<Rightarrow> auth_world \<Rightarrow> string \<Rightarrow> passkey_response \<Rightarrow> session_ctx \<Rightarrow> ('r, sign_in) sso" where
  "authenticate_passkey v cr w challengeId response x =
     bindE (verify_authentication v (now w) challengeId response) (\<lambda>userId. so_in_auth (complete_passkey cr w userId x))"

definition list_passkeys :: "string \<Rightarrow> 'r sso_db_scheme \<Rightarrow> passkey list" where
  "list_passkeys userId s = sort_key (\<lambda>k. - pk_createdAt k) (filter (\<lambda>k. pk_userId k = userId) (so_passkeys s))"

definition rename_passkey :: "string \<Rightarrow> string \<Rightarrow> string \<Rightarrow> ('r, unit) sso" where
  "rename_passkey userId i name =
     bindE (reads (\<lambda>s. list_ex (\<lambda>k. pk_id k = i \<and> pk_userId k = userId) (so_passkeys s))) (\<lambda>hit.
     bindE (writes (\<lambda>s. s\<lparr>so_passkeys := map (\<lambda>k. if pk_id k = i \<and> pk_userId k = userId then k\<lparr>pk_name := js_trim name\<rparr> else k) (so_passkeys s)\<rparr>)) (\<lambda>_.
     bindE (guard hit (BadRequest ''Passkey not found'')) (\<lambda>_.
     passkey_audit userId ''PASSKEY_RENAMED'' i)))"

definition remove_passkey :: "string \<Rightarrow> string \<Rightarrow> ('r, unit) sso" where
  "remove_passkey userId i =
     bindE (reads (\<lambda>s. list_ex (\<lambda>k. pk_id k = i \<and> pk_userId k = userId) (so_passkeys s))) (\<lambda>hit.
     bindE (writes (\<lambda>s. s\<lparr>so_passkeys := filter (\<lambda>k. \<not> (pk_id k = i \<and> pk_userId k = userId)) (so_passkeys s)\<rparr>)) (\<lambda>_.
     bindE (guard hit (BadRequest ''Passkey not found'')) (\<lambda>_.
     passkey_audit userId ''PASSKEY_REMOVED'' i)))"

end
