(* ===== verification/Platform_Security.thy ===== *)
theory Platform_Security
  imports Sso
begin

text \<open>
  \<open>platform-security/platform-security.service.ts\<close>: the security policy with its history,
  the identity providers of single sign-on, backups with their restore drill, data
  retention and the nightly job. The decisions on network actions of the same service are
  in the theory of devices. A backup is two steps, its start and its end, so that calls can
  come between them; files, the object store and the archive format are parameters, and
  restored values are kept as texts. Numbers of a request are \<open>None\<close> when \<open>Number\<close> gives NaN.
\<close>

record security_dto =
  sd_mfaSuper :: "bool option"
  sd_mfaTenant :: "bool option"
  sd_mfaTech :: "bool option"
  sd_phishing :: "bool option"
  sd_lifetime :: "int option"
  sd_maxActive :: "int option"
  sd_network :: "bool option"

record policy_snapshot =
  sn_id :: string
  sn_policy :: security_dto
  sn_createdById :: string

record backup_policy =
  bp_enabled :: bool
  bp_day :: int
  bp_hour :: int
  bp_keep :: int
  bp_lastRunAt :: "int option"

record backup_run =
  bk_id :: string
  bk_status :: string
  bk_startedAt :: int
  bk_path :: "string option"
  bk_key :: "string option"
  bk_checksum :: "string option"
  bk_tested :: "string option"

record retention_policy =
  re_enabled :: bool
  re_session :: int
  re_audit :: int
  re_error :: int
  re_email :: int
  re_snapshot :: int
  re_syslog :: int

text \<open>The tables that only retention touches are the times of their rows.\<close>

record plat_db = sso_db +
  pl_network :: bool
  pl_snapshots :: "policy_snapshot list"
  pl_closed :: "string list"
  pl_backup :: "backup_policy option"
  pl_runs :: "backup_run list"
  pl_running :: bool
  pl_retention :: "retention_policy option"
  pl_audit :: "int list"
  pl_errors :: "int list"
  pl_tracking :: "int list"
  pl_health :: "int list"
  pl_syslog :: "int list"
  pl_jobs :: "(string \<times> string) list"

type_synonym 'a plat = "(plat_db, 'a) act"

definition clamp_int :: "int option \<Rightarrow> int \<Rightarrow> int \<Rightarrow> int \<Rightarrow> int" where
  "clamp_int x lo hi d = (case x of None \<Rightarrow> d | Some n \<Rightarrow> min (max n lo) hi)"

definition flag_or :: "bool option \<Rightarrow> bool \<Rightarrow> bool" where
  "flag_or x d = (case x of None \<Rightarrow> d | Some b \<Rightarrow> b)"

definition assert_super :: "principal \<Rightarrow> 'a plat \<Rightarrow> 'a plat" where
  "assert_super u m = bindE (guard (p_role u = ''SUPER_ADMIN'') (Forbidden ''Super administrator access is required'')) (\<lambda>_. m)"

section \<open>The security policy\<close>

definition current_policy :: "plat_db \<Rightarrow> security_dto" where
  "current_policy s =
     (case sec_policy (so_auth s) of
        None \<Rightarrow> \<lparr>sd_mfaSuper = None, sd_mfaTenant = None, sd_mfaTech = None, sd_phishing = None, sd_lifetime = None,
          sd_maxActive = None, sd_network = None\<rparr>
      | Some p \<Rightarrow> \<lparr>sd_mfaSuper = Some (sp_mfaSuper p), sd_mfaTenant = Some (sp_mfaTenant p), sd_mfaTech = Some (sp_mfaTech p),
          sd_phishing = Some (so_phishing s), sd_lifetime = Some (sp_lifetime p), sd_maxActive = Some (sp_maxActive p),
          sd_network = Some (pl_network s)\<rparr>)"

text \<open>The \<open>UPDATE\<close>, which needs the row.\<close>

definition write_policy :: "security_dto \<Rightarrow> unit plat" where
  "write_policy d =
     writes (\<lambda>s. if sec_policy (so_auth s) = None then s
       else s\<lparr>so_auth := (so_auth s)\<lparr>sec_policy := Some \<lparr>sp_lifetime = clamp_int (sd_lifetime d) 1 30 7,
           sp_maxActive = clamp_int (sd_maxActive d) 1 50 10, sp_mfaSuper = flag_or (sd_mfaSuper d) False,
           sp_mfaTenant = flag_or (sd_mfaTenant d) False, sp_mfaTech = flag_or (sd_mfaTech d) False\<rparr>\<rparr>,
         so_phishing := flag_or (sd_phishing d) False, pl_network := flag_or (sd_network d) True\<rparr>)"

text \<open>A failing insert is swallowed.\<close>

definition snapshot_policy :: "string \<Rightarrow> string \<Rightarrow> unit plat" where
  "snapshot_policy i actor =
     writes (\<lambda>s. if list_ex (\<lambda>x. sn_id x = i) (pl_snapshots s) then s
       else s\<lparr>pl_snapshots := pl_snapshots s @ [\<lparr>sn_id = i, sn_policy = current_policy s, sn_createdById = actor\<rparr>]\<rparr>)"

definition update_security_policy :: "world \<Rightarrow> principal \<Rightarrow> security_dto \<Rightarrow> security_dto plat" where
  "update_security_policy w u d =
     assert_super u (bindE (snapshot_policy (uuid w 0) (p_id u)) (\<lambda>_. bindE (write_policy d) (\<lambda>_. reads current_policy)))"

definition rollback_security_policy :: "world \<Rightarrow> principal \<Rightarrow> string \<Rightarrow> security_dto plat" where
  "rollback_security_policy w u i =
     assert_super u (
       bindE (reads (\<lambda>s. find (\<lambda>x. sn_id x = i) (pl_snapshots s))) (\<lambda>x.
       case x of
         None \<Rightarrow> raise (NotFound ''Policy snapshot not found'')
       | Some x \<Rightarrow>
          bindE (snapshot_policy (uuid w 0) (p_id u)) (\<lambda>_.
          bindE (write_policy (sn_policy x)) (\<lambda>_. reads current_policy))))"

section \<open>Identity providers\<close>

datatype domain_input = DomainItems "string list" | DomainText string

fun domain_list :: "domain_input \<Rightarrow> string list" where
  "domain_list (DomainItems xs) = filter (\<lambda>x. x \<noteq> []) (map (\<lambda>x. js_lower (js_trim x)) xs)"
| "domain_list (DomainText x) = filter (\<lambda>x. x \<noteq> []) (map (\<lambda>x. js_lower (js_trim x)) (str_split (CHR '','') x))"

record provider_dto =
  od_companyId :: "string option"
  od_name :: string
  od_issuer :: string
  od_clientId :: string
  od_domains :: domain_input
  od_role :: "string option"
  od_auto :: bool
  od_enabled :: bool
  od_secret :: "string option"

definition scope_company :: "principal \<Rightarrow> string option" where
  "scope_company u = or_null (or_opt (p_effective u) (p_companyId u))"

definition validate_issuer_url :: "sso_env \<Rightarrow> string \<Rightarrow> url_parts res" where
  "validate_issuer_url v issuer =
     (case url_of v issuer of
        None \<Rightarrow> Inl (BadRequest ''OIDC issuer must be a valid URL'')
      | Some u \<Rightarrow>
         bindR (need (ur_protocol u = ''https:'' \<or> local_development v u) (BadRequest ''OIDC issuer must use HTTPS'')) (\<lambda>_.
         bindR (need (ur_bare u) (BadRequest ''OIDC issuer URL is invalid'')) (\<lambda>_. Inr u)))"

definition assert_oidc_access :: "principal \<Rightarrow> string \<Rightarrow> sso_provider plat" where
  "assert_oidc_access u i =
     bindE (reads (\<lambda>s. find (\<lambda>p. pv_id p = i) (so_providers s))) (\<lambda>p.
     case p of
       None \<Rightarrow> raise (NotFound ''OIDC provider not found'')
     | Some p \<Rightarrow>
        bindE (guard (\<not> (p_role u \<noteq> ''SUPER_ADMIN'' \<and> pv_companyId p \<noteq> scope_company u)) (Forbidden [])) (\<lambda>_.
        bindE (guard (\<not> (p_role u = ''SUPER_ADMIN'' \<and> scope_company u \<noteq> None \<and> pv_companyId p \<noteq> scope_company u)) (Forbidden [])) (\<lambda>_.
        ret p)))"

definition list_oidc_providers :: "principal \<Rightarrow> plat_db \<Rightarrow> sso_provider list" where
  "list_oidc_providers u s =
     sort_key pv_name (filter (\<lambda>p. case scope_company u of Some c \<Rightarrow> pv_companyId p = Some c | None \<Rightarrow> p_role u = ''SUPER_ADMIN'')
       (so_providers s))"

definition provider_company :: "principal \<Rightarrow> provider_dto \<Rightarrow> string option" where
  "provider_company u d = (if p_role u = ''SUPER_ADMIN'' then or_opt (od_companyId d) (scope_company u) else p_companyId u)"

text \<open>The columns the request asks for, and the checks they pass before anything is read of the row.\<close>

definition draft_provider :: "principal \<Rightarrow> provider_dto \<Rightarrow> sso_provider" where
  "draft_provider u d =
     \<lparr>pv_id = [], pv_companyId = provider_company u d, pv_name = js_trim (od_name d), pv_issuer = strip_slashes (js_trim (od_issuer d)),
      pv_clientId = js_trim (od_clientId d), pv_secret = None, pv_domains = domain_list (od_domains d), pv_autoProvision = od_auto d,
      pv_role = js_upper (or_str (od_role d) ''CLIENT''), pv_enabled = od_enabled d, pv_testStatus = None\<rparr>"

definition check_provider :: "sso_env \<Rightarrow> principal \<Rightarrow> sso_provider \<Rightarrow> unit plat" where
  "check_provider v u q =
     bindE (guard (p_role u \<in> {''SUPER_ADMIN'', ''TENANT_ADMIN''}) (Forbidden [])) (\<lambda>_.
     bindE (guard (pv_name q \<noteq> [] \<and> pv_issuer q \<noteq> [] \<and> pv_clientId q \<noteq> []) (BadRequest ''Name, issuer, and client ID are required'')) (\<lambda>_.
     bindE (of_res (validate_issuer_url v (pv_issuer q))) (\<lambda>_.
     bindE (guard (pv_role q \<in> {''CLIENT'', ''TECHNICIAN''} \<or> (pv_role q = ''TENANT_ADMIN'' \<and> p_role u = ''SUPER_ADMIN''))
       (BadRequest ''Default SSO role is not allowed'')) (\<lambda>_.
     bindE (reads (\<lambda>s. truthy (pv_companyId q) \<longrightarrow>
       list_ex (\<lambda>x. Some (tn_id x) = pv_companyId q \<and> tn_isActive x \<and> tn_id x \<notin> set (pl_closed s)) (tenants (so_auth s)))) (\<lambda>available.
     bindE (guard available (BadRequest ''SSO company is not available'')) (\<lambda>_.
     guard (\<not> (pv_autoProvision q \<and> (\<not> truthy (pv_companyId q) \<or> pv_domains q = [])))
       (BadRequest ''Automatic provisioning requires a company and at least one allowed email domain'')))))))"

definition sealed_secret :: "crypto \<Rightarrow> provider_dto \<Rightarrow> string option" where
  "sealed_secret cr d = (if truthy (od_secret d) then Some (encrypt cr (or_str (od_secret d) [])) else None)"

definition rewritten_provider :: "crypto \<Rightarrow> provider_dto \<Rightarrow> sso_provider \<Rightarrow> bool \<Rightarrow> sso_provider \<Rightarrow> sso_provider" where
  "rewritten_provider cr d q identityChanged p = q\<lparr>pv_id := pv_id p,
     pv_secret := (if truthy (od_secret d) then sealed_secret cr d else pv_secret p),
     pv_testStatus := (if identityChanged then None else pv_testStatus p)\<rparr>"

definition replace_provider :: "crypto \<Rightarrow> principal \<Rightarrow> provider_dto \<Rightarrow> sso_provider \<Rightarrow> string \<Rightarrow> unit plat" where
  "replace_provider cr u d q i =
     bindE (assert_oidc_access u i) (\<lambda>p.
     let changed = pv_issuer p \<noteq> pv_issuer q \<or> pv_clientId p \<noteq> pv_clientId q in
     bindE (guard (\<not> (pv_enabled q \<and> (changed \<or> pv_testStatus p \<noteq> Some ''PASS''))) (BadRequest ''Test OIDC discovery successfully before enabling this provider'')) (\<lambda>_.
     writes (\<lambda>s. s\<lparr>so_providers := map (\<lambda>p. if pv_id p = i then rewritten_provider cr d q changed p else p) (so_providers s)\<rparr>)))"

definition insert_provider :: "crypto \<Rightarrow> provider_dto \<Rightarrow> sso_provider \<Rightarrow> string \<Rightarrow> unit plat" where
  "insert_provider cr d q i =
     bindE (guard (\<not> pv_enabled q) (BadRequest ''Save and test the provider before enabling it'')) (\<lambda>_.
     bindE (reads (\<lambda>s. list_ex (\<lambda>p. pv_id p = i) (so_providers s))) (\<lambda>taken.
     bindE (guard (\<not> taken) duplicate) (\<lambda>_.
     writes (\<lambda>s. s\<lparr>so_providers := so_providers s @ [q\<lparr>pv_id := i, pv_secret := sealed_secret cr d\<rparr>]\<rparr>))))"

definition save_oidc_provider :: "sso_env \<Rightarrow> crypto \<Rightarrow> world \<Rightarrow> principal \<Rightarrow> provider_dto \<Rightarrow> string option \<Rightarrow> string plat" where
  "save_oidc_provider v cr w u d i =
     (let q = draft_provider u d in
      bindE (check_provider v u q) (\<lambda>_.
      if truthy i then bindE (replace_provider cr u d q (or_str i [])) (\<lambda>_. ret (or_str i []))
      else bindE (insert_provider cr d q (uuid w 0)) (\<lambda>_. ret (uuid w 0))))"

definition issuer_network :: "sso_env \<Rightarrow> url_parts \<Rightarrow> unit res" where
  "issuer_network v u =
     (if allow_private v \<or> local_development v u then Inr ()
      else case (if ipv4_of (str_split (CHR ''.'') (ur_host u)) \<noteq> None \<or> is_ip6 v (ur_host u)
                 then Some [ur_host u] else addresses_of v (ur_host u)) of
        None \<Rightarrow> Inl (ServerError ''getaddrinfo'')
      | Some hosts \<Rightarrow> need (hosts \<noteq> [] \<and> \<not> list_ex is_private_address hosts)
          (BadRequest ''OIDC issuer resolves to a private or reserved network address''))"

definition provider_endpoint :: "sso_env \<Rightarrow> string \<Rightarrow> unit res" where
  "provider_endpoint v x =
     (case url_of v x of
        None \<Rightarrow> Inl (BadRequest ''OIDC discovery returned an invalid endpoint URL'')
      | Some u \<Rightarrow> bindR (need (ur_protocol u = ''https:'' \<or> local_development v u) (BadRequest ''OIDC endpoints must use HTTPS''))
          (\<lambda>_. issuer_network v u))"

definition fetch_oidc_discovery :: "sso_env \<Rightarrow> string \<Rightarrow> discovery res" where
  "fetch_oidc_discovery v issuer =
     bindR (validate_issuer_url v issuer) (\<lambda>u.
     bindR (issuer_network v u) (\<lambda>_.
     case discover v (issuer @ ''/.well-known/openid-configuration'') of
       None \<Rightarrow> Inl (ServerError ''fetch failed'')
     | Some (status, d) \<Rightarrow>
        bindR (need (http_ok status) (ServerError (''Discovery endpoint returned HTTP '' @ dec status))) (\<lambda>_.
        bindR (case find (\<lambda>f. \<not> truthy (snd f)) (discovery_fields d) of None \<Rightarrow> Inr ()
          | Some f \<Rightarrow> Inl (ServerError (''Discovery response is missing '' @ fst f))) (\<lambda>_.
        bindR (need (strip_slashes (or_str (ds_issuer d) []) = strip_slashes issuer) (ServerError ''Discovery issuer does not match configured issuer'')) (\<lambda>_.
        bindR (provider_endpoint v (or_str (ds_authorization d) [])) (\<lambda>_.
        bindR (provider_endpoint v (or_str (ds_token d) [])) (\<lambda>_.
        bindR (provider_endpoint v (or_str (ds_jwks d) [])) (\<lambda>_. Inr d))))))))"

definition set_test_status :: "string \<Rightarrow> string \<Rightarrow> unit plat" where
  "set_test_status i status = writes (\<lambda>s. s\<lparr>so_providers := map (\<lambda>p. if pv_id p = i then p\<lparr>pv_testStatus := Some status\<rparr> else p) (so_providers s)\<rparr>)"

definition test_oidc_provider :: "sso_env \<Rightarrow> principal \<Rightarrow> string \<Rightarrow> discovery plat" where
  "test_oidc_provider v u i =
     bindE (assert_oidc_access u i) (\<lambda>p.
     case fetch_oidc_discovery v (pv_issuer p) of
       Inr d \<Rightarrow> bindE (set_test_status i ''PASS'') (\<lambda>_. ret d)
     | Inl e \<Rightarrow> bindE (set_test_status i ''FAIL'') (\<lambda>_. raise (BadRequest ''OIDC discovery failed'')))"

definition delete_oidc_provider :: "principal \<Rightarrow> string \<Rightarrow> unit plat" where
  "delete_oidc_provider u i =
     bindE (assert_oidc_access u i) (\<lambda>_. writes (\<lambda>s. s\<lparr>so_providers := filter (\<lambda>p. pv_id p \<noteq> i) (so_providers s)\<rparr>))"

section \<open>Backups\<close>

record backup_policy_dto =
  bd_enabled :: "bool option"
  bd_day :: "int option"
  bd_hour :: "int option"
  bd_keep :: "int option"

definition update_backup_policy :: "principal \<Rightarrow> backup_policy_dto \<Rightarrow> backup_policy option plat" where
  "update_backup_policy u d =
     assert_super u (
       bindE (writes (\<lambda>s. s\<lparr>pl_backup := map_option (\<lambda>b. b\<lparr>bp_enabled := flag_or (bd_enabled d) False, bp_day := clamp_int (bd_day d) 0 6 0,
         bp_hour := clamp_int (bd_hour d) 0 23 3, bp_keep := clamp_int (bd_keep d) 1 30 4\<rparr>) (pl_backup s)\<rparr>)) (\<lambda>_. reads pl_backup))"

text \<open>What the archive step produces: the path, the key of the object store and the checksum.\<close>

record artifact =
  at_path :: string
  at_key :: string
  at_checksum :: string

definition record_job :: "string \<Rightarrow> string \<Rightarrow> unit plat" where
  "record_job name status = writes (\<lambda>s. s\<lparr>pl_jobs := pl_jobs s @ [(name, status)]\<rparr>)"

definition start_backup :: "world \<Rightarrow> string plat" where
  "start_backup w =
     bindE (reads pl_running) (\<lambda>busy.
     bindE (guard (\<not> busy) (BadRequest ''A backup is already running'')) (\<lambda>_.
     bindE (writes (\<lambda>s. s\<lparr>pl_running := True\<rparr>)) (\<lambda>_.
     bindE (reads (\<lambda>s. list_ex (\<lambda>b. bk_id b = uuid w 0) (pl_runs s))) (\<lambda>taken.
     bindE (guard (\<not> taken) duplicate) (\<lambda>_.
     bindE (writes (\<lambda>s. s\<lparr>pl_runs := pl_runs s @ [\<lparr>bk_id = uuid w 0, bk_status = ''RUNNING'', bk_startedAt = now w, bk_path = None,
       bk_key = None, bk_checksum = None, bk_tested = None\<rparr>]\<rparr>)) (\<lambda>_.
     ret (uuid w 0)))))))"

definition set_run :: "string \<Rightarrow> (backup_run \<Rightarrow> backup_run) \<Rightarrow> unit plat" where
  "set_run i f = writes (\<lambda>s. s\<lparr>pl_runs := map (\<lambda>b. if bk_id b = i then f b else b) (pl_runs s)\<rparr>)"

definition kept_runs :: "plat_db \<Rightarrow> nat" where
  "kept_runs s = (case pl_backup s of None \<Rightarrow> 4 | Some b \<Rightarrow> if bp_keep b = 0 then 4 else nat (bp_keep b))"

text \<open>The completed runs past the newest ones, newest first.\<close>

definition stale_runs :: "plat_db \<Rightarrow> backup_run list" where
  "stale_runs s = drop (kept_runs s) (sort_key (\<lambda>b. - bk_startedAt b) (filter (\<lambda>b. bk_status b = ''COMPLETED'') (pl_runs s)))"

text \<open>\<open>gone\<close> says whether the object store deletes a key; a policy row is required.\<close>

definition prune_run :: "bool \<Rightarrow> (string \<Rightarrow> bool) \<Rightarrow> backup_run \<Rightarrow> unit plat" where
  "prune_run store gone b =
     bindE (guard (\<not> (truthy (bk_key b) \<and> store \<and> \<not> gone (or_str (bk_key b) []))) (ServerError ''delete failed'')) (\<lambda>_.
     writes (\<lambda>s. s\<lparr>pl_runs := filter (\<lambda>x. bk_id x \<noteq> bk_id b) (pl_runs s)\<rparr>))"

definition prune_backups :: "bool \<Rightarrow> (string \<Rightarrow> bool) \<Rightarrow> unit plat" where
  "prune_backups store gone =
     bindE (reads (\<lambda>s. (pl_backup s, stale_runs s))) (\<lambda>(policy, stale).
     bindE (guard (policy \<noteq> None) (ServerError ''TypeError'')) (\<lambda>_. forE stale (prune_run store gone)))"

text \<open>\<open>store\<close>: the object store is configured; \<open>made\<close>: the archive, or the error that stopped it;
  \<open>put\<close>: the upload succeeds.\<close>

definition store_backup :: "int \<Rightarrow> bool \<Rightarrow> string + artifact \<Rightarrow> bool \<Rightarrow> (string \<Rightarrow> bool) \<Rightarrow> string \<Rightarrow> unit plat" where
  "store_backup t store made put gone i =
     (case made of
        Inl e \<Rightarrow> raise (ServerError e)
      | Inr a \<Rightarrow>
         bindE (guard store (ServerError ''Off-site backup storage is not configured'')) (\<lambda>_.
         bindE (guard put (ServerError ''upload failed'')) (\<lambda>_.
         bindE (set_run i (\<lambda>b. b\<lparr>bk_status := ''COMPLETED'', bk_path := Some (at_path a), bk_key := Some (at_key a),
           bk_checksum := Some (at_checksum a)\<rparr>)) (\<lambda>_.
         bindE (writes (\<lambda>s. s\<lparr>pl_backup := map_option (\<lambda>b. b\<lparr>bp_lastRunAt := Some t\<rparr>) (pl_backup s)\<rparr>)) (\<lambda>_.
         bindE (prune_backups store gone) (\<lambda>_.
         record_job ''encrypted-database-backup'' ''PASS''))))))"

definition finish_backup :: "int \<Rightarrow> bool \<Rightarrow> string + artifact \<Rightarrow> bool \<Rightarrow> (string \<Rightarrow> bool) \<Rightarrow> string \<Rightarrow> backup_run plat" where
  "finish_backup t store made put gone i =
     catchE
       (bindE (store_backup t store made put gone i) (\<lambda>_.
        bindE (reads (\<lambda>s. find (\<lambda>b. bk_id b = i) (pl_runs s))) (\<lambda>b.
        bindE (of_res (case b of None \<Rightarrow> Inl (NotFound ''Backup run not found'') | Some x \<Rightarrow> Inr x)) (\<lambda>b.
        bindE (writes (\<lambda>s. s\<lparr>pl_running := False\<rparr>)) (\<lambda>_. ret (b\<lparr>bk_path := None, bk_key := None\<rparr>))))))
       (\<lambda>e. bindE (set_run i (\<lambda>b. b\<lparr>bk_status := ''FAILED''\<rparr>)) (\<lambda>_.
            bindE (record_job ''encrypted-database-backup'' ''FAIL'') (\<lambda>_.
            bindE (writes (\<lambda>s. s\<lparr>pl_running := False\<rparr>)) (\<lambda>_. raise e))))"

section \<open>The restore drill\<close>

type_synonym table_row = "(string \<times> string) list"

definition sql_name :: "string \<Rightarrow> bool" where
  "sql_name x \<longleftrightarrow> x \<noteq> [] \<and> list_all (\<lambda>c. ch_lower_alnum (ch_lower c) \<or> c = CHR ''_'') x"

definition batch_size :: "nat \<Rightarrow> nat" where
  "batch_size n = max 1 (min 100 (5000 div n))"

function batches :: "nat \<Rightarrow> 'a list \<Rightarrow> 'a list list" where
  "batches n xs = (if xs = [] \<or> n = 0 then [] else take n xs # batches n (drop n xs))"
  by pat_completeness auto
termination by (relation "measure (\<lambda>(n, xs). length xs)") auto

declare batches.simps [simp del]

text \<open>The rows one temporary table receives, batch after batch; a missing column is \<open>null\<close>.\<close>

definition restore_table :: "string \<times> table_row list \<Rightarrow> (string option list list) res" where
  "restore_table t =
     bindR (need (sql_name (fst t)) (ServerError (''Backup table '' @ fst t @ '' is invalid''))) (\<lambda>_.
     case snd t of
       [] \<Rightarrow> Inr []
     | r # _ \<Rightarrow>
        (let cols = map fst r in
         bindR (need (cols \<noteq> [] \<and> list_all sql_name cols) (ServerError (''Backup columns for '' @ fst t @ '' are invalid''))) (\<lambda>_.
         Inr (concat (map (map (\<lambda>row. map (map_of row) cols)) (batches (batch_size (length cols)) (snd t)))))))"

definition restored_rows :: "(string \<times> table_row list) \<Rightarrow> nat res" where
  "restored_rows t =
     bindR (restore_table t) (\<lambda>loaded.
     bindR (need (length loaded = length (snd t)) (ServerError (''Restore row count mismatch for '' @ fst t))) (\<lambda>_. Inr (length loaded)))"

fun restore_session :: "(string \<times> table_row list) list \<Rightarrow> nat res" where
  "restore_session [] = Inr 0"
| "restore_session (t # ts) = bindR (restored_rows t) (\<lambda>n. bindR (restore_session ts) (\<lambda>m. Inr (n + m)))"

text \<open>\<open>fetch\<close> reads the archive of a run, \<open>unpack\<close> decrypts and parses it.\<close>

definition test_backup :: "(string \<Rightarrow> string) \<Rightarrow> (backup_run \<Rightarrow> string option)
    \<Rightarrow> (string \<Rightarrow> (string \<times> (string \<times> table_row list) list) option) \<Rightarrow> string \<Rightarrow> nat plat" where
  "test_backup checksum fetch unpack i =
     bindE (reads (\<lambda>s. find (\<lambda>b. bk_id b = i) (pl_runs s))) (\<lambda>b.
     case b of
       None \<Rightarrow> raise (NotFound ''Backup run not found'')
     | Some b \<Rightarrow>
        bindE (guard ((truthy (bk_path b) \<or> truthy (bk_key b)) \<and> bk_status b = ''COMPLETED'') (BadRequest ''Backup artifact is not available'')) (\<lambda>_.
        case (case fetch b of
                None \<Rightarrow> Inl (ServerError ''Backup artifact is unavailable locally and off-site'')
              | Some bytes \<Rightarrow>
                 bindR (need (bk_checksum b = Some (checksum bytes)) (ServerError ''Backup checksum does not match'')) (\<lambda>_.
                 case unpack bytes of
                   None \<Rightarrow> Inl (ServerError ''SyntaxError'')
                 | Some (format, tables) \<Rightarrow>
                    bindR (need (format = ''fieldserviceit-encrypted-json-v1'') (ServerError ''Backup payload is invalid'')) (\<lambda>_.
                    restore_session tables))) of
          Inr n \<Rightarrow> bindE (set_run i (\<lambda>x. x\<lparr>bk_tested := Some ''PASS''\<rparr>)) (\<lambda>_.
                   bindE (record_job ''isolated-backup-restore-drill'' ''PASS'') (\<lambda>_. ret n))
        | Inl e \<Rightarrow> bindE (set_run i (\<lambda>x. x\<lparr>bk_tested := Some ''FAIL''\<rparr>)) (\<lambda>_.
                   bindE (record_job ''isolated-backup-restore-drill'' ''FAIL'') (\<lambda>_. raise (BadRequest ''Backup integrity test failed'')))))"

section \<open>Retention\<close>

record retention_dto =
  rd_enabled :: "bool option"
  rd_session :: "int option"
  rd_audit :: "int option"
  rd_error :: "int option"
  rd_email :: "int option"
  rd_snapshot :: "int option"
  rd_syslog :: "int option"

definition update_retention_policy :: "principal \<Rightarrow> retention_dto \<Rightarrow> retention_policy option plat" where
  "update_retention_policy u d =
     assert_super u (
       bindE (writes (\<lambda>s. s\<lparr>pl_retention := map_option (\<lambda>_. \<lparr>re_enabled = flag_or (rd_enabled d) True,
         re_session = clamp_int (rd_session d) 7 3650 90, re_audit = clamp_int (rd_audit d) 7 3650 2190,
         re_error = clamp_int (rd_error d) 7 3650 90, re_email = clamp_int (rd_email d) 7 3650 90,
         re_snapshot = clamp_int (rd_snapshot d) 7 3650 90, re_syslog = clamp_int (rd_syslog d) 7 3650 90\<rparr>) (pl_retention s)\<rparr>))
       (\<lambda>_. reads pl_retention))"

definition days_ago :: "int \<Rightarrow> int \<Rightarrow> int" where "days_ago t n = t - n * (24 * 60 * 60 * 1000)"

definition ended_session :: "int \<Rightarrow> int \<Rightarrow> session \<Rightarrow> bool" where
  "ended_session t n x \<longleftrightarrow> (se_revokedAt x \<noteq> None \<or> se_expiresAt x < t)
     \<and> (case se_revokedAt x of None \<Rightarrow> se_expiresAt x | Some r \<Rightarrow> r) < days_ago t n"

definition platform_retention :: "int \<Rightarrow> bool plat" where
  "platform_retention t =
     bindE (reads pl_retention) (\<lambda>p.
     case p of
       None \<Rightarrow> ret False
     | Some p \<Rightarrow>
        if \<not> re_enabled p then ret False
        else
          bindE (so_in_auth (writes (\<lambda>a. a\<lparr>sessions := filter (\<lambda>x. \<not> ended_session t (re_session p) x) (sessions a)\<rparr>))) (\<lambda>_.
          bindE (writes (\<lambda>s. s\<lparr>pl_audit := filter (\<lambda>x. \<not> x < days_ago t (re_audit p)) (pl_audit s),
            pl_errors := filter (\<lambda>x. \<not> x < days_ago t (re_error p)) (pl_errors s),
            pl_tracking := filter (\<lambda>x. \<not> x < days_ago t (re_email p)) (pl_tracking s),
            pl_health := filter (\<lambda>x. \<not> x < days_ago t (re_snapshot p)) (pl_health s),
            pl_syslog := filter (\<lambda>x. \<not> x < days_ago t (re_syslog p)) (pl_syslog s),
            so_states := filter (\<lambda>x. \<not> ss_expiresAt x < days_ago t 1) (so_states s),
            so_codes := filter (\<lambda>x. \<not> lc_expiresAt x < days_ago t 1) (so_codes s)\<rparr>)) (\<lambda>_.
          bindE (record_job ''data-retention-cleanup'' ''PASS'') (\<lambda>_. ret True))))"

section \<open>The nightly job\<close>

text \<open>\<open>getHours\<close> in the server's zone, taken as UTC; the cron expression fires at 03:15.\<close>

definition hour_of :: "int \<Rightarrow> int" where
  "hour_of t = t div (60 * 60 * 1000) mod 24"

definition cron_fires :: "int \<Rightarrow> bool" where
  "cron_fires t \<longleftrightarrow> hour_of t = 3 \<and> t div (60 * 1000) mod 60 = 15 \<and> t div 1000 mod 60 = 0"

definition backup_due :: "int \<Rightarrow> backup_policy option \<Rightarrow> bool" where
  "backup_due t p = (case p of None \<Rightarrow> False
     | Some b \<Rightarrow> bp_enabled b \<and> bp_hour b = hour_of t
         \<and> \<not> (case bp_lastRunAt b of None \<Rightarrow> False | Some l \<Rightarrow> t - l < 20 * 60 * 60 * 1000))"

text \<open>The job up to the start of a backup, whose errors are only logged.\<close>

definition scheduled_operations :: "world \<Rightarrow> string option plat" where
  "scheduled_operations w =
     bindE (platform_retention (now w)) (\<lambda>_.
     bindE (reads pl_backup) (\<lambda>p.
     if backup_due (now w) p then catchE (bindE (start_backup w) (\<lambda>i. ret (Some i))) (\<lambda>_. ret None) else ret None))"

end
