(* ===== verification/Sso_Props.thy ===== *)
theory Sso_Props
  imports Sso Guard_Props
begin

text \<open>
  What single sign-on and passkeys promise: which addresses an identity provider may not
  live at, what a login code proves, that a code and a passkey challenge work once, and what
  a session opened with them is worth.
\<close>

section \<open>Successful runs\<close>

named_theorems run_iff \<open>when a computation returns a value\<close>

lemma run_bind [run_iff]: "bindE m f s = (Inr y, t) \<longleftrightarrow> (\<exists>x s1. m s = (Inr x, s1) \<and> f x s1 = (Inr y, t))"
  by (auto simp: bindE_def split: prod.splits sum.splits)

lemma run_steps [run_iff]:
  "reads g s = (Inr x, t) \<longleftrightarrow> g s = x \<and> t = s" "writes h s = (Inr u, t) \<longleftrightarrow> t = h s" "guard b e s = (Inr u, t) \<longleftrightarrow> b \<and> t = s"
  "ret y s = (Inr x, t) \<longleftrightarrow> x = y \<and> t = s" "of_res r s = (Inr x, t) \<longleftrightarrow> r = Inr x \<and> t = s" "raise e s = (Inr x, t) \<longleftrightarrow> False"
  by (auto simp: act_simps)

lemma run_so_auth [run_iff]: "so_in_auth m s = (Inr x, t) \<longleftrightarrow> (\<exists>a. m (so_auth s) = (Inr x, a) \<and> t = s\<lparr>so_auth := a\<rparr>)"
  by (auto simp: so_in_auth_def split: prod.splits)

lemma run_option [run_iff]:
  "(case z of None \<Rightarrow> raise e | Some x \<Rightarrow> f x) s = (Inr y, t) \<longleftrightarrow> (\<exists>x. z = Some x \<and> f x s = (Inr y, t))"
  by (cases z) (simp_all add: run_steps)

section \<open>Private networks\<close>

text \<open>The reserved IPv4 networks, as base addresses and prefix lengths.\<close>

definition RESERVED :: "(32 word \<times> nat) list" where
  "RESERVED = [(0x00000000, 8), (0x0A000000, 8), (0x7F000000, 8), (0xA9FE0000, 16), (0xAC100000, 12), (0xC0A80000, 16), (0x64400000, 10),
     (0xE0000000, 3)]"

definition in_network :: "32 word \<Rightarrow> 32 word \<times> nat \<Rightarrow> bool" where
  "in_network v n \<longleftrightarrow> drop_bit (32 - snd n) v = drop_bit (32 - snd n) (fst n)"

lemma digit_text: "octet_digit (digit_char n) = n mod 10" "ch_digit (digit_char n)"
proof -
  have "of_char (digit_char n) = (48 + n mod 10 :: nat)"
    by (simp add: take_bit_nat_eq_self less_trans[of _ "48 + 10"])
  then show "octet_digit (digit_char n) = n mod 10" "ch_digit (digit_char n)"
    by (simp_all add: octet_digit_def ch_digit_def Let_def del: digit_char.simps)
qed

lemma dec_small:
  "n < 10 \<Longrightarrow> dec n = [digit_char n]"
  "10 \<le> n \<Longrightarrow> n < 100 \<Longrightarrow> dec n = [digit_char (n div 10), digit_char n]"
  "100 \<le> n \<Longrightarrow> n < 1000 \<Longrightarrow> dec n = [digit_char (n div 10 div 10), digit_char (n div 10), digit_char n]"
proof -
  show "n < 10 \<Longrightarrow> dec n = [digit_char n]" for n by (subst dec.simps) simp
  then show b: "10 \<le> n \<Longrightarrow> n < 100 \<Longrightarrow> dec n = [digit_char (n div 10), digit_char n]" for n
    by (subst dec.simps) (simp del: digit_char.simps)
  show "100 \<le> n \<Longrightarrow> n < 1000 \<Longrightarrow> dec n = [digit_char (n div 10 div 10), digit_char (n div 10), digit_char n]"
    by (subst dec.simps) (simp add: b del: digit_char.simps)
qed

lemma octet_texts:
  assumes "n < 256"
  shows "octet_of (dec n) = Some n \<and> list_all ch_digit (dec n)"
proof -
  have z: "10 \<le> n \<Longrightarrow> hd (dec n) \<noteq> CHR ''0''" by (rule hd_dec_pos) simp
  consider "n < 10" | "10 \<le> n" "n < 100" | "100 \<le> n" "n < 1000" using assms by linarith
  then show ?thesis
  proof cases
    case 1
    then show ?thesis by (simp add: dec_small octet_of_def digit_text del: digit_char.simps)
  next
    case 2
    have "10 * (n div 10) + n mod 10 = n" by presburger
    moreover have "n div 10 mod 10 = n div 10" using 2 by simp
    ultimately show ?thesis using 2 z assms by (simp add: dec_small octet_of_def digit_text del: digit_char.simps)
  next
    case 3
    have "10 * (10 * (n div 10 div 10) + n div 10 mod 10) + n mod 10 = n" by presburger
    moreover have "n div 10 div 10 mod 10 = n div 10 div 10" using 3 by simp
    ultimately show ?thesis using 3 z assms by (simp add: dec_small octet_of_def digit_text del: digit_char.simps)
  qed
qed

lemma octet_less: "octet k v < 256"
proof -
  have "unat (drop_bit k v AND 255) \<le> unat (255 :: 32 word)" by (rule word_and_le1[THEN word_le_nat_alt[THEN iffD1]])
  then show ?thesis by (simp add: octet_def)
qed

lemma digit_lower: "ch_digit c \<Longrightarrow> ch_lower c = c \<and> c \<noteq> CHR ''.'' \<and> c \<noteq> CHR '':'' \<and> c \<noteq> CHR ''f''"
  by (auto simp: ch_digit_def ch_lower_def Let_def)

lemma quad_digits: "octet_of (dec (octet k v)) = Some (octet k v)" "list_all ch_digit (dec (octet k v))"
  using octet_texts[OF octet_less] by auto

lemma octet_no_dot: "CHR ''.'' \<notin> set (dec (octet k v))"
  using quad_digits(2)[of k v] digit_lower by (auto simp: list_all_iff)

lemma host_parts: "str_split (CHR ''.'') (host_text v) = [dec (octet 24 v), dec (octet 16 v), dec (octet 8 v), dec (octet 0 v)]"
  by (simp add: host_text_def str_split_at[OF octet_no_dot] str_split_none[OF octet_no_dot])

lemma host_lower: "js_lower (host_text v) = host_text v"
proof -
  have "js_lower (dec (octet k v)) = dec (octet k v)" for k
    using quad_digits(2)[of k v] digit_lower by (intro map_idI) (auto simp: list_all_iff)
  moreover have "ch_lower (CHR ''.'') = CHR ''.''" by code_simp
  ultimately show ?thesis by (simp add: host_text_def)
qed

lemma host_first: "\<exists>c r. host_text v = c # r \<and> ch_digit c"
  using quad_digits(2)[of 24 v] by (cases "dec (octet 24 v)") (auto simp: host_text_def)

lemma private_host: "is_private_address (host_text v) = private_pair (octet 24 v) (octet 16 v)"
proof -
  obtain c r where h: "host_text v = c # r" and c: "ch_digit c" using host_first by blast
  have n: "c \<noteq> CHR '':''" "c \<noteq> CHR ''f''" using digit_lower[OF c] by auto
  have "ipv4_of (str_split (CHR ''.'') (c # r)) = Some (octet 24 v, octet 16 v)"
    using host_parts[of v] quad_digits(1)[of _ v] by (simp add: h)
  then show ?thesis using host_lower[of v] n by (simp add: is_private_address_def h)
qed

lemma private_mapped: "is_private_address (''::ffff:'' @ host_text v) = private_pair (octet 24 v) (octet 16 v)"
proof -
  have p: "js_lower ''::ffff:'' = ''::ffff:''" by code_simp
  have l: "js_lower (''::ffff:'' @ host_text v) = ''::ffff:'' @ host_text v" using host_lower[of v] p by (simp only: map_append)
  have "ipv4_of (str_split (CHR ''.'') (host_text v)) = Some (octet 24 v, octet 16 v)"
    using quad_digits(1)[of _ v] by (simp add: host_parts)
  moreover have "drop 7 (''::ffff:'' @ host_text v) = host_text v" by simp
  moreover have "starts_with (''::ffff:'' @ host_text v) ''::ffff:''" by (rule starts_with_append)
  ultimately show ?thesis unfolding is_private_address_def l by simp
qed

lemma octet_div: "octet k v = unat v div 2 ^ k mod 256"
proof -
  have m: "(255 :: 32 word) = mask 8" by (simp add: mask_eq_exp_minus_1)
  have "octet k v = unat (take_bit 8 (drop_bit k v))" unfolding octet_def m by (simp add: take_bit_eq_mask and.commute)
  also have "\<dots> = take_bit 8 (drop_bit k (unat v))" by (simp only: unsigned_take_bit_eq unat_drop_bit_eq)
  finally show ?thesis by (simp add: take_bit_eq_mod drop_bit_eq_div)
qed

lemma network_div: "in_network v (b, n) \<longleftrightarrow> unat v div 2 ^ (32 - n) = unat b div 2 ^ (32 - n)"
proof -
  have "unat (drop_bit k x) = unat x div 2 ^ k" for k and x :: "32 word"
    using unat_drop_bit_eq[of k x] drop_bit_eq_div[of k "unat x"] by (rule trans)
  then show ?thesis unfolding in_network_def word_unat_eq_iff fst_conv snd_conv by simp
qed

text \<open>
  C38. Addresses the sign-in refuses. The text check calls the dotted form of a 32-bit address
  private exactly when the address lies in one of the eight reserved networks, and the same
  for the form \<open>::ffff:a.b.c.d\<close>.
\<close>
theorem private_address_exact:
  "(is_private_address (host_text v) \<longleftrightarrow> list_ex (in_network v) RESERVED)
   \<and> (is_private_address (''::ffff:'' @ host_text v) \<longleftrightarrow> list_ex (in_network v) RESERVED)"
proof -
  define m where "m = unat v div 65536"
  have lt: "unat v < 2 ^ 32" using unsigned_less[of v] by simp
  have m: "m < 65536" using lt by (simp add: m_def less_mult_imp_div_less)
  have o: "octet 24 v = m div 256" "octet 16 v = m mod 256"
    using m lt by (simp_all add: octet_div m_def div_mult2_eq[symmetric])
  have d: "unat v div 16777216 = m div 256" "unat v div 1048576 = m div 16" "unat v div 4194304 = m div 64"
    "unat v div 536870912 = m div 8192" "unat v div 65536 = m" by (simp_all add: m_def div_mult2_eq[symmetric])
  have "private_pair (m div 256) (m mod 256) \<longleftrightarrow> m div 256 = 0 \<or> m div 256 = 10 \<or> m div 256 = 127 \<or> m = 43518 \<or> m div 16 = 2753
      \<or> m = 49320 \<or> m div 64 = 401 \<or> m div 8192 = 7"
  proof -
    define q r where "q = m div 256" and "r = m mod 256"
    have qr: "m = 256 * q + r" "r < 256" by (simp_all add: q_def r_def)
    have d16: "16 * q + x = 2753 \<longleftrightarrow> q = 172 \<and> x = 1" if "x < 16" for x using that by arith
    have d64: "4 * q + x = 401 \<longleftrightarrow> q = 100 \<and> x = 1" if "x < 4" for x using that by arith
    have "m div 16 = 16 * q + r div 16" "m div 64 = 4 * q + r div 64" by (simp_all add: qr(1))
    moreover have "r div 16 < 16" "r div 64 < 4" using qr(2) by (simp_all add: less_mult_imp_div_less)
    moreover have "16 \<le> r \<and> r \<le> 31 \<longleftrightarrow> r div 16 = 1" "64 \<le> r \<and> r \<le> 127 \<longleftrightarrow> r div 64 = 1" by auto
    ultimately have "q = 172 \<and> 16 \<le> r \<and> r \<le> 31 \<longleftrightarrow> m div 16 = 2753" "q = 100 \<and> 64 \<le> r \<and> r \<le> 127 \<longleftrightarrow> m div 64 = 401"
      using d16[of "r div 16"] d64[of "r div 64"] by simp_all
    moreover have "q = 169 \<and> r = 254 \<longleftrightarrow> m = 43518" "q = 192 \<and> r = 168 \<longleftrightarrow> m = 49320" using qr by arith+
    moreover have "m div 256 \<ge> 224 \<longleftrightarrow> m div 8192 = 7" 
      using m less_eq_div_iff_mult_less_eq[of 256 224 m] less_eq_div_iff_mult_less_eq[of 8192 7 m] div_less_iff_less_mult[of 8192 m 8] by auto
    ultimately show ?thesis unfolding private_pair_def q_def[symmetric] r_def[symmetric] by blast
  qed
  then have "private_pair (octet 24 v) (octet 16 v) \<longleftrightarrow> list_ex (in_network v) RESERVED"
    unfolding o RESERVED_def by (simp add: network_div d)
  then show ?thesis by (simp only: private_host private_mapped)
qed

section \<open>What a login code proves\<close>

text \<open>A token that identifies the holder of \<open>cl\<close> to a provider, for one sign-in attempt.\<close>

definition identity_proved :: "sso_env \<Rightarrow> int \<Rightarrow> sso_provider \<Rightarrow> string \<Rightarrow> id_claims \<Rightarrow> bool" where
  "identity_proved v t p nonce cl \<longleftrightarrow>
     (\<exists>h c sig hdr alg k keys url. header_of v h = Some hdr \<and> claims_of v c = Some cl \<and> map_of SIGNING_ALGORITHMS (hd_alg hdr) = Some alg
        \<and> keys_at v url = Some keys \<and> k \<in> set (snd keys) \<and> jk_kid k = hd_kid hdr \<and> signature_ok v alg (jk_key k) (h @ ''.'' @ c) sig)
     \<and> strip_slashes (or_str (cl_iss cl) []) = strip_slashes (pv_issuer p) \<and> pv_clientId p \<in> set (cl_aud cl)
     \<and> (\<exists>x. cl_exp cl = Some x \<and> t < x * 1000) \<and> cl_nonce cl = Some nonce \<and> truthy (cl_email cl) \<and> cl_emailVerified cl \<noteq> Some False"

lemma claims_checked:
  "check_claims t p nonce cl = Inr x \<Longrightarrow> x = cl \<and> strip_slashes (or_str (cl_iss cl) []) = strip_slashes (pv_issuer p)
     \<and> pv_clientId p \<in> set (cl_aud cl) \<and> (\<exists>x. cl_exp cl = Some x \<and> t < x * 1000) \<and> cl_nonce cl = Some nonce
     \<and> truthy (cl_email cl) \<and> cl_emailVerified cl \<noteq> Some False"
  by (cases "cl_exp cl") (auto simp: check_claims_def)

lemma list3: "(case xs of [a, b, c] \<Rightarrow> f a b c | _ \<Rightarrow> Inl e) = Inr y \<Longrightarrow> \<exists>a b c. xs = [a, b, c]"
  by (simp split: list.splits)

lemma token_verified:
  assumes "verify_id_token v t token p d nonce = Inr cl"
  shows "identity_proved v t p nonce cl"
proof -
  obtain h c sig where e: "str_split (CHR ''.'') token = [h, c, sig]"
    using list3[OF assms[unfolded verify_id_token_def]] by blast
  obtain hdr cl' where hc: "header_of v h = Some hdr" "claims_of v c = Some cl'"
    using assms by (cases "header_of v h"; cases "claims_of v c") (simp_all add: verify_id_token_def e)
  obtain alg where alg: "map_of SIGNING_ALGORITHMS (hd_alg hdr) = Some alg"
    using assms by (cases "map_of SIGNING_ALGORITHMS (hd_alg hdr)") (simp_all add: verify_id_token_def e hc)
  obtain keys where ks: "keys_at v (or_str (ds_jwks d) []) = Some keys"
    using assms by (cases "keys_at v (or_str (ds_jwks d) [])") (simp_all add: verify_id_token_def e hc alg)
  obtain k where k: "find (key_fits hdr) (snd keys) = Some k"
    using assms by (cases "find (key_fits hdr) (snd keys)") (auto simp: verify_id_token_def e hc alg ks split: prod.splits)
  have "signature_ok v alg (jk_key k) (h @ ''.'' @ c) sig" "check_claims t p nonce cl' = Inr cl"
    using assms k by (auto simp: verify_id_token_def e hc alg ks split: prod.splits)
  then show ?thesis
    using claims_checked[of t p nonce cl' cl] find_SomeD[OF k] hc alg ks unfolding identity_proved_def key_fits_def by blast
qed

lemma resolved:
  assumes "resolve_user w p cl s = (Inr a, s')"
  shows "ac_email a = js_lower (js_trim (or_str (cl_email cl) [])) \<and> ac_isActive a \<and> a \<in> set (accounts (so_auth s'))
    \<and> (truthy (pv_companyId p) \<longrightarrow> ac_companyId a = pv_companyId p) \<and> (pv_domains p \<noteq> [] \<longrightarrow> sso_domain (ac_email a) \<in> set (pv_domains p))
    \<and> so_states s' = so_states s \<and> so_codes s' = so_codes s
    \<and> (so_auth s' = so_auth s \<or> pv_autoProvision p \<and> so_auth s' = (so_auth s)\<lparr>accounts := accounts (so_auth s) @ [a]\<rparr>)"
proof (cases "find (\<lambda>a. ac_email a = js_lower (js_trim (or_str (cl_email cl) [])) \<and> ac_id a \<notin> set (so_deleted s)) (accounts (so_auth s))")
  case None
  let ?e = "js_lower (js_trim (or_str (cl_email cl) []))"
  have f: "a = sso_account (uuid w 0) ?e p (or_str (pv_companyId p) []) cl" "pv_autoProvision p" "truthy (pv_companyId p)"
    "pv_domains p = [] \<or> sso_domain ?e \<in> set (pv_domains p)"
    "s' = s\<lparr>so_auth := (so_auth s)\<lparr>accounts := accounts (so_auth s) @ [a]\<rparr>\<rparr>"
    using assms None by (simp_all add: resolve_user_def Let_def run_iff)
  have "Some (or_str (pv_companyId p) []) = pv_companyId p" using f(3) by (cases "pv_companyId p") (simp_all add: or_str_def)
  moreover have "ac_email a = ?e" "ac_isActive a" "ac_companyId a = Some (or_str (pv_companyId p) [])"
    by (simp_all add: f(1) sso_account_def)
  ultimately show ?thesis using f(2,4) by (auto simp: f(5))
next
  case (Some b)
  then show ?thesis using assms find_SomeD[OF Some] by (auto simp: resolve_user_def Let_def run_iff)
qed

lemma redirect_safe:
  "safe_redirect_path x = [] \<or> (starts_with (safe_redirect_path x) ''/'' \<and> \<not> starts_with (safe_redirect_path x) ''//'')"
proof (cases "safe_redirect_path x = []")
  case False
  then obtain y where y: "safe_redirect_path x = take 500 y" "starts_with y ''/''" "\<not> starts_with y ''//''"
    by (auto simp: safe_redirect_path_def Let_def split: if_splits)
  obtain c z where "y = c # z" using y(2) by (cases y) auto
  then show ?thesis using y by (cases z) auto
qed simp

lemma callback_run:
  assumes "sso_callback v cr w i code state s = (Inr r, s')"
  obtains st p d verifier token cl a s1 where
    "find (\<lambda>x. ss_providerId x = i \<and> ss_hash x = sha256 cr state \<and> ss_expiresAt x > now w) (so_states s) = Some st"
    "find (\<lambda>p. pv_id p = i \<and> pv_enabled p) (so_providers s) = Some p" "verify_id_token v (now w) token p d (ss_nonce st) = Inr cl"
    "resolve_user w p cl s = (Inr a, s1)" "assert_required_mfa (ac_role a) cl s1 = (Inr (), s1)"
    "\<not> list_ex (\<lambda>x. lc_id x = uuid w 1 \<or> lc_hash x = sha256 cr (rnd w 0)) (so_codes s1)"
    "s' = s1\<lparr>so_codes := so_codes s1 @ [\<lparr>lc_id = uuid w 1, lc_hash = sha256 cr (rnd w 0), lc_userId = ac_id a,
          lc_expiresAt = now w + minutes 2, lc_usedAt = None\<rparr>], so_states := filter (\<lambda>x. ss_id x \<noteq> ss_id st) (so_states s1)\<rparr>"
    "r = (rnd w 0, or_str (Some (safe_redirect_path (Some (ss_redirect st)))) ''/dashboard'')"
proof -
  have q: "assert_required_mfa role cl t = (Inr (), t') \<Longrightarrow> t' = t" for role cl t t'
    by (auto simp: assert_required_mfa_def Let_def run_iff split: if_splits)
  have "\<exists>st p d token cl a s1 s2.
      find (\<lambda>x. ss_providerId x = i \<and> ss_hash x = sha256 cr state \<and> ss_expiresAt x > now w) (so_states s) = Some st
    \<and> find (\<lambda>p. pv_id p = i \<and> pv_enabled p) (so_providers s) = Some p \<and> verify_id_token v (now w) token p d (ss_nonce st) = Inr cl
    \<and> resolve_user w p cl s = (Inr a, s1) \<and> assert_required_mfa (ac_role a) cl s1 = (Inr (), s2)
    \<and> \<not> list_ex (\<lambda>x. lc_id x = uuid w 1 \<or> lc_hash x = sha256 cr (rnd w 0)) (so_codes s2)
    \<and> s' = s2\<lparr>so_codes := so_codes s2 @ [\<lparr>lc_id = uuid w 1, lc_hash = sha256 cr (rnd w 0), lc_userId = ac_id a,
          lc_expiresAt = now w + minutes 2, lc_usedAt = None\<rparr>], so_states := filter (\<lambda>x. ss_id x \<noteq> ss_id st) (so_states s2)\<rparr>
    \<and> r = (rnd w 0, or_str (Some (safe_redirect_path (Some (ss_redirect st)))) ''/dashboard'')"
    using assms unfolding sso_callback_def find_provider_def run_iff
    by (elim exE conjE, hypsubst_thin) (intro exI conjI, assumption+, simp_all)
  then obtain st p d token cl a s1 s2 where
    f: "find (\<lambda>x. ss_providerId x = i \<and> ss_hash x = sha256 cr state \<and> ss_expiresAt x > now w) (so_states s) = Some st"
    "find (\<lambda>p. pv_id p = i \<and> pv_enabled p) (so_providers s) = Some p" "verify_id_token v (now w) token p d (ss_nonce st) = Inr cl"
    "resolve_user w p cl s = (Inr a, s1)" "assert_required_mfa (ac_role a) cl s1 = (Inr (), s2)"
    and rest: "\<not> list_ex (\<lambda>x. lc_id x = uuid w 1 \<or> lc_hash x = sha256 cr (rnd w 0)) (so_codes s2)"
    "s' = s2\<lparr>so_codes := so_codes s2 @ [\<lparr>lc_id = uuid w 1, lc_hash = sha256 cr (rnd w 0), lc_userId = ac_id a,
          lc_expiresAt = now w + minutes 2, lc_usedAt = None\<rparr>], so_states := filter (\<lambda>x. ss_id x \<noteq> ss_id st) (so_states s2)\<rparr>"
    "r = (rnd w 0, or_str (Some (safe_redirect_path (Some (ss_redirect st)))) ''/dashboard'')" by blast
  have e: "s2 = s1" using q[OF f(5)] .
  show ?thesis using f rest unfolding e by (rule that)
qed

text \<open>
  C9. What a login code proves. When the callback of a provider hands out a login code, the
  state it was called with is an unexpired one of that provider and is used up; the identity
  token was signed by a key of the provider, for this client, this issuer and this attempt;
  and the code belongs to an active account with the token's e-mail address, of the
  provider's company and domains. No other account changes, and the redirect stays on the site.
\<close>
theorem login_code_proves_identity:
  assumes "sso_callback v cr w i code state s = (Inr (lcode, path), s')"
  shows "\<exists>st p cl a. st \<in> set (so_states s) \<and> ss_providerId st = i \<and> ss_hash st = sha256 cr state \<and> now w < ss_expiresAt st
    \<and> st \<notin> set (so_states s') \<and> p \<in> set (so_providers s) \<and> pv_id p = i \<and> pv_enabled p \<and> identity_proved v (now w) p (ss_nonce st) cl
    \<and> a \<in> set (accounts (so_auth s')) \<and> ac_email a = js_lower (js_trim (or_str (cl_email cl) [])) \<and> ac_isActive a
    \<and> (truthy (pv_companyId p) \<longrightarrow> ac_companyId a = pv_companyId p) \<and> (pv_domains p \<noteq> [] \<longrightarrow> sso_domain (ac_email a) \<in> set (pv_domains p))
    \<and> (so_auth s' = so_auth s \<or> pv_autoProvision p \<and> so_auth s' = (so_auth s)\<lparr>accounts := accounts (so_auth s) @ [a]\<rparr>)
    \<and> so_codes s' = so_codes s @ [\<lparr>lc_id = uuid w 1, lc_hash = sha256 cr lcode, lc_userId = ac_id a, lc_expiresAt = now w + minutes 2, lc_usedAt = None\<rparr>]
    \<and> starts_with path ''/'' \<and> \<not> starts_with path ''//''"
proof (rule callback_run[OF assms])
  fix st p d verifier token cl a s1
  assume st: "find (\<lambda>x. ss_providerId x = i \<and> ss_hash x = sha256 cr state \<and> ss_expiresAt x > now w) (so_states s) = Some st"
    and p: "find (\<lambda>p. pv_id p = i \<and> pv_enabled p) (so_providers s) = Some p" and tk: "verify_id_token v (now w) token p d (ss_nonce st) = Inr cl"
    and a: "resolve_user w p cl s = (Inr a, s1)" and "assert_required_mfa (ac_role a) cl s1 = (Inr (), s1)"
    and "\<not> list_ex (\<lambda>x. lc_id x = uuid w 1 \<or> lc_hash x = sha256 cr (rnd w 0)) (so_codes s1)"
    and s': "s' = s1\<lparr>so_codes := so_codes s1 @ [\<lparr>lc_id = uuid w 1, lc_hash = sha256 cr (rnd w 0), lc_userId = ac_id a,
          lc_expiresAt = now w + minutes 2, lc_usedAt = None\<rparr>], so_states := filter (\<lambda>x. ss_id x \<noteq> ss_id st) (so_states s1)\<rparr>"
    and r: "(lcode, path) = (rnd w 0, or_str (Some (safe_redirect_path (Some (ss_redirect st)))) ''/dashboard'')"
  have path: "starts_with path ''/'' \<and> \<not> starts_with path ''//''"
    using r redirect_safe[of "Some (ss_redirect st)"] by (auto simp: or_str_def)
  have k: "so_codes s1 = so_codes s" using resolved[OF a] by blast
  have c: "st \<notin> set (so_states s')" "so_auth s1 = so_auth s'" by (simp_all add: s')
  note f = find_SomeD[OF st] find_SomeD[OF p] token_verified[OF tk] resolved[OF a, unfolded c(2)]
  have "so_codes s' = so_codes s @ [\<lparr>lc_id = uuid w 1, lc_hash = sha256 cr lcode, lc_userId = ac_id a,
      lc_expiresAt = now w + minutes 2, lc_usedAt = None\<rparr>]" using k r by (simp add: s')
  then show ?thesis using f path c(1)
    by - (elim conjE, rule exI[of _ st], rule exI[of _ p], rule exI[of _ cl], rule exI[of _ a], intro conjI, assumption+)
qed

section \<open>Codes and challenges work once\<close>

datatype 'r sso_call =
    SsoStart sso_env auth_world string "string option"
  | SsoCallback sso_env auth_world string string string
  | SsoExchange auth_world string session_ctx
  | KeyOptions auth_world "string option"
  | KeyRegister sso_env auth_world string string passkey_response "string option"
  | KeySignIn sso_env auth_world string passkey_response session_ctx
  | KeyRename string string string
  | KeyRemove string string

fun sso_step :: "crypto \<Rightarrow> 'r sso_call \<Rightarrow> 'r sso_db_scheme \<Rightarrow> 'r sso_db_scheme" where
  "sso_step cr (SsoStart v w i q) s = snd (start_sso v cr w i q s)"
| "sso_step cr (SsoCallback v w i c st) s = snd (sso_callback v cr w i c st s)"
| "sso_step cr (SsoExchange w c x) s = snd (exchange_sso cr w c x s)"
| "sso_step cr (KeyOptions w u) s = snd (case u of None \<Rightarrow> map_prod (map_sum id (\<lambda>_. ())) id (authentication_options w s)
     | Some i \<Rightarrow> map_prod (map_sum id (\<lambda>_. ())) id (registration_options w i s))"
| "sso_step cr (KeyRegister v w u i q n) s = snd (verify_registration v w u i q n s)"
| "sso_step cr (KeySignIn v w i q x) s = snd (authenticate_passkey v cr w i q x s)"
| "sso_step cr (KeyRename u i n) s = snd (rename_passkey u i n s)"
| "sso_step cr (KeyRemove u i) s = snd (remove_passkey u i s)"

text \<open>A login code that is used, or a challenge: their rows stay, used, and keep their keys unique.\<close>

definition code_spent :: "string \<Rightarrow> 'r sso_db_scheme \<Rightarrow> bool" where
  "code_spent h s \<longleftrightarrow> h \<in> set (map lc_hash (so_codes s)) \<and> (\<forall>x \<in> set (so_codes s). lc_hash x = h \<longrightarrow> lc_usedAt x \<noteq> None)"

definition challenge_spent :: "string \<Rightarrow> 'r sso_db_scheme \<Rightarrow> bool" where
  "challenge_spent i s \<longleftrightarrow> i \<in> set (map pc_id (so_challenges s)) \<and> (\<forall>x \<in> set (so_challenges s). pc_id x = i \<longrightarrow> pc_usedAt x \<noteq> None)"

lemma same_keys: "(\<And>y. k (f y) = k y) \<Longrightarrow> map k (map (\<lambda>y. if P y then f y else y) ys) = map k ys"
  by simp

lemma code_spent_used:
  assumes "code_spent h s"
  shows "code_spent h (s\<lparr>so_codes := map (\<lambda>y. if P y then y\<lparr>lc_usedAt := Some t\<rparr> else y) (so_codes s)\<rparr>)"
proof -
  have "map lc_hash (map (\<lambda>y. if P y then y\<lparr>lc_usedAt := Some t\<rparr> else y) (so_codes s)) = map lc_hash (so_codes s)"
    by (rule same_keys) simp
  then show ?thesis using assms unfolding code_spent_def by auto
qed

lemma code_spent_new: "code_spent h s \<Longrightarrow> \<not> list_ex (\<lambda>x. lc_id x = i \<or> lc_hash x = h') (so_codes s) \<Longrightarrow> lc_hash y = h' \<Longrightarrow>
    code_spent h (s\<lparr>so_codes := so_codes s @ [y]\<rparr>)"
  by (auto simp: code_spent_def list_ex_iff)

lemma challenge_spent_used:
  assumes "challenge_spent i s"
  shows "challenge_spent i (s\<lparr>so_challenges := map (\<lambda>y. if P y then y\<lparr>pc_usedAt := Some t\<rparr> else y) (so_challenges s)\<rparr>)"
proof -
  have "map pc_id (map (\<lambda>y. if P y then y\<lparr>pc_usedAt := Some t\<rparr> else y) (so_challenges s)) = map pc_id (so_challenges s)"
    by (rule same_keys) simp
  then show ?thesis using assms unfolding challenge_spent_def by auto
qed

lemma challenge_spent_new: "challenge_spent i s \<Longrightarrow> \<not> list_ex (\<lambda>c. pc_id c = j) (so_challenges s) \<Longrightarrow> pc_id y = j \<Longrightarrow>
    challenge_spent i (s\<lparr>so_challenges := so_challenges s @ [y]\<rparr>)"
  by (auto simp: challenge_spent_def list_ex_iff)

lemma keeps_in_auth: "(\<And>s a. J s \<Longrightarrow> J (s\<lparr>so_auth := a\<rparr>)) \<Longrightarrow> keeps J (so_in_auth m)"
  by (rule keepsI) (simp add: so_in_auth_def split: prod.splits)

text \<open>Both properties only look at their own table.\<close>

lemma spent_other_tables:
  "code_spent h s \<Longrightarrow> code_spent h (s\<lparr>so_auth := a\<rparr>)" "code_spent h s \<Longrightarrow> code_spent h (s\<lparr>so_states := b\<rparr>)"
  "code_spent h s \<Longrightarrow> code_spent h (s\<lparr>so_passkeys := p\<rparr>)" "code_spent h s \<Longrightarrow> code_spent h (s\<lparr>so_challenges := q\<rparr>)"
  "code_spent h s \<Longrightarrow> code_spent h (s\<lparr>so_audit := d\<rparr>)"
  "challenge_spent i s \<Longrightarrow> challenge_spent i (s\<lparr>so_auth := a\<rparr>)" "challenge_spent i s \<Longrightarrow> challenge_spent i (s\<lparr>so_states := b\<rparr>)"
  "challenge_spent i s \<Longrightarrow> challenge_spent i (s\<lparr>so_passkeys := p\<rparr>)" "challenge_spent i s \<Longrightarrow> challenge_spent i (s\<lparr>so_codes := r\<rparr>)"
  "challenge_spent i s \<Longrightarrow> challenge_spent i (s\<lparr>so_audit := d\<rparr>)"
  by (simp_all add: code_spent_def challenge_spent_def)

text \<open>An insert under a unique key.\<close>

lemma keeps_insert:
  "(\<And>s. J s \<Longrightarrow> \<not> P s \<Longrightarrow> J (f s)) \<Longrightarrow> (\<And>x. keeps J (g x)) \<Longrightarrow>
    keeps J (bindE (reads P) (\<lambda>taken. bindE (guard (\<not> taken) e) (\<lambda>_. bindE (writes f) g)))"
  by (simp add: keeps_def act_simps)

lemma spent_audit: "keeps (code_spent h) (passkey_audit u k i)" "keeps (challenge_spent j) (passkey_audit u k i)"
  unfolding passkey_audit_def by (rule keeps_writes; simp add: spent_other_tables)+

lemma spent_resolve: "keeps (code_spent h) (resolve_user w p cl)" "keeps (challenge_spent j) (resolve_user w p cl)"
  unfolding resolve_user_def Let_def by (intro keeps_intros keeps_in_auth spent_other_tables; assumption)+

lemma spent_mfa: "keeps J (assert_required_mfa role cl)"
  unfolding assert_required_mfa_def Let_def by (intro keeps_intros)

lemma spent_save: "keeps (code_spent h) (save_challenge w u k)" "keeps (challenge_spent j) (save_challenge w u k)"
  unfolding save_challenge_def
  by (rule keeps_insert keeps_ret; simp add: spent_other_tables challenge_spent_new)+

lemma spent_consume: "keeps (code_spent h) (consume_challenge t i)" "keeps (challenge_spent j) (consume_challenge t i)"
  unfolding consume_challenge_def
  by (intro keeps_intros keeps_writes; simp add: spent_other_tables challenge_spent_used)+

lemma spent_code: "keeps (code_spent h) (consume_login_code cr t c)" "keeps (challenge_spent j) (consume_login_code cr t c)"
  unfolding consume_login_code_def
  by (intro keeps_intros keeps_writes; simp add: spent_other_tables code_spent_used)+

lemma spent_start: "keeps (code_spent h) (start_sso v cr w i q)" "keeps (challenge_spent j) (start_sso v cr w i q)"
  unfolding start_sso_def find_provider_def
  by (intro keeps_intros keeps_writes; simp add: spent_other_tables)+

lemma spent_callback: "keeps (code_spent h) (sso_callback v cr w i c st)" "keeps (challenge_spent j) (sso_callback v cr w i c st)"
  unfolding sso_callback_def find_provider_def
  by ((rule keeps_insert keeps_intros spent_resolve spent_mfa keeps_writes | simp add: spent_other_tables code_spent_new)+)

lemma spent_sessions: "keeps (code_spent h) (so_in_auth m)" "keeps (challenge_spent j) (so_in_auth m)"
  by (rule keeps_in_auth; simp add: spent_other_tables)+

lemma spent_keys:
  "keeps (code_spent h) (verify_registration v w u i q n)" "keeps (challenge_spent j) (verify_registration v w u i q n)"
  "keeps (code_spent h) (verify_authentication v t i q)" "keeps (challenge_spent j) (verify_authentication v t i q)"
  "keeps (code_spent h) (rename_passkey u i nm)" "keeps (challenge_spent j) (rename_passkey u i nm)"
  "keeps (code_spent h) (remove_passkey u i)" "keeps (challenge_spent j) (remove_passkey u i)"
  unfolding verify_registration_def verify_authentication_def rename_passkey_def remove_passkey_def get_challenge_def
  by (intro keeps_intros keeps_writes spent_consume spent_audit; simp add: spent_other_tables)+

lemma spent_calls: "code_spent h s \<Longrightarrow> code_spent h (sso_step cr e s)" "challenge_spent j s \<Longrightarrow> challenge_spent j (sso_step cr e s)"
  by (cases e; simp add: keeps_def exchange_sso_def authenticate_passkey_def authentication_options_def registration_options_def
      spent_start[unfolded keeps_def] spent_callback[unfolded keeps_def] spent_keys[unfolded keeps_def]
      keeps_bindE[OF spent_code(1) spent_sessions(1), unfolded keeps_def] keeps_bindE[OF spent_code(2) spent_sessions(2), unfolded keeps_def]
      keeps_bindE[OF spent_keys(3) spent_sessions(1), unfolded keeps_def] keeps_bindE[OF spent_keys(4) spent_sessions(2), unfolded keeps_def]
      spent_save[unfolded keeps_def] keeps_bindE[OF keeps_reads keeps_bindE[OF spent_save(1) keeps_ret], unfolded keeps_def]
      keeps_bindE[OF keeps_reads keeps_bindE[OF spent_save(2) keeps_ret], unfolded keeps_def] split: option.splits)+

interpretation spent_code: guarded_machine any_call "sso_step cr" "code_spent h"
  by unfold_locales (rule spent_calls)

interpretation spent_challenge: guarded_machine any_call "sso_step cr" "challenge_spent j"
  by unfold_locales (rule spent_calls)

lemma consumed:
  assumes "consume_login_code cr t c s = (Inr u, s')" "distinct (map lc_hash (so_codes s))"
  shows "code_spent (sha256 cr c) s'" and "\<exists>x \<in> set (so_codes s). lc_hash x = sha256 cr c \<and> lc_usedAt x = None \<and> t < lc_expiresAt x
    \<and> lc_userId x = u \<and> so_codes s' = map (\<lambda>y. if lc_id y = lc_id x \<and> lc_usedAt y = None then y\<lparr>lc_usedAt := Some t\<rparr> else y) (so_codes s)"
    and "so_auth s' = so_auth s"
proof -
  let ?P = "\<lambda>x. lc_hash x = sha256 cr c \<and> lc_usedAt x = None \<and> lc_expiresAt x > t \<and> find_account (lc_userId x) (so_auth s) \<noteq> None"
  obtain x where f: "find ?P (so_codes s) = Some x"
    using assms(1) by (cases "find ?P (so_codes s)") (simp_all add: consume_login_code_def act_simps)
  obtain a where a: "find_account (lc_userId x) (so_auth s) = Some a" using find_SomeD[OF f] by auto
  have e: "ac_isActive a" "u = lc_userId x" "so_auth s' = so_auth s"
    "so_codes s' = map (\<lambda>y. if lc_id y = lc_id x \<and> lc_usedAt y = None then y\<lparr>lc_usedAt := Some t\<rparr> else y) (so_codes s)"
    using assms(1) f a by (auto simp: consume_login_code_def act_simps split: if_splits)
  have x: "x \<in> set (so_codes s)" "lc_hash x = sha256 cr c" "lc_usedAt x = None" "t < lc_expiresAt x" using find_SomeD[OF f] by auto
  have one: "y = x" if "y \<in> set (so_codes s)" "lc_hash y = sha256 cr c" for y
    using assms(2) x(1,2) that by (auto simp: distinct_map inj_on_def)
  have "map lc_hash (so_codes s') = map lc_hash (so_codes s)" unfolding e(4) by (rule same_keys) simp
  moreover have "\<forall>y \<in> set (so_codes s'). lc_hash y = sha256 cr c \<longrightarrow> lc_usedAt y \<noteq> None"
    unfolding e(4) using one by auto
  ultimately show "code_spent (sha256 cr c) s'" using x(1,2) unfolding code_spent_def by force
  show "so_auth s' = so_auth s" by (rule e(3))
  show "\<exists>x \<in> set (so_codes s). lc_hash x = sha256 cr c \<and> lc_usedAt x = None \<and> t < lc_expiresAt x
    \<and> lc_userId x = u \<and> so_codes s' = map (\<lambda>y. if lc_id y = lc_id x \<and> lc_usedAt y = None then y\<lparr>lc_usedAt := Some t\<rparr> else y) (so_codes s)"
    using x e by blast
qed

text \<open>
  A login code opens one session. Once a code has been exchanged, whatever sign-ins and
  passkey calls follow, exchanging it again is refused.
\<close>
theorem login_code_once:
  assumes "exchange_sso cr w code x s = (Inr r, s1)" and "distinct (map lc_hash (so_codes s))"
    and "reachable_by any_call (sso_step cr) s1 s2"
  shows "fst (exchange_sso cr w' code x' s2) = Inl (Unauthorized ''SSO login code is invalid or expired'')"
proof -
  obtain u s0 a where c: "consume_login_code cr (now w) code s = (Inr u, s0)" and "s1 = s0\<lparr>so_auth := a\<rparr>"
    using assms(1) by (auto simp: exchange_sso_def run_iff)
  then have "code_spent (sha256 cr code) s1" using consumed(1)[OF c assms(2)] by (simp add: spent_other_tables)
  then have "code_spent (sha256 cr code) s2" using spent_code.reachable_inv[OF assms(3)] by simp
  then have "find (\<lambda>x. lc_hash x = sha256 cr code \<and> lc_usedAt x = None \<and> lc_expiresAt x > now w'
       \<and> find_account (lc_userId x) (so_auth s2) \<noteq> None) (so_codes s2) = None"
    unfolding find_None_iff_all code_spent_def by blast
  then show ?thesis by (simp add: exchange_sso_def consume_login_code_def act_simps)
qed

lemma key_verified:
  assumes "verify_authentication v t i q s = (Inr u, s')"
  obtains c k n a where "find (\<lambda>c. pc_id c = i \<and> pc_purpose c = ''AUTHENTICATE'' \<and> open_challenge t c) (so_challenges s) = Some c"
    "k \<in> set (so_passkeys s)" "pk_credential k = pr_id q" "pk_userId k = u" "find_account u (so_auth s) = Some a" "ac_isActive a"
    "asserted v q (pc_challenge c) (passkey_origins v) (rp_id v) (pk_key k) (pk_counter k) = Some n"
    "so_challenges s' = map (\<lambda>c. if pc_id c = i \<and> open_challenge t c then c\<lparr>pc_usedAt := Some t\<rparr> else c) (so_challenges s)"
    "so_auth s' = so_auth s"
proof -
  let ?P = "\<lambda>k. pk_credential k = pr_id q \<and> find_account (pk_userId k) (so_auth s) \<noteq> None"
  obtain c where c: "find (\<lambda>c. pc_id c = i \<and> pc_purpose c = ''AUTHENTICATE'' \<and> open_challenge t c) (so_challenges s) = Some c"
    using assms by (cases "find (\<lambda>c. pc_id c = i \<and> pc_purpose c = ''AUTHENTICATE'' \<and> open_challenge t c) (so_challenges s)")
      (simp_all add: verify_authentication_def get_challenge_def act_simps)
  obtain k where k: "find ?P (so_passkeys s) = Some k"
    using assms c by (cases "find ?P (so_passkeys s)") (simp_all add: verify_authentication_def get_challenge_def act_simps)
  obtain a where a: "find_account (pk_userId k) (so_auth s) = Some a" using find_SomeD[OF k] by auto
  have act: "ac_isActive a"
    using assms c k a by (cases "ac_isActive a") (simp_all add: verify_authentication_def get_challenge_def act_simps)
  obtain n where n: "asserted v q (pc_challenge c) (passkey_origins v) (rp_id v) (pk_key k) (pk_counter k) = Some n"
    using assms c k a act by (cases "asserted v q (pc_challenge c) (passkey_origins v) (rp_id v) (pk_key k) (pk_counter k)")
      (simp_all add: verify_authentication_def get_challenge_def act_simps)
  have "u = pk_userId k" "so_auth s' = so_auth s"
    "so_challenges s' = map (\<lambda>c. if pc_id c = i \<and> open_challenge t c then c\<lparr>pc_usedAt := Some t\<rparr> else c) (so_challenges s)"
    using assms c k a act n
    by (auto simp: verify_authentication_def get_challenge_def consume_challenge_def passkey_audit_def act_simps split: if_splits)
  then show ?thesis using that[OF c _ _ _ _ act n] find_SomeD[OF k] a by simp
qed

text \<open>
  C10. What a passkey sign-in proves. It answers an open, unexpired challenge with a valid
  assertion under the key of a registered passkey, and signs in the active owner of that
  passkey; and the challenge cannot be answered again, whatever sign-ins and passkey calls follow.
\<close>
theorem passkey_proves_owner:
  assumes run: "authenticate_passkey v cr w i q x s = (Inr r, s1)" and d: "distinct (map pc_id (so_challenges s))"
    and reach: "reachable_by any_call (sso_step cr) s1 s2"
  shows "(\<exists>c k a n access refresh. c \<in> set (so_challenges s) \<and> pc_id c = i \<and> pc_purpose c = ''AUTHENTICATE'' \<and> pc_usedAt c = None
      \<and> now w < pc_expiresAt c \<and> k \<in> set (so_passkeys s) \<and> pk_credential k = pr_id q
      \<and> asserted v q (pc_challenge c) (passkey_origins v) (rp_id v) (pk_key k) (pk_counter k) = Some n
      \<and> find_account (pk_userId k) (so_auth s) = Some a \<and> ac_isActive a \<and> r = SignedIn (response_user a) access refresh)
    \<and> fst (authenticate_passkey v' cr w' i q' x' s2) = Inl (BadRequest ''Passkey challenge is invalid or expired'')"
proof -
  obtain u s0 z where v: "verify_authentication v (now w) i q s = (Inr u, s0)" and cp: "complete_passkey cr w u x (so_auth s0) = (Inr r, z)"
    and s1: "s1 = s0\<lparr>so_auth := z\<rparr>"
    using run by (auto simp: authenticate_passkey_def run_iff)
  obtain c k n a where c: "find (\<lambda>c. pc_id c = i \<and> pc_purpose c = ''AUTHENTICATE'' \<and> open_challenge (now w) c) (so_challenges s) = Some c"
    and k: "k \<in> set (so_passkeys s)" "pk_credential k = pr_id q" "pk_userId k = u" and a: "find_account u (so_auth s) = Some a" "ac_isActive a"
    and n: "asserted v q (pc_challenge c) (passkey_origins v) (rp_id v) (pk_key k) (pk_counter k) = Some n"
    and ch: "so_challenges s0 = map (\<lambda>c. if pc_id c = i \<and> open_challenge (now w) c then c\<lparr>pc_usedAt := Some (now w)\<rparr> else c) (so_challenges s)"
    and au: "so_auth s0 = so_auth s" by (rule key_verified[OF v])
  note cd = find_SomeD[OF c]
  obtain access refresh where r: "r = SignedIn (response_user a) access refresh"
    using cp a by (auto simp: au complete_passkey_def active_account_def complete_sign_in_def run_iff split: prod.splits)
  have "map pc_id (so_challenges s0) = map pc_id (so_challenges s)" unfolding ch by (rule same_keys) simp
  moreover have "y = c" if "y \<in> set (so_challenges s)" "pc_id y = i" for y
    using d cd that by (auto simp: distinct_map inj_on_def)
  then have "\<forall>y \<in> set (so_challenges s0). pc_id y = i \<longrightarrow> pc_usedAt y \<noteq> None" unfolding ch using cd by auto
  ultimately have "challenge_spent i s0" using cd unfolding challenge_spent_def by force
  then have "challenge_spent i s2" using spent_challenge.reachable_inv[OF reach] by (simp add: s1 spent_other_tables)
  then have "find (\<lambda>c. pc_id c = i \<and> pc_purpose c = ''AUTHENTICATE'' \<and> open_challenge (now w') c) (so_challenges s2) = None"
    unfolding find_None_iff_all challenge_spent_def open_challenge_def by blast
  then have "fst (authenticate_passkey v' cr w' i q' x' s2) = Inl (BadRequest ''Passkey challenge is invalid or expired'')"
    by (simp add: authenticate_passkey_def verify_authentication_def get_challenge_def act_simps)
  then show ?thesis using cd k a n r unfolding open_challenge_def by blast
qed

section \<open>What a session is worth\<close>

lemma new_attempt_clean: "token_attempt cr w a x None k s = (Inl e, s') \<Longrightarrow> s' = s"
  by (auto simp: token_attempt_def Let_def act_simps create_session_def split: sum.splits prod.splits if_splits dest: trim_fields)

text \<open>The session a sign-in opens: the only one with its id, not revoked.\<close>

definition opened :: "account \<Rightarrow> session_ctx \<Rightarrow> auth_world \<Rightarrow> session list \<Rightarrow> bool" where
  "opened a x w ss \<longleftrightarrow> (\<exists>k y. find (\<lambda>z. Some (se_id z) = Some (uuid w k) \<and> se_userId z = ac_id a \<and> se_revokedAt z = None) ss = Some y
     \<and> se_mfaAt y = sx_mfaAt x)"

lemma new_attempt_opens:
  assumes "token_attempt cr w a x None k s = (Inr r, s')"
  shows "opened a x w (sessions s')"
proof -
  define y where "y = \<lparr>se_id = uuid w k, se_userId = ac_id a, se_refresh = hash_credential cr (rnd w k),
      se_device = device_label (sx_agent x), se_agent = (if truthy (sx_agent x) then map_option (take 500) (sx_agent x) else None),
      se_ip = (if truthy (sx_ip x) then map_option (take 191) (sx_ip x) else None), se_createdAt = now w, se_lastSeenAt = Some (now w),
      se_mfaAt = sx_mfaAt x, se_expiresAt = now w + lifetime_days s * 24 * 60 * 60 * 1000, se_revokedAt = None, se_revokedById = None,
      se_reason = None\<rparr>"
  define s1 n where "s1 = s\<lparr>sessions := sessions s @ [y]\<rparr>" and "n = max_active s"
  have y: "se_id y = uuid w k" "se_userId y = ac_id a" "se_mfaAt y = sx_mfaAt x" "se_revokedAt y = None" by (simp_all add: y_def)
  have new: "\<not> list_ex (\<lambda>z. se_id z = uuid w k \<or> se_refresh z = hash_credential cr (rnd w k)) (sessions s)"
    using assms by (cases "list_ex (\<lambda>z. se_id z = uuid w k \<or> se_refresh z = hash_credential cr (rnd w k)) (sessions s)")
      (simp_all add: token_attempt_def Let_def act_simps create_session_def)
  have t: "trim_sessions (now w) (ac_id a) n (uuid w k) s1 = (Inr (), s')"
    using assms new trim_fields[of "now w" "ac_id a" n "uuid w k" s1]
    by (cases "trim_sessions (now w) (ac_id a) n (uuid w k) s1")
      (simp add: token_attempt_def Let_def act_simps create_session_def s1_def y_def n_def)
  let ?ids = "map se_id (stale_sessions (now w) (ac_id a) n (uuid w k) (sessions s1))"
  have k: "uuid w k \<notin> set ?ids" by (auto simp: stale_sessions_def)
  have "sessions s' = map (\<lambda>z. if se_id z \<in> set ?ids then revoke (now w) None ''session-limit'' z else z) (sessions s1)"
    using t by (auto simp: trim_sessions_def act_simps set_sessions_def map_idI split: if_splits)
  then have e: "sessions s' = map (\<lambda>z. if se_id z \<in> set ?ids then revoke (now w) None ''session-limit'' z else z) (sessions s) @ [y]"
    using k y(1) by (simp add: s1_def)
  have "find (\<lambda>z. Some (se_id z) = Some (uuid w k) \<and> se_userId z = ac_id a \<and> se_revokedAt z = None)
      (map (\<lambda>z. if se_id z \<in> set ?ids then revoke (now w) None ''session-limit'' z else z) (sessions s)) = None"
    using new by (auto simp: find_None_iff_all list_ex_iff)
  then have "find (\<lambda>z. Some (se_id z) = Some (uuid w k) \<and> se_userId z = ac_id a \<and> se_revokedAt z = None) (sessions s') = Some y"
    unfolding e by (simp add: find_append_new y)
  then show ?thesis using y(3) unfolding opened_def by blast
qed

lemma new_attempts_open: "token_attempts cr w a x None n k s = (Inr r, s') \<Longrightarrow> opened a x w (sessions s')"
proof (induction n arbitrary: k s)
  case (Suc n)
  show ?case
  proof (cases "token_attempt cr w a x None k s")
    case (Pair res s1)
    show ?thesis
    proof (cases res)
      case (Inl er)
      with new_attempt_clean Pair have "s1 = s" by blast
      with Suc.prems Pair Inl show ?thesis by (auto simp: act_simps intro: Suc.IH split: if_splits)
    next
      case (Inr z)
      with Suc.prems Pair have "res = Inr r" "s1 = s'" by (simp_all add: act_simps)
      with Pair show ?thesis using new_attempt_opens by blast
    qed
  qed
qed (simp add: act_simps)

lemma sign_in_opens:
  assumes "complete_sign_in cr w a x s = (Inr r, s')"
  shows "opened a x w (sessions s')" "\<exists>t u. r = SignedIn (response_user a) t u"
proof -
  obtain t u s1 s2 where g: "generate_tokens cr w a x None s = (Inr (t, u), s1)" and e: "security_signals (now w) a x s1 = (Inr (), s2)"
    and f: "sessions s' = sessions s2" "r = SignedIn (response_user a) t u"
    using assms by (auto simp: complete_sign_in_def run_iff set_account_def)
  have "sessions s2 = sessions s1" using e by (auto simp: security_signals_def run_iff insert_alert_def split: if_splits)
  then show "opened a x w (sessions s')" "\<exists>t u. r = SignedIn (response_user a) t u" using new_attempts_open g f unfolding generate_tokens_def by auto
qed

text \<open>
  A session from single sign-on counts as freshly verified. Exchanging a login code opens
  a session with which the step-up guard lets its user through for ten minutes: neither the
  authentication methods of the identity token nor the second factor of the account are asked
  for, and the callback asks for a method only when the policy names the role.
\<close>
theorem sso_session_passes_step_up:
  assumes "exchange_sso cr w code x s = (Inr r, s')" and "\<forall>k. uuid w k \<noteq> []"
  shows "\<exists>u t f sid. r = SignedIn u t f \<and> (\<forall>p q t'. rq_user q = Some p \<and> p_id p = b_id u \<and> t' \<le> now w + 10 * 60 * 1000 \<longrightarrow>
    step_up_guard t' True (sessions (so_auth s')) (Some sid) q = Inr q)"
proof -
  obtain i s0 z where c: "consume_login_code cr (now w) code s = (Inr i, s0)" and e: "complete_sso cr w i x True (so_auth s0) = (Inr r, z)"
    and s': "so_auth s' = z"
    using assms(1) by (auto simp: exchange_sso_def run_iff)
  obtain a where a: "complete_sign_in cr w a (x\<lparr>sx_mfaAt := Some (now w)\<rparr>) (so_auth s0) = (Inr r, z)"
    using e by (auto simp: complete_sso_def active_account_def run_iff split: if_splits)
  obtain k y where y: "find (\<lambda>z. Some (se_id z) = Some (uuid w k) \<and> se_userId z = ac_id a \<and> se_revokedAt z = None) (sessions z) = Some y"
    "se_mfaAt y = Some (now w)" using sign_in_opens(1)[OF a] by (auto simp: opened_def)
  obtain t f where r: "r = SignedIn (response_user a) t f" using sign_in_opens(2)[OF a] by blast
  have "step_up_guard t' True (sessions (so_auth s')) (Some (uuid w k)) q = Inr q"
    if "rq_user q = Some p" "p_id p = b_id (response_user a)" "t' \<le> now w + 10 * 60 * 1000" for p q t'
    using that y assms(2) by (simp add: step_up_guard_def s' response_user_def)
  then show ?thesis using r by blast
qed

section \<open>A run from start to session\<close>

text \<open>A provider whose token names no authentication methods.\<close>

definition sv_claims :: id_claims where
  "sv_claims = \<lparr>cl_iss = Some ''https://idp'', cl_aud = [''app''], cl_azp = None, cl_exp = Some 100, cl_nonce = Some ''ar'',
     cl_email = Some ''A@x.io'', cl_emailVerified = None, cl_given = None, cl_family = None, cl_name = None, cl_amr = []\<rparr>"

definition sv_env :: sso_env where
  "sv_env = \<lparr>url_of = (\<lambda>x. Some \<lparr>ur_protocol = ''https:'', ur_host = ''idp'', ur_origin = ''https://idp'', ur_bare = True\<rparr>),
     addresses_of = (\<lambda>x. Some [''8.8.8.8'']), is_ip6 = (\<lambda>x. False), production = True, allow_private = False, api_base = ''https://api'',
     discover = (\<lambda>x. Some (200, \<lparr>ds_issuer = Some ''https://idp/'', ds_authorization = Some ''a'', ds_token = Some ''t'', ds_jwks = Some ''j'',
       ds_secretPost = True\<rparr>)),
     keys_at = (\<lambda>x. Some (200, [\<lparr>jk_kid = Some ''k'', jk_alg = None, jk_use = None, jk_key = ''key''\<rparr>])),
     post_token = (\<lambda>q. Some (200, Some ''h.c.s'')), header_of = (\<lambda>x. Some \<lparr>hd_alg = ''RS256'', hd_kid = Some ''k''\<rparr>),
     claims_of = (\<lambda>x. Some sv_claims), signature_ok = (\<lambda>a k x y. y = ''s''), rp_name = Some ''app'', rp_origins = None,
     frontend = ''https://app'', attested = (\<lambda>q c os i. None),
     asserted = (\<lambda>q c os i k n. if pr_data q = c then Some (n + 1) else None)\<rparr>"

definition sv_db :: "unit sso_db_scheme" where
  "sv_db = \<lparr>so_auth = toy_db, so_deleted = [], so_phishing = False, so_providers = [\<lparr>pv_id = ''p1'', pv_companyId = Some ''c1'', pv_name = ''IdP'',
     pv_issuer = ''https://idp'', pv_clientId = ''app'', pv_secret = None, pv_domains = [], pv_autoProvision = False, pv_role = ''CLIENT'',
     pv_enabled = True, pv_testStatus = Some ''PASS''\<rparr>], so_states = [], so_codes = [],
     so_passkeys = [\<lparr>pk_id = ''y1'', pk_userId = ''u1'', pk_credential = ''cred'', pk_key = ''pub'', pk_counter = 3, pk_name = ''Key'',
       pk_createdAt = 1, pk_lastUsedAt = None\<rparr>],
     so_challenges = [], so_audit = []\<rparr>"

definition sv_started :: "unit sso_db_scheme" where
  "sv_started = snd (start_sso sv_env toy_crypto (toy_world 1000 ''a'') ''p1'' (Some '' /tickets'') sv_db)"

definition sv_called :: "unit sso_db_scheme" where
  "sv_called = snd (sso_callback sv_env toy_crypto (toy_world 2000 ''b'') ''p1'' ''code'' ''a'' sv_started)"

definition sv_signed :: "unit sso_db_scheme" where
  "sv_signed = snd (exchange_sso toy_crypto (toy_world 3000 ''e'') ''b'' no_ctx sv_called)"

lemma sv_callback: "sso_callback sv_env toy_crypto (toy_world 2000 ''b'') ''p1'' ''code'' ''a'' sv_started = (Inr (''b'', ''/tickets''), sv_called)"
proof -
  have "fst (sso_callback sv_env toy_crypto (toy_world 2000 ''b'') ''p1'' ''code'' ''a'' sv_started) = Inr (''b'', ''/tickets'')" by code_simp
  then show ?thesis unfolding sv_called_def by (metis prod.collapse)
qed

lemma sv_exchange: "\<exists>r. exchange_sso toy_crypto (toy_world 3000 ''e'') ''b'' no_ctx sv_called = (Inr r, sv_signed)"
proof -
  have "isl (fst (exchange_sso toy_crypto (toy_world 3000 ''e'') ''b'' no_ctx sv_called)) = False" by code_simp
  then show ?thesis unfolding sv_signed_def
    by (cases "exchange_sso toy_crypto (toy_world 3000 ''e'') ''b'' no_ctx sv_called"; cases "fst (exchange_sso toy_crypto (toy_world 3000 ''e'') ''b'' no_ctx sv_called)") auto
qed

theorem login_code_proves_identity_witness:
  "map lc_userId (so_codes sv_called) = [''u1''] \<and> (\<exists>a. ac_email a = ''a@x.io'' \<and> ac_companyId a = Some ''c1'' \<and> a \<in> set (accounts (so_auth sv_called)))"
proof -
  have p: "so_providers sv_started = so_providers sv_db" by code_simp
  obtain st :: sso_state and q :: sso_provider and cl :: id_claims and a :: account where q: "q \<in> set (so_providers sv_started)" and m: "identity_proved sv_env (now (toy_world 2000 ''b'')) q (ss_nonce st) cl"
    and a: "a \<in> set (accounts (so_auth sv_called))" "ac_email a = js_lower (js_trim (or_str (cl_email cl) []))"
      "truthy (pv_companyId q) \<longrightarrow> ac_companyId a = pv_companyId q"
    using login_code_proves_identity[OF sv_callback] by blast
  have c: "cl = sv_claims" using m by (auto simp: identity_proved_def sv_env_def)
  have "js_lower (js_trim (or_str (cl_email sv_claims) [])) = ''a@x.io''" by code_simp
  then have "ac_email a = ''a@x.io''" "ac_companyId a = Some ''c1''" using a q p by (simp_all add: c sv_db_def)
  moreover have "map lc_userId (so_codes sv_called) = [''u1'']" by code_simp
  ultimately show ?thesis using a(1) by blast
qed

theorem login_code_once_witness:
  "fst (exchange_sso toy_crypto (toy_world 3500 ''f'') ''b'' no_ctx (sso_step toy_crypto (KeyOptions (toy_world 3200 ''o'') None) sv_signed))
   = Inl (Unauthorized ''SSO login code is invalid or expired'')"
proof -
  obtain r where r: "exchange_sso toy_crypto (toy_world 3000 ''e'') ''b'' no_ctx sv_called = (Inr r, sv_signed)" using sv_exchange by blast
  have d: "distinct (map lc_hash (so_codes sv_called))" by code_simp
  have "reachable_by any_call (sso_step toy_crypto) sv_signed (sso_step toy_crypto (KeyOptions (toy_world 3200 ''o'') None) sv_signed)"
    by (intro reach_step reach_start) simp
  then show ?thesis by (rule login_code_once[OF r d])
qed

theorem sso_session_passes_step_up_witness:
  "cl_amr sv_claims = [] \<and> (\<exists>sid. step_up_guard 600000 True (sessions (so_auth sv_signed)) (Some sid) g_request = Inr g_request)"
proof -
  obtain r where r: "exchange_sso toy_crypto (toy_world 3000 ''e'') ''b'' no_ctx sv_called = (Inr r, sv_signed)" using sv_exchange by blast
  have n: "\<forall>k. uuid (toy_world 3000 ''e'') k \<noteq> []" by (simp add: toy_world_def)
  obtain u t f sid where u: "r = SignedIn u t f" and g: "rq_user q = Some p \<and> p_id p = b_id u \<and> t' \<le> now (toy_world 3000 ''e'') + 10 * 60 * 1000 \<longrightarrow>
      step_up_guard t' True (sessions (so_auth sv_signed)) (Some sid) q = Inr q" for p q t'
    using sso_session_passes_step_up[OF r n] by blast
  have "map_sum id (\<lambda>x. case x of SignedIn u _ _ \<Rightarrow> b_id u | _ \<Rightarrow> []) (fst (exchange_sso toy_crypto (toy_world 3000 ''e'') ''b'' no_ctx sv_called)) = Inr ''u1''"
    by code_simp
  then have "b_id u = ''u1''" by (simp add: r u)
  then show ?thesis using g[of g_request g_user 600000] by (auto simp: g_request_def g_user_def toy_world_def sv_claims_def)
qed

definition sv_asked :: "unit sso_db_scheme" where
  "sv_asked = snd (authentication_options (toy_world 1000 ''c'') sv_db)"

definition sv_answer :: passkey_response where
  "sv_answer = \<lparr>pr_id = ''cred'', pr_data = ''c''\<rparr>"

theorem passkey_proves_owner_witness:
  "let s = snd (authenticate_passkey sv_env toy_crypto (toy_world 2000 ''d'') ''c'' sv_answer no_ctx sv_asked) in
   map pk_counter (so_passkeys s) = [4] \<and> fst (authenticate_passkey sv_env toy_crypto (toy_world 2500 ''e'') ''c'' sv_answer no_ctx s)
     = Inl (BadRequest ''Passkey challenge is invalid or expired'')"
proof -
  let ?m = "authenticate_passkey sv_env toy_crypto (toy_world 2000 ''d'') ''c'' sv_answer no_ctx sv_asked"
  have "isl (fst ?m) = False" by code_simp
  then obtain r where r: "?m = (Inr r, snd ?m)" by (cases ?m; cases "fst ?m") auto
  have d: "distinct (map pc_id (so_challenges sv_asked))" by code_simp
  have "fst (authenticate_passkey sv_env toy_crypto (toy_world 2500 ''e'') ''c'' sv_answer no_ctx (snd ?m))
     = Inl (BadRequest ''Passkey challenge is invalid or expired'')"
    using passkey_proves_owner[OF r d reach_start] by blast
  moreover have "map pk_counter (so_passkeys (snd ?m)) = [4]" by code_simp
  ultimately show ?thesis by (simp add: Let_def)
qed

end
