(* ===== verification/Platform_Props.thy ===== *)
theory Platform_Props
  imports Platform_Security Sso_Props
begin

text \<open>
  What the platform's security settings promise: which identity providers can be enabled,
  that a policy change can be rolled back, what retention never removes, that a restore
  drill loads every row, and where the backup schedule gets stuck.
\<close>

section \<open>Calls\<close>

datatype plat_call =
    PolicyUpdate world principal security_dto
  | PolicyRollback world principal string
  | ProviderSave sso_env crypto world principal provider_dto "string option"
  | ProviderTest sso_env principal string
  | ProviderDelete principal string
  | BackupPolicy principal backup_policy_dto
  | BackupStart world
  | BackupFinish int bool "string + artifact" bool "string \<Rightarrow> bool" string
  | BackupTest "string \<Rightarrow> string" "backup_run \<Rightarrow> string option" "string \<Rightarrow> (string \<times> (string \<times> table_row list) list) option" string
  | RetentionPolicy principal retention_dto
  | Retention int
  | Nightly world

fun plat_step :: "plat_call \<Rightarrow> plat_db \<Rightarrow> plat_db" where
  "plat_step (PolicyUpdate w u d) s = snd (update_security_policy w u d s)"
| "plat_step (PolicyRollback w u i) s = snd (rollback_security_policy w u i s)"
| "plat_step (ProviderSave v cr w u d i) s = snd (save_oidc_provider v cr w u d i s)"
| "plat_step (ProviderTest v u i) s = snd (test_oidc_provider v u i s)"
| "plat_step (ProviderDelete u i) s = snd (delete_oidc_provider u i s)"
| "plat_step (BackupPolicy u d) s = snd (update_backup_policy u d s)"
| "plat_step (BackupStart w) s = snd (start_backup w s)"
| "plat_step (BackupFinish t st m p g i) s = snd (finish_backup t st m p g i s)"
| "plat_step (BackupTest h f k i) s = snd (test_backup h f k i s)"
| "plat_step (RetentionPolicy u d) s = snd (update_retention_policy u d s)"
| "plat_step (Retention t) s = snd (platform_retention t s)"
| "plat_step (Nightly w) s = snd (scheduled_operations w s)"

section \<open>Enabled providers were tested\<close>

text \<open>\<open>T i issuer client\<close>: the provider \<open>i\<close> passed a test with this issuer and client.\<close>

definition provider_ok :: "(string \<Rightarrow> string \<Rightarrow> string \<Rightarrow> bool) \<Rightarrow> sso_provider \<Rightarrow> bool" where
  "provider_ok T p \<longleftrightarrow> (pv_enabled p \<or> pv_testStatus p = Some ''PASS'' \<longrightarrow> T (pv_id p) (pv_issuer p) (pv_clientId p)) \<and> (pv_autoProvision p \<longrightarrow> truthy (pv_companyId p) \<and> pv_domains p \<noteq> [])
     \<and> pv_role p \<in> {''CLIENT'', ''TECHNICIAN'', ''TENANT_ADMIN''} \<and> pv_clientId p \<noteq> [] \<and> pv_issuer p \<noteq> []"

definition providers_ok :: "(string \<Rightarrow> string \<Rightarrow> string \<Rightarrow> bool) \<Rightarrow> plat_db \<Rightarrow> bool" where
  "providers_ok T s \<longleftrightarrow> distinct (map pv_id (so_providers s)) \<and> list_all (provider_ok T) (so_providers s)"

lemma one_provider: "distinct (map pv_id ps) \<Longrightarrow> find (\<lambda>p. pv_id p = i) ps = Some p \<Longrightarrow> q \<in> set ps \<Longrightarrow> pv_id q = i \<Longrightarrow> q = p"
  using find_SomeD[of "\<lambda>p. pv_id p = i" ps p] by (auto simp: distinct_map inj_on_def)

lemma providers_map:
  assumes "providers_ok T s" "\<And>p. pv_id (f p) = pv_id p" "\<And>p. p \<in> set (so_providers s) \<Longrightarrow> pv_id p = i \<Longrightarrow> provider_ok T (f p)"
  shows "providers_ok T (s\<lparr>so_providers := map (\<lambda>p. if pv_id p = i then f p else p) (so_providers s)\<rparr>)"
proof -
  have "map pv_id (map (\<lambda>p. if pv_id p = i then f p else p) (so_providers s)) = map pv_id (so_providers s)"
    by (rule same_keys) (rule assms(2))
  then show ?thesis using assms(1,3) unfolding providers_ok_def by (auto simp: list_all_iff simp del: map_map)
qed

lemma last_ret: "snd (bindE m (\<lambda>_. ret x) s) = snd (m s)"
  by (simp add: bindE_def ret_def split: prod.splits sum.splits)

lemma other_tables:
  "providers_ok T s \<Longrightarrow> so_providers s' = so_providers s \<Longrightarrow> providers_ok T s'"
  by (simp add: providers_ok_def)

lemma oidc_access: "assert_oidc_access u i s = (Inr p, t) \<Longrightarrow> t = s \<and> find (\<lambda>p. pv_id p = i) (so_providers s) = Some p"
  by (auto simp: assert_oidc_access_def run_iff)

lemma access_reads: "snd (assert_oidc_access u i s) = s"
  by (simp add: assert_oidc_access_def act_simps split: option.splits)

lemma check_run:
  assumes "check_provider v u q s = (Inr r, t)"
  shows "t = s" "pv_issuer q \<noteq> []" "pv_clientId q \<noteq> []" "pv_role q \<in> {''CLIENT'', ''TECHNICIAN'', ''TENANT_ADMIN''}"
    "pv_autoProvision q \<longrightarrow> truthy (pv_companyId q) \<and> pv_domains q \<noteq> []"
  using assms unfolding check_provider_def run_iff by (elim exE conjE, blast)+

lemma check_reads: "snd (check_provider v u q s) = s"
  by (simp add: check_provider_def act_simps split: sum.splits)

lemma ok_insert:
  assumes "providers_ok T s" "provider_ok T (q\<lparr>pv_id := i, pv_secret := z, pv_testStatus := None, pv_enabled := False\<rparr>)" "pv_testStatus q = None"
  shows "providers_ok T (snd (insert_provider cr d q i s))"
  using assms by (auto simp: insert_provider_def act_simps providers_ok_def provider_ok_def list_ex_iff)

lemma ok_replace:
  assumes "providers_ok T s" "provider_ok T (q\<lparr>pv_enabled := False, pv_testStatus := None\<rparr>)"
  shows "providers_ok T (snd (replace_provider cr u d q i s))"
proof (cases "assert_oidc_access u i s")
  case (Pair r t)
  then have t: "t = s" using access_reads[of u i s] by simp
  show ?thesis
  proof (cases r)
    case (Inr p)
    let ?ch = "pv_issuer p \<noteq> pv_issuer q \<or> pv_clientId p \<noteq> pv_clientId q"
    have f: "find (\<lambda>p. pv_id p = i) (so_providers s) = Some p" using oidc_access Pair Inr by blast
    have d: "distinct (map pv_id (so_providers s))" using assms(1) by (simp add: providers_ok_def)
    have ok: "provider_ok T p" using assms(1) find_SomeD(1)[OF f] by (simp add: providers_ok_def list_all_iff)
    show ?thesis
    proof (cases "pv_enabled q \<and> (?ch \<or> pv_testStatus p \<noteq> Some ''PASS'')")
      case False
      have "provider_ok T (rewritten_provider cr d q ?ch x)" if "x \<in> set (so_providers s)" "pv_id x = i" for x
        using one_provider[OF d f that] assms(2) False ok by (auto simp: provider_ok_def rewritten_provider_def)
      then have "providers_ok T (s\<lparr>so_providers := map (\<lambda>p. if pv_id p = i then rewritten_provider cr d q ?ch p else p) (so_providers s)\<rparr>)"
        by (intro providers_map[OF assms(1)]) (simp_all add: rewritten_provider_def)
      then show ?thesis unfolding replace_provider_def Let_def bindE_eval Pair t Inr
        by (simp only: guard_eval writes_eval False not_False_eq_True if_True prod.case sum.case snd_conv)
    next
      case True
      then show ?thesis unfolding replace_provider_def Let_def bindE_eval Pair t Inr
        by (simp only: guard_eval True simp_thms not_True_eq_False if_False prod.case sum.case snd_conv assms(1))
    qed
  qed (use Pair assms(1) in \<open>simp add: replace_provider_def act_simps t\<close>)
qed

lemma ok_save: "providers_ok T s \<Longrightarrow> providers_ok T (snd (save_oidc_provider v cr w u d i s))"
proof -
  assume ok: "providers_ok T s"
  let ?q = "draft_provider u d"
  show ?thesis
  proof (cases "check_provider v u ?q s")
    case (Pair r t)
    then have t: "t = s" using check_reads[of v u ?q s] by simp
    show ?thesis
    proof (cases r)
      case (Inr x)
      note c = check_run[OF Pair[unfolded Inr]]
      have "provider_ok T (?q\<lparr>pv_enabled := False, pv_testStatus := None\<rparr>)" using c by (simp add: provider_ok_def)
      then have "providers_ok T (snd (replace_provider cr u d ?q j s))" for j by (rule ok_replace[OF ok])
      moreover have "pv_testStatus ?q = None" by (simp add: draft_provider_def)
      then have "providers_ok T (snd (insert_provider cr d ?q j s))" for j
        using c by (intro ok_insert[OF ok, where z = None]) (simp_all add: provider_ok_def)
      ultimately show ?thesis using Pair Inr
        by (simp add: save_oidc_provider_def Let_def bindE_eval[of "check_provider v u ?q"] t last_ret)
    qed (use Pair ok in \<open>simp add: save_oidc_provider_def Let_def act_simps t\<close>)
  qed
qed

lemma ok_test:
  assumes ok: "providers_ok T s"
    and passed: "\<And>d p. test_oidc_provider v u i s = (Inr d, snd (test_oidc_provider v u i s)) \<Longrightarrow> p \<in> set (so_providers s) \<Longrightarrow> pv_id p = i \<Longrightarrow>
      T i (pv_issuer p) (pv_clientId p)"
  shows "providers_ok T (snd (test_oidc_provider v u i s))"
proof -
  have m: "providers_ok T (s\<lparr>so_providers := map (\<lambda>p. if pv_id p = i then p\<lparr>pv_testStatus := Some x\<rparr> else p) (so_providers s)\<rparr>)"
    if "\<And>p. p \<in> set (so_providers s) \<Longrightarrow> pv_id p = i \<Longrightarrow> x = ''PASS'' \<Longrightarrow> T i (pv_issuer p) (pv_clientId p)" for x
    by (rule providers_map[OF ok]) (use ok that in \<open>auto simp: providers_ok_def provider_ok_def list_all_iff\<close>)
  show ?thesis
  proof (cases "assert_oidc_access u i s")
    case (Pair r t)
    then have t: "t = s" using access_reads[of u i s] by simp
    show ?thesis
    proof (cases r)
      case (Inl e)
      with Pair t ok show ?thesis by (simp add: test_oidc_provider_def act_simps)
    next
      case (Inr p)
      show ?thesis
      proof (cases "fetch_oidc_discovery v (pv_issuer p)")
        case Inl': (Inl e)
        with Pair Inr t m[of "''FAIL''"] show ?thesis by (simp add: test_oidc_provider_def act_simps set_test_status_def)
      next
        case Inr': (Inr d)
        have "test_oidc_provider v u i s = (Inr d, snd (test_oidc_provider v u i s))"
          using Pair Inr t Inr' by (simp add: test_oidc_provider_def act_simps set_test_status_def)
        then have "providers_ok T (s\<lparr>so_providers := map (\<lambda>p. if pv_id p = i then p\<lparr>pv_testStatus := Some ''PASS''\<rparr> else p) (so_providers s)\<rparr>)"
          by (intro m) (rule passed)
        with Pair Inr t Inr' show ?thesis
          by (simp add: test_oidc_provider_def act_simps set_test_status_def)
      qed
    qed
  qed
qed

lemma ok_delete: "providers_ok T s \<Longrightarrow> providers_ok T (snd (delete_oidc_provider u i s))"
  using access_reads[of u i s] distinct_map_filter[of pv_id "so_providers s" "\<lambda>p. pv_id p \<noteq> i"]
  by (cases "assert_oidc_access u i s") (auto simp: delete_oidc_provider_def act_simps providers_ok_def list_all_iff split: sum.splits)

text \<open>The other calls leave the providers alone.\<close>

lemma keeps_providers:
  "keeps (providers_ok T) (update_security_policy w u d)" "keeps (providers_ok T) (rollback_security_policy w u i)"
  "keeps (providers_ok T) (update_backup_policy u bd)" "keeps (providers_ok T) (start_backup w)"
  "keeps (providers_ok T) (finish_backup t st m pt g i)" "keeps (providers_ok T) (test_backup h f k i)"
  "keeps (providers_ok T) (update_retention_policy u rd)" "keeps (providers_ok T) (platform_retention t)"
  unfolding update_security_policy_def rollback_security_policy_def update_backup_policy_def start_backup_def finish_backup_def
    store_backup_def prune_backups_def prune_run_def test_backup_def update_retention_policy_def platform_retention_def
    assert_super_def snapshot_policy_def write_policy_def record_job_def set_run_def
  by ((rule keeps_intros keeps_in_auth keeps_writes | simp add: providers_ok_def split: sum.splits | intro allI impI conjI)+)

lemma keeps_nightly: "keeps (providers_ok T) (scheduled_operations w)"
  unfolding scheduled_operations_def by (intro keeps_intros keeps_providers)

text \<open>The history: some earlier test of the provider passed while it had this issuer and client.\<close>

definition discovery_passed :: "plat_db \<Rightarrow> plat_db \<Rightarrow> string \<Rightarrow> string \<Rightarrow> string \<Rightarrow> bool" where
  "discovery_passed s0 s i issuer client \<longleftrightarrow> (\<exists>s1 v u d s2 q. reachable_by any_call plat_step s0 s1
     \<and> test_oidc_provider v u i s1 = (Inr d, s2) \<and> reachable_by any_call plat_step s2 s
     \<and> q \<in> set (so_providers s1) \<and> pv_id q = i \<and> pv_issuer q = issuer \<and> pv_clientId q = client)"

lemma passed_later: "discovery_passed s0 s i x y \<Longrightarrow> discovery_passed s0 (plat_step e s) i x y"
  unfolding discovery_passed_def using reach_step[of any_call plat_step _ s e] by blast

lemma providers_mono: "providers_ok T s \<Longrightarrow> (\<And>i x y. T i x y \<Longrightarrow> T' i x y) \<Longrightarrow> providers_ok T' s"
  unfolding providers_ok_def provider_ok_def list_all_iff by blast

definition providers_tested :: "plat_db \<Rightarrow> plat_db \<Rightarrow> bool" where
  "providers_tested s0 s \<longleftrightarrow> reachable_by any_call plat_step s0 s \<and> providers_ok (discovery_passed s0 s) s"

lemma providers_other_calls: "providers_ok T s \<Longrightarrow> \<nexists>v u i. e = ProviderTest v u i \<Longrightarrow> providers_ok T (plat_step e s)"
  by (cases e; (blast | simp add: ok_save ok_delete keeps_nightly[unfolded keeps_def] keeps_providers[unfolded keeps_def]))

lemma providers_calls:
  assumes "providers_tested s0 s"
  shows "providers_tested s0 (plat_step e s)"
proof -
  let ?T = "discovery_passed s0 (plat_step e s)"
  from assms have r: "reachable_by any_call plat_step s0 s" and ok: "providers_ok ?T s"
    unfolding providers_tested_def by (blast intro: providers_mono passed_later)+
  have "providers_ok ?T (plat_step e s)"
  proof (cases "\<exists>v u i. e = ProviderTest v u i")
    case True
    then obtain v u i where e: "e = ProviderTest v u i" by blast
    have "providers_ok ?T (snd (test_oidc_provider v u i s))"
    proof (rule ok_test[OF ok])
      fix d p
      assume "test_oidc_provider v u i s = (Inr d, snd (test_oidc_provider v u i s))" "p \<in> set (so_providers s)" "pv_id p = i"
      then show "?T i (pv_issuer p) (pv_clientId p)"
        unfolding discovery_passed_def e plat_step.simps using r reach_start[of any_call plat_step] by blast
    qed
    with e show ?thesis by simp
  next
    case False
    then show ?thesis by (rule providers_other_calls[OF ok])
  qed
  with r show ?thesis unfolding providers_tested_def by (simp add: reach_step)
qed

interpretation providers: guarded_machine any_call plat_step "providers_tested s0" for s0
  by unfold_locales (rule providers_calls)

text \<open>
  C30. Only tested identity providers are enabled. Starting without providers and after any
  calls, every enabled provider has passed a discovery test: at some earlier moment, when it
  had the issuer and the client it has now, a test of it returned a discovery document without
  an error. (A later test that fails is recorded but leaves it enabled.) A provider that creates
  accounts has a company and a list of e-mail domains, and none gives a role above tenant
  administrator.
\<close>
theorem enabled_provider_tested:
  assumes "reachable_by any_call plat_step s0 s" and "so_providers s0 = []"
  shows "\<forall>p \<in> set (so_providers s).
    (pv_enabled p \<longrightarrow> (\<exists>s1 v u d s2 q. reachable_by any_call plat_step s0 s1
       \<and> test_oidc_provider v u (pv_id p) s1 = (Inr d, s2) \<and> reachable_by any_call plat_step s2 s
       \<and> q \<in> set (so_providers s1) \<and> pv_id q = pv_id p \<and> pv_issuer q = pv_issuer p \<and> pv_clientId q = pv_clientId p))
    \<and> (pv_autoProvision p \<longrightarrow> truthy (pv_companyId p) \<and> pv_domains p \<noteq> []) \<and> pv_role p \<in> {''CLIENT'', ''TECHNICIAN'', ''TENANT_ADMIN''}"
proof -
  have "providers_tested s0 s0" using assms(2) by (simp add: providers_tested_def providers_ok_def reach_start)
  then have "providers_tested s0 s" using providers.reachable_inv[OF assms(1)] by simp
  then show ?thesis unfolding providers_tested_def providers_ok_def provider_ok_def discovery_passed_def list_all_iff by blast
qed

section \<open>Rolling a policy back\<close>

lemma find_append_first: "find P xs = Some x \<Longrightarrow> find P (xs @ ys) = Some x"
  by (induction xs) (auto split: if_splits)

definition policy_in_range :: "sec_policy \<Rightarrow> bool" where
  "policy_in_range p \<longleftrightarrow> 1 \<le> sp_lifetime p \<and> sp_lifetime p \<le> 30 \<and> 1 \<le> sp_maxActive p \<and> sp_maxActive p \<le> 50"

lemma write_back:
  assumes "sec_policy (so_auth s) = Some p" "policy_in_range p" "sec_policy (so_auth s') \<noteq> None"
  shows "current_policy (snd (write_policy (current_policy s) s')) = current_policy s"
  using assms by (auto simp: write_policy_def act_simps current_policy_def clamp_int_def flag_or_def policy_in_range_def)

text \<open>
  C29. A policy change can be undone. Rolling back to the snapshot that a change of the security
  policy took gives every setting the value it had before the change, whoever asks and whatever
  other policy changes came in between.
\<close>
theorem rollback_restores_policy:
  assumes "update_security_policy w u d s = (Inr q, s1)" and "sec_policy (so_auth s) = Some p" "policy_in_range p"
    and "\<not> list_ex (\<lambda>x. sn_id x = uuid w 0) (pl_snapshots s)"
    and "list_all (\<lambda>e. case e of PolicyUpdate _ _ _ \<Rightarrow> True | _ \<Rightarrow> False) es" "p_role u' = ''SUPER_ADMIN''"
  shows "fst (rollback_security_policy w' u' (uuid w 0) (fold plat_step es s1)) = Inr (current_policy s)"
proof -
  let ?J = "\<lambda>z. find (\<lambda>x. sn_id x = uuid w 0) (pl_snapshots z) = Some \<lparr>sn_id = uuid w 0, sn_policy = current_policy s, sn_createdById = p_id u\<rparr>
     \<and> sec_policy (so_auth z) \<noteq> None"
  have n: "find (\<lambda>x. sn_id x = uuid w 0) (pl_snapshots s) = None" using assms(4) by (auto simp: find_None_iff_all list_ex_iff)
  have "?J s1"
    using assms(1,2,4) n by (auto simp: update_security_policy_def assert_super_def snapshot_policy_def write_policy_def run_iff find_append_new split: if_splits)
  moreover have "?J (plat_step (PolicyUpdate w2 u2 d2) z)" if "?J z" for w2 u2 d2 z
    using that by (auto simp: find_append_first update_security_policy_def assert_super_def snapshot_policy_def write_policy_def act_simps)
  ultimately have J: "?J (fold plat_step es s1)" using assms(5)
    by (induction es arbitrary: s1) (auto split: plat_call.splits)
  let ?z = "fold plat_step es s1"
  have k: "sec_policy (so_auth (snd (snapshot_policy i a z))) = sec_policy (so_auth z)" for i a z by (simp add: snapshot_policy_def act_simps)
  have "fst (rollback_security_policy w' u' (uuid w 0) ?z)
      = Inr (current_policy (snd (write_policy (current_policy s) (snd (snapshot_policy (uuid w' 0) (p_id u') ?z)))))"
    using J assms(6) by (simp add: rollback_security_policy_def assert_super_def act_simps write_policy_def snapshot_policy_def)
  then show ?thesis using write_back[OF assms(2,3)] J k by simp
qed

section \<open>What retention keeps\<close>

definition week_policy :: "plat_db \<Rightarrow> bool" where
  "week_policy s \<longleftrightarrow> (case pl_retention s of None \<Rightarrow> True | Some p \<Rightarrow>
     list_all (\<lambda>n. 7 \<le> n) [re_session p, re_audit p, re_error p, re_email p, re_snapshot p, re_syslog p])"

lemma week_kept: "pl_retention s' = pl_retention s \<Longrightarrow> week_policy s \<Longrightarrow> week_policy s'"
  by (simp add: week_policy_def)

lemma keeps_week:
  "keeps week_policy (update_security_policy w u d)" "keeps week_policy (rollback_security_policy w u i)"
  "keeps week_policy (update_backup_policy u bd)" "keeps week_policy (start_backup w)"
  "keeps week_policy (finish_backup t st m pt g i)" "keeps week_policy (test_backup h f k i)"
  "keeps week_policy (platform_retention t)" "keeps week_policy (test_oidc_provider v u i)" "keeps week_policy (delete_oidc_provider u i)"
  "keeps week_policy (save_oidc_provider v cr w u od oi)"
  unfolding update_security_policy_def rollback_security_policy_def update_backup_policy_def start_backup_def finish_backup_def
    store_backup_def prune_backups_def prune_run_def test_backup_def platform_retention_def test_oidc_provider_def delete_oidc_provider_def
    save_oidc_provider_def check_provider_def replace_provider_def insert_provider_def assert_oidc_access_def set_test_status_def
    assert_super_def snapshot_policy_def write_policy_def record_job_def set_run_def Let_def
  by ((rule keeps_intros keeps_in_auth keeps_writes | simp add: week_policy_def split: sum.splits | intro allI impI conjI)+)

lemma keeps_week_retention: "keeps week_policy (update_retention_policy u d)"
  unfolding update_retention_policy_def assert_super_def
  by (intro keeps_intros keeps_writes) (auto simp: week_policy_def clamp_int_def split: option.splits)

lemma keeps_week_nightly: "keeps week_policy (scheduled_operations w)"
  unfolding scheduled_operations_def by (intro keeps_intros keeps_week)

lemma week_calls: "week_policy s \<Longrightarrow> week_policy (plat_step e s)"
  by (cases e) (simp_all add: keeps_week[unfolded keeps_def] keeps_week_retention[unfolded keeps_def] keeps_week_nightly[unfolded keeps_def])

interpretation week: guarded_machine any_call plat_step week_policy
  by unfold_locales (rule week_calls)

text \<open>
  Retention keeps at least a week. Whatever numbers an administrator sends, a cleanup at any
  later time removes no live session, no session that ended in the last seven days, and no audit,
  error, tracking, health or log row of the last seven days.
\<close>
theorem retention_keeps_a_week:
  assumes "reachable_by any_call plat_step s0 s" and "pl_retention s0 = None \<or> week_policy s0"
  shows "(\<forall>x \<in> set (sessions (so_auth s)). live t x \<or> days_ago t 7 \<le> (case se_revokedAt x of None \<Rightarrow> se_expiresAt x | Some r \<Rightarrow> r) \<longrightarrow>
      x \<in> set (sessions (so_auth (plat_step (Retention t) s))))
    \<and> list_all (\<lambda>tab. \<forall>x \<in> set (tab s). days_ago t 7 \<le> x \<longrightarrow> x \<in> set (tab (plat_step (Retention t) s)))
        [pl_audit, pl_errors, pl_tracking, pl_health, pl_syslog]"
proof -
  have "week_policy s0" using assms(2) by (auto simp: week_policy_def)
  then have w: "week_policy s" using week.reachable_inv[OF assms(1)] by simp
  show ?thesis
  proof (cases "pl_retention s")
    case None
    then show ?thesis by (simp add: platform_retention_def act_simps)
  next
    case (Some p)
    have n: "days_ago t k \<le> days_ago t 7" if "7 \<le> k" for k using that by (simp add: days_ago_def)
    have k: "7 \<le> re_session p" "7 \<le> re_audit p" "7 \<le> re_error p" "7 \<le> re_email p" "7 \<le> re_snapshot p" "7 \<le> re_syslog p"
      using w Some by (simp_all add: week_policy_def)
    have e: "\<not> ended_session t (re_session p) x"
      if "live t x \<or> days_ago t 7 \<le> (case se_revokedAt x of None \<Rightarrow> se_expiresAt x | Some r \<Rightarrow> r)" for x
      using that n[OF k(1)] by (cases "se_revokedAt x") (auto simp: ended_session_def live_def)
    show ?thesis
      using e n[OF k(2)] n[OF k(3)] n[OF k(4)] n[OF k(5)] n[OF k(6)] Some
      by (cases "re_enabled p") (auto simp: platform_retention_def act_simps so_in_auth_def record_job_def)
  qed
qed

section \<open>Restore drill\<close>

lemma batches_all: "0 < n \<Longrightarrow> concat (batches n xs) = xs"
proof (induction n xs rule: batches.induct)
  case (1 n xs)
  then show ?case by (subst batches.simps) simp
qed

lemma batches_sizes: "b \<in> set (batches n xs) \<Longrightarrow> b \<noteq> [] \<and> length b \<le> n"
proof (induction n xs rule: batches.induct)
  case (1 n xs)
  then show ?case by (subst (asm) (2) batches.simps) (auto split: if_splits)
qed

text \<open>
  A restore drill loads every row. A table whose name and columns are accepted is loaded row
  by row in order, each row with the columns of the first one, in non-empty batches of at most a
  hundred rows and, up to five thousand columns, five thousand values.
\<close>
theorem restore_loads_every_row:
  assumes "restore_table (name, r # rs) = Inr loaded"
  shows "loaded = map (\<lambda>row. map (map_of row) (map fst r)) (r # rs)
    \<and> restored_rows (name, r # rs) = Inr (length (r # rs))
    \<and> (\<forall>b \<in> set (batches (batch_size (length r)) (r # rs)). b \<noteq> [] \<and> length b \<le> 100
        \<and> (length r \<le> 5000 \<longrightarrow> length b * length r \<le> 5000))"
proof -
  have c: "r \<noteq> []" and l: "loaded = concat (map (map (\<lambda>row. map (map_of row) (map fst r))) (batches (batch_size (length r)) (r # rs)))"
    using assms by (auto simp: restore_table_def Let_def)
  have "0 < batch_size (length r)" by (simp add: batch_size_def)
  then have e: "loaded = map (\<lambda>row. map (map_of row) (map fst r)) (r # rs)" unfolding l map_concat[symmetric] by (simp only: batches_all)
  have n: "batch_size (length r) \<le> 100" by (simp add: batch_size_def)
  have f: "batch_size (length r) * length r \<le> 5000" if "length r \<le> 5000"
  proof (cases "5000 div length r = 0")
    case False
    then have "batch_size (length r) \<le> 5000 div length r" by (simp add: batch_size_def)
    then have "batch_size (length r) * length r \<le> 5000 div length r * length r" by (rule mult_right_mono) simp
    then show ?thesis using div_times_less_eq_dividend[of 5000 "length r"] by (rule le_trans)
  qed (use that c in \<open>simp add: div_eq_0_iff\<close>)
  have "b \<noteq> [] \<and> length b \<le> 100 \<and> (length r \<le> 5000 \<longrightarrow> length b * length r \<le> 5000)"
    if "b \<in> set (batches (batch_size (length r)) (r # rs))" for b
  proof -
    note z = batches_sizes[OF that]
    have "length b * length r \<le> batch_size (length r) * length r" using z by simp
    then show ?thesis using z n f by linarith
  qed
  then have "\<forall>b \<in> set (batches (batch_size (length r)) (r # rs)). b \<noteq> [] \<and> length b \<le> 100
        \<and> (length r \<le> 5000 \<longrightarrow> length b * length r \<le> 5000)" by blast
  moreover have "restored_rows (name, r # rs) = Inr (length (r # rs))" using e assms by (simp add: restored_rows_def bindR_def need_def)
  ultimately show ?thesis using e by blast
qed

section \<open>The schedule\<close>

lemma retention_runs: "\<exists>r s1. platform_retention t s = (Inr r, s1) \<and> pl_runs s1 = pl_runs s \<and> pl_backup s1 = pl_backup s"
proof (cases "pl_retention s")
  case (Some p)
  then show ?thesis by (cases "re_enabled p") (auto simp: platform_retention_def act_simps so_in_auth_def record_job_def)
qed (auto simp: platform_retention_def act_simps)

text \<open>
  The nightly job ignores most schedules. The job fires once a day, in the hour that begins
  at three; a policy that asks for any other hour never starts a backup, and the day of the week
  that the policy stores is not looked at.
\<close>
theorem backup_hour_other_than_three:
  assumes "cron_fires (now w)" and "pl_backup s = Some b" "bp_hour b \<noteq> 3"
  shows "fst (scheduled_operations w s) = Inr None \<and> pl_runs (plat_step (Nightly w) s) = pl_runs s
    \<and> backup_due t (Some (b\<lparr>bp_day := k\<rparr>)) = backup_due t (Some b)"
proof -
  obtain r s1 where r: "platform_retention (now w) s = (Inr r, s1)" "pl_runs s1 = pl_runs s" "pl_backup s1 = pl_backup s"
    using retention_runs by blast
  have "\<not> backup_due (now w) (pl_backup s1)" using assms r(3) by (simp add: backup_due_def cron_fires_def)
  then show ?thesis using r by (simp add: scheduled_operations_def act_simps backup_due_def)
qed

section \<open>A backup that could not be recorded\<close>

fun ends_no_backup :: "plat_call \<Rightarrow> bool" where
  "ends_no_backup (BackupFinish t st m g h i) = False"
| "ends_no_backup _ = True"

lemma keeps_flag:
  "keeps pl_running (update_security_policy w u d)" "keeps pl_running (rollback_security_policy w u i)"
  "keeps pl_running (update_backup_policy u bd)" "keeps pl_running (start_backup w)" "keeps pl_running (test_backup h f k i)"
  "keeps pl_running (platform_retention t)" "keeps pl_running (test_oidc_provider v u i)" "keeps pl_running (delete_oidc_provider u i)"
  "keeps pl_running (save_oidc_provider v cr w u od oi)" "keeps pl_running (update_retention_policy u rd)"
  unfolding update_security_policy_def rollback_security_policy_def update_backup_policy_def start_backup_def
    test_backup_def platform_retention_def test_oidc_provider_def delete_oidc_provider_def
    save_oidc_provider_def check_provider_def replace_provider_def insert_provider_def assert_oidc_access_def set_test_status_def
    assert_super_def snapshot_policy_def write_policy_def record_job_def set_run_def Let_def update_retention_policy_def
  by ((rule keeps_intros keeps_in_auth keeps_writes | simp split: sum.splits | intro allI impI conjI)+)

lemma keeps_flag_nightly: "keeps pl_running (scheduled_operations w)"
  unfolding scheduled_operations_def by (intro keeps_intros keeps_flag)

lemma flag_calls: "ends_no_backup c \<Longrightarrow> pl_running z \<Longrightarrow> pl_running (plat_step c z)"
  by (cases c) (simp_all add: keeps_flag[unfolded keeps_def] keeps_flag_nightly[unfolded keeps_def])

interpretation flag: guarded_machine ends_no_backup plat_step pl_running
  by unfold_locales (rule flag_calls)

text \<open>
  A start that fails locks backups out. When the row of a new backup cannot be written, the
  flag that a backup is running stays set: until the process restarts every later start is
  refused, whatever calls follow, since no backup is there to end.
\<close>
theorem failed_start_blocks_backups:
  assumes "start_backup w s = (Inl e, s1)" and "\<not> pl_running s" and "reachable_by ends_no_backup plat_step s1 s2"
  shows "fst (start_backup w' s2) = Inl (BadRequest ''A backup is already running'')"
proof -
  have s1: "pl_running s1" using assms(1,2) by (auto simp: start_backup_def act_simps split: if_splits)
  have "pl_running s2" by (rule flag.reachable_inv[OF assms(3) s1])
  then show ?thesis by (simp add: start_backup_def act_simps)
qed

section \<open>Witnesses\<close>

definition pl_admin :: principal where
  "pl_admin = \<lparr>p_id = ''u0'', p_email = ''root@x.io'', p_role = ''SUPER_ADMIN'', p_userType = ''BUSINESS'', p_companyId = None,
     p_effective = None, p_location = None, p_slugs = [], p_scopes = []\<rparr>"

definition pl_db :: plat_db where
  "pl_db = \<lparr>so_auth = toy_db\<lparr>sec_policy := Some \<lparr>sp_lifetime = 7, sp_maxActive = 10, sp_mfaSuper = True, sp_mfaTenant = False, sp_mfaTech = False\<rparr>,
       sessions := []\<rparr>,
     so_deleted = [], so_phishing = False, so_providers = [], so_states = [], so_codes = [], so_passkeys = [], so_challenges = [], so_audit = [],
     pl_network = True, pl_snapshots = [], pl_closed = [],
     pl_backup = Some \<lparr>bp_enabled = True, bp_day = 0, bp_hour = 22, bp_keep = 4, bp_lastRunAt = None\<rparr>,
     pl_runs = [\<lparr>bk_id = ''old'', bk_status = ''COMPLETED'', bk_startedAt = 1, bk_path = None, bk_key = None, bk_checksum = None, bk_tested = None\<rparr>],
     pl_running = False, pl_retention = None, pl_audit = [1, 700000000], pl_errors = [], pl_tracking = [], pl_health = [], pl_syslog = [], pl_jobs = []\<rparr>"

definition pl_provider :: provider_dto where
  "pl_provider = \<lparr>od_companyId = None, od_name = ''IdP'', od_issuer = ''https://idp/'', od_clientId = ''app'', od_domains = DomainText ''x.io'',
     od_role = Some ''technician'', od_auto = False, od_enabled = False, od_secret = None\<rparr>"

definition pl_world :: "int \<Rightarrow> string \<Rightarrow> world" where
  "pl_world t i = \<lparr>now = t, uuid = (\<lambda>k. i)\<rparr>"

definition pl_calls :: "plat_call list" where
  "pl_calls = [ProviderSave sv_env toy_crypto (pl_world 1 ''p1'') pl_admin pl_provider None, ProviderTest sv_env pl_admin ''p1'',
     ProviderSave sv_env toy_crypto (pl_world 2 ''p2'') pl_admin (pl_provider\<lparr>od_enabled := True\<rparr>) (Some ''p1'')]"

lemma pl_reach: "reachable_by any_call plat_step s (fold plat_step es s)"
  by (rule providers.fold_reachable) (simp_all add: list_all_iff reach_start)

theorem enabled_provider_tested_witness:
  "map pv_enabled (so_providers (fold plat_step pl_calls pl_db)) = [True]
   \<and> list_all (\<lambda>p. discovery_passed pl_db (fold plat_step pl_calls pl_db) (pv_id p) (pv_issuer p) (pv_clientId p))
       (so_providers (fold plat_step pl_calls pl_db))"
proof -
  have e: "map pv_enabled (so_providers (fold plat_step pl_calls pl_db)) = [True]" by code_simp
  then have en: "pv_enabled p" if "p \<in> set (so_providers (fold plat_step pl_calls pl_db))" for p
    using that by (auto simp: map_eq_Cons_conv)
  have "so_providers pl_db = []" by (simp add: pl_db_def)
  from enabled_provider_tested[OF pl_reach this, of pl_calls] en e
  show ?thesis unfolding list_all_iff discovery_passed_def by blast
qed

definition pl_change :: security_dto where
  "pl_change = \<lparr>sd_mfaSuper = Some False, sd_mfaTenant = None, sd_mfaTech = None, sd_phishing = None, sd_lifetime = Some 900,
     sd_maxActive = None, sd_network = Some False\<rparr>"

theorem rollback_restores_policy_witness:
  "let m = update_security_policy (pl_world 1 ''n1'') pl_admin pl_change in
   fst (m pl_db) \<noteq> Inr (current_policy pl_db)
   \<and> fst (rollback_security_policy (pl_world 3 ''n3'') pl_admin ''n1'' (plat_step (PolicyUpdate (pl_world 2 ''n2'') pl_admin pl_change) (snd (m pl_db))))
     = Inr (current_policy pl_db)"
proof -
  let ?m = "update_security_policy (pl_world 1 ''n1'') pl_admin pl_change"
  have "isl (fst (?m pl_db)) = False" by code_simp
  then obtain q where q: "?m pl_db = (Inr q, snd (?m pl_db))" by (cases "?m pl_db"; cases "fst (?m pl_db)") auto
  have p: "sec_policy (so_auth pl_db) = Some \<lparr>sp_lifetime = 7, sp_maxActive = 10, sp_mfaSuper = True, sp_mfaTenant = False, sp_mfaTech = False\<rparr>"
    by (simp add: pl_db_def)
  have "fst (rollback_security_policy (pl_world 3 ''n3'') pl_admin ''n1'' (fold plat_step [PolicyUpdate (pl_world 2 ''n2'') pl_admin pl_change] (snd (?m pl_db))))
     = Inr (current_policy pl_db)"
    using rollback_restores_policy[OF q p, where es = "[PolicyUpdate (pl_world 2 ''n2'') pl_admin pl_change]" and u' = pl_admin and w' = "pl_world 3 ''n3''"]
    by (simp add: policy_in_range_def pl_world_def pl_admin_def pl_db_def)
  moreover have "map_sum (\<lambda>_. ()) sd_mfaSuper (fst (?m pl_db)) \<noteq> Inr (sd_mfaSuper (current_policy pl_db))" by code_simp
  then have "fst (?m pl_db) \<noteq> Inr (current_policy pl_db)" by auto
  ultimately show ?thesis by (simp add: Let_def)
qed

definition pl_retained :: plat_db where
  "pl_retained = pl_db\<lparr>pl_retention := Some \<lparr>re_enabled = True, re_session = 7, re_audit = 7, re_error = 7, re_email = 7, re_snapshot = 7, re_syslog = 7\<rparr>\<rparr>"

theorem retention_keeps_a_week_witness:
  "pl_audit (plat_step (Retention 1000000000) pl_retained) = [700000000]
   \<and> 700000000 \<in> set (pl_audit (plat_step (Retention 1000000000) pl_retained))"
proof
  show "pl_audit (plat_step (Retention 1000000000) pl_retained) = [700000000]" by code_simp
  have "pl_retention pl_retained = None \<or> week_policy pl_retained" by (simp add: pl_retained_def week_policy_def)
  note k = conjunct2[OF retention_keeps_a_week[OF reach_start this]]
  show "700000000 \<in> set (pl_audit (plat_step (Retention 1000000000) pl_retained))"
    using k[of 1000000000] by (simp add: days_ago_def) (simp add: pl_retained_def pl_db_def)
qed

theorem restore_loads_every_row_witness:
  "restored_rows (''Ticket'', [[(''id'', ''t1''), (''title'', ''A'')], [(''id'', ''t2'')]]) = Inr 2"
proof -
  have "sql_name ''Ticket''" "sql_name ''id''" "sql_name ''title''"
    by (simp_all add: sql_name_def ch_lower_alnum_def ch_lower_def ch_digit_def)
  then obtain l where "restore_table (''Ticket'', [[(''id'', ''t1''), (''title'', ''A'')], [(''id'', ''t2'')]]) = Inr l"
    by (simp add: restore_table_def)
  from restore_loads_every_row[OF this] show ?thesis by simp
qed

theorem backup_hour_other_than_three_witness:
  "fst (scheduled_operations (pl_world 11700000 ''b1'') pl_db) = Inr None \<and> backup_due 79200000 (pl_backup pl_db)"
proof
  have c: "cron_fires (now (pl_world 11700000 ''b1''))" by code_simp
  have b: "pl_backup pl_db = Some \<lparr>bp_enabled = True, bp_day = 0, bp_hour = 22, bp_keep = 4, bp_lastRunAt = None\<rparr>" by (simp add: pl_db_def)
  show "fst (scheduled_operations (pl_world 11700000 ''b1'') pl_db) = Inr None" using backup_hour_other_than_three[OF c b] by simp
  show "backup_due 79200000 (pl_backup pl_db)" by code_simp
qed

theorem failed_start_blocks_backups_witness:
  "fst (start_backup (pl_world 9 ''new'') (plat_step (Nightly (pl_world 11700000 ''b1'')) (snd (start_backup (pl_world 5 ''old'') pl_db))))
   = Inl (BadRequest ''A backup is already running'')"
proof -
  let ?s = "snd (start_backup (pl_world 5 ''old'') pl_db)"
  have "start_backup (pl_world 5 ''old'') pl_db = (Inl duplicate, ?s)"
    by (simp add: start_backup_def act_simps pl_world_def pl_db_def)
  moreover have "reachable_by ends_no_backup plat_step ?s (plat_step (Nightly (pl_world 11700000 ''b1'')) ?s)"
    by (intro reach_step reach_start) simp
  moreover have "\<not> pl_running pl_db" by (simp add: pl_db_def)
  ultimately show ?thesis by (intro failed_start_blocks_backups)
qed

end
