(* ===== verification/Spec2Isabelle.thy ===== *)
theory Spec2Isabelle
  imports Prelude Principal Query_Scopes Ticket_Views Inventory_Props Quotes_Claims Guard_Props Billing_Props Email_Links Governance_Claims Devices_Props Privacy_Props Scim_Props Users_Props Admin_Claims Maintenance_Props Platform_Props
begin

text \<open>
  A verification development for the backend of FieldserviceIT (\<open>src/backend/src\<close>), a NestJS
  application over MySQL that companies use to keep tickets, devices, stock, quotes and users.

  \<^bold>\<open>The program.\<close> A request passes the guards of \<open>common/guards\<close>: they read the bearer token,
  settle the company of the request, look up permissions, features and the second factor. A
  controller then calls a service of \<open>modules/*\<close> with the caller as \<open>CurrentUser\<close>. A service
  checks its input and the company of the rows it touches, writes tables through
  \<open>DatabaseService\<close> (whose \<open>buildWhereClauses\<close> compiles where objects to SQL text and values)
  and queues mail. Workers on timers drain the mail queue, check devices, prune and back up.

  \<^bold>\<open>How it is translated.\<close> A table is a list of records, one record per row with the columns
  the services read, in insertion order. A service call is a function from the tables to a
  result: \<open>Prelude\<close> has the HTTP errors as a datatype, computations that thread the tables and
  return an error or a value, and the calculus \<open>keeps\<close> for invariants of such computations. A
  call that throws keeps the writes made before the throw, as the code does outside a
  transaction. Where a service has many operations they are the constructors of a call
  datatype, with a step function and the tables after a list of calls; an invariant is proved
  for every list of calls. Operations whose statements interleave between requests are split
  at the \<open>await\<close> (\<open>check_movement\<close> and \<open>write_movement\<close> of the inventory). Identifiers and
  times are inputs of a call, so that uniqueness of generated identifiers is a visible
  hypothesis. Times are unbounded milliseconds; the process is
  taken to run in UTC. Amounts of money on quotes and invoices are exact rationals that are
  rounded where the code calls \<open>round\<close> and, on every write, to the decimals of their \<open>DECIMAL\<close>
  columns (\<open>decimal\<close>); the rounding of floating-point arithmetic and values beyond the range of
  a column are not modelled. Stock and prices of the inventory are integers of hundredths.

  \<^bold>\<open>Theories and sources.\<close>
  \<^item> \<open>Prelude\<close>, \<open>Principal\<close>, \<open>Tenant_Table\<close>: shared vocabulary, the caller
    (\<open>common/types\<close>), and the locale of tables whose rows belong to a company, interpreted for
    parts, locations and quotes.
  \<^item> \<open>Sql_Where\<close>, \<open>Where_Correct\<close>, \<open>Query_Scopes\<close>: \<open>buildWhereClauses\<close> and identifier quoting
    (\<open>database/database.service.ts\<close>, \<open>common/security/sql-identifier.ts\<close>), MySQL's evaluation of
    the text, the semantics of where objects without placeholders, the scope builders of
    \<open>database/query-builders.ts\<close>. Shown: the compiled text with its values selects exactly the
    rows the compiler's reading of the object describes, which on plain objects is the intended
    one, and the text does not depend on the values.
  \<^item> \<open>Tickets\<close>, \<open>Ticket_Ops\<close>, \<open>Ticket_Lemmas\<close>, \<open>Ticket_Props\<close>, \<open>Ticket_Views\<close>:
    \<open>modules/tickets\<close>. Reads, the status table, writes, timeline, participant mail. Shown:
    tenants do not reach each other's tickets, statuses follow the table, resolution fields
    follow the status, numbers stay unique, views are masked.
  \<^item> \<open>Inventory\<close>, \<open>Inventory_Props\<close>: \<open>modules/inventory\<close>. Stock agrees with the movement log.
  \<^item> \<open>Quotes\<close>, \<open>Quotes_Props\<close>, \<open>Quotes_Claims\<close>: \<open>modules/quotes-invoices\<close>. Totals belong to the
    lines, numbering, conversion, payments.
  \<^item> \<open>Guards\<close>, \<open>Guard_Props\<close>: \<open>common/guards\<close>, \<open>common/authorization\<close> and the repository that
    reads permissions. Shown: exactly what the guard grants, the company a request carries.
  \<^item> \<open>Credentials\<close>, \<open>Auth\<close>, \<open>Auth_Ops\<close>, \<open>Auth_Accounts\<close>, \<open>Auth_Props\<close>, \<open>Auth_Claims\<close>:
    \<open>modules/auth\<close> without single sign-on, \<open>session.repository.ts\<close>, \<open>credential-hash.ts\<close>,
    \<open>password-policy.ts\<close>. Shown: lockout, refresh rotation, resets, challenges.
  \<^item> \<open>Sso\<close>, \<open>Sso_Props\<close>: \<open>oidc-auth.service.ts\<close>, \<open>passkey.service.ts\<close>. Shown: what a login code
    and a passkey sign-in prove, one use of each, the exact private address ranges.
  \<^item> \<open>Billing\<close>, \<open>Billing_Props\<close>: \<open>modules/billing\<close>. Events, grace period, limits.
  \<^item> \<open>Email_Text\<close>, \<open>Email\<close>, \<open>Email_Ops\<close>, \<open>Email_Props\<close>, \<open>Email_Claims\<close>, \<open>Email_Links\<close>:
    \<open>email-delivery.service.ts\<close>. The queue and its workers; a pass of the worker is one
    pointwise update, it ends, it drains, settled mail is final; texts and links.
  \<^item> \<open>Governance\<close>, \<open>Governance_Props\<close>, \<open>Governance_Claims\<close>: \<open>access-governance.service.ts\<close>.
    Elevation, impersonation under two-person approval, access requests, policies.
  \<^item> \<open>Admin\<close>, \<open>Admin_Ops\<close>, \<open>Admin_Users\<close>, \<open>Admin_Props\<close>, \<open>Admin_Claims\<close>: \<open>admin.service.ts\<close> and
    \<open>tenant-role-governance.ts\<close>. Roles with history, approvals, grants, service accounts,
    access reviews, accounts and companies.
  \<^item> \<open>Scim\<close>, \<open>Scim_Props\<close>: \<open>scim.service.ts\<close> and its guard. Provisioning stays in its company.
  \<^item> \<open>Users\<close>, \<open>Users_Props\<close>: \<open>users.service.ts\<close>, \<open>tenant-invitations.service.ts\<close>.
  \<^item> \<open>Network_Text\<close>, \<open>Monitoring\<close>, \<open>Monitoring_Props\<close>, \<open>Devices\<close>, \<open>Devices_Props\<close>:
    \<open>cmdb.service.ts\<close>. Subnets, configuration diff, ping checks and alerts, network actions
    with four-eyes approval, enrolment and check-in.
  \<^item> \<open>Privacy\<close>, \<open>Privacy_Props\<close>: \<open>privacy-requests.service.ts\<close>. Due process, one-time export.
  \<^item> \<open>Calendar\<close>, \<open>Maintenance\<close>, \<open>Maintenance_Props\<close>: \<open>maintenance.service.ts\<close> with the date
    arithmetic of ECMAScript. Well-formed plans, due dates, completion.
  \<^item> \<open>Platform_Security\<close>, \<open>Platform_Props\<close>: \<open>platform-security.service.ts\<close>. Policy with rollback,
    identity providers, backups with restore drill, retention, the nightly job.

  \<^bold>\<open>How the parts meet.\<close> The guard theories read the account, role and grant tables that
  \<open>Admin\<close>, \<open>Governance\<close>, \<open>Scim\<close> and \<open>Users\<close> write, so that what a review, an elevation or a
  profile shows is stated against the guard itself. Revocations of \<open>Auth\<close> are shared by all of
  them. Tickets are created by monitoring and maintenance through the ticket service; ticket,
  billing and privacy mail goes through the queue of \<open>Email\<close>.

  \<^bold>\<open>Bounds and fuel.\<close> Loops that the code bounds are recursions with the bound of the code: a
  hundred ticket numbers tried for a creation, batches of twenty-five mails, five attempts per
  mail. The other loops are structural recursion on the list they walk. A pass of the mail
  worker uses up attempts, and the sum of attempts left bounds any number of passes
  (\<open>queue_terminates\<close>), so that enough passes drain the queue (\<open>queue_drains\<close>).

  \<^bold>\<open>Parameters.\<close> Code outside the repository is an argument of the definitions that use it:
  hashes, signatures and bcrypt (with injectivity or round trips as named hypotheses only where
  a statement needs them), JWT and WebAuthn libraries, DNS and HTTP, the mail transport, the
  payment provider, ping. The witnesses give concrete functions for them.

  \<^bold>\<open>Not modelled.\<close> The web application, DDL and scripts, controllers that only forward, the
  health and log modules; vendor clients (RMM, AI models, SNMP) and file storage, whose
  behaviour is that of their services; read-only listings with joins and full-text search;
  and the field service, knowledge base, catalog, settings, workflow and customer portal
  modules. A query that fails because the database is unreachable is not a branch of the
  model, and each call runs to its end before the next unless its theory says otherwise.
\<close>

end
